(* ===== verification/Prelude.thy ===== *)
theory Prelude
  imports Complex_Main "HOL-Library.Sublist" "HOL-Library.Multiset"
begin

text \<open>
  What every component of the development shares: JavaScript strings as lists of UTF-16 code
  units with the string methods the program calls, integers as decimal strings, stable sorting
  with a comparator, the \<open>Set\<close>/\<open>Map\<close> idioms on lists, and three interface locales
  (comparators, bounded histories, fresh numbered names) that several components interpret.
\<close>

named_theorems js_eval \<open>equations that evaluate string literals and string methods\<close>
named_theorems js_intro \<open>introduction rules about JavaScript strings\<close>

section \<open>Strings\<close>

text \<open>
  A JavaScript string is a sequence of UTF-16 code units. ASCII literals are written
  \<open>js ''abc''\<close>; a literal with other characters is the list of its code units.
\<close>

type_synonym jstr = "nat list"

definition js :: "string \<Rightarrow> jstr" where
  "js s = map of_char s"

lemma js_Nil [simp, js_eval]: "js [] = []"
  by (simp add: js_def)

lemma js_Cons [js_eval]: "js (c # s) = of_char c # js s"
  by (simp add: js_def)

lemma js_append: "js (s @ t) = js s @ js t"
  by (simp add: js_def)

lemma length_js [simp]: "length (js s) = length s"
  by (simp add: js_def)

lemma js_eq_Nil [simp]: "js s = [] \<longleftrightarrow> s = []"
  by (simp add: js_def)

lemma js_inject [simp]: "js s = js t \<longleftrightarrow> s = t"
  unfolding js_def by (rule inj_map_eq_map) (simp add: inj_def)

definition slash :: nat where "slash = 0x2F"
definition newline :: nat where "newline = 0x0A"

lemma slash_code [js_eval]: "slash = 47" by (simp add: slash_def)
lemma newline_code [js_eval]: "newline = 10" by (simp add: newline_def)

text \<open>\<open>String.prototype.trim\<close> removes ECMAScript white space and line terminators.\<close>

definition is_space :: "nat \<Rightarrow> bool" where
  "is_space u \<longleftrightarrow> u \<in> {9, 10, 11, 12, 13, 32, 0xA0, 0x1680, 0x2028, 0x2029, 0x202F, 0x205F, 0x3000, 0xFEFF}
     \<or> (0x2000 \<le> u \<and> u \<le> 0x200A)"

definition trim_start :: "jstr \<Rightarrow> jstr" where
  "trim_start s = dropWhile is_space s"

definition trim_end :: "jstr \<Rightarrow> jstr" where
  "trim_end s = rev (dropWhile is_space (rev s))"

definition trim :: "jstr \<Rightarrow> jstr" where
  "trim s = trim_end (trim_start s)"

text \<open>\<open>s.split(c)\<close> for a one-unit separator, and \<open>parts.join(sep)\<close>.\<close>

fun split_on :: "nat \<Rightarrow> jstr \<Rightarrow> jstr list" where
  "split_on c [] = [[]]"
| "split_on c (u # s) =
     (if u = c then [] # split_on c s
      else (case split_on c s of [] \<Rightarrow> [[u]] | p # ps \<Rightarrow> (u # p) # ps))"

fun join :: "jstr \<Rightarrow> jstr list \<Rightarrow> jstr" where
  "join sep [] = []"
| "join sep [p] = p"
| "join sep (p # q # ps) = p @ sep @ join sep (q # ps)"

text \<open>\<open>s.includes(t)\<close>, \<open>s.indexOf(c)\<close> (\<open>None\<close> for -1) and \<open>s.slice(-n)\<close> for \<open>n > 0\<close>.\<close>

fun str_includes :: "jstr \<Rightarrow> jstr \<Rightarrow> bool" where
  "str_includes [] t = (t = [])"
| "str_includes (u # s) t = (prefix t (u # s) \<or> str_includes s t)"

fun index_of :: "jstr \<Rightarrow> nat \<Rightarrow> nat option" where
  "index_of [] c = None"
| "index_of (u # s) c = (if u = c then Some 0 else map_option Suc (index_of s c))"

fun last_index_of :: "jstr \<Rightarrow> nat \<Rightarrow> nat option" where
  "last_index_of [] c = None"
| "last_index_of (u # s) c =
     (case last_index_of s c of Some i \<Rightarrow> Some (Suc i) | None \<Rightarrow> if u = c then Some 0 else None)"

definition slice_last :: "nat \<Rightarrow> 'a list \<Rightarrow> 'a list" where
  "slice_last n s = drop (length s - n) s"

text \<open>Case mapping on ASCII letters; other code units are left as they are.\<close>

definition lower_unit :: "nat \<Rightarrow> nat" where
  "lower_unit u = (if 65 \<le> u \<and> u \<le> 90 then u + 32 else u)"

definition to_lower :: "jstr \<Rightarrow> jstr" where
  "to_lower s = map lower_unit s"

definition upper_unit :: "nat \<Rightarrow> nat" where
  "upper_unit u = (if 97 \<le> u \<and> u \<le> 122 then u - 32 else u)"

definition to_upper :: "jstr \<Rightarrow> jstr" where
  "to_upper s = map upper_unit s"

text \<open>\<open>String(n)\<close> and \<open>${n}\<close> for an integer.\<close>

fun digits_of :: "nat \<Rightarrow> jstr" where
  "digits_of n = (if n < 10 then [48 + n] else digits_of (n div 10) @ [48 + n mod 10])"

declare digits_of.simps [simp del]

definition show_int :: "int \<Rightarrow> jstr" where
  "show_int i = (if i < 0 then 45 # digits_of (nat (- i)) else digits_of (nat i))"

lemmas string_defs = trim_def trim_start_def trim_end_def slice_last_def
  to_lower_def to_upper_def lower_unit_def upper_unit_def

subsection \<open>Facts about splitting and joining\<close>

lemma split_on_not_Nil [simp]: "split_on c s \<noteq> []"
  by (cases s) (auto split: list.splits)

lemma split_on_parts: "p \<in> set (split_on c s) \<Longrightarrow> c \<notin> set p"
  by (induction s arbitrary: p) (auto split: list.splits if_splits)

lemma split_on_no_sep: "c \<notin> set s \<Longrightarrow> split_on c s = [s]"
  by (induction s) auto

lemma split_on_append_sep:
  "c \<notin> set p \<Longrightarrow> split_on c (p @ c # s) = p # split_on c s"
  by (induction p) auto

lemma split_on_join:
  "ps \<noteq> [] \<Longrightarrow> (\<And>p. p \<in> set ps \<Longrightarrow> c \<notin> set p) \<Longrightarrow> split_on c (join [c] ps) = ps"
  by (induction "[c]" ps rule: join.induct) (auto simp: split_on_no_sep split_on_append_sep)

lemma join_Cons_not_Nil: "qs \<noteq> [] \<Longrightarrow> join sep (p # qs) = p @ sep @ join sep qs"
  by (cases qs) auto

lemma join_split_on: "join [c] (split_on c s) = s"
proof (induction s)
  case (Cons u s)
  show ?case
  proof (cases "split_on c s")
    case (Cons p ps)
    with \<open>join [c] (split_on c s) = s\<close> show ?thesis by (cases ps) auto
  qed simp
qed simp

lemma join_append:
  "ps \<noteq> [] \<Longrightarrow> qs \<noteq> [] \<Longrightarrow> join sep (ps @ qs) = join sep ps @ sep @ join sep qs"
  by (induction sep ps rule: join.induct) (auto simp: join_Cons_not_Nil)

lemma split_on_append:
  "split_on c (s @ t) =
     butlast (split_on c s) @ (last (split_on c s) @ hd (split_on c t)) # tl (split_on c t)"
proof (induction s)
  case Nil
  show ?case by (cases "split_on c t") auto
next
  case (Cons u s)
  show ?case
  proof (cases "split_on c s")
    case (Cons p ps)
    with \<open>split_on c (s @ t) = _\<close> show ?thesis by (cases ps) auto
  qed simp
qed

lemma split_on_set: "u \<in> set s \<Longrightarrow> u \<noteq> c \<Longrightarrow> \<exists>p \<in> set (split_on c s). u \<in> set p"
proof (induction s)
  case (Cons v s)
  show ?case
  proof (cases "split_on c s")
    case (Cons p ps)
    with Cons.IH Cons.prems show ?thesis by (auto split: if_splits)
  qed simp
qed simp

subsection \<open>Facts about searching and trimming\<close>

lemma index_of_Some:
  "index_of s c = Some i \<Longrightarrow> i < length s \<and> s ! i = c \<and> c \<notin> set (take i s)"
  by (induction s arbitrary: i) (auto split: if_splits)

lemma index_of_None: "index_of s c = None \<longleftrightarrow> c \<notin> set s"
  by (induction s) auto

lemma last_index_of_None: "last_index_of s c = None \<longleftrightarrow> c \<notin> set s"
  by (induction s) (auto split: option.splits)

lemma last_index_of_append:
  "c \<notin> set t \<Longrightarrow> last_index_of (s @ c # t) c = Some (length s)"
  by (induction s) (auto simp: last_index_of_None[THEN iffD2])

lemma str_includes_append: "str_includes (s @ t @ r) t"
proof (induction s)
  case Nil
  show ?case by (cases t; cases r) auto
qed auto

lemma str_includes_iff: "str_includes s t \<longleftrightarrow> (\<exists>a b. s = a @ t @ b)"
proof
  show "str_includes s t \<Longrightarrow> \<exists>a b. s = a @ t @ b"
  proof (induction s)
    case (Cons u s)
    then consider "prefix t (u # s)" | "str_includes s t" by auto
    then show ?case
    proof cases
      case 1
      then show ?thesis by (metis append_Nil prefixE)
    next
      case 2
      with Cons.IH show ?thesis by (metis append_Cons)
    qed
  qed simp
qed (auto simp: str_includes_append)

lemma length_slice_last [simp]: "length (slice_last n s) = min n (length s)"
  by (auto simp: slice_last_def)

lemma slice_last_all [simp]: "length s \<le> n \<Longrightarrow> slice_last n s = s"
  by (simp add: slice_last_def)

lemma set_slice_last: "set (slice_last n s) \<subseteq> set s"
  by (simp add: slice_last_def set_drop_subset)

lemma slice_last_append: "slice_last n (slice_last n s @ t) = slice_last n (s @ t)"
proof (cases "length s \<le> n")
  case False
  then have len: "length (slice_last n s) = n" by simp
  have s: "s = take (length s - n) s @ slice_last n s" by (simp add: slice_last_def)
  have "slice_last n (s @ t) = drop (length t) (drop (length s - n) (s @ t))"
    using False by (simp add: slice_last_def add.commute)
  also have "drop (length s - n) (s @ t) = slice_last n s @ t"
    using False by (simp add: slice_last_def)
  also have "drop (length t) \<dots> = slice_last n (slice_last n s @ t)"
    using len by (simp add: slice_last_def[of n "slice_last n s @ t"])
  finally show ?thesis by simp
qed simp

lemma slice_last_suffix: "suffix (slice_last n s) s"
  by (simp add: slice_last_def suffix_drop)

lemma set_dropWhile_subset: "set (dropWhile P xs) \<subseteq> set xs"
  by (induction xs) auto

lemma trim_ends:
  assumes "trim s \<noteq> []"
  shows "\<not> is_space (hd (trim s))" and "\<not> is_space (last (trim s))"
proof -
  let ?t = "dropWhile is_space s"
  let ?r = "dropWhile is_space (rev ?t)"
  have trim: "trim s = rev ?r" by (simp add: trim_def trim_end_def trim_start_def)
  with assms have ne: "?r \<noteq> []" by simp
  have "\<not> is_space (hd ?r)" using hd_dropWhile[OF ne] .
  with trim ne show "\<not> is_space (last (trim s))" by (simp add: last_rev)
  have t_ne: "?t \<noteq> []" using ne by (cases "?t = []") simp_all
  then have hd_t: "\<not> is_space (hd ?t)" by (rule hd_dropWhile)
  obtain pre where "rev ?t = pre @ ?r" by (metis takeWhile_dropWhile_id)
  then have "?t = rev ?r @ rev pre" by (metis rev_append rev_rev_ident)
  with ne have "hd ?t = hd (rev ?r)" by (metis hd_append2 rev_is_Nil_conv)
  with hd_t trim show "\<not> is_space (hd (trim s))" by simp
qed

lemma trim_id:
  assumes "s \<noteq> []" "\<not> is_space (hd s)" "\<not> is_space (last s)"
  shows "trim s = s"
proof -
  have "dropWhile is_space s = s" using assms by (cases s) auto
  moreover have "dropWhile is_space (rev s) = rev s"
    using assms by (cases "rev s") (auto simp: last_rev hd_rev dest: arg_cong[where f = hd])
  ultimately show ?thesis by (simp add: trim_def trim_start_def trim_end_def)
qed

lemma trim_Nil [simp]: "trim [] = []"
  by (simp add: string_defs)

lemma trim_idem [simp]: "trim (trim s) = trim s"
  by (cases "trim s = []") (auto simp: trim_ends intro: trim_id)

lemma set_trim: "set (trim s) \<subseteq> set s"
  unfolding trim_def trim_end_def trim_start_def
  by (metis set_dropWhile_subset set_rev subset_trans)

lemma trim_no_space: "(\<And>u. u \<in> set s \<Longrightarrow> \<not> is_space u) \<Longrightarrow> trim s = s"
  by (cases "s = []") (auto intro!: trim_id)

subsection \<open>Decimal strings\<close>

lemma digits_of_range: "u \<in> set (digits_of n) \<Longrightarrow> 48 \<le> u \<and> u \<le> 57"
proof (induction n rule: digits_of.induct)
  case (1 n)
  then show ?case
    by (subst (asm) (2) digits_of.simps) (auto split: if_splits)
qed

lemma digits_of_not_Nil [simp]: "digits_of n \<noteq> []"
  by (subst digits_of.simps) simp

fun number_of_digits :: "nat \<Rightarrow> jstr \<Rightarrow> nat" where
  "number_of_digits a [] = a"
| "number_of_digits a (u # s) = number_of_digits (10 * a + (u - 48)) s"

lemma number_of_digits_append:
  "number_of_digits a (s @ t) = number_of_digits (number_of_digits a s) t"
  by (induction s arbitrary: a) auto

lemma number_of_digits_of: "number_of_digits 0 (digits_of n) = n"
proof (induction n rule: digits_of.induct)
  case (1 n)
  then show ?case
    by (subst digits_of.simps) (auto simp: number_of_digits_append)
qed

lemma digits_of_inject [simp]: "digits_of m = digits_of n \<longleftrightarrow> m = n"
  by (metis number_of_digits_of)

lemma show_int_inject [simp]: "show_int i = show_int j \<longleftrightarrow> i = j"
proof -
  have "hd (digits_of n) \<noteq> 45" for n
    by (cases "digits_of n") (use digits_of_range[of _ n] in fastforce)+
  then show ?thesis
    by (auto simp: show_int_def) (metis list.sel(1))+
qed

lemma show_int_units: "u \<in> set (show_int i) \<Longrightarrow> u = 45 \<or> (48 \<le> u \<and> u \<le> 57)"
  by (auto simp: show_int_def dest: digits_of_range split: if_splits)

text \<open>
  \<open>Number(s)\<close> of the text of an integer input: blank is 0, an optionally signed run of digits its
  value, None anything that is not such a numeral.
\<close>

definition is_digit :: "nat \<Rightarrow> bool" where
  "is_digit u \<longleftrightarrow> 48 \<le> u \<and> u \<le> 57"

definition parse_integer :: "jstr \<Rightarrow> int option" where
  "parse_integer s =
     (let t = trim s; body = (if prefix [45] t then tl t else t) in
      if t = [] then Some 0
      else if body \<noteq> [] \<and> list_all is_digit body
      then Some ((if prefix [45] t then -1 else 1) * int (number_of_digits 0 body))
      else None)"

lemma digits_no_space: "list_all is_digit s \<Longrightarrow> trim s = s"
  by (rule trim_no_space) (auto simp: list_all_iff is_digit_def is_space_def)

lemma parse_show_int: "parse_integer (show_int n) = Some n"
proof -
  have digits: "list_all is_digit (digits_of m)" for m
    using digits_of_range by (auto simp: list_all_iff is_digit_def)
  have "trim (45 # digits_of m) = 45 # digits_of m" for m
    by (rule trim_no_space) (auto simp: is_space_def dest: digits_of_range)
  moreover have "\<not> prefix [45] (digits_of m)" for m
    using digits_of_range[of 45 m] by (cases "digits_of m") auto
  ultimately show ?thesis
    using digits digits_no_space by (auto simp: parse_integer_def show_int_def Let_def number_of_digits_of)
qed

section \<open>Lists as JavaScript arrays, sets and maps\<close>

text \<open>\<open>Array.from(new Set(xs))\<close>: the first occurrence of each element, in order.\<close>

fun unique :: "'a list \<Rightarrow> 'a list" where
  "unique [] = []"
| "unique (x # xs) = x # filter (\<lambda>y. y \<noteq> x) (unique xs)"

text \<open>\<open>new Map(entries)\<close> and \<open>Object.fromEntries(entries)\<close>: a later entry replaces an earlier one.\<close>

definition map_from :: "('k \<times> 'v) list \<Rightarrow> ('k \<rightharpoonup> 'v)" where
  "map_from es = map_of (rev es)"

text \<open>
  An insertion-ordered map as the list of its entries, keyed by \<open>key\<close>: setting an existing
  key keeps its position (\<open>Map.prototype.set\<close>).
\<close>

fun put_by :: "('a \<Rightarrow> 'k) \<Rightarrow> 'a \<Rightarrow> 'a list \<Rightarrow> 'a list" where
  "put_by key x [] = [x]"
| "put_by key x (y # ys) = (if key y = key x then x # ys else y # put_by key x ys)"

text \<open>A copy of a set with one element toggled.\<close>

definition toggle_member :: "'a \<Rightarrow> 'a list \<Rightarrow> 'a list" where
  "toggle_member x xs = (if x \<in> set xs then filter (\<lambda>y. y \<noteq> x) xs else xs @ [x])"

lemma set_toggle_member: "set (toggle_member x xs) = (if x \<in> set xs then set xs - {x} else insert x (set xs))"
  by (auto simp: toggle_member_def)

text \<open>\<open>?? default\<close> and \<open>s || undefined\<close> on strings.\<close>

definition or_default :: "'a option \<Rightarrow> 'a \<Rightarrow> 'a" where
  "or_default x d = (case x of Some v \<Rightarrow> v | None \<Rightarrow> d)"

definition nonempty :: "'a list \<Rightarrow> 'a list option" where
  "nonempty s = (if s = [] then None else Some s)"

lemma or_default_simps [simp]: "or_default (Some v) d = v" "or_default None d = d"
  by (auto simp: or_default_def)

lemma nonempty_simps [simp]: "nonempty [] = None" "s \<noteq> [] \<Longrightarrow> nonempty s = Some s"
  by (auto simp: nonempty_def)

lemma or_default_nonempty [simp]: "or_default (nonempty s) [] = s"
  by (cases "s = []") auto

lemma set_unique [simp]: "set (unique xs) = set xs"
  by (induction xs) auto

lemma distinct_unique [simp]: "distinct (unique xs)"
  by (induction xs) auto

lemma unique_id: "distinct xs \<Longrightarrow> unique xs = xs"
proof (induction xs)
  case (Cons x xs)
  moreover from Cons.prems have "filter (\<lambda>y. y \<noteq> x) xs = xs"
    by (auto intro!: filter_True)
  ultimately show ?case by simp
qed simp

lemma map_of_put_by: "map_of (put_by fst (k, v) xs) = (map_of xs)(k \<mapsto> v)"
  by (induction xs) (auto simp: fun_eq_iff)

lemma set_put_by:
  "distinct (map key ys) \<Longrightarrow> set (put_by key x ys) = insert x {y \<in> set ys. key y \<noteq> key x}"
  by (induction ys) (auto simp: image_iff)

lemma keys_put_by: "key ` set (put_by key x ys) = insert (key x) (key ` set ys)"
  by (induction ys) auto

lemma distinct_put_by: "distinct (map key ys) \<Longrightarrow> distinct (map key (put_by key x ys))"
proof (induction ys)
  case (Cons y ys)
  have "set (map key (put_by key x ys)) = insert (key x) (set (map key ys))"
    using keys_put_by[of key x ys] by simp
  with Cons show ?case by auto
qed simp

lemma length_put_by: "length (put_by key x ys) \<le> Suc (length ys)"
  by (induction ys) auto

section \<open>Sorting with a comparator\<close>

text \<open>
  \<open>Array.prototype.sort(cmp)\<close> is stable: for a consistent comparator its result is the only
  stable sorted permutation, which insertion from the right computes.
\<close>

fun insert_cmp :: "('a \<Rightarrow> 'a \<Rightarrow> int) \<Rightarrow> 'a \<Rightarrow> 'a list \<Rightarrow> 'a list" where
  "insert_cmp cmp x [] = [x]"
| "insert_cmp cmp x (y # ys) = (if cmp x y \<le> 0 then x # y # ys else y # insert_cmp cmp x ys)"

fun sort_cmp :: "('a \<Rightarrow> 'a \<Rightarrow> int) \<Rightarrow> 'a list \<Rightarrow> 'a list" where
  "sort_cmp cmp [] = []"
| "sort_cmp cmp (x # xs) = insert_cmp cmp x (sort_cmp cmp xs)"

lemma mset_insert_cmp: "mset (insert_cmp cmp x xs) = add_mset x (mset xs)"
  by (induction xs) auto

lemma mset_sort_cmp [simp]: "mset (sort_cmp cmp xs) = mset xs"
  by (induction xs) (auto simp: mset_insert_cmp)

lemma set_sort_cmp [simp]: "set (sort_cmp cmp xs) = set xs"
  by (metis mset_sort_cmp set_mset_mset)

lemma length_sort_cmp [simp]: "length (sort_cmp cmp xs) = length xs"
  by (metis mset_sort_cmp size_mset)

lemma distinct_sort_cmp [simp]: "distinct (sort_cmp cmp xs) = distinct xs"
  by (metis mset_eq_imp_distinct_iff mset_sort_cmp)

lemma distinct_map_sort_cmp [simp]: "distinct (map f (sort_cmp cmp xs)) = distinct (map f xs)"
  by (metis mset_eq_imp_distinct_iff mset_map mset_sort_cmp)

text \<open>The contract of a comparator: a total preorder on a set of values.\<close>

locale comparator =
  fixes cmp :: "'a \<Rightarrow> 'a \<Rightarrow> int"
  assumes total: "cmp x y \<le> 0 \<or> cmp y x \<le> 0"
    and trans: "cmp x y \<le> 0 \<Longrightarrow> cmp y z \<le> 0 \<Longrightarrow> cmp x z \<le> 0"
begin

abbreviation le :: "'a \<Rightarrow> 'a \<Rightarrow> bool" where
  "le x y \<equiv> cmp x y \<le> 0"

lemma sorted_insert:
  "sorted_wrt le xs \<Longrightarrow> sorted_wrt le (insert_cmp cmp x xs)"
proof (induction xs)
  case (Cons y ys)
  show ?case
  proof (cases "le x y")
    case True
    with Cons.prems show ?thesis by (auto intro: trans)
  next
    case False
    with total have "le y x" by blast
    moreover have "set (insert_cmp cmp x ys) = insert x (set ys)"
      by (metis mset_insert_cmp set_mset_add_mset_insert set_mset_mset)
    ultimately show ?thesis using Cons False by auto
  qed
qed simp

lemma sorted_sort: "sorted_wrt le (sort_cmp cmp xs)"
  by (induction xs) (auto intro: sorted_insert)

lemma insert_sorted_head:
  "(\<And>y. y \<in> set ys \<Longrightarrow> le x y) \<Longrightarrow> insert_cmp cmp x ys = x # ys"
  by (cases ys) auto

lemma sort_sorted: "sorted_wrt le xs \<Longrightarrow> sort_cmp cmp xs = xs"
  by (induction xs) (auto simp: insert_sorted_head)

lemma sort_idem: "sort_cmp cmp (sort_cmp cmp xs) = sort_cmp cmp xs"
  by (rule sort_sorted) (rule sorted_sort)

end

text \<open>
  The default order of \<open>Array.prototype.sort()\<close> on strings: code units, compared
  lexicographically.
\<close>

fun compare_units :: "jstr \<Rightarrow> jstr \<Rightarrow> int" where
  "compare_units [] [] = 0"
| "compare_units [] (v # t) = -1"
| "compare_units (u # s) [] = 1"
| "compare_units (u # s) (v # t) =
     (if u < v then -1 else if v < u then 1 else compare_units s t)"

lemma compare_units_total: "compare_units s t \<le> 0 \<or> compare_units t s \<le> 0"
  by (induction s t rule: compare_units.induct) auto

lemma compare_units_trans:
  "compare_units s t \<le> 0 \<Longrightarrow> compare_units t r \<le> 0 \<Longrightarrow> compare_units s r \<le> 0"
proof (induction s t arbitrary: r rule: compare_units.induct)
  case (4 u s v t)
  then show ?case
  proof (cases r)
    case (Cons w q)
    from "4.prems" have "u < v \<or> (u = v \<and> compare_units s t \<le> 0)"
      by (auto split: if_split_asm)
    moreover from "4.prems" Cons have "v < w \<or> (v = w \<and> compare_units t q \<le> 0)"
      by (auto split: if_split_asm)
    moreover have "u = v \<Longrightarrow> compare_units s t \<le> 0 \<Longrightarrow> compare_units t q \<le> 0 \<Longrightarrow> compare_units s q \<le> 0"
      by (rule "4.IH") auto
    ultimately show ?thesis using Cons by force
  qed (use "4.prems" in simp)
next
  case (1 r)
  then show ?case by simp
next
  case (2 v t)
  then show ?case by (cases r) simp_all
next
  case (3 u s)
  then show ?case by simp
qed

lemma compare_units_eq_0: "compare_units s t = 0 \<longleftrightarrow> s = t"
  by (induction s t rule: compare_units.induct) auto

interpretation code_units: comparator compare_units
  by unfold_locales (use compare_units_total compare_units_trans in blast)+

text \<open>
  A comparison whose sign flips with its arguments (\<open>localeCompare\<close>, a difference of numbers),
  and the ways the pages combine such comparisons.
\<close>

locale signed_comparator =
  fixes cmp :: "'a \<Rightarrow> 'a \<Rightarrow> int"
  assumes flip: "cmp y x \<le> 0 \<longleftrightarrow> 0 \<le> cmp x y"
    and chain: "cmp x y \<le> 0 \<Longrightarrow> cmp y z \<le> 0 \<Longrightarrow> cmp x z \<le> 0"
begin

lemma flip_zero: "cmp y x = 0 \<longleftrightarrow> cmp x y = 0"
  using flip[of x y] flip[of y x] by linarith

lemma trans_ge: "0 \<le> cmp x y \<Longrightarrow> 0 \<le> cmp y z \<Longrightarrow> 0 \<le> cmp x z"
  using chain[of z y x] flip[of y x] flip[of z y] flip[of z x] by simp

lemma trans_zero_le: "cmp x y \<le> 0 \<Longrightarrow> cmp y z \<le> 0 \<Longrightarrow> cmp x z = 0 \<Longrightarrow> cmp x y = 0 \<and> cmp y z = 0"
proof -
  assume le: "cmp x y \<le> 0" "cmp y z \<le> 0" and zero: "cmp x z = 0"
  have "cmp z x \<le> 0" using zero flip[of z x] by simp
  then have "cmp z y \<le> 0" "cmp y x \<le> 0" using le chain[of z x y] chain[of y z x] by blast+
  then show ?thesis using le flip[of y x] flip[of z y] by simp
qed

lemma either: "cmp x y \<le> 0 \<or> cmp y x \<le> 0"
  using flip[of x y] by linarith

end

sublocale signed_comparator \<subseteq> comparator cmp
  by unfold_locales (rule either, rule chain)

lemma signed_is_comparator: "signed_comparator cmp \<Longrightarrow> comparator cmp"
  by (rule comparator.intro) (rule signed_comparator.either, assumption, rule signed_comparator.chain)

lemma signed_difference: "signed_comparator (\<lambda>x y. f x - f y :: int)"
  by unfold_locales auto

lemma signed_on: "signed_comparator cmp \<Longrightarrow> signed_comparator (\<lambda>x y. cmp (f x) (f y))"
  unfolding signed_comparator_def by blast

lemma signed_times:
  assumes cmp: "signed_comparator cmp" and "m = 1 \<or> m = -1"
  shows "signed_comparator (\<lambda>x y. cmp x y * m)"
  using assms(2)
proof
  assume "m = -1"
  then show ?thesis
    by (auto intro!: signed_comparator.intro
        simp: signed_comparator.flip[OF cmp, symmetric] dest: signed_comparator.chain[OF cmp])
qed (simp add: cmp)

lemma signed_lex:
  assumes c: "signed_comparator c" and d: "signed_comparator d"
  shows "signed_comparator (\<lambda>x y. if c x y = 0 then d x y else c x y)"
proof
  fix x y
  show "(if c y x = 0 then d y x else c y x) \<le> 0 \<longleftrightarrow> 0 \<le> (if c x y = 0 then d x y else c x y)"
    using signed_comparator.flip[OF c, of y x] signed_comparator.flip_zero[OF c, of y x]
      signed_comparator.flip[OF d, of y x] by simp
next
  fix x y z
  assume xy: "(if c x y = 0 then d x y else c x y) \<le> 0" and yz: "(if c y z = 0 then d y z else c y z) \<le> 0"
  then have le: "c x y \<le> 0" "c y z \<le> 0" by (auto split: if_splits)
  then have "c x z \<le> 0" by (rule signed_comparator.chain[OF c])
  moreover have "d x z \<le> 0" if "c x z = 0"
    using signed_comparator.trans_zero_le[OF c le that] xy yz signed_comparator.chain[OF d, of x y z] by simp
  ultimately show "(if c x z = 0 then d x z else c x z) \<le> 0" by simp
qed

text \<open>A missing value comes after every present one.\<close>

definition missing_last :: "('a \<Rightarrow> 'b option) \<Rightarrow> 'a \<Rightarrow> 'a \<Rightarrow> int" where
  "missing_last f x y =
     (case (f x, f y) of (None, Some _) \<Rightarrow> 1 | (Some _, None) \<Rightarrow> -1 | _ \<Rightarrow> 0)"

lemma signed_missing_last: "signed_comparator (missing_last f)"
  by unfold_locales (auto simp: missing_last_def split: option.splits)

lemma sort_cmp_cong:
  "(\<And>x y. x \<in> set xs \<Longrightarrow> y \<in> set xs \<Longrightarrow> c x y = c' x y) \<Longrightarrow> sort_cmp c xs = sort_cmp c' xs"
proof (induction xs)
  case (Cons x xs)
  have "insert_cmp c x ys = insert_cmp c' x ys" if "set ys \<subseteq> set (x # xs)" for ys
    using that Cons.prems by (induction ys) auto
  then show ?case using Cons by (simp add: subset_insertI)
qed simp

lemma compare_units_flip: "compare_units t s = - compare_units s t"
  by (induction s t rule: compare_units.induct) auto

interpretation unit_order: signed_comparator compare_units
proof
  show "compare_units t s \<le> 0 \<longleftrightarrow> 0 \<le> compare_units s t" for s t
    using compare_units_flip[of t s] by simp
  show "compare_units s t \<le> 0 \<Longrightarrow> compare_units t r \<le> 0 \<Longrightarrow> compare_units s r \<le> 0" for s t r
    by (rule compare_units_trans)
qed

section \<open>Bounded histories\<close>

text \<open>
  Several panels keep the most recent values of a stream (\<open>[...current, next].slice(-n)\<close> and
  its variants). The contract: a push keeps the newest value last, drops only from the front and
  never holds more than the bound.
\<close>

locale bounded_history =
  fixes push :: "'a list \<Rightarrow> 'a \<Rightarrow> 'a list" and bound :: nat
  assumes push_suffix: "suffix (push h x) (h @ [x])"
    and push_length: "length (push h x) = min bound (Suc (length h))"
    and bound_pos: "0 < bound"
begin

lemma push_eq: "push h x = slice_last bound (h @ [x])"
proof -
  obtain pre where pre: "h @ [x] = pre @ push h x" using push_suffix by (auto simp: suffix_def)
  then have len: "Suc (length h) = length pre + length (push h x)"
    by (metis length_append length_append_singleton)
  have "length pre = length (h @ [x]) - bound" using len push_length[of h x] by auto
  then have "slice_last bound (h @ [x]) = drop (length pre) (h @ [x])" by (simp add: slice_last_def)
  also have "\<dots> = push h x" using pre by simp
  finally show ?thesis by simp
qed

lemma foldl_push: "foldl push h xs = slice_last bound (h @ xs) \<or> xs = []"
proof (induction xs rule: rev_induct)
  case (snoc x xs)
  show ?case
  proof (cases "xs = []")
    case True
    then show ?thesis by (simp add: push_eq)
  next
    case False
    with snoc have "foldl push h xs = slice_last bound (h @ xs)" by blast
    then have "foldl push h (xs @ [x]) = slice_last bound (slice_last bound (h @ xs) @ [x])"
      by (simp add: push_eq[of "slice_last bound (h @ xs)"])
    also have "\<dots> = slice_last bound (h @ xs @ [x])"
      by (simp add: slice_last_append)
    finally show ?thesis by simp
  qed
qed simp

lemma foldl_push_Nil: "foldl push [] xs = slice_last bound xs"
  using foldl_push[of "[]" xs] by (auto simp: slice_last_def)

lemma foldl_push_length: "length (foldl push [] xs) \<le> bound"
  by (simp add: foldl_push_Nil)

end

section \<open>Fresh numbered names\<close>

text \<open>
  Two pages invent an identifier with \<open>while (existing.some(id is name(suffix))) suffix++\<close>.
  The interface: the name of a suffix determines the suffix. The loop then stops at the first
  free suffix, since each round uses up one of the finitely many taken names.
\<close>

partial_function (option) first_free :: "(nat \<Rightarrow> jstr) \<Rightarrow> jstr list \<Rightarrow> nat \<Rightarrow> nat option" where
  "first_free name taken n =
     (if name n \<in> set taken then first_free name taken (Suc n) else Some n)"

locale numbered_name =
  fixes name :: "nat \<Rightarrow> jstr"
  assumes name_inj: "name m = name n \<Longrightarrow> m = n"
begin

lemma finite_taken: "finite {m. n \<le> m \<and> name m \<in> set taken}"
proof (rule finite_imageD)
  show "finite (name ` {m. n \<le> m \<and> name m \<in> set taken})"
    by (rule finite_subset[of _ "set taken"]) auto
  show "inj_on name {m. n \<le> m \<and> name m \<in> set taken}"
    by (auto intro: inj_onI dest: name_inj)
qed

lemma first_free_ends:
  "\<exists>m. first_free name taken n = Some m \<and> n \<le> m \<and> name m \<notin> set taken \<and>
     (\<forall>k. n \<le> k \<and> k < m \<longrightarrow> name k \<in> set taken)"
proof (induction "card {m. n \<le> m \<and> name m \<in> set taken}" arbitrary: n rule: less_induct)
  case less
  let ?S = "\<lambda>k. {m. k \<le> m \<and> name m \<in> set taken}"
  show ?case
  proof (cases "name n \<in> set taken")
    case True
    then have "?S (Suc n) \<subset> ?S n" by (auto simp: Suc_le_eq)
    then have "card (?S (Suc n)) < card (?S n)" by (rule psubset_card_mono[OF finite_taken])
    from less[OF this] obtain m where
      m: "first_free name taken (Suc n) = Some m" "Suc n \<le> m" "name m \<notin> set taken"
        "\<forall>k. Suc n \<le> k \<and> k < m \<longrightarrow> name k \<in> set taken" by blast
    from m(1) True have "first_free name taken n = Some m" by (simp add: first_free.simps[of name taken n])
    moreover have "\<forall>k. n \<le> k \<and> k < m \<longrightarrow> name k \<in> set taken"
      using m(4) True by (metis Suc_leI le_neq_implies_less)
    ultimately show ?thesis using m(2,3) by (intro exI[of _ m]) simp
  next
    case False
    then show ?thesis by (intro exI[of _ n]) (auto simp: first_free.simps[of name taken n])
  qed
qed

end

section \<open>Guarded callbacks\<close>

text \<open>
  Asynchronous callbacks carry the token of the operation that registered them and must do
  nothing once a newer operation owns the state (a superseded socket, an outdated request).
\<close>

locale guarded_callback =
  fixes owner :: "'s \<Rightarrow> 't option" and callback :: "'t \<Rightarrow> 'e \<Rightarrow> 's \<Rightarrow> 's \<times> 'o list"
  assumes stale_ignored: "owner s \<noteq> Some t \<Longrightarrow> callback t e s = (s, [])"
begin

lemma effects_from_owner: "snd (callback t e s) \<noteq> [] \<Longrightarrow> owner s = Some t"
  by (metis snd_conv stale_ignored)

lemma change_from_owner: "fst (callback t e s) \<noteq> s \<Longrightarrow> owner s = Some t"
  by (metis fst_conv stale_ignored)

lemma stale_run:
  "(\<And>t e. (t, e) \<in> set tes \<Longrightarrow> owner s \<noteq> Some t) \<Longrightarrow>
     foldl (\<lambda>s (t, e). fst (callback t e s)) s tes = s"
proof (induction tes)
  case (Cons te tes)
  obtain t e where te: "te = (t, e)" by (cases te)
  then have "owner s \<noteq> Some t" using Cons.prems by auto
  then have "callback t e s = (s, [])" by (rule stale_ignored)
  moreover have "foldl (\<lambda>s (t, e). fst (callback t e s)) s tes = s"
    by (rule Cons.IH) (use Cons.prems in auto)
  ultimately show ?case using te by simp
qed simp

end

end
