(* ===== verification/Uri.thy ===== *)
theory Uri
  imports Prelude
begin

text \<open>
  The URI functions of the JavaScript standard library that the program calls:
  \<open>encodeURIComponent\<close> and \<open>decodeURIComponent\<close> (None stands for the \<open>URIError\<close> they throw)
  and the serialiser of \<open>URLSearchParams\<close>. The last section states the contract that the API
  client relies on as a locale and interprets it on these functions.
\<close>

section \<open>Code points and UTF-8\<close>

definition is_lead :: "nat \<Rightarrow> bool" where "is_lead u \<longleftrightarrow> 0xD800 \<le> u \<and> u \<le> 0xDBFF"
definition is_trail :: "nat \<Rightarrow> bool" where "is_trail u \<longleftrightarrow> 0xDC00 \<le> u \<and> u \<le> 0xDFFF"

definition scalar :: "nat \<Rightarrow> bool" where
  "scalar cp \<longleftrightarrow> cp < 0x110000 \<and> \<not> is_lead cp \<and> \<not> is_trail cp"

definition pair_point :: "nat \<Rightarrow> nat \<Rightarrow> nat" where
  "pair_point u v = 0x10000 + (u - 0xD800) * 0x400 + (v - 0xDC00)"

text \<open>The code points of a string; None when a surrogate stands alone.\<close>

fun code_points :: "jstr \<Rightarrow> nat list option" where
  "code_points [] = Some []"
| "code_points [u] = (if scalar u \<and> u < 0x10000 then Some [u] else None)"
| "code_points (u # v # s) =
     (if is_lead u then
        (if is_trail v then map_option ((#) (pair_point u v)) (code_points s) else None)
      else if scalar u \<and> u < 0x10000 then map_option ((#) u) (code_points (v # s))
      else None)"

text \<open>The same with U+FFFD for a lone surrogate (conversion to a scalar value string).\<close>

fun scalar_values :: "jstr \<Rightarrow> nat list" where
  "scalar_values [] = []"
| "scalar_values [u] = [if is_lead u \<or> is_trail u then 0xFFFD else u]"
| "scalar_values (u # v # s) =
     (if is_lead u \<and> is_trail v then pair_point u v # scalar_values s
      else (if is_lead u \<or> is_trail u then 0xFFFD else u) # scalar_values (v # s))"

definition units_of :: "nat \<Rightarrow> jstr" where
  "units_of cp =
     (if cp < 0x10000 then [cp]
      else [0xD800 + (cp - 0x10000) div 0x400, 0xDC00 + (cp - 0x10000) mod 0x400])"

definition utf8 :: "nat \<Rightarrow> nat list" where
  "utf8 cp =
     (if cp < 0x80 then [cp]
      else if cp < 0x800 then [0xC0 + cp div 64, 0x80 + cp mod 64]
      else if cp < 0x10000 then [0xE0 + cp div 4096, 0x80 + cp div 64 mod 64, 0x80 + cp mod 64]
      else [0xF0 + cp div 262144, 0x80 + cp div 4096 mod 64, 0x80 + cp div 64 mod 64, 0x80 + cp mod 64])"

section \<open>encodeURIComponent and URLSearchParams\<close>

definition hex_digit :: "nat \<Rightarrow> nat" where
  "hex_digit d = (if d < 10 then 48 + d else 55 + d)"

definition percent :: "nat \<Rightarrow> jstr" where
  "percent b = [37, hex_digit (b div 16), hex_digit (b mod 16)]"

definition alnum :: "nat \<Rightarrow> bool" where
  "alnum u \<longleftrightarrow> (48 \<le> u \<and> u \<le> 57) \<or> (65 \<le> u \<and> u \<le> 90) \<or> (97 \<le> u \<and> u \<le> 122)"

text \<open>The marks that stay as they are: - _ . ! ~ * ' ( )\<close>

definition unreserved :: "nat \<Rightarrow> bool" where
  "unreserved u \<longleftrightarrow> alnum u \<or> u \<in> {45, 95, 46, 33, 126, 42, 39, 40, 41}"

definition encode_point :: "nat \<Rightarrow> jstr" where
  "encode_point cp = (if unreserved cp then [cp] else concat (map percent (utf8 cp)))"

definition encodeURIComponent :: "jstr \<Rightarrow> jstr option" where
  "encodeURIComponent s = map_option (\<lambda>cps. concat (map encode_point cps)) (code_points s)"

definition form_point :: "nat \<Rightarrow> jstr" where
  "form_point cp =
     (if alnum cp \<or> cp \<in> {42, 45, 46, 95} then [cp]
      else if cp = 32 then [43]
      else concat (map percent (utf8 cp)))"

definition form_encode :: "jstr \<Rightarrow> jstr" where
  "form_encode s = concat (map form_point (scalar_values s))"

text \<open>A query is the list of its pairs; \<open>set\<close> replaces an existing name in place.\<close>

type_synonym query = "(jstr \<times> jstr) list"

definition query_set :: "query \<Rightarrow> string \<Rightarrow> jstr \<Rightarrow> query" where
  "query_set q name v = put_by fst (js name, v) q"

definition query_string :: "query \<Rightarrow> jstr" where
  "query_string q = join [38] (map (\<lambda>(n, v). form_encode n @ 61 # form_encode v) q)"

section \<open>decodeURIComponent\<close>

definition hex_value :: "nat \<Rightarrow> nat option" where
  "hex_value u =
     (if 48 \<le> u \<and> u \<le> 57 then Some (u - 48)
      else if 65 \<le> u \<and> u \<le> 70 then Some (u - 55)
      else if 97 \<le> u \<and> u \<le> 102 then Some (u - 87)
      else None)"

fun take_byte :: "jstr \<Rightarrow> (nat \<times> jstr) option" where
  "take_byte (p # h # l # s) =
     (if p = 37 then
        (case hex_value h of
           None \<Rightarrow> None
         | Some a \<Rightarrow> (case hex_value l of None \<Rightarrow> None | Some b \<Rightarrow> Some (16 * a + b, s)))
      else None)"
| "take_byte _ = None"

fun take_continuation :: "nat \<Rightarrow> nat \<Rightarrow> jstr \<Rightarrow> (nat \<times> jstr) option" where
  "take_continuation 0 acc s = Some (acc, s)"
| "take_continuation (Suc n) acc s =
     (case take_byte s of
        None \<Rightarrow> None
      | Some (b, s') \<Rightarrow>
          if 0x80 \<le> b \<and> b \<le> 0xBF then take_continuation n (64 * acc + (b - 0x80)) s' else None)"

definition check_point :: "nat \<Rightarrow> (nat \<times> jstr) option \<Rightarrow> (nat \<times> jstr) option" where
  "check_point low r =
     (case r of None \<Rightarrow> None | Some (cp, s) \<Rightarrow> if low \<le> cp \<and> scalar cp then Some (cp, s) else None)"

definition take_point :: "jstr \<Rightarrow> (nat \<times> jstr) option" where
  "take_point s =
     (case take_byte s of
        None \<Rightarrow> None
      | Some (b, s') \<Rightarrow>
          if b < 0x80 then Some (b, s')
          else if 0xC0 \<le> b \<and> b < 0xE0 then check_point 0x80 (take_continuation 1 (b - 0xC0) s')
          else if 0xE0 \<le> b \<and> b < 0xF0 then check_point 0x800 (take_continuation 2 (b - 0xE0) s')
          else if 0xF0 \<le> b \<and> b < 0xF8 then check_point 0x10000 (take_continuation 3 (b - 0xF0) s')
          else None)"

lemma take_byte_length: "take_byte s = Some (b, s') \<Longrightarrow> length s' < length s"
  by (induction s rule: take_byte.induct) (auto split: if_splits option.splits)

lemma take_continuation_length:
  "take_continuation n acc s = Some (cp, s') \<Longrightarrow> length s' \<le> length s"
proof (induction n arbitrary: acc s)
  case (Suc n)
  from Suc.prems obtain b r where r: "take_byte s = Some (b, r)"
    and rest: "take_continuation n (64 * acc + (b - 0x80)) r = Some (cp, s')"
    by (auto split: option.splits if_splits)
  from Suc.IH[OF rest] take_byte_length[OF r] show ?case by simp
qed simp

lemma check_point_Some: "check_point low r = Some (cp, s) \<longleftrightarrow> r = Some (cp, s) \<and> low \<le> cp \<and> scalar cp"
  by (auto simp: check_point_def split: option.splits)

lemma take_point_length: "take_point s = Some (cp, s') \<Longrightarrow> length s' < length s"
  unfolding take_point_def
  by (auto split: option.splits if_splits simp: check_point_Some
        dest!: take_byte_length take_continuation_length)

function decodeURIComponent :: "jstr \<Rightarrow> jstr option" where
  "decodeURIComponent [] = Some []"
| "decodeURIComponent (u # s) =
     (if u = 37 then
        (case take_point (u # s) of
           None \<Rightarrow> None
         | Some (cp, s') \<Rightarrow> map_option ((@) (units_of cp)) (decodeURIComponent s'))
      else map_option ((#) u) (decodeURIComponent s))"
  by pat_completeness auto
termination
  by (relation "measure length") (auto dest: take_point_length)

section \<open>Decoding inverts encoding\<close>

lemma hex_value_digit: "d < 16 \<Longrightarrow> hex_value (hex_digit d) = Some d"
  by (auto simp: hex_value_def hex_digit_def)

lemma take_byte_percent: "b < 256 \<Longrightarrow> take_byte (percent b @ s) = Some (b, s)"
  by (simp add: percent_def hex_value_digit)

lemma code_points_scalar: "code_points s = Some cps \<Longrightarrow> cp \<in> set cps \<Longrightarrow> scalar cp"
proof (induction s arbitrary: cps rule: code_points.induct)
  case (3 u v s)
  then show ?case
    by (auto split: if_splits simp: scalar_def is_lead_def is_trail_def pair_point_def)
qed (auto split: if_splits)

lemma units_of_pair: "is_lead u \<Longrightarrow> is_trail v \<Longrightarrow> units_of (pair_point u v) = [u, v]"
proof -
  assume "is_lead u" "is_trail v"
  then obtain x y where "u = 0xD800 + x" "v = 0xDC00 + y" "y < 0x400"
    unfolding is_lead_def is_trail_def
    by (intro that[of "u - 0xD800" "v - 0xDC00"]) auto
  then show ?thesis by (simp add: units_of_def pair_point_def)
qed

lemma code_points_units: "code_points s = Some cps \<Longrightarrow> concat (map units_of cps) = s"
proof (induction s arbitrary: cps rule: code_points.induct)
  case (3 u v s)
  then show ?case by (auto split: if_splits simp: units_of_pair) (auto simp: units_of_def)
qed (auto split: if_splits simp: units_of_def)

lemma digit_split: "(x::nat) = 64 * (x div 64) + x mod 64"
  by simp

lemma mod_64_le: "(n::nat) mod 64 \<le> 63"
  using mod_less_divisor[of 64 n] by simp

lemma take_point_utf8:
  assumes "scalar cp"
  shows "take_point (concat (map percent (utf8 cp)) @ s) = Some (cp, s)"
proof -
  have lt: "cp < 0x110000" using assms by (simp add: scalar_def)
  consider "cp < 0x80" | "0x80 \<le> cp" "cp < 0x800" | "0x800 \<le> cp" "cp < 0x10000" | "0x10000 \<le> cp"
    by linarith
  then show ?thesis
  proof cases
    case 1
    then show ?thesis by (simp add: utf8_def take_point_def take_byte_percent)
  next
    case 2
    then have "cp div 64 < 32" by simp
    with 2 assms show ?thesis
      by (simp add: utf8_def take_point_def take_byte_percent check_point_def)
  next
    case 3
    then have "cp div 4096 < 16" by simp
    moreover have "64 * (64 * (cp div 4096) + cp div 64 mod 64) + cp mod 64 = cp"
      using digit_split[of "cp div 64"] by (simp add: div_mult2_eq[of cp 64 64, simplified, symmetric])
    ultimately show ?thesis using 3 assms
      by (simp add: utf8_def take_point_def take_byte_percent check_point_def numeral_2_eq_2 mod_64_le)
  next
    case 4
    have "cp div 262144 < 5" using lt by simp
    moreover have "64 * (64 * (64 * (cp div 262144) + cp div 4096 mod 64) + cp div 64 mod 64) + cp mod 64 = cp"
      using digit_split[of "cp div 64"] digit_split[of "cp div 4096"]
      by (simp add: div_mult2_eq[of cp 64 64, simplified, symmetric] div_mult2_eq[of cp 4096 64, simplified, symmetric])
    ultimately show ?thesis using 4 assms
      by (simp add: utf8_def take_point_def take_byte_percent check_point_def numeral_3_eq_3 mod_64_le)
  qed
qed

lemma decode_encode_point:
  assumes "scalar cp"
  shows "decodeURIComponent (encode_point cp @ s) = map_option ((@) (units_of cp)) (decodeURIComponent s)"
proof (cases "unreserved cp")
  case True
  then have "cp \<noteq> 37" "cp < 0x10000" by (auto simp: unreserved_def alnum_def)
  with True show ?thesis by (cases "decodeURIComponent s") (auto simp: encode_point_def units_of_def)
next
  case False
  let ?e = "concat (map percent (utf8 cp))"
  have "\<exists>t. ?e = 37 # t" by (auto simp: utf8_def percent_def)
  then obtain t where t: "?e = 37 # t" ..
  have "take_point (37 # t @ s) = Some (cp, s)"
    using take_point_utf8[OF assms, of s] t by simp
  with False t show ?thesis by (simp add: encode_point_def)
qed

theorem decode_encode:
  assumes "encodeURIComponent s = Some e"
  shows "decodeURIComponent e = Some s"
proof -
  from assms obtain cps where cps: "code_points s = Some cps" and e: "e = concat (map encode_point cps)"
    by (auto simp: encodeURIComponent_def)
  have "\<forall>cp \<in> set cps. scalar cp" using code_points_scalar[OF cps] by blast
  then have "decodeURIComponent (concat (map encode_point cps)) = Some (concat (map units_of cps))"
    by (induction cps) (auto simp: decode_encode_point)
  with e code_points_units[OF cps] show ?thesis by simp
qed

section \<open>The alphabet of the encoders\<close>

lemma percent_units: "u \<in> set (percent b) \<Longrightarrow> b < 256 \<Longrightarrow> u = 37 \<or> alnum u"
  by (auto simp: percent_def hex_digit_def alnum_def split: if_splits)

lemma utf8_bytes: "cp < 0x110000 \<Longrightarrow> b \<in> set (utf8 cp) \<Longrightarrow> b < 256"
  by (auto simp: utf8_def split: if_splits)

lemma encode_point_units:
  "scalar cp \<Longrightarrow> u \<in> set (encode_point cp) \<Longrightarrow> u = 37 \<or> unreserved u"
  by (auto simp: encode_point_def scalar_def unreserved_def split: if_splits
        dest!: percent_units utf8_bytes)

lemma encode_units:
  "encodeURIComponent s = Some e \<Longrightarrow> u \<in> set e \<Longrightarrow> u = 37 \<or> unreserved u"
  unfolding encodeURIComponent_def using code_points_scalar encode_point_units by fastforce

lemma encode_no_delimiter:
  assumes "encodeURIComponent s = Some e"
  shows "slash \<notin> set e" and "63 \<notin> set e" and "35 \<notin> set e" and "38 \<notin> set e"
  using encode_units[OF assms, of 47] encode_units[OF assms, of 63] encode_units[OF assms, of 35]
    encode_units[OF assms, of 38]
  by (auto simp add: unreserved_def alnum_def slash_def)

text \<open>The contract the API client relies on: what a path segment may be built from.\<close>

locale segment_codec =
  fixes enc :: "jstr \<Rightarrow> jstr option" and dec :: "jstr \<Rightarrow> jstr option"
  assumes dec_enc: "enc s = Some e \<Longrightarrow> dec e = Some s"
    and enc_no_slash: "enc s = Some e \<Longrightarrow> slash \<notin> set e"
    and enc_no_query: "enc s = Some e \<Longrightarrow> 63 \<notin> set e"
begin

lemma enc_inj: "enc s = Some e \<Longrightarrow> enc t = Some e \<Longrightarrow> s = t"
  using dec_enc by (metis option.sel)

text \<open>An encoded name between two fixed parts is one segment, and decodes to the name.\<close>

lemma segment_between:
  assumes "enc s = Some e"
  shows "split_on slash (pre @ slash # e @ slash # post) = split_on slash pre @ e # split_on slash post"
    and "split_on slash (pre @ slash # e) = split_on slash pre @ [e]"
proof -
  have e: "slash \<notin> set e" using assms by (rule enc_no_slash)
  have pre: "split_on slash (pre @ slash # t) = split_on slash pre @ split_on slash t" for t
    using split_on_append[of slash pre "slash # t"] by simp
  show "split_on slash (pre @ slash # e @ slash # post) = split_on slash pre @ e # split_on slash post"
    using pre[of "e @ slash # post"] e by (simp add: split_on_append_sep)
  show "split_on slash (pre @ slash # e) = split_on slash pre @ [e]"
    using pre[of e] e by (simp add: split_on_no_sep)
qed

end

interpretation uri: segment_codec encodeURIComponent decodeURIComponent
  by unfold_locales (auto dest: decode_encode encode_no_delimiter)

end
