(* ===== verification/Numbers.thy ===== *)
theory Numbers
  imports Uri
begin

text \<open>
  \<open>Number(text)\<close> of JavaScript, as the forms use it on what was typed. The value is the exact
  rational that the literal denotes: the rounding to a double, and the overflow of an exponent
  beyond 308 to infinity, are not modelled. The result is sent as JSON, where NaN and the
  infinities become null.
\<close>

datatype jnum = NaN | Infinite bool | Fin rat

fun radix_digits :: "nat \<Rightarrow> jstr \<Rightarrow> nat \<Rightarrow> nat option" where
  "radix_digits radix [] acc = Some acc"
| "radix_digits radix (u # s) acc =
     (case hex_value u of
        Some d \<Rightarrow> if d < radix then radix_digits radix s (radix * acc + d) else None
      | None \<Rightarrow> None)"

text \<open>\<open>0x1F\<close>, \<open>0o17\<close>, \<open>0b11\<close>: the radix and the digits.\<close>

fun radix_literal :: "jstr \<Rightarrow> (nat \<times> jstr) option" where
  "radix_literal (z # x # s) =
     (if z \<noteq> 48 then None
      else if x \<in> {120, 88} then Some (16, s)
      else if x \<in> {111, 79} then Some (8, s)
      else if x \<in> {98, 66} then Some (2, s)
      else None)"
| "radix_literal s = None"

text \<open>An optional sign in front: whether it is a minus, and the rest.\<close>

definition signed_text :: "jstr \<Rightarrow> bool \<times> jstr" where
  "signed_text s =
     (case s of u # t \<Rightarrow> if u = 45 then (True, t) else if u = 43 then (False, t) else (False, s)
      | [] \<Rightarrow> (False, s))"

definition scale10 :: "bool \<Rightarrow> nat \<Rightarrow> rat \<Rightarrow> rat" where
  "scale10 down n v = (if down then v / 10 ^ n else v * 10 ^ n)"

definition exponent :: "rat \<Rightarrow> jstr \<Rightarrow> rat option" where
  "exponent v s =
     (case s of
        [] \<Rightarrow> Some v
      | e # t \<Rightarrow>
          (let (down, ds) = signed_text t in
           if e \<in> {101, 69} \<and> ds \<noteq> [] \<and> list_all is_digit ds
           then Some (scale10 down (number_of_digits 0 ds) v) else None))"

definition decimal_literal :: "jstr \<Rightarrow> rat option" where
  "decimal_literal s =
     (let whole = takeWhile is_digit s; rest = dropWhile is_digit s;
          (frac, rest) =
            (case rest of
               u # t \<Rightarrow> if u = 46 then (takeWhile is_digit t, dropWhile is_digit t) else ([], rest)
             | [] \<Rightarrow> ([], []))
      in if whole = [] \<and> frac = [] then None
         else exponent (scale10 True (length frac) (of_nat (number_of_digits 0 (whole @ frac)))) rest)"

definition js_Number :: "jstr \<Rightarrow> jnum" where
  "js_Number s =
     (let t = trim s in
      if t = [] then Fin 0
      else
        (case radix_literal t of
           Some (radix, ds) \<Rightarrow>
             (case (if ds = [] then None else radix_digits radix ds 0) of
                Some n \<Rightarrow> Fin (of_nat n) | None \<Rightarrow> NaN)
         | None \<Rightarrow>
             (let (neg, body) = signed_text t in
              if body = js ''Infinity'' then Infinite neg
              else (case decimal_literal body of
                      Some v \<Rightarrow> Fin (if neg then - v else v)
                    | None \<Rightarrow> NaN))))"

text \<open>\<open>x < n\<close>: never true of NaN.\<close>

definition jnum_less :: "jnum \<Rightarrow> int \<Rightarrow> bool" where
  "jnum_less x n = (case x of Fin v \<Rightarrow> v < of_int n | Infinite neg \<Rightarrow> neg | NaN \<Rightarrow> False)"

text \<open>\<open>String(n)\<close> is read back.\<close>

lemma all_digits_take: "list_all is_digit s \<Longrightarrow> takeWhile is_digit s = s \<and> dropWhile is_digit s = []"
  by (induction s) auto

lemma decimal_digits:
  "list_all is_digit s \<Longrightarrow> s \<noteq> [] \<Longrightarrow> decimal_literal s = Some (of_nat (number_of_digits 0 s))"
  by (simp add: decimal_literal_def all_digits_take exponent_def scale10_def Let_def)

lemma digits_all: "list_all is_digit (digits_of n)"
  using digits_of_range by (auto simp: list_all_iff is_digit_def)

lemma no_radix: "list_all (\<lambda>u. is_digit u \<or> u = 45) s \<Longrightarrow> radix_literal s = None"
  by (cases s rule: radix_literal.cases) (auto simp: is_digit_def)

lemma js_Number_show: "js_Number (show_int n) = Fin (of_int n)"
proof -
  have hd: "hd (digits_of m) \<noteq> 45 \<and> hd (digits_of m) \<noteq> 43" for m
    using digits_of_range[OF hd_in_set[OF digits_of_not_Nil[of m]]] by auto
  have signed: "signed_text (digits_of m) = (False, digits_of m)" for m
    using hd[of m] by (cases "digits_of m") (auto simp: signed_text_def)
  have dec: "decimal_literal (digits_of m) = Some (of_nat m)" for m
    by (simp add: decimal_digits digits_all number_of_digits_of)
  have inf: "digits_of m \<noteq> js ''Infinity''" for m
    using digits_all[of m] by (auto simp: js_eval is_digit_def)
  have trim: "trim (45 # digits_of m) = 45 # digits_of m" for m
    by (rule trim_no_space) (auto simp: is_space_def dest: digits_of_range)
  have radix: "radix_literal (digits_of m) = None" "radix_literal (45 # digits_of m) = None" for m
    using digits_all[of m] by (auto intro!: no_radix elim: list.pred_mono_strong)
  show ?thesis
    using trim signed dec inf radix
    by (auto simp: js_Number_def show_int_def Let_def digits_no_space digits_all signed_text_def[of "45 # _"])
qed

end
