(* ===== verification/Types.thy ===== *)
theory Types
  imports Numbers
begin

text \<open>
  The data of the API: the types of web/src/lib/types.ts and the response types declared in
  web/src/lib/api.ts, one datatype per string union and one record per interface, with the
  fields in their order. Field names carry a short prefix for their type; an optional field is
  an option, a number an integer (a rational for percentages and load averages, a \<open>jnum\<close> for the
  numbers that forms send as they were typed), and
  \<open>CreateServiceListener\<close> is \<open>Omit<CreateListenerRequest, "proxy_group_id">\<close>.
\<close>

section \<open>String unions\<close>

datatype SourceType = SrcRemote | SrcInline | SrcFile

datatype ArtifactKind = Backup | Export

datatype LifecycleState = Candidate | Healthy | Degraded | Quarantined | Disabled | Retired

datatype EnhancedMode = ModeNormal | FakeIp | RedirHost

datatype FindProcessMode = FindOff | FindStrict | FindAlways

datatype LogLevel = LogSilent | LogError | LogWarning | LogInfo | LogDebug

datatype SharedInboundMode = PerService | SharedPort

datatype RoutingRuleType = RDomain | RDomainSuffix | RDomainKeyword | RIpCidr | RGeoip | RGeosite | RProcessName | RNetwork | RDstPort

datatype RoutingActionType = ActReject | ActDirect | ActProxyGroup

datatype ProxyGroupStrategy = Manual | UrlTest | Fallback | RoundRobin | ConsistentHashing | StickySessions

datatype SourceSort = SortLatency | SortName

datatype EmptyBehavior = FailClosed | EmptyDirect

datatype ListenerKind = KHttp | KSocks | KMixed | KVless | KVmess | KTrojan

datatype TransportType = TransportWs | TransportNone

datatype SharedInboundOwner = OwnerStandard | OwnerWebsocket

datatype DataPlaneState = PlaneIdle | PlaneRunning | PlaneFailed

datatype TrafficResourceType = TrListener | TrProxyGroup | TrNode | TrResidentialChannel

datatype ResidentialProtocol = PHttp | PHttps | PSocks5 | PVless | PTrojan

datatype ResidentialRotationMode = SessionTemplate | PerRequest | ApiList | CfWorker

datatype ResidentialChannelMode = Passthrough | Sticky

datatype ResidentialSessionExpiryPolicy = Expire | Rotate

datatype ResidentialRegionMode = RegionFixed | RegionApplicationRandom

datatype AlertSeverity = SevWarning | SevCritical

datatype AlertStatus = Firing | Resolved

section \<open>Interfaces\<close>

record Subscription =
  sub_id :: jstr
  sub_name :: jstr
  sub_source_type :: SourceType
  sub_source_configured :: bool
  sub_enabled :: bool
  sub_refresh_interval_seconds :: int
  sub_refresh_cron :: "jstr option"
  sub_last_success_snapshot_id :: "jstr option"
  sub_consecutive_failures :: int
  sub_last_refresh_attempt_at :: "jstr option"
  sub_next_refresh_at :: "jstr option"
  sub_version :: int
  sub_created_at :: jstr
  sub_updated_at :: jstr

record SubscriptionList =
  subs_items :: "Subscription list"
  subs_limit :: int
  subs_offset :: int

record SourceConfig =
  cfg_url :: "jstr option"
  cfg_headers :: "((jstr \<times> jstr) list) option"
  cfg_user_agent :: "jstr option"
  cfg_inline :: "jstr option"
  cfg_file_path :: "jstr option"
  cfg_timeout_seconds :: "jnum option"
  cfg_allow_private :: "bool option"

record CreateSubscriptionRequest =
  csub_name :: jstr
  csub_source_type :: SourceType
  csub_source_config :: SourceConfig
  csub_enabled :: "bool option"
  csub_refresh_interval_seconds :: "int option"
  csub_refresh_cron :: "jstr option"

record UpdateSubscriptionRequest =
  usub_version :: int
  usub_name :: jstr
  usub_source_type :: SourceType
  usub_source_config :: "SourceConfig option"
  usub_enabled :: bool
  usub_refresh_interval_seconds :: int
  usub_refresh_cron :: "jstr option"

record FetchMetadata =
  meta_etag :: "jstr option"
  meta_last_modified :: "jstr option"
  meta_content_type :: "jstr option"
  meta_status_code :: "int option"
  meta_size :: int

record RefreshResult =
  refresh_subscription_id :: jstr
  refresh_snapshot_id :: jstr
  refresh_changed :: bool
  refresh_content_hash :: jstr
  refresh_size :: int
  refresh_detected_format :: jstr
  refresh_estimated_nodes :: int
  refresh_fetched_at :: jstr
  refresh_fetch_metadata :: FetchMetadata

record BatchRefreshItem =
  bri_subscription_id :: jstr
  bri_success :: bool
  bri_result :: "RefreshResult option"
  bri_error :: "jstr option"

record BatchRefreshList =
  brl_items :: "BatchRefreshItem list"

record ArtifactRecord =
  art_schema_version :: int
  art_id :: jstr
  art_kind :: ArtifactKind
  art_created_at :: jstr
  art_filename :: jstr
  art_content_type :: jstr
  art_size :: int
  art_sha256 :: jstr
  art_includes_secrets :: bool
  art_description :: "jstr option"

record ArtifactList =
  arts_items :: "ArtifactRecord list"

record VerifyResult =
  ver_artifact_id :: jstr
  ver_kind :: ArtifactKind
  ver_valid :: bool
  ver_files_checked :: int
  ver_artifact_sha256 :: jstr
  ver_manifest_version :: int

record NodeSource =
  nsrc_subscription_id :: jstr
  nsrc_subscription_name :: jstr
  nsrc_source_name :: jstr

record NodeHealthCheck =
  nhc_target_id :: jstr
  nhc_target_name :: jstr
  nhc_url :: jstr
  nhc_success :: bool
  nhc_latency_ms :: "int option"
  nhc_checked_at :: "jstr option"
  nhc_error_code :: "jstr option"

record NodeRecord =
  nd_id :: jstr
  nd_fingerprint :: jstr
  nd_display_name :: jstr
  nd_protocol :: jstr
  nd_lifecycle_state :: LifecycleState
  nd_first_seen_at :: jstr
  nd_last_seen_at :: jstr
  nd_retired_at :: "jstr option"
  nd_last_checked_at :: "jstr option"
  nd_last_latency_ms :: "int option"
  nd_last_error_code :: "jstr option"
  nd_last_error_message :: "jstr option"
  nd_consecutive_probe_failures :: int
  nd_version :: int
  nd_source_count :: int
  nd_sources :: "NodeSource list"
  nd_health_checks :: "NodeHealthCheck list"

record NodeCheckResult =
  ncr_node :: NodeRecord
  ncr_success :: bool
  ncr_latency_ms :: "int option"
  ncr_checked_at :: jstr
  ncr_test_url :: jstr
  ncr_error_code :: "jstr option"
  ncr_error :: "jstr option"

record NodeList =
  nds_items :: "NodeRecord list"
  nds_limit :: int
  nds_offset :: int

record NodeCheckList =
  ncl_items :: "NodeCheckResult list"

record NodeCheckProgress =
  ncp_completed :: int
  ncp_total :: int
  ncp_node_id :: jstr
  ncp_result :: NodeCheckResult

record HealthTarget =
  ht_id :: jstr
  ht_name :: jstr
  ht_url :: jstr
  ht_enabled :: bool

record QualitySettings =
  qs_check_interval_seconds :: jnum
  qs_timeout_seconds :: jnum
  qs_batch_size :: jnum
  qs_probe_concurrency :: jnum
  qs_test_url :: jstr
  qs_health_targets :: "HealthTarget list"

record DnsSettings =
  dns_enabled :: bool
  dns_ipv6 :: bool
  dns_enhanced_mode :: EnhancedMode
  dns_default_nameserver :: "jstr list"
  dns_nameserver :: "jstr list"
  dns_fallback :: "jstr list"

record PerformanceSettings =
  perf_tcp_concurrent :: bool
  perf_unified_delay :: bool
  perf_keep_alive_idle_seconds :: jnum
  perf_keep_alive_interval_seconds :: jnum
  perf_find_process_mode :: FindProcessMode
  perf_log_level :: LogLevel

record SharedInboundSettings =
  sis_mode :: SharedInboundMode
  sis_mixed_bind_address :: "jstr option"
  sis_mixed_port :: "jnum option"
  sis_ws_port :: "jnum option"
  sis_mixed_public_host :: "jstr option"
  sis_mixed_public_port :: "jnum option"
  sis_mixed_public_tls :: "bool option"
  sis_ws_public_host :: "jstr option"
  sis_ws_public_port :: "jnum option"
  sis_include_in_per_service :: "bool option"

record GlobalSettings =
  gs_quality :: QualitySettings
  gs_dns :: DnsSettings
  gs_performance :: PerformanceSettings
  gs_shared_inbound :: SharedInboundSettings

record RoutingRule =
  rule_type :: RoutingRuleType
  rule_value :: jstr

record RoutingAction =
  act_type :: RoutingActionType
  act_proxy_group_id :: "jstr option"

record RoutingGroupRoute =
  rgr_proxy_group_id :: jstr
  rgr_action :: RoutingAction

record RoutingRuleSet =
  rs_id :: jstr
  rs_name :: jstr
  rs_enabled :: bool
  rs_priority :: int
  rs_routes :: "(RoutingGroupRoute list) option"
  rs_applied_group_ids :: "(jstr list) option"
  rs_action :: "RoutingAction option"
  rs_rules :: "RoutingRule list"

record RoutingRulesConfig =
  rrc_rule_sets :: "RoutingRuleSet list"

record ProxyGroupSourceSpec =
  spec_node_ids :: "jstr list"
  spec_group_ids :: "(jstr list) option"
  spec_subscription_ids :: "(jstr list) option"
  spec_name_keywords :: "(jstr list) option"
  spec_regions :: "(jstr list) option"
  spec_protocols :: "(jstr list) option"
  spec_states :: "(LifecycleState list) option"
  spec_max_latency_ms :: "int option"
  spec_sort_by :: "SourceSort option"
  spec_limit :: "int option"
  spec_include_direct :: bool
  spec_test_url :: "jstr option"
  spec_interval_seconds :: "int option"

record ProxyGroup =
  pg_id :: jstr
  pg_name :: jstr
  pg_strategy :: ProxyGroupStrategy
  pg_source_spec :: ProxyGroupSourceSpec
  pg_enabled :: bool
  pg_empty_behavior :: EmptyBehavior
  pg_fallback_target_id :: "jstr option"
  pg_version :: int
  pg_created_at :: jstr
  pg_updated_at :: jstr

record ProxyGroupList =
  pgs_items :: "ProxyGroup list"

record CreateProxyGroupRequest =
  cpg_name :: jstr
  cpg_strategy :: ProxyGroupStrategy
  cpg_source_spec :: ProxyGroupSourceSpec
  cpg_enabled :: "bool option"
  cpg_empty_behavior :: "EmptyBehavior option"

record UpdateProxyGroupRequest =
  upg_version :: int
  upg_name :: jstr
  upg_strategy :: ProxyGroupStrategy
  upg_source_spec :: ProxyGroupSourceSpec
  upg_enabled :: bool
  upg_empty_behavior :: EmptyBehavior
  upg_fallback_target_id :: "jstr option"

record ListenerTransport =
  tr_type :: TransportType
  tr_ws_path :: "jstr option"

record ListenerPublicEndpoint =
  pe_host :: jstr
  pe_port :: int
  pe_tls :: bool

record ListenerRecord =
  ln_id :: jstr
  ln_name :: jstr
  ln_kind :: ListenerKind
  ln_bind_address :: jstr
  ln_port :: int
  ln_proxy_group_id :: jstr
  ln_auth_configured :: bool
  ln_transport :: ListenerTransport
  ln_public_endpoint :: ListenerPublicEndpoint
  ln_share_path :: "jstr option"
  ln_shared_inbound :: "SharedInboundOwner option"
  ln_shared_inbound_aggregate :: "bool option"
  ln_enabled :: bool
  ln_version :: int
  ln_created_at :: jstr
  ln_updated_at :: jstr

record ListenerList =
  lns_items :: "ListenerRecord list"

record ListenerAuth =
  la_username :: jstr
  la_password :: jstr

record CreateListenerRequest =
  cln_name :: jstr
  cln_kind :: ListenerKind
  cln_bind_address :: jstr
  cln_port :: int
  cln_proxy_group_id :: jstr
  cln_auth :: "ListenerAuth option"
  cln_transport :: "ListenerTransport option"
  cln_public_endpoint :: "ListenerPublicEndpoint option"
  cln_enabled :: "bool option"

record CreateServiceListener =
  csl_name :: jstr
  csl_kind :: ListenerKind
  csl_bind_address :: jstr
  csl_port :: int
  csl_auth :: "ListenerAuth option"
  csl_transport :: "ListenerTransport option"
  csl_public_endpoint :: "ListenerPublicEndpoint option"
  csl_enabled :: "bool option"

record UpdateListenerRequest =
  uln_version :: int
  uln_name :: jstr
  uln_kind :: ListenerKind
  uln_bind_address :: jstr
  uln_port :: int
  uln_proxy_group_id :: jstr
  uln_auth :: "ListenerAuth option"
  uln_transport :: "ListenerTransport option"
  uln_public_endpoint :: "ListenerPublicEndpoint option"
  uln_clear_auth :: "bool option"
  uln_enabled :: bool

record CreateProxyServiceRequest =
  cps_name :: jstr
  cps_strategy :: ProxyGroupStrategy
  cps_source_spec :: ProxyGroupSourceSpec
  cps_empty_behavior :: "EmptyBehavior option"
  cps_listener :: CreateServiceListener

record UpdateServiceListener =
  usl_name :: jstr
  usl_kind :: ListenerKind
  usl_bind_address :: jstr
  usl_port :: int
  usl_auth :: "ListenerAuth option"
  usl_clear_auth :: "bool option"
  usl_transport :: "ListenerTransport option"
  usl_public_endpoint :: "ListenerPublicEndpoint option"
  usl_enabled :: "bool option"

record UpdateProxyServiceRequest =
  ups_group_id :: jstr
  ups_group_version :: int
  ups_name :: jstr
  ups_strategy :: ProxyGroupStrategy
  ups_source_spec :: ProxyGroupSourceSpec
  ups_empty_behavior :: EmptyBehavior
  ups_enabled :: "bool option"
  ups_fallback_target_id :: "jstr option"
  ups_listener_id :: jstr
  ups_listener_version :: int
  ups_listener :: UpdateServiceListener

record ProxyServiceRecord =
  psr_group :: ProxyGroup
  psr_listener :: ListenerRecord

record DataPlaneEndpoint =
  dpe_id :: jstr
  dpe_name :: jstr
  dpe_kind :: ListenerKind
  dpe_bind_address :: jstr
  dpe_port :: int

record DataPlaneStatus =
  dps_available :: bool
  dps_running :: bool
  dps_state :: DataPlaneState
  dps_pid :: "int option"
  dps_binary :: "jstr option"
  dps_version :: "jstr option"
  dps_active_config :: "jstr option"
  dps_last_apply_at :: "jstr option"
  dps_last_error :: "jstr option"
  dps_listener_count :: int
  dps_proxy_count :: int
  dps_active_listeners :: "DataPlaneEndpoint list"
  dps_egress_interface :: "jstr option"
  dps_max_procs :: int
  dps_log_max_bytes :: int

record SystemInfo =
  si_application :: jstr
  si_version :: jstr
  si_dataplane_version :: "jstr option"
  si_repository_url :: jstr
  si_update_command :: jstr
  si_automatic_update :: bool
  si_supported_protocols :: "jstr list"

record OverviewResourceSample =
  ovr_resource_type :: TrafficResourceType
  ovr_resource_id :: jstr
  ovr_upload_bytes_per_second :: int
  ovr_download_bytes_per_second :: int
  ovr_active_connections :: int

record OverviewSample =
  ovs_timestamp :: jstr
  ovs_upload_bytes_per_second :: int
  ovs_download_bytes_per_second :: int
  ovs_active_connections :: int
  ovs_running :: bool
  ovs_resources :: "(OverviewResourceSample list) option"
  ovs_error_code :: "jstr option"

record TrafficSummary =
  ts_resource_type :: TrafficResourceType
  ts_resource_id :: jstr
  ts_upload_bytes :: int
  ts_download_bytes :: int
  ts_connection_count :: int
  ts_active_connections :: int
  ts_updated_at :: "jstr option"

record TrafficPoint =
  tp_time :: jstr
  tp_upload_bytes :: int
  tp_download_bytes :: int
  tp_connection_count :: int
  tp_peak_active_connections :: int

record TrafficSeries =
  tse_summary :: TrafficSummary
  tse_from :: jstr
  tse_to :: jstr
  tse_resolution_seconds :: int
  tse_points :: "TrafficPoint list"

record TrafficSummaryList =
  tsl_items :: "TrafficSummary list"
  tsl_limit :: int
  tsl_offset :: int

record ProxyLogEvent =
  ple_timestamp :: jstr
  ple_level :: jstr
  ple_message :: jstr
  ple_proxy_group_id :: "jstr option"
  ple_proxy_group :: "jstr option"
  ple_node_id :: "jstr option"
  ple_node :: "jstr option"

record ApiErrorBody =
  aeb_code :: "jstr option"
  aeb_message :: "jstr option"
  aeb_request_id :: "jstr option"

record ApiErrorPayload =
  aep_error :: "ApiErrorBody option"

record ResidentialPreset =
  rpre_vendor :: jstr
  rpre_label :: jstr
  rpre_protocol :: ResidentialProtocol
  rpre_gateway_host :: jstr
  rpre_gateway_port :: int
  rpre_username_template :: jstr
  rpre_rotation_mode :: ResidentialRotationMode
  rpre_session_ttl_seconds :: int
  rpre_pool_size :: int
  rpre_verified :: bool
  rpre_doc_url :: "jstr option"
  rpre_notes :: "jstr option"

record ResidentialPresetCatalog =
  rpc_items :: "ResidentialPreset list"
  rpc_placeholders :: "jstr list"
  rpc_protocols :: "ResidentialProtocol list"
  rpc_worker_protocols :: "ResidentialProtocol list"
  rpc_rotation_modes :: "ResidentialRotationMode list"
  rpc_region_modes :: "ResidentialRegionMode list"
  rpc_exit_ip_default :: jstr

record ResidentialProvider =
  rp_id :: jstr
  rp_name :: jstr
  rp_vendor :: jstr
  rp_protocol :: ResidentialProtocol
  rp_gateway_host :: jstr
  rp_gateway_port :: int
  rp_upstream_proxy_group_id :: "jstr option"
  rp_api_url_configured :: bool
  rp_worker_url_configured :: bool
  rp_api_proxy_configured :: bool
  rp_username_template :: jstr
  rp_rotation_mode :: ResidentialRotationMode
  rp_session_ttl_seconds :: int
  rp_max_concurrent_sessions :: int
  rp_session_expiry_policy :: ResidentialSessionExpiryPolicy
  rp_default_region :: "jstr option"
  rp_default_region_mode :: ResidentialRegionMode
  rp_default_random_regions :: "(jstr list) option"
  rp_credentials_configured :: bool
  rp_gateway_username :: "jstr option"
  rp_supports_sticky :: bool
  rp_enabled :: bool
  rp_version :: int
  rp_created_at :: jstr
  rp_updated_at :: jstr

record ResidentialCredentials =
  rcr_username :: jstr
  rcr_password :: jstr

record CreateResidentialProviderRequest =
  crp_name :: jstr
  crp_vendor :: jstr
  crp_protocol :: ResidentialProtocol
  crp_gateway_host :: jstr
  crp_gateway_port :: int
  crp_upstream_proxy_group_id :: "jstr option"
  crp_api_url :: "jstr option"
  crp_worker_url :: "jstr option"
  crp_api_proxy_url :: "jstr option"
  crp_credentials :: "ResidentialCredentials option"
  crp_username_template :: jstr
  crp_rotation_mode :: ResidentialRotationMode
  crp_session_ttl_seconds :: "int option"
  crp_max_concurrent_sessions :: "int option"
  crp_session_expiry_policy :: "ResidentialSessionExpiryPolicy option"
  crp_default_region :: "jstr option"
  crp_default_region_mode :: "ResidentialRegionMode option"
  crp_default_random_regions :: "(jstr list) option"
  crp_enabled :: "bool option"

record UpdateResidentialProviderRequest =
  urp_version :: int
  urp_name :: jstr
  urp_vendor :: jstr
  urp_protocol :: ResidentialProtocol
  urp_gateway_host :: jstr
  urp_gateway_port :: int
  urp_upstream_proxy_group_id :: "jstr option"
  urp_api_url :: "jstr option"
  urp_worker_url :: "jstr option"
  urp_api_proxy_url :: "jstr option"
  urp_credentials :: "ResidentialCredentials option"
  urp_username_template :: jstr
  urp_rotation_mode :: ResidentialRotationMode
  urp_session_ttl_seconds :: "int option"
  urp_max_concurrent_sessions :: "int option"
  urp_session_expiry_policy :: "ResidentialSessionExpiryPolicy option"
  urp_default_region :: "jstr option"
  urp_default_region_mode :: "ResidentialRegionMode option"
  urp_default_random_regions :: "(jstr list) option"
  urp_enabled :: bool

record ResidentialTestResult =
  rtr_success :: bool
  rtr_exit_ip :: "jstr option"
  rtr_rendered_username_preview :: "jstr option"
  rtr_latency_ms :: "int option"
  rtr_detail :: "jstr option"
  rtr_error :: "jstr option"

record ResidentialChannelEndpoint =
  rce_kind :: jstr
  rce_bind_address :: jstr
  rce_port :: int
  rce_auth_enabled :: bool
  rce_transport :: ListenerTransport
  rce_share_path :: "jstr option"

record ResidentialChannelSession =
  rse_index :: int
  rse_session_id :: jstr
  rse_node_name :: jstr
  rse_route_mode :: jstr
  rse_country_code :: "jstr option"
  rse_exit_ip :: "jstr option"
  rse_allocated :: bool
  rse_allocated_at :: "jstr option"
  rse_expires_at :: "jstr option"
  rse_rotate_count :: int
  rse_last_rotated_at :: "jstr option"
  rse_last_used_at :: "jstr option"

record ResidentialChannel =
  rc_id :: jstr
  rc_name :: jstr
  rc_provider_id :: jstr
  rc_provider_name :: "jstr option"
  rc_providers :: "(ResidentialProvider list) option"
  rc_mode :: ResidentialChannelMode
  rc_proxy_group_id :: jstr
  rc_listener_id :: jstr
  rc_region :: "jstr option"
  rc_region_mode :: ResidentialRegionMode
  rc_random_regions :: "(jstr list) option"
  rc_endpoint :: ResidentialChannelEndpoint
  rc_public_endpoint :: ListenerPublicEndpoint
  rc_subscription_url :: "jstr option"
  rc_rotation_url :: "jstr option"
  rc_control_url :: "jstr option"
  rc_session_count :: int
  rc_idle_release_seconds :: int
  rc_preallocate :: "bool option"
  rc_sessions :: "(ResidentialChannelSession list) option"
  rc_direct_endpoint :: "ResidentialChannelEndpoint option"
  rc_control_path :: "jstr option"
  rc_active_session_count :: int
  rc_pool_size :: "int option"
  rc_active_session_index :: int
  rc_rotate_count :: int
  rc_last_rotated_at :: "jstr option"
  rc_last_exit_ip :: "jstr option"
  rc_pool_created_at :: "jstr option"
  rc_pool_refresh_after_seconds :: "int option"
  rc_session_ttl_seconds :: "int option"
  rc_rotate_path :: "jstr option"
  rc_can_rotate :: bool
  rc_enabled :: bool
  rc_version :: int
  rc_created_at :: jstr
  rc_updated_at :: jstr

record ResidentialChannelList =
  rcl_items :: "ResidentialChannel list"

record ResidentialProviderList =
  rpl_items :: "ResidentialProvider list"

record CreateResidentialChannelRequest =
  crc_name :: jstr
  crc_provider_id :: jstr
  crc_provider_ids :: "(jstr list) option"
  crc_mode :: ResidentialChannelMode
  crc_protocol :: ListenerKind
  crc_region :: "jstr option"
  crc_region_mode :: "ResidentialRegionMode option"
  crc_random_regions :: "(jstr list) option"
  crc_session_count :: "int option"
  crc_idle_release_seconds :: "int option"
  crc_preallocate :: "bool option"
  crc_public_endpoint :: "ListenerPublicEndpoint option"
  crc_enabled :: "bool option"

record UpdateResidentialChannelRequest =
  urc_version :: int
  urc_name :: jstr
  urc_region :: "jstr option"
  urc_region_mode :: "ResidentialRegionMode option"
  urc_random_regions :: "(jstr list) option"
  urc_session_count :: "int option"
  urc_idle_release_seconds :: "int option"
  urc_preallocate :: "bool option"
  urc_clear_direct_listener :: "bool option"
  urc_public_endpoint :: "ListenerPublicEndpoint option"
  urc_enabled :: bool

record ResidentialRotationResult =
  rrr_channel_id :: jstr
  rrr_session_index :: int
  rrr_pool_size :: int
  rrr_exit_ip :: "jstr option"
  rrr_latency_ms :: "int option"
  rrr_rotated_at :: jstr
  rrr_pool_refreshed :: bool

record FleetWorker =
  fw_worker_name :: jstr
  fw_canonical_url :: jstr
  fw_provider_id :: jstr
  fw_failures :: int
  fw_last_check :: jstr
  fw_last_detail :: jstr

record FleetAccount =
  fa_id :: jstr
  fa_email :: jstr
  fa_status :: jstr
  fa_banned_at :: jstr
  fa_workers :: "FleetWorker list"

record FleetSummaryAccount =
  fsa_email :: jstr
  fsa_status :: jstr
  fsa_workers :: "(jstr list) option"
  fsa_healthy :: "int option"

record FleetSummary =
  fsu_at :: jstr
  fsu_accounts :: "(FleetSummaryAccount list) option"
  fsu_total_workers :: "int option"

record FleetStatus =
  fst_accounts :: "FleetAccount list"
  fst_total_workers :: int
  fst_last_summary :: "(FleetSummary) option"

record AddFleetAccountRequest =
  afa_email :: jstr
  afa_cf_account_id :: jstr
  afa_api_token :: jstr

record AlertRecord =
  al_id :: jstr
  al_rule :: jstr
  al_target_id :: jstr
  al_target_name :: jstr
  al_severity :: AlertSeverity
  al_status :: AlertStatus
  al_message :: jstr
  al_fired_at :: jstr
  al_resolved_at :: "jstr option"
  al_last_notified_at :: "jstr option"
  al_notify_count :: int
  al_acknowledged :: bool

record AlertList =
  als_items :: "AlertRecord list"

record AlertSettings =
  ase_enabled :: bool
  ase_configured :: bool
  ase_host :: "jstr option"
  ase_port :: "int option"
  ase_security :: "jstr option"
  ase_username :: "jstr option"
  ase_has_password :: bool
  ase_from :: "jstr option"
  ase_to :: "(jstr list) option"

record UpdateAlertSettingsRequest =
  uas_enabled :: bool
  uas_host :: jstr
  uas_port :: jnum
  uas_security :: jstr
  uas_username :: jstr
  uas_password :: jstr
  uas_from :: jstr
  uas_to :: "jstr list"

record TerminalStatus =
  tst_enabled :: bool
  tst_active_sessions :: int
  tst_max_sessions :: int
  tst_idle_timeout_seconds :: int
  tst_max_lifetime_seconds :: int
  tst_privileged :: bool
  tst_two_factor_configured :: bool
  tst_two_factor_enabled :: bool
  tst_two_factor_verified :: bool
  tst_two_factor_verification_ttl_seconds :: int

record TerminalProcessResource =
  tpr_name :: jstr
  tpr_pid :: int
  tpr_cpu_usage_pct :: rat
  tpr_memory_rss_bytes :: int

record TerminalHostSample =
  ths_timestamp :: jstr
  ths_cpu_usage_pct :: rat
  ths_cpu_count :: int
  ths_load1 :: rat
  ths_load5 :: rat
  ths_load15 :: rat
  ths_memory_total_bytes :: int
  ths_memory_used_bytes :: int
  ths_memory_cached_bytes :: int
  ths_swap_total_bytes :: int
  ths_swap_used_bytes :: int
  ths_net_rx_bytes_per_sec :: int
  ths_net_tx_bytes_per_sec :: int
  ths_processes :: "TerminalProcessResource list"

record DiskUsage =
  du_filesystem :: jstr
  du_size_bytes :: int
  du_used_bytes :: int
  du_avail_bytes :: int
  du_use_percent :: rat
  du_mounted_on :: jstr

record DockerContainer =
  dc_id :: jstr
  dc_name :: jstr
  dc_image :: jstr
  dc_state :: jstr
  dc_status :: jstr
  dc_ports :: jstr
  dc_created :: jstr
  dc_cpu_perc :: "jstr option"
  dc_mem_usage :: "jstr option"
  dc_mem_perc :: "jstr option"
  dc_net_io :: "jstr option"
  dc_block_io :: "jstr option"

record TerminalFileEntry =
  tfe_name :: jstr
  tfe_size :: int
  tfe_mode :: jstr
  tfe_is_dir :: bool
  tfe_modified :: jstr

record TerminalFileList =
  tfl_path :: jstr
  tfl_parent :: jstr
  tfl_entries :: "TerminalFileEntry list"

record TwoFactorStatus =
  tfs_configured :: bool
  tfs_enabled :: bool
  tfs_verified :: bool
  tfs_verification_ttl_seconds :: int

record TwoFactorSetup =
  tfu_secret :: jstr
  tfu_otpauth_url :: jstr

record NodeQualitySettings =
  nqs_check_interval_seconds :: int
  nqs_timeout_seconds :: int
  nqs_batch_size :: int
  nqs_probe_concurrency :: int
  nqs_test_url :: jstr
  nqs_health_targets :: "HealthTarget list"

record AuthStatus =
  aus_configured :: bool
  aus_authenticated :: bool
  aus_username :: "jstr option"
  aus_csrf_token :: "jstr option"

record APIKeyItem =
  aki_id :: jstr
  aki_name :: jstr
  aki_created_at :: jstr
  aki_last_used_at :: jstr
  aki_key :: "jstr option"

record LoginResult =
  lr_username :: jstr
  lr_csrf_token :: jstr
  lr_expires_at :: jstr

end
