(* ===== verification/Api.thy ===== *)
theory Api
  imports Uri Types
begin

text \<open>
  The HTTP client of web/src/lib/api.ts. \<open>request\<close> has one suspension point, the \<open>fetch\<close>; the model
  has one definition per half: \<open>send\<close> computes the request from the client state at the call,
  \<open>settle\<close> computes the outcome (and whether the unauthenticated handler runs) from the client
  state when the response is there. The network is the argument that stands between the two.
\<close>

section \<open>Requests and responses\<close>

text \<open>Values of the object literals that are sent, and the payloads declared as interfaces.\<close>

datatype jval = JStr jstr | JBool bool | JStrs "jstr list"

datatype payload =
    Fields "(string \<times> jval) list"
  | PAlertSettings UpdateAlertSettingsRequest
  | PCreateSubscription CreateSubscriptionRequest
  | PUpdateSubscription UpdateSubscriptionRequest
  | PNodeQuality NodeQualitySettings
  | PGlobalSettings GlobalSettings
  | PRoutingRules RoutingRulesConfig
  | PCreateProxyGroup CreateProxyGroupRequest
  | PUpdateProxyGroup UpdateProxyGroupRequest
  | PCreateListener CreateListenerRequest
  | PCreateProxyService CreateProxyServiceRequest
  | PUpdateProxyService UpdateProxyServiceRequest
  | PUpdateListener UpdateListenerRequest
  | PCreateProvider CreateResidentialProviderRequest
  | PUpdateProvider UpdateResidentialProviderRequest
  | PCreateChannel CreateResidentialChannelRequest
  | PUpdateChannel UpdateResidentialChannelRequest
  | PFleetAccount AddFleetAccountRequest

text \<open>A body is absent, the JSON text of a payload (never empty), or a form with one file.\<close>

record upload_file =
  file_name :: jstr
  file_bytes :: "nat list"

datatype req_body = NoBody | JsonText payload | FormBody string upload_file

type_synonym headers = "(jstr \<times> jstr) list"

record request_init =
  in_method :: "jstr option"
  in_headers :: headers
  in_body :: req_body

type_synonym http_call = "jstr \<times> request_init"

record fetch_call =
  fc_path :: jstr
  fc_method :: jstr
  fc_headers :: headers
  fc_body :: req_body

text \<open>
  A response: the status, the parsed body (None when it is not JSON of the expected type), the
  body read as an error payload, the body as text.
\<close>

record 'a http_response =
  rs_status :: int
  rs_json :: "'a option"
  rs_error :: "ApiErrorPayload option"
  rs_text :: jstr

datatype js_error =
    ApiError (err_message: jstr) (err_status: int) (err_code: "jstr option") (err_request: "jstr option")
  | NetworkError jstr
  | SyntaxError
  | TypeError
  | RangeError
  | URIError

type_synonym 'a outcome = "js_error + 'a"

section \<open>The Headers interface\<close>

definition headers_has :: "headers \<Rightarrow> string \<Rightarrow> bool" where
  "headers_has h name \<longleftrightarrow> to_lower (js name) \<in> set (map fst h)"

definition headers_get :: "headers \<Rightarrow> string \<Rightarrow> jstr option" where
  "headers_get h name = map_of h (to_lower (js name))"

definition headers_set :: "headers \<Rightarrow> string \<Rightarrow> jstr \<Rightarrow> headers" where
  "headers_set h name v = put_by fst (to_lower (js name), v) h"

definition headers_append :: "headers \<Rightarrow> jstr \<times> jstr \<Rightarrow> headers" where
  "headers_append h entry =
     (case map_of h (to_lower (fst entry)) of
        None \<Rightarrow> h @ [(to_lower (fst entry), snd entry)]
      | Some old \<Rightarrow> put_by fst (to_lower (fst entry), old @ js '', '' @ snd entry) h)"

definition new_headers :: "(jstr \<times> jstr) list \<Rightarrow> headers" where
  "new_headers entries = foldl headers_append [] entries"

section \<open>The module state and request\<close>

record client =
  csrf_token :: jstr
  on_unauthenticated :: bool

definition initial_client :: client where
  "initial_client = \<lparr>csrf_token = [], on_unauthenticated = False\<rparr>"

definition setCsrfToken :: "jstr \<Rightarrow> client \<Rightarrow> client" where
  "setCsrfToken token c = c\<lparr>csrf_token := token\<rparr>"

definition setUnauthenticatedHandler :: "bool \<Rightarrow> client \<Rightarrow> client" where
  "setUnauthenticatedHandler handler c = c\<lparr>on_unauthenticated := handler\<rparr>"

definition send :: "client \<Rightarrow> http_call \<Rightarrow> fetch_call" where
  "send c call =
     (let (path, init) = call;
          h0 = new_headers (in_headers init);
          h1 = (case in_body init of
                  JsonText _ \<Rightarrow>
                    if \<not> headers_has h0 ''Content-Type''
                    then headers_set h0 ''Content-Type'' (js ''application/json'') else h0
                | _ \<Rightarrow> h0);
          given = or_default (in_method init) (js ''GET'');
          method = to_upper given;
          h2 = (if csrf_token c \<noteq> [] \<and> method \<noteq> js ''GET'' \<and> method \<noteq> js ''HEAD''
                then headers_set h1 ''X-CSRF-Token'' (csrf_token c) else h1)
      in \<lparr>fc_path = path, fc_method = given, fc_headers = h2, fc_body = in_body init\<rparr>)"

definition response_ok :: "'a http_response \<Rightarrow> bool" where
  "response_ok r \<longleftrightarrow> 200 \<le> rs_status r \<and> rs_status r \<le> 299"

text \<open>The fallback message is "request failed: HTTP n" in Chinese.\<close>

definition failure_message :: "int \<Rightarrow> jstr" where
  "failure_message status =
     [0x8BF7, 0x6C42, 0x5931, 0x8D25, 0xFF1A] @ js ''HTTP '' @ show_int status"

definition failure :: "'a http_response \<Rightarrow> js_error" where
  "failure r =
     (let body = Option.bind (rs_error r) aep_error;
          message = or_default (Option.bind body aeb_message) []
      in ApiError
           (if message \<noteq> [] then message else failure_message (rs_status r))
           (rs_status r)
           (Option.bind body aeb_code)
           (Option.bind body aeb_request_id))"

text \<open>The outcome is \<open>Inr None\<close> for the \<open>undefined\<close> of a 204; the flag says that the handler runs.\<close>

definition settle :: "client \<Rightarrow> jstr \<Rightarrow> jstr + 'a http_response \<Rightarrow> bool \<times> 'a option outcome" where
  "settle c path answer =
     (case answer of
        Inl message \<Rightarrow> (False, Inl (NetworkError message))
      | Inr r \<Rightarrow>
          (rs_status r = 401 \<and> \<not> prefix (js ''/api/v1/auth/'') path \<and> on_unauthenticated c,
           if \<not> response_ok r then Inl (failure r)
           else if rs_status r = 204 then Inr None
           else (case rs_json r of None \<Rightarrow> Inl SyntaxError | Some v \<Rightarrow> Inr (Some v))))"

text \<open>Both halves around a network that answers.\<close>

definition request ::
  "client \<Rightarrow> (fetch_call \<Rightarrow> jstr + 'a http_response) \<Rightarrow> http_call \<Rightarrow> bool \<times> 'a option outcome" where
  "request c fetch call = settle c (fst call) (fetch (send c call))"

section \<open>What a request carries\<close>

lemma headers_has_get: "headers_has h name \<longleftrightarrow> headers_get h name \<noteq> None"
  by (auto simp: headers_has_def headers_get_def map_of_eq_None_iff)

lemma headers_get_set:
  "headers_get (headers_set h name v) name' =
     (if to_lower (js name') = to_lower (js name) then Some v else headers_get h name')"
  by (simp add: headers_get_def headers_set_def map_of_put_by)

lemma header_names_differ: "to_lower (js ''X-CSRF-Token'') \<noteq> to_lower (js ''Content-Type'')"
  by (simp add: to_lower_def js_eval lower_unit_def)

definition mutating :: "request_init \<Rightarrow> bool" where
  "mutating init \<longleftrightarrow> to_upper (or_default (in_method init) (js ''GET'')) \<notin> {js ''GET'', js ''HEAD''}"

lemma send_csrf:
  "headers_get (fc_headers (send c (path, init))) ''X-CSRF-Token'' =
     (if csrf_token c \<noteq> [] \<and> mutating init then Some (csrf_token c)
      else headers_get (new_headers (in_headers init)) ''X-CSRF-Token'')"
  unfolding send_def Let_def prod.case fetch_call.simps mutating_def
  by (simp add: headers_get_set header_names_differ split: req_body.split)

lemma send_content_type:
  "headers_get (fc_headers (send c (path, init))) ''Content-Type'' =
     (case in_body init of
        JsonText _ \<Rightarrow>
          Some (or_default (headers_get (new_headers (in_headers init)) ''Content-Type'') (js ''application/json''))
      | _ \<Rightarrow> headers_get (new_headers (in_headers init)) ''Content-Type'')"
  unfolding send_def Let_def prod.case fetch_call.simps headers_has_get
  by (cases "headers_get (new_headers (in_headers init)) ''Content-Type''")
    (simp_all add: headers_get_set header_names_differ[symmetric] split: req_body.split)

lemma send_frame: "fc_path (send c (path, init)) = path" "fc_body (send c (path, init)) = in_body init"
  by (simp_all add: send_def Let_def)

text \<open>
  C36: the CSRF token goes with every mutating request as soon as there is one and with no other
  request; a JSON body is labelled unless the caller labelled it; nothing else of the request
  changes.
\<close>

theorem send_headers:
  "let r = send c (path, init); given = new_headers (in_headers init) in
     headers_get (fc_headers r) ''X-CSRF-Token'' =
       (if csrf_token c \<noteq> [] \<and> mutating init then Some (csrf_token c) else headers_get given ''X-CSRF-Token'') \<and>
     headers_get (fc_headers r) ''Content-Type'' =
       (case in_body init of
          JsonText _ \<Rightarrow> Some (or_default (headers_get given ''Content-Type'') (js ''application/json''))
        | _ \<Rightarrow> headers_get given ''Content-Type'') \<and>
     fc_path r = path \<and> fc_body r = in_body init"
  by (simp only: Let_def send_csrf send_content_type send_frame simp_thms)

section \<open>How a response settles\<close>

lemma failure_message_not_Nil [simp]: "failure_message status \<noteq> []"
  by (simp add: failure_message_def)

lemma failure_shows:
  obtains message code rid where "failure r = ApiError message (rs_status r) code rid" "message \<noteq> []"
  by (rule that[of _ "Option.bind (Option.bind (rs_error r) aep_error) aeb_code"
        "Option.bind (Option.bind (rs_error r) aep_error) aeb_request_id"])
    (auto simp: failure_def Let_def simp del: bind_assoc split: if_splits)


end
