(* ===== verification/NodeStream.thy ===== *)
theory NodeStream
  imports Api
begin

text \<open>
  \<open>streamNodeChecks\<close> of web/src/lib/api.ts: the request it sends, the error it throws before
  reading, and the loop that cuts the decoded body into lines and hands each parsed line to the
  progress callback. \<open>JSON.parse\<close> is a parameter (None for its \<open>SyntaxError\<close>); the reader is the
  list of the values it returns, with how it ends.
\<close>

section \<open>The request\<close>

definition stream_send :: "client \<Rightarrow> jstr list \<Rightarrow> fetch_call" where
  "stream_send c nodeIds =
     (let h = new_headers [(js ''Content-Type'', js ''application/json''),
                           (js ''Accept'', js ''application/x-ndjson'')];
          h' = (if csrf_token c \<noteq> [] then headers_set h ''X-CSRF-Token'' (csrf_token c) else h)
      in \<lparr>fc_path = js ''/api/v1/nodes?stream=1'', fc_method = js ''POST'', fc_headers = h',
          fc_body = JsonText (Fields [(''node_ids'', JStrs nodeIds)])\<rparr>)"

text \<open>The message for a response without a body says that the progress cannot be read.\<close>

definition unreadable_message :: jstr where
  "unreadable_message =
     [0x6D4B, 0x901F, 0x8FDB, 0x5EA6, 0x54CD, 0x5E94, 0x4E0D, 0x53EF, 0x8BFB]"

definition stream_check :: "client \<Rightarrow> bool \<Rightarrow> 'a http_response \<Rightarrow> bool \<times> js_error option" where
  "stream_check c has_body r =
     (rs_status r = 401 \<and> on_unauthenticated c,
      if \<not> response_ok r then Some (failure r)
      else if \<not> has_body then Some (ApiError unreadable_message (rs_status r) None None)
      else None)"

section \<open>The read loop\<close>

text \<open>Lines handed to the callback until one does not parse.\<close>

fun deliver :: "(jstr \<Rightarrow> 'p option) \<Rightarrow> jstr list \<Rightarrow> 'p list \<times> js_error option" where
  "deliver parse [] = ([], None)"
| "deliver parse (line # rest) =
     (if trim line \<noteq> [] then
        (case parse line of
           None \<Rightarrow> ([], Some SyntaxError)
         | Some p \<Rightarrow> (let (ps, e) = deliver parse rest in (p # ps, e)))
      else deliver parse rest)"

text \<open>
  One round of the loop: the buffer is extended, all lines but the last are delivered, the last
  part stays in the buffer.
\<close>

definition pump :: "(jstr \<Rightarrow> 'p option) \<Rightarrow> jstr \<Rightarrow> jstr \<Rightarrow> 'p list \<times> (js_error + jstr)" where
  "pump parse buffer chunk =
     (let lines = split_on newline (buffer @ chunk);
          (ps, e) = deliver parse (butlast lines)
      in (ps, case e of Some err \<Rightarrow> Inl err | None \<Rightarrow> Inr (last lines)))"

text \<open>How the reader ends: \<open>done\<close> (with no chunk), or a rejection (an abort or a lost connection).\<close>

datatype reader_end = Done | Rejected js_error

fun read_stream ::
  "(jstr \<Rightarrow> 'p option) \<Rightarrow> jstr \<Rightarrow> jstr list \<Rightarrow> reader_end \<Rightarrow> 'p list \<times> js_error option" where
  "read_stream parse buffer [] (Rejected e) = ([], Some e)"
| "read_stream parse buffer [] Done =
     (case pump parse buffer [] of
        (ps, Inl e) \<Rightarrow> (ps, Some e)
      | (ps, Inr rest) \<Rightarrow>
          if trim rest \<noteq> [] then
            (case parse rest of None \<Rightarrow> (ps, Some SyntaxError) | Some p \<Rightarrow> (ps @ [p], None))
          else (ps, None))"
| "read_stream parse buffer (chunk # chunks) ending =
     (case pump parse buffer chunk of
        (ps, Inl e) \<Rightarrow> (ps, Some e)
      | (ps, Inr rest) \<Rightarrow>
          (let (qs, e) = read_stream parse rest chunks ending in (ps @ qs, e)))"

definition streamNodeChecks ::
  "(jstr \<Rightarrow> 'p option) \<Rightarrow> client \<Rightarrow> bool \<Rightarrow> jstr + 'a http_response \<Rightarrow> jstr list \<Rightarrow> reader_end
     \<Rightarrow> 'p list \<times> js_error option" where
  "streamNodeChecks parse c has_body answer chunks ending =
     (case answer of
        Inl message \<Rightarrow> ([], Some (NetworkError message))
      | Inr r \<Rightarrow>
          (case snd (stream_check c has_body r) of
             Some e \<Rightarrow> ([], Some e)
           | None \<Rightarrow> read_stream parse [] chunks ending))"

section \<open>Delivery does not depend on the chunks\<close>

lemma deliver_append:
  "deliver parse (xs @ ys) =
     (case deliver parse xs of
        (ps, Some e) \<Rightarrow> (ps, Some e)
      | (ps, None) \<Rightarrow> (let (qs, e) = deliver parse ys in (ps @ qs, e)))"
  by (induction xs) (auto split: option.splits prod.splits)

lemma deliver_single:
  "deliver parse [line] =
     (if trim line \<noteq> [] then (case parse line of None \<Rightarrow> ([], Some SyntaxError) | Some p \<Rightarrow> ([p], None))
      else ([], None))"
  by (auto split: option.splits)

lemma split_parts: "split_on c s = butlast (split_on c s) @ [last (split_on c s)]"
  by simp

lemma read_done:
  "read_stream parse buffer chunks Done = deliver parse (split_on newline (buffer @ concat chunks))"
proof (induction chunks arbitrary: buffer)
  case Nil
  let ?l = "split_on newline buffer"
  obtain ps e where b: "deliver parse (butlast ?l) = (ps, e)" by (cases "deliver parse (butlast ?l)")
  have "deliver parse ?l = deliver parse (butlast ?l @ [last ?l])" by simp
  also have "\<dots> = read_stream parse buffer [] Done"
    using b by (cases e) (simp_all add: pump_def deliver_append deliver_single Let_def del: append_butlast_last_id split: option.splits)
  finally show ?case by simp
next
  case (Cons chunk chunks)
  let ?l = "split_on newline (buffer @ chunk)" and ?rest = "concat chunks"
  have cut: "split_on newline (buffer @ chunk @ ?rest)
      = butlast ?l @ split_on newline (last ?l @ ?rest)"
  proof -
    have "newline \<notin> set (last ?l)" 
      using split_on_parts[OF last_in_set[OF split_on_not_Nil]] .
    then have "split_on newline (last ?l) = [last ?l]" by (rule split_on_no_sep)
    then have "split_on newline (last ?l @ ?rest)
        = (last ?l @ hd (split_on newline ?rest)) # tl (split_on newline ?rest)"
      using split_on_append[of newline "last ?l" ?rest] by simp
    then show ?thesis using split_on_append[of newline "buffer @ chunk" ?rest] by simp
  qed
  show ?case
    using Cons[of "last ?l"]
    by (auto simp: pump_def cut deliver_append split: option.splits prod.splits)
qed

text \<open>
  C40: however the network cuts the body into chunks, the callback receives exactly the parsed
  non-blank lines of the whole body in order, up to the first line that does not parse.
\<close>

theorem streamNodeChecks_chunking:
  assumes "response_ok r" and "concat chunks = concat chunks'"
  shows "streamNodeChecks parse c True (Inr r) chunks Done =
      streamNodeChecks parse c True (Inr r) chunks' Done \<and>
    streamNodeChecks parse c True (Inr r) chunks Done =
      deliver parse (split_on newline (concat chunks))"
  using assms by (simp add: streamNodeChecks_def stream_check_def read_done)

definition sample_response :: "unit http_response" where
  "sample_response = \<lparr>rs_status = 200, rs_json = None, rs_error = None, rs_text = []\<rparr>"

theorem streamNodeChecks_chunking_witness:
  "streamNodeChecks Some initial_client True (Inr sample_response)
      [js ''{1'', js ''}'' @ [newline] @ js ''{'', js ''2}''] Done = ([js ''{1}'', js ''{2}''], None)"
proof -
  have ok: "response_ok sample_response" by (simp add: response_ok_def sample_response_def)
  have "trim (js ''{1}'') = js ''{1}''" "trim (js ''{2}'') = js ''{2}''"
    by (simp_all add: js_eval string_defs is_space_def)
  then show ?thesis
    using streamNodeChecks_chunking[OF ok, of "[js ''{1'', js ''}'' @ [newline] @ js ''{'', js ''2}'']"
        "[js ''{1'', js ''}'' @ [newline] @ js ''{'', js ''2}'']" Some initial_client]
    by (simp add: js_eval)
qed

end
