(* ===== verification/TerminalCwd.thy ===== *)
theory TerminalCwd
  imports Uri
begin

text \<open>
  The path helpers and the OSC 7 parser of web/src/lib/terminal-cwd.ts: \<open>parentPath\<close>,
  \<open>normalizePath\<close>, \<open>quoteForShell\<close>, \<open>detectOsc7Directory\<close> with its pattern written as a
  matcher, and the rolling scanner of \<open>createOsc7Scanner\<close>. The lemmas relate the helpers to
  an abstract path (the list of its names), the quoting to a reader of POSIX single quotes, and
  the scanner to the undivided output stream.
\<close>

section \<open>Path helpers\<close>

definition parentPath :: "jstr \<Rightarrow> jstr option" where
  "parentPath path =
     (let trimmed = rev (dropWhile (\<lambda>u. u = slash) (rev path)) in
      if trimmed = [] \<or> trimmed = [slash] then None
      else (case last_index_of trimmed slash of
              None \<Rightarrow> Some [slash]
            | Some i \<Rightarrow> if i = 0 then Some [slash] else Some (take i trimmed)))"

definition resolve_segment :: "jstr list \<Rightarrow> jstr \<Rightarrow> jstr list" where
  "resolve_segment resolved segment =
     (if segment = [] \<or> segment = js ''.'' then resolved
      else if segment = js ''..'' then (if resolved \<noteq> [] then butlast resolved else resolved)
      else resolved @ [segment])"

definition normalizePath :: "jstr \<Rightarrow> jstr" where
  "normalizePath path =
     (let absolute = prefix [slash] path;
          resolved = foldl resolve_segment [] (split_on slash path)
      in if absolute then slash # join [slash] resolved
         else or_default (nonempty (join [slash] resolved)) (js ''.''))"

text \<open>\<open>path.replace(/'/g, ...)\<close>: each quote (39) becomes quote, backslash (92), quote, quote.\<close>

definition quoteForShell :: "jstr \<Rightarrow> jstr" where
  "quoteForShell path =
     39 # concat (map (\<lambda>u. if u = 39 then [39, 92, 39, 39] else [u]) path) @ [39]"

section \<open>The OSC 7 parser\<close>

definition esc :: nat where "esc = 0x1B"
definition bel :: nat where "bel = 0x07"

definition osc7_intro :: jstr where "osc7_intro = esc # js '']7;''"

text \<open>
  One attempt of the pattern at the head of the text: the captured group and what follows the
  match. The capture cannot contain BEL or ESC, so the greedy group ends at the first of them
  and no backtracking can succeed where this attempt fails.
\<close>

definition osc7_match :: "jstr \<Rightarrow> (jstr \<times> jstr) option" where
  "osc7_match s =
     (if prefix osc7_intro s then
        (let body = drop 4 s;
             body' = (if prefix (js ''file://'') body then drop 7 body else body);
             stop = (\<lambda>u. u \<noteq> bel \<and> u \<noteq> esc)
         in case dropWhile stop body' of
              [] \<Rightarrow> None
            | u # rest \<Rightarrow>
                if u = bel then Some (takeWhile stop body', rest)
                else if prefix [92] rest then Some (takeWhile stop body', tl rest)
                else None)
      else None)"

definition osc7Path :: "jstr \<Rightarrow> jstr option" where
  "osc7Path value =
     (let trimmed = trim value in
      if trimmed = [] then None
      else case (if prefix [slash] trimmed then Some trimmed
                 else map_option (\<lambda>i. drop i trimmed) (index_of trimmed slash)) of
             None \<Rightarrow> None
           | Some path \<Rightarrow>
               (let decoded = or_default (decodeURIComponent path) path in
                if \<not> prefix [slash] decoded then None else Some (normalizePath decoded)))"

lemma osc7_match_length: "osc7_match s = Some (raw, rest) \<Longrightarrow> length rest < length s"
proof -
  assume m: "osc7_match s = Some (raw, rest)"
  let ?stop = "\<lambda>u. u \<noteq> bel \<and> u \<noteq> esc"
  let ?b = "if prefix (js ''file://'') (drop 4 s) then drop 7 (drop 4 s) else drop 4 s"
  from m obtain u r where r: "dropWhile ?stop ?b = u # r" and rest: "length rest \<le> length r"
    by (auto simp: osc7_match_def Let_def split: if_splits list.splits)
  have "length (dropWhile ?stop ?b) \<le> length ?b" by (rule length_dropWhile_le)
  also have "\<dots> \<le> length s" by simp
  finally show ?thesis using r rest by simp
qed

text \<open>The \<open>exec\<close> loop with \<open>lastIndex\<close>: the leftmost match, then on from its end.\<close>

function osc7_scan :: "jstr option \<Rightarrow> jstr \<Rightarrow> jstr option" where
  "osc7_scan found [] = found"
| "osc7_scan found (u # s) =
     (case osc7_match (u # s) of
        None \<Rightarrow> osc7_scan found s
      | Some (raw, rest) \<Rightarrow>
          osc7_scan (case osc7Path raw of Some path \<Rightarrow> Some path | None \<Rightarrow> found) rest)"
  by pat_completeness auto
termination
  by (relation "measure (\<lambda>(_, s). length s)") (auto dest: osc7_match_length)

definition detectOsc7Directory :: "jstr \<Rightarrow> jstr option" where
  "detectOsc7Directory chunk = osc7_scan None chunk"

definition scanBufferLimit :: nat where "scanBufferLimit = 4096"

text \<open>
  \<open>feed\<close>: the scanner's state is its buffer; the result is the reported directory and the
  new buffer. A reported directory starts with a slash, so it is never the falsy empty string.
\<close>

definition feed :: "jstr \<Rightarrow> jstr \<Rightarrow> jstr option \<times> jstr" where
  "feed buffer text =
     (let whole = buffer @ text;
          bounded = (if length whole > scanBufferLimit then slice_last scanBufferLimit whole else whole)
      in case detectOsc7Directory bounded of
           Some directory \<Rightarrow> if directory \<noteq> [] then (Some directory, []) else (Some directory, bounded)
         | None \<Rightarrow> (None, bounded))"

definition scanner_reset :: jstr where "scanner_reset = []"

fun feed_all :: "jstr \<Rightarrow> jstr list \<Rightarrow> jstr option list \<times> jstr" where
  "feed_all buffer [] = ([], buffer)"
| "feed_all buffer (t # ts) =
     (let (d, buffer') = feed buffer t; (ds, buffer'') = feed_all buffer' ts in (d # ds, buffer''))"

section \<open>Paths as lists of names\<close>

text \<open>
  The abstract path: the names from the root, none of them empty, a dot, a double dot or with a
  slash inside. \<open>render\<close> writes it the way the server does.
\<close>

definition proper_name :: "jstr \<Rightarrow> bool" where
  "proper_name n \<longleftrightarrow> n \<noteq> [] \<and> n \<noteq> js ''.'' \<and> n \<noteq> js ''..'' \<and> slash \<notin> set n"

definition render :: "jstr list \<Rightarrow> jstr" where
  "render ns = slash # join [slash] ns"

text \<open>The walk a kernel makes through a sequence of components, from the root.\<close>

fun walk :: "jstr list \<Rightarrow> jstr list \<Rightarrow> jstr list" where
  "walk here [] = here"
| "walk here (c # cs) =
     (if c = [] \<or> c = js ''.'' then walk here cs
      else if c = js ''..'' then walk (butlast here) cs
      else walk (here @ [c]) cs)"

lemma foldl_resolve_walk: "foldl resolve_segment here cs = walk here cs"
  by (induction cs arbitrary: here) (auto simp: resolve_segment_def)

lemma walk_proper:
  "list_all proper_name here \<Longrightarrow> (\<And>c. c \<in> set cs \<Longrightarrow> slash \<notin> set c) \<Longrightarrow> list_all proper_name (walk here cs)"
proof (induction cs arbitrary: here)
  case (Cons c cs)
  have rest: "slash \<notin> set d" if "d \<in> set cs" for d using Cons.prems(2) that by simp
  have pop: "list_all proper_name (butlast here)"
    using Cons.prems(1) by (auto simp: list_all_iff dest: in_set_butlastD)
  have push: "list_all proper_name (here @ [c])" if "c \<noteq> []" "c \<noteq> js ''.''" "c \<noteq> js ''..''"
    using Cons.prems that by (simp add: proper_name_def[of c])
  show ?case
    using Cons.IH[OF Cons.prems(1) rest] Cons.IH[OF pop rest] Cons.IH[OF push rest] by simp
qed simp

lemma walk_of_proper: "list_all proper_name cs \<Longrightarrow> walk here cs = here @ cs"
  by (induction cs arbitrary: here) (auto simp: proper_name_def)

lemma walk_append: "walk here (cs @ ds) = walk (walk here cs) ds"
  by (induction cs arbitrary: here) auto

lemma proper_no_slash: "list_all proper_name ns \<Longrightarrow> n \<in> set ns \<Longrightarrow> slash \<notin> set n"
  by (auto simp: list_all_iff proper_name_def)

lemma split_render:
  "list_all proper_name ns \<Longrightarrow> split_on slash (render ns) = [] # (if ns = [] then [[]] else ns)"
  by (auto simp: render_def split_on_join proper_no_slash)

lemma normalizePath_walk:
  "normalizePath (slash # p) = render (walk [] (split_on slash p))"
  unfolding normalizePath_def Let_def foldl_resolve_walk by (simp add: render_def)

lemma normalizePath_render: "list_all proper_name ns \<Longrightarrow> normalizePath (render ns) = render ns"
  using split_render[of ns] walk_of_proper[of ns "[]"]
  by (auto simp: normalizePath_walk render_def split: if_splits)

lemma normalizePath_absolute:
  obtains ns where "list_all proper_name ns" "normalizePath (slash # p) = render ns"
  using walk_proper[of "[]" "split_on slash p"] split_on_parts normalizePath_walk by fastforce

lemma join_proper_no_lead:
  "list_all proper_name ns \<Longrightarrow> \<not> prefix [slash] (join [slash] ns)"
  by (cases ns rule: join.cases[of "([slash], ns)" for ns, simplified])
     (auto simp: proper_name_def neq_Nil_conv)

lemma normalizePath_relative:
  assumes "\<not> prefix [slash] p"
  obtains ns where "list_all proper_name ns"
    "normalizePath p = (if ns = [] then js ''.'' else join [slash] ns)"
proof -
  let ?ns = "walk [] (split_on slash p)"
  have proper: "list_all proper_name ?ns" using walk_proper[of "[]"] split_on_parts by fastforce
  then have "join [slash] ?ns = [] \<longleftrightarrow> ?ns = []"
    by (cases ?ns) (auto simp: proper_name_def neq_Nil_conv, cases "tl ?ns", auto)
  then have "normalizePath p = (if ?ns = [] then js ''.'' else join [slash] ?ns)"
    using assms by (auto simp: normalizePath_def Let_def foldl_resolve_walk)
  with proper that show thesis by blast
qed

lemma split_join_proper:
  "list_all proper_name ns \<Longrightarrow> ns \<noteq> [] \<Longrightarrow> split_on slash (join [slash] ns) = ns"
  by (rule split_on_join) (auto simp: proper_no_slash)

lemma normalizePath_relative_render:
  assumes "list_all proper_name ns"
  shows "normalizePath (if ns = [] then js ''.'' else join [slash] ns)
    = (if ns = [] then js ''.'' else join [slash] ns)"
proof (cases "ns = []")
  case True
  then show ?thesis by (simp add: normalizePath_def resolve_segment_def js_eval)
next
  case False
  have "join [slash] ns \<noteq> []"
    using assms False by (cases ns rule: join.cases[of "([slash], ns)" for ns, simplified])
      (auto simp: proper_name_def)
  with False assms show ?thesis
    unfolding normalizePath_def Let_def foldl_resolve_walk
    by (simp add: join_proper_no_lead split_join_proper walk_of_proper)
qed

lemma prefix_slash: "prefix [slash] p \<longleftrightarrow> (\<exists>q. p = slash # q)"
  by (cases p) auto

section \<open>Properties of the path helpers\<close>

text \<open>normalising a path a second time changes nothing, whatever the path.\<close>

theorem normalizePath_idem: "normalizePath (normalizePath p) = normalizePath p"
proof (cases "prefix [slash] p")
  case True
  then obtain q ns where "p = slash # q" "list_all proper_name ns" "normalizePath p = render ns"
    using normalizePath_absolute by (metis prefix_slash)
  then show ?thesis by (simp add: normalizePath_render)
next
  case False
  then obtain ns where "list_all proper_name ns"
    "normalizePath p = (if ns = [] then js ''.'' else join [slash] ns)"
    by (rule normalizePath_relative)
  then show ?thesis using normalizePath_relative_render by simp
qed

lemma last_index_of_0:
  "list_all proper_name ns \<Longrightarrow> proper_name n \<Longrightarrow>
     last_index_of (render (ns @ [n])) slash = Some (if ns = [] then 0 else length (render ns))"
proof (cases "ns = []")
  assume n: "proper_name n" and "ns \<noteq> []"
  then have "render (ns @ [n]) = render ns @ slash # n" by (simp add: render_def join_append)
  then show ?thesis using n \<open>ns \<noteq> []\<close> by (simp add: last_index_of_append proper_name_def)
next
  assume "proper_name n" "ns = []"
  then show ?thesis using last_index_of_append[of slash n "[]"] by (simp add: render_def proper_name_def)
qed

lemma render_snoc: "render (ns @ [n]) = (if ns = [] then [] else render ns) @ slash # n"
  by (simp add: render_def join_append)

lemma dropWhile_last: "s \<noteq> [] \<Longrightarrow> last s \<noteq> c \<Longrightarrow> rev (dropWhile (\<lambda>u. u = c) (rev s)) = s"
  by (cases s rule: rev_cases) auto

lemma parentPath_render:
  assumes "list_all proper_name ns" and n: "proper_name n"
  shows "parentPath (render (ns @ [n])) = Some (render ns)"
proof -
  have n': "n \<noteq> []" "slash \<notin> set n" using n by (auto simp: proper_name_def)
  then have "last n \<noteq> slash" using last_in_set by metis
  then have "last (render (ns @ [n])) \<noteq> slash" using n'(1) by (simp add: render_snoc)
  then have "rev (dropWhile (\<lambda>u. u = slash) (rev (render (ns @ [n])))) = render (ns @ [n])"
    by (intro dropWhile_last) (simp_all add: render_snoc)
  moreover have "take (length (render ns)) (render (ns @ [n])) = render ns" if "ns \<noteq> []"
    using that by (simp add: render_snoc)
  moreover have "render (ns @ [n]) \<noteq> [slash]" 
    unfolding render_snoc using n'(1) by (auto simp: append_eq_Cons_conv)
  moreover have "render (ns @ [n]) \<noteq> []" by (simp add: render_def)
  moreover have "render ns \<noteq> []" by (simp add: render_def)
  moreover have "render [] = [slash]" by (simp add: render_def)
  ultimately show ?thesis
    unfolding parentPath_def Let_def using last_index_of_0[OF assms] by simp
qed

lemma parentPath_root: "parentPath (render []) = None"
  by (simp add: parentPath_def render_def)

lemma normalizePath_append:
  "prefix [slash] p \<Longrightarrow>
     normalizePath (p @ slash # q) = render (walk (walk [] (split_on slash p)) (split_on slash q))"
proof -
  assume "prefix [slash] p"
  then obtain r where p: "p = slash # r" by (auto simp: prefix_slash)
  have "split_on slash (r @ slash # q) = split_on slash r @ split_on slash q"
    using split_on_append[of slash r "slash # q"] by simp
  with p show ?thesis by (simp add: normalizePath_walk walk_append)
qed

text \<open>going up from a child of a directory gives the directory; the root has no parent.\<close>

theorem parentPath_child:
  assumes "prefix [slash] p" and "proper_name n"
  shows "parentPath (normalizePath (p @ slash # n)) = Some (normalizePath p) \<and>
    parentPath (normalizePath [slash]) = None \<and>
    normalizePath (normalizePath (p @ slash # n) @ js ''/..'') = normalizePath p"
proof -
  let ?ns = "walk [] (split_on slash p)"
  have proper: "list_all proper_name ?ns" using walk_proper[of "[]"] split_on_parts by fastforce
  have norm: "normalizePath p = render ?ns"
    using assms(1) by (auto simp: prefix_slash normalizePath_walk)
  have child: "normalizePath (p @ slash # n) = render (?ns @ [n])"
    using assms normalizePath_append[of p n] by (simp add: proper_name_def split_on_no_sep)
  have parent: "parentPath (normalizePath (p @ slash # n)) = Some (normalizePath p)"
    using parentPath_render[OF proper assms(2)] norm child by simp
  have root: "parentPath (normalizePath [slash]) = None"
    using parentPath_root normalizePath_render[of "[]"] by (simp add: render_def)
  have dots: "split_on slash (js ''..'') = [js ''..'']" "js ''/..'' = slash # js ''..''" "js ''..'' \<noteq> js ''.''"
    by (simp_all add: js_eval)
  have "walk [] (split_on slash (render (?ns @ [n]))) = ?ns @ [n]"
    using split_render[of "?ns @ [n]"] walk_of_proper[of "?ns @ [n]" "[]"] proper assms(2) by simp
  moreover have "prefix [slash] (render (?ns @ [n]))" by (simp add: render_def)
  ultimately have "normalizePath (render (?ns @ [n]) @ slash # js ''..'') = render ?ns"
    using normalizePath_append[of "render (?ns @ [n])" "js ''..''"] dots by simp
  with parent root show ?thesis unfolding dots(2) child norm by simp
qed

theorem parentPath_child_witness:
  "parentPath (normalizePath (js ''/var//log/'' @ slash # js ''nginx'')) = Some (normalizePath (js ''/var//log/''))"
  using parentPath_child[of "js ''/var//log/''" "js ''nginx''"] by (simp add: js_eval proper_name_def)

section \<open>Quoting for the shell\<close>

text \<open>
  How a POSIX shell reads one word made of single-quoted parts and backslash-escaped characters
  (quote 39, backslash 92). The first argument says whether the reader is inside quotes; the
  result is the word and the input after it. An unquoted blank, newline or carriage return ends
  the word, any other unquoted character is outside this fragment.
\<close>

fun read_word :: "bool \<Rightarrow> jstr \<Rightarrow> (jstr \<times> jstr) option" where
  "read_word True [] = None"
| "read_word True (u # s) =
     (if u = 39 then read_word False s
      else map_option (\<lambda>(w, r). (u # w, r)) (read_word True s))"
| "read_word False [] = Some ([], [])"
| "read_word False (u # s) =
     (if u = 39 then read_word True s
      else if u = 92 then (case s of [] \<Rightarrow> None | v # s' \<Rightarrow> map_option (\<lambda>(w, r). (v # w, r)) (read_word False s'))
      else if u \<in> {32, 10, 13} then Some ([], u # s)
      else None)"

lemma read_quoted_body:
  "read_word True (concat (map (\<lambda>u. if u = 39 then [39, 92, 39, 39] else [u]) p) @ 39 # s)
     = map_option (\<lambda>(w, r). (p @ w, r)) (read_word False s)"
  by (induction p) (auto simp: option.map_comp comp_def split_def option.map_ident)


section \<open>The OSC 7 reports\<close>

text \<open>A report as the shell integration writes it: a file URL with host and escaped path, then BEL.\<close>

definition osc7_report :: "jstr \<Rightarrow> jstr \<Rightarrow> jstr" where
  "osc7_report host url_path = osc7_intro @ js ''file://'' @ host @ url_path @ [bel]"

definition clean_host :: "jstr \<Rightarrow> bool" where
  "clean_host host \<longleftrightarrow> (\<forall>u \<in> set host. u \<noteq> bel \<and> u \<noteq> esc \<and> u \<noteq> slash \<and> \<not> is_space u)"

definition clean_path :: "jstr \<Rightarrow> bool" where
  "clean_path p \<longleftrightarrow> prefix [slash] p \<and> (\<forall>u \<in> set p. u \<noteq> bel \<and> u \<noteq> esc \<and> \<not> is_space u)"

lemma prefix_before: "x \<notin> set w \<Longrightarrow> prefix w (a @ x # b) \<longleftrightarrow> prefix w a"
proof (induction w arbitrary: a)
  case (Cons u w)
  then show ?case by (cases a) auto
qed simp

lemma intro_before: "prefix osc7_intro ((u # s) @ esc # t) \<longleftrightarrow> prefix osc7_intro (u # s)"
  using prefix_before[of esc "js '']7;''" s t] by (simp add: osc7_intro_def js_eval esc_def)

lemma intro_length: "prefix osc7_intro s \<Longrightarrow> 4 \<le> length s"
  using prefix_length_le[of osc7_intro s] by (simp add: osc7_intro_def)

lemma file_before: "prefix (js ''file://'') (s @ esc # t) \<longleftrightarrow> prefix (js ''file://'') s"
  by (rule prefix_before) (simp add: js_eval esc_def)

lemma file_length: "prefix (js ''file://'') s \<Longrightarrow> 7 \<le> length s"
  using prefix_length_le[of "js ''file://''" s] by simp

text \<open>What the terminator case distinction of the pattern does after the greedy group.\<close>

definition osc7_group :: "jstr \<Rightarrow> (jstr \<times> jstr) option" where
  "osc7_group body =
     (let stop = (\<lambda>u. u \<noteq> bel \<and> u \<noteq> esc) in
      case dropWhile stop body of
        [] \<Rightarrow> None
      | u # rest \<Rightarrow>
          if u = bel then Some (takeWhile stop body, rest)
          else if prefix [92] rest then Some (takeWhile stop body, tl rest)
          else None)"

lemma osc7_match_group:
  "osc7_match s =
     (if prefix osc7_intro s
      then osc7_group (if prefix (js ''file://'') (drop 4 s) then drop 7 (drop 4 s) else drop 4 s)
      else None)"
  by (simp add: osc7_match_def osc7_group_def Let_def)

lemma osc7_group_before:
  "osc7_group (s @ esc # 93 # t) = map_option (\<lambda>(raw, rest). (raw, rest @ esc # 93 # t)) (osc7_group s)"
proof (induction s)
  case Nil
  show ?case by (simp add: osc7_group_def esc_def bel_def)
next
  case (Cons u s)
  show ?case
  proof (cases "u \<noteq> bel \<and> u \<noteq> esc")
    case True
    then have "osc7_group (u # r) = map_option (\<lambda>(raw, rest). (u # raw, rest)) (osc7_group r)" for r
      by (cases "dropWhile (\<lambda>u. u \<noteq> bel \<and> u \<noteq> esc) r")
        (simp_all add: osc7_group_def Let_def del: dropWhile_eq_Nil_conv)
    with Cons show ?thesis by (auto simp: option.map_comp comp_def split_def)
  next
    case False
    then show ?thesis by (cases s) (auto simp: osc7_group_def esc_def bel_def)
  qed
qed

lemma osc7_match_before:
  "osc7_match ((u # s) @ esc # 93 # t) =
     map_option (\<lambda>(raw, rest). (raw, rest @ esc # 93 # t)) (osc7_match (u # s))"
proof (cases "prefix osc7_intro (u # s)")
  case True
  note len = intro_length[OF True]
  from len have d4: "drop 4 ((u # s) @ esc # 93 # t) = drop 4 (u # s) @ esc # 93 # t"
    by (metis append_Nil2 diff_is_0_eq' drop0 drop_append)
  let ?f = "\<lambda>b. prefix (js ''file://'') b"
  have "osc7_group (if ?f b then drop 7 (b @ esc # 93 # t) else b @ esc # 93 # t) =
      map_option (\<lambda>(raw, rest). (raw, rest @ esc # 93 # t)) (osc7_group (if ?f b then drop 7 b else b))" for b
  proof (cases "?f b")
    case True
    then have "drop 7 (b @ esc # 93 # t) = drop 7 b @ esc # 93 # t" using file_length by simp
    with True show ?thesis by (simp only: osc7_group_before if_True)
  qed (simp add: osc7_group_before)
  with True show ?thesis
    unfolding osc7_match_group intro_before d4 file_before by (simp only: if_True)
next
  case False
  then show ?thesis unfolding osc7_match_group intro_before by simp
qed

lemma osc7_scan_before:
  "osc7_scan found (s @ esc # 93 # t) = osc7_scan (osc7_scan found s) (esc # 93 # t)"
proof (induction found s rule: osc7_scan.induct)
  case (2 found u s)
  then show ?case
    using osc7_match_before[of u s t] by (cases "osc7_match (u # s)") auto
qed simp

lemma osc7_scan_found:
  "osc7_scan found s = (case osc7_scan None s of Some d \<Rightarrow> Some d | None \<Rightarrow> found)"
proof (induction s arbitrary: found rule: measure_induct_rule[where f = length])
  case (less s)
  show ?case
  proof (cases s)
    case (Cons u s')
    show ?thesis
    proof (cases "osc7_match s")
      case None
      with Cons less[of s' found] show ?thesis by simp
    next
      case (Some m)
      obtain raw rest where m: "m = (raw, rest)" by (cases m)
      with Some have "length rest < length s" by (auto dest: osc7_match_length)
      from less[OF this, of found] less[OF this, of "osc7Path raw"] less[OF this, of None]
      show ?thesis using Some m Cons by (cases "osc7Path raw") (auto split: option.splits)
    qed
  qed simp
qed

lemma osc7_match_report:
  assumes "clean_host host" "clean_path up"
  shows "osc7_match (osc7_report host up @ t) = Some (host @ up, t)"
proof -
  let ?stop = "\<lambda>u. u \<noteq> bel \<and> u \<noteq> esc"
  have all: "\<forall>u \<in> set (host @ up). ?stop u" using assms by (auto simp: clean_host_def clean_path_def)
  have "dropWhile ?stop ((host @ up) @ bel # t) = bel # t" "takeWhile ?stop ((host @ up) @ bel # t) = host @ up"
    using all by (simp_all add: dropWhile_append2 takeWhile_append2)
  then show ?thesis
    by (simp add: osc7_match_group osc7_group_def osc7_report_def osc7_intro_def js_eval Let_def)
qed

lemma decode_slash:
  "decodeURIComponent (slash # q) = Some p \<Longrightarrow> prefix [slash] p"
  by (auto simp: slash_def)

lemma osc7Path_report:
  assumes "clean_host host" "clean_path up" "decodeURIComponent up = Some p"
  shows "osc7Path (host @ up) = Some (normalizePath p)"
proof -
  obtain q where up: "up = slash # q" using assms(2) by (auto simp: clean_path_def prefix_slash)
  have "\<not> is_space u" if "u \<in> set (host @ up)" for u
    using assms that by (auto simp: clean_host_def clean_path_def)
  then have trim: "trim (host @ up) = host @ up" by (rule trim_no_space)
  have idx: "index_of (host @ up) slash = Some (length host)"
    using assms(1) unfolding clean_host_def up by (induction host) auto
  have host: "prefix [slash] (host @ up) \<Longrightarrow> host = []"
    using assms(1) by (cases host) (auto simp: clean_host_def)
  have "prefix [slash] p" using decode_slash assms(3) up by blast
  then show ?thesis
    using assms(3) host unfolding osc7Path_def Let_def trim idx by (auto simp: up)
qed

lemma detect_report:
  assumes "clean_host host" "clean_path up" "decodeURIComponent up = Some p"
  shows "detectOsc7Directory (before @ osc7_report host up @ after) =
    (case detectOsc7Directory after of Some d \<Rightarrow> Some d | None \<Rightarrow> Some (normalizePath p))"
proof -
  let ?f = "osc7_scan None before"
  obtain t where t: "osc7_report host up @ after = esc # 93 # t"
    by (simp add: osc7_report_def osc7_intro_def js_eval)
  have "osc7_scan None (before @ osc7_report host up @ after) = osc7_scan ?f (osc7_report host up @ after)"
    unfolding t by (rule osc7_scan_before)
  also have "\<dots> = osc7_scan (Some (normalizePath p)) after"
    using osc7_match_report[OF assms(1,2), of after] osc7Path_report[OF assms] t by simp
  also have "\<dots> = (case osc7_scan None after of Some d \<Rightarrow> Some d | None \<Rightarrow> Some (normalizePath p))"
    by (rule osc7_scan_found)
  finally show ?thesis by (simp add: detectOsc7Directory_def)
qed



lemma osc7Path_canonical:
  "osc7Path raw = Some d \<Longrightarrow> prefix [slash] d \<and> normalizePath d = d"
proof -
  assume "osc7Path raw = Some d"
  then obtain q where "d = normalizePath (slash # q)"
    by (auto simp: osc7Path_def Let_def prefix_slash split: if_splits option.splits)
  moreover obtain ns where "list_all proper_name ns" "normalizePath (slash # q) = render ns"
    by (rule normalizePath_absolute)
  ultimately show ?thesis by (simp add: normalizePath_render) (simp add: render_def)
qed

lemma osc7_scan_canonical:
  assumes "\<And>d. found = Some d \<Longrightarrow> prefix [slash] d \<and> normalizePath d = d"
  shows "osc7_scan found s = Some d \<Longrightarrow> prefix [slash] d \<and> normalizePath d = d"
  using assms
proof (induction found s rule: osc7_scan.induct)
  case (2 found u s)
  show ?case
  proof (cases "osc7_match (u # s)")
    case None
    with 2 show ?thesis by simp
  next
    case (Some m)
    obtain raw rest where m: "osc7_match (u # s) = Some (raw, rest)" using Some by (cases m) simp
    let ?new = "case osc7Path raw of Some path \<Rightarrow> Some path | None \<Rightarrow> found"
    have step: "osc7_scan ?new rest = Some d" using "2.prems"(1) m by simp
    have new: "prefix [slash] e \<and> normalizePath e = e" if "?new = Some e" for e
      using "2.prems"(2) osc7Path_canonical that by (cases "osc7Path raw") auto
    show ?thesis by (rule "2.IH"(2)[OF m refl step new])
  qed
qed simp

lemma detectOsc7_nonempty: "detectOsc7Directory chunk = Some d \<Longrightarrow> d \<noteq> []"
  unfolding detectOsc7Directory_def using osc7_scan_canonical[of None chunk d] by auto

text \<open>a detected directory is always an absolute path in normal form.\<close>

theorem detectOsc7_canonical:
  "detectOsc7Directory chunk = Some d \<Longrightarrow> prefix [slash] d \<and> normalizePath d = d"
  unfolding detectOsc7Directory_def by (rule osc7_scan_canonical) auto

lemma detect_home: "detectOsc7Directory (osc7_report [] (js ''/home//me/'')) = Some (js ''/home/me'')"
  by (simp add: detectOsc7Directory_def osc7_report_def osc7_match_def osc7_intro_def osc7Path_def
      normalizePath_def resolve_segment_def trim_id is_space_def js_eval esc_def bel_def)

theorem detectOsc7_canonical_witness:
  "prefix [slash] (js ''/home/me'') \<and> normalizePath (js ''/home/me'') = js ''/home/me''"
  by (rule detectOsc7_canonical) (rule detect_home)

section \<open>The scanner and the stream\<close>

lemma feed_eq:
  "feed b t =
     (let w = slice_last scanBufferLimit (b @ t) in
      (detectOsc7Directory w, if detectOsc7Directory w = None then w else []))"
  by (auto simp: feed_def Let_def detectOsc7_nonempty split: option.splits)

lemma feed_all_bounded:
  "length b \<le> scanBufferLimit \<Longrightarrow> length (snd (feed_all b ts)) \<le> scanBufferLimit"
  by (induction ts arbitrary: b) (simp_all add: feed_eq Let_def split_def)

lemma feed_all_silent:
  "length b \<le> scanBufferLimit \<Longrightarrow> set (fst (feed_all b ts)) \<subseteq> {None} \<Longrightarrow>
     snd (feed_all b ts) = slice_last scanBufferLimit (b @ concat ts)"
proof (induction ts arbitrary: b)
  case (Cons t ts)
  then show ?case
    by (simp add: feed_eq Let_def split_def slice_last_append split: if_splits)
qed simp



end
