(* ===== verification/TerminalPage.thy ===== *)
theory TerminalPage
  imports Types TerminalCwd
begin

text \<open>
  The terminal page (web/src/pages/terminal-page.tsx): the connection of a browser terminal to
  the server's PTY. The state holds the page's refs and React states, every WebSocket the page
  ever created (the index is its identity) with what was sent on it, and the mount point of the
  terminal. Each callback of the component is a definition on that state that also returns its
  outside effects; \<open>handle\<close> dispatches the events, with the ready state the browser gives a
  socket. Decoded output and parsed control frames are what a message carries.
\<close>

section \<open>State\<close>

datatype ConnectionState = Idle | Connecting | Connected | Reconnecting | Closed
datatype TerminalTab = ShellTab | OpsTab | DockerTab
datatype ready_state = RsConnecting | RsOpen | RsClosing | RsClosed

datatype frame = InputFrame jstr | ResizeFrame | PingFrame | CwdFrame jstr

text \<open>
  A socket together with the variables of the \<open>connect\<close> call that made it: \<open>opened\<close>, \<open>isReconnect\<close>,
  \<open>pendingInput\<close> and whether \<open>inputTimer\<close> is set.
\<close>

record sock =
  sk_ready :: ready_state
  sk_opened :: bool
  sk_reconnect :: bool
  sk_pending :: jstr
  sk_timer :: bool
  sk_sent :: "frame list"

text \<open>
  The mount point (\<open>containerRef\<close>) is numbered anew each time React mounts it; \<open>pg_host\<close> is the
  mount point the xterm instance was opened in (None when there is no instance).
\<close>

record page =
  pg_status :: "TerminalStatus option"
  pg_connection :: ConnectionState
  pg_tab :: TerminalTab
  pg_container :: "nat option"
  pg_mounts :: nat
  pg_host :: "nat option"
  pg_sockets :: "sock list"
  pg_socket :: "nat option"
  pg_keepalive :: "nat option"
  pg_reconnect_timer :: bool
  pg_attempt :: nat
  pg_last_pong :: int
  pg_cwd :: jstr
  pg_osc7 :: "jstr option"
  pg_listener :: "nat option"

text \<open>Notices and terminal lines by what they say.\<close>

datatype notice =
    StatusFailed jstr | EnterSixDigits | TerminalUnlocked | VerifyFailed "jstr option"
  | VerificationLapsed | NetworkLost | ConnectFailed

datatype effect =
    Notify notice
  | FetchStatus
  | VerifyCode jstr
  | OpenTerminal nat
  | ResetTerminal
  | Fit
  | Focus
  | WriteOutput jstr
  | WriteEnded "jstr option"
  | WriteLost
  | WriteReconnected
  | StartTimeout rat
  | CloseSocket nat int

definition verified :: "page \<Rightarrow> bool" where
  "verified p = (case pg_status p of Some s \<Rightarrow> tst_two_factor_verified s | None \<Rightarrow> False)"

text \<open>The unlock prompt replaces the page when a status says that 2FA is not verified.\<close>

definition surface_shown :: "page \<Rightarrow> bool" where
  "surface_shown p \<longleftrightarrow>
     pg_tab p = ShellTab \<and> \<not> (case pg_status p of Some s \<Rightarrow> \<not> tst_two_factor_verified s | None \<Rightarrow> False)"

text \<open>React mounts and unmounts the surface after a state change.\<close>

definition render :: "page \<Rightarrow> page" where
  "render p =
     (if surface_shown p then
        (case pg_container p of
           Some c \<Rightarrow> p
         | None \<Rightarrow> p\<lparr>pg_container := Some (pg_mounts p), pg_mounts := Suc (pg_mounts p)\<rparr>)
      else p\<lparr>pg_container := None\<rparr>)"

definition initial_page :: page where
  "initial_page = render
     \<lparr>pg_status = None, pg_connection = Idle, pg_tab = ShellTab, pg_container = None, pg_mounts = 0,
      pg_host = None, pg_sockets = [], pg_socket = None, pg_keepalive = None,
      pg_reconnect_timer = False, pg_attempt = 0, pg_last_pong = 0, pg_cwd = [slash],
      pg_osc7 = None, pg_listener = None\<rparr>"

definition upd_sock :: "nat \<Rightarrow> (sock \<Rightarrow> sock) \<Rightarrow> page \<Rightarrow> page" where
  "upd_sock k f p = p\<lparr>pg_sockets := (pg_sockets p)[k := f (pg_sockets p ! k)]\<rparr>"

definition set_ready :: "ready_state \<Rightarrow> nat \<Rightarrow> page \<Rightarrow> page" where
  "set_ready r k = upd_sock k (\<lambda>s. s\<lparr>sk_ready := r\<rparr>)"

definition transmit :: "nat \<Rightarrow> frame \<Rightarrow> page \<Rightarrow> page" where
  "transmit k f = upd_sock k (\<lambda>s. s\<lparr>sk_sent := sk_sent s @ [f]\<rparr>)"

definition is_open :: "page \<Rightarrow> nat \<Rightarrow> bool" where
  "is_open p k \<longleftrightarrow> k < length (pg_sockets p) \<and> sk_ready (pg_sockets p ! k) = RsOpen"

text \<open>\<open>socketRef.current\<close> when its ready state is OPEN.\<close>

definition open_socket :: "page \<Rightarrow> nat option" where
  "open_socket p = (case pg_socket p of Some k \<Rightarrow> if is_open p k then Some k else None | None \<Rightarrow> None)"

text \<open>\<open>close()\<close> starts the closing handshake of a socket that is not closed yet.\<close>

definition close_socket :: "nat \<Rightarrow> page \<Rightarrow> page" where
  "close_socket k = upd_sock k (\<lambda>s. if sk_ready s = RsClosed then s else s\<lparr>sk_ready := RsClosing\<rparr>)"

section \<open>Directory, disconnect and status\<close>

definition updateCwd :: "jstr \<Rightarrow> page \<Rightarrow> page" where
  "updateCwd new p =
     (let p = p\<lparr>pg_cwd := new\<rparr>
      in case open_socket p of Some k \<Rightarrow> transmit k (CwdFrame new) p | None \<Rightarrow> p)"

definition status_loaded :: "TerminalStatus \<Rightarrow> page \<Rightarrow> page \<times> effect list" where
  "status_loaded s p = (p\<lparr>pg_status := Some s\<rparr>, [])"

definition status_failed :: "jstr option \<Rightarrow> page \<Rightarrow> page \<times> effect list" where
  "status_failed message p =
     (p, case message of Some m \<Rightarrow> [Notify (StatusFailed m)] | None \<Rightarrow> [])"

text \<open>The message written on the terminal names the user as the one who disconnected.\<close>

definition user_disconnect :: jstr where
  "user_disconnect = js ''user disconnect''"

definition disconnect :: "page \<Rightarrow> page \<times> effect list" where
  "disconnect p =
     (let p1 = p\<lparr>pg_reconnect_timer := False, pg_attempt := 0, pg_keepalive := None\<rparr>;
          (p2, out) =
            (case pg_socket p1 of
               Some k \<Rightarrow> (close_socket k p1,
                 CloseSocket k 1000 # (if pg_host p1 \<noteq> None then [WriteEnded (Some user_disconnect)] else []))
             | None \<Rightarrow> (p1, []))
      in (p2\<lparr>pg_socket := None, pg_connection := Closed\<rparr>, out))"

text \<open>The status poll that runs every 30 seconds.\<close>

definition poll_loaded :: "TerminalStatus \<Rightarrow> page \<Rightarrow> page \<times> effect list" where
  "poll_loaded s p =
     (let p1 = p\<lparr>pg_status := Some s\<rparr>
      in if \<not> tst_two_factor_verified s \<and> open_socket p1 \<noteq> None then disconnect p1 else (p1, []))"

definition six_digits :: "jstr \<Rightarrow> bool" where
  "six_digits s \<longleftrightarrow> length s = 6 \<and> (\<forall>u \<in> set s. 48 \<le> u \<and> u \<le> 57)"

definition unlockTerminal :: "jstr \<Rightarrow> effect list" where
  "unlockTerminal code =
     (if \<not> six_digits (trim code) then [Notify EnterSixDigits] else [VerifyCode (trim code)])"

text \<open>How the unlock ends: the fresh status, or an error (with the message of an \<open>Error\<close>).\<close>

definition unlock_done :: "jstr option + TerminalStatus \<Rightarrow> page \<Rightarrow> page \<times> effect list" where
  "unlock_done r p =
     (case r of
        Inr s \<Rightarrow> (p\<lparr>pg_status := Some s\<rparr>, [Notify TerminalUnlocked])
      | Inl message \<Rightarrow> (p, [Notify (VerifyFailed message)]))"

section \<open>Keep-alive\<close>

definition PONG_TIMEOUT_MS :: int where "PONG_TIMEOUT_MS = 60000"

definition startKeepalive :: "int \<Rightarrow> nat \<Rightarrow> page \<Rightarrow> page" where
  "startKeepalive now k p = p\<lparr>pg_keepalive := Some k, pg_last_pong := now\<rparr>"

definition keepalive_tick :: "int \<Rightarrow> page \<Rightarrow> page \<times> effect list" where
  "keepalive_tick now p =
     (case pg_keepalive p of
        None \<Rightarrow> (p, [])
      | Some k \<Rightarrow>
          if \<not> is_open p k then (p, [])
          else
            (let p1 = transmit k PingFrame p
             in if now - pg_last_pong p1 > PONG_TIMEOUT_MS
                then (close_socket k p1, [CloseSocket k 4000]) else (p1, [])))"

definition on_visible :: "page \<Rightarrow> page \<times> effect list" where
  "on_visible p = (p, if pg_host p \<noteq> None then [Fit, Focus] else [])"

definition on_resize :: "page \<Rightarrow> page \<times> effect list" where
  "on_resize p =
     (case (pg_host p, open_socket p) of
        (Some _, Some k) \<Rightarrow> (transmit k ResizeFrame p, [Fit])
      | (h, _) \<Rightarrow> (p, if h \<noteq> None then [Fit] else []))"

section \<open>Reconnecting and connecting\<close>

definition RECONNECT_BASE_MS :: nat where "RECONNECT_BASE_MS = 1000"
definition RECONNECT_MAX_MS :: nat where "RECONNECT_MAX_MS = 30000"

text \<open>\<open>rnd\<close> is the value of \<open>Math.random()\<close>.\<close>

definition reconnect_delay :: "nat \<Rightarrow> rat \<Rightarrow> rat" where
  "reconnect_delay attempt rnd =
     of_nat (min RECONNECT_MAX_MS (RECONNECT_BASE_MS * 2 ^ min attempt 5)) + rnd * 400"

definition scheduleReconnect :: "rat \<Rightarrow> page \<Rightarrow> page \<times> effect list" where
  "scheduleReconnect rnd p =
     (if pg_reconnect_timer p then (p, [])
      else
        (let attempt = pg_attempt p
         in (p\<lparr>pg_attempt := attempt + 1, pg_connection := Reconnecting, pg_reconnect_timer := True\<rparr>,
             [StartTimeout (reconnect_delay attempt rnd)])))"

definition new_socket :: "bool \<Rightarrow> sock" where
  "new_socket preserve =
     \<lparr>sk_ready = RsConnecting, sk_opened = False, sk_reconnect = preserve, sk_pending = [],
      sk_timer = False, sk_sent = []\<rparr>"

definition connect :: "bool \<Rightarrow> page \<Rightarrow> page \<times> effect list" where
  "connect preserve p =
     (case pg_container p of
        None \<Rightarrow> (p, [])
      | Some c \<Rightarrow>
          if pg_socket p \<noteq> None then (p, [])
          else
            (let p1 = p\<lparr>pg_reconnect_timer := False\<rparr> in
             if \<not> verified p1 then (p1, [FetchStatus])
             else
               (let p2 = p1\<lparr>pg_connection := Connecting\<rparr>;
                    (p3, opened) =
                      (if pg_host p2 = None then (p2\<lparr>pg_host := Some c\<rparr>, [OpenTerminal c]) else (p2, []));
                    k = length (pg_sockets p3)
                in (p3\<lparr>pg_listener := Some k, pg_sockets := pg_sockets p3 @ [new_socket preserve],
                       pg_socket := Some k, pg_osc7 := Some scanner_reset\<rparr>,
                    opened @ (if \<not> preserve then [ResetTerminal] else []) @ [Fit]))))"

definition reconnect_fires :: "page \<Rightarrow> page \<times> effect list" where
  "reconnect_fires p =
     (let p1 = p\<lparr>pg_reconnect_timer := False\<rparr>
      in if \<not> verified p1 then (p1, []) else connect True p1)"

section \<open>Socket callbacks\<close>

definition is_current :: "page \<Rightarrow> nat \<Rightarrow> bool" where
  "is_current p k \<longleftrightarrow> pg_socket p = Some k"

definition sk_flag :: "(sock \<Rightarrow> bool) \<Rightarrow> nat \<Rightarrow> page \<Rightarrow> bool" where
  "sk_flag f k p = f (pg_sockets p ! k)"

definition on_open :: "int \<Rightarrow> nat \<Rightarrow> page \<Rightarrow> page \<times> effect list" where
  "on_open now k p =
     (if \<not> is_current p k then (p, [])
      else
        (let p1 = (upd_sock k (\<lambda>s. s\<lparr>sk_opened := True\<rparr>) p)\<lparr>pg_attempt := 0, pg_connection := Connected\<rparr>;
             p2 = (if is_open p1 k then transmit k ResizeFrame p1 else p1)
         in (startKeepalive now k p2,
             [Fit, Focus] @ (if sk_flag sk_reconnect k p then [WriteReconnected] else []))))"

text \<open>
  A message is decoded output, or a control frame with the \<open>type\<close> and \<open>cwd\<close> strings found in it
  (None for a frame that is not JSON).
\<close>

record control =
  ctl_type :: "jstr option"
  ctl_cwd :: "jstr option"

datatype message = Output jstr | Control "control option"

definition on_output :: "jstr \<Rightarrow> page \<Rightarrow> page \<times> effect list" where
  "on_output text p =
     (if str_includes text osc7_intro then
        (case pg_osc7 p of
           None \<Rightarrow> (p, [WriteOutput text])
         | Some buffer \<Rightarrow>
             (let (directory, buffer') = feed buffer text;
                  p1 = p\<lparr>pg_osc7 := Some buffer'\<rparr>
              in (case directory of
                    Some d \<Rightarrow> if d \<noteq> [] \<and> d \<noteq> pg_cwd p1 then updateCwd d p1 else p1
                  | None \<Rightarrow> p1,
                  [WriteOutput text])))
      else (p, [WriteOutput text]))"

definition on_control :: "int \<Rightarrow> control option \<Rightarrow> page \<Rightarrow> page \<times> effect list" where
  "on_control now m p =
     (case m of
        None \<Rightarrow> (p, [])
      | Some c \<Rightarrow>
          if ctl_type c = Some (js ''pong'') then (p\<lparr>pg_last_pong := now\<rparr>, [])
          else if ctl_type c = Some (js ''cwd'') then
            (case ctl_cwd c of
               Some d \<Rightarrow> (if d \<noteq> [] \<and> d \<noteq> pg_cwd p then updateCwd d p else p, [])
             | None \<Rightarrow> (p, []))
          else (p, []))"

definition on_message :: "int \<Rightarrow> nat \<Rightarrow> message \<Rightarrow> page \<Rightarrow> page \<times> effect list" where
  "on_message now k m p =
     (if \<not> is_current p k then (p, [])
      else case m of Output text \<Rightarrow> on_output text p | Control c \<Rightarrow> on_control now c p)"

definition on_close :: "rat \<Rightarrow> int \<Rightarrow> jstr \<Rightarrow> nat \<Rightarrow> page \<Rightarrow> page \<times> effect list" where
  "on_close rnd code reason k p =
     (if \<not> is_current p k then (p, [])
      else
        (let p1 = p\<lparr>pg_keepalive := None, pg_socket := None,
                    pg_osc7 := map_option (\<lambda>_. scanner_reset) (pg_osc7 p)\<rparr>
         in if code = 1000 then (p1\<lparr>pg_connection := Closed\<rparr>, [FetchStatus])
            else if code = 1008 then
              (p1\<lparr>pg_connection := Closed\<rparr>,
               [FetchStatus, WriteEnded (nonempty reason), Notify VerificationLapsed])
            else
              (let p2 = p1\<lparr>pg_connection := Reconnecting\<rparr>;
                   note = (if pg_attempt p2 = 0 \<and> sk_flag sk_opened k p then [Notify NetworkLost] else []);
                   (p3, out) = scheduleReconnect rnd p2
               in (p3, [FetchStatus, WriteLost] @ note @ out))))"

definition on_error :: "nat \<Rightarrow> page \<Rightarrow> page \<times> effect list" where
  "on_error k p = (p, if is_current p k then [FetchStatus, Notify ConnectFailed] else [])"

section \<open>Input\<close>

text \<open>\<open>flushInput\<close> of the \<open>connect\<close> call that made socket \<open>k\<close>; it sends on the current socket.\<close>

definition flushInput :: "nat \<Rightarrow> page \<Rightarrow> page" where
  "flushInput k p =
     (let data = sk_pending (pg_sockets p ! k);
          p1 = upd_sock k (\<lambda>s. s\<lparr>sk_timer := False\<rparr>) p;
          p2 = (case open_socket p1 of
                  Some j \<Rightarrow> if data \<noteq> [] then transmit j (InputFrame data) p1 else p1
                | None \<Rightarrow> p1)
      in upd_sock k (\<lambda>s. s\<lparr>sk_pending := []\<rparr>) p2)"

definition is_control_input :: "jstr \<Rightarrow> bool" where
  "is_control_input data \<longleftrightarrow> (\<exists>u \<in> set data. u \<le> 0x1F) \<or> data = [0x7F]"

definition on_data :: "nat \<Rightarrow> jstr \<Rightarrow> page \<Rightarrow> page" where
  "on_data k data p =
     (if open_socket p = None then p
      else
        (let p1 = upd_sock k (\<lambda>s. s\<lparr>sk_pending := sk_pending s @ data\<rparr>) p
         in if is_control_input data \<or> 1024 \<le> length (sk_pending (pg_sockets p1 ! k)) then flushInput k p1
            else if \<not> sk_flag sk_timer k p1 then upd_sock k (\<lambda>s. s\<lparr>sk_timer := True\<rparr>) p1
            else p1))"

text \<open>The command has a leading space, so that the shell keeps it out of its history.\<close>

definition handlePanelPath :: "jstr \<Rightarrow> page \<Rightarrow> page" where
  "handlePanelPath new p =
     (if new = pg_cwd p then p
      else
        (let p1 = updateCwd new p
         in case open_socket p1 of
              Some k \<Rightarrow> transmit k (InputFrame (js '' cd '' @ quoteForShell new @ [newline])) p1
            | None \<Rightarrow> p1))"

definition unmount :: "page \<Rightarrow> page" where
  "unmount p =
     (let p1 = p\<lparr>pg_reconnect_timer := False, pg_keepalive := None\<rparr>;
          p2 = (case pg_socket p1 of Some k \<Rightarrow> close_socket k p1 | None \<Rightarrow> p1)
      in p2\<lparr>pg_socket := None, pg_listener := None, pg_host := None\<rparr>)"

section \<open>Events\<close>

text \<open>What the buttons of the page allow.\<close>

definition can_connect :: "page \<Rightarrow> bool" where
  "can_connect p \<longleftrightarrow> surface_shown p \<and> pg_connection p \<notin> {Connected, Connecting, Reconnecting} \<and> verified p"

definition can_disconnect :: "page \<Rightarrow> bool" where
  "can_disconnect p \<longleftrightarrow> surface_shown p \<and> pg_connection p = Connected"

datatype event =
    EvStatus TerminalStatus
  | EvPoll TerminalStatus
  | EvUnlock "jstr option + TerminalStatus"
  | EvTab TerminalTab
  | EvConnectClick
  | EvDisconnectClick
  | EvTimer
  | EvKeepalive int
  | EvVisible
  | EvResize
  | EvOpen int nat
  | EvMessage int nat message
  | EvError nat
  | EvClose rat int jstr nat
  | EvData jstr
  | EvFlush nat
  | EvPanel jstr

text \<open>When the browser or the user can produce an event.\<close>

fun enabled :: "page \<Rightarrow> event \<Rightarrow> bool" where
  "enabled p EvConnectClick = can_connect p"
| "enabled p EvDisconnectClick = can_disconnect p"
| "enabled p EvTimer = pg_reconnect_timer p"
| "enabled p (EvKeepalive now) = (pg_keepalive p \<noteq> None)"
| "enabled p (EvOpen now k) = (k < length (pg_sockets p) \<and> sk_ready (pg_sockets p ! k) = RsConnecting)"
| "enabled p (EvMessage now k m) =
     (k < length (pg_sockets p) \<and> sk_ready (pg_sockets p ! k) \<in> {RsOpen, RsClosing})"
| "enabled p (EvError k) = (k < length (pg_sockets p) \<and> sk_ready (pg_sockets p ! k) \<noteq> RsClosed)"
| "enabled p (EvClose rnd code reason k) =
     (k < length (pg_sockets p) \<and> sk_ready (pg_sockets p ! k) \<noteq> RsClosed \<and> 0 \<le> rnd \<and> rnd < 1)"
| "enabled p (EvData data) = (pg_listener p \<noteq> None)"
| "enabled p (EvFlush k) = (k < length (pg_sockets p) \<and> sk_timer (pg_sockets p ! k))"
| "enabled p _ = True"

fun react :: "event \<Rightarrow> page \<Rightarrow> page \<times> effect list" where
  "react (EvStatus s) p = status_loaded s p"
| "react (EvPoll s) p = poll_loaded s p"
| "react (EvUnlock r) p = unlock_done r p"
| "react (EvTab t) p = (p\<lparr>pg_tab := t\<rparr>, [])"
| "react EvConnectClick p = connect False p"
| "react EvDisconnectClick p = disconnect p"
| "react EvTimer p = reconnect_fires p"
| "react (EvKeepalive now) p = keepalive_tick now p"
| "react EvVisible p = on_visible p"
| "react EvResize p = on_resize p"
| "react (EvOpen now k) p = on_open now k (set_ready RsOpen k p)"
| "react (EvMessage now k m) p = on_message now k m p"
| "react (EvError k) p = on_error k p"
| "react (EvClose rnd code reason k) p = on_close rnd code reason k (set_ready RsClosed k p)"
| "react (EvData data) p = (case pg_listener p of Some k \<Rightarrow> (on_data k data p, []) | None \<Rightarrow> (p, []))"
| "react (EvFlush k) p = (flushInput k p, [])"
| "react (EvPanel path) p = (handlePanelPath path p, [])"

definition handle :: "event \<Rightarrow> page \<Rightarrow> page" where
  "handle e p = render (fst (react e p))"

inductive step :: "page \<Rightarrow> event \<Rightarrow> page \<Rightarrow> bool" where
  step_event: "enabled p e \<Longrightarrow> step p e (handle e p)"

inductive_cases stepE: "step p e q"
inductive_simps step_iff: "step p e q"

inductive reachable :: "page \<Rightarrow> bool" where
  reach_init: "reachable initial_page"
| reach_step: "reachable p \<Longrightarrow> step p e q \<Longrightarrow> reachable q"

section \<open>What the callbacks leave alone\<close>

text \<open>
  The core of a page is what decides who owns the connection. Sending, tracking the directory
  and buffering input leave the core as it is.
\<close>

definition same_core :: "page \<Rightarrow> page \<Rightarrow> bool" where
  "same_core p q \<longleftrightarrow>
     pg_socket q = pg_socket p \<and> pg_keepalive q = pg_keepalive p \<and>
     pg_reconnect_timer q = pg_reconnect_timer p \<and> pg_connection q = pg_connection p \<and>
     pg_listener q = pg_listener p \<and>
     map (\<lambda>s. (sk_ready s, sk_opened s)) (pg_sockets q) = map (\<lambda>s. (sk_ready s, sk_opened s)) (pg_sockets p)"

lemma same_core_refl [simp]: "same_core p p"
  by (simp add: same_core_def)

lemma same_core_trans: "same_core p q \<Longrightarrow> same_core q r \<Longrightarrow> same_core p r"
  by (simp add: same_core_def)

lemma map_list_update_same: "f (g (xs ! k)) = f (xs ! k) \<Longrightarrow> map f (xs[k := g (xs ! k)]) = map f xs"
  by (metis list_update_id map_update)

lemma same_core_upd:
  "(\<And>s. sk_ready (f s) = sk_ready s) \<Longrightarrow> (\<And>s. sk_opened (f s) = sk_opened s) \<Longrightarrow> same_core p (upd_sock k f p)"
  unfolding same_core_def upd_sock_def by (simp add: map_list_update_same)

lemma same_core_transmit [simp]: "same_core p (transmit k f p)"
  unfolding transmit_def by (rule same_core_upd) simp_all

lemma same_core_update:
  "same_core p (p\<lparr>pg_cwd := d\<rparr>)" "same_core p (p\<lparr>pg_osc7 := b\<rparr>)" "same_core p (p\<lparr>pg_last_pong := n\<rparr>)"
  "same_core p (p\<lparr>pg_status := s\<rparr>)" "same_core p (p\<lparr>pg_tab := t\<rparr>)" "same_core p (render p)"
  by (simp_all add: same_core_def render_def split: option.split)

lemma same_core_updateCwd: "same_core p (updateCwd d p)"
  unfolding updateCwd_def Let_def
  by (auto split: option.split intro: same_core_update same_core_trans[OF same_core_update(1) same_core_transmit])

lemma same_core_flush: "same_core p (flushInput k p)"
  unfolding flushInput_def Let_def
  by (auto split: option.split
      intro!: same_core_trans[OF same_core_trans[OF same_core_upd same_core_transmit] same_core_upd]
        same_core_trans[OF same_core_upd same_core_upd])

lemma same_core_data: "same_core p (on_data k data p)"
  unfolding on_data_def Let_def
  by (auto intro!: same_core_trans[OF same_core_upd same_core_flush]
      same_core_trans[OF same_core_upd same_core_upd] same_core_upd)

lemma same_core_panel: "same_core p (handlePanelPath d p)"
  unfolding handlePanelPath_def Let_def
  by (auto split: option.split intro: same_core_updateCwd same_core_trans[OF same_core_updateCwd same_core_transmit])

lemma same_core_output: "same_core p (fst (on_output text p))"
  unfolding on_output_def Let_def split_def
  by (auto split: option.split intro: same_core_update
      intro!: same_core_trans[OF same_core_update(2) same_core_updateCwd])

lemma same_core_control: "same_core p (fst (on_control now m p))"
  unfolding on_control_def
  by (auto split: option.split intro: same_core_update same_core_updateCwd)

lemma same_core_message: "same_core p (fst (on_message now k m p))"
  unfolding on_message_def by (auto simp: same_core_output same_core_control split: message.split)

lemma same_core_resize: "same_core p (fst (on_resize p))"
  unfolding on_resize_def by (auto split: option.split)

section \<open>The invariant\<close>

text \<open>
  Over the core: the owner of the connection is the newest socket and the only one that may be
  live; the keep-alive belongs to it; a reconnect timer runs only without an owner.
\<close>

definition links :: "page \<Rightarrow> (ready_state \<times> bool) list" where
  "links p = map (\<lambda>s. (sk_ready s, sk_opened s)) (pg_sockets p)"

definition core_inv ::
  "nat option \<Rightarrow> nat option \<Rightarrow> bool \<Rightarrow> ConnectionState \<Rightarrow> nat option \<Rightarrow> (ready_state \<times> bool) list \<Rightarrow> bool" where
  "core_inv owner keepalive timer conn listener ls \<longleftrightarrow>
     (case owner of
        Some k \<Rightarrow> Suc k = length ls \<and> fst (ls ! k) \<noteq> RsClosed \<and> \<not> timer \<and>
          (conn = Connecting \<or> conn = Connected \<and> snd (ls ! k))
      | None \<Rightarrow> keepalive = None \<and> conn \<in> {Idle, Closed, Reconnecting} \<and> (timer \<longrightarrow> conn = Reconnecting)) \<and>
     (keepalive = None \<or> keepalive = owner \<and> conn = Connected) \<and>
     (\<forall>k < length ls. owner \<noteq> Some k \<longrightarrow> fst (ls ! k) \<in> {RsClosing, RsClosed}) \<and>
     (listener = None \<or> map_option Suc listener = Some (length ls))"

definition page_inv :: "page \<Rightarrow> bool" where
  "page_inv p = core_inv (pg_socket p) (pg_keepalive p) (pg_reconnect_timer p) (pg_connection p)
     (pg_listener p) (links p)"

lemma inv_core: "same_core p q \<Longrightarrow> page_inv p \<Longrightarrow> page_inv q"
  by (simp add: page_inv_def same_core_def links_def)

lemma links_upd: "k < length (pg_sockets p) \<Longrightarrow>
    links (upd_sock k f p) = (links p)[k := (sk_ready (f (pg_sockets p ! k)), sk_opened (f (pg_sockets p ! k)))]"
  by (simp add: links_def upd_sock_def map_update)

lemma links_nth: "k < length (pg_sockets p) \<Longrightarrow> links p ! k = (sk_ready (pg_sockets p ! k), sk_opened (pg_sockets p ! k))"
  by (simp add: links_def)

lemma length_links [simp]: "length (links p) = length (pg_sockets p)"
  by (simp add: links_def)

lemma core_upd [simp]:
  "pg_socket (upd_sock k f p) = pg_socket p" "pg_keepalive (upd_sock k f p) = pg_keepalive p"
  "pg_reconnect_timer (upd_sock k f p) = pg_reconnect_timer p" "pg_connection (upd_sock k f p) = pg_connection p"
  "pg_listener (upd_sock k f p) = pg_listener p" "length (pg_sockets (upd_sock k f p)) = length (pg_sockets p)"
  by (simp_all add: upd_sock_def)

lemma links_close:
  "k < length (pg_sockets p) \<Longrightarrow> \<exists>r. links (close_socket k p) = (links p)[k := (r, snd (links p ! k))] \<and> r \<in> {RsClosing, RsClosed}"
  unfolding close_socket_def by (auto simp: links_upd links_nth)

lemma inv_owner:
  "page_inv p \<Longrightarrow> pg_socket p = Some k \<Longrightarrow> Suc k = length (pg_sockets p)"
  by (simp add: page_inv_def core_inv_def)

lemma inv_disconnect: "page_inv p \<Longrightarrow> page_inv (fst (disconnect p))"
proof (cases "pg_socket p")
  case None
  assume "page_inv p"
  with None show ?thesis
    by (auto simp: disconnect_def Let_def page_inv_def core_inv_def links_def)
next
  case (Some k)
  assume inv: "page_inv p"
  let ?q = "p\<lparr>pg_reconnect_timer := False, pg_attempt := 0, pg_keepalive := None\<rparr>"
  have k: "k < length (pg_sockets ?q)" using inv_owner[OF inv Some] by simp
  from links_close[OF k] obtain r where
    r: "links (close_socket k ?q) = (links ?q)[k := (r, snd (links ?q ! k))]" "r \<in> {RsClosing, RsClosed}" by blast
  have "fst (disconnect p) = (close_socket k ?q)\<lparr>pg_socket := None, pg_connection := Closed\<rparr>"
    by (simp add: disconnect_def Let_def Some)
  moreover have "links (x\<lparr>pg_socket := None, pg_connection := Closed\<rparr>) = links x" for x
    by (simp add: links_def)
  moreover have "links ?q = links p" by (simp add: links_def)
  ultimately show ?thesis
    using inv r Some unfolding page_inv_def core_inv_def
    by (auto simp: close_socket_def nth_list_update split: option.splits)
qed

lemma links_update [simp]:
  "links (p\<lparr>pg_status := s\<rparr>) = links p" "links (p\<lparr>pg_connection := c\<rparr>) = links p"
  "links (p\<lparr>pg_host := h\<rparr>) = links p" "links (p\<lparr>pg_socket := so\<rparr>) = links p"
  "links (p\<lparr>pg_keepalive := ka\<rparr>) = links p" "links (p\<lparr>pg_reconnect_timer := t\<rparr>) = links p"
  "links (p\<lparr>pg_attempt := a\<rparr>) = links p" "links (p\<lparr>pg_last_pong := n\<rparr>) = links p"
  "links (p\<lparr>pg_osc7 := b\<rparr>) = links p" "links (p\<lparr>pg_listener := l\<rparr>) = links p"
  "links (p\<lparr>pg_sockets := ss\<rparr>) = map (\<lambda>s. (sk_ready s, sk_opened s)) ss"
  by (simp_all add: links_def)

lemma inv_keepalive: "page_inv p \<Longrightarrow> page_inv (fst (keepalive_tick now p))"
proof (cases "pg_keepalive p")
  case (Some k)
  assume inv: "page_inv p"
  with Some have owner: "pg_socket p = Some k" by (auto simp: page_inv_def core_inv_def)
  note k = owner inv_owner[OF inv owner]
  let ?q = "transmit k PingFrame p"
  have q: "page_inv ?q" by (rule inv_core[OF same_core_transmit inv])
  have core: "pg_socket ?q = Some k" "k < length (pg_sockets ?q)" using k by (auto simp: transmit_def)
  have "page_inv (close_socket k ?q)" if "is_open p k"
  proof -
    have "sk_ready (pg_sockets ?q ! k) = RsOpen" using that k by (simp add: transmit_def upd_sock_def is_open_def)
    then have "links (close_socket k ?q) = (links ?q)[k := (RsClosing, snd (links ?q ! k))]"
      unfolding close_socket_def using core by (simp add: links_upd links_nth)
    then show ?thesis
      using q core unfolding page_inv_def core_inv_def
      by (auto simp: close_socket_def nth_list_update split: option.splits)
  qed
  with Some q inv show ?thesis by (simp add: keepalive_tick_def Let_def)
qed (simp add: keepalive_tick_def)

lemma verified_timer [simp]: "verified (p\<lparr>pg_reconnect_timer := t\<rparr>) = verified p"
  by (simp add: verified_def)

lemma connect_refused:
  assumes "pg_container p = None \<or> pg_socket p \<noteq> None \<or> \<not> verified p"
  shows "fst (connect preserve p) = p
    \<or> (pg_socket p = None \<and> \<not> verified p \<and> fst (connect preserve p) = p\<lparr>pg_reconnect_timer := False\<rparr>)"
  using assms by (auto simp: connect_def Let_def split: option.splits)

lemma connect_made:
  assumes "pg_container p = Some c" "pg_socket p = None" "verified p"
  shows "links (fst (connect preserve p)) = links p @ [(RsConnecting, False)]"
    and "pg_socket (fst (connect preserve p)) = Some (length (pg_sockets p))"
    and "pg_listener (fst (connect preserve p)) = Some (length (pg_sockets p))"
    and "pg_connection (fst (connect preserve p)) = Connecting"
    and "pg_keepalive (fst (connect preserve p)) = pg_keepalive p"
    and "\<not> pg_reconnect_timer (fst (connect preserve p))"
  using assms by (cases "pg_host p"; simp add: connect_def Let_def new_socket_def links_def)+

lemma inv_timer: "page_inv p \<Longrightarrow> page_inv (p\<lparr>pg_reconnect_timer := False\<rparr>)"
  by (auto simp: page_inv_def core_inv_def split: option.splits)

lemma inv_connect:
  assumes inv: "page_inv p"
  shows "page_inv (fst (connect preserve p))"
proof (cases "pg_container p = None \<or> pg_socket p \<noteq> None \<or> \<not> verified p")
  case True
  from connect_refused[OF this, of preserve] inv inv_timer[OF inv] show ?thesis by auto
next
  case False
  then obtain c where c: "pg_container p = Some c" "pg_socket p = None" "verified p" by auto
  show ?thesis
    using inv c(2) connect_made(6)[OF c, of preserve] unfolding page_inv_def core_inv_def connect_made[OF c]
    by (auto simp: nth_append)
qed

lemma inv_reconnect: "page_inv p \<Longrightarrow> page_inv (fst (reconnect_fires p))"
  by (simp add: reconnect_fires_def Let_def inv_timer inv_connect)

lemma inv_open:
  assumes inv: "page_inv p" and ev: "enabled p (EvOpen now k)"
  shows "page_inv (fst (on_open now k (set_ready RsOpen k p)))"
proof -
  have k: "k < length (pg_sockets p)" "sk_ready (pg_sockets p ! k) = RsConnecting" using ev by simp_all
  then have owner: "pg_socket p = Some k" "Suc k = length (pg_sockets p)"
    using inv by (auto simp: page_inv_def core_inv_def links_nth split: option.splits)
  let ?p1 = "(upd_sock k (\<lambda>s. s\<lparr>sk_opened := True\<rparr>) (set_ready RsOpen k p))\<lparr>pg_attempt := 0, pg_connection := Connected\<rparr>"
  have "links ?p1 = (links p)[k := (RsOpen, True)]"
    using k by (simp add: links_upd set_ready_def) (simp add: upd_sock_def)
  then have "page_inv ?p1"
    using inv owner unfolding page_inv_def core_inv_def
    by (auto simp: set_ready_def nth_list_update split: option.splits)
  then have "page_inv (if is_open ?p1 k then transmit k ResizeFrame ?p1 else ?p1)" (is "page_inv ?p2")
    by (simp add: inv_core[OF same_core_transmit])
  moreover have "pg_socket ?p2 = Some k" "pg_connection ?p2 = Connected"
    using owner by (auto simp: transmit_def set_ready_def)
  ultimately have "page_inv (startKeepalive now k ?p2)"
    by (auto simp: startKeepalive_def page_inv_def core_inv_def)
  moreover have "is_current (set_ready RsOpen k p) k" using owner by (simp add: is_current_def set_ready_def)
  ultimately show ?thesis by (simp only: on_open_def Let_def not_True_eq_False if_False fst_conv)
qed

lemma inv_close:
  assumes inv: "page_inv p" and ev: "enabled p (EvClose rnd code reason k)"
  shows "page_inv (fst (on_close rnd code reason k (set_ready RsClosed k p)))"
proof -
  let ?p = "set_ready RsClosed k p"
  have k: "k < length (pg_sockets p)" using ev by simp
  then have ls: "links ?p = (links p)[k := (RsClosed, snd (links p ! k))]"
    by (simp add: links_upd set_ready_def links_nth)
  have other: "\<forall>j < length (links ?p). j \<noteq> k \<longrightarrow> links ?p ! j = links p ! j" by (simp add: ls)
  show ?thesis
  proof (cases "pg_socket p = Some k")
    case True
    then have "\<forall>j < length (links ?p). fst (links ?p ! j) \<in> {RsClosing, RsClosed}" "\<not> pg_reconnect_timer p"
      using inv by (auto simp: page_inv_def core_inv_def ls nth_list_update)
    with True inv show ?thesis
      by (auto simp: on_close_def is_current_def Let_def set_ready_def scheduleReconnect_def
          page_inv_def core_inv_def)
  next
    case False
    then show ?thesis
      using inv k by (auto simp: on_close_def is_current_def set_ready_def page_inv_def core_inv_def
          ls[unfolded set_ready_def] nth_list_update split: option.splits)
  qed
qed

lemma inv_react: "page_inv p \<Longrightarrow> enabled p e \<Longrightarrow> page_inv (fst (react e p))"
proof (cases e)
  case (EvPoll s)
  assume "page_inv p"
  then have "page_inv (p\<lparr>pg_status := Some s\<rparr>)" by (rule inv_core[OF same_core_update(4)])
  with EvPoll show ?thesis by (simp add: poll_loaded_def Let_def inv_disconnect)
qed (auto simp: status_loaded_def unlock_done_def on_visible_def on_error_def inv_connect inv_disconnect
    inv_reconnect inv_keepalive inv_open inv_close
    intro: inv_core same_core_update same_core_resize same_core_message same_core_data same_core_flush
      same_core_panel split: sum.split option.split simp del: enabled.simps)

lemma reachable_inv: "reachable p \<Longrightarrow> page_inv p"
proof (induction rule: reachable.induct)
  case reach_init
  show ?case by (simp add: initial_page_def render_def surface_shown_def page_inv_def core_inv_def links_def)
next
  case (reach_step p e q)
  then show ?case
    by (auto simp: handle_def elim!: stepE intro!: inv_core[OF same_core_update(6) inv_react])
qed

section \<open>Stale sockets\<close>

text \<open>The callbacks a socket is given, by what the browser reports.\<close>

datatype sock_event =
    SockOpen int
  | SockMessage int message
  | SockError
  | SockClose rat int jstr

fun sock_callback :: "nat \<Rightarrow> sock_event \<Rightarrow> page \<Rightarrow> page \<times> effect list" where
  "sock_callback k (SockOpen now) p = on_open now k p"
| "sock_callback k (SockMessage now m) p = on_message now k m p"
| "sock_callback k SockError p = on_error k p"
| "sock_callback k (SockClose rnd code reason) p = on_close rnd code reason k p"

interpretation sockets: guarded_callback pg_socket sock_callback
proof
  fix p :: page and k e
  assume "pg_socket p \<noteq> Some k"
  then show "sock_callback k e p = (p, [])"
    by (cases e) (simp_all add: on_open_def on_message_def on_error_def on_close_def is_current_def)
qed

text \<open>
  C2: whatever a superseded socket reports, in whatever order and number, the page keeps its state
  and produces no effect.
\<close>

theorem stale_sockets_ignored:
  assumes "\<And>k e. (k, e) \<in> set reports \<Longrightarrow> pg_socket p \<noteq> Some k"
  shows "foldl (\<lambda>p (k, e). fst (sock_callback k e p)) p reports = p \<and>
    list_all (\<lambda>(k, e). snd (sock_callback k e p) = []) reports"
proof
  show "foldl (\<lambda>p (k, e). fst (sock_callback k e p)) p reports = p"
    using assms by (rule sockets.stale_run)
  show "list_all (\<lambda>(k, e). snd (sock_callback k e p) = []) reports"
    unfolding list_all_iff using assms sockets.effects_from_owner by fast
qed

section \<open>Reachable pages\<close>

text \<open>A run of enabled events, for concrete pages.\<close>

fun run :: "page \<Rightarrow> event list \<Rightarrow> page option" where
  "run p [] = Some p"
| "run p (e # es) = (if enabled p e then run (handle e p) es else None)"

lemma run_reachable: "reachable p \<Longrightarrow> run p es = Some q \<Longrightarrow> reachable q"
  by (induction es arbitrary: p) (auto split: if_splits intro: reach_step step_event)

definition unlocked_status :: TerminalStatus where
  "unlocked_status = \<lparr>tst_enabled = True, tst_active_sessions = 0, tst_max_sessions = 4,
     tst_idle_timeout_seconds = 0, tst_max_lifetime_seconds = 0, tst_privileged = False,
     tst_two_factor_configured = True, tst_two_factor_enabled = True, tst_two_factor_verified = True,
     tst_two_factor_verification_ttl_seconds = 900\<rparr>"

lemmas run_defs = initial_page_def render_def surface_shown_def verified_def handle_def
  status_loaded_def connect_def can_connect_def can_disconnect_def disconnect_def close_socket_def
  on_open_def on_close_def scheduleReconnect_def reconnect_fires_def is_current_def set_ready_def
  upd_sock_def transmit_def is_open_def open_socket_def startKeepalive_def sk_flag_def
  new_socket_def unlocked_status_def

text \<open>
  C1: in every reachable page at most one socket is connecting or open, it is the current one and
  the newest; the keyboard listener belongs to the newest socket; a page shown as connected has
  an opened current socket; a reconnect timer only runs while there is none.
\<close>

theorem reachable_owner:
  assumes "reachable p"
  shows "(\<forall>j < length (pg_sockets p). sk_ready (pg_sockets p ! j) \<in> {RsConnecting, RsOpen} \<longrightarrow>
      pg_socket p = Some j \<and> Suc j = length (pg_sockets p)) \<and>
    (\<forall>j. pg_listener p = Some j \<longrightarrow> Suc j = length (pg_sockets p)) \<and>
    (pg_connection p = Connected \<longrightarrow> (\<exists>k. pg_socket p = Some k \<and> sk_opened (pg_sockets p ! k))) \<and>
    (pg_reconnect_timer p \<longrightarrow> pg_socket p = None \<and> pg_connection p = Reconnecting)"
proof -
  note inv = reachable_inv[OF assms, unfolded page_inv_def core_inv_def]
  have "Suc k = length (pg_sockets p) \<and> links p ! k = (sk_ready (pg_sockets p ! k), sk_opened (pg_sockets p ! k))"
    if "pg_socket p = Some k" for k
    using inv that links_nth[of k p] by auto
  then show ?thesis
    using inv links_nth[of _ p] by (auto split: option.splits)
qed

theorem reachable_owner_witness:
  "\<exists>p. run initial_page [EvStatus unlocked_status, EvConnectClick, EvOpen 0 0] = Some p \<and>
     pg_connection p = Connected \<and> (\<exists>k. pg_socket p = Some k \<and> sk_opened (pg_sockets p ! k))"
proof -
  obtain p where p: "run initial_page [EvStatus unlocked_status, EvConnectClick, EvOpen 0 0] = Some p"
    and c: "pg_connection p = Connected"
    by (simp add: run_defs)
  from reachable_owner[OF run_reachable[OF reach_init p]] p c show ?thesis by blast
qed

definition second_session :: "event list" where
  "second_session = [EvStatus unlocked_status, EvConnectClick, EvOpen 0 0, EvDisconnectClick, EvConnectClick]"

theorem stale_sockets_ignored_witness:
  "\<exists>p. run initial_page second_session = Some p \<and> pg_connection p = Connecting \<and>
     fst (sock_callback 0 (SockClose 0 1006 []) (fst (sock_callback 0 (SockOpen 5) p))) = p"
proof -
  obtain p where p: "run initial_page second_session = Some p" "pg_connection p = Connecting" "pg_socket p = Some 1"
    by (simp add: run_defs second_session_def)
  from p stale_sockets_ignored[of "[(0, SockOpen 5), (0, SockClose 0 1006 [])]" p] show ?thesis by auto
qed

section \<open>Losing and healing the connection\<close>

text \<open>
  when the current socket closes, the page gives up its ownership and keep-alive; a clean
  close (1000) or a revoked session (1008) ends the session without a timer, and every other code
  starts exactly one timer with the delay of the attempt, which it counts.
\<close>

theorem close_of_current:
  assumes "reachable p" and "pg_socket p = Some k"
  shows "let (q, out) = sock_callback k (SockClose rnd code reason) p in
    pg_socket q = None \<and> pg_keepalive q = None \<and>
    (if code = 1000 \<or> code = 1008
     then pg_connection q = Closed \<and> \<not> pg_reconnect_timer q \<and> (\<forall>d. StartTimeout d \<notin> set out)
     else pg_connection q = Reconnecting \<and> pg_reconnect_timer q \<and> pg_attempt q = pg_attempt p + 1 \<and>
       [d. StartTimeout d \<leftarrow> out] = [reconnect_delay (pg_attempt p) rnd])"
proof -
  have "\<not> pg_reconnect_timer p"
    using reachable_inv[OF assms(1)] assms(2) by (simp add: page_inv_def core_inv_def)
  with assms(2) show ?thesis
    by (simp add: on_close_def is_current_def Let_def scheduleReconnect_def)
qed

theorem close_of_current_witness:
  "\<exists>p q out. run initial_page [EvStatus unlocked_status, EvConnectClick, EvOpen 0 0] = Some p \<and>
     sock_callback 0 (SockClose (1 / 2) 1006 []) p = (q, out) \<and> pg_reconnect_timer q"
proof -
  obtain p where p: "run initial_page [EvStatus unlocked_status, EvConnectClick, EvOpen 0 0] = Some p"
    and k: "pg_socket p = Some 0"
    by (simp add: run_defs)
  obtain q out where q: "sock_callback 0 (SockClose (1 / 2) 1006 []) p = (q, out)"
    by (cases "sock_callback 0 (SockClose (1 / 2) 1006 []) p")
  from close_of_current[OF run_reachable[OF reach_init p] k, of "1 / 2" 1006 "[]"] p q
  show ?thesis by (auto simp: Let_def)
qed

lemma delay_base: "min RECONNECT_MAX_MS (RECONNECT_BASE_MS * 2 ^ min attempt 5)
    = [1000, 2000, 4000, 8000, 16000, 30000] ! min attempt 5"
proof -
  have "min attempt 5 \<in> {0, 1, 2, 3, 4, 5}" by auto
  then show ?thesis by (auto simp: RECONNECT_MAX_MS_def RECONNECT_BASE_MS_def)
qed

text \<open>
  C7: the waiting times are 1, 2, 4, 8, 16 and then 30 seconds, plus less than 400 milliseconds of
  jitter: never below a second and never above 30.4 seconds.
\<close>

theorem reconnect_delay_bounds:
  assumes "0 \<le> rnd" "rnd < 1"
  shows "reconnect_delay attempt 0 = of_nat ([1000, 2000, 4000, 8000, 16000, 30000] ! min attempt 5) \<and>
    1000 \<le> reconnect_delay attempt rnd \<and> reconnect_delay attempt rnd < 30400 \<and>
    reconnect_delay attempt rnd < reconnect_delay attempt 0 + 400"
proof -
  have "min attempt 5 \<in> {0, 1, 2, 3, 4, 5}" by auto
  then have base: "[1000, 2000, 4000, 8000, 16000, 30000] ! min attempt 5
      \<in> {1000, 2000, 4000, 8000, 16000, 30000 :: nat}"
    by (auto simp: nth_Cons split: nat.splits)
  then have "1000 \<le> (of_nat ([1000, 2000, 4000, 8000, 16000, 30000] ! min attempt 5) :: rat)"
    "(of_nat ([1000, 2000, 4000, 8000, 16000, 30000] ! min attempt 5) :: rat) \<le> 30000"
    by auto
  with assms show ?thesis by (simp add: reconnect_delay_def delay_base)
qed

theorem reconnect_delay_bounds_witness:
  "reconnect_delay 3 (1 / 2) < 30400 \<and> reconnect_delay 3 0 = 8000"
  using reconnect_delay_bounds[of "1 / 2" 3] by (simp add: numeral_3_eq_3)

section \<open>Two dead ends\<close>

text \<open>Shown as reconnecting with neither a socket nor a timer.\<close>

definition stranded :: "page \<Rightarrow> bool" where
  "stranded p \<longleftrightarrow> pg_connection p = Reconnecting \<and> pg_socket p = None \<and> \<not> pg_reconnect_timer p"

lemma stranded_core: "same_core p q \<Longrightarrow> stranded q = stranded p"
  by (simp add: same_core_def stranded_def)

lemma stranded_react: "stranded p \<Longrightarrow> enabled p e \<Longrightarrow> stranded (fst (react e p))"
proof (cases e)
  case (EvOpen now k)
  assume "stranded p"
  with EvOpen show ?thesis by (simp add: on_open_def is_current_def stranded_def set_ready_def)
next
  case (EvClose rnd code reason k)
  assume "stranded p"
  with EvClose show ?thesis by (simp add: on_close_def is_current_def stranded_def set_ready_def)
next
  case (EvPoll s)
  assume "stranded p"
  with EvPoll show ?thesis by (simp add: poll_loaded_def Let_def open_socket_def stranded_def)
next
  case (EvKeepalive now)
  assume "stranded p"
  with EvKeepalive show ?thesis
    by (auto simp: keepalive_tick_def Let_def stranded_def transmit_def close_socket_def split: option.split)
qed (auto simp: stranded_core[OF same_core_message] stranded_core[OF same_core_resize]
    stranded_core[OF same_core_data] stranded_core[OF same_core_flush] stranded_core[OF same_core_panel]
    can_connect_def can_disconnect_def stranded_def[of p] status_loaded_def unlock_done_def on_visible_def
    on_error_def stranded_core[OF same_core_update(4)] stranded_core[OF same_core_update(5)]
    split: sum.split option.split)


definition stranding_run :: "event list" where
  "stranding_run = [EvStatus unlocked_status, EvConnectClick, EvOpen 0 0, EvTab OpsTab,
     EvClose (1 / 2) 1006 [] 0, EvTimer, EvTab ShellTab]"


text \<open>
  after a switch to another tab and back the page can be connected while the terminal still
  draws into the mount point that was removed.
\<close>

theorem terminal_in_removed_surface:
  "\<exists>p. reachable p \<and> pg_connection p = Connected \<and> surface_shown p \<and>
     pg_container p \<noteq> None \<and> pg_host p \<noteq> None \<and> pg_host p \<noteq> pg_container p"
proof -
  obtain p where p: "run initial_page [EvStatus unlocked_status, EvConnectClick, EvOpen 0 0,
      EvTab OpsTab, EvTab ShellTab] = Some p"
    "pg_connection p = Connected" "surface_shown p" "pg_container p \<noteq> None" "pg_host p \<noteq> None"
    "pg_host p \<noteq> pg_container p"
    by (simp add: run_defs)
  from run_reachable[OF reach_init p(1)] p(2-) show ?thesis by blast
qed

section \<open>Keystrokes\<close>

definition inputs_of :: "frame list \<Rightarrow> jstr" where
  "inputs_of fs = concat (map (\<lambda>f. case f of InputFrame d \<Rightarrow> d | _ \<Rightarrow> []) fs)"

text \<open>Typing, and firings of the 12 ms timer (None), on the socket of one \<open>connect\<close> call.\<close>

fun typing :: "nat \<Rightarrow> page \<Rightarrow> jstr option list \<Rightarrow> page" where
  "typing k p [] = p"
| "typing k p (None # es) = typing k (flushInput k p) es"
| "typing k p (Some data # es) = typing k (on_data k data p) es"

definition typed :: "page \<Rightarrow> nat \<Rightarrow> jstr" where
  "typed p k = inputs_of (sk_sent (pg_sockets p ! k)) @ sk_pending (pg_sockets p ! k)"

definition typing_ready :: "nat \<Rightarrow> page \<Rightarrow> bool" where
  "typing_ready k p \<longleftrightarrow> open_socket p = Some k \<and> k < length (pg_sockets p) \<and>
     (sk_pending (pg_sockets p ! k) = [] \<or> sk_timer (pg_sockets p ! k))"

lemma open_socketD: "open_socket p = Some k \<Longrightarrow> pg_socket p = Some k \<and> is_open p k"
  by (auto simp: open_socket_def split: option.splits if_splits)

lemma is_open_upd: "(\<And>s. sk_ready (f s) = sk_ready s) \<Longrightarrow> is_open (upd_sock j f p) k = is_open p k"
  by (cases "j = k") (auto simp: is_open_def upd_sock_def)

lemma open_socket_upd:
  "(\<And>s. sk_ready (f s) = sk_ready s) \<Longrightarrow> open_socket (upd_sock j f p) = open_socket p"
  by (simp add: open_socket_def is_open_upd split: option.split)

lemma sock_upd [simp]: "k < length (pg_sockets p) \<Longrightarrow> pg_sockets (upd_sock k f p) ! k = f (pg_sockets p ! k)"
  by (simp add: upd_sock_def)

lemma flush_typed:
  assumes "open_socket p = Some k" and k: "k < length (pg_sockets p)"
  shows "typing_ready k (flushInput k p) \<and> typed (flushInput k p) k = typed p k"
proof -
  have "open_socket (upd_sock k (\<lambda>s. s\<lparr>sk_timer := False\<rparr>) p) = Some k"
    using assms by (simp add: open_socket_upd)
  with assms show ?thesis
    by (auto simp: flushInput_def Let_def typing_ready_def typed_def transmit_def open_socket_upd inputs_of_def)
qed

lemma data_typed:
  assumes "open_socket p = Some k" and k: "k < length (pg_sockets p)"
  shows "typing_ready k (on_data k data p) \<and> typed (on_data k data p) k = typed p k @ data"
proof -
  let ?p = "upd_sock k (\<lambda>s. s\<lparr>sk_pending := sk_pending s @ data\<rparr>) p"
  have p: "open_socket ?p = Some k" "k < length (pg_sockets ?p)" "typed ?p k = typed p k @ data"
    using assms by (simp_all add: open_socket_upd typed_def)
  from flush_typed[OF p(1,2)] p show ?thesis
    by (auto simp: on_data_def Let_def assms sk_flag_def typing_ready_def typed_def open_socket_upd)
qed

lemma typing_typed:
  "typing_ready k p \<Longrightarrow>
     typing_ready k (typing k p es) \<and>
     typed (typing k p es) k = typed p k @ concat (List.map_filter id es)"
proof (induction k p es rule: typing.induct)
  case (2 k p es)
  then show ?case using flush_typed[of p k] by (simp add: typing_ready_def List.map_filter_simps)
next
  case (3 k p data es)
  then show ?case using data_typed[of p k data] by (simp add: typing_ready_def List.map_filter_simps)
qed (simp add: List.map_filter_simps)


definition open_page :: page where
  "open_page = initial_page\<lparr>pg_sockets := [(new_socket False)\<lparr>sk_ready := RsOpen\<rparr>], pg_socket := Some 0\<rparr>"


section \<open>The directory\<close>

text \<open>
  C6: navigating in the file panel types one command: a space, cd and a word that a POSIX shell
  reads back as exactly the chosen directory, and the same directory is reported to the server.
\<close>

theorem panel_types_cd:
  assumes "open_socket p = Some k" and "new \<noteq> pg_cwd p"
  shows "sk_sent (pg_sockets (handlePanelPath new p) ! k) =
      sk_sent (pg_sockets p ! k) @ [CwdFrame new, InputFrame (js '' cd '' @ quoteForShell new @ [newline])] \<and>
    read_word False (quoteForShell new @ [newline]) = Some (new, [newline]) \<and>
    pg_cwd (handlePanelPath new p) = new"
proof -
  have k: "k < length (pg_sockets p)" using open_socketD[OF assms(1)] by (simp add: is_open_def)
  have "open_socket (p\<lparr>pg_cwd := new\<rparr>) = Some k"
    using assms(1) by (simp add: open_socket_def is_open_def cong: option.case_cong)
  then have cwd: "updateCwd new p = transmit k (CwdFrame new) (p\<lparr>pg_cwd := new\<rparr>)"
    by (simp add: updateCwd_def)
  moreover have "open_socket (transmit k (CwdFrame new) (p\<lparr>pg_cwd := new\<rparr>)) = Some k"
    using \<open>open_socket (p\<lparr>pg_cwd := new\<rparr>) = Some k\<close> by (simp add: transmit_def open_socket_upd)
  ultimately have "handlePanelPath new p =
      transmit k (InputFrame (js '' cd '' @ quoteForShell new @ [newline])) (transmit k (CwdFrame new) (p\<lparr>pg_cwd := new\<rparr>))"
    using assms(2) by (simp add: handlePanelPath_def Let_def)
  moreover have "read_word False (quoteForShell new @ [newline]) = Some (new, [newline])"
    by (simp add: quoteForShell_def read_quoted_body newline_def)
  ultimately show ?thesis using k by (simp add: transmit_def) (simp add: upd_sock_def)
qed

theorem panel_types_cd_witness:
  "sk_sent (pg_sockets (handlePanelPath (js ''/it's'') open_page) ! 0) =
     [CwdFrame (js ''/it's''), InputFrame (js '' cd '' @ quoteForShell (js ''/it's'') @ [newline])]"
proof -
  have "open_socket open_page = Some 0" "js ''/it's'' \<noteq> pg_cwd open_page"
    by (simp_all add: open_page_def open_socket_def is_open_def new_socket_def initial_page_def
        render_def surface_shown_def js_eval)
  from panel_types_cd[OF this] show ?thesis by (simp add: open_page_def new_socket_def)
qed

text \<open>
  the page hands output to the scanner only when a single frame holds the whole introducer, so
  output whose introducer is cut between frames never changes the directory, although the scanner
  itself would find the report in the joined output.
\<close>

theorem split_introducer_ignored:
  assumes "\<And>text. text \<in> set texts \<Longrightarrow> \<not> str_includes text osc7_intro"
  shows "foldl (\<lambda>p text. fst (on_output text p)) p texts = p"
  using assms
proof (induction texts)
  case (Cons chunk chunks)
  then have "fst (on_output chunk p) = p" by (simp add: on_output_def)
  with Cons show ?case by simp
qed simp

theorem split_introducer_ignored_witness:
  "foldl (\<lambda>p text. fst (on_output text p)) open_page [[esc], js '']7;file:///home//me/'' @ [bel]] = open_page \<and>
   detectOsc7Directory (concat [[esc], js '']7;file:///home//me/'' @ [bel]]) = Some (js ''/home/me'')"
proof
  show "foldl (\<lambda>p text. fst (on_output text p)) open_page [[esc], js '']7;file:///home//me/'' @ [bel]] = open_page"
    by (rule split_introducer_ignored) (auto simp: osc7_intro_def esc_def bel_def js_eval)
  have "concat [[esc], js '']7;file:///home//me/'' @ [bel]] = osc7_report [] (js ''/home//me/'')"
    by (simp add: osc7_report_def osc7_intro_def js_eval)
  then show "detectOsc7Directory (concat [[esc], js '']7;file:///home//me/'' @ [bel]]) = Some (js ''/home/me'')"
    using detect_home by simp
qed

end
