(* ===== verification/Clock.thy ===== *)
theory Clock
  imports Prelude
begin

text \<open>
  The part of the JavaScript \<open>Date\<close> the program prints: a time value is the number of
  milliseconds since the epoch, \<open>toISOString\<close> writes it in UTC (None for the \<open>RangeError\<close>
  of a time value out of range).
\<close>

definition time_in_range :: "int \<Rightarrow> bool" where
  "time_in_range t \<longleftrightarrow> \<bar>t\<bar> \<le> 8640000000000000"

text \<open>Year, month and day of a day number, in the proleptic Gregorian calendar.\<close>

definition civil_of_days :: "int \<Rightarrow> int \<times> int \<times> int" where
  "civil_of_days days =
     (let z = days + 719468;
          era = z div 146097;
          doe = z mod 146097;
          yoe = (doe - doe div 1460 + doe div 36524 - doe div 146096) div 365;
          doy = doe - (365 * yoe + yoe div 4 - yoe div 100);
          mp = (5 * doy + 2) div 153;
          d = doy - (153 * mp + 2) div 5 + 1;
          m = (if mp < 10 then mp + 3 else mp - 9)
      in (yoe + era * 400 + (if m \<le> 2 then 1 else 0), m, d))"

definition pad :: "nat \<Rightarrow> int \<Rightarrow> jstr" where
  "pad w n = (let s = show_int n in replicate (w - length s) 48 @ s)"

definition iso_year :: "int \<Rightarrow> jstr" where
  "iso_year y = (if 0 \<le> y \<and> y \<le> 9999 then pad 4 y
     else if y < 0 then 45 # pad 6 (- y) else 43 # pad 6 y)"

definition toISOString :: "int \<Rightarrow> jstr option" where
  "toISOString t =
     (if time_in_range t then
        (let (y, m, d) = civil_of_days (t div 86400000); ms = t mod 86400000
         in Some (iso_year y @ js ''-'' @ pad 2 m @ js ''-'' @ pad 2 d @ js ''T'' @
              pad 2 (ms div 3600000) @ js '':'' @ pad 2 (ms div 60000 mod 60) @ js '':'' @
              pad 2 (ms div 1000 mod 60) @ js ''.'' @ pad 3 (ms mod 1000) @ js ''Z''))
      else None)"

end
