(* ===== verification/ApiCalls.thy ===== *)
theory ApiCalls
  imports Api Clock
begin

text \<open>
  The methods of the \<open>api\<close> object of web/src/lib/api.ts, in their order: each builds the call
  (path and options) it hands to \<open>request\<close>. A method that puts an identifier into the path is None
  when \<open>encodeURIComponent\<close> throws. Methods that touch the token afterwards have a second
  definition that settles them.
\<close>

section \<open>Calls\<close>

definition get_call :: "jstr \<Rightarrow> http_call" where
  "get_call path = (path, \<lparr>in_method = None, in_headers = [], in_body = NoBody\<rparr>)"

definition call_with :: "string \<Rightarrow> req_body \<Rightarrow> jstr \<Rightarrow> http_call" where
  "call_with verb body path =
     (path, \<lparr>in_method = Some (js verb), in_headers = [], in_body = body\<rparr>)"

abbreviation fields_body :: "(string \<times> jval) list \<Rightarrow> req_body" where
  "fields_body fs \<equiv> JsonText (Fields fs)"

text \<open>A path with an encoded identifier between a fixed start and a fixed end.\<close>

definition item_path :: "string \<Rightarrow> jstr \<Rightarrow> jstr \<Rightarrow> jstr option" where
  "item_path base item rest =
     map_option (\<lambda>e. js base @ slash # e @ rest) (encodeURIComponent item)"

definition item_call :: "string \<Rightarrow> req_body \<Rightarrow> string \<Rightarrow> jstr \<Rightarrow> jstr \<Rightarrow> http_call option" where
  "item_call verb body base item rest = map_option (call_with verb body) (item_path base item rest)"

definition version_query :: "int \<Rightarrow> jstr" where
  "version_query version = js ''?version='' @ show_int version"

section \<open>Authentication\<close>

definition authStatus :: http_call where
  "authStatus = get_call (js ''/api/v1/auth/status'')"

definition authSetup :: "jstr \<Rightarrow> jstr \<Rightarrow> jstr \<Rightarrow> http_call" where
  "authSetup setupToken username password =
     call_with ''POST'' (fields_body [(''setup_token'', JStr setupToken), (''username'', JStr username),
       (''password'', JStr password)]) (js ''/api/v1/auth/setup'')"

definition login :: "jstr \<Rightarrow> jstr \<Rightarrow> http_call" where
  "login username password =
     call_with ''POST'' (fields_body [(''username'', JStr username), (''password'', JStr password)])
       (js ''/api/v1/auth/login'')"

definition login_settled :: "client \<Rightarrow> LoginResult option outcome \<Rightarrow> client \<times> LoginResult outcome" where
  "login_settled c result =
     (case result of
        Inl e \<Rightarrow> (c, Inl e)
      | Inr None \<Rightarrow> (c, Inl TypeError)
      | Inr (Some r) \<Rightarrow> (setCsrfToken (lr_csrf_token r) c, Inr r))"

definition logout :: http_call where
  "logout = call_with ''POST'' NoBody (js ''/api/v1/auth/logout'')"

definition logoutAll :: http_call where
  "logoutAll = call_with ''POST'' NoBody (js ''/api/v1/auth/logout-all'')"

definition logout_settled :: "client \<Rightarrow> unit option outcome \<Rightarrow> client \<times> unit outcome" where
  "logout_settled c result =
     (case result of Inl e \<Rightarrow> (c, Inl e) | Inr _ \<Rightarrow> (setCsrfToken [] c, Inr ()))"

definition logoutAll_settled :: "client \<Rightarrow> unit option outcome \<Rightarrow> client \<times> unit outcome" where
  "logoutAll_settled c result =
     (case result of Inl e \<Rightarrow> (c, Inl e) | Inr _ \<Rightarrow> (setCsrfToken [] c, Inr ()))"

definition changePassword :: "jstr \<Rightarrow> jstr \<Rightarrow> http_call" where
  "changePassword currentPassword newPassword =
     call_with ''PUT'' (fields_body [(''current_password'', JStr currentPassword),
       (''new_password'', JStr newPassword)]) (js ''/api/v1/auth/password'')"

definition changeUsername :: "jstr \<Rightarrow> jstr \<Rightarrow> http_call" where
  "changeUsername currentPassword newUsername =
     call_with ''PUT'' (fields_body [(''current_password'', JStr currentPassword),
       (''new_username'', JStr newUsername)]) (js ''/api/v1/auth/username'')"

definition twoFactorStatus :: http_call where
  "twoFactorStatus = get_call (js ''/api/v1/auth/2fa/status'')"

definition setupTwoFactor :: http_call where
  "setupTwoFactor = call_with ''POST'' NoBody (js ''/api/v1/auth/2fa/setup'')"

definition enableTwoFactor :: "jstr \<Rightarrow> http_call" where
  "enableTwoFactor code =
     call_with ''POST'' (fields_body [(''code'', JStr code)]) (js ''/api/v1/auth/2fa/enable'')"

definition disableTwoFactor :: "jstr \<Rightarrow> http_call" where
  "disableTwoFactor code =
     call_with ''POST'' (fields_body [(''code'', JStr code)]) (js ''/api/v1/auth/2fa/disable'')"

definition verifyTwoFactor :: "jstr \<Rightarrow> http_call" where
  "verifyTwoFactor code =
     call_with ''POST'' (fields_body [(''code'', JStr code)]) (js ''/api/v1/auth/2fa/verify'')"

definition apiKeys :: http_call where
  "apiKeys = get_call (js ''/api/v1/auth/api-keys'')"

definition apiKeyCreate :: "jstr \<Rightarrow> http_call" where
  "apiKeyCreate name =
     call_with ''POST'' (fields_body [(''name'', JStr name)]) (js ''/api/v1/auth/api-keys'')"

definition apiKeyRevoke :: "jstr \<Rightarrow> http_call option" where
  "apiKeyRevoke i = item_call ''DELETE'' NoBody ''/api/v1/auth/api-keys'' i []"

section \<open>Alerts\<close>

definition alert_status_name :: "AlertStatus \<Rightarrow> jstr" where
  "alert_status_name s = (case s of Firing \<Rightarrow> js ''firing'' | Resolved \<Rightarrow> js ''resolved'')"

definition listAlerts :: "AlertStatus option \<Rightarrow> http_call" where
  "listAlerts status =
     (let query = [(js ''limit'', js ''200'')];
          query = (case status of Some s \<Rightarrow> query_set query ''status'' (alert_status_name s) | None \<Rightarrow> query)
      in get_call (js ''/api/v1/alerts?'' @ query_string query))"

definition acknowledgeAlert :: "jstr \<Rightarrow> http_call option" where
  "acknowledgeAlert i = item_call ''POST'' NoBody ''/api/v1/alerts'' i (js ''/ack'')"

definition alertSettings :: http_call where
  "alertSettings = get_call (js ''/api/v1/alerts/settings'')"

definition updateAlertSettings :: "UpdateAlertSettingsRequest \<Rightarrow> http_call" where
  "updateAlertSettings p = call_with ''PUT'' (JsonText (PAlertSettings p)) (js ''/api/v1/alerts/settings'')"

definition testAlertSettings :: http_call where
  "testAlertSettings = call_with ''POST'' NoBody (js ''/api/v1/alerts/settings/test'')"

section \<open>Terminal\<close>

record window_location =
  loc_protocol :: jstr
  loc_host :: jstr

definition terminalStatus :: http_call where
  "terminalStatus = get_call (js ''/api/v1/terminal/status'')"

definition terminalSocketURL :: "window_location \<Rightarrow> jstr" where
  "terminalSocketURL loc =
     (let scheme = (if loc_protocol loc = js ''https:'' then js ''wss'' else js ''ws'')
      in scheme @ js ''://'' @ loc_host loc @ js ''/api/v1/terminal/ws'')"

definition terminalMetricsURL :: jstr where
  "terminalMetricsURL = js ''/api/v1/terminal/metrics''"

definition listTerminalFiles :: "jstr \<Rightarrow> http_call" where
  "listTerminalFiles path =
     get_call (js ''/api/v1/terminal/files?'' @ query_string [(js ''path'', path)])"

definition terminalFileDownloadURL :: "jstr \<Rightarrow> jstr" where
  "terminalFileDownloadURL path =
     js ''/api/v1/terminal/files?'' @ query_string [(js ''path'', path), (js ''op'', js ''download'')]"

definition uploadTerminalFile :: "jstr \<Rightarrow> upload_file \<Rightarrow> http_call" where
  "uploadTerminalFile directory f =
     call_with ''POST'' (FormBody ''file'' f)
       (js ''/api/v1/terminal/files?'' @ query_string [(js ''path'', directory)])"

definition removeTerminalFile :: "jstr \<Rightarrow> http_call" where
  "removeTerminalFile path =
     call_with ''POST'' (fields_body [(''path'', JStr path)]) (js ''/api/v1/terminal/files/remove'')"

definition mkdirTerminalFile :: "jstr \<Rightarrow> http_call" where
  "mkdirTerminalFile path =
     call_with ''POST'' (fields_body [(''path'', JStr path)]) (js ''/api/v1/terminal/files/mkdir'')"

section \<open>System\<close>

definition health_call :: http_call where
  "health_call = get_call (js ''/health/ready'')"

text \<open>The parsed body is the \<open>status\<close> field; every failure, a missing body included, is caught.\<close>

definition health_settled :: "jstr option outcome \<Rightarrow> bool" where
  "health_settled result = (case result of Inr (Some status) \<Rightarrow> status = js ''ready'' | _ \<Rightarrow> False)"

definition systemInfo :: http_call where
  "systemInfo = get_call (js ''/api/v1/system/info'')"

definition systemResources :: http_call where
  "systemResources = get_call (js ''/api/v1/system/resources'')"

definition systemDisk :: http_call where
  "systemDisk = get_call (js ''/api/v1/system/disk'')"

definition dockerContainers :: http_call where
  "dockerContainers = get_call (js ''/api/v1/docker/containers'')"

definition triggerSystemUpdate :: http_call where
  "triggerSystemUpdate = call_with ''POST'' NoBody (js ''/api/v1/system/update'')"

section \<open>Subscriptions\<close>

definition listSubscriptions :: http_call where
  "listSubscriptions = get_call (js ''/api/v1/subscriptions?limit=500&offset=0'')"

definition createSubscription :: "CreateSubscriptionRequest \<Rightarrow> http_call" where
  "createSubscription p = call_with ''POST'' (JsonText (PCreateSubscription p)) (js ''/api/v1/subscriptions'')"

definition updateSubscription :: "jstr \<Rightarrow> UpdateSubscriptionRequest \<Rightarrow> http_call option" where
  "updateSubscription i p = item_call ''PUT'' (JsonText (PUpdateSubscription p)) ''/api/v1/subscriptions'' i []"

definition refreshSubscription :: "jstr \<Rightarrow> http_call option" where
  "refreshSubscription i = item_call ''POST'' NoBody ''/api/v1/subscriptions'' i (js ''/refresh'')"

definition refreshSubscriptions :: "jstr list \<Rightarrow> http_call" where
  "refreshSubscriptions subscriptionIds =
     call_with ''POST'' (fields_body [(''subscription_ids'', JStrs subscriptionIds)])
       (js ''/api/v1/subscriptions?action=refresh'')"

definition deleteSubscription :: "jstr \<Rightarrow> int \<Rightarrow> http_call option" where
  "deleteSubscription i version =
     Option.bind (encodeURIComponent (show_int version))
       (\<lambda>v. item_call ''DELETE'' NoBody ''/api/v1/subscriptions'' i (js ''?version='' @ v))"

section \<open>Nodes and settings\<close>

record node_filters =
  nf_search :: "jstr option"
  nf_protocol :: "jstr option"
  nf_state :: "jstr option"

text \<open>A name is set when the value is truthy.\<close>

definition query_set_truthy :: "string \<Rightarrow> jstr option \<Rightarrow> query \<Rightarrow> query" where
  "query_set_truthy name v q =
     (case v of Some s \<Rightarrow> if s \<noteq> [] then query_set q name s else q | None \<Rightarrow> q)"

definition listNodes :: "node_filters option \<Rightarrow> http_call" where
  "listNodes filters =
     (let q0 = [(js ''limit'', js ''1000''), (js ''offset'', js ''0'')];
          q1 = query_set_truthy ''search'' (Option.bind filters nf_search) q0;
          q2 = query_set_truthy ''protocol'' (Option.bind filters nf_protocol) q1;
          q3 = query_set_truthy ''state'' (Option.bind filters nf_state) q2
      in get_call (js ''/api/v1/nodes?'' @ query_string q3))"

definition checkNode :: "jstr \<Rightarrow> http_call option" where
  "checkNode i = item_call ''POST'' NoBody ''/api/v1/nodes'' i (js ''/check'')"

definition disableNode :: "jstr \<Rightarrow> http_call option" where
  "disableNode i = item_call ''POST'' NoBody ''/api/v1/nodes'' i (js ''/disable'')"

definition enableNode :: "jstr \<Rightarrow> http_call option" where
  "enableNode i = item_call ''POST'' NoBody ''/api/v1/nodes'' i (js ''/enable'')"

definition nodeQualitySettings :: http_call where
  "nodeQualitySettings = get_call (js ''/api/v1/node-settings'')"

definition updateNodeQualitySettings :: "NodeQualitySettings \<Rightarrow> http_call" where
  "updateNodeQualitySettings p = call_with ''PUT'' (JsonText (PNodeQuality p)) (js ''/api/v1/node-settings'')"

definition globalSettings :: http_call where
  "globalSettings = get_call (js ''/api/v1/settings'')"

definition updateGlobalSettings :: "GlobalSettings \<Rightarrow> http_call" where
  "updateGlobalSettings p = call_with ''PUT'' (JsonText (PGlobalSettings p)) (js ''/api/v1/settings'')"

definition routingRules :: http_call where
  "routingRules = get_call (js ''/api/v1/routing-rules'')"

definition updateRoutingRules :: "RoutingRulesConfig \<Rightarrow> http_call" where
  "updateRoutingRules p = call_with ''PUT'' (JsonText (PRoutingRules p)) (js ''/api/v1/routing-rules'')"

definition checkNodes :: "jstr list \<Rightarrow> http_call" where
  "checkNodes nodeIds =
     call_with ''POST'' (fields_body [(''node_ids'', JStrs nodeIds)]) (js ''/api/v1/nodes'')"

section \<open>Proxy groups, listeners and services\<close>

definition listProxyGroups :: http_call where
  "listProxyGroups = get_call (js ''/api/v1/proxy-groups'')"

definition createProxyGroup :: "CreateProxyGroupRequest \<Rightarrow> http_call" where
  "createProxyGroup p = call_with ''POST'' (JsonText (PCreateProxyGroup p)) (js ''/api/v1/proxy-groups'')"

definition updateProxyGroup :: "jstr \<Rightarrow> UpdateProxyGroupRequest \<Rightarrow> http_call option" where
  "updateProxyGroup i p = item_call ''PUT'' (JsonText (PUpdateProxyGroup p)) ''/api/v1/proxy-groups'' i []"

definition deleteProxyGroup :: "jstr \<Rightarrow> int \<Rightarrow> http_call option" where
  "deleteProxyGroup i version = item_call ''DELETE'' NoBody ''/api/v1/proxy-groups'' i (version_query version)"

definition listListeners :: http_call where
  "listListeners = get_call (js ''/api/v1/listeners'')"

definition createListener :: "CreateListenerRequest \<Rightarrow> http_call" where
  "createListener p = call_with ''POST'' (JsonText (PCreateListener p)) (js ''/api/v1/listeners'')"

definition createProxyService :: "CreateProxyServiceRequest \<Rightarrow> http_call" where
  "createProxyService p = call_with ''POST'' (JsonText (PCreateProxyService p)) (js ''/api/v1/proxy-services'')"

definition updateProxyService :: "UpdateProxyServiceRequest \<Rightarrow> http_call option" where
  "updateProxyService p =
     item_call ''PUT'' (JsonText (PUpdateProxyService p)) ''/api/v1/proxy-services'' (ups_group_id p) []"

definition updateListener :: "jstr \<Rightarrow> UpdateListenerRequest \<Rightarrow> http_call option" where
  "updateListener i p = item_call ''PUT'' (JsonText (PUpdateListener p)) ''/api/v1/listeners'' i []"

definition rotateListenerShare :: "jstr \<Rightarrow> http_call option" where
  "rotateListenerShare i = item_call ''POST'' NoBody ''/api/v1/listeners'' i (js ''/rotate-share'')"

text \<open>The formats are plain words, which the encoder leaves as they are.\<close>

datatype share_format = V2rayn | Clash | SingBox | UriList

definition share_format_name :: "share_format \<Rightarrow> string" where
  "share_format_name f =
     (case f of V2rayn \<Rightarrow> ''v2rayn'' | Clash \<Rightarrow> ''clash'' | SingBox \<Rightarrow> ''sing-box'' | UriList \<Rightarrow> ''uri'')"

definition listenerShareURL :: "window_location \<Rightarrow> jstr \<Rightarrow> share_format option \<Rightarrow> jstr option" where
  "listenerShareURL loc sharePath format =
     map_option (\<lambda>suffix. loc_protocol loc @ js ''//'' @ loc_host loc @ sharePath @ suffix)
       (case format of
          None \<Rightarrow> Some []
        | Some f \<Rightarrow> map_option (\<lambda>e. js ''?format='' @ e) (encodeURIComponent (js (share_format_name f))))"

text \<open>The call is a plain \<open>fetch\<close>; the outcome is the text.\<close>

definition listenerShareContent :: "window_location \<Rightarrow> jstr \<Rightarrow> jstr option" where
  "listenerShareContent loc sharePath = listenerShareURL loc sharePath (Some UriList)"

definition share_content_settled :: "jstr + unit http_response \<Rightarrow> jstr outcome" where
  "share_content_settled answer =
     (case answer of
        Inl message \<Rightarrow> Inl (NetworkError message)
      | Inr r \<Rightarrow> if \<not> response_ok r then Inl (failure r) else Inr (rs_text r))"

definition deleteListener :: "jstr \<Rightarrow> int \<Rightarrow> http_call option" where
  "deleteListener i version = item_call ''DELETE'' NoBody ''/api/v1/listeners'' i (version_query version)"

definition dataPlaneStatus :: http_call where
  "dataPlaneStatus = get_call (js ''/api/v1/dataplane/status'')"

definition applyDataPlane :: http_call where
  "applyDataPlane = call_with ''POST'' NoBody (js ''/api/v1/dataplane/apply'')"

definition overviewStreamURL :: jstr where
  "overviewStreamURL = js ''/api/v1/overview/stream''"

section \<open>Traffic, logs and artifacts\<close>

definition traffic_resource_name :: "TrafficResourceType \<Rightarrow> jstr" where
  "traffic_resource_name r =
     (case r of TrListener \<Rightarrow> js ''listener'' | TrProxyGroup \<Rightarrow> js ''proxy_group''
      | TrNode \<Rightarrow> js ''node'' | TrResidentialChannel \<Rightarrow> js ''residential_channel'')"

text \<open>\<open>now\<close> is the time value of \<open>new Date()\<close>.\<close>

definition trafficSeries :: "int \<Rightarrow> TrafficResourceType \<Rightarrow> jstr \<Rightarrow> int \<Rightarrow> http_call option" where
  "trafficSeries now resourceType resourceId hours =
     (case (toISOString (now - hours * 60 * 60 * 1000), toISOString now) of
        (Some from_iso, Some to_iso) \<Rightarrow>
          Some (get_call (js ''/api/v1/traffic?'' @ query_string
            [(js ''resource_type'', traffic_resource_name resourceType),
             (js ''resource_id'', resourceId),
             (js ''from'', from_iso),
             (js ''to'', to_iso),
             (js ''max_points'', js ''96'')]))
      | _ \<Rightarrow> None)"

definition query_set_time :: "string \<Rightarrow> int option \<Rightarrow> query \<Rightarrow> query option" where
  "query_set_time name t q =
     (case t of None \<Rightarrow> Some q | Some v \<Rightarrow> map_option (query_set q name) (toISOString v))"

definition summaries_call ::
  "TrafficResourceType \<Rightarrow> int option \<Rightarrow> int option \<Rightarrow> int \<Rightarrow> http_call option" where
  "summaries_call resourceType from_t to_t offset =
     Option.bind
       (Option.bind
         (query_set_time ''from'' from_t
           [(js ''resource_type'', traffic_resource_name resourceType),
            (js ''limit'', show_int 1000), (js ''offset'', show_int offset)])
         (query_set_time ''to'' to_t))
       (\<lambda>q. Some (get_call (js ''/api/v1/traffic?'' @ query_string q)))"

text \<open>
  The paging loop: \<open>fetch_page\<close> answers the call for an offset. The result is the list of the
  calls made and the outcome.
\<close>

function summaries_loop ::
  "(int \<Rightarrow> http_call option) \<Rightarrow> (http_call \<Rightarrow> TrafficSummaryList outcome) \<Rightarrow> int \<Rightarrow> TrafficSummary list
     \<Rightarrow> http_call list \<times> TrafficSummary list outcome" where
  "summaries_loop make_call fetch_page offset items =
     (let pageSize = 1000 in
      if offset < pageSize then
        (case make_call offset of
           None \<Rightarrow> ([], Inl RangeError)
         | Some call \<Rightarrow>
             (case fetch_page call of
                Inl e \<Rightarrow> ([call], Inl e)
              | Inr page \<Rightarrow>
                  if int (length (tsl_items page)) < pageSize then ([call], Inr (items @ tsl_items page))
                  else (let (calls, r) =
                          summaries_loop make_call fetch_page (offset + pageSize) (items @ tsl_items page)
                        in (call # calls, r))))
      else ([], Inr items))"
  by pat_completeness auto
termination
  by (relation "measure (\<lambda>(_, _, offset, _). nat (1000 - offset))") auto

definition trafficSummaries ::
  "TrafficResourceType \<Rightarrow> int option \<Rightarrow> int option \<Rightarrow> (http_call \<Rightarrow> TrafficSummaryList outcome)
     \<Rightarrow> http_call list \<times> TrafficSummaryList outcome" where
  "trafficSummaries resourceType from_t to_t fetch_page =
     (let (calls, r) = summaries_loop (summaries_call resourceType from_t to_t) fetch_page 0 []
      in (calls, map_sum id (\<lambda>items. \<lparr>tsl_items = items, tsl_limit = 1000, tsl_offset = 0\<rparr>) r))"

record log_filters =
  lf_listenerId :: "jstr option"
  lf_proxyGroupId :: "jstr option"
  lf_nodeId :: "jstr option"
  lf_level :: "jstr option"

definition proxyLogURL :: "log_filters \<Rightarrow> jstr" where
  "proxyLogURL filters =
     (let q = query_set_truthy ''listener_id'' (lf_listenerId filters) [];
          q = query_set_truthy ''proxy_group_id'' (lf_proxyGroupId filters) q;
          q = query_set_truthy ''node_id'' (lf_nodeId filters) q;
          q = query_set_truthy ''level'' (lf_level filters) q
      in js ''/api/v1/logs/stream?'' @ query_string q)"

definition artifact_collection :: "ArtifactKind \<Rightarrow> string" where
  "artifact_collection kind = (if kind = Backup then ''backups'' else ''exports'')"

definition listArtifacts :: "ArtifactKind \<Rightarrow> http_call" where
  "listArtifacts kind = get_call (js (''/api/v1/'' @ artifact_collection kind))"

definition createArtifact :: "ArtifactKind \<Rightarrow> jstr \<Rightarrow> http_call" where
  "createArtifact kind description =
     call_with ''POST'' (fields_body [(''description'', JStr description), (''include_secrets'', JBool False)])
       (js (''/api/v1/'' @ artifact_collection kind))"

definition verifyArtifact :: "ArtifactKind \<Rightarrow> jstr \<Rightarrow> http_call option" where
  "verifyArtifact kind i =
     item_call ''POST'' NoBody (''/api/v1/'' @ artifact_collection kind) i (js ''/verify'')"

definition deleteArtifact :: "ArtifactKind \<Rightarrow> jstr \<Rightarrow> http_call option" where
  "deleteArtifact kind i = item_call ''DELETE'' NoBody (''/api/v1/'' @ artifact_collection kind) i []"

definition artifactDownloadURL :: "ArtifactKind \<Rightarrow> jstr \<Rightarrow> jstr option" where
  "artifactDownloadURL kind i = item_path (''/api/v1/'' @ artifact_collection kind) i (js ''/download'')"

section \<open>Residential providers and channels\<close>

definition residentialPresets :: http_call where
  "residentialPresets = get_call (js ''/api/v1/residential/presets'')"

definition listResidentialProviders :: http_call where
  "listResidentialProviders = get_call (js ''/api/v1/residential/providers'')"

definition createResidentialProvider :: "CreateResidentialProviderRequest \<Rightarrow> http_call" where
  "createResidentialProvider p =
     call_with ''POST'' (JsonText (PCreateProvider p)) (js ''/api/v1/residential/providers'')"

definition updateResidentialProvider :: "jstr \<Rightarrow> UpdateResidentialProviderRequest \<Rightarrow> http_call option" where
  "updateResidentialProvider i p =
     item_call ''PUT'' (JsonText (PUpdateProvider p)) ''/api/v1/residential/providers'' i []"

definition deleteResidentialProvider :: "jstr \<Rightarrow> int \<Rightarrow> http_call option" where
  "deleteResidentialProvider i version =
     item_call ''DELETE'' NoBody ''/api/v1/residential/providers'' i (version_query version)"

definition testResidentialProvider :: "jstr \<Rightarrow> jstr option \<Rightarrow> http_call option" where
  "testResidentialProvider i exitIPEndpoint =
     item_call ''POST''
       (fields_body (case Option.bind exitIPEndpoint nonempty of
          Some e \<Rightarrow> [(''exit_ip_endpoint'', JStr e)] | None \<Rightarrow> []))
       ''/api/v1/residential/providers'' i (js ''/test'')"

definition listResidentialChannels :: http_call where
  "listResidentialChannels = get_call (js ''/api/v1/residential/channels'')"

definition createResidentialChannel :: "CreateResidentialChannelRequest \<Rightarrow> http_call" where
  "createResidentialChannel p =
     call_with ''POST'' (JsonText (PCreateChannel p)) (js ''/api/v1/residential/channels'')"

definition updateResidentialChannel :: "jstr \<Rightarrow> UpdateResidentialChannelRequest \<Rightarrow> http_call option" where
  "updateResidentialChannel i p =
     item_call ''PUT'' (JsonText (PUpdateChannel p)) ''/api/v1/residential/channels'' i []"

definition deleteResidentialChannel :: "jstr \<Rightarrow> int \<Rightarrow> http_call option" where
  "deleteResidentialChannel i version =
     item_call ''DELETE'' NoBody ''/api/v1/residential/channels'' i (version_query version)"

definition rotateResidentialChannel :: "jstr \<Rightarrow> http_call option" where
  "rotateResidentialChannel i = item_call ''POST'' NoBody ''/api/v1/residential/channels'' i (js ''/rotate'')"

definition rotateResidentialChannelToken :: "jstr \<Rightarrow> http_call option" where
  "rotateResidentialChannelToken i =
     item_call ''POST'' NoBody ''/api/v1/residential/channels'' i (js ''/rotate-token'')"

definition rotateResidentialShareToken :: "jstr \<Rightarrow> http_call option" where
  "rotateResidentialShareToken i =
     item_call ''POST'' NoBody ''/api/v1/residential/channels'' i (js ''/rotate-share'')"

definition rotateResidentialControlToken :: "jstr \<Rightarrow> http_call option" where
  "rotateResidentialControlToken i =
     item_call ''POST'' NoBody ''/api/v1/residential/channels'' i (js ''/rotate-control'')"

definition rotateResidentialSession :: "jstr \<Rightarrow> int \<Rightarrow> http_call option" where
  "rotateResidentialSession i index =
     item_call ''POST'' NoBody ''/api/v1/residential/channels'' i
       (js ''/sessions/'' @ show_int index @ js ''/next'')"

definition refreshResidentialChannelPool :: "jstr \<Rightarrow> http_call option" where
  "refreshResidentialChannelPool i =
     item_call ''POST'' NoBody ''/api/v1/residential/channels'' i (js ''/refresh-pool'')"

section \<open>Fleet\<close>

definition fleetStatus :: http_call where
  "fleetStatus = get_call (js ''/api/v1/fleet/status'')"

definition fleetAccounts :: http_call where
  "fleetAccounts = get_call (js ''/api/v1/fleet/accounts'')"

definition fleetAddAccount :: "AddFleetAccountRequest \<Rightarrow> http_call" where
  "fleetAddAccount p = call_with ''POST'' (JsonText (PFleetAccount p)) (js ''/api/v1/fleet/accounts'')"

definition fleetDeleteAccount :: "jstr \<Rightarrow> http_call option" where
  "fleetDeleteAccount i = item_call ''DELETE'' NoBody ''/api/v1/fleet/accounts'' i []"

definition fleetSweep :: http_call where
  "fleetSweep = call_with ''POST'' NoBody (js ''/api/v1/fleet/sweep'')"

section \<open>Where an identifier ends up\<close>

text \<open>All methods that take an identifier into the path of a request.\<close>

datatype item_op =
    KeyRevoke | AlertAck | SubUpdate UpdateSubscriptionRequest | SubRefresh | SubDelete int
  | NodeCheck | NodeDisable | NodeEnable
  | GroupUpdate UpdateProxyGroupRequest | GroupDelete int | ServiceUpdate UpdateProxyServiceRequest
  | ListenerUpdate UpdateListenerRequest | ListenerRotate | ListenerDelete int
  | ArtifactVerify ArtifactKind | ArtifactDelete ArtifactKind
  | ProviderUpdate UpdateResidentialProviderRequest | ProviderDelete int | ProviderTest "jstr option"
  | ChannelUpdate UpdateResidentialChannelRequest | ChannelDelete int | ChannelRotate
  | ChannelToken | ChannelShare | ChannelControl | ChannelSession int | ChannelPool
  | FleetDelete

fun item_request :: "item_op \<Rightarrow> jstr \<Rightarrow> http_call option" where
  "item_request KeyRevoke i = apiKeyRevoke i"
| "item_request AlertAck i = acknowledgeAlert i"
| "item_request (SubUpdate p) i = updateSubscription i p"
| "item_request SubRefresh i = refreshSubscription i"
| "item_request (SubDelete v) i = deleteSubscription i v"
| "item_request NodeCheck i = checkNode i"
| "item_request NodeDisable i = disableNode i"
| "item_request NodeEnable i = enableNode i"
| "item_request (GroupUpdate p) i = updateProxyGroup i p"
| "item_request (GroupDelete v) i = deleteProxyGroup i v"
| "item_request (ServiceUpdate p) i = updateProxyService (p\<lparr>ups_group_id := i\<rparr>)"
| "item_request (ListenerUpdate p) i = updateListener i p"
| "item_request ListenerRotate i = rotateListenerShare i"
| "item_request (ListenerDelete v) i = deleteListener i v"
| "item_request (ArtifactVerify k) i = verifyArtifact k i"
| "item_request (ArtifactDelete k) i = deleteArtifact k i"
| "item_request (ProviderUpdate p) i = updateResidentialProvider i p"
| "item_request (ProviderDelete v) i = deleteResidentialProvider i v"
| "item_request (ProviderTest e) i = testResidentialProvider i e"
| "item_request (ChannelUpdate p) i = updateResidentialChannel i p"
| "item_request (ChannelDelete v) i = deleteResidentialChannel i v"
| "item_request ChannelRotate i = rotateResidentialChannel i"
| "item_request ChannelToken i = rotateResidentialChannelToken i"
| "item_request ChannelShare i = rotateResidentialShareToken i"
| "item_request ChannelControl i = rotateResidentialControlToken i"
| "item_request (ChannelSession n) i = rotateResidentialSession i n"
| "item_request ChannelPool i = refreshResidentialChannelPool i"
| "item_request FleetDelete i = fleetDeleteAccount i"

text \<open>The route each of them is meant for: what comes before and after the identifier.\<close>

fun item_route :: "item_op \<Rightarrow> string \<times> jstr" where
  "item_route KeyRevoke = (''/api/v1/auth/api-keys'', [])"
| "item_route AlertAck = (''/api/v1/alerts'', js ''/ack'')"
| "item_route (SubUpdate p) = (''/api/v1/subscriptions'', [])"
| "item_route SubRefresh = (''/api/v1/subscriptions'', js ''/refresh'')"
| "item_route (SubDelete v) = (''/api/v1/subscriptions'', [])"
| "item_route NodeCheck = (''/api/v1/nodes'', js ''/check'')"
| "item_route NodeDisable = (''/api/v1/nodes'', js ''/disable'')"
| "item_route NodeEnable = (''/api/v1/nodes'', js ''/enable'')"
| "item_route (GroupUpdate p) = (''/api/v1/proxy-groups'', [])"
| "item_route (GroupDelete v) = (''/api/v1/proxy-groups'', [])"
| "item_route (ServiceUpdate p) = (''/api/v1/proxy-services'', [])"
| "item_route (ListenerUpdate p) = (''/api/v1/listeners'', [])"
| "item_route ListenerRotate = (''/api/v1/listeners'', js ''/rotate-share'')"
| "item_route (ListenerDelete v) = (''/api/v1/listeners'', [])"
| "item_route (ArtifactVerify k) = (if k = Backup then ''/api/v1/backups'' else ''/api/v1/exports'', js ''/verify'')"
| "item_route (ArtifactDelete k) = (if k = Backup then ''/api/v1/backups'' else ''/api/v1/exports'', [])"
| "item_route (ProviderUpdate p) = (''/api/v1/residential/providers'', [])"
| "item_route (ProviderDelete v) = (''/api/v1/residential/providers'', [])"
| "item_route (ProviderTest e) = (''/api/v1/residential/providers'', js ''/test'')"
| "item_route (ChannelUpdate p) = (''/api/v1/residential/channels'', [])"
| "item_route (ChannelDelete v) = (''/api/v1/residential/channels'', [])"
| "item_route ChannelRotate = (''/api/v1/residential/channels'', js ''/rotate'')"
| "item_route ChannelToken = (''/api/v1/residential/channels'', js ''/rotate-token'')"
| "item_route ChannelShare = (''/api/v1/residential/channels'', js ''/rotate-share'')"
| "item_route ChannelControl = (''/api/v1/residential/channels'', js ''/rotate-control'')"
| "item_route (ChannelSession n) = (''/api/v1/residential/channels'', js ''/sessions/'' @ show_int n @ js ''/next'')"
| "item_route ChannelPool = (''/api/v1/residential/channels'', js ''/refresh-pool'')"
| "item_route FleetDelete = (''/api/v1/fleet/accounts'', [])"

text \<open>The segments of a URL's path: what precedes a question mark (63), cut at slashes.\<close>

definition path_segments :: "jstr \<Rightarrow> jstr list" where
  "path_segments url = split_on slash (takeWhile (\<lambda>u. u \<noteq> 63) url)"

lemma ascii_scalar: "u < 128 \<Longrightarrow> scalar u \<and> u < 0x10000 \<and> \<not> is_lead u"
  by (simp add: scalar_def is_lead_def is_trail_def)

lemma code_points_ascii: "(\<And>u. u \<in> set s \<Longrightarrow> u < 128) \<Longrightarrow> code_points s = Some s"
proof (induction s rule: code_points.induct)
  case (2 u)
  then show ?case by (simp add: ascii_scalar)
next
  case (3 u v s)
  note u = ascii_scalar[OF "3.prems"[of u], simplified]
  have "code_points (v # s) = Some (v # s)" using "3.IH"(2) u "3.prems" by simp
  with u show ?case by simp
qed simp

lemma takeWhile_skip: "c \<notin> set s \<Longrightarrow> takeWhile (\<lambda>u. u \<noteq> c) (s @ t) = s @ takeWhile (\<lambda>u. u \<noteq> c) t"
  by (rule takeWhile_append2) auto

lemma encode_show_int: "encodeURIComponent (show_int n) = Some (show_int n)"
proof -
  have "code_points (show_int n) = Some (show_int n)"
    by (rule code_points_ascii) (auto dest: show_int_units)
  moreover have "concat (map encode_point s) = s" if "\<And>u. u \<in> set s \<Longrightarrow> unreserved u" for s
    using that by (induction s) (auto simp: encode_point_def)
  moreover have "unreserved u" if "u \<in> set (show_int n)" for u
    using show_int_units[OF that] by (auto simp: unreserved_def alnum_def)
  ultimately show ?thesis by (simp add: encodeURIComponent_def)
qed

text \<open>The fixed text after an identifier is a query, or path segments and no query.\<close>

definition fixed_rest :: "jstr \<Rightarrow> jstr \<Rightarrow> bool" where
  "fixed_rest rest route \<longleftrightarrow>
     (route = [] \<and> (rest = [] \<or> hd rest = 63)) \<or> (rest = route \<and> hd rest = slash \<and> 63 \<notin> set rest \<and> rest \<noteq> [])"

lemma item_path_route:
  assumes "item_path base i rest = Some path" and "63 \<notin> set (js base)" and "fixed_rest rest route"
  shows "\<exists>e. path_segments path = split_on slash (js base) @ e # tl (split_on slash route)
    \<and> decodeURIComponent e = Some i"
proof -
  obtain e where e: "encodeURIComponent i = Some e" and path: "path = js base @ slash # e @ rest"
    using assms(1) by (auto simp: item_path_def)
  have no_query: "63 \<notin> set e" by (rule uri.enc_no_query[OF e])
  have "takeWhile (\<lambda>u. u \<noteq> 63) path = js base @ slash # e @ takeWhile (\<lambda>u. u \<noteq> 63) rest"
    unfolding path using assms(2) no_query by (simp add: takeWhile_skip slash_def)
  moreover have "takeWhile (\<lambda>u. u \<noteq> 63) rest = route"
    using assms(3) by (cases rest) (auto simp: fixed_rest_def takeWhile_eq_all_conv)
  ultimately have tw: "takeWhile (\<lambda>u. u \<noteq> 63) path = js base @ slash # e @ route" by simp
  have "path_segments path = split_on slash (js base) @ e # tl (split_on slash route)"
  proof (cases route)
    case Nil
    then show ?thesis using tw uri.segment_between(2)[OF e, of "js base"] by (simp add: path_segments_def)
  next
    case (Cons u t)
    then have "u = slash" using assms(3) by (auto simp: fixed_rest_def)
    with Cons show ?thesis
      using tw uri.segment_between(1)[OF e, of "js base" t] by (simp add: path_segments_def)
  qed
  with uri.dec_enc[OF e] show ?thesis by blast
qed

lemma item_call_route:
  assumes "item_call verb body base i rest = Some (path, init)"
    and "63 \<notin> set (js base)" and "fixed_rest rest route"
  shows "(\<exists>e. path_segments path = split_on slash (js base) @ e # tl (split_on slash route)
    \<and> decodeURIComponent e = Some i) \<and> in_method init = Some (js verb)"
  using assms item_path_route[of base i rest path route]
  by (auto simp: item_call_def call_with_def)

lemma fixed_rest_query: "fixed_rest [] []" "fixed_rest (js ''?version='' @ t) []"
  by (auto simp: fixed_rest_def js_eval)

lemma show_int_no_query: "63 \<notin> set (show_int n)"
  using show_int_units[of 63 n] by auto

lemmas item_methods =
  apiKeyRevoke_def acknowledgeAlert_def updateSubscription_def refreshSubscription_def
  checkNode_def disableNode_def enableNode_def updateProxyGroup_def
  deleteProxyGroup_def updateListener_def rotateListenerShare_def
  deleteListener_def updateResidentialProvider_def
  deleteResidentialProvider_def testResidentialProvider_def updateResidentialChannel_def
  deleteResidentialChannel_def rotateResidentialChannel_def rotateResidentialChannelToken_def
  rotateResidentialShareToken_def rotateResidentialControlToken_def rotateResidentialSession_def
  refreshResidentialChannelPool_def fleetDeleteAccount_def

lemma item_callI:
  "c = item_call m b base i rest \<Longrightarrow> fixed_rest rest route \<Longrightarrow> m \<in> {''POST'', ''PUT'', ''DELETE''} \<Longrightarrow>
    \<exists>verb body rest. c = item_call verb body base i rest \<and> fixed_rest rest route
      \<and> verb \<in> {''POST'', ''PUT'', ''DELETE''}"
  by blast

lemmas item_rest = fixed_rest_def version_query_def js_eval slash_def show_int_no_query

lemma item_request_call:
  "\<exists>verb body rest. item_request op i = item_call verb body (fst (item_route op)) i rest
     \<and> fixed_rest rest (snd (item_route op)) \<and> verb \<in> {''POST'', ''PUT'', ''DELETE''}"
proof (cases op)
  case (SubDelete v)
  show ?thesis
    by (intro exI[of _ "''DELETE''"] exI[of _ NoBody] exI[of _ "js ''?version='' @ show_int v"])
      (simp add: SubDelete deleteSubscription_def encode_show_int fixed_rest_query)
next
  case (ServiceUpdate p)
  show ?thesis unfolding ServiceUpdate
    by (rule item_callI, simp add: updateProxyService_def) (simp_all add: item_rest)
next
  case (ArtifactVerify k)
  show ?thesis unfolding ArtifactVerify
    by (cases k) (rule item_callI, simp add: verifyArtifact_def artifact_collection_def,
      simp add: item_rest, simp)+
next
  case (ArtifactDelete k)
  show ?thesis unfolding ArtifactDelete
    by (cases k) (rule item_callI, simp add: deleteArtifact_def artifact_collection_def,
      simp add: item_rest, simp)+
qed (simp_all only: item_request.simps item_route.simps item_methods fst_conv snd_conv,
    (rule item_callI, rule refl, simp add: item_rest, simp)+)

lemma item_base_no_query: "63 \<notin> set (js (fst (item_route op)))"
  by (cases op) (auto simp: js_eval)

lemma in_methods_mutating:
  "in_method init = Some (js verb) \<Longrightarrow> verb \<in> {''POST'', ''PUT'', ''DELETE''} \<Longrightarrow> mutating init"
  by (auto simp: mutating_def to_upper_def js_eval upper_unit_def)



text \<open>
  A call for an item exists exactly when its identifier can be encoded at all.\<close>

theorem item_request_defined: "(item_request op i = None) = (encodeURIComponent i = None)"
proof -
  obtain verb body rest where "item_request op i = item_call verb body (fst (item_route op)) i rest"
    using item_request_call by blast
  then show ?thesis by (simp add: item_call_def item_path_def)
qed

section \<open>The summaries loop\<close>

text \<open>
  the paging loop of the traffic summaries makes exactly one request, for offset 0, and
  returns that page, even when the page is full.
\<close>

theorem trafficSummaries_single_page:
  assumes "summaries_call resourceType from_t to_t 0 = Some call" and "fetch_page call = Inr page"
  shows "trafficSummaries resourceType from_t to_t fetch_page =
    ([call], Inr \<lparr>tsl_items = tsl_items page, tsl_limit = 1000, tsl_offset = 0\<rparr>)"
proof -
  have "summaries_loop mk fetch_page 1000 items = ([], Inr items)" for mk items by simp
  with assms show ?thesis by (simp add: trafficSummaries_def Let_def del: summaries_loop.simps)
    (simp add: summaries_loop.simps[of _ _ 0] Let_def del: summaries_loop.simps)
qed

definition full_page :: TrafficSummaryList where
  "full_page = \<lparr>tsl_items = replicate 1000 \<lparr>ts_resource_type = TrNode, ts_resource_id = js ''n'',
     ts_upload_bytes = 1, ts_download_bytes = 1, ts_connection_count = 1, ts_active_connections = 1,
     ts_updated_at = None\<rparr>, tsl_limit = 1000, tsl_offset = 0\<rparr>"

theorem trafficSummaries_single_page_witness:
  "length (fst (trafficSummaries TrNode None None (\<lambda>_. Inr full_page))) = 1"
proof -
  obtain call where "summaries_call TrNode None None 0 = Some call"
    by (simp add: summaries_call_def query_set_time_def)
  from trafficSummaries_single_page[OF this, of "\<lambda>_. Inr full_page" full_page] show ?thesis by simp
qed

section \<open>The life of the token\<close>

text \<open>Everything that changes the stored token, in the order the responses arrive.\<close>

datatype auth_event =
    LoginSettled "LoginResult option outcome"
  | LogoutSettled "unit option outcome"
  | LogoutAllSettled "unit option outcome"

fun auth_step :: "client \<Rightarrow> auth_event \<Rightarrow> client" where
  "auth_step c (LoginSettled r) = fst (login_settled c r)"
| "auth_step c (LogoutSettled r) = fst (logout_settled c r)"
| "auth_step c (LogoutAllSettled r) = fst (logoutAll_settled c r)"

text \<open>The token an event leaves behind, when it succeeded.\<close>

fun auth_effect :: "auth_event \<Rightarrow> jstr option" where
  "auth_effect (LoginSettled (Inr (Some r))) = Some (lr_csrf_token r)"
| "auth_effect (LogoutSettled (Inr _)) = Some []"
| "auth_effect (LogoutAllSettled (Inr _)) = Some []"
| "auth_effect _ = None"

lemma auth_step_token: "csrf_token (auth_step c e) = or_default (auth_effect e) (csrf_token c)"
  by (cases e rule: auth_effect.cases)
    (simp_all add: login_settled_def logout_settled_def logoutAll_settled_def setCsrfToken_def)

lemma auth_run_token:
  "csrf_token (foldl auth_step c es) = last (csrf_token c # List.map_filter auth_effect es)"
proof (induction es arbitrary: c)
  case (Cons e es)
  then show ?case
    by (cases "auth_effect e") (simp_all add: auth_step_token List.map_filter_simps)
qed simp

text \<open>
  after any sequence of settled logins and logouts the token sent with a mutating request is
  the one of the last success; failures change nothing, and after a successful logout no token
  is sent until the next login.
\<close>

theorem token_of_last_success:
  "headers_get (fc_headers (send (foldl auth_step initial_client es) (path, init))) ''X-CSRF-Token'' =
    (let token = last ([] # List.map_filter auth_effect es) in
     if token \<noteq> [] \<and> mutating init then Some token
     else headers_get (new_headers (in_headers init)) ''X-CSRF-Token'')"
  using send_csrf[of "foldl auth_step initial_client es" path init]
  by (simp add: auth_run_token Let_def initial_client_def del: last.simps)

end
