(* ===== verification/Monitors.thy ===== *)
theory Monitors
  imports ApiCalls
begin

text \<open>
  The panels that watch the server: web/src/components/terminal/host-monitor.tsx, ops-page.tsx and
  docker-page.tsx, web/src/components/host-resources.tsx and the log panel of
  service-observability.tsx. A message is its parsed value, None when it is malformed. The
  histories of three of them are instances of the bounded history.
\<close>

section \<open>Host monitor\<close>

record monitor =
  mo_sample :: "TerminalHostSample option"
  mo_history :: "TerminalHostSample list"
  mo_source :: bool

definition push_sample :: "TerminalHostSample list \<Rightarrow> TerminalHostSample \<Rightarrow> TerminalHostSample list" where
  "push_sample current new = slice_last 120 (current @ [new])"

definition monitor_effect :: "bool \<Rightarrow> monitor \<Rightarrow> monitor" where
  "monitor_effect enabled m = m\<lparr>mo_source := enabled\<rparr>"

text \<open>A closed source delivers nothing more; a malformed message closes it.\<close>

definition monitor_message :: "TerminalHostSample option \<Rightarrow> monitor \<Rightarrow> monitor" where
  "monitor_message message m =
     (if \<not> mo_source m then m
      else
        (case message of
           Some new \<Rightarrow> m\<lparr>mo_sample := Some new, mo_history := push_sample (mo_history m) new\<rparr>
         | None \<Rightarrow> m\<lparr>mo_source := False\<rparr>))"

interpretation samples: bounded_history push_sample 120
  by unfold_locales (simp_all add: push_sample_def slice_last_suffix del: suffix_snoc)

section \<open>Operations page\<close>

type_synonym SystemResourceSample = TerminalHostSample

record ops =
  op_sample :: "SystemResourceSample option"
  op_disks :: "DiskUsage list"
  op_loading :: bool
  op_error :: "jstr option option"
  op_history :: "SystemResourceSample list"
  op_alive :: bool

definition push_resources :: "SystemResourceSample list \<Rightarrow> SystemResourceSample \<Rightarrow> SystemResourceSample list" where
  "push_resources current new = slice_last 120 (current @ [new])"

text \<open>The message of any error, or \<open>Some None\<close> for the fixed text.\<close>

definition ops_error :: "js_error \<Rightarrow> jstr option option" where
  "ops_error cause = Some (case cause of ApiError m _ _ _ \<Rightarrow> Some m | NetworkError m \<Rightarrow> Some m | _ \<Rightarrow> None)"

definition ops_poll :: "(SystemResourceSample \<times> DiskUsage list) outcome \<Rightarrow> ops \<Rightarrow> ops" where
  "ops_poll answer p =
     (if \<not> op_alive p then p
      else
        (case answer of
           Inr (resources, disks) \<Rightarrow>
             p\<lparr>op_sample := Some resources, op_disks := disks, op_error := None,
               op_history := push_resources (op_history p) resources, op_loading := False\<rparr>
         | Inl cause \<Rightarrow> p\<lparr>op_error := ops_error cause, op_loading := False\<rparr>))"

text \<open>The refresh button does not extend the history.\<close>

definition ops_refresh :: "(SystemResourceSample \<times> DiskUsage list) outcome \<Rightarrow> ops \<Rightarrow> ops" where
  "ops_refresh answer p =
     (case answer of
        Inr (resources, disks) \<Rightarrow> p\<lparr>op_sample := Some resources, op_disks := disks, op_error := None, op_loading := False\<rparr>
      | Inl cause \<Rightarrow> p\<lparr>op_error := ops_error cause, op_loading := False\<rparr>)"

definition ops_unmount :: "ops \<Rightarrow> ops" where
  "ops_unmount p = p\<lparr>op_alive := False\<rparr>"

interpretation resources: bounded_history push_resources 120
  by unfold_locales (simp_all add: push_resources_def slice_last_suffix del: suffix_snoc)

section \<open>Containers\<close>

record containers =
  ct_items :: "DockerContainer list"
  ct_loading :: bool
  ct_error :: "jstr option option"
  ct_alive :: bool

definition containers_poll :: "DockerContainer list outcome \<Rightarrow> containers \<Rightarrow> containers" where
  "containers_poll answer p =
     (if \<not> ct_alive p then p
      else
        (case answer of
           Inr items \<Rightarrow> p\<lparr>ct_items := items, ct_error := None, ct_loading := False\<rparr>
         | Inl cause \<Rightarrow> p\<lparr>ct_error := ops_error cause, ct_loading := False\<rparr>))"

text \<open>The refresh button: an earlier error stays until the next poll.\<close>

definition containers_refresh :: "DockerContainer list outcome \<Rightarrow> containers \<Rightarrow> containers" where
  "containers_refresh answer p =
     (case answer of
        Inr items \<Rightarrow> p\<lparr>ct_items := items, ct_loading := False\<rparr>
      | Inl cause \<Rightarrow> p\<lparr>ct_error := ops_error cause, ct_loading := False\<rparr>)"

lemma refresh_keeps_error: "ct_error (containers_refresh (Inr items) p) = ct_error p"
  by (simp add: containers_refresh_def)

section \<open>Host resources\<close>

record host_resources =
  hr_sample :: "SystemResourceSample option"
  hr_error :: bool
  hr_cancelled :: bool
  hr_polling :: bool

text \<open>A 404 ends the polling; a network failure is ignored.\<close>

definition resources_poll :: "SystemResourceSample outcome \<Rightarrow> host_resources \<Rightarrow> host_resources" where
  "resources_poll answer p =
     (case answer of
        Inr r \<Rightarrow> if \<not> hr_cancelled p then p\<lparr>hr_sample := Some r, hr_error := False\<rparr> else p
      | Inl (ApiError _ status _ _) \<Rightarrow>
          if \<not> hr_cancelled p
          then if status = 404 then p\<lparr>hr_cancelled := True, hr_polling := False\<rparr> else p\<lparr>hr_error := True\<rparr>
          else p\<lparr>hr_error := True\<rparr>
      | Inl _ \<Rightarrow> p)"

section \<open>Live logs\<close>

datatype log_status = LogConnecting | LogConnected | LogReconnecting

record logs_panel =
  lp_level :: jstr
  lp_events :: "ProxyLogEvent list"
  lp_paused :: bool
  lp_status :: log_status

definition push_event :: "ProxyLogEvent list \<Rightarrow> ProxyLogEvent \<Rightarrow> ProxyLogEvent list" where
  "push_event current event = slice_last 199 current @ [event]"

datatype log_event =
    LogFrame "ProxyLogEvent option" | LogReady | LogFailed | LevelChosen jstr | PauseToggled | LogsCleared

text \<open>Choosing a level opens a new stream, see \<open>logs_url\<close>; the events stay.\<close>

fun logs_step :: "logs_panel \<Rightarrow> log_event \<Rightarrow> logs_panel" where
  "logs_step p (LogFrame message) =
     (if lp_paused p then p
      else (case message of Some event \<Rightarrow> p\<lparr>lp_events := push_event (lp_events p) event\<rparr> | None \<Rightarrow> p))"
| "logs_step p LogReady = p\<lparr>lp_status := LogConnected\<rparr>"
| "logs_step p LogFailed = p\<lparr>lp_status := LogReconnecting\<rparr>"
| "logs_step p (LevelChosen level) = (if level = lp_level p then p else p\<lparr>lp_level := level, lp_status := LogConnecting\<rparr>)"
| "logs_step p PauseToggled = p\<lparr>lp_paused := \<not> lp_paused p\<rparr>"
| "logs_step p LogsCleared = p\<lparr>lp_events := []\<rparr>"

definition logs_url :: "jstr \<Rightarrow> logs_panel \<Rightarrow> jstr" where
  "logs_url listener p =
     proxyLogURL \<lparr>lf_listenerId = Some listener, lf_proxyGroupId = None, lf_nodeId = None,
       lf_level = (if lp_level p = js ''all'' then None else Some (lp_level p))\<rparr>"

definition initial_logs :: logs_panel where
  "initial_logs = \<lparr>lp_level = js ''all'', lp_events = [], lp_paused = False, lp_status = LogConnecting\<rparr>"

text \<open>\<open>[...current.slice(-199), event]\<close> is a history of 200.\<close>

lemma push_event_length: "length (push_event h x) = min 200 (Suc (length h))"
  by (simp add: push_event_def)

interpretation events: bounded_history push_event 200
proof
  fix h :: "ProxyLogEvent list" and x
  obtain pre where "h = pre @ slice_last 199 h" using slice_last_suffix by (metis suffix_def)
  then have "h @ [x] = pre @ push_event h x" by (simp add: push_event_def)
  then show "suffix (push_event h x) (h @ [x])" unfolding suffix_def by blast
qed (simp_all add: push_event_length)

section \<open>What the log panel shows\<close>

text \<open>The events that a sequence of panel events accepts since the last clearing.\<close>

fun accepted :: "bool \<Rightarrow> log_event list \<Rightarrow> ProxyLogEvent list \<Rightarrow> ProxyLogEvent list" where
  "accepted paused [] acc = acc"
| "accepted paused (LogFrame (Some event) # es) acc = accepted paused es (if paused then acc else acc @ [event])"
| "accepted paused (PauseToggled # es) acc = accepted (\<not> paused) es acc"
| "accepted paused (LogsCleared # es) acc = accepted paused es []"
| "accepted paused (e # es) acc = accepted paused es acc"

lemma push_accepted: "push_event (slice_last 200 acc) x = slice_last 200 (acc @ [x])"
  by (simp add: events.push_eq slice_last_append)

lemma logs_accepted:
  "lp_events p = slice_last 200 acc \<Longrightarrow> lp_events (foldl logs_step p es) = slice_last 200 (accepted (lp_paused p) es acc)"
proof (induction es arbitrary: p acc)
  case (Cons e es)
  show ?case
  proof (cases e)
    case (LogFrame message)
    with Cons.prems show ?thesis by (cases message) (simp_all add: Cons.IH push_accepted)
  next
    case LogsCleared
    with Cons.IH[of "p\<lparr>lp_events := []\<rparr>" "[]"] show ?thesis by simp
  qed (use Cons.prems in \<open>simp_all add: Cons.IH\<close>)
qed simp

text \<open>
  the log panel always shows the latest 200 of the readable events received since it was last
  cleared and while it was not paused, in order; changing the level, errors and malformed frames
  remove none of them.
\<close>

theorem live_logs_latest:
  "lp_events (foldl logs_step initial_logs es) = slice_last 200 (accepted False es [])"
  using logs_accepted[of initial_logs "[]" es] by (simp add: initial_logs_def slice_last_def)

text \<open>The monitor's history is the latest 120 samples while its messages are readable.\<close>

lemma monitor_history:
  assumes "mo_source m" "mo_history m = []"
  shows "mo_history (foldl (\<lambda>m x. monitor_message (Some x) m) m xs) = slice_last 120 xs"
proof -
  have "mo_source m \<Longrightarrow> mo_history (foldl (\<lambda>m x. monitor_message (Some x) m) m xs) = foldl push_sample (mo_history m) xs" for m
    by (induction xs arbitrary: m) (simp_all add: monitor_message_def)
  with assms show ?thesis by (simp add: samples.foldl_push_Nil)
qed

end
