(* ===== verification/Format.thy ===== *)
theory Format
  imports Numbers
begin

text \<open>
  Numbers as texts: \<open>toFixed\<close> and \<open>Math.round\<close>, the byte sizes of web/src/lib/utils.ts, and the sizes
  and rates of web/src/pages/overview-page.tsx. Values are rationals: dividing a whole number of
  bytes by a power of 1024 is exact in double precision, and so are the rationals here.
\<close>

section \<open>Rounding\<close>

text \<open>Both round a value half way up to the larger neighbour.\<close>

definition round_half :: "rat \<Rightarrow> int" where
  "round_half x = \<lfloor>x + 1 / 2\<rfloor>"

definition toFixed0 :: "rat \<Rightarrow> jstr" where
  "toFixed0 x = (if x < 0 then 45 # show_int (round_half (- x)) else show_int (round_half x))"

definition tenths :: "int \<Rightarrow> jstr" where
  "tenths n = show_int (n div 10) @ js ''.'' @ show_int (n mod 10)"

definition toFixed1 :: "rat \<Rightarrow> jstr" where
  "toFixed1 x = (if x < 0 then 45 # tenths (round_half (- x * 10)) else tenths (round_half (x * 10)))"

definition hundredths :: "int \<Rightarrow> jstr" where
  "hundredths n = show_int (n div 100) @ js ''.'' @ show_int (n div 10 mod 10) @ show_int (n mod 10)"

definition toFixed2 :: "rat \<Rightarrow> jstr" where
  "toFixed2 x = (if x < 0 then 45 # hundredths (round_half (- x * 100)) else hundredths (round_half (x * 100)))"

lemma round_half_int [simp]: "round_half (of_int n) = n"
  unfolding round_half_def by (rule floor_unique) auto

lemma round_half_bounds: "of_int (round_half x) \<le> x + 1 / 2" "x - 1 / 2 < of_int (round_half x)"
  unfolding round_half_def using floor_correct[of "x + 1 / 2"] by linarith+

lemma round_half_mono: "x \<le> y \<Longrightarrow> round_half x \<le> round_half y"
  unfolding round_half_def by (intro floor_mono) simp

section \<open>\<open>formatBytes\<close> of utils.ts\<close>

definition byte_units :: "string list" where
  "byte_units = [''B'', ''KiB'', ''MiB'', ''GiB'']"

text \<open>
  \<open>Math.floor(Math.log(value) / Math.log(1024))\<close> for a positive value: the power of 1024 below it,
  negative for a value below one. The index has no upper bound here; it is cut off by its use.
\<close>

function below_one :: "rat \<Rightarrow> nat" where
  "below_one v = (if 0 < v \<and> v < 1 then Suc (below_one (v * 1024)) else 0)"
  by auto
termination
proof (relation "measure (\<lambda>v. nat \<lceil>1 / v\<rceil>)")
  fix v :: rat
  assume v: "0 < v \<and> v < 1"
  define y where "y = 1 / v"
  have one: "1 < y" using v by (simp add: y_def)
  have next_y: "1 / (v * 1024) = y / 1024" by (simp add: y_def)
  have "\<lceil>y / 1024\<rceil> < \<lceil>y\<rceil>"
  proof (cases "y \<le> 2")
    case True
    then have "y / 1024 \<le> 1" by simp
    then have "\<lceil>y / 1024\<rceil> \<le> 1" by (simp only: ceiling_le_one)
    moreover have "1 < \<lceil>y\<rceil>" using one by (simp only: one_less_ceiling)
    ultimately show ?thesis by linarith
  next
    case False
    then have "y / 1024 \<le> y - 1" by linarith
    then have "\<lceil>y / 1024\<rceil> \<le> \<lceil>y - 1\<rceil>" by (rule ceiling_mono)
    then show ?thesis by simp
  qed
  moreover have "0 < \<lceil>y\<rceil>" using one by (simp only: zero_less_ceiling)
  ultimately show "(v * 1024, v) \<in> measure (\<lambda>v. nat \<lceil>1 / v\<rceil>)" by (simp add: next_y y_def[symmetric])
qed simp

declare below_one.simps [simp del]

definition byte_index :: "rat \<Rightarrow> int" where
  "byte_index v =
     (if v < 1 then - int (below_one v)
      else if v < 1024 then 0 else if v < 1024 ^ 2 then 1 else if v < 1024 ^ 3 then 2 else 3)"

text \<open>A negative index finds no unit, which prints as undefined.\<close>

definition formatBytes :: "jnum \<Rightarrow> jstr" where
  "formatBytes n =
     (case n of
        Fin v \<Rightarrow>
          if v \<le> 0 then js ''0 B''
          else
            (let i = byte_index v
             in if 0 \<le> i
                then (if i = 0 then toFixed0 v else toFixed1 (v / 1024 ^ nat i)) @ js '' '' @ js (byte_units ! nat i)
                else toFixed1 (v * 1024 ^ nat (- i)) @ js '' undefined'')
      | _ \<Rightarrow> js ''0 B'')"

section \<open>Sizes and rates of the overview\<close>

definition scaled :: "string \<Rightarrow> rat \<Rightarrow> jstr" where
  "scaled unit v =
     (if v < 1024 then show_int (round_half v) @ js '' B''
      else if v < 1024 ^ 2 then toFixed1 (v / 1024) @ js '' KB''
      else if v < 1024 ^ 3 then toFixed1 (v / 1024 ^ 2) @ js '' MB''
      else toFixed1 (v / 1024 ^ 3) @ js '' GB'') @ js unit"

definition formatOverviewBytes :: "rat \<Rightarrow> jstr" where
  "formatOverviewBytes v = scaled '''' v"

definition formatRate :: "rat \<Rightarrow> jstr" where
  "formatRate v = scaled ''/s'' v"

definition formatChartRate :: "rat \<Rightarrow> jstr" where
  "formatChartRate v =
     (if 1024 ^ 2 \<le> v then toFixed1 (v / 1024 ^ 2) @ js ''M''
      else if 1024 \<le> v then toFixed1 (v / 1024) @ js ''K'' else show_int (round_half v))"

text \<open>The rates of the monitoring panels have two decimals from a gigabyte on.\<close>

definition monitorRate :: "rat \<Rightarrow> jstr" where
  "monitorRate v = (if v < 1024 ^ 3 then scaled ''/s'' v else toFixed2 (v / 1024 ^ 3) @ js '' GB/s'')"

section \<open>Facts\<close>

text \<open>What is shown is within half a unit of the last place.\<close>

lemma tenths_error:
  assumes "0 \<le> x"
  shows "\<exists>n. toFixed1 x = tenths n \<and> \<bar>of_int n - x * 10\<bar> \<le> 1 / 2"
proof (intro exI conjI)
  show "toFixed1 x = tenths (round_half (x * 10))" using assms by (simp add: toFixed1_def)
  show "\<bar>of_int (round_half (x * 10)) - x * 10\<bar> \<le> 1 / 2"
    unfolding abs_le_iff using round_half_bounds[of "x * 10"] by (intro conjI) linarith+
qed

lemma byte_index_range:
  assumes "1 \<le> v"
  shows "0 \<le> byte_index v \<and> byte_index v \<le> 3 \<and> 1024 ^ nat (byte_index v) \<le> v \<and>
    (byte_index v < 3 \<longrightarrow> v < 1024 ^ (nat (byte_index v) + 1))"
  using assms by (simp add: byte_index_def)

text \<open>The last value of each unit is rounded up to 1024 of it; a value below one finds no unit.\<close>

lemma unit_boundaries:
  "formatBytes (Fin 1023) = js ''1023 B''" "formatBytes (Fin 1024) = js ''1.0 KiB''"
  "formatBytes (Fin 1048575) = js ''1024.0 KiB''" "formatBytes (Fin 1048576) = js ''1.0 MiB''"
  "formatRate 1048575 = js ''1024.0 KB/s''"
  by code_simp+

lemma fraction_of_a_byte: "formatBytes (Fin (1 / 2)) = js ''512.0 undefined''"
  by code_simp

end
