(* ===== verification/Tasks.thy ===== *)
theory Tasks
  imports Prelude
begin

text \<open>
  Operations in flight and the busy marks of a page. A page keeps a map from keys to flags, sets a
  key when an operation starts and resets it in the \<open>finally\<close> of its handler; the requests that are
  under way are a list of tasks, each with the key its handler will reset, if any. Answers take
  tasks from the list in any order. The lemmas keep the two in step.
\<close>

definition remove_at :: "nat \<Rightarrow> 'a list \<Rightarrow> 'a list" where
  "remove_at n xs = take n xs @ drop (Suc n) xs"

definition pending_keys :: "('t \<Rightarrow> 'k option) \<Rightarrow> 't list \<Rightarrow> 'k list" where
  "pending_keys key ts = concat (map (\<lambda>t. case key t of Some k \<Rightarrow> [k] | None \<Rightarrow> []) ts)"

lemma pending_keys_simps [simp]:
  "pending_keys key [] = []"
  "pending_keys key (t # ts) = (case key t of Some k \<Rightarrow> [k] | None \<Rightarrow> []) @ pending_keys key ts"
  "pending_keys key (ts @ us) = pending_keys key ts @ pending_keys key us"
  by (simp_all add: pending_keys_def)

text \<open>The marks are exact: each key has at most one task, and is busy when it has one.\<close>

definition marks_exact :: "('t \<Rightarrow> 'k option) \<Rightarrow> 't list \<Rightarrow> ('k \<rightharpoonup> bool) \<Rightarrow> bool" where
  "marks_exact key ts busy \<longleftrightarrow> distinct (pending_keys key ts) \<and> (\<forall>k. (busy k = Some True) = (k \<in> set (pending_keys key ts)))"

text \<open>While a handler runs, its key is busy and no task has it.\<close>

definition held :: "('t \<Rightarrow> 'k option) \<Rightarrow> 'k option \<Rightarrow> 't list \<Rightarrow> ('k \<rightharpoonup> bool) \<Rightarrow> bool" where
  "held key after ts busy \<longleftrightarrow> distinct (pending_keys key ts) \<and>
     (\<forall>k. after = Some k \<longrightarrow> k \<notin> set (pending_keys key ts)) \<and>
     (\<forall>k. (busy k = Some True) = (after = Some k \<or> k \<in> set (pending_keys key ts)))"

lemma marks_begin:
  "marks_exact key ts busy \<Longrightarrow> busy k \<noteq> Some True \<Longrightarrow> key t = Some k \<Longrightarrow>
     marks_exact key (ts @ [t]) (busy(k \<mapsto> True))"
  by (auto simp: marks_exact_def)

lemma marks_keyless: "marks_exact key ts busy \<Longrightarrow> key t = None \<Longrightarrow> marks_exact key (ts @ [t]) busy"
  by (simp add: marks_exact_def)

lemma held_again: "held key after ts busy \<Longrightarrow> key t = after \<Longrightarrow> marks_exact key (ts @ [t]) busy"
  by (cases after) (auto simp: held_def marks_exact_def)

lemma held_reset: "held key (Some k) ts busy \<Longrightarrow> marks_exact key ts (busy(k \<mapsto> False))"
  by (auto simp: held_def marks_exact_def)

lemma held_keyless: "held key None ts busy \<Longrightarrow> marks_exact key ts busy"
  by (auto simp: held_def marks_exact_def)

lemma pending_split:
  assumes "n < length ts"
  shows "pending_keys key ts =
      pending_keys key (take n ts) @ (case key (ts ! n) of Some k \<Rightarrow> [k] | None \<Rightarrow> []) @
      pending_keys key (drop (Suc n) ts)"
  by (subst id_take_nth_drop[OF assms]) simp

lemma held_take:
  assumes "marks_exact key ts busy" "n < length ts"
  shows "held key (key (ts ! n)) (remove_at n ts) busy"
  using assms(1) unfolding held_def marks_exact_def
  by (cases "key (ts ! n)") (auto simp: pending_split[OF assms(2)] remove_at_def)

end
