(* ===== verification/PanelViews.thy ===== *)
theory PanelViews
  imports Monitors Format Tasks
begin

text \<open>
  What the monitoring panels show: the gauges and figures of host-monitor.tsx, ops-page.tsx and
  host-resources.tsx, the container table of docker-page.tsx, and the traffic panel of
  service-observability.tsx with its polling. Shares are rationals; localized times are left out.
\<close>

section \<open>Gauges and figures\<close>

definition dash :: jstr where "dash = [8212]"

definition or_dash :: "('a \<Rightarrow> jstr) \<Rightarrow> 'a option \<Rightarrow> jstr" where
  "or_dash f x = (case x of Some v \<Rightarrow> f v | None \<Rightarrow> dash)"

definition clamped :: "rat \<Rightarrow> rat" where
  "clamped ratio = max 0 (min 1 ratio)"

definition bytes_of :: "int \<Rightarrow> jstr" where
  "bytes_of n = formatBytes (Fin (of_int n))"

definition cpu_share :: "TerminalHostSample option \<Rightarrow> rat" where
  "cpu_share sample =
     (case sample of Some s \<Rightarrow> ths_cpu_usage_pct s / max 1 (of_int (ths_cpu_count s)) | None \<Rightarrow> 0)"

definition percent_of :: "int \<Rightarrow> int \<Rightarrow> rat" where
  "percent_of used whole = (if 0 < whole then of_int used / of_int whole * 100 else 0)"

definition memory_percent :: "TerminalHostSample option \<Rightarrow> rat" where
  "memory_percent sample =
     (case sample of Some s \<Rightarrow> percent_of (ths_memory_used_bytes s) (ths_memory_total_bytes s) | None \<Rightarrow> 0)"

definition swap_percent :: "TerminalHostSample option \<Rightarrow> rat" where
  "swap_percent sample =
     (case sample of Some s \<Rightarrow> percent_of (ths_swap_used_bytes s) (ths_swap_total_bytes s) | None \<Rightarrow> 0)"

definition of_total :: "int \<Rightarrow> int \<Rightarrow> jstr" where
  "of_total used whole = bytes_of used @ js '' / '' @ bytes_of whole"

definition memory_text :: "TerminalHostSample option \<Rightarrow> jstr" where
  "memory_text = or_dash (\<lambda>s. of_total (ths_memory_used_bytes s) (ths_memory_total_bytes s))"

definition process_text :: "TerminalProcessResource \<Rightarrow> jstr" where
  "process_text p = toFixed1 (tpr_cpu_usage_pct p) @ js ''% '' @ [183] @ js '' '' @ bytes_of (tpr_memory_rss_bytes p)"

text \<open>The line of a history: nothing for fewer than two values.\<close>

definition spark_points :: "rat \<Rightarrow> rat \<Rightarrow> rat list \<Rightarrow> (rat \<times> rat) list" where
  "spark_points width height values =
     (if length values < 2 then []
      else map (\<lambda>k. (of_nat k / (of_nat (length values) - 1) * width,
                     height - values ! k / Max (insert 1 (set values)) * (height - 2) - 1))
             [0..<length values])"

section \<open>The three views of a sample\<close>

record monitor_view =
  mv_cpu :: "jstr \<times> rat"
  mv_memory :: "jstr \<times> rat"
  mv_sparks :: "((rat \<times> rat) list \<times> (rat \<times> rat) list) option"
  mv_rates :: "jstr \<times> jstr"
  mv_load :: jstr
  mv_processes :: "(jstr \<times> int \<times> jstr) list"

definition process_rows :: "TerminalHostSample option \<Rightarrow> (jstr \<times> int \<times> jstr) list" where
  "process_rows sample =
     (case sample of None \<Rightarrow> [] | Some s \<Rightarrow> map (\<lambda>p. (tpr_name p, tpr_pid p, process_text p)) (ths_processes s))"

definition load_text :: "string \<Rightarrow> TerminalHostSample \<Rightarrow> jstr" where
  "load_text sep s = toFixed2 (ths_load1 s) @ js sep @ toFixed2 (ths_load5 s) @ js sep @ toFixed2 (ths_load15 s)"

definition monitor_shown :: "bool \<Rightarrow> monitor \<Rightarrow> monitor_view option" where
  "monitor_shown enabled m =
     (if \<not> enabled then None
      else
        (let s = mo_sample m; history = mo_history m in
         Some \<lparr>mv_cpu = (toFixed0 (cpu_share s) @ js ''%'', clamped (min 1 (cpu_share s / 100))),
               mv_memory = (memory_text s, clamped (memory_percent s / 100)),
               mv_sparks =
                 (if 4 < length history
                  then Some (spark_points 120 22 (map ths_cpu_usage_pct history),
                             spark_points 120 22 (map (\<lambda>h. of_int (ths_memory_used_bytes h)) history))
                  else None),
               mv_rates = (or_dash (\<lambda>s. monitorRate (of_int (ths_net_rx_bytes_per_sec s))) s,
                           or_dash (\<lambda>s. monitorRate (of_int (ths_net_tx_bytes_per_sec s))) s),
               mv_load = or_dash (load_text '' '') s,
               mv_processes = process_rows s\<rparr>))"

record disk_row =
  dr_mounted_on :: jstr
  dr_usage :: jstr
  dr_ratio :: rat
  dr_danger :: bool
  dr_available :: jstr

definition disk_row_of :: "DiskUsage \<Rightarrow> disk_row" where
  "disk_row_of d =
     \<lparr>dr_mounted_on = du_mounted_on d, dr_usage = of_total (du_used_bytes d) (du_size_bytes d),
      dr_ratio = clamped (du_use_percent d / 100), dr_danger = (90 < du_use_percent d),
      dr_available = bytes_of (du_avail_bytes d)\<rparr>"

text \<open>The swap line is None when there is no swap.\<close>

record ops_view =
  ow_cpu :: "jstr \<times> rat"
  ow_cores :: "(int \<times> jstr) option"
  ow_memory :: "jstr \<times> rat"
  ow_memory_line :: "jstr \<times> jstr \<times> jstr"
  ow_load :: jstr
  ow_rates :: "jstr \<times> jstr"
  ow_swap :: "jstr \<times> rat"
  ow_swap_line :: "jstr option"
  ow_sparks :: "(rat \<times> rat) list \<times> (rat \<times> rat) list"
  ow_disks :: "disk_row list"
  ow_processes :: "(jstr \<times> int \<times> jstr) list"

definition ops_shown :: "ops \<Rightarrow> ops_view option" where
  "ops_shown p =
     (let s = op_sample p in
      if op_loading p \<and> s = None then None
      else Some
        \<lparr>ow_cpu = (or_dash (\<lambda>_. toFixed1 (cpu_share s) @ js ''%'') s, clamped (if s = None then 0 else min 1 (cpu_share s / 100))),
         ow_cores = map_option (\<lambda>s. (ths_cpu_count s, toFixed1 (ths_cpu_usage_pct s) @ js ''%'')) s,
         ow_memory = (memory_text s, clamped (memory_percent s / 100)),
         ow_memory_line = (or_dash (\<lambda>s. bytes_of (ths_memory_used_bytes s)) s, or_dash (\<lambda>s. bytes_of (ths_memory_cached_bytes s)) s,
                           toFixed1 (memory_percent s) @ js ''%''),
         ow_load = or_dash (load_text '' / '') s,
         ow_rates = (or_dash (\<lambda>s. monitorRate (of_int (ths_net_rx_bytes_per_sec s))) s,
                     or_dash (\<lambda>s. monitorRate (of_int (ths_net_tx_bytes_per_sec s))) s),
         ow_swap = (or_dash (\<lambda>s. of_total (ths_swap_used_bytes s) (ths_swap_total_bytes s)) s, clamped (swap_percent s / 100)),
         ow_swap_line =
           (case s of Some h \<Rightarrow> if 0 < ths_swap_total_bytes h then Some (toFixed1 (swap_percent s) @ js ''%'') else None
            | None \<Rightarrow> None),
         ow_sparks = (spark_points 160 24 (map ths_cpu_usage_pct (op_history p)),
                      spark_points 160 24 (map (\<lambda>h. of_int (ths_memory_used_bytes h)) (op_history p))),
         ow_disks = map disk_row_of (op_disks p),
         ow_processes = process_rows s\<rparr>)"

text \<open>The overview's panel: the two managed processes, or the load when neither is found.\<close>

record host_view =
  hv_cpu :: "jstr \<times> rat"
  hv_memory :: "jstr \<times> rat"
  hv_processes :: "(bool \<times> jstr \<times> rat) list + jstr"

definition process_named :: "string \<Rightarrow> TerminalHostSample \<Rightarrow> TerminalProcessResource option" where
  "process_named name s = find (\<lambda>p. tpr_name p = js name) (ths_processes s)"

definition managed_processes :: "TerminalHostSample \<Rightarrow> TerminalProcessResource list" where
  "managed_processes s = concat (map (\<lambda>x. case x of Some p \<Rightarrow> [p] | None \<Rightarrow> [])
     [process_named ''hx-proxygroupd'' s, process_named ''mihomo'' s])"

definition host_shown :: "host_resources \<Rightarrow> host_view option" where
  "host_shown p =
     (if hr_error p then None
      else
        (case hr_sample p of
           None \<Rightarrow> None
         | Some s \<Rightarrow>
             Some \<lparr>hv_cpu = (toFixed0 (cpu_share (Some s)) @ js ''%'', clamped (min 1 (cpu_share (Some s) / 100))),
               hv_memory = (memory_text (Some s),
                 clamped (if ths_memory_total_bytes s \<noteq> 0
                          then of_int (ths_memory_used_bytes s) / of_int (ths_memory_total_bytes s) else 0)),
               hv_processes =
                 (if managed_processes s \<noteq> []
                  then Inl (map (\<lambda>q. (tpr_name q = js ''mihomo'', process_text q, clamped (min 1 (tpr_cpu_usage_pct q / 100))))
                         (managed_processes s))
                  else Inr (toFixed2 (ths_load1 s)))\<rparr>))"

section \<open>Containers\<close>

record container_row =
  cr_name :: jstr
  cr_image :: jstr
  cr_running :: bool
  cr_ports :: jstr
  cr_cpu :: jstr
  cr_memory :: jstr

definition container_row_of :: "DockerContainer \<Rightarrow> container_row" where
  "container_row_of c =
     \<lparr>cr_name = dc_name c, cr_image = dc_image c, cr_running = (dc_state c = js ''running''),
      cr_ports = or_default (nonempty (dc_ports c)) dash, cr_cpu = or_default (dc_cpu_perc c) dash,
      cr_memory =
        (case Option.bind (dc_mem_usage c) nonempty of
           None \<Rightarrow> dash
         | Some usage \<Rightarrow> usage @
             (case Option.bind (dc_mem_perc c) nonempty of Some perc \<Rightarrow> js '' ('' @ perc @ js '')'' | None \<Rightarrow> []))\<rparr>"

text \<open>Running and all containers, and the rows; None while the first list is loading.\<close>

definition containers_shown :: "containers \<Rightarrow> (nat \<times> nat \<times> container_row list) option" where
  "containers_shown p =
     (if ct_loading p \<and> ct_items p = [] then None
      else Some (length (filter (\<lambda>c. dc_state c = js ''running'') (ct_items p)), length (ct_items p),
        map container_row_of (ct_items p)))"

section \<open>The traffic panel\<close>

text \<open>
  A request carries the groups it was sent for. Every 15 seconds a quiet one is sent, which does not
  show the loading mark but takes it away with its answer like any other.
\<close>

type_synonym traffic_answer = "TrafficSeries \<times> TrafficSeries option \<times> TrafficSummary list"

record traffic_panel =
  tf_group_id :: "jstr option"
  tf_listener :: "TrafficSeries option"
  tf_group :: "TrafficSeries option"
  tf_nodes :: "jstr \<rightharpoonup> TrafficSummary"
  tf_loading :: bool
  tf_error :: "jstr option option"
  tf_requests :: "jstr option list"

definition initial_traffic :: "jstr option \<Rightarrow> traffic_panel" where
  "initial_traffic group_id =
     \<lparr>tf_group_id = group_id, tf_listener = None, tf_group = None, tf_nodes = Map.empty, tf_loading = True,
      tf_error = None, tf_requests = []\<rparr>"

definition load_traffic :: "bool \<Rightarrow> traffic_panel \<Rightarrow> traffic_panel" where
  "load_traffic quiet p =
     p\<lparr>tf_loading := (if quiet then tf_loading p else True), tf_requests := tf_requests p @ [tf_group_id p]\<rparr>"

text \<open>Without a group the request for its series is left out.\<close>

definition traffic_answered :: "jstr option \<Rightarrow> traffic_answer outcome \<Rightarrow> traffic_panel \<Rightarrow> traffic_panel" where
  "traffic_answered asked answer p =
     (case answer of
        Inr (listener, group_series, nodes) \<Rightarrow>
          p\<lparr>tf_listener := Some listener, tf_group := (if Option.bind asked nonempty = None then None else group_series),
            tf_nodes := map_of (rev (map (\<lambda>item. (ts_resource_id item, item)) nodes)), tf_error := None, tf_loading := False\<rparr>
      | Inl cause \<Rightarrow> p\<lparr>tf_error := ops_error cause, tf_loading := False\<rparr>)"

datatype traffic_event =
    PanelShown | GroupChanged "jstr option" | PollDue | RefreshClicked | TrafficAnswer nat "traffic_answer outcome"

fun traffic_step :: "traffic_panel \<Rightarrow> traffic_event \<Rightarrow> traffic_panel" where
  "traffic_step p PanelShown = load_traffic False p"
| "traffic_step p (GroupChanged g) = (if g = tf_group_id p then p else load_traffic False (p\<lparr>tf_group_id := g\<rparr>))"
| "traffic_step p PollDue = load_traffic True p"
| "traffic_step p RefreshClicked = load_traffic False p"
| "traffic_step p (TrafficAnswer n answer) =
     (if n < length (tf_requests p)
      then traffic_answered (tf_requests p ! n) answer (p\<lparr>tf_requests := remove_at n (tf_requests p)\<rparr>)
      else p)"

text \<open>An error replaces the whole panel, but one with an empty message does not.\<close>

datatype traffic_screen =
    TrafficLoading
  | TrafficError "jstr option"
  | TrafficShown "jstr \<times> jstr \<times> int \<times> int" "TrafficPoint list" "jstr option"

definition traffic_screen_of :: "traffic_panel \<Rightarrow> traffic_screen" where
  "traffic_screen_of p =
     (if tf_loading p then TrafficLoading
      else if tf_error p \<noteq> None \<and> tf_error p \<noteq> Some (Some []) then TrafficError (the (tf_error p))
      else
        (let summary = map_option tse_summary (tf_listener p) in
         TrafficShown
           (bytes_of (case summary of Some s \<Rightarrow> ts_download_bytes s | None \<Rightarrow> 0),
            bytes_of (case summary of Some s \<Rightarrow> ts_upload_bytes s | None \<Rightarrow> 0),
            (case summary of Some s \<Rightarrow> ts_connection_count s | None \<Rightarrow> 0),
            (case summary of Some s \<Rightarrow> ts_active_connections s | None \<Rightarrow> 0))
           (case tf_listener p of Some s \<Rightarrow> tse_points s | None \<Rightarrow> [])
           (map_option (\<lambda>g. bytes_of (ts_upload_bytes (tse_summary g) + ts_download_bytes (tse_summary g))) (tf_group p))))"

text \<open>The row of a node: what it received and sent, and its connections.\<close>

definition traffic_row :: "traffic_panel \<Rightarrow> NodeRecord \<Rightarrow> jstr \<times> jstr \<times> jstr \<times> int" where
  "traffic_row p node =
     (let t = tf_nodes p (nd_id node) in
      (nd_display_name node, bytes_of (case t of Some s \<Rightarrow> ts_download_bytes s | None \<Rightarrow> 0),
       bytes_of (case t of Some s \<Rightarrow> ts_upload_bytes s | None \<Rightarrow> 0),
       (case t of Some s \<Rightarrow> ts_connection_count s | None \<Rightarrow> 0)))"

text \<open>The heights, in percent, of the bars of the latest 48 points.\<close>

definition point_bytes :: "TrafficPoint \<Rightarrow> int" where
  "point_bytes t = tp_upload_bytes t + tp_download_bytes t"

definition bars_maximum :: "TrafficPoint list \<Rightarrow> int" where
  "bars_maximum recent = Max (insert 1 (set (map point_bytes recent)))"

definition traffic_bars :: "TrafficPoint list \<Rightarrow> rat list" where
  "traffic_bars points =
     (let recent = slice_last 48 points in
      map (\<lambda>t. max (if point_bytes t \<noteq> 0 then 5 else 1) (of_int (point_bytes t) / of_int (bars_maximum recent) * 100)) recent)"

section \<open>The lines of the log\<close>

datatype log_tone = ToneRed | ToneAmber | ToneCyan

definition tone_of :: "ProxyLogEvent \<Rightarrow> log_tone" where
  "tone_of event =
     (if ple_level event = js ''error'' then ToneRed
      else if prefix (js ''warn'') (ple_level event) then ToneAmber else ToneCyan)"

section \<open>Facts\<close>

lemma clamped_range: "0 \<le> clamped r \<and> clamped r \<le> 1"
  by (simp add: clamped_def)

lemma percent_of_range:
  assumes "0 \<le> used" "used \<le> whole"
  shows "0 \<le> percent_of used whole \<and> percent_of used whole \<le> 100"
  using assms by (simp add: percent_of_def divide_simps)

lemma spark_inside:
  assumes "\<forall>v \<in> set values. 0 \<le> v" "2 \<le> height" "0 \<le> width" "(x, y) \<in> set (spark_points width height values)"
  shows "0 \<le> x \<and> x \<le> width \<and> 1 \<le> y \<and> y \<le> height - 1"
proof -
  define top where "top = Max (insert 1 (set values))"
  obtain k where k: "k < length values" "2 \<le> length values"
    and x: "x = of_nat k / (of_nat (length values) - 1) * width"
    and y: "y = height - values ! k / top * (height - 2) - 1"
    using assms(4) by (auto simp: spark_points_def top_def split: if_splits)
  have one: "1 \<le> top" unfolding top_def by (intro Max_ge) simp_all
  have most: "values ! k \<le> top" unfolding top_def using k(1) by (intro Max_ge) simp_all
  have share: "0 \<le> values ! k / top" "values ! k / top \<le> 1"
    using assms(1) k(1) one most by (simp_all add: divide_le_eq)
  have "values ! k / top * (height - 2) \<le> 1 * (height - 2)" "0 \<le> values ! k / top * (height - 2)"
    using share assms(2) by (intro mult_right_mono mult_nonneg_nonneg; simp)+
  moreover have "of_nat k / (of_nat (length values) - 1) \<le> (1::rat)" "0 \<le> of_nat k / (of_nat (length values) - (1::rat))"
    using k of_nat_mono[of "Suc k" "length values", where 'a = rat] of_nat_mono[OF k(2), where 'a = rat]
    by (simp_all add: divide_le_eq)
  then have "x \<le> 1 * width" "0 \<le> x" unfolding x using assms(3) by (intro mult_right_mono mult_nonneg_nonneg; simp)+
  ultimately show ?thesis unfolding y by simp
qed

lemma bars_range:
  assumes "h \<in> set (traffic_bars points)"
  shows "1 \<le> h \<and> h \<le> 100"
proof -
  define recent where "recent = slice_last 48 points"
  obtain t where t: "t \<in> set recent"
    and h: "h = max (if point_bytes t \<noteq> 0 then 5 else 1) (of_int (point_bytes t) / of_int (bars_maximum recent) * 100)"
    using assms unfolding traffic_bars_def recent_def Let_def by auto
  have "1 \<le> bars_maximum recent" "point_bytes t \<le> bars_maximum recent"
    using t unfolding bars_maximum_def by (auto intro!: Max_ge)
  then have "of_int (point_bytes t) / of_int (bars_maximum recent) \<le> (1::rat)"
    by (simp add: divide_le_eq)
  then have "of_int (point_bytes t) / of_int (bars_maximum recent) * 100 \<le> (1 * 100 :: rat)"
    by (rule mult_right_mono) simp
  then show ?thesis unfolding h by auto
qed

text \<open>While the loading mark is shown, an answer that will take it away is still to come.\<close>

definition awaited :: "traffic_panel \<Rightarrow> bool" where
  "awaited p \<longleftrightarrow> (tf_loading p \<longrightarrow> tf_requests p \<noteq> [])"

lemma traffic_answered_loading [simp]: "\<not> tf_loading (traffic_answered asked answer p)"
  by (simp add: traffic_answered_def split: sum.splits prod.splits)

lemma awaited_step: "awaited p \<Longrightarrow> awaited (traffic_step p e)"
  by (cases e) (auto simp: awaited_def load_traffic_def)

lemma awaited_steps: "awaited p \<Longrightarrow> awaited (foldl traffic_step p es)"
  by (induction es arbitrary: p) (simp_all add: awaited_step)

lemma awaited_always: "awaited (foldl traffic_step (initial_traffic g) (PanelShown # es))"
  unfolding foldl_Cons by (rule awaited_steps) (simp add: awaited_def load_traffic_def)

text \<open>
  Answers are taken in the order they come: one for the group shown before replaces the data of the
  present one.
\<close>

lemma late_answer_wins:
  assumes "a \<noteq> []" "b \<noteq> []" "a \<noteq> b"
  shows "tf_group (foldl traffic_step (initial_traffic (Some a))
      [PanelShown, GroupChanged (Some b), TrafficAnswer 1 (Inr (s, Some new, ns)), TrafficAnswer 0 (Inr (s, Some old, ns))]) = Some old"
  using assms by (simp add: initial_traffic_def load_traffic_def traffic_answered_def remove_at_def)

text \<open>One failed poll hides everything that was shown.\<close>

lemma failed_poll_hides:
  assumes "tf_requests p = []" "\<not> tf_loading p"
  shows "traffic_screen_of (foldl traffic_step p [PollDue, TrafficAnswer 0 (Inl (NetworkError (x # xs)))]) = TrafficError (Some (x # xs))"
  using assms by (simp add: load_traffic_def traffic_answered_def ops_error_def traffic_screen_of_def remove_at_def)

end
