(* ===== verification/TerminalView.thy ===== *)
theory TerminalView
  imports TerminalPage PanelViews
begin

text \<open>
  What web/src/pages/terminal-page.tsx shows over the state of its connection: the unlock prompt with
  its requests, the tabs, the badge and button of the connection, and the side panel that mounts the
  host monitor and the file panel.
\<close>

section \<open>The screen\<close>

datatype connect_button = DisconnectButton | ConnectButton bool

record shell_view =
  sh_privileged :: bool
  sh_badge :: ConnectionState
  sh_button :: connect_button
  sh_side :: "(bool \<times> jstr) option option"

datatype terminal_screen = UnlockPrompt | OpsScreen | DockerScreen | ShellScreen shell_view

definition locked :: "page \<Rightarrow> bool" where
  "locked p \<longleftrightarrow> (case pg_status p of Some s \<Rightarrow> \<not> tst_two_factor_verified s | None \<Rightarrow> False)"

definition connect_button_of :: "page \<Rightarrow> connect_button" where
  "connect_button_of p =
     (if pg_connection p = Connected then DisconnectButton
      else ConnectButton (\<not> (pg_connection p = Connecting \<or> pg_connection p = Reconnecting \<or> \<not> verified p)))"

text \<open>The side panel: hidden, a placeholder, or the monitor and the files of a directory.\<close>

definition side_panel :: "bool \<Rightarrow> page \<Rightarrow> (bool \<times> jstr) option option" where
  "side_panel hidden p =
     (if hidden then None
      else Some (if pg_connection p = Connected \<or> pg_connection p = Reconnecting
                 then Some (pg_connection p = Connected, pg_cwd p) else None))"

definition shell_view_of :: "bool \<Rightarrow> page \<Rightarrow> shell_view" where
  "shell_view_of hidden p =
     \<lparr>sh_privileged = (case pg_status p of Some s \<Rightarrow> tst_privileged s | None \<Rightarrow> False),
      sh_badge = pg_connection p, sh_button = connect_button_of p, sh_side = side_panel hidden p\<rparr>"

definition terminal_screen_of :: "bool \<Rightarrow> page \<Rightarrow> terminal_screen" where
  "terminal_screen_of hidden p =
     (case pg_tab p of
        OpsTab \<Rightarrow> OpsScreen
      | DockerTab \<Rightarrow> DockerScreen
      | ShellTab \<Rightarrow> if locked p then UnlockPrompt else ShellScreen (shell_view_of hidden p))"

text \<open>Whether the monitor of the side panel is mounted and enabled.\<close>

definition monitor_on :: "bool \<Rightarrow> page \<Rightarrow> bool" where
  "monitor_on hidden p \<longleftrightarrow>
     (case terminal_screen_of hidden p of ShellScreen v \<Rightarrow> \<exists>cwd. sh_side v = Some (Some (True, cwd)) | _ \<Rightarrow> False)"

section \<open>The unlock prompt\<close>

text \<open>Its handler runs two requests, the verification and then the status.\<close>

datatype unlock_stage = NoUnlock | Verifying jstr | Rereading

record unlock_prompt =
  un_code :: jstr
  un_stage :: unlock_stage

datatype unlock_event =
    CodeTyped jstr | UnlockClicked | VerifyAnswered "jstr option option" | StatusAnswered "jstr option + TerminalStatus"

definition digits_only :: "jstr \<Rightarrow> jstr" where
  "digits_only v = filter (\<lambda>u. 48 \<le> u \<and> u \<le> 57) v"

text \<open>
  The answer to the verification is None for a success and the message of the error otherwise. The
  code is cleared before the status is read again.
\<close>

fun unlock_step :: "unlock_prompt \<times> page \<Rightarrow> unlock_event \<Rightarrow> (unlock_prompt \<times> page) \<times> effect list" where
  "unlock_step (u, p) (CodeTyped v) = ((u\<lparr>un_code := take 6 (digits_only v)\<rparr>, p), [])"
| "unlock_step (u, p) UnlockClicked =
     (if un_stage u \<noteq> NoUnlock then ((u, p), [])
      else if six_digits (trim (un_code u))
      then ((u\<lparr>un_stage := Verifying (trim (un_code u))\<rparr>, p), unlockTerminal (un_code u))
      else ((u, p), unlockTerminal (un_code u)))"
| "unlock_step (u, p) (VerifyAnswered answer) =
     (case un_stage u of
        Verifying code \<Rightarrow>
          (case answer of
             None \<Rightarrow> ((u\<lparr>un_code := [], un_stage := Rereading\<rparr>, p), [FetchStatus])
           | Some message \<Rightarrow>
               (case unlock_done (Inl message) p of (p', out) \<Rightarrow> ((u\<lparr>un_stage := NoUnlock\<rparr>, p'), out)))
      | _ \<Rightarrow> ((u, p), []))"
| "unlock_step (u, p) (StatusAnswered answer) =
     (case un_stage u of
        Rereading \<Rightarrow> (case unlock_done answer p of (p', out) \<Rightarrow> ((u\<lparr>un_stage := NoUnlock\<rparr>, render p'), out))
      | _ \<Rightarrow> ((u, p), []))"

definition initial_unlock :: unlock_prompt where
  "initial_unlock = \<lparr>un_code = [], un_stage = NoUnlock\<rparr>"

section \<open>Facts\<close>

lemma surface_screen: "surface_shown p \<longleftrightarrow> (\<exists>v. terminal_screen_of hidden p = ShellScreen v)"
  by (cases "pg_tab p") (auto simp: surface_shown_def terminal_screen_of_def locked_def)

text \<open>The button offers what the page accepts.\<close>

lemma button_offers:
  assumes "terminal_screen_of hidden p = ShellScreen v"
  shows "can_connect p \<longleftrightarrow> sh_button v = ConnectButton True" "can_disconnect p \<longleftrightarrow> sh_button v = DisconnectButton"
proof -
  have surface: "surface_shown p" using assms surface_screen by blast
  have v: "v = shell_view_of hidden p"
    using assms by (auto simp: terminal_screen_of_def split: TerminalTab.splits if_splits)
  show "can_connect p \<longleftrightarrow> sh_button v = ConnectButton True" "can_disconnect p \<longleftrightarrow> sh_button v = DisconnectButton"
    using surface by (auto simp: v shell_view_of_def connect_button_of_def can_connect_def can_disconnect_def)
qed

text \<open>The monitor reads the server only while the page has a current socket that was opened.\<close>

lemma monitor_needs_socket:
  assumes "reachable p" "monitor_on hidden p"
  shows "\<exists>k. pg_socket p = Some k \<and> k < length (pg_sockets p) \<and> sk_opened (pg_sockets p ! k)"
proof -
  have "pg_connection p = Connected"
    using assms(2) by (auto simp: monitor_on_def terminal_screen_of_def shell_view_of_def side_panel_def
      split: TerminalTab.splits if_splits)
  then show ?thesis
    using reachable_inv[OF assms(1), unfolded page_inv_def core_inv_def] links_nth[of _ p]
    by (auto split: option.splits)
qed

text \<open>The code field holds at most six digits, and whatever is being verified is six digits.\<close>

definition unlock_ok :: "unlock_prompt \<Rightarrow> bool" where
  "unlock_ok u \<longleftrightarrow> length (un_code u) \<le> 6 \<and> (\<forall>x \<in> set (un_code u). 48 \<le> x \<and> x \<le> 57) \<and>
     (case un_stage u of Verifying code \<Rightarrow> six_digits code | _ \<Rightarrow> True)"

lemma unlock_ok_step:
  assumes "unlock_ok u"
  shows "unlock_ok (fst (fst (unlock_step (u, p) e)))"
proof (cases e)
  case (CodeTyped v)
  have "\<forall>x \<in> set (take 6 (digits_only v)). 48 \<le> x \<and> x \<le> 57"
    by (auto simp: digits_only_def dest!: in_set_takeD)
  with CodeTyped assms show ?thesis by (simp add: unlock_ok_def)
qed (use assms in \<open>auto simp: unlock_ok_def unlock_done_def split: unlock_stage.splits option.splits sum.splits\<close>)

text \<open>
  When the verification has succeeded but the status cannot be read, the failure is reported as one
  of the verification, and the prompt stays with an empty code.
\<close>

lemma verified_but_refused:
  assumes "six_digits (trim (un_code u))" "un_stage u = NoUnlock"
  shows "let s1 = unlock_step (u, p) UnlockClicked;
             s2 = unlock_step (fst s1) (VerifyAnswered None);
             s3 = unlock_step (fst s2) (StatusAnswered (Inl message))
         in snd s3 = [Notify (VerifyFailed message)] \<and> un_code (fst (fst s3)) = []"
  using assms by (simp add: Let_def unlock_done_def)

end
