(* ===== verification/FilePanel.thy ===== *)
theory FilePanel
  imports TerminalCwd ApiCalls
begin

text \<open>
  The file panel of the terminal page (web/src/components/terminal/file-panel.tsx). A load is
  the loop of at most three attempts: its continuation after each answer is a callback that
  carries the sequence number of the load. The directory itself belongs to the terminal page, so
  navigation is an effect.
\<close>

section \<open>State and effects\<close>

record panel =
  fp_list :: "TerminalFileList option"
  fp_loading :: bool
  fp_failed :: "(jstr \<times> jstr) option"
  fp_busy :: "jstr option"
  fp_seq :: nat
  fp_last_nav :: "(jstr \<times> int) option"

definition initial_panel :: panel where
  "initial_panel = \<lparr>fp_list = None, fp_loading = False, fp_failed = None, fp_busy = None,
     fp_seq = 0, fp_last_nav = None\<rparr>"

text \<open>
  \<open>ListFiles n target attempt\<close> is the request of load \<open>n\<close>, \<open>RetryAfter ms n target attempt\<close> its
  back-off. A notice carries the message of an \<open>ApiError\<close>, None for the fixed text.
\<close>

datatype panel_effect =
    ListFiles nat jstr nat
  | RetryAfter nat nat jstr nat
  | PathChange jstr
  | LoadNotice "jstr option"
  | Navigate jstr
  | ClearBusyAfter nat
  | RemovedNotice jstr
  | RemoveFailed "jstr option"
  | UploadedNotice nat
  | UploadFailed "jstr option"

definition api_message :: "js_error \<Rightarrow> jstr option" where
  "api_message e = (case e of ApiError m _ _ _ \<Rightarrow> Some m | _ \<Rightarrow> None)"

section \<open>Loading a directory\<close>

definition shown_target :: "jstr \<Rightarrow> jstr" where
  "shown_target target = (if target = [] then [slash] else target)"

definition load :: "jstr \<Rightarrow> panel \<Rightarrow> panel \<times> panel_effect list" where
  "load target p =
     (let seq = fp_seq p + 1
      in (p\<lparr>fp_seq := seq, fp_loading := True\<rparr>, [ListFiles seq (shown_target target) 0]))"

definition retryable :: "js_error \<Rightarrow> bool" where
  "retryable cause = (case cause of ApiError _ status _ _ \<Rightarrow> 500 \<le> status | _ \<Rightarrow> True)"

definition normal_failure :: "js_error \<Rightarrow> bool" where
  "normal_failure cause =
     (case cause of
        ApiError _ _ code _ \<Rightarrow> code = Some (js ''file_list_forbidden'') \<or> code = Some (js ''file_list_not_found'')
      | _ \<Rightarrow> False)"

definition load_failed :: "jstr \<Rightarrow> js_error \<Rightarrow> panel \<Rightarrow> panel \<times> panel_effect list" where
  "load_failed target cause p =
     (if normal_failure cause
      then (p\<lparr>fp_list := None, fp_failed := Some (shown_target target, err_message cause), fp_loading := False\<rparr>, [])
      else (p\<lparr>fp_failed := None, fp_loading := False\<rparr>, [LoadNotice (api_message cause)]))"

text \<open>What happens when attempt \<open>attempt\<close> of the load with number \<open>seq\<close> is answered.\<close>

fun load_answer ::
  "nat \<Rightarrow> jstr \<times> nat \<times> TerminalFileList outcome \<Rightarrow> panel \<Rightarrow> panel \<times> panel_effect list" where
  "load_answer seq (target, attempt, answer) p =
     (if fp_seq p \<noteq> seq then (p, [])
      else
        (case answer of
           Inr result \<Rightarrow> (p\<lparr>fp_failed := None, fp_list := Some result, fp_loading := False\<rparr>, [])
         | Inl cause \<Rightarrow>
             if \<not> retryable cause \<or> attempt = 2 then load_failed target cause p
             else (p, [RetryAfter (500 * (attempt + 1)) seq target (attempt + 1)])))"

text \<open>The back-off is over: the next attempt is made without looking at the number again.\<close>

definition load_retry :: "nat \<Rightarrow> jstr \<Rightarrow> nat \<Rightarrow> panel_effect list" where
  "load_retry seq target attempt = [ListFiles seq (shown_target target) attempt]"

interpretation loads: guarded_callback "\<lambda>p. Some (fp_seq p)" load_answer
proof
  fix p :: panel and seq :: nat and e
  assume "Some (fp_seq p) \<noteq> Some seq"
  then show "load_answer seq e p = (p, [])" by (cases e) simp
qed

section \<open>Navigation\<close>

text \<open>\<open>path.replace(/\/+/g, "/")\<close>\<close>

fun collapse_slashes :: "jstr \<Rightarrow> jstr" where
  "collapse_slashes [] = []"
| "collapse_slashes [u] = [u]"
| "collapse_slashes (u # v # s) =
     (if u = slash \<and> v = slash then collapse_slashes (v # s) else u # collapse_slashes (v # s))"

definition entry_path :: "jstr \<Rightarrow> TerminalFileEntry \<Rightarrow> jstr" where
  "entry_path path entry = collapse_slashes (path @ slash # tfe_name entry)"

definition enter :: "int \<Rightarrow> jstr \<Rightarrow> TerminalFileEntry \<Rightarrow> panel \<Rightarrow> panel \<times> panel_effect list" where
  "enter now path entry p =
     (let target = entry_path path entry in
      case fp_last_nav p of
        Some (name, at_time) \<Rightarrow>
          if name = tfe_name entry \<and> now - at_time < 400 then (p, [])
          else (p\<lparr>fp_last_nav := Some (tfe_name entry, now)\<rparr>, [PathChange target])
      | None \<Rightarrow> (p\<lparr>fp_last_nav := Some (tfe_name entry, now)\<rparr>, [PathChange target]))"

definition goUp :: "panel \<Rightarrow> panel_effect list" where
  "goUp p =
     (let target = (case fp_failed p of
                      Some (path, _) \<Rightarrow> parentPath path
                    | None \<Rightarrow> map_option tfl_parent (fp_list p))
      in case target of Some t \<Rightarrow> if t \<noteq> [] then [PathChange t] else [] | None \<Rightarrow> [])"

definition currentSegment :: "jstr \<Rightarrow> jstr option" where
  "currentSegment path =
     (let parts = filter (\<lambda>s. s \<noteq> []) (split_on slash path) in if parts = [] then None else Some (last parts))"

text \<open>The paths behind the segments of the address bar.\<close>

definition breadcrumbs :: "jstr \<Rightarrow> jstr list" where
  "breadcrumbs path =
     (let segments = filter (\<lambda>s. s \<noteq> []) (split_on slash path)
      in map (\<lambda>index. slash # join [slash] (take (index + 1) segments)) [0..<length segments])"

section \<open>Files\<close>

definition download :: "jstr \<Rightarrow> TerminalFileEntry \<Rightarrow> panel \<Rightarrow> panel \<times> panel_effect list" where
  "download path entry p =
     (p\<lparr>fp_busy := Some (tfe_name entry)\<rparr>,
      [Navigate (terminalFileDownloadURL (entry_path path entry)), ClearBusyAfter 600])"

definition remove_request :: "bool \<Rightarrow> jstr \<Rightarrow> TerminalFileEntry \<Rightarrow> panel \<Rightarrow> panel \<times> http_call option" where
  "remove_request confirmed path entry p =
     (if \<not> confirmed then (p, None)
      else (p\<lparr>fp_busy := Some (tfe_name entry)\<rparr>, Some (removeTerminalFile (entry_path path entry))))"

text \<open>
  The rest of the removal: a failure is shown, a success reloads the directory (the reload
  settles before the notice) and in both cases the row is no longer busy.
\<close>

definition remove_answer ::
  "(panel \<Rightarrow> panel \<times> panel_effect list) \<Rightarrow> TerminalFileEntry \<Rightarrow> unit outcome \<Rightarrow> panel \<Rightarrow> panel \<times> panel_effect list" where
  "remove_answer reload entry answer p =
     (case answer of
        Inl cause \<Rightarrow> (p\<lparr>fp_busy := None\<rparr>, [RemoveFailed (api_message cause)])
      | Inr _ \<Rightarrow>
          (let (p1, out) = reload p
           in (p1\<lparr>fp_busy := None\<rparr>, out @ [RemovedNotice (tfe_name entry)])))"

text \<open>Uploads run one after another and stop at the first failure.\<close>

fun upload_all :: "(http_call \<Rightarrow> js_error option) \<Rightarrow> jstr \<Rightarrow> upload_file list \<Rightarrow> http_call list \<times> js_error option" where
  "upload_all post directory [] = ([], None)"
| "upload_all post directory (f # fs) =
     (let call = uploadTerminalFile directory f in
      case post call of
        Some cause \<Rightarrow> ([call], Some cause)
      | None \<Rightarrow> (let (calls, r) = upload_all post directory fs in (call # calls, r)))"

definition onFiles ::
  "(http_call \<Rightarrow> js_error option) \<Rightarrow> (jstr \<Rightarrow> panel \<Rightarrow> panel \<times> panel_effect list) \<Rightarrow> jstr \<Rightarrow> upload_file list
     \<Rightarrow> panel \<Rightarrow> panel \<times> http_call list \<times> panel_effect list" where
  "onFiles post reload path files p =
     (let directory = or_default (map_option tfl_path (fp_list p)) path;
          p1 = p\<lparr>fp_busy := Some (js ''upload'')\<rparr>
      in case upload_all post directory files of
           (calls, Some cause) \<Rightarrow> (p1\<lparr>fp_busy := None\<rparr>, calls, [UploadFailed (api_message cause)])
         | (calls, None) \<Rightarrow>
             (let (p2, out) = reload directory p1
              in (p2\<lparr>fp_busy := None\<rparr>, calls, out @ [UploadedNotice (length files)])))"

section \<open>The latest load wins\<close>

definition older :: "nat \<Rightarrow> (nat \<times> jstr \<times> nat \<times> TerminalFileList outcome) list \<Rightarrow> bool" where
  "older n answers \<longleftrightarrow> list_all (\<lambda>(seq, e). seq \<le> n) answers"

abbreviation answer_all ::
  "panel \<Rightarrow> (nat \<times> jstr \<times> nat \<times> TerminalFileList outcome) list \<Rightarrow> panel" where
  "answer_all \<equiv> foldl (\<lambda>p (seq, e). fst (load_answer seq e p))"

lemma older_ignored: "older n answers \<Longrightarrow> n < fp_seq p \<Longrightarrow> answer_all p answers = p"
  by (rule loads.stale_run) (auto simp: older_def list_all_iff)

text \<open>
  C10: whatever the answers of earlier loads and whenever they arrive, the panel shows exactly the
  answer of the latest load.
\<close>

theorem latest_load_wins:
  assumes "older (fp_seq p) before" and "older (fp_seq p) after"
  shows "answer_all (fst (load target p))
      (before @ (Suc (fp_seq p), target, attempt, Inr result) # after) =
    p\<lparr>fp_seq := Suc (fp_seq p), fp_failed := None, fp_list := Some result, fp_loading := False\<rparr>"
proof -
  have "fp_seq p < fp_seq (fst (load target p))" by (simp add: load_def Let_def)
  then have "answer_all (fst (load target p)) before = fst (load target p)"
    by (rule older_ignored[OF assms(1)])
  moreover have "answer_all (p\<lparr>fp_seq := Suc (fp_seq p), fp_failed := None, fp_list := Some result, fp_loading := False\<rparr>) after
      = p\<lparr>fp_seq := Suc (fp_seq p), fp_failed := None, fp_list := Some result, fp_loading := False\<rparr>"
    by (rule older_ignored[OF assms(2)]) simp
  ultimately show ?thesis by (simp add: load_def Let_def)
qed

definition sample_listing :: TerminalFileList where
  "sample_listing = \<lparr>tfl_path = js ''/srv'', tfl_parent = js ''/'', tfl_entries = []\<rparr>"

theorem latest_load_wins_witness:
  "fp_list (answer_all (fst (load (js ''/srv'') (fst (load (js ''/'') initial_panel))))
     [(1, js ''/'', 0, Inl SyntaxError), (2, js ''/srv'', 0, Inr sample_listing),
      (1, js ''/'', 1, Inl SyntaxError)]) = Some sample_listing"
proof -
  let ?p = "fst (load (js ''/'') initial_panel)"
  have seq: "fp_seq ?p = 1" by (simp add: load_def initial_panel_def)
  then have "older (fp_seq ?p) [(1, js ''/'', 0, Inl SyntaxError)]"
    "older (fp_seq ?p) [(1, js ''/'', 1, Inl SyntaxError)]" by (simp_all add: older_def)
  from latest_load_wins[OF this, of "js ''/srv''" 0 sample_listing] seq show ?thesis
    by (simp add: numeral_2_eq_2)
qed

section \<open>Retries\<close>

text \<open>One load against the answers to its successive requests: final panel, effects, requests made.\<close>

fun load_run ::
  "jstr \<Rightarrow> nat \<Rightarrow> TerminalFileList outcome list \<Rightarrow> panel \<Rightarrow> panel \<times> panel_effect list \<times> nat" where
  "load_run target attempt [] p = (p, [], 0)"
| "load_run target attempt (answer # answers) p =
     (let (p', out) = load_answer (fp_seq p) (target, attempt, answer) p in
      if fp_loading p' then (let (q, out', k) = load_run target (attempt + 1) answers p' in (q, out @ out', Suc k))
      else (p', out, 1))"

lemma load_answer_cases:
  assumes "fp_loading p" and "attempt \<le> 2"
  shows "\<not> fp_loading (fst (load_answer (fp_seq p) (target, attempt, answer) p)) \<or>
    (attempt < 2 \<and> load_answer (fp_seq p) (target, attempt, answer) p =
       (p, [RetryAfter (500 * (attempt + 1)) (fp_seq p) target (attempt + 1)]))"
  using assms by (auto simp: load_failed_def split: sum.split)

text \<open>
  C37: a load that is not superseded makes at most three requests, 500 and 1000 milliseconds
  apart, and is settled after the third answer at the latest; nothing else is scheduled.
\<close>

theorem load_settles:
  assumes "fp_loading p" and "3 \<le> length answers"
  shows "let (q, out, k) = load_run target 0 answers p in
    \<not> fp_loading q \<and> 1 \<le> k \<and> k \<le> 3 \<and>
    [ms. RetryAfter ms seq t n \<leftarrow> out] = take (k - 1) [500, 1000]"
proof -
  obtain a b c rest where answers: "answers = a # b # c # rest"
    using assms(2) by (auto simp: numeral_3_eq_3 Suc_le_length_iff)
  have quiet: "[ms. RetryAfter ms seq t n \<leftarrow> snd (load_answer (fp_seq p) (target, attempt, x) p)] = []"
    if "\<not> fp_loading (fst (load_answer (fp_seq p) (target, attempt, x) p))" for x attempt
    using that assms(1) by (auto simp: load_failed_def split: sum.splits if_splits)
  show ?thesis
    using load_answer_cases[OF assms(1), of 0 target a] load_answer_cases[OF assms(1), of 1 target b]
      load_answer_cases[OF assms(1), of 2 target c] quiet[of 0 a] quiet[of 1 b] quiet[of 2 c] assms(1)
    unfolding answers
    by (auto simp del: load_answer.simps simp: Let_def split_def numeral_2_eq_2)
qed

theorem load_settles_witness:
  "let (q, out, k) = load_run (js ''/x'') 0 [Inl SyntaxError, Inl SyntaxError, Inl SyntaxError]
     (fst (load (js ''/x'') initial_panel)) in \<not> fp_loading q \<and> k \<le> 3"
  using load_settles[of "fst (load (js ''/x'') initial_panel)" "[Inl SyntaxError, Inl SyntaxError, Inl SyntaxError]" "js ''/x''"]
  by (auto simp: load_def Let_def initial_panel_def)

section \<open>Paths of entries\<close>

lemma collapse_other: "u \<noteq> slash \<Longrightarrow> collapse_slashes (u # s) = u # collapse_slashes s"
  by (cases s) auto

lemma collapse_name: "slash \<notin> set n \<Longrightarrow> collapse_slashes (n @ s) = n @ collapse_slashes s"
  by (induction n) (auto simp: collapse_other)

lemma collapse_slash: "s \<noteq> [] \<Longrightarrow> collapse_slashes (slash # s) = (if hd s = slash then collapse_slashes s else slash # collapse_slashes s)"
  by (cases s) auto

lemma collapse_render: "list_all proper_name ns \<Longrightarrow> collapse_slashes (render ns) = render ns"
proof (induction ns)
  case (Cons n ns)
  then have n: "n \<noteq> []" "slash \<notin> set n" by (auto simp: proper_name_def)
  then have hd: "hd n \<noteq> slash" using hd_in_set by metis
  have "render (n # ns) = slash # n @ (if ns = [] then [] else render ns)"
    by (cases ns) (simp_all add: render_def)
  with n hd Cons show ?case by (simp add: collapse_slash collapse_name)
qed (simp add: render_def)

lemma entry_path_render:
  assumes "list_all proper_name ns" "proper_name (tfe_name entry)"
  shows "entry_path (render ns) entry = render (ns @ [tfe_name entry])"
proof (cases "ns = []")
  case True
  have "tfe_name entry \<noteq> []" "slash \<notin> set (tfe_name entry)" using assms(2) by (auto simp: proper_name_def)
  moreover from this have "hd (tfe_name entry) \<noteq> slash" using hd_in_set by metis
  ultimately show ?thesis
    using True collapse_name[of "tfe_name entry" "[]"] by (simp add: entry_path_def render_def collapse_slash)
next
  case False
  then have "render ns @ slash # tfe_name entry = render (ns @ [tfe_name entry])" by (simp add: render_snoc)
  then show ?thesis
    using collapse_render[of "ns @ [tfe_name entry]"] assms by (simp add: entry_path_def)
qed

text \<open>
  entering an entry of a normalised directory leads to the normalised path of that entry, and
  going up from there leads back to the directory.
\<close>

theorem entry_path_parent:
  assumes "prefix [slash] path" and "normalizePath path = path" and "proper_name (tfe_name entry)"
  shows "entry_path path entry = normalizePath (path @ slash # tfe_name entry) \<and>
    parentPath (entry_path path entry) = Some path"
proof -
  obtain q where "path = slash # q" using assms(1) by (auto simp: prefix_slash)
  then obtain ns where ns: "list_all proper_name ns" "path = render ns"
    using normalizePath_absolute assms(2) by metis
  have split: "split_on slash (tfe_name entry) = [tfe_name entry]"
    using assms(3) by (simp add: proper_name_def split_on_no_sep)
  have "walk [] (split_on slash path) = ns"
    using split_render[OF ns(1)] walk_of_proper[OF ns(1), of "[]"] ns(2) by simp
  then have "normalizePath (path @ slash # tfe_name entry) = render (ns @ [tfe_name entry])"
    using normalizePath_append[OF assms(1)] split assms(3) by (simp add: proper_name_def)
  then show ?thesis
    using entry_path_render[OF ns(1) assms(3)] parentPath_render[OF ns(1) assms(3)] ns(2) by simp
qed

theorem entry_path_parent_witness:
  "parentPath (entry_path (js ''/srv'') \<lparr>tfe_name = js ''www'', tfe_size = 0, tfe_mode = [], tfe_is_dir = True,
     tfe_modified = []\<rparr>) = Some (js ''/srv'')"
proof -
  have "prefix [slash] (js ''/srv'')" "normalizePath (js ''/srv'') = js ''/srv''" "proper_name (js ''www'')"
    by (simp_all add: js_eval normalizePath_def resolve_segment_def proper_name_def)
  then show ?thesis
    using entry_path_parent[of "js ''/srv''" "\<lparr>tfe_name = js ''www'', tfe_size = 0, tfe_mode = [],
      tfe_is_dir = True, tfe_modified = []\<rparr>"] by auto
qed

end
