(* ===== verification/FileIcons.thy ===== *)
theory FileIcons
  imports Prelude
begin

text \<open>
  The file-type icons of the terminal's file panel (web/src/components/terminal/file-icons.tsx):
  the table, the extension of a name and the icon of an entry. Icons are file names; the table is
  a plain object, so that a lookup also finds what every object inherits.
\<close>

definition folderClosed :: string where "folderClosed = ''default_folder.svg''"
definition folderOpened :: string where "folderOpened = ''default_folder_opened.svg''"
definition fallback :: string where "fallback = ''default_file.svg''"

definition extensionMap :: "(string \<times> string) list" where
  "extensionMap = [
    (''go'', ''file_type_go.svg''), (''ts'', ''file_type_typescript.svg''),
    (''mts'', ''file_type_typescript.svg''), (''cts'', ''file_type_typescript.svg''),
    (''tsx'', ''file_type_reactjs.svg''), (''dts'', ''file_type_typescriptdef.svg''),
    (''js'', ''file_type_js.svg''), (''mjs'', ''file_type_js.svg''), (''cjs'', ''file_type_js.svg''),
    (''jsx'', ''file_type_reactjs.svg''), (''vue'', ''file_type_vue.svg''),
    (''py'', ''file_type_python.svg''), (''rs'', ''file_type_rust.svg''), (''c'', ''file_type_c.svg''),
    (''h'', ''file_type_c.svg''), (''cpp'', ''file_type_cpp.svg''), (''hpp'', ''file_type_cpp.svg''),
    (''cc'', ''file_type_cpp.svg''), (''java'', ''file_type_java.svg''), (''php'', ''file_type_php.svg''),
    (''rb'', ''file_type_ruby.svg''), (''html'', ''file_type_html.svg''), (''htm'', ''file_type_html.svg''),
    (''css'', ''file_type_css.svg''), (''scss'', ''file_type_scss.svg''), (''json'', ''file_type_json.svg''),
    (''yaml'', ''file_type_yaml.svg''), (''yml'', ''file_type_yaml.svg''),
    (''toml'', ''file_type_toml.svg''), (''xml'', ''file_type_xml.svg''), (''csv'', ''file_type_db.svg''),
    (''db'', ''file_type_db.svg''), (''sqlite'', ''file_type_sqlite.svg''), (''sql'', ''file_type_sql.svg''),
    (''md'', ''file_type_markdown.svg''), (''txt'', ''file_type_log.svg''), (''log'', ''file_type_log.svg''),
    (''pdf'', ''file_type_pdf.svg''), (''dockerfile'', ''file_type_docker.svg''),
    (''sh'', ''file_type_shell.svg''), (''bash'', ''file_type_shell.svg''),
    (''zsh'', ''file_type_shell.svg''), (''fish'', ''file_type_shell.svg''),
    (''zip'', ''file_type_zip.svg''), (''tar'', ''file_type_zip.svg''), (''gz'', ''file_type_zip.svg''),
    (''tgz'', ''file_type_zip.svg''), (''7z'', ''file_type_zip.svg''), (''rar'', ''file_type_zip.svg''),
    (''bin'', ''file_type_binary.svg''), (''exe'', ''file_type_binary.svg''),
    (''deb'', ''file_type_binary.svg''), (''rpm'', ''file_type_binary.svg''),
    (''png'', ''file_type_image.svg''), (''jpg'', ''file_type_image.svg''),
    (''jpeg'', ''file_type_image.svg''), (''gif'', ''file_type_image.svg''),
    (''svg'', ''file_type_image.svg''), (''webp'', ''file_type_image.svg''),
    (''ico'', ''file_type_image.svg''), (''bmp'', ''file_type_image.svg''),
    (''mp4'', ''file_type_video.svg''), (''mkv'', ''file_type_video.svg''),
    (''avi'', ''file_type_video.svg''), (''mov'', ''file_type_video.svg''),
    (''webm'', ''file_type_video.svg''), (''mp3'', ''file_type_audio.svg''),
    (''wav'', ''file_type_audio.svg''), (''flac'', ''file_type_audio.svg''),
    (''ogg'', ''file_type_audio.svg''), (''ttf'', ''file_type_font.svg''), (''otf'', ''file_type_font.svg''),
    (''woff'', ''file_type_font.svg''), (''woff2'', ''file_type_font.svg''),
    (''pem'', ''file_type_key.svg''), (''key'', ''file_type_key.svg''), (''p12'', ''file_type_key.svg''),
    (''pfx'', ''file_type_key.svg''), (''node'', ''file_type_node.svg''), (''npmrc'', ''file_type_npm.svg''),
    (''gitignore'', ''file_type_git.svg''), (''gitattributes'', ''file_type_git.svg'')]"

text \<open>
  The inherited properties that a lower-case name can reach; the others contain capitals.
\<close>

definition inherited :: "string list" where
  "inherited = [''constructor'', ''__proto__'']"

datatype icon = Icon string | InheritedProperty

definition dot :: nat where "dot = 0x2E"

definition extensionOf :: "jstr \<Rightarrow> jstr" where
  "extensionOf name =
     (let lower = to_lower name in
      case last_index_of lower dot of
        Some (Suc n) \<Rightarrow> drop (Suc (Suc n)) lower
      | _ \<Rightarrow> if prefix [dot] lower then drop 1 lower else [])"

definition fileIconName :: "jstr \<Rightarrow> bool \<Rightarrow> bool \<Rightarrow> icon" where
  "fileIconName name isDir opened =
     (if isDir then Icon (if opened then folderOpened else folderClosed)
      else
        (let extension = extensionOf name in
         case find (\<lambda>(k, v). js k = extension) extensionMap of
           Some (k, v) \<Rightarrow> Icon v
         | None \<Rightarrow> if list_ex (\<lambda>k. js k = extension) inherited then InheritedProperty else Icon fallback))"

section \<open>Extensions\<close>

lemma to_lower_append [simp]: "to_lower (s @ t) = to_lower s @ to_lower t"
  by (simp add: to_lower_def)

lemma to_lower_dot: "to_lower (dot # s) = dot # to_lower s"
  by (simp add: to_lower_def lower_unit_def dot_def)

lemma dot_lower: "dot \<in> set (to_lower s) \<longleftrightarrow> dot \<in> set s"
  by (auto simp: to_lower_def lower_unit_def dot_def image_iff split: if_splits)

text \<open>
  The extension is what follows the last dot, in lower case; of a name that only starts with one,
  the rest of the name; of a name without any, nothing.
\<close>

lemma extensionOf_dotted:
  assumes "dot \<notin> set ext"
  shows "extensionOf (base @ dot # ext) = to_lower ext"
proof -
  have "last_index_of (to_lower (base @ dot # ext)) dot = Some (length base)"
    using last_index_of_append[of dot "to_lower ext" "to_lower base"] assms
    by (simp add: to_lower_dot dot_lower) (simp add: to_lower_def)
  moreover have "drop (length base) (to_lower (base @ dot # ext)) = dot # to_lower ext"
    by (simp add: to_lower_dot) (simp add: to_lower_def)
  moreover have "drop (Suc (length base)) (to_lower (base @ dot # ext)) = to_lower ext"
    by (simp add: to_lower_dot) (simp add: to_lower_def)
  ultimately show ?thesis
    by (cases base) (auto simp: extensionOf_def Let_def to_lower_dot)
qed

lemma extensionOf_plain: "dot \<notin> set name \<Longrightarrow> extensionOf name = []"
  using last_index_of_None[of "to_lower name" dot]
  by (cases name) (auto simp: extensionOf_def Let_def dot_lower to_lower_def lower_unit_def dot_def split: if_splits)

text \<open>
  Two rows of the icon table fail. A file without a dot has no extension, so a Dockerfile gets
  the fallback although the table has a row for it; and the table, being a plain object, answers
  for names it does not list: a file that ends in \<open>.constructor\<close> gets the inherited property, which
  is no icon.
\<close>

theorem icon_table_gaps:
  "fileIconName (js ''Dockerfile'') False opened = Icon fallback \<and>
   map_of extensionMap ''dockerfile'' = Some ''file_type_docker.svg'' \<and>
   fileIconName (base @ js ''.constructor'') False opened = InheritedProperty"
proof -
  have plain: "extensionOf (js ''Dockerfile'') = []"
    by (rule extensionOf_plain) (simp add: js_eval dot_def)
  have "extensionOf (base @ dot # js ''constructor'') = to_lower (js ''constructor'')"
    by (rule extensionOf_dotted) (simp add: js_eval dot_def)
  moreover have "to_lower (js ''constructor'') = js ''constructor''"
    by (simp add: js_eval to_lower_def lower_unit_def)
  ultimately have inherited: "extensionOf (base @ js ''.constructor'') = js ''constructor''"
    by (simp add: js_Cons dot_def)
  show ?thesis
    by (simp add: fileIconName_def plain inherited extensionMap_def inherited_def)
qed

end
