(* ===== verification/FileView.thy ===== *)
theory FileView
  imports FilePanel FileIcons Format Tasks
begin

text \<open>
  The file panel at work (web/src/components/terminal/file-panel.tsx): what it shows of its state,
  and its requests in flight while the directory, which belongs to the terminal page, changes. A
  removal or an upload ends with a reload of the directory that it was started in.
\<close>

section \<open>What is shown\<close>

text \<open>The label and the target of each segment of the address bar.\<close>

definition crumbs :: "jstr \<Rightarrow> (jstr \<times> jstr) list" where
  "crumbs path =
     (let segments = filter (\<lambda>s. s \<noteq> []) (split_on slash path)
      in map (\<lambda>index. (if index = 0 then [slash] else segments ! index, breadcrumbs path ! index)) [0..<length segments])"

record file_row =
  fw_name :: jstr
  fw_directory :: bool
  fw_open :: bool
  fw_size :: "jstr option"
  fw_busy :: bool

definition file_row_of :: "jstr \<Rightarrow> panel \<Rightarrow> TerminalFileEntry \<Rightarrow> file_row" where
  "file_row_of path p entry =
     \<lparr>fw_name = tfe_name entry, fw_directory = tfe_is_dir entry,
      fw_open = (tfe_is_dir entry \<and> currentSegment path = Some (tfe_name entry)),
      fw_size = (if tfe_is_dir entry then None else Some (formatBytes (Fin (of_int (tfe_size entry))))),
      fw_busy = (fp_busy p = Some (tfe_name entry))\<rparr>"

record file_view =
  fv_crumbs :: "(jstr \<times> jstr) list"
  fv_up :: bool
  fv_loading :: bool
  fv_failure :: "(jstr \<times> jstr \<times> bool) option"
  fv_empty :: bool
  fv_rows :: "file_row list"
  fv_uploading :: bool

definition can_go_up :: "panel \<Rightarrow> bool" where
  "can_go_up p \<longleftrightarrow>
     (case Option.bind (map_option tfl_parent (fp_list p)) nonempty of
        Some parent \<Rightarrow> True
      | None \<Rightarrow> (case fp_failed p of Some (path, _) \<Rightarrow> Option.bind (parentPath path) nonempty \<noteq> None | None \<Rightarrow> False))"

definition file_view_of :: "bool \<Rightarrow> jstr \<Rightarrow> panel \<Rightarrow> file_view option" where
  "file_view_of online path p =
     (if \<not> online then None
      else Some
        \<lparr>fv_crumbs = crumbs path, fv_up = can_go_up p, fv_loading = fp_loading p,
         fv_failure =
           (if fp_loading p then None
            else map_option (\<lambda>(target, message). (target, message, Option.bind (parentPath target) nonempty \<noteq> None)) (fp_failed p)),
         fv_empty = (\<not> fp_loading p \<and> fp_failed p = None \<and> map_option tfl_entries (fp_list p) = Some []),
         fv_rows = map (file_row_of path p) (case fp_list p of Some l \<Rightarrow> tfl_entries l | None \<Rightarrow> []),
         fv_uploading = (fp_busy p = Some (js ''upload''))\<rparr>)"

section \<open>Requests in flight\<close>

text \<open>What is to be done when the reload that ends an operation has settled.\<close>

datatype after_load = NothingMore | RemovedEntry TerminalFileEntry | UploadedFiles nat

datatype file_task =
    Listing nat jstr nat after_load
  | Waiting nat jstr nat after_load
  | Removing jstr TerminalFileEntry

record file_run =
  fr_panel :: panel
  fr_path :: jstr
  fr_connected :: bool
  fr_tasks :: "file_task list"
  fr_removals :: "http_call list"

datatype file_event =
    PathSet jstr
  | ConnectedSet bool
  | ReloadClicked
  | RemoveConfirmed TerminalFileEntry
  | UploadsDone jstr nat
  | ListingAnswered nat "TerminalFileList outcome"
  | BackoffOver nat
  | RemovalAnswered nat "unit outcome"

definition start_listing :: "jstr \<Rightarrow> after_load \<Rightarrow> file_run \<Rightarrow> file_run" where
  "start_listing target after r =
     (let p = fst (load target (fr_panel r))
      in r\<lparr>fr_panel := p, fr_tasks := fr_tasks r @ [Listing (fp_seq p) target 0 after]\<rparr>)"

text \<open>The effect of the panel: a load whenever it is connected and the connection or the path changed.\<close>

definition panel_loads :: "file_run \<Rightarrow> file_run" where
  "panel_loads r = (if fr_connected r then start_listing (fr_path r) NothingMore r else r)"

definition finish_load :: "after_load \<Rightarrow> panel \<Rightarrow> panel" where
  "finish_load after p = (if after = NothingMore then p else p\<lparr>fp_busy := None\<rparr>)"

definition listing_answered ::
  "nat \<Rightarrow> jstr \<Rightarrow> nat \<Rightarrow> after_load \<Rightarrow> TerminalFileList outcome \<Rightarrow> file_run \<Rightarrow> file_run" where
  "listing_answered seq target attempt after answer r =
     (case load_answer seq (target, attempt, answer) (fr_panel r) of
        (p, [RetryAfter _ _ _ next_attempt]) \<Rightarrow>
          r\<lparr>fr_panel := p, fr_tasks := fr_tasks r @ [Waiting seq target next_attempt after]\<rparr>
      | (p, _) \<Rightarrow> r\<lparr>fr_panel := finish_load after p\<rparr>)"

text \<open>A retry is sent when its back-off is over, also by a load that has been superseded.\<close>

definition drop_task :: "nat \<Rightarrow> file_run \<Rightarrow> file_run" where
  "drop_task n r = r\<lparr>fr_tasks := remove_at n (fr_tasks r)\<rparr>"

definition task_at :: "nat \<Rightarrow> file_run \<Rightarrow> file_task option" where
  "task_at n r = (if n < length (fr_tasks r) then Some (fr_tasks r ! n) else None)"

fun file_step :: "file_run \<Rightarrow> file_event \<Rightarrow> file_run" where
  "file_step r (PathSet new) = (if new = fr_path r then r else panel_loads (r\<lparr>fr_path := new\<rparr>))"
| "file_step r (ConnectedSet c) = (if c = fr_connected r then r else panel_loads (r\<lparr>fr_connected := c\<rparr>))"
| "file_step r ReloadClicked = start_listing (fr_path r) NothingMore r"
| "file_step r (RemoveConfirmed entry) =
     (case remove_request True (fr_path r) entry (fr_panel r) of
        (p, Some call) \<Rightarrow>
          r\<lparr>fr_panel := p, fr_tasks := fr_tasks r @ [Removing (fr_path r) entry], fr_removals := fr_removals r @ [call]\<rparr>
      | (p, None) \<Rightarrow> r)"
| "file_step r (UploadsDone directory n) = start_listing directory (UploadedFiles n) r"
| "file_step r (ListingAnswered n answer) =
     (case task_at n r of
        Some (Listing seq target attempt after) \<Rightarrow> listing_answered seq target attempt after answer (drop_task n r)
      | _ \<Rightarrow> r)"
| "file_step r (BackoffOver n) =
     (case task_at n r of
        Some (Waiting seq target attempt after) \<Rightarrow>
          (drop_task n r)\<lparr>fr_tasks := fr_tasks (drop_task n r) @ [Listing seq target attempt after]\<rparr>
      | _ \<Rightarrow> r)"
| "file_step r (RemovalAnswered n answer) =
     (case task_at n r of
        Some (Removing directory entry) \<Rightarrow>
          (case answer of
             Inr _ \<Rightarrow> start_listing directory (RemovedEntry entry) (drop_task n r)
           | Inl cause \<Rightarrow> (drop_task n r)\<lparr>fr_panel := (fr_panel r)\<lparr>fp_busy := None\<rparr>\<rparr>)
      | _ \<Rightarrow> r)"

definition initial_file_run :: "jstr \<Rightarrow> file_run" where
  "initial_file_run path =
     \<lparr>fr_panel = initial_panel, fr_path = path, fr_connected = False, fr_tasks = [], fr_removals = []\<rparr>"

section \<open>Facts\<close>

lemma crumb_targets: "map snd (crumbs path) = breadcrumbs path"
  by (auto simp: crumbs_def breadcrumbs_def Let_def intro: nth_equalityI)

text \<open>The first segment is labelled as the root but leads to the first directory.\<close>

lemma first_crumb_mislabelled: "crumbs (js ''/srv/www'') = [(js ''/'', js ''/srv''), (js ''www'', js ''/srv/www'')]"
  by code_simp

text \<open>The loading mark always has a request or a back-off of the latest load behind it.\<close>

definition task_seq :: "file_task \<Rightarrow> nat option" where
  "task_seq t = (case t of Listing n _ _ _ \<Rightarrow> Some n | Waiting n _ _ _ \<Rightarrow> Some n | Removing _ _ \<Rightarrow> None)"

definition load_under_way :: "file_run \<Rightarrow> bool" where
  "load_under_way r \<longleftrightarrow>
     (fp_loading (fr_panel r) \<longrightarrow> (\<exists>t \<in> set (fr_tasks r). task_seq t = Some (fp_seq (fr_panel r))))"

lemma start_listing_under_way: "load_under_way (start_listing target after r)"
  by (simp add: load_under_way_def start_listing_def load_def task_seq_def Let_def)

lemma under_way_fields [simp]:
  "load_under_way (r\<lparr>fr_path := x\<rparr>) = load_under_way r" "load_under_way (r\<lparr>fr_connected := c\<rparr>) = load_under_way r"
  by (simp_all add: load_under_way_def)

lemma panel_loads_under_way: "load_under_way r \<Longrightarrow> load_under_way (panel_loads r)"
  by (simp add: panel_loads_def start_listing_under_way)

lemma remove_at_split: "n < length xs \<Longrightarrow> set xs = insert (xs ! n) (set (remove_at n xs))"
  unfolding remove_at_def by (subst id_take_nth_drop, assumption) auto

lemma take_other_under_way:
  assumes "load_under_way r" "task_at n r = Some t" "task_seq t \<noteq> Some (fp_seq (fr_panel r))"
  shows "load_under_way (drop_task n r)"
  using assms remove_at_split[of n "fr_tasks r"]
  by (auto simp: load_under_way_def drop_task_def task_at_def split: if_splits)

lemma listing_answered_under_way:
  assumes "load_under_way r" "task_at n r = Some (Listing seq target attempt after)"
  shows "load_under_way (listing_answered seq target attempt after answer (drop_task n r))"
proof (cases "fp_seq (fr_panel r) = seq")
  case True
  then show ?thesis
    by (auto simp: listing_answered_def drop_task_def load_under_way_def finish_load_def task_seq_def FilePanel.load_failed_def
        split: sum.splits if_splits)
next
  case False
  then have "load_under_way (drop_task n r)"
    using take_other_under_way[OF assms] by (simp add: task_seq_def)
  with False show ?thesis
    by (simp add: listing_answered_def load_under_way_def drop_task_def finish_load_def)
qed

lemma file_step_under_way: "load_under_way r \<Longrightarrow> load_under_way (file_step r e)"
proof (cases e)
  case (BackoffOver n)
  assume r: "load_under_way r"
  show ?thesis
  proof (cases "task_at n r")
    case (Some t)
    then show ?thesis using BackoffOver r remove_at_split[of n "fr_tasks r"]
      by (cases t) (auto simp: load_under_way_def drop_task_def task_at_def task_seq_def split: if_splits)
  qed (use BackoffOver r in simp)
next
  case (ListingAnswered n answer)
  assume "load_under_way r"
  with ListingAnswered show ?thesis
    by (auto simp: listing_answered_under_way split: option.splits file_task.splits)
next
  case (RemovalAnswered n answer)
  assume r: "load_under_way r"
  have failed: "load_under_way ((drop_task n r)\<lparr>fr_panel := (fr_panel r)\<lparr>fp_busy := None\<rparr>\<rparr>)"
    if "task_at n r = Some (Removing directory entry)" for directory entry
    using take_other_under_way[OF r that] by (simp add: load_under_way_def drop_task_def task_seq_def)
  from RemovalAnswered r failed show ?thesis
    by (auto simp: start_listing_under_way split: option.splits file_task.splits sum.splits)
next
  case (RemoveConfirmed entry)
  assume "load_under_way r"
  with RemoveConfirmed show ?thesis by (auto simp: remove_request_def load_under_way_def)
qed (auto simp: panel_loads_under_way start_listing_under_way)

lemma load_always_under_way: "load_under_way (foldl file_step (initial_file_run path) es)"
proof -
  have "load_under_way r \<Longrightarrow> load_under_way (foldl file_step r es)" for r
    by (induction es arbitrary: r) (simp_all add: file_step_under_way)
  then show ?thesis by (simp add: load_under_way_def initial_file_run_def initial_panel_def)
qed

text \<open>
  A removal ends with a reload of the directory it was started in. When the panel has moved on, the
  listing of the old directory is shown under the new path, and a removal in it names the file of
  the new directory.
\<close>

lemma reload_shows_left_directory:
  assumes "a \<noteq> b"
  shows "let r = foldl file_step (initial_file_run a)
      [ConnectedSet True, ListingAnswered 0 (Inr in_a), RemoveConfirmed x, PathSet b, ListingAnswered 1 (Inr in_b),
       RemovalAnswered 0 (Inr ()), ListingAnswered 0 (Inr in_a'), RemoveConfirmed y]
    in fr_path r = b \<and> fp_list (fr_panel r) = Some in_a' \<and> \<not> fp_loading (fr_panel r) \<and>
       fr_removals r = [removeTerminalFile (entry_path a x), removeTerminalFile (entry_path b y)]"
  using assms
  by (simp add: initial_file_run_def initial_panel_def panel_loads_def start_listing_def load_def listing_answered_def
      remove_request_def finish_load_def task_at_def drop_task_def remove_at_def Let_def)

end
