(* ===== verification/Nodes.thy ===== *)
theory Nodes
  imports NodeStream ApiCalls
begin

text \<open>
  The node inventory page (web/src/pages/nodes-page.tsx): loading with filters, single and batch
  speed tests, enabling and disabling, the derived metrics and subscription groups, and the
  sorting of a group. \<open>localeCompare\<close> and \<open>Date.parse\<close> are arguments of the sorting.
\<close>

section \<open>State\<close>

datatype SortKey = ByLatency | ByName | ByState | ByProtocol | ByChecked
datatype SortDirection = Asc | Desc

text \<open>A node as it arrives: its two lists may be missing, which the page repairs.\<close>

record wire_node =
  wn_node :: NodeRecord
  wn_sources :: "NodeSource list option"
  wn_health_checks :: "NodeHealthCheck list option"

record nodes_page =
  np_items :: "NodeRecord list"
  np_subscriptions :: "Subscription list"
  np_traffic :: "(jstr \<times> TrafficSummary) list"
  np_expanded :: "jstr list"
  np_loading :: bool
  np_checking :: "jstr \<rightharpoonup> bool"
  np_search :: jstr
  np_protocol :: jstr
  np_state :: jstr
  np_settings :: "NodeQualitySettings option"
  np_sort_key :: SortKey
  np_sort_direction :: SortDirection
  np_progress :: "(int \<times> int) option"
  np_controller :: "bool option"

text \<open>\<open>np_controller\<close> is the batch's abort controller: present, and whether it was aborted.\<close>

definition initial_nodes :: nodes_page where
  "initial_nodes = \<lparr>np_items = [], np_subscriptions = [], np_traffic = [], np_expanded = [],
     np_loading = True, np_checking = Map.empty, np_search = [], np_protocol = [], np_state = [],
     np_settings = None, np_sort_key = ByLatency, np_sort_direction = Asc, np_progress = None,
     np_controller = None\<rparr>"

section \<open>Node records\<close>

definition normalizeNode :: "wire_node \<Rightarrow> NodeRecord" where
  "normalizeNode w = (wn_node w)\<lparr>nd_sources := or_default (wn_sources w) [],
     nd_health_checks := or_default (wn_health_checks w) []\<rparr>"

definition mergeCheckedNode :: "NodeRecord \<Rightarrow> wire_node \<Rightarrow> NodeRecord" where
  "mergeCheckedNode previous checked =
     (let new = normalizeNode checked
      in new\<lparr>nd_sources := (if nd_sources new \<noteq> [] then nd_sources new else nd_sources previous),
             nd_source_count := (if nd_source_count new \<noteq> 0 then nd_source_count new else nd_source_count previous)\<rparr>)"

definition clearDisplayedQuality :: "NodeRecord \<Rightarrow> NodeRecord" where
  "clearDisplayedQuality node =
     node\<lparr>nd_lifecycle_state :=
            (if nd_lifecycle_state node = Disabled \<or> nd_lifecycle_state node = Retired
             then nd_lifecycle_state node else Candidate),
          nd_last_checked_at := None, nd_last_latency_ms := None, nd_last_error_code := None,
          nd_last_error_message := None, nd_consecutive_probe_failures := 0\<rparr>"

text \<open>The labels say: probe failed, node unreachable, timeout, and so on; here their code.\<close>

datatype error_label = ProbeFailedLabel | KnownLabel string | RawLabel jstr

definition known_error_codes :: "string list" where
  "known_error_codes = [''node_unreachable'', ''timeout'', ''connect_failed'', ''dataplane_down'',
     ''proxy_not_found'', ''http_failed'', ''probe_failed'']"

definition errorCodeLabel :: "jstr option \<Rightarrow> error_label" where
  "errorCodeLabel code =
     (case Option.bind code nonempty of
        None \<Rightarrow> ProbeFailedLabel
      | Some c \<Rightarrow> (case find (\<lambda>k. js k = c) known_error_codes of Some k \<Rightarrow> KnownLabel k | None \<Rightarrow> RawLabel c))"

datatype interval_label = Hours int | Minutes int | Seconds int

definition formatInterval :: "int \<Rightarrow> interval_label" where
  "formatInterval seconds =
     (if seconds mod 3600 = 0 then Hours (seconds div 3600)
      else if seconds mod 60 = 0 then Minutes (seconds div 60)
      else Seconds seconds)"

section \<open>Sorting\<close>

text \<open>The order of the states is the order in which the page lists them.\<close>

definition stateOrder :: "LifecycleState \<Rightarrow> int" where
  "stateOrder s = (case s of Healthy \<Rightarrow> 0 | Candidate \<Rightarrow> 1 | Degraded \<Rightarrow> 2 | Quarantined \<Rightarrow> 3
     | Disabled \<Rightarrow> 4 | Retired \<Rightarrow> 5)"

instantiation LifecycleState :: linorder
begin

definition less_eq_LifecycleState :: "LifecycleState \<Rightarrow> LifecycleState \<Rightarrow> bool" where
  "less_eq_LifecycleState s t \<longleftrightarrow> stateOrder s \<le> stateOrder t"

definition less_LifecycleState :: "LifecycleState \<Rightarrow> LifecycleState \<Rightarrow> bool" where
  "less_LifecycleState s t \<longleftrightarrow> stateOrder s < stateOrder t"

instance
  by standard (auto simp: less_eq_LifecycleState_def less_LifecycleState_def stateOrder_def
      split: LifecycleState.splits)

end

text \<open>The time of the last check, 0 without one; None for the \<open>NaN\<close> of an unreadable date.\<close>

definition checked_time :: "(jstr \<Rightarrow> int option) \<Rightarrow> NodeRecord \<Rightarrow> int option" where
  "checked_time parse node =
     (case Option.bind (nd_last_checked_at node) nonempty of Some s \<Rightarrow> parse s | None \<Rightarrow> Some 0)"

text \<open>A comparison of \<open>NaN\<close> is not 0, and the sort treats the result as equal.\<close>

definition compare_nodes ::
  "(jstr \<Rightarrow> jstr \<Rightarrow> int) \<Rightarrow> (jstr \<Rightarrow> jstr \<Rightarrow> int) \<Rightarrow> (jstr \<Rightarrow> int option) \<Rightarrow> SortKey \<Rightarrow> SortDirection
     \<Rightarrow> NodeRecord \<Rightarrow> NodeRecord \<Rightarrow> int" where
  "compare_nodes zh lc parse key direction left right =
     (let multiplier = (if direction = Asc then 1 else -1);
          decide = (\<lambda>compared. if compared = 0 then zh (nd_display_name left) (nd_display_name right)
                              else compared * multiplier)
      in case key of
           ByLatency \<Rightarrow>
             (case (nd_last_latency_ms left, nd_last_latency_ms right) of
                (None, None) \<Rightarrow> decide 0
              | (None, Some _) \<Rightarrow> 1
              | (Some _, None) \<Rightarrow> -1
              | (Some a, Some b) \<Rightarrow> decide (a - b))
         | ByName \<Rightarrow> decide (zh (nd_display_name left) (nd_display_name right))
         | ByState \<Rightarrow> decide (stateOrder (nd_lifecycle_state left) - stateOrder (nd_lifecycle_state right))
         | ByProtocol \<Rightarrow> decide (lc (nd_protocol left) (nd_protocol right))
         | ByChecked \<Rightarrow>
             (case (checked_time parse left, checked_time parse right) of
                (Some a, Some b) \<Rightarrow> decide (a - b)
              | _ \<Rightarrow> 0))"

definition sortNodes ::
  "(jstr \<Rightarrow> jstr \<Rightarrow> int) \<Rightarrow> (jstr \<Rightarrow> jstr \<Rightarrow> int) \<Rightarrow> (jstr \<Rightarrow> int option) \<Rightarrow> NodeRecord list \<Rightarrow> SortKey
     \<Rightarrow> SortDirection \<Rightarrow> NodeRecord list" where
  "sortNodes zh lc parse nodes key direction = sort_cmp (compare_nodes zh lc parse key direction) nodes"

section \<open>Loading\<close>

text \<open>\<open>new Map(entries)\<close>\<close>

definition new_map :: "('k \<times> 'v) list \<Rightarrow> ('k \<times> 'v) list" where
  "new_map entries = foldl (\<lambda>m e. put_by fst e m) [] entries"

definition load_call :: "nodes_page \<Rightarrow> http_call" where
  "load_call p = listNodes (Some \<lparr>nf_search = Some (trim (np_search p)), nf_protocol = Some (np_protocol p),
     nf_state = Some (np_state p)\<rparr>)"

definition load_started :: "nodes_page \<Rightarrow> nodes_page" where
  "load_started p = p\<lparr>np_loading := True\<rparr>"

text \<open>The answers to the three requests; the last two are None when they failed.\<close>

definition load_done ::
  "wire_node list \<Rightarrow> Subscription list option \<Rightarrow> TrafficSummary list option \<Rightarrow> nodes_page \<Rightarrow> nodes_page" where
  "load_done nodes subs summaries p =
     (let p1 = p\<lparr>np_items := map normalizeNode nodes\<rparr>;
          p2 = (case subs of
                  None \<Rightarrow> p1
                | Some items \<Rightarrow>
                    p1\<lparr>np_subscriptions := items,
                       np_expanded := (if np_expanded p1 \<noteq> [] then np_expanded p1 else unique (map sub_id items))\<rparr>);
          p3 = (case summaries of
                  None \<Rightarrow> p2
                | Some items \<Rightarrow> p2\<lparr>np_traffic := new_map (map (\<lambda>s. (ts_resource_id s, s)) items)\<rparr>)
      in p3\<lparr>np_loading := False\<rparr>)"

definition load_failed :: "nodes_page \<Rightarrow> nodes_page" where
  "load_failed p = p\<lparr>np_loading := False\<rparr>"

section \<open>Speed tests\<close>

definition replace_node :: "jstr \<Rightarrow> (NodeRecord \<Rightarrow> NodeRecord) \<Rightarrow> nodes_page \<Rightarrow> nodes_page" where
  "replace_node i f p = p\<lparr>np_items := map (\<lambda>c. if nd_id c = i then f c else c) (np_items p)\<rparr>"

definition check_started :: "NodeRecord \<Rightarrow> nodes_page \<Rightarrow> nodes_page" where
  "check_started node p = p\<lparr>np_checking := (np_checking p)(nd_id node \<mapsto> True)\<rparr>"

text \<open>The answer to a single check: the checked node and its result, or a failed request.\<close>

datatype check_notice =
    CheckSucceeded "int option" | CheckFailed error_label "jstr option" | CheckError

definition check_answer ::
  "NodeRecord \<Rightarrow> (wire_node \<times> NodeCheckResult) option \<Rightarrow> nodes_page \<Rightarrow> nodes_page \<times> check_notice" where
  "check_answer node answer p =
     (let (p1, notice) =
        (case answer of
           None \<Rightarrow> (p, CheckError)
         | Some (checked, result) \<Rightarrow>
             (replace_node (nd_id node) (\<lambda>c. mergeCheckedNode c checked) p,
              if ncr_success result then CheckSucceeded (ncr_latency_ms result)
              else CheckFailed (errorCodeLabel (ncr_error_code result)) (Option.bind (ncr_error result) nonempty)))
      in (p1\<lparr>np_checking := (np_checking p1)(nd_id node \<mapsto> False)\<rparr>, notice))"

definition testable :: "NodeRecord \<Rightarrow> bool" where
  "testable node \<longleftrightarrow> nd_lifecycle_state node \<noteq> Disabled \<and> nd_lifecycle_state node \<noteq> Retired"

text \<open>Starting a batch: the identifiers to test, or None when there is nothing to test.\<close>

definition checkVisibleNodes :: "nodes_page \<Rightarrow> nodes_page \<times> jstr list option" where
  "checkVisibleNodes p =
     (let ids = map nd_id (filter testable (np_items p)) in
      if ids = [] then (p, None)
      else (p\<lparr>np_controller := Some False, np_progress := Some (0, int (length ids)),
              np_checking := map_from (map (\<lambda>i. (i, True)) ids),
              np_items := map (\<lambda>n. if nd_id n \<in> set ids then clearDisplayedQuality n else n) (np_items p)\<rparr>,
            Some ids))"

text \<open>One line of progress; the counter of failures is part of the batch.\<close>

definition batch_progress ::
  "NodeCheckProgress \<times> wire_node \<Rightarrow> nodes_page \<times> nat \<Rightarrow> nodes_page \<times> nat" where
  "batch_progress entry st =
     (let (progress, checked) = entry; (p, failed) = st;
          failed' = (if ncr_success (ncp_result progress) then failed else failed + 1);
          p1 = replace_node (ncp_node_id progress) (\<lambda>c. mergeCheckedNode c checked) p
      in (p1\<lparr>np_checking := (np_checking p1)(ncp_node_id progress \<mapsto> False),
             np_progress := Some (ncp_completed progress, ncp_total progress)\<rparr>, failed'))"

datatype batch_notice = BatchDone int int | BatchStopped | BatchError

definition batch_finished :: "jstr list \<Rightarrow> bool \<Rightarrow> nodes_page \<times> nat \<Rightarrow> nodes_page \<times> batch_notice" where
  "batch_finished ids succeeded st =
     (let (p, failed) = st in
      (p\<lparr>np_checking := Map.empty, np_progress := None, np_controller := None\<rparr>,
       if succeeded then BatchDone (int (length ids) - int failed) (int failed)
       else if np_controller p = Some True then BatchStopped else BatchError))"

definition batch_abort :: "nodes_page \<Rightarrow> nodes_page" where
  "batch_abort p = p\<lparr>np_controller := map_option (\<lambda>_. True) (np_controller p)\<rparr>"

section \<open>Enabling and disabling\<close>

definition toggle_call :: "NodeRecord \<Rightarrow> http_call option" where
  "toggle_call node =
     (if nd_lifecycle_state node \<noteq> Disabled then disableNode (nd_id node) else enableNode (nd_id node))"

definition toggle_answer :: "NodeRecord \<Rightarrow> NodeRecord option \<Rightarrow> nodes_page \<Rightarrow> nodes_page" where
  "toggle_answer node updated p =
     (case updated of Some n \<Rightarrow> replace_node (nd_id node) (\<lambda>_. n) p | None \<Rightarrow> p)"

section \<open>What the page shows\<close>

definition protocols :: "nodes_page \<Rightarrow> jstr list" where
  "protocols p = sort_cmp compare_units (unique (map nd_protocol (np_items p)))"

record node_metrics =
  nm_healthy :: nat
  nm_degraded :: nat
  nm_quarantined :: nat
  nm_unchecked :: nat
  nm_total_traffic :: int

definition metrics :: "nodes_page \<Rightarrow> node_metrics" where
  "metrics p =
     (let count = (\<lambda>s. length (filter (\<lambda>n. nd_lifecycle_state n = s) (np_items p)))
      in \<lparr>nm_healthy = count Healthy, nm_degraded = count Degraded, nm_quarantined = count Quarantined,
          nm_unchecked = count Candidate,
          nm_total_traffic = foldl (\<lambda>total (_, s). total + ts_upload_bytes s + ts_download_bytes s) 0 (np_traffic p)\<rparr>)"

text \<open>The groups, with the sorting of a group as an argument.\<close>

definition bySubscription ::
  "(NodeRecord list \<Rightarrow> NodeRecord list) \<Rightarrow> nodes_page \<Rightarrow> (Subscription \<times> NodeRecord list) list" where
  "bySubscription sort_group p =
     filter (\<lambda>(_, nodes). nodes \<noteq> [] \<or> (np_search p = [] \<and> np_protocol p = [] \<and> np_state p = []))
       (map (\<lambda>s. (s, sort_group (filter (\<lambda>n. \<exists>src \<in> set (nd_sources n). nsrc_subscription_id src = sub_id s) (np_items p))))
         (np_subscriptions p))"

definition unassigned :: "(NodeRecord list \<Rightarrow> NodeRecord list) \<Rightarrow> nodes_page \<Rightarrow> NodeRecord list" where
  "unassigned sort_group p =
     (let known = set (map sub_id (np_subscriptions p))
      in sort_group (filter (\<lambda>n. nd_sources n = [] \<or>
           list_all (\<lambda>src. nsrc_subscription_id src \<notin> known) (nd_sources n)) (np_items p)))"

definition toggle_expanded :: "jstr \<Rightarrow> nodes_page \<Rightarrow> nodes_page" where
  "toggle_expanded i p = p\<lparr>np_expanded := toggle_member i (np_expanded p)\<rparr>"

section \<open>The sort\<close>

text \<open>With readable dates every sort key is a signed comparison.\<close>

definition total_parse :: "(jstr \<Rightarrow> int option) \<Rightarrow> jstr \<Rightarrow> int option" where
  "total_parse parse s = Some (or_default (parse s) 0)"

definition node_key :: "(jstr \<Rightarrow> jstr \<Rightarrow> int) \<Rightarrow> (jstr \<Rightarrow> jstr \<Rightarrow> int) \<Rightarrow> (jstr \<Rightarrow> int option) \<Rightarrow> SortKey
    \<Rightarrow> NodeRecord \<Rightarrow> NodeRecord \<Rightarrow> int" where
  "node_key zh lc parse key l r =
     (case key of
        ByLatency \<Rightarrow> or_default (nd_last_latency_ms l) 0 - or_default (nd_last_latency_ms r) 0
      | ByName \<Rightarrow> zh (nd_display_name l) (nd_display_name r)
      | ByState \<Rightarrow> stateOrder (nd_lifecycle_state l) - stateOrder (nd_lifecycle_state r)
      | ByProtocol \<Rightarrow> lc (nd_protocol l) (nd_protocol r)
      | ByChecked \<Rightarrow> or_default (checked_time parse l) 0 - or_default (checked_time parse r) 0)"

lemma compare_nodes_lex:
  "compare_nodes zh lc (total_parse parse) key direction l r =
     (let gap = (if key = ByLatency then missing_last nd_last_latency_ms l r else 0) in
      if gap = 0 then
        (let k = node_key zh lc (total_parse parse) key l r * (if direction = Asc then 1 else -1) in
         if k = 0 then zh (nd_display_name l) (nd_display_name r) else k)
      else gap)"
proof -
  have checked: "checked_time (total_parse parse) n = Some (or_default (checked_time (total_parse parse) n) 0)" for n
    by (auto simp: checked_time_def total_parse_def split: option.split)
  show ?thesis
  proof (cases key)
    case ByChecked
    obtain a b where "checked_time (total_parse parse) l = Some a" "checked_time (total_parse parse) r = Some b"
      using checked by metis
    with ByChecked show ?thesis by (simp add: compare_nodes_def node_key_def Let_def)
  qed (auto simp: compare_nodes_def node_key_def missing_last_def Let_def split: option.split)
qed

lemma signed_zero: "signed_comparator (\<lambda>x y. 0)"
  by unfold_locales auto

lemma signed_node_key:
  "signed_comparator zh \<Longrightarrow> signed_comparator lc \<Longrightarrow> signed_comparator (node_key zh lc parse key)"
  unfolding node_key_def by (cases key) (simp_all add: signed_difference signed_on)

lemma signed_compare_nodes:
  assumes "signed_comparator zh" "signed_comparator lc"
  shows "signed_comparator (compare_nodes zh lc (total_parse parse) key direction)"
proof -
  have m: "(if direction = Asc then 1 else -1 :: int) = 1 \<or> (if direction = Asc then 1 else -1 :: int) = -1"
    by simp
  have gap: "signed_comparator (\<lambda>l r. if key = ByLatency then missing_last nd_last_latency_ms l r else 0)"
    by (cases "key = ByLatency") (simp_all add: signed_missing_last signed_zero)
  show ?thesis
    unfolding compare_nodes_lex[abs_def] Let_def
    by (rule signed_lex[OF gap signed_lex[OF signed_times[OF signed_node_key[OF assms] m] signed_on[OF assms(1)]]])
qed

text \<open>The model's own instance: strings compared by code units.\<close>

interpretation node_order: signed_comparator
  "compare_nodes compare_units compare_units (total_parse parse) key direction" for parse key direction
  by (rule signed_compare_nodes) (rule unit_order.signed_comparator_axioms)+

definition dates_readable :: "(jstr \<Rightarrow> int option) \<Rightarrow> NodeRecord list \<Rightarrow> bool" where
  "dates_readable parse nodes \<longleftrightarrow> list_all (\<lambda>n. checked_time parse n \<noteq> None) nodes"

lemma compare_nodes_total:
  assumes "key = ByChecked \<longrightarrow> checked_time parse l \<noteq> None \<and> checked_time parse r \<noteq> None"
  shows "compare_nodes zh lc parse key direction l r = compare_nodes zh lc (total_parse parse) key direction l r"
proof (cases "key = ByChecked")
  case True
  then have "checked_time parse n = checked_time (total_parse parse) n" if "n \<in> {l, r}" for n
    using assms that by (auto simp: checked_time_def total_parse_def split: option.splits)
  then have "checked_time parse l = checked_time (total_parse parse) l"
    "checked_time parse r = checked_time (total_parse parse) r" by blast+
  then show ?thesis by (simp only: compare_nodes_def)
qed (cases key; simp add: compare_nodes_def)

lemma sortNodes_total:
  "key = ByChecked \<longrightarrow> dates_readable parse nodes \<Longrightarrow>
     sortNodes zh lc parse nodes key direction = sortNodes zh lc (total_parse parse) nodes key direction"
  unfolding sortNodes_def
  by (rule sort_cmp_cong) (rule compare_nodes_total, auto simp: dates_readable_def list_all_iff)


definition blank_node :: NodeRecord where
  "blank_node = \<lparr>nd_id = js ''n'', nd_fingerprint = [], nd_display_name = js ''n'', nd_protocol = js ''ss'',
     nd_lifecycle_state = Healthy, nd_first_seen_at = [], nd_last_seen_at = [], nd_retired_at = None,
     nd_last_checked_at = None, nd_last_latency_ms = None, nd_last_error_code = None,
     nd_last_error_message = None, nd_consecutive_probe_failures = 0, nd_version = 1, nd_source_count = 1,
     nd_sources = [], nd_health_checks = []\<rparr>"


lemma sorted_gap:
  assumes "sorted_wrt (\<lambda>l r. compare_nodes zh lc parse ByLatency direction l r \<le> 0) ns" "i < j" "j < length ns"
    and "nd_last_latency_ms (ns ! i) = None"
  shows "nd_last_latency_ms (ns ! j) = None"
proof (rule ccontr)
  assume "nd_last_latency_ms (ns ! j) \<noteq> None"
  then have "compare_nodes zh lc parse ByLatency direction (ns ! i) (ns ! j) = 1"
    using assms(4) by (auto simp: compare_nodes_def Let_def)
  with sorted_wrt_nth_less[OF assms(1-3)] show False by simp
qed

text \<open>
  Sorted by latency, in either direction, the nodes without a measurement come after all
  measured ones.
\<close>

theorem unmeasured_last:
  assumes "signed_comparator zh" "signed_comparator lc" "i < j" "j < length nodes"
    and "nd_last_latency_ms (sortNodes zh lc parse nodes ByLatency direction ! i) = None"
  shows "nd_last_latency_ms (sortNodes zh lc parse nodes ByLatency direction ! j) = None"
proof -
  let ?c = "compare_nodes zh lc (total_parse parse) ByLatency direction"
  have s: "sortNodes zh lc parse nodes ByLatency direction = sort_cmp ?c nodes"
    using sortNodes_total[of ByLatency parse nodes] by (simp add: sortNodes_def)
  have "sorted_wrt (\<lambda>l r. ?c l r \<le> 0) (sort_cmp ?c nodes)"
    by (rule comparator.sorted_sort)
      (rule signed_is_comparator[OF signed_compare_nodes[OF assms(1,2)]])
  from sorted_gap[OF this assms(3)] assms(4,5) show ?thesis by (simp add: s)
qed

theorem unmeasured_last_witness:
  "nd_last_latency_ms (sortNodes compare_units compare_units (\<lambda>_. None)
     [blank_node, blank_node, blank_node\<lparr>nd_last_latency_ms := Some 7\<rparr>] ByLatency Desc ! 2) = None"
  by (rule unmeasured_last[OF unit_order.signed_comparator_axioms unit_order.signed_comparator_axioms, of 1])
    (simp_all add: sortNodes_def compare_nodes_def blank_node_def Let_def)

section \<open>Tests and groups\<close>

lemma merge_keeps: "nd_sources previous \<noteq> [] \<Longrightarrow> nd_sources (mergeCheckedNode previous checked) \<noteq> []"
  by (simp add: mergeCheckedNode_def Let_def)

lemma clear_id [simp]: "nd_id (clearDisplayedQuality n) = nd_id n"
  by (simp add: clearDisplayedQuality_def)

lemma map_from_keys: "map_from (map (\<lambda>i. (i, True)) ids) i = (if i \<in> set ids then Some True else None)"
proof (cases "i \<in> set ids")
  case True
  then have "(i, True) \<in> set (rev (map (\<lambda>i. (i, True)) ids))" by simp
  then obtain b where "map_of (rev (map (\<lambda>i. (i, True)) ids)) i = Some b" by (meson weak_map_of_SomeI)
  moreover from this have "(i, b) \<in> set (rev (map (\<lambda>i. (i, True)) ids))" by (rule map_of_SomeD)
  ultimately show ?thesis using True by (auto simp: map_from_def)
qed (auto simp: map_from_def map_of_eq_None_iff)

text \<open>
  a batch test asks for exactly the nodes that are neither disabled nor retired, marks exactly
  those as being checked, and resets their displayed quality without touching the others.
\<close>

theorem batch_selection:
  assumes "checkVisibleNodes p = (q, Some ids)"
  shows "ids = map nd_id (filter testable (np_items p)) \<and>
    np_checking q = (\<lambda>i. if i \<in> set ids then Some True else None) \<and>
    map nd_id (np_items q) = map nd_id (np_items p) \<and>
    (\<forall>k < length (np_items p). nd_id (np_items p ! k) \<notin> set ids \<longrightarrow> np_items q ! k = np_items p ! k) \<and>
    np_progress q = Some (0, int (length ids))"
proof -
  have ids: "ids = map nd_id (filter testable (np_items p))" and
    q: "q = p\<lparr>np_controller := Some False, np_progress := Some (0, int (length ids)),
      np_checking := map_from (map (\<lambda>i. (i, True)) ids),
      np_items := map (\<lambda>n. if nd_id n \<in> set ids then clearDisplayedQuality n else n) (np_items p)\<rparr>"
    using assms by (auto simp: checkVisibleNodes_def Let_def split: if_splits)
  have "np_checking q = (\<lambda>i. if i \<in> set ids then Some True else None)"
    unfolding q by (simp add: fun_eq_iff map_from_keys)
  moreover have "map nd_id (np_items q) = map nd_id (np_items p)" unfolding q by simp
  moreover have "\<forall>k < length (np_items p). nd_id (np_items p ! k) \<notin> set ids \<longrightarrow> np_items q ! k = np_items p ! k"
    unfolding q by simp
  moreover have "np_progress q = Some (0, int (length ids))" unfolding q by simp
  ultimately show ?thesis using ids by (intro conjI)
qed

theorem batch_selection_witness:
  "snd (checkVisibleNodes (initial_nodes\<lparr>np_items := [blank_node, blank_node\<lparr>nd_id := js ''m'', nd_lifecycle_state := Disabled\<rparr>]\<rparr>))
     = Some [js ''n'']"
proof -
  let ?p = "initial_nodes\<lparr>np_items := [blank_node, blank_node\<lparr>nd_id := js ''m'', nd_lifecycle_state := Disabled\<rparr>]\<rparr>"
  obtain q ids where c: "checkVisibleNodes ?p = (q, Some ids)"
    by (simp add: checkVisibleNodes_def testable_def blank_node_def)
  from batch_selection[OF c] have "ids = map nd_id (filter testable (np_items ?p))" by blast
  with c show ?thesis by (simp add: testable_def blank_node_def)
qed

text \<open>
  every listed node is shown in a group: in the group of each of its known subscriptions, and
  otherwise, and only then, among the unassigned ones.
\<close>

theorem every_node_grouped:
  assumes "\<And>ns. set (sort_group ns) = set ns" and "n \<in> set (np_items p)"
  shows "(n \<in> set (unassigned sort_group p)) \<noteq>
    (\<exists>(s, ns) \<in> set (bySubscription sort_group p). n \<in> set ns)"
proof -
  have "(\<exists>(s, ns) \<in> set (bySubscription sort_group p). n \<in> set ns) \<longleftrightarrow>
      (\<exists>s \<in> set (np_subscriptions p). \<exists>src \<in> set (nd_sources n). nsrc_subscription_id src = sub_id s)"
  proof
    assume "\<exists>(s, ns) \<in> set (bySubscription sort_group p). n \<in> set ns"
    then show "\<exists>s \<in> set (np_subscriptions p). \<exists>src \<in> set (nd_sources n). nsrc_subscription_id src = sub_id s"
      using assms(1) by (auto simp: bySubscription_def)
  next
    assume "\<exists>s \<in> set (np_subscriptions p). \<exists>src \<in> set (nd_sources n). nsrc_subscription_id src = sub_id s"
    then obtain s where s: "s \<in> set (np_subscriptions p)"
      "\<exists>src \<in> set (nd_sources n). nsrc_subscription_id src = sub_id s" by blast
    let ?ns = "sort_group (filter (\<lambda>n. \<exists>src \<in> set (nd_sources n). nsrc_subscription_id src = sub_id s) (np_items p))"
    have n: "n \<in> set ?ns" using assms s(2) by simp
    then have "?ns \<noteq> []" by (metis list.set_cases list.distinct(1))
    then have "(s, ?ns) \<in> set (bySubscription sort_group p)" using s(1) by (simp add: bySubscription_def)
    with n show "\<exists>(s, ns) \<in> set (bySubscription sort_group p). n \<in> set ns" by blast
  qed
  moreover have "n \<in> set (unassigned sort_group p) \<longleftrightarrow>
      \<not> (\<exists>s \<in> set (np_subscriptions p). \<exists>src \<in> set (nd_sources n). nsrc_subscription_id src = sub_id s)"
    using assms by (auto simp: unassigned_def Let_def list_all_iff)
  ultimately show ?thesis by blast
qed

theorem every_node_grouped_witness:
  "(blank_node \<in> set (unassigned id (initial_nodes\<lparr>np_items := [blank_node]\<rparr>))) \<noteq>
    (\<exists>(s, ns) \<in> set (bySubscription id (initial_nodes\<lparr>np_items := [blank_node]\<rparr>)). blank_node \<in> set ns)"
  by (rule every_node_grouped) simp_all

end
