(* ===== verification/Theme.thy ===== *)
theory Theme
  imports Prelude
begin

text \<open>
  Themes and colours (web/src/lib/theme.ts, web/src/components/theme-toggle.tsx) and the
  abbreviation of identifiers (web/src/lib/utils.ts). What the functions touch of the browser is one
  record: local storage, the attributes of the document, the system preference, and the values
  held by the components that listen to the two events. The text colour that goes with a brand
  colour and the subscriptions are in BrandColor.
\<close>

datatype Theme = Light | Dark | System

definition theme_name :: "Theme \<Rightarrow> jstr" where
  "theme_name t = js (case t of Light \<Rightarrow> ''light'' | Dark \<Rightarrow> ''dark'' | System \<Rightarrow> ''system'')"

record browser =
  br_storage :: "jstr \<rightharpoonup> jstr"
  br_dark :: bool
  br_data_theme :: jstr
  br_meta :: jstr
  br_brand :: jstr
  br_prefers_dark :: bool
  br_theme_listeners :: "Theme list"
  br_color_listeners :: "jstr list"

definition theme_key :: jstr where "theme_key = js ''hx-theme''"
definition themeColorKey :: jstr where "themeColorKey = js ''hx-theme-color''"
definition defaultThemeColor :: jstr where "defaultThemeColor = js ''#0f766e''"

text \<open>\<open>/^#[0-9a-f]{6}$/\<close>\<close>

definition is_color :: "jstr \<Rightarrow> bool" where
  "is_color v \<longleftrightarrow> length v = 7 \<and> hd v = 0x23 \<and> list_all (\<lambda>u. is_digit u \<or> (97 \<le> u \<and> u \<le> 102)) (tl v)"

definition normalizeColor :: "jstr \<Rightarrow> jstr option" where
  "normalizeColor color = (let v = to_lower (trim color) in if is_color v then Some v else None)"

definition savedTheme :: "browser \<Rightarrow> Theme" where
  "savedTheme b =
     (case br_storage b theme_key of
        Some v \<Rightarrow> if v = js ''light'' then Light else if v = js ''dark'' then Dark else System
      | None \<Rightarrow> System)"

definition savedThemeColor :: "browser \<Rightarrow> jstr" where
  "savedThemeColor b = or_default (normalizeColor (or_default (br_storage b themeColorKey) [])) defaultThemeColor"

definition applyThemeColor :: "jstr \<Rightarrow> browser \<Rightarrow> browser \<times> jstr" where
  "applyThemeColor color b =
     (let normalized = or_default (normalizeColor color) defaultThemeColor in (b\<lparr>br_brand := normalized\<rparr>, normalized))"

definition setThemeColor :: "jstr \<Rightarrow> browser \<Rightarrow> browser" where
  "setThemeColor color b =
     (let (b', normalized) = applyThemeColor color b;
          storage = (if normalized = defaultThemeColor then (br_storage b')(themeColorKey := None)
                     else (br_storage b')(themeColorKey \<mapsto> normalized))
      in b'\<lparr>br_storage := storage, br_color_listeners := map (\<lambda>_. normalized) (br_color_listeners b')\<rparr>)"

definition applyTheme :: "Theme \<Rightarrow> browser \<Rightarrow> browser" where
  "applyTheme theme b =
     (let dark = (theme = Dark \<or> (theme = System \<and> br_prefers_dark b));
          storage = (if theme = System then (br_storage b)(theme_key := None)
                     else (br_storage b)(theme_key \<mapsto> theme_name theme))
      in b\<lparr>br_dark := dark, br_data_theme := theme_name theme,
           br_meta := (if dark then js ''#0f1413'' else js ''#f3f7f5''), br_storage := storage\<rparr>)"

definition setTheme :: "Theme \<Rightarrow> browser \<Rightarrow> browser" where
  "setTheme theme b = (let b' = applyTheme theme b in b'\<lparr>br_theme_listeners := map (\<lambda>_. theme) (br_theme_listeners b')\<rparr>)"

text \<open>A change of the system preference, with a listener subscribed.\<close>

definition onSystemTheme :: "bool \<Rightarrow> browser \<Rightarrow> browser" where
  "onSystemTheme dark b =
     (let b' = b\<lparr>br_prefers_dark := dark\<rparr>
      in if br_theme_listeners b' \<noteq> [] \<and> savedTheme b' = System then applyTheme System b' else b')"

definition next_theme :: "Theme \<Rightarrow> Theme" where
  "next_theme theme = (if theme = System then Light else if theme = Light then Dark else System)"

text \<open>What web/src/main.tsx does before the first render.\<close>

definition boot_theme :: "browser \<Rightarrow> browser" where
  "boot_theme b = (let b' = fst (applyThemeColor (savedThemeColor b) b) in applyTheme (savedTheme b') b')"

text \<open>
  The colour field of the settings page: a draft that is no colour is set back to the colour shown
  (with a notice, the flag); a colour is set, and the draft becomes what its listener receives.
\<close>

definition hex_digit :: "nat \<Rightarrow> bool" where
  "hex_digit u \<longleftrightarrow> is_digit u \<or> (97 \<le> u \<and> u \<le> 102) \<or> (65 \<le> u \<and> u \<le> 70)"

definition commitThemeColor :: "jstr \<Rightarrow> jstr \<Rightarrow> browser \<Rightarrow> (jstr \<times> bool) \<times> browser" where
  "commitThemeColor shown_color draft b =
     (let t = trim draft in
      if \<not> (length t = 7 \<and> hd t = 0x23 \<and> list_all hex_digit (tl t)) then ((shown_color, True), b)
      else ((snd (applyThemeColor draft b), False), setThemeColor draft b))"

section \<open>The appearance tab of the settings page\<close>

text \<open>
  The choices on offer, and the tab: the theme and colour it shows and the colour being typed. Its
  listeners receive what the two functions above announce, whoever called them.
\<close>

definition themeOptions :: "Theme list" where
  "themeOptions = [Light, Dark, System]"

definition themeColorOptions :: "jstr list" where
  "themeColorOptions = map js [''#0f766e'', ''#2563eb'', ''#be123c'', ''#b45309'', ''#15803d'', ''#475569'']"

record appearance =
  ap_theme :: Theme
  ap_color :: jstr
  ap_draft :: jstr

definition initial_appearance :: "browser \<Rightarrow> appearance" where
  "initial_appearance b = \<lparr>ap_theme = savedTheme b, ap_color = savedThemeColor b, ap_draft = savedThemeColor b\<rparr>"

definition hear_theme :: "Theme \<Rightarrow> appearance \<Rightarrow> appearance" where
  "hear_theme theme a = a\<lparr>ap_theme := theme\<rparr>"

definition hear_color :: "jstr \<Rightarrow> appearance \<Rightarrow> appearance" where
  "hear_color color a = a\<lparr>ap_color := color, ap_draft := color\<rparr>"

definition changeThemeColor :: "jstr \<Rightarrow> appearance \<times> browser \<Rightarrow> appearance \<times> browser" where
  "changeThemeColor color s =
     (let (a, b) = s in (hear_color (snd (applyThemeColor color b)) a, setThemeColor color b))"

datatype appearance_event =
    ThemeChosen Theme | ThemeToggled | SystemChanged bool | ColorPicked jstr | PresetPicked nat
  | DefaultPicked | DraftTyped jstr | DraftCommitted

text \<open>The flag is the notice of a draft that is no colour. The toggle of the header shows the saved theme.\<close>

fun appearance_step :: "appearance \<times> browser \<Rightarrow> appearance_event \<Rightarrow> (appearance \<times> browser) \<times> bool" where
  "appearance_step (a, b) (ThemeChosen theme) = ((hear_theme theme a, setTheme theme b), False)"
| "appearance_step (a, b) ThemeToggled =
     (let theme = next_theme (ap_theme a) in ((hear_theme theme a, setTheme theme b), False))"
| "appearance_step (a, b) (SystemChanged dark) = ((a, onSystemTheme dark b), False)"
| "appearance_step (a, b) (ColorPicked color) = (changeThemeColor color (a, b), False)"
| "appearance_step (a, b) (PresetPicked i) =
     (if i < length themeColorOptions then (changeThemeColor (themeColorOptions ! i) (a, b), False) else ((a, b), False))"
| "appearance_step (a, b) DefaultPicked = (changeThemeColor defaultThemeColor (a, b), False)"
| "appearance_step (a, b) (DraftTyped v) = ((a\<lparr>ap_draft := v\<rparr>, b), False)"
| "appearance_step (a, b) DraftCommitted =
     (case commitThemeColor (ap_color a) (ap_draft a) b of
        ((draft, True), b') \<Rightarrow> ((a\<lparr>ap_draft := draft\<rparr>, b'), True)
      | ((draft, False), b') \<Rightarrow> ((hear_color draft a, b'), False))"

text \<open>\<open>compactId\<close>\<close>

definition compactId :: "jstr \<Rightarrow> jstr" where
  "compactId v = (if length v \<le> 20 then v else take 10 v @ [0x2026] @ slice_last 6 v)"

lemma length_compactId: "length (compactId v) \<le> 20"
  by (simp add: compactId_def)

section \<open>Facts\<close>

text \<open>The field accepts what the theme normalises.\<close>

lemma commit_accepts: "snd (fst (commitThemeColor shown_color draft b)) \<longleftrightarrow> normalizeColor draft = None"
proof -
  have "list_all hex_digit s \<longleftrightarrow> list_all (\<lambda>u. is_digit u \<or> (97 \<le> u \<and> u \<le> 102)) (map lower_unit s)" for s
    by (induction s) (auto simp: hex_digit_def is_digit_def lower_unit_def)
  moreover have "lower_unit u = 0x23 \<longleftrightarrow> u = 0x23" for u
    by (auto simp: lower_unit_def)
  ultimately have "is_color (map lower_unit t) \<longleftrightarrow> length t = 7 \<and> hd t = 0x23 \<and> list_all hex_digit (tl t)" for t
    by (cases t) (auto simp: is_color_def map_tl)
  then show ?thesis by (auto simp: commitThemeColor_def normalizeColor_def to_lower_def Let_def)
qed

lemma is_color_default [simp]: "is_color defaultThemeColor"
  by (simp add: is_color_def defaultThemeColor_def js_eval is_digit_def)

lemma is_color_normal:
  assumes "is_color v"
  shows "normalizeColor v = Some v"
proof -
  have units: "\<not> is_space u" "lower_unit u = u" if "u \<in> set v" for u
  proof -
    obtain s where v: "v = 0x23 # s" using assms by (cases v) (auto simp: is_color_def)
    have "u = 0x23 \<or> is_digit u \<or> (97 \<le> u \<and> u \<le> 102)"
      using that assms unfolding v by (auto simp: is_color_def list_all_iff)
    then show "\<not> is_space u" "lower_unit u = u" by (auto simp: is_space_def is_digit_def lower_unit_def)
  qed
  have "trim v = v" by (rule trim_no_space) (rule units)
  moreover have "to_lower v = v" using units(2) by (simp add: to_lower_def map_idI)
  ultimately show ?thesis using assms by (simp add: normalizeColor_def)
qed

lemma normalizeColor_color: "normalizeColor c = Some v \<Longrightarrow> is_color v"
  by (auto simp: normalizeColor_def Let_def split: if_splits)

lemma saved_after_apply: "savedTheme (applyTheme t b) = t"
  by (cases t) (simp_all add: savedTheme_def applyTheme_def theme_name_def Let_def)

definition consistent :: "browser \<Rightarrow> bool" where
  "consistent b \<longleftrightarrow> br_dark b = (savedTheme b = Dark \<or> (savedTheme b = System \<and> br_prefers_dark b)) \<and>
     list_all (\<lambda>t. t = savedTheme b) (br_theme_listeners b)"

lemma theme_keys_differ: "theme_key \<noteq> themeColorKey"
  by (simp add: theme_key_def themeColorKey_def)

lemma consistent_set: "consistent (setTheme t b)"
  using saved_after_apply[of t b]
  by (simp add: consistent_def setTheme_def Let_def savedTheme_def list_all_iff) (simp add: applyTheme_def Let_def)

lemma consistent_system:
  "consistent b \<Longrightarrow> br_theme_listeners b \<noteq> [] \<Longrightarrow> consistent (onSystemTheme d b)"
  using saved_after_apply[of System "b\<lparr>br_prefers_dark := d\<rparr>"]
  by (auto simp: consistent_def onSystemTheme_def Let_def savedTheme_def)
    (auto simp: applyTheme_def Let_def savedTheme_def)

lemma consistent_color: "consistent b \<Longrightarrow> consistent (setThemeColor c b)"
  using theme_keys_differ
  by (auto simp: consistent_def setThemeColor_def applyThemeColor_def savedTheme_def Let_def)

lemma theme_roundtrip_facts:
  "savedThemeColor (setThemeColor c b) = or_default (normalizeColor c) defaultThemeColor"
  "savedTheme (setThemeColor c b) = savedTheme b"
proof -
  have color: "is_color (or_default (normalizeColor c) defaultThemeColor)"
    using normalizeColor_color by (cases "normalizeColor c") auto
  show "savedThemeColor (setThemeColor c b) = or_default (normalizeColor c) defaultThemeColor"
    using is_color_normal[OF color]
    by (simp add: savedThemeColor_def setThemeColor_def applyThemeColor_def Let_def)
      (simp add: normalizeColor_def is_color_def trim_def trim_start_def trim_end_def to_lower_def)
  show "savedTheme (setThemeColor c b) = savedTheme b"
    using theme_keys_differ by (simp add: savedTheme_def setThemeColor_def applyThemeColor_def Let_def)
qed

text \<open>
  Themes and colours are saved as they are shown. Whatever the browser held, the theme read
  back after a change is the chosen one, the page is dark as that theme says, and every listening
  component shows it; the colour read back is the one that was set when it is a colour (trimmed, in
  lower case) and the default otherwise, and it is the brand colour of the document. A reload keeps both.
\<close>

theorem theme_roundtrip:
  "savedTheme (setTheme t b) = t \<and>
   br_dark (setTheme t b) = (t = Dark \<or> (t = System \<and> br_prefers_dark b)) \<and>
   set (br_theme_listeners (setTheme t b)) \<subseteq> {t} \<and>
   savedThemeColor (setThemeColor c b) = or_default (normalizeColor c) defaultThemeColor \<and>
   br_brand (setThemeColor c b) = savedThemeColor (setThemeColor c b) \<and>
   savedTheme (setThemeColor c b) = savedTheme b \<and>
   br_brand (boot_theme b) = savedThemeColor b \<and>
   br_data_theme (boot_theme b) = theme_name (savedTheme b)"
proof -
  have theme: "savedTheme (setTheme t b) = t"
    using saved_after_apply[of t b] by (simp add: setTheme_def Let_def savedTheme_def)
  note theme_roundtrip_facts[of c b]
  moreover have "br_brand (setThemeColor c b) = or_default (normalizeColor c) defaultThemeColor"
    by (simp add: setThemeColor_def applyThemeColor_def Let_def)
  moreover have "normalizeColor (savedThemeColor b) = Some (savedThemeColor b)"
    by (rule is_color_normal)
      (cases "normalizeColor (or_default (br_storage b themeColorKey) [])", auto simp: savedThemeColor_def normalizeColor_color)
  then have "br_brand (boot_theme b) = savedThemeColor b"
    by (simp add: boot_theme_def applyThemeColor_def applyTheme_def Let_def)
  moreover have "br_data_theme (boot_theme b) = theme_name (savedTheme b)"
    by (simp add: boot_theme_def applyThemeColor_def applyTheme_def savedTheme_def Let_def)
  ultimately show ?thesis using theme
    by (auto simp: setTheme_def applyTheme_def Let_def)
qed

text \<open>Every colour on offer is a colour, the default among them; whatever is clicked, the tab shows what is saved.\<close>

lemma presets_are_colors: "list_all is_color themeColorOptions \<and> defaultThemeColor \<in> set themeColorOptions"
  by (simp add: themeColorOptions_def is_color_def js_eval is_digit_def defaultThemeColor_def)

definition shows_saved :: "appearance \<times> browser \<Rightarrow> bool" where
  "shows_saved s \<longleftrightarrow> ap_theme (fst s) = savedTheme (snd s) \<and> ap_color (fst s) = savedThemeColor (snd s)"

lemma shows_saved_color:
  "shows_saved (a, b) \<Longrightarrow> shows_saved (hear_color (snd (applyThemeColor c b)) a, setThemeColor c b)"
  using theme_roundtrip_facts[of c b] by (simp add: shows_saved_def hear_color_def applyThemeColor_def Let_def)

lemma shows_saved_step: "shows_saved s \<Longrightarrow> shows_saved (fst (appearance_step s e))"
proof (cases s)
  case (Pair a b)
  assume "shows_saved s"
  with Pair have ok: "shows_saved (a, b)" by simp
  have themes: "shows_saved (hear_theme t a, setTheme t b)" for t
    using ok saved_after_apply[of t b] theme_keys_differ
    by (cases t) (simp_all add: shows_saved_def hear_theme_def setTheme_def applyTheme_def savedTheme_def
        savedThemeColor_def theme_name_def Let_def)
  have system: "shows_saved (a, onSystemTheme d b)" for d
    using ok theme_keys_differ
    by (simp add: shows_saved_def onSystemTheme_def applyTheme_def savedTheme_def savedThemeColor_def Let_def)
  show ?thesis
    using ok shows_saved_color[OF ok] themes system
    by (cases e)
      (auto simp: Pair changeThemeColor_def commitThemeColor_def Let_def shows_saved_def split: bool.split)
qed

lemma appearance_agrees:
  "shows_saved (foldl (\<lambda>s e. fst (appearance_step s e)) (initial_appearance b, b) events)"
proof (induction events rule: rev_induct)
  case Nil
  show ?case by (simp add: shows_saved_def initial_appearance_def)
next
  case (snoc e es)
  then show ?case by (simp add: shows_saved_step)
qed

end
