(* ===== verification/NodesView.thy ===== *)
theory NodesView
  imports Nodes Format Theme
begin

text \<open>
  The nodes page at work (web/src/pages/nodes-page.tsx): the filters with the timer that delays the
  load, loads whose answers come in any order, and the groups, rows and buttons that are shown; and
  the two views of web/src/pages/inventory-page.tsx. Localized dates are left out.
\<close>

section \<open>Filters and loads\<close>

text \<open>A load carries the filter that it was sent with: search text, protocol and state.\<close>

type_synonym node_filter = "jstr \<times> jstr \<times> jstr"

text \<open>\<open>nr_shown\<close> is the filter of the load whose answer is shown; it is no state of the page.\<close>

record nodes_run =
  nr_page :: nodes_page
  nr_timer :: bool
  nr_loads :: "node_filter list"
  nr_shown :: "node_filter option"

type_synonym nodes_answer = "(wire_node list \<times> Subscription list option \<times> TrafficSummary list option) option"

datatype nodes_event =
    SearchTyped jstr | ProtocolChosen jstr | StateChosen jstr | SortChosen SortKey | DirectionToggled
  | GroupToggled jstr | LoadDue | RefreshPressed | LoadAnswered nat nodes_answer
  | SettingsAnswered "NodeQualitySettings option"

definition filter_of :: "nodes_page \<Rightarrow> node_filter" where
  "filter_of p = (np_search p, np_protocol p, np_state p)"

definition on_page :: "(nodes_page \<Rightarrow> nodes_page) \<Rightarrow> nodes_run \<Rightarrow> nodes_run" where
  "on_page f r = r\<lparr>nr_page := f (nr_page r)\<rparr>"

text \<open>A changed filter makes a new \<open>load\<close>, which the effect runs after 180 ms.\<close>

definition refilter :: "(nodes_page \<Rightarrow> nodes_page) \<Rightarrow> nodes_run \<Rightarrow> nodes_run" where
  "refilter f r =
     (if filter_of (f (nr_page r)) = filter_of (nr_page r) then r else (on_page f r)\<lparr>nr_timer := True\<rparr>)"

definition send_load :: "nodes_run \<Rightarrow> nodes_run" where
  "send_load r = (on_page load_started r)\<lparr>nr_loads := nr_loads r @ [filter_of (nr_page r)]\<rparr>"

definition answer_load :: "node_filter \<Rightarrow> nodes_answer \<Rightarrow> nodes_run \<Rightarrow> nodes_run" where
  "answer_load asked answer r =
     (case answer of
        None \<Rightarrow> on_page Nodes.load_failed r
      | Some (nodes, subs, summaries) \<Rightarrow> (on_page (load_done nodes subs summaries) r)\<lparr>nr_shown := Some asked\<rparr>)"

fun nodes_step :: "nodes_run \<Rightarrow> nodes_event \<Rightarrow> nodes_run" where
  "nodes_step r (SearchTyped v) = refilter (\<lambda>p. p\<lparr>np_search := v\<rparr>) r"
| "nodes_step r (ProtocolChosen v) = refilter (\<lambda>p. p\<lparr>np_protocol := v\<rparr>) r"
| "nodes_step r (StateChosen v) = refilter (\<lambda>p. p\<lparr>np_state := v\<rparr>) r"
| "nodes_step r (SortChosen k) = on_page (\<lambda>p. p\<lparr>np_sort_key := k\<rparr>) r"
| "nodes_step r DirectionToggled =
     on_page (\<lambda>p. p\<lparr>np_sort_direction := (if np_sort_direction p = Asc then Desc else Asc)\<rparr>) r"
| "nodes_step r (GroupToggled i) = on_page (toggle_expanded i) r"
| "nodes_step r LoadDue = (if nr_timer r then send_load (r\<lparr>nr_timer := False\<rparr>) else r)"
| "nodes_step r RefreshPressed = (if np_loading (nr_page r) then r else send_load r)"
| "nodes_step r (LoadAnswered n answer) =
     (if n < length (nr_loads r)
      then answer_load (nr_loads r ! n) answer (r\<lparr>nr_loads := take n (nr_loads r) @ drop (Suc n) (nr_loads r)\<rparr>)
      else r)"
| "nodes_step r (SettingsAnswered s) = on_page (\<lambda>p. p\<lparr>np_settings := s\<rparr>) r"

definition initial_run :: nodes_run where
  "initial_run = \<lparr>nr_page = initial_nodes, nr_timer = True, nr_loads = [], nr_shown = None\<rparr>"

section \<open>What is shown\<close>

record node_row =
  nrow_name :: jstr
  nrow_ids :: "jstr \<times> jstr"
  nrow_state :: LifecycleState
  nrow_error :: "error_label option"
  nrow_checks :: "(jstr \<times> bool \<times> int option) list"
  nrow_latency :: "int option"
  nrow_traffic :: jstr
  nrow_failures :: int
  nrow_failing :: bool
  nrow_test :: bool
  nrow_toggle :: "bool \<times> bool"

text \<open>
  The test button is on unless the node is being tested or cannot be used; the other button enables
  a disabled node or disables it, and is off for a retired one.
\<close>

definition node_row_of :: "nodes_page \<Rightarrow> NodeRecord \<Rightarrow> node_row" where
  "node_row_of p node =
     (let total = map_of (np_traffic p) (nd_id node);
          disabled = (nd_lifecycle_state node = Disabled); retired = (nd_lifecycle_state node = Retired) in
      \<lparr>nrow_name = nd_display_name node, nrow_ids = (compactId (nd_id node), compactId (nd_fingerprint node)),
       nrow_state = nd_lifecycle_state node,
       nrow_error = map_option (\<lambda>code. errorCodeLabel (Some code)) (Option.bind (nd_last_error_code node) nonempty),
       nrow_checks = map (\<lambda>c. (nhc_target_name c, nhc_success c, nhc_latency_ms c)) (nd_health_checks node),
       nrow_latency = nd_last_latency_ms node,
       nrow_traffic = formatBytes (Fin (of_int (case total of Some t \<Rightarrow> ts_download_bytes t + ts_upload_bytes t | None \<Rightarrow> 0))),
       nrow_failures = nd_consecutive_probe_failures node, nrow_failing = (0 < nd_consecutive_probe_failures node),
       nrow_test = (np_checking p (nd_id node) \<noteq> Some True \<and> \<not> disabled \<and> \<not> retired),
       nrow_toggle = (disabled, \<not> retired)\<rparr>)"

record node_group =
  ng_name :: "jstr option"
  ng_count :: nat
  ng_healthy :: nat
  ng_open :: bool
  ng_rows :: "node_row list"

definition node_group_of :: "nodes_page \<Rightarrow> jstr option \<Rightarrow> jstr \<Rightarrow> NodeRecord list \<Rightarrow> node_group" where
  "node_group_of p name key nodes =
     \<lparr>ng_name = name, ng_count = length nodes,
      ng_healthy = length (filter (\<lambda>n. nd_lifecycle_state n = Healthy) nodes),
      ng_open = (key \<in> set (np_expanded p)),
      ng_rows = (if key \<in> set (np_expanded p) then map (node_row_of p) nodes else [])\<rparr>"

text \<open>The groups of the subscriptions and, if it is not empty, the one of the other nodes.\<close>

datatype inventory_list = ListLoading | ListEmpty | ListGroups "node_group list"

definition inventory_list_of :: "(NodeRecord list \<Rightarrow> NodeRecord list) \<Rightarrow> nodes_page \<Rightarrow> inventory_list" where
  "inventory_list_of sort_group p =
     (if np_loading p then ListLoading
      else if np_items p = [] then ListEmpty
      else ListGroups
        (map (\<lambda>(s, nodes). node_group_of p (Some (sub_name s)) (sub_id s) nodes) (bySubscription sort_group p) @
         (if unassigned sort_group p \<noteq> []
          then [node_group_of p None (js ''unassigned'') (unassigned sort_group p)] else [])))"

text \<open>The batch button stops a running batch or starts one; it is off while the list loads or is empty.\<close>

definition batch_button :: "nodes_page \<Rightarrow> (int \<times> int) option \<times> bool" where
  "batch_button p = (np_progress p, \<not> (np_loading p \<or> np_items p = []))"

text \<open>The inventory page mounts one of its two views; a hidden view is unmounted and loses its state.\<close>

datatype inventory_view = ViewSubscriptions | ViewNodes

definition show_view :: "inventory_view \<Rightarrow> inventory_view \<times> nodes_run option \<Rightarrow> inventory_view \<times> nodes_run option" where
  "show_view new st =
     (if new = fst st then st else (new, if new = ViewNodes then Some initial_run else None))"

section \<open>Facts\<close>

text \<open>Only nodes that can be tested have a button that tests them.\<close>

lemma test_button_testable: "nrow_test (node_row_of p node) \<Longrightarrow> testable node"
  by (simp add: node_row_of_def testable_def Let_def)

text \<open>The loading mark is never left behind: a load is due or under way.\<close>

definition load_awaited :: "nodes_run \<Rightarrow> bool" where
  "load_awaited r \<longleftrightarrow> (np_loading (nr_page r) \<longrightarrow> nr_timer r \<or> nr_loads r \<noteq> [])"

lemma load_done_loading [simp]: "\<not> np_loading (load_done nodes subs summaries p)"
  by (simp add: load_done_def Let_def)

lemma load_awaited_step: "load_awaited r \<Longrightarrow> load_awaited (nodes_step r e)"
  by (cases e) (auto simp: load_awaited_def refilter_def on_page_def send_load_def answer_load_def Nodes.load_failed_def
      toggle_expanded_def split: option.splits)

lemma load_awaited_always: "load_awaited (foldl nodes_step initial_run es)"
proof -
  have "load_awaited r \<Longrightarrow> load_awaited (foldl nodes_step r es)" for r
    by (induction es arbitrary: r) (simp_all add: load_awaited_step)
  then show ?thesis by (simp add: load_awaited_def initial_run_def)
qed

text \<open>
  The filter shown is the present one once nothing is due or under way, provided that loads succeed
  and are answered in the order they were sent.
\<close>

definition in_order :: "nodes_event \<Rightarrow> bool" where
  "in_order e \<longleftrightarrow> (case e of LoadAnswered n answer \<Rightarrow> n = 0 \<and> answer \<noteq> None | _ \<Rightarrow> True)"

definition last_asked :: "nodes_run \<Rightarrow> node_filter option" where
  "last_asked r = (if nr_loads r = [] then nr_shown r else Some (last (nr_loads r)))"

definition filter_current :: "nodes_run \<Rightarrow> bool" where
  "filter_current r \<longleftrightarrow> (nr_timer r \<or> last_asked r = Some (filter_of (nr_page r)))"

lemma filter_of_load_done [simp]: "filter_of (load_done nodes subs summaries p) = filter_of p"
  by (simp add: load_done_def filter_of_def Let_def split: option.splits)

lemma filter_current_step:
  assumes "filter_current r" "in_order e"
  shows "filter_current (nodes_step r e)"
proof (cases e)
  case (LoadAnswered n answer)
  then obtain found subs summaries where "n = 0" "answer = Some (found, subs, summaries)"
    using assms(2) by (cases answer) (auto simp: in_order_def)
  with LoadAnswered assms(1) show ?thesis
    by (cases "nr_loads r") (auto simp: filter_current_def last_asked_def answer_load_def on_page_def)
qed (use assms(1) in \<open>auto simp: filter_current_def last_asked_def refilter_def on_page_def send_load_def
    load_started_def toggle_expanded_def filter_of_def\<close>)

lemma settled_shows_filter:
  assumes "list_all in_order es" "\<not> nr_timer (foldl nodes_step initial_run es)" "nr_loads (foldl nodes_step initial_run es) = []"
  shows "nr_shown (foldl nodes_step initial_run es) = Some (filter_of (nr_page (foldl nodes_step initial_run es)))"
proof -
  have "filter_current r \<Longrightarrow> filter_current (foldl nodes_step r es)" for r
    using assms(1) by (induction es arbitrary: r) (simp_all add: filter_current_step)
  from this[of initial_run] assms(2, 3) show ?thesis
    by (simp add: filter_current_def last_asked_def initial_run_def)
qed

text \<open>Out of order, the list of an earlier filter replaces the one of the present filter.\<close>

lemma stale_filter_shown:
  assumes "v \<noteq> []"
  shows "let r = foldl nodes_step initial_run
      [LoadDue, SearchTyped v, LoadDue, LoadAnswered 1 (Some (new, s, t)), LoadAnswered 0 (Some (old, s, t))]
    in np_items (nr_page r) = map normalizeNode old \<and> nr_shown r = Some ([], [], []) \<and>
       np_search (nr_page r) = v \<and> \<not> np_loading (nr_page r) \<and> nr_loads r = []"
  using assms
  by (simp add: initial_run_def initial_nodes_def refilter_def on_page_def send_load_def answer_load_def filter_of_def
      load_started_def load_done_def Let_def split: option.splits)

text \<open>Collapsing every group does not last: the next load opens them all.\<close>

lemma collapse_all_undone:
  assumes "np_expanded p = []"
  shows "np_expanded (load_done nodes (Some subs) summaries p) = unique (map sub_id subs)"
  using assms by (simp add: load_done_def Let_def split: option.splits)

end
