(* ===== verification/Routing.thy ===== *)
theory Routing
  imports ApiCalls
begin

text \<open>
  The proxy services page (web/src/pages/routing-page.tsx): which nodes a service uses, the
  per-group routing of rule sets (the older form, an action with the groups it applies to, is
  expanded to explicit routes when it is saved), removing a service, and the form that creates
  one. \<open>localeCompare\<close> and \<open>toLowerCase\<close> are arguments where names are compared.
\<close>

section \<open>Which nodes a service uses\<close>

text \<open>The aliases of a region; the non-ASCII ones are the Chinese names of countries and cities.\<close>

definition region_aliases :: "(string \<times> jstr list) list" where
  "region_aliases =
     [(''jp'', [js ''jp'', js ''japan'', [0x65E5, 0x672C], [0x4E1C, 0x4EAC], [0x5927, 0x962A], js ''tokyo'', js ''osaka'']),
      (''hk'', [js ''hk'', [0x9999, 0x6E2F], js ''hong kong'']),
      (''tw'', [js ''tw'', [0x53F0, 0x6E7E], [0x53F0, 0x7063], js ''taipei'']),
      (''sg'', [js ''sg'', [0x65B0, 0x52A0, 0x5761], js ''singapore'']),
      (''us'', [js ''us'', [0x7F8E, 0x56FD], js ''usa'', js ''los angeles'']),
      (''kr'', [js ''kr'', [0x97E9, 0x56FD], js ''korea'', js ''seoul''])]"

definition matchesRegion :: "(jstr \<Rightarrow> jstr) \<Rightarrow> jstr \<Rightarrow> jstr \<Rightarrow> bool" where
  "matchesRegion lower name region =
     (let aliases = or_default (map_of (map (\<lambda>(k, v). (js k, v)) region_aliases) region) [region]
      in \<exists>a \<in> set aliases. str_includes (lower name) a)"

text \<open>\<open>xs?.length\<close> is truthy.\<close>

definition some_items :: "'a list option \<Rightarrow> bool" where
  "some_items xs \<longleftrightarrow> (case xs of Some (_ # _) \<Rightarrow> True | _ \<Rightarrow> False)"

definition from_subscription :: "jstr list \<Rightarrow> NodeRecord \<Rightarrow> bool" where
  "from_subscription ids node \<longleftrightarrow> (\<exists>source \<in> set (nd_sources node). nsrc_subscription_id source \<in> set ids)"

definition dynamic_member :: "(jstr \<Rightarrow> jstr) \<Rightarrow> ProxyGroupSourceSpec \<Rightarrow> NodeRecord \<Rightarrow> bool" where
  "dynamic_member lower spec node =
     (if \<not> from_subscription (or_default (spec_subscription_ids spec) []) node then False
      else if some_items (spec_protocols spec) \<and>
        lower (nd_protocol node) \<notin> set (or_default (spec_protocols spec) []) then False
      else if some_items (spec_states spec) \<and>
        nd_lifecycle_state node \<notin> set (or_default (spec_states spec) []) then False
      else if some_items (spec_name_keywords spec) \<and>
        \<not> (\<exists>k \<in> set (or_default (spec_name_keywords spec) []). str_includes (lower (nd_display_name node)) (lower k)) then False
      else if some_items (spec_regions spec) \<and>
        \<not> (\<exists>r \<in> set (or_default (spec_regions spec) []). matchesRegion lower (nd_display_name node) r) then False
      else (case spec_max_latency_ms spec of
              Some m \<Rightarrow> m = 0 \<or> (case nd_last_latency_ms node of None \<Rightarrow> False | Some l \<Rightarrow> l \<le> m)
            | None \<Rightarrow> True))"

definition max_safe_integer :: int where "max_safe_integer = 9007199254740991"

definition compare_members :: "(jstr \<Rightarrow> jstr \<Rightarrow> int) \<Rightarrow> ProxyGroupSourceSpec \<Rightarrow> NodeRecord \<Rightarrow> NodeRecord \<Rightarrow> int" where
  "compare_members lc spec left right =
     (if spec_sort_by spec = Some SortName then lc (nd_display_name left) (nd_display_name right)
      else
        (let d = or_default (nd_last_latency_ms left) max_safe_integer - or_default (nd_last_latency_ms right) max_safe_integer
         in if d \<noteq> 0 then d else lc (nd_id left) (nd_id right)))"

text \<open>\<open>xs.slice(0, n)\<close>, where a negative end counts from the back.\<close>

definition slice_to :: "int \<Rightarrow> 'a list \<Rightarrow> 'a list" where
  "slice_to n xs = (if 0 \<le> n then take (nat n) xs else take (length xs - nat (- n)) xs)"

text \<open>A node joins the result unless one with its identifier is there.\<close>

definition push_missing :: "NodeRecord list \<Rightarrow> NodeRecord \<Rightarrow> NodeRecord list" where
  "push_missing result node =
     (if \<exists>item \<in> set result. nd_id item = nd_id node then result else result @ [node])"

definition resolveServiceNodes ::
  "(jstr \<Rightarrow> jstr) \<Rightarrow> (jstr \<Rightarrow> jstr \<Rightarrow> int) \<Rightarrow> ProxyGroup option \<Rightarrow> NodeRecord list \<Rightarrow> NodeRecord list" where
  "resolveServiceNodes lower lc grp nodes =
     (case grp of
        None \<Rightarrow> []
      | Some g \<Rightarrow>
          (let spec = pg_source_spec g;
               byID = map_from (map (\<lambda>node. (nd_id node, node)) nodes);
               fixed = List.map_filter byID (spec_node_ids spec)
           in if some_items (spec_subscription_ids spec) then
                (let dynamic = sort_cmp (compare_members lc spec) (filter (dynamic_member lower spec) nodes);
                     chosen = (case spec_limit spec of
                                 Some n \<Rightarrow> if n \<noteq> 0 then slice_to n dynamic else dynamic
                               | None \<Rightarrow> dynamic)
                 in foldl push_missing
                      fixed chosen)
              else fixed))"

section \<open>Routing of rule sets per group\<close>

definition expandedRoutes :: "RoutingRuleSet \<Rightarrow> ProxyGroup list \<Rightarrow> RoutingGroupRoute list" where
  "expandedRoutes rset groups =
     (if some_items (rs_routes rset) then or_default (rs_routes rset) []
      else (case rs_action rset of
              None \<Rightarrow> []
            | Some action \<Rightarrow>
                (let ids = (if some_items (rs_applied_group_ids rset)
                            then or_default (rs_applied_group_ids rset) [] else map pg_id groups)
                 in map (\<lambda>i. \<lparr>rgr_proxy_group_id = i, rgr_action = action\<rparr>) ids)))"

text \<open>The action of a set for a group: \<open>find(...)?.action\<close>.\<close>

definition route_action :: "ProxyGroup list \<Rightarrow> jstr \<Rightarrow> RoutingRuleSet \<Rightarrow> RoutingAction option" where
  "route_action groups gid rset =
     map_option rgr_action (find (\<lambda>route. rgr_proxy_group_id route = gid) (expandedRoutes rset groups))"

definition action_value :: "RoutingAction option \<Rightarrow> jstr" where
  "action_value action =
     (case action of
        None \<Rightarrow> []
      | Some a \<Rightarrow>
          (case act_type a of
             ActProxyGroup \<Rightarrow> js ''group:'' @ or_default (act_proxy_group_id a) (js ''undefined'')
           | ActDirect \<Rightarrow> js ''direct''
           | ActReject \<Rightarrow> js ''reject''))"

definition routeValues :: "RoutingRulesConfig \<Rightarrow> jstr \<Rightarrow> ProxyGroup list \<Rightarrow> (jstr \<rightharpoonup> jstr)" where
  "routeValues config gid groups =
     map_from (map (\<lambda>rset. (rs_id rset, action_value (route_action groups gid rset))) (rrc_rule_sets config))"

definition actionFromValue :: "jstr \<Rightarrow> RoutingAction option" where
  "actionFromValue v =
     (if v = js ''direct'' then Some \<lparr>act_type = ActDirect, act_proxy_group_id = None\<rparr>
      else if v = js ''reject'' then Some \<lparr>act_type = ActReject, act_proxy_group_id = None\<rparr>
      else if prefix (js ''group:'') v
      then Some \<lparr>act_type = ActProxyGroup, act_proxy_group_id = Some (drop 6 v)\<rparr>
      else None)"

text \<open>The configuration that the panel of a group saves.\<close>

definition saved_set :: "ProxyGroup list \<Rightarrow> jstr \<Rightarrow> (jstr \<rightharpoonup> jstr) \<Rightarrow> RoutingRuleSet \<Rightarrow> RoutingRuleSet" where
  "saved_set groups gid vals rset =
     (let routes = filter (\<lambda>route. rgr_proxy_group_id route \<noteq> gid) (expandedRoutes rset groups);
          action = actionFromValue (or_default (vals (rs_id rset)) []);
          routes = (case action of
                      Some a \<Rightarrow> routes @ [\<lparr>rgr_proxy_group_id = gid, rgr_action = a\<rparr>]
                    | None \<Rightarrow> routes)
      in rset\<lparr>rs_routes := Some routes, rs_applied_group_ids := None, rs_action := None\<rparr>)"

definition saved_config :: "ProxyGroup list \<Rightarrow> jstr \<Rightarrow> (jstr \<rightharpoonup> jstr) \<Rightarrow> RoutingRulesConfig \<Rightarrow> RoutingRulesConfig" where
  "saved_config groups gid vals config =
     \<lparr>rrc_rule_sets = map (saved_set groups gid vals) (rrc_rule_sets config)\<rparr>"

definition select_value :: "jstr \<Rightarrow> jstr \<Rightarrow> (jstr \<rightharpoonup> jstr) \<Rightarrow> (jstr \<rightharpoonup> jstr)" where
  "select_value set_id v vals = vals(set_id \<mapsto> (if v = js ''none'' then [] else v))"

section \<open>The page\<close>

record routing_page =
  rt_nodes :: "NodeRecord list"
  rt_subscriptions :: "Subscription list"
  rt_groups :: "ProxyGroup list"
  rt_listeners :: "ListenerRecord list"
  rt_channels :: "ResidentialChannel list"
  rt_status :: "DataPlaneStatus option"
  rt_rules :: RoutingRulesConfig
  rt_shared :: "SharedInboundSettings option"
  rt_loading :: bool
  rt_busy :: bool
  rt_delete_target :: "(ListenerRecord \<times> ProxyGroup option) option"
  rt_expanded :: "jstr list"
  rt_editing :: "jstr option"

text \<open>The answers to the eight requests of a load.\<close>

record routing_data =
  rd_nodes :: "NodeRecord list"
  rd_subscriptions :: "Subscription list"
  rd_groups :: "ProxyGroup list"
  rd_listeners :: "ListenerRecord list"
  rd_status :: DataPlaneStatus
  rd_rules :: RoutingRulesConfig
  rd_channels :: "ResidentialChannel list"
  rd_shared :: "SharedInboundSettings option"

datatype routing_notice =
    LoadServicesFailed | Applied | ApplyFailed | ServiceRemoved | RemoveServiceFailed | PolicyApplied | PolicyFailed

definition load_page :: "routing_data option \<Rightarrow> routing_page \<Rightarrow> routing_page \<times> routing_notice list" where
  "load_page answer p =
     (case answer of
        None \<Rightarrow> (p\<lparr>rt_loading := False\<rparr>, [LoadServicesFailed])
      | Some d \<Rightarrow>
          (p\<lparr>rt_nodes := filter (\<lambda>n. nd_lifecycle_state n \<notin> {Disabled, Retired}) (rd_nodes d),
             rt_subscriptions := filter sub_enabled (rd_subscriptions d),
             rt_groups := rd_groups d,
             rt_listeners := filter (\<lambda>l. ln_shared_inbound_aggregate l \<noteq> Some True) (rd_listeners d),
             rt_channels := rd_channels d,
             rt_status := Some (rd_status d),
             rt_rules := rd_rules d,
             rt_shared := rd_shared d,
             rt_loading := False\<rparr>, []))"

definition group_of :: "routing_page \<Rightarrow> ListenerRecord \<Rightarrow> ProxyGroup option" where
  "group_of p listener = find (\<lambda>g. pg_id g = ln_proxy_group_id listener) (rt_groups p)"

definition serviceNodes ::
  "(jstr \<Rightarrow> jstr) \<Rightarrow> (jstr \<Rightarrow> jstr \<Rightarrow> int) \<Rightarrow> routing_page \<Rightarrow> (jstr \<rightharpoonup> NodeRecord list)" where
  "serviceNodes lower lc p =
     map_from (map (\<lambda>l. (ln_id l, resolveServiceNodes lower lc (group_of p l) (rt_nodes p))) (rt_listeners p))"

text \<open>Applying the data plane: the applied status, or the status read after the failure.\<close>

definition apply_done ::
  "DataPlaneStatus + DataPlaneStatus option \<Rightarrow> routing_page \<Rightarrow> routing_page \<times> routing_notice list" where
  "apply_done answer p =
     (case answer of
        Inl s \<Rightarrow> (p\<lparr>rt_status := Some s, rt_busy := False\<rparr>, [Applied])
      | Inr s \<Rightarrow> (p\<lparr>rt_status := s, rt_busy := False\<rparr>, [ApplyFailed]))"

text \<open>
  Removing a service: the requests made against \<open>post\<close> (which tells whether one succeeds), the new
  page and the notices; \<open>reload\<close> is the load that follows a success.
\<close>

definition removeService ::
  "(http_call option \<Rightarrow> bool) \<Rightarrow> (routing_page \<Rightarrow> routing_page \<times> routing_notice list) \<Rightarrow> routing_page
     \<Rightarrow> http_call option list \<times> routing_page \<times> routing_notice list" where
  "removeService post reload p =
     (case rt_delete_target p of
        None \<Rightarrow> ([], p, [])
      | Some (listener, grp) \<Rightarrow>
          (let p = p\<lparr>rt_busy := True\<rparr>;
               c1 = deleteListener (ln_id listener) (ln_version listener)
           in if \<not> post c1 then ([c1], p\<lparr>rt_busy := False\<rparr>, [RemoveServiceFailed])
              else
                (let c2 = (case grp of
                             Some g \<Rightarrow> [deleteProxyGroup (pg_id g) (pg_version g)] | None \<Rightarrow> [])
                 in if \<not> list_all post c2 then (c1 # c2, p\<lparr>rt_busy := False\<rparr>, [RemoveServiceFailed])
                    else
                      (let (p2, notices) = reload (p\<lparr>rt_delete_target := None\<rparr>)
                       in (c1 # c2, p2\<lparr>rt_busy := False\<rparr>, notices @ [ServiceRemoved])))))"

definition toggle_row :: "jstr \<Rightarrow> routing_page \<Rightarrow> routing_page" where
  "toggle_row i p = p\<lparr>rt_expanded := toggle_member i (rt_expanded p)\<rparr>"

definition edit_row :: "jstr \<Rightarrow> routing_page \<Rightarrow> routing_page" where
  "edit_row i p = p\<lparr>rt_expanded := (if i \<in> set (rt_expanded p) then rt_expanded p else rt_expanded p @ [i]),
     rt_editing := Some i\<rparr>"

definition ask_delete :: "ListenerRecord \<Rightarrow> routing_page \<Rightarrow> routing_page" where
  "ask_delete listener p = p\<lparr>rt_delete_target := Some (listener, group_of p listener)\<rparr>"

definition cancel_delete :: "routing_page \<Rightarrow> routing_page" where
  "cancel_delete p = p\<lparr>rt_delete_target := None\<rparr>"

section \<open>Endpoints\<close>

definition isPublicBindAddress :: "jstr \<Rightarrow> bool" where
  "isPublicBindAddress v \<longleftrightarrow> v \<noteq> js ''127.0.0.1'' \<and> v \<noteq> js ''::1'' \<and> v \<noteq> js ''0.0.0.0'' \<and> v \<noteq> js ''::''
     \<and> \<not> prefix (js ''127.'') v"

text \<open>Host and port of an entry; an IPv6 host (with a colon, 58) is put in brackets (91, 93).\<close>

definition endpointAddress :: "ListenerRecord \<Rightarrow> ListenerPublicEndpoint option \<Rightarrow> jstr" where
  "endpointAddress listener endpoint =
     (let configuredHost = map_option (\<lambda>e. trim (pe_host e)) endpoint;
          bindHost = trim (ln_bind_address listener);
          host = or_default (Option.bind configuredHost nonempty)
                   (if isPublicBindAddress bindHost then bindHost else [])
      in if host = [] then []
         else
           (let formattedHost = (if 58 \<in> set host \<and> \<not> prefix [91] host then [91] @ host @ [93] else host);
                port = (case endpoint of Some e \<Rightarrow> if pe_port e \<noteq> 0 then pe_port e else ln_port listener
                        | None \<Rightarrow> ln_port listener)
            in formattedHost @ [58] @ show_int port))"

definition copied_address :: "ListenerRecord \<Rightarrow> ListenerPublicEndpoint option \<Rightarrow> jstr" where
  "copied_address listener endpoint =
     (let address = endpointAddress listener endpoint
      in if address \<noteq> [] then address else ln_bind_address listener @ [58] @ show_int (ln_port listener))"

text \<open>What the action menu of a row does with a chosen entry.\<close>

datatype row_action =
    CopyResidentialClash | CopyResidentialControl | CopyAddress | CopyAuthUri | EditService
  | DeleteService | CopyShareLink jstr jstr | NoAction

definition runAction :: "bool \<Rightarrow> jstr \<Rightarrow> row_action" where
  "runAction residential v =
     (if v = js ''residential-clash'' then CopyResidentialClash
      else if v = js ''residential-control'' then CopyResidentialControl
      else if v = js ''address'' then CopyAddress
      else if v = js ''auth-uri'' then CopyAuthUri
      else if v = js ''edit'' then EditService
      else if v = js ''delete'' then DeleteService
      else if \<not> residential then
        (case split_on 58 v of
           [format] \<Rightarrow> CopyShareLink format format
         | format # client # _ \<Rightarrow> CopyShareLink format client
         | [] \<Rightarrow> NoAction)
      else NoAction)"

section \<open>Creating a service\<close>

datatype source_mode = FromServer | ByRule | FixedNodes

record create_form =
  cf_name :: jstr
  cf_strategy :: ProxyGroupStrategy
  cf_mode :: source_mode
  cf_subscriptions :: "jstr list"
  cf_nodes :: "jstr list"
  cf_regions :: "jstr list"
  cf_limit :: int
  cf_max_latency :: int
  cf_kind :: ListenerKind
  cf_bind_address :: jstr
  cf_port :: int
  cf_auth_enabled :: bool
  cf_username :: jstr
  cf_password :: jstr
  cf_public_host :: jstr
  cf_public_port :: jstr
  cf_public_tls :: bool
  cf_ws_path :: jstr
  cf_submitting :: bool

text \<open>The password starts as a random UUID.\<close>

definition initial_form :: "jstr \<Rightarrow> create_form" where
  "initial_form uuid = \<lparr>cf_name = [], cf_strategy = Manual, cf_mode = FromServer, cf_subscriptions = [],
     cf_nodes = [], cf_regions = [js ''jp''], cf_limit = 5, cf_max_latency = 2000, cf_kind = KMixed,
     cf_bind_address = js ''0.0.0.0'', cf_port = 7890, cf_auth_enabled = True,
     cf_username = js ''hx-user'', cf_password = uuid, cf_public_host = [], cf_public_port = [],
     cf_public_tls = False, cf_ws_path = js ''/__hx-proxy__/hx-proxy'', cf_submitting = False\<rparr>"

definition is_advanced :: "ListenerKind \<Rightarrow> bool" where
  "is_advanced k \<longleftrightarrow> k = KVless \<or> k = KVmess \<or> k = KTrojan"

definition loopback_names :: "jstr list" where
  "loopback_names = [js ''127.0.0.1'', js ''::1'', js ''localhost'']"

definition non_loopback :: "jstr \<Rightarrow> bool" where
  "non_loopback address \<longleftrightarrow> trim address \<noteq> [] \<and> trim address \<notin> set loopback_names"

definition estimated :: "(jstr \<Rightarrow> jstr) \<Rightarrow> NodeRecord list \<Rightarrow> create_form \<Rightarrow> nat" where
  "estimated lower nodes f =
     (case cf_mode f of
        FromServer \<Rightarrow> 1
      | FixedNodes \<Rightarrow> length (cf_nodes f)
      | ByRule \<Rightarrow>
          length (slice_to (cf_limit f) (filter (\<lambda>node.
            from_subscription (cf_subscriptions f) node \<and>
            (case nd_last_latency_ms node of None \<Rightarrow> False | Some l \<Rightarrow> l \<le> cf_max_latency f) \<and>
            (cf_regions f = [] \<or> (\<exists>r \<in> set (cf_regions f). matchesRegion lower (nd_display_name node) r))) nodes)))"

definition empty_spec :: ProxyGroupSourceSpec where
  "empty_spec = \<lparr>spec_node_ids = [], spec_group_ids = None, spec_subscription_ids = None,
     spec_name_keywords = None, spec_regions = None, spec_protocols = None, spec_states = None,
     spec_max_latency_ms = None, spec_sort_by = None, spec_limit = None, spec_include_direct = False,
     spec_test_url = None, spec_interval_seconds = None\<rparr>"

text \<open>The entry of a service is named after it, with the word "entry" in Chinese.\<close>

definition entry_name :: "jstr \<Rightarrow> jstr" where
  "entry_name name = trim name @ [32, 0x5165, 0x53E3]"

text \<open>
  \<open>Number(text) || port\<close>. A port is whole here; the fraction that the unchecked number field of the edit
  form lets through is cut off.
\<close>

definition port_or :: "jstr \<Rightarrow> int \<Rightarrow> int" where
  "port_or s port = (case js_Number s of Fin v \<Rightarrow> if v \<noteq> 0 then \<lfloor>v\<rfloor> else port | _ \<Rightarrow> port)"

definition form_endpoint :: "bool \<Rightarrow> jstr \<Rightarrow> jstr \<Rightarrow> int \<Rightarrow> bool \<Rightarrow> ListenerPublicEndpoint option" where
  "form_endpoint advanced host public_port port tls =
     (if trim host \<noteq> [] then
        Some \<lparr>pe_host = trim host, pe_port = (if advanced then 443 else port_or public_port port),
              pe_tls = (advanced \<or> tls)\<rparr>
      else None)"

definition create_payload :: "create_form \<Rightarrow> CreateProxyServiceRequest" where
  "create_payload f =
     (let advanced = is_advanced (cf_kind f) in
      \<lparr>cps_name = trim (cf_name f),
       cps_strategy = cf_strategy f,
       cps_source_spec =
         (case cf_mode f of
            FromServer \<Rightarrow> empty_spec\<lparr>spec_include_direct := True\<rparr>
          | ByRule \<Rightarrow> empty_spec\<lparr>spec_subscription_ids := Some (cf_subscriptions f),
              spec_regions := Some (cf_regions f), spec_states := Some [Candidate, Healthy, Degraded],
              spec_max_latency_ms := Some (cf_max_latency f), spec_sort_by := Some SortLatency,
              spec_limit := Some (cf_limit f)\<rparr>
          | FixedNodes \<Rightarrow> empty_spec\<lparr>spec_node_ids := cf_nodes f\<rparr>),
       cps_empty_behavior = Some (if cf_mode f = FromServer then EmptyDirect else FailClosed),
       cps_listener =
         \<lparr>csl_name = entry_name (cf_name f),
          csl_kind = cf_kind f,
          csl_bind_address = trim (cf_bind_address f),
          csl_port = cf_port f,
          csl_auth = (if cf_auth_enabled f
                      then Some \<lparr>la_username = trim (cf_username f), la_password = cf_password f\<rparr> else None),
          csl_transport = (if advanced
                           then Some \<lparr>tr_type = TransportWs, tr_ws_path = Some (trim (cf_ws_path f))\<rparr> else None),
          csl_public_endpoint = form_endpoint advanced (cf_public_host f) (cf_public_port f) (cf_port f) (cf_public_tls f),
          csl_enabled = None\<rparr>\<rparr>)"

text \<open>What \<open>submit\<close> sends: nothing (with a notice) when the entry would be open without an account.\<close>

definition submit_form :: "create_form \<Rightarrow> create_form \<times> CreateProxyServiceRequest option" where
  "submit_form f =
     (if non_loopback (cf_bind_address f) \<and> \<not> cf_auth_enabled f then (f, None)
      else (f\<lparr>cf_submitting := True\<rparr>, Some (create_payload f)))"

definition submit_settled :: "bool \<Rightarrow> create_form \<Rightarrow> create_form" where
  "submit_settled created f = (if created then f\<lparr>cf_name := [], cf_submitting := False\<rparr> else f\<lparr>cf_submitting := False\<rparr>)"

definition can_submit :: "create_form \<Rightarrow> bool" where
  "can_submit f \<longleftrightarrow>
     (let validSource = (case cf_mode f of FromServer \<Rightarrow> True | ByRule \<Rightarrow> cf_subscriptions f \<noteq> []
                         | FixedNodes \<Rightarrow> cf_nodes f \<noteq> [])
      in \<not> (cf_submitting f \<or> trim (cf_name f) = [] \<or> \<not> validSource \<or>
        (non_loopback (cf_bind_address f) \<and> \<not> cf_auth_enabled f) \<or>
        (cf_auth_enabled f \<and> (trim (cf_username f) = [] \<or> cf_password f = [])) \<or>
        (is_advanced (cf_kind f) \<and> (trim (cf_public_host f) = [] \<or> \<not> prefix [slash] (cf_ws_path f)))))"

definition changeKind :: "jstr \<Rightarrow> ListenerKind \<Rightarrow> create_form \<Rightarrow> create_form" where
  "changeKind uuid new f =
     (let f1 = f\<lparr>cf_kind := new\<rparr> in
      if is_advanced new then
        f1\<lparr>cf_bind_address := js ''127.0.0.1'', cf_auth_enabled := True,
           cf_username := (if cf_username f1 = [] then js ''hx-user'' else cf_username f1),
           cf_password := (if (new = KVless \<or> new = KVmess) \<and> cf_password f1 = [] then uuid else cf_password f1)\<rparr>
      else f1)"

definition changeSourceMode :: "source_mode \<Rightarrow> create_form \<Rightarrow> create_form" where
  "changeSourceMode new f =
     (let f1 = f\<lparr>cf_mode := new\<rparr> in if new = FromServer then f1\<lparr>cf_strategy := Manual\<rparr> else f1)"

section \<open>Editing a service\<close>

text \<open>The form of web/src/components/edit-proxy-service-form.tsx.\<close>

record edit_form =
  ef_name :: jstr
  ef_mode :: source_mode
  ef_strategy :: ProxyGroupStrategy
  ef_subscriptions :: "jstr list"
  ef_nodes :: "jstr list"
  ef_limit :: int
  ef_max_latency :: int
  ef_kind :: ListenerKind
  ef_bind_address :: jstr
  ef_port :: int
  ef_enabled :: bool
  ef_public_host :: jstr
  ef_public_port :: jstr
  ef_public_tls :: bool
  ef_ws_path :: jstr
  ef_replace_auth :: bool
  ef_clear_auth :: bool
  ef_username :: jstr
  ef_password :: jstr

definition edit_initial :: "ListenerRecord \<Rightarrow> ProxyGroup \<Rightarrow> edit_form" where
  "edit_initial listener g =
     (let spec = pg_source_spec g; endpoint = ln_public_endpoint listener in
      \<lparr>ef_name = pg_name g,
       ef_mode = (if spec_include_direct spec then FromServer
                  else if some_items (spec_subscription_ids spec) then ByRule else FixedNodes),
       ef_strategy = pg_strategy g,
       ef_subscriptions = or_default (spec_subscription_ids spec) [],
       ef_nodes = spec_node_ids spec,
       ef_limit = or_default (spec_limit spec) 0,
       ef_max_latency = or_default (spec_max_latency_ms spec) 2000,
       ef_kind = ln_kind listener,
       ef_bind_address = ln_bind_address listener,
       ef_port = ln_port listener,
       ef_enabled = ln_enabled listener,
       ef_public_host = pe_host endpoint,
       ef_public_port = show_int (if pe_port endpoint \<noteq> 0 then pe_port endpoint else ln_port listener),
       ef_public_tls = pe_tls endpoint,
       ef_ws_path = or_default (tr_ws_path (ln_transport listener)) (js ''/__hx-proxy__/hx-proxy''),
       ef_replace_auth = False, ef_clear_auth = False, ef_username = [], ef_password = []\<rparr>)"

definition bound_address :: "edit_form \<Rightarrow> jstr" where
  "bound_address f = (if is_advanced (ef_kind f) then js ''127.0.0.1'' else trim (ef_bind_address f))"

definition auth_configured_after :: "ListenerRecord \<Rightarrow> edit_form \<Rightarrow> bool" where
  "auth_configured_after listener f \<longleftrightarrow> (ln_auth_configured listener \<and> \<not> ef_clear_auth f) \<or> ef_replace_auth f"

definition edit_valid :: "ListenerRecord \<Rightarrow> edit_form \<Rightarrow> bool" where
  "edit_valid listener f \<longleftrightarrow>
     trim (ef_name f) \<noteq> [] \<and> 0 < ef_port f \<and> ef_port f < 65536 \<and>
     (case ef_mode f of FromServer \<Rightarrow> True | ByRule \<Rightarrow> ef_subscriptions f \<noteq> [] | FixedNodes \<Rightarrow> ef_nodes f \<noteq> []) \<and>
     (\<not> is_advanced (ef_kind f) \<or> (trim (ef_public_host f) \<noteq> [] \<and> prefix [slash] (ef_ws_path f))) \<and>
     (\<not> ef_replace_auth f \<or> (trim (ef_username f) \<noteq> [] \<and> ef_password f \<noteq> [])) \<and>
     (\<not> (bound_address f \<noteq> [] \<and> bound_address f \<notin> set loopback_names) \<or> auth_configured_after listener f)"

definition edit_spec :: "ProxyGroup \<Rightarrow> edit_form \<Rightarrow> ProxyGroupSourceSpec" where
  "edit_spec g f =
     (case ef_mode f of
        FromServer \<Rightarrow> empty_spec\<lparr>spec_include_direct := True\<rparr>
      | ByRule \<Rightarrow> (pg_source_spec g)\<lparr>spec_node_ids := [], spec_subscription_ids := Some (ef_subscriptions f),
          spec_max_latency_ms := Some (ef_max_latency f),
          spec_limit := (if ef_limit f \<noteq> 0 then Some (ef_limit f) else None),
          spec_sort_by := Some SortLatency, spec_include_direct := False\<rparr>
      | FixedNodes \<Rightarrow> empty_spec\<lparr>spec_node_ids := ef_nodes f\<rparr>)"

definition edit_payload :: "ListenerRecord \<Rightarrow> ProxyGroup \<Rightarrow> edit_form \<Rightarrow> UpdateProxyServiceRequest" where
  "edit_payload listener g f =
     (let advanced = is_advanced (ef_kind f) in
      \<lparr>ups_group_id = pg_id g,
       ups_group_version = pg_version g,
       ups_name = trim (ef_name f),
       ups_strategy = (if ef_mode f = FromServer then Manual else ef_strategy f),
       ups_source_spec = edit_spec g f,
       ups_empty_behavior = (if ef_mode f = FromServer then EmptyDirect else FailClosed),
       ups_enabled = Some (pg_enabled g),
       ups_fallback_target_id = pg_fallback_target_id g,
       ups_listener_id = ln_id listener,
       ups_listener_version = ln_version listener,
       ups_listener =
         \<lparr>usl_name = entry_name (ef_name f),
          usl_kind = ef_kind f,
          usl_bind_address = bound_address f,
          usl_port = ef_port f,
          usl_auth = (if ef_replace_auth f
                      then Some \<lparr>la_username = trim (ef_username f), la_password = ef_password f\<rparr> else None),
          usl_clear_auth = Some (ef_clear_auth f),
          usl_transport = (if advanced
                           then Some \<lparr>tr_type = TransportWs, tr_ws_path = Some (trim (ef_ws_path f))\<rparr> else None),
          usl_public_endpoint = form_endpoint advanced (ef_public_host f) (ef_public_port f) (ef_port f) (ef_public_tls f),
          usl_enabled = Some (ef_enabled f)\<rparr>\<rparr>)"

section \<open>Saving the routes of one group\<close>

lemma find_filter_other:
  "h \<noteq> gid \<Longrightarrow> find (\<lambda>r. rgr_proxy_group_id r = h) (filter (\<lambda>r. rgr_proxy_group_id r \<noteq> gid) rs)
     = find (\<lambda>r. rgr_proxy_group_id r = h) rs"
  by (induction rs) auto

lemma find_filter_self: "find (\<lambda>r. rgr_proxy_group_id r = gid) (filter (\<lambda>r. rgr_proxy_group_id r \<noteq> gid) rs) = None"
  by (auto simp: find_None_iff)

lemma find_snoc: "find P (xs @ [x]) = (case find P xs of Some y \<Rightarrow> Some y | None \<Rightarrow> if P x then Some x else None)"
  by (induction xs) auto

lemma expanded_saved:
  "expandedRoutes (saved_set groups gid vals rset) groups =
     (let kept = filter (\<lambda>route. rgr_proxy_group_id route \<noteq> gid) (expandedRoutes rset groups) in
      case actionFromValue (or_default (vals (rs_id rset)) []) of
        Some a \<Rightarrow> kept @ [\<lparr>rgr_proxy_group_id = gid, rgr_action = a\<rparr>] | None \<Rightarrow> kept)"
  by (auto simp: saved_set_def expandedRoutes_def Let_def some_items_def split: option.split list.splits)

lemma saved_set_fields:
  "rs_rules (saved_set groups gid vals rset) = rs_rules rset" "rs_id (saved_set groups gid vals rset) = rs_id rset"
  by (simp_all add: saved_set_def Let_def)

lemma route_action_saved:
  "route_action groups h (saved_set groups gid vals rset) =
     (if h = gid then actionFromValue (or_default (vals (rs_id rset)) []) else route_action groups h rset)"
  unfolding route_action_def expanded_saved Let_def
  by (cases "actionFromValue (or_default (vals (rs_id rset)) [])"; cases "h = gid")
    (auto simp: find_snoc find_filter_self find_filter_other split: option.split)

text \<open>
  C14: saving the routing of a group gives every rule set exactly the chosen action for that group
  and changes the action of no other group, whether the set had explicit routes or the older
  action with its groups.
\<close>

theorem save_changes_only_group:
  "map (route_action groups h) (rrc_rule_sets (saved_config groups gid vals config)) =
     (if h = gid then map (\<lambda>rset. actionFromValue (or_default (vals (rs_id rset)) [])) (rrc_rule_sets config)
      else map (route_action groups h) (rrc_rule_sets config)) \<and>
   map rs_rules (rrc_rule_sets (saved_config groups gid vals config)) = map rs_rules (rrc_rule_sets config) \<and>
   map rs_id (rrc_rule_sets (saved_config groups gid vals config)) = map rs_id (rrc_rule_sets config)"
  by (auto simp: saved_config_def route_action_saved saved_set_fields)

definition proper_action :: "RoutingAction \<Rightarrow> bool" where
  "proper_action a \<longleftrightarrow> (act_type a = ActProxyGroup) = (act_proxy_group_id a \<noteq> None)"

lemma action_value_roundtrip:
  "(case a of Some b \<Rightarrow> proper_action b | None \<Rightarrow> True) \<Longrightarrow> actionFromValue (action_value a) = a"
proof (cases a)
  case (Some b)
  assume wf: "case a of Some b \<Rightarrow> proper_action b | None \<Rightarrow> True"
  show ?thesis
  proof (cases "act_type b")
    case ActProxyGroup
    then obtain i where "act_proxy_group_id b = Some i" using wf Some by (auto simp: proper_action_def)
    with ActProxyGroup Some show ?thesis
      by (cases b) (simp add: action_value_def actionFromValue_def js_eval)
  qed (use wf Some in \<open>cases b; simp add: proper_action_def action_value_def actionFromValue_def\<close>)+
qed (simp add: action_value_def actionFromValue_def js_eval)

lemma map_from_map:
  assumes "distinct (map key xs)" and "x \<in> set xs"
  shows "map_from (map (\<lambda>x. (key x, f x)) xs) (key x) = Some (f x)"
proof -
  have "map fst (map (\<lambda>x. (key x, f x)) xs) = map key xs" by simp
  then have "distinct (map fst (rev (map (\<lambda>x. (key x, f x)) xs)))"
    using assms(1) by (metis distinct_rev rev_map)
  moreover have "(key x, f x) \<in> set (rev (map (\<lambda>x. (key x, f x)) xs))" using assms(2) by simp
  ultimately show ?thesis unfolding map_from_def by (rule map_of_is_SomeI)
qed

definition proper_config :: "ProxyGroup list \<Rightarrow> jstr \<Rightarrow> RoutingRulesConfig \<Rightarrow> bool" where
  "proper_config groups gid config \<longleftrightarrow>
     distinct (map rs_id (rrc_rule_sets config)) \<and>
     list_all (\<lambda>rset. case route_action groups gid rset of Some b \<Rightarrow> proper_action b | None \<Rightarrow> True) (rrc_rule_sets config)"

text \<open>
  saving without touching a selection changes no action of any group: what the selections are
  initialised with is read back as the same actions.
\<close>

theorem save_unchanged:
  assumes "proper_config groups gid config"
  shows "map (route_action groups h) (rrc_rule_sets (saved_config groups gid (routeValues config gid groups) config))
    = map (route_action groups h) (rrc_rule_sets config)"
proof -
  have "actionFromValue (or_default (routeValues config gid groups (rs_id rset)) []) = route_action groups gid rset"
    if "rset \<in> set (rrc_rule_sets config)" for rset
  proof -
    have "routeValues config gid groups (rs_id rset) = Some (action_value (route_action groups gid rset))"
      unfolding routeValues_def using assms that by (intro map_from_map) (simp_all add: proper_config_def)
    with assms that show ?thesis
      by (simp add: action_value_roundtrip proper_config_def list_all_iff)
  qed
  then show ?thesis by (auto simp: saved_config_def route_action_saved)
qed

definition sample_set :: RoutingRuleSet where
  "sample_set = \<lparr>rs_id = js ''site-1'', rs_name = js ''a'', rs_enabled = True, rs_priority = 1, rs_routes = None,
     rs_applied_group_ids = Some [js ''g1''], rs_action = Some \<lparr>act_type = ActProxyGroup, act_proxy_group_id = Some (js ''g2'')\<rparr>,
     rs_rules = []\<rparr>"

theorem save_unchanged_witness:
  "map (route_action [] (js ''g1'')) (rrc_rule_sets (saved_config [] (js ''g1'')
     (routeValues \<lparr>rrc_rule_sets = [sample_set]\<rparr> (js ''g1'') []) \<lparr>rrc_rule_sets = [sample_set]\<rparr>))
   = [Some \<lparr>act_type = ActProxyGroup, act_proxy_group_id = Some (js ''g2'')\<rparr>]"
proof -
  have "proper_config [] (js ''g1'') \<lparr>rrc_rule_sets = [sample_set]\<rparr>"
    by (simp add: proper_config_def sample_set_def route_action_def expandedRoutes_def some_items_def proper_action_def)
  from save_unchanged[OF this, of "js ''g1''"] show ?thesis
    by (simp add: sample_set_def route_action_def expandedRoutes_def some_items_def)
qed

section \<open>The members of a service\<close>

lemma map_from_value: "map_from (map (\<lambda>x. (key x, x)) xs) k = Some x \<Longrightarrow> x \<in> set xs \<and> key x = k"
  unfolding map_from_def by (auto dest: map_of_SomeD)

lemma set_slice_to: "set (slice_to n xs) \<subseteq> set xs"
  by (simp add: slice_to_def set_take_subset)

lemma push_missing_cases: "push_missing result node = result \<or>
    push_missing result node = result @ [node] \<and> nd_id node \<notin> nd_id ` set result"
  by (auto simp: push_missing_def)

lemma foldl_new_set: "set (foldl push_missing fixed ns) \<subseteq> set fixed \<union> set ns"
proof (induction ns arbitrary: fixed)
  case (Cons n ns)
  from Cons[of "push_missing fixed n"] push_missing_cases[of fixed n] show ?case by auto
qed simp

lemma foldl_new_distinct: "distinct (map nd_id fixed) \<Longrightarrow> distinct (map nd_id (foldl push_missing fixed ns))"
proof (induction ns arbitrary: fixed)
  case (Cons n ns)
  have "distinct (map nd_id (push_missing fixed n))"
    using Cons.prems push_missing_cases[of fixed n] by auto
  then show ?case using Cons.IH by simp
qed simp

lemma foldl_new_prefix: "prefix fixed (foldl push_missing fixed ns)"
proof (induction ns arbitrary: fixed)
  case (Cons n ns)
  have "prefix fixed (push_missing fixed n)" using push_missing_cases[of fixed n] by auto
  with Cons[of "push_missing fixed n"] show ?case by (auto intro: prefix_order.trans)
qed simp

lemma foldl_new_length: "length (foldl push_missing fixed ns) \<le> length fixed + length ns"
proof (induction ns arbitrary: fixed)
  case (Cons n ns)
  have "length (push_missing fixed n) \<le> Suc (length fixed)" using push_missing_cases[of fixed n] by auto
  with Cons[of "push_missing fixed n"] show ?case by simp
qed simp

definition fixed_members :: "ProxyGroupSourceSpec \<Rightarrow> NodeRecord list \<Rightarrow> NodeRecord list" where
  "fixed_members spec nodes =
     List.map_filter (map_from (map (\<lambda>node. (nd_id node, node)) nodes)) (spec_node_ids spec)"

lemma map_filter_Cons: "List.map_filter f (x # xs) = (case f x of Some y \<Rightarrow> y # List.map_filter f xs | None \<Rightarrow> List.map_filter f xs)"
  by (simp add: List.map_filter_simps split: option.split)

lemma fixed_members_ids:
  "distinct ids \<Longrightarrow> distinct (map nd_id (List.map_filter (map_from (map (\<lambda>node. (nd_id node, node)) nodes)) ids))
     \<and> nd_id ` set (List.map_filter (map_from (map (\<lambda>node. (nd_id node, node)) nodes)) ids) \<subseteq> set ids"
proof (induction ids)
  case (Cons i ids)
  show ?case
  proof (cases "map_from (map (\<lambda>node. (nd_id node, node)) nodes) i")
    case (Some n)
    then have "nd_id n = i" by (auto dest: map_from_value)
    with Cons Some show ?thesis by (auto simp: map_filter_Cons)
  qed (use Cons in \<open>auto simp: map_filter_Cons\<close>)
qed (simp add: List.map_filter_simps)

lemma fixed_members_sound:
  "n \<in> set (fixed_members spec nodes) \<Longrightarrow> n \<in> set nodes \<and> nd_id n \<in> set (spec_node_ids spec)"
  unfolding fixed_members_def by (auto simp: List.map_filter_def dest: map_from_value)


definition sample_group :: ProxyGroup where
  "sample_group = \<lparr>pg_id = js ''g'', pg_name = js ''g'', pg_strategy = Manual,
     pg_source_spec = empty_spec\<lparr>spec_node_ids := [js ''n'', js ''m'']\<rparr>, pg_enabled = True,
     pg_empty_behavior = FailClosed, pg_fallback_target_id = None, pg_version = 1, pg_created_at = [], pg_updated_at = []\<rparr>"


section \<open>No open entry\<close>

text \<open>Where a listener may run without an account.\<close>

definition local_address :: "jstr \<Rightarrow> bool" where
  "local_address a \<longleftrightarrow> a = [] \<or> a \<in> set loopback_names"

text \<open>
  no form submission opens an entry without an account on an address that is not a loopback
  address (or blank): creating always sends an account for such an address, and a valid edit
  keeps or replaces the account there.
\<close>

theorem forms_never_open_entry:
  "(case submit_form f of
      (_, Some req) \<Rightarrow>
        (if local_address (csl_bind_address (cps_listener req)) then True
         else \<exists>account. csl_auth (cps_listener req) = Some account)
    | (_, None) \<Rightarrow> non_loopback (cf_bind_address f) \<and> \<not> cf_auth_enabled f) \<and>
   (let req = ups_listener (edit_payload listener g e) in
    if edit_valid listener e then
      if local_address (usl_bind_address req) then True
      else if usl_auth req = None then ln_auth_configured listener \<and> usl_clear_auth req = Some False
      else True
    else True)"
  by (auto simp: submit_form_def create_payload_def non_loopback_def local_address_def edit_valid_def
      edit_payload_def auth_configured_after_def Let_def)

text \<open>A WebSocket protocol listens on the loopback interface only.\<close>

lemma advanced_local: "is_advanced k \<Longrightarrow> cf_bind_address (changeKind uuid k f) = js ''127.0.0.1''"
  by (simp add: changeKind_def Let_def)

section \<open>Editing without a change\<close>

lemma edit_initial_fields:
  "ef_name (edit_initial listener g) = pg_name g"
  "ef_strategy (edit_initial listener g) = pg_strategy g"
  "ef_kind (edit_initial listener g) = ln_kind listener"
  "ef_port (edit_initial listener g) = ln_port listener"
  "ef_enabled (edit_initial listener g) = ln_enabled listener"
  "ef_nodes (edit_initial listener g) = spec_node_ids (pg_source_spec g)"
  "ef_subscriptions (edit_initial listener g) = or_default (spec_subscription_ids (pg_source_spec g)) []"
  "ef_max_latency (edit_initial listener g) = or_default (spec_max_latency_ms (pg_source_spec g)) 2000"
  "\<not> ef_replace_auth (edit_initial listener g)" "\<not> ef_clear_auth (edit_initial listener g)"
  by (simp_all add: edit_initial_def Let_def)

lemma edit_initial_by_rule:
  "ef_mode (edit_initial listener g) = ByRule \<Longrightarrow>
     Some (or_default (spec_subscription_ids (pg_source_spec g)) []) = spec_subscription_ids (pg_source_spec g)"
  by (cases "spec_subscription_ids (pg_source_spec g)")
    (simp_all add: edit_initial_def Let_def some_items_def split: if_splits)

lemma edit_payload_fields:
  "ups_group_id (edit_payload listener g f) = pg_id g"
  "ups_group_version (edit_payload listener g f) = pg_version g"
  "ups_listener_id (edit_payload listener g f) = ln_id listener"
  "ups_listener_version (edit_payload listener g f) = ln_version listener"
  "ups_name (edit_payload listener g f) = trim (ef_name f)"
  "ups_strategy (edit_payload listener g f) = (if ef_mode f = FromServer then Manual else ef_strategy f)"
  "ups_empty_behavior (edit_payload listener g f) = (if ef_mode f = FromServer then EmptyDirect else FailClosed)"
  "ups_source_spec (edit_payload listener g f) = edit_spec g f"
  "usl_kind (ups_listener (edit_payload listener g f)) = ef_kind f"
  "usl_port (ups_listener (edit_payload listener g f)) = ef_port f"
  "usl_clear_auth (ups_listener (edit_payload listener g f)) = Some (ef_clear_auth f)"
  "usl_enabled (ups_listener (edit_payload listener g f)) = Some (ef_enabled f)"
  "\<not> ef_replace_auth f \<Longrightarrow> usl_auth (ups_listener (edit_payload listener g f)) = None"
  by (simp_all add: edit_payload_def Let_def)

text \<open>
  opening the edit form and saving it unchanged keeps the identity, versions, name, strategy,
  kind, port, account and enablement, but not the empty behaviour, which becomes fail-closed for
  every group that is not the server itself; a group fed by subscriptions keeps its filters but
  gets a latency order and, if it had no latency limit, a limit of 2000 milliseconds.
\<close>

theorem edit_unchanged:
  assumes "f = edit_initial listener g" and "trim (pg_name g) = pg_name g" and "ef_mode f \<noteq> FromServer"
  shows "(let req = edit_payload listener g f; spec = ups_source_spec req in
    ups_group_id req = pg_id g \<and> ups_group_version req = pg_version g \<and>
    ups_listener_id req = ln_id listener \<and> ups_listener_version req = ln_version listener \<and>
    ups_name req = pg_name g \<and> ups_strategy req = pg_strategy g \<and>
    usl_kind (ups_listener req) = ln_kind listener \<and> usl_port (ups_listener req) = ln_port listener \<and>
    usl_auth (ups_listener req) = None \<and> usl_clear_auth (ups_listener req) = Some False \<and>
    usl_enabled (ups_listener req) = Some (ln_enabled listener) \<and>
    ups_empty_behavior req = FailClosed \<and>
    (if ef_mode f = ByRule
     then spec_regions spec = spec_regions (pg_source_spec g) \<and>
       spec_subscription_ids spec = spec_subscription_ids (pg_source_spec g) \<and>
       spec_max_latency_ms spec = Some (or_default (spec_max_latency_ms (pg_source_spec g)) 2000) \<and>
       spec_sort_by spec = Some SortLatency
     else spec_node_ids spec = spec_node_ids (pg_source_spec g)))"
proof (cases "ef_mode f")
  case ByRule
  then show ?thesis using edit_initial_by_rule[of listener g] assms
    by (simp add: Let_def edit_payload_fields edit_initial_fields edit_spec_def)
next
  case FixedNodes
  then show ?thesis using assms
    by (simp add: Let_def edit_payload_fields edit_initial_fields edit_spec_def)
qed (use assms in simp)

definition sample_listener :: ListenerRecord where
  "sample_listener = \<lparr>ln_id = js ''l'', ln_name = js ''l'', ln_kind = KMixed, ln_bind_address = js ''0.0.0.0'',
     ln_port = 7890, ln_proxy_group_id = js ''g'', ln_auth_configured = True,
     ln_transport = \<lparr>tr_type = TransportNone, tr_ws_path = None\<rparr>,
     ln_public_endpoint = \<lparr>pe_host = [], pe_port = 0, pe_tls = False\<rparr>, ln_share_path = None,
     ln_shared_inbound = None, ln_shared_inbound_aggregate = None, ln_enabled = True, ln_version = 3,
     ln_created_at = [], ln_updated_at = []\<rparr>"

theorem edit_unchanged_witness:
  "spec_node_ids (ups_source_spec (edit_payload sample_listener sample_group (edit_initial sample_listener sample_group)))
     = [js ''n'', js ''m'']"
proof -
  have "trim (pg_name sample_group) = pg_name sample_group"
    by (simp add: sample_group_def js_eval string_defs is_space_def)
  moreover have "ef_mode (edit_initial sample_listener sample_group) = FixedNodes"
    by (simp add: edit_initial_def sample_group_def empty_spec_def some_items_def Let_def)
  ultimately have "spec_node_ids (ups_source_spec (edit_payload sample_listener sample_group
      (edit_initial sample_listener sample_group))) = spec_node_ids (pg_source_spec sample_group)"
    using edit_unchanged[OF refl, of sample_group sample_listener] by (simp add: Let_def)
  then show ?thesis by (simp add: sample_group_def empty_spec_def)
qed

section \<open>Removing\<close>

text \<open>
  the group of a service is deleted only after its listener was; when that second request
  fails, the page keeps its lists and its target, so that confirming again starts with the
  deletion of the listener that is already gone and never reaches the group.
\<close>

theorem remove_stops_at_listener:
  assumes "rt_delete_target p = Some (listener, Some g)"
    and "post (deleteListener (ln_id listener) (ln_version listener))"
    and "\<not> post (deleteProxyGroup (pg_id g) (pg_version g))"
    and "\<not> post' (deleteListener (ln_id listener) (ln_version listener))"
  shows "(let (calls, q, notices) = removeService post reload p in
    calls = [deleteListener (ln_id listener) (ln_version listener), deleteProxyGroup (pg_id g) (pg_version g)] \<and>
    q = p\<lparr>rt_busy := False\<rparr> \<and> notices = [RemoveServiceFailed] \<and>
    fst (removeService post' reload q) = [deleteListener (ln_id listener) (ln_version listener)])"
  using assms by (simp add: removeService_def Let_def)

definition blank_routing :: routing_page where
  "blank_routing = \<lparr>rt_nodes = [], rt_subscriptions = [], rt_groups = [sample_group], rt_listeners = [sample_listener],
     rt_channels = [], rt_status = None, rt_rules = \<lparr>rrc_rule_sets = []\<rparr>, rt_shared = None, rt_loading = False,
     rt_busy = False, rt_delete_target = Some (sample_listener, Some sample_group), rt_expanded = [], rt_editing = None\<rparr>"

lemma sample_calls_differ:
  "deleteListener (ln_id sample_listener) 3 \<noteq> deleteProxyGroup (pg_id sample_group) 1"
  by (simp add: deleteListener_def deleteProxyGroup_def item_call_def item_path_def call_with_def
      encodeURIComponent_def sample_listener_def sample_group_def scalar_def is_lead_def is_trail_def js_eval)

theorem remove_stops_at_listener_witness:
  "snd (snd (removeService (\<lambda>c. c = deleteListener (ln_id sample_listener) 3) (\<lambda>p. (p, [])) blank_routing))
     = [RemoveServiceFailed]"
proof -
  have target: "rt_delete_target blank_routing = Some (sample_listener, Some sample_group)"
    by (simp add: blank_routing_def)
  have v: "ln_version sample_listener = 3" "pg_version sample_group = 1"
    by (simp_all add: sample_listener_def sample_group_def)
  from remove_stops_at_listener[OF target, of "\<lambda>c. c = deleteListener (ln_id sample_listener) 3" "\<lambda>_. False" "\<lambda>p. (p, [])"]
  show ?thesis using sample_calls_differ[symmetric] unfolding v by (simp add: Let_def split_def)
qed

end
