(* ===== verification/ServiceRow.thy ===== *)
theory ServiceRow
  imports Routing
begin

text \<open>
  The rows of web/src/pages/routing-page.tsx: what a row shows of its service, its copy actions, its
  tabs beside the editing mark of the page, the routing panel of a group, and the controls of the
  form that creates a service.
\<close>

section \<open>What a row shows\<close>

definition region_labels :: "(string \<times> jstr) list" where
  "region_labels =
     [(''jp'', [0x65E5, 0x672C]), (''hk'', [0x9999, 0x6E2F]), (''tw'', [0x53F0, 0x6E7E]),
      (''sg'', [0x65B0, 0x52A0, 0x5761]), (''us'', [0x7F8E, 0x56FD]), (''kr'', [0x97E9, 0x56FD])]"

definition regionLabel :: "jstr \<Rightarrow> jstr" where
  "regionLabel region =
     or_default (Option.bind (map_option snd (find (\<lambda>(v, _). js v = region) region_labels)) nonempty) region"

text \<open>The sources of a service: the server itself, subscriptions with regions and a limit, or nodes.\<close>

datatype source_text = ServerExit | SubscriptionSource nat jstr "int option" | FixedSource nat

definition positive_limit :: "int option \<Rightarrow> int option" where
  "positive_limit limit = (if limit = Some 0 then None else limit)"

definition source_text_of :: "ProxyGroupSourceSpec option \<Rightarrow> source_text" where
  "source_text_of source =
     (case source of
        None \<Rightarrow> FixedSource 0
      | Some spec \<Rightarrow>
          if spec_include_direct spec \<and> \<not> some_items (spec_subscription_ids spec) \<and> spec_node_ids spec = []
          then ServerExit
          else if some_items (spec_subscription_ids spec)
          then SubscriptionSource (length (or_default (spec_subscription_ids spec) []))
                 (join [47] (map regionLabel (or_default (spec_regions spec) []))) (positive_limit (spec_limit spec))
          else FixedSource (length (spec_node_ids spec)))"

text \<open>DIRECT counts as one member that is available.\<close>

definition direct_member :: "ProxyGroup option \<Rightarrow> nat" where
  "direct_member pgroup =
     (case pgroup of Some g \<Rightarrow> if spec_include_direct (pg_source_spec g) then 1 else 0 | None \<Rightarrow> 0)"

definition memberCount :: "ProxyGroup option \<Rightarrow> NodeRecord list \<Rightarrow> nat" where
  "memberCount pgroup nodes = length nodes + direct_member pgroup"

definition healthyCount :: "ProxyGroup option \<Rightarrow> NodeRecord list \<Rightarrow> nat" where
  "healthyCount pgroup nodes =
     length (filter (\<lambda>node. nd_lifecycle_state node = Healthy) nodes) + direct_member pgroup"

definition row_endpoint :: "ResidentialChannel option \<Rightarrow> ListenerRecord \<Rightarrow> ListenerPublicEndpoint" where
  "row_endpoint residential listener =
     (case residential of Some c \<Rightarrow> rc_public_endpoint c | None \<Rightarrow> ln_public_endpoint listener)"

definition row_name :: "ResidentialChannel option \<Rightarrow> ProxyGroup option \<Rightarrow> ListenerRecord \<Rightarrow> jstr" where
  "row_name residential pgroup listener =
     or_default (Option.bind (map_option rc_name residential) nonempty)
       (or_default (Option.bind (map_option pg_name pgroup) nonempty) (ln_name listener))"

record service_row =
  srow_name :: jstr
  srow_kind :: ListenerKind
  srow_shared :: bool
  srow_residential :: bool
  srow_all_healthy :: bool
  srow_healthy :: nat
  srow_members :: nat
  srow_account :: bool
  srow_local :: jstr
  srow_public :: "jstr option"
  srow_strategy :: "ProxyGroupStrategy option"
  srow_source :: source_text

definition service_row_of ::
  "ListenerRecord \<Rightarrow> ProxyGroup option \<Rightarrow> ResidentialChannel option \<Rightarrow> NodeRecord list \<Rightarrow> service_row" where
  "service_row_of listener pgroup residential nodes =
     (let healthy = healthyCount pgroup nodes; members = memberCount pgroup nodes in
      \<lparr>srow_name = row_name residential pgroup listener, srow_kind = ln_kind listener,
       srow_shared = (ln_shared_inbound listener \<noteq> None), srow_residential = (residential \<noteq> None),
       srow_all_healthy = (healthy = members \<and> 0 < members), srow_healthy = healthy, srow_members = members,
       srow_account = ln_auth_configured listener,
       srow_local = ln_bind_address listener @ [58] @ show_int (ln_port listener),
       srow_public = nonempty (endpointAddress listener (Some (row_endpoint residential listener))),
       srow_strategy = map_option pg_strategy pgroup,
       srow_source = source_text_of (map_option pg_source_spec pgroup)\<rparr>)"

text \<open>The row that the page shows for a listener.\<close>

definition channel_of :: "routing_page \<Rightarrow> ListenerRecord \<Rightarrow> ResidentialChannel option" where
  "channel_of p listener = find (\<lambda>c. rc_listener_id c = ln_id listener) (rt_channels p)"

definition page_rows :: "(jstr \<Rightarrow> jstr) \<Rightarrow> (jstr \<Rightarrow> jstr \<Rightarrow> int) \<Rightarrow> routing_page \<Rightarrow> service_row list" where
  "page_rows lower lc p =
     map (\<lambda>l. service_row_of l (group_of p l) (channel_of p l) (or_default (serviceNodes lower lc p (ln_id l)) []))
       (rt_listeners p)"

text \<open>A line for each member; the badge is green for a healthy one, amber for a quarantined one.\<close>

datatype member_tone = MemberGood | MemberWarned | MemberPlain

definition member_tone_of :: "LifecycleState \<Rightarrow> member_tone" where
  "member_tone_of s = (if s = Healthy then MemberGood else if s = Quarantined then MemberWarned else MemberPlain)"

definition member_lines :: "ProxyGroup option \<Rightarrow> NodeRecord list \<Rightarrow> (jstr \<times> member_tone \<times> int option \<times> jstr list) option list" where
  "member_lines pgroup nodes =
     replicate (direct_member pgroup) None @
     map (\<lambda>node. Some (nd_display_name node, member_tone_of (nd_lifecycle_state node), nd_last_latency_ms node,
       map nsrc_subscription_name (nd_sources node))) nodes"

section \<open>The band of the data plane\<close>

datatype band_tone = BandRunning | BandFailed | BandIdle
datatype band_text = BandLoading | RunningText | IdleText | UnavailableText

definition dataPlaneBand :: "DataPlaneStatus option \<Rightarrow> bool \<Rightarrow> band_tone \<times> band_text \<times> int \<times> int option \<times> jstr option" where
  "dataPlaneBand status loading =
     (let running = (case status of Some s \<Rightarrow> dps_running s | None \<Rightarrow> False) in
      (if running then BandRunning
       else if map_option dps_state status = Some PlaneFailed then BandFailed else BandIdle,
       if loading then BandLoading else if running then RunningText
       else if (case status of Some s \<Rightarrow> dps_available s | None \<Rightarrow> False) then IdleText else UnavailableText,
       (case status of Some s \<Rightarrow> dps_listener_count s | None \<Rightarrow> 0),
       Option.bind (Option.bind status dps_pid) (\<lambda>pid. if pid = 0 then None else Some pid),
       Option.bind (Option.bind status dps_version) nonempty))"

section \<open>Copying\<close>

text \<open>What is copied at once, or read from the server first; \<open>Refused\<close> is only a notice.\<close>

datatype copy_kind = ShareLink jstr | EntryAddress | ClashLink | ControlLink | ConnectionUri
datatype copy_plan = NoCopy | Refused copy_kind | Copy copy_kind jstr | FetchCopy jstr

definition share_formats :: "share_format list" where
  "share_formats = [V2rayn, Clash, SingBox, UriList]"

definition share_format_of :: "jstr \<Rightarrow> share_format option" where
  "share_format_of name = find (\<lambda>f. js (share_format_name f) = name) share_formats"

definition share_path_of :: "ListenerRecord \<Rightarrow> jstr option" where
  "share_path_of listener = Option.bind (ln_share_path listener) nonempty"

definition copyShareLink :: "window_location \<Rightarrow> ListenerRecord \<Rightarrow> jstr \<Rightarrow> jstr \<Rightarrow> copy_plan" where
  "copyShareLink loc listener format client =
     (case (share_path_of listener, share_format_of format) of
        (Some path, Some f) \<Rightarrow>
          (case listenerShareURL loc path (Some f) of Some url \<Rightarrow> Copy (ShareLink client) url | None \<Rightarrow> NoCopy)
      | _ \<Rightarrow> NoCopy)"

definition copyResidentialURL :: "bool \<Rightarrow> ResidentialChannel option \<Rightarrow> copy_plan" where
  "copyResidentialURL clash residential =
     (let kind = (if clash then ClashLink else ControlLink) in
      case Option.bind (Option.bind residential (if clash then rc_subscription_url else rc_control_url)) nonempty of
        None \<Rightarrow> Refused kind
      | Some url \<Rightarrow> Copy kind url)"

definition copyConnectionURI :: "window_location \<Rightarrow> ListenerRecord \<Rightarrow> copy_plan" where
  "copyConnectionURI loc listener =
     (case share_path_of listener of
        None \<Rightarrow> NoCopy
      | Some path \<Rightarrow> (case listenerShareContent loc path of Some url \<Rightarrow> FetchCopy url | None \<Rightarrow> NoCopy))"

definition copy_plan_of ::
  "window_location \<Rightarrow> ListenerRecord \<Rightarrow> ResidentialChannel option \<Rightarrow> row_action \<Rightarrow> copy_plan" where
  "copy_plan_of loc listener residential action =
     (case action of
        CopyResidentialClash \<Rightarrow> copyResidentialURL True residential
      | CopyResidentialControl \<Rightarrow> copyResidentialURL False residential
      | CopyAddress \<Rightarrow> Copy EntryAddress (copied_address listener (Some (row_endpoint residential listener)))
      | CopyAuthUri \<Rightarrow> copyConnectionURI loc listener
      | CopyShareLink format client \<Rightarrow> copyShareLink loc listener format client
      | _ \<Rightarrow> NoCopy)"

text \<open>The text read from the server is copied without the spaces at its end.\<close>

definition fetched_copy :: "jstr outcome \<Rightarrow> jstr + copy_plan" where
  "fetched_copy answer =
     (case answer of
        Inr content \<Rightarrow> Inr (Copy ConnectionUri (trim_end content))
      | Inl cause \<Rightarrow> Inl (case cause of ApiError m _ _ _ \<Rightarrow> m | NetworkError m \<Rightarrow> m | _ \<Rightarrow> []))"

datatype copy_notice = Copied copy_kind | CopyFailed | CopyRefused copy_kind

definition copy_notices :: "copy_plan \<Rightarrow> bool \<Rightarrow> copy_notice list" where
  "copy_notices plan written =
     (case plan of
        Copy kind _ \<Rightarrow> [if written then Copied kind else CopyFailed]
      | Refused kind \<Rightarrow> [CopyRefused kind]
      | _ \<Rightarrow> [])"

text \<open>The entries of the menu of a row.\<close>

definition menu_entries :: "ListenerRecord \<Rightarrow> bool \<Rightarrow> jstr list" where
  "menu_entries listener residential =
     [js ''edit''] @
     (if \<not> residential \<and> share_path_of listener \<noteq> None
      then [js ''clash:Clash / Mihomo'', js ''v2rayn:v2rayN / v2rayNG'', js ''v2rayn:Shadowrocket'',
            js ''sing-box:sing-box / NekoBox'', js ''auth-uri'']
      else []) @
     (if residential then [js ''residential-clash'', js ''residential-control''] else [js ''address'']) @
     [js ''delete'']"

section \<open>The tabs of the rows\<close>

text \<open>
  Every row keeps its own tab; the page keeps the row that is edited. A row that is shown as edited
  shows its form whatever its tab is.
\<close>

datatype detail_tab = TabMembers | TabTraffic | TabRoutes | TabLogs | TabEdit

record rows_page =
  rp_page :: routing_page
  rp_tabs :: "jstr \<rightharpoonup> detail_tab"

datatype row_event =
    RowToggled jstr
  | TabChosen jstr detail_tab
  | EditChosen jstr
  | EditCancelled jstr
  | EditSaved jstr
  | RowsReloaded "routing_data option"

definition row_tab :: "rows_page \<Rightarrow> jstr \<Rightarrow> detail_tab" where
  "row_tab r i = or_default (rp_tabs r i) TabMembers"

definition shown_tab :: "rows_page \<Rightarrow> jstr \<Rightarrow> detail_tab" where
  "shown_tab r i = (if rt_editing (rp_page r) = Some i then TabEdit else row_tab r i)"

definition with_page :: "(routing_page \<Rightarrow> routing_page) \<Rightarrow> rows_page \<Rightarrow> rows_page" where
  "with_page f r = r\<lparr>rp_page := f (rp_page r)\<rparr>"

definition close_edit :: "routing_page \<Rightarrow> routing_page" where
  "close_edit p = p\<lparr>rt_editing := None\<rparr>"

text \<open>
  Choosing the tab that is shown does nothing; a saved form asks for a reload, whose answer comes
  later. The rows of listeners that are gone lose their tab.
\<close>

definition reload_rows :: "routing_data option \<Rightarrow> rows_page \<Rightarrow> rows_page" where
  "reload_rows answer r =
     (let page = fst (load_page answer (rp_page r)) in
      \<lparr>rp_page = page, rp_tabs = rp_tabs r |` set (map ln_id (rt_listeners page))\<rparr>)"

fun row_step :: "rows_page \<Rightarrow> row_event \<Rightarrow> rows_page" where
  "row_step r (RowToggled i) = with_page (toggle_row i) r"
| "row_step r (TabChosen i tab) =
     (let r' = r\<lparr>rp_tabs := (rp_tabs r)(i \<mapsto> tab)\<rparr> in
      if tab = shown_tab r i then r
      else if tab = TabEdit then with_page (edit_row i) r'
      else if rt_editing (rp_page r) = Some i then with_page close_edit r' else r')"
| "row_step r (EditChosen i) = with_page (edit_row i) (r\<lparr>rp_tabs := (rp_tabs r)(i \<mapsto> TabEdit)\<rparr>)"
| "row_step r (EditCancelled i) = with_page close_edit (r\<lparr>rp_tabs := (rp_tabs r)(i \<mapsto> TabMembers)\<rparr>)"
| "row_step r (EditSaved i) = with_page close_edit r"
| "row_step r (RowsReloaded answer) = reload_rows answer r"

text \<open>Whether a row shows the form that edits its service.\<close>

definition form_shown :: "rows_page \<Rightarrow> ListenerRecord \<Rightarrow> bool" where
  "form_shown r listener \<longleftrightarrow>
     ln_id listener \<in> set (rt_expanded (rp_page r)) \<and> shown_tab r (ln_id listener) = TabEdit \<and>
     group_of (rp_page r) listener \<noteq> None"

section \<open>The routing panel of a group\<close>

record group_panel =
  gp_values :: "jstr \<rightharpoonup> jstr"
  gp_saving :: bool

text \<open>The selections follow the configuration whenever it or the list of groups is a new one.\<close>

definition routing_effect :: "RoutingRulesConfig \<Rightarrow> jstr \<Rightarrow> ProxyGroup list \<Rightarrow> group_panel \<Rightarrow> group_panel" where
  "routing_effect config gid groups g = g\<lparr>gp_values := routeValues config gid groups\<rparr>"

definition panel_select :: "jstr \<Rightarrow> jstr \<Rightarrow> group_panel \<Rightarrow> group_panel" where
  "panel_select set_id v g = g\<lparr>gp_values := select_value set_id v (gp_values g)\<rparr>"

definition panel_save ::
  "RoutingRulesConfig \<Rightarrow> jstr \<Rightarrow> ProxyGroup list \<Rightarrow> group_panel \<Rightarrow> group_panel \<times> RoutingRulesConfig option" where
  "panel_save config gid groups g =
     (if gp_saving g then (g, None) else (g\<lparr>gp_saving := True\<rparr>, Some (saved_config groups gid (gp_values g) config)))"

text \<open>The saved configuration becomes the one of the page, which renews the selections.\<close>

definition panel_saved ::
  "jstr \<Rightarrow> RoutingRulesConfig option \<Rightarrow> routing_page \<Rightarrow> group_panel \<Rightarrow> routing_page \<times> group_panel \<times> routing_notice" where
  "panel_saved gid answer p g =
     (case answer of
        None \<Rightarrow> (p, g\<lparr>gp_saving := False\<rparr>, PolicyFailed)
      | Some saved \<Rightarrow>
          (p\<lparr>rt_rules := saved\<rparr>, routing_effect saved gid (rt_groups p) (g\<lparr>gp_saving := False\<rparr>), PolicyApplied))"

definition panel_aliases :: "RoutingRulesConfig \<Rightarrow> RoutingRuleSet list" where
  "panel_aliases config = filter rs_enabled (rrc_rule_sets config)"

section \<open>The controls of the form that creates a service\<close>

definition check_item :: "jstr \<Rightarrow> bool \<Rightarrow> jstr list \<Rightarrow> jstr list" where
  "check_item i checked selected = (if checked then selected @ [i] else filter (\<lambda>x. x \<noteq> i) selected)"

datatype create_event =
    NameTyped jstr | ModeChosen source_mode | SubscriptionChecked jstr bool | NodeChecked jstr bool
  | RegionToggled jstr | LimitTyped int | LatencyTyped int | StrategyChosen ProxyGroupStrategy
  | KindChosen ListenerKind jstr | AddressTyped jstr | PortTyped int | HostTyped jstr | PublicPortTyped jstr
  | WsPathTyped jstr | TlsChecked bool | AuthChecked bool | UsernameTyped jstr | PasswordTyped jstr
  | SharedLoaded bool | CreateClicked | CreateSettled bool

record create_state =
  cr_form :: create_form
  cr_shared :: bool
  cr_sent :: "CreateProxyServiceRequest list"

definition initial_create :: "jstr \<Rightarrow> create_state" where
  "initial_create uuid = \<lparr>cr_form = initial_form uuid, cr_shared = False, cr_sent = []\<rparr>"

definition with_form :: "bool \<Rightarrow> (create_form \<Rightarrow> create_form) \<Rightarrow> create_state \<Rightarrow> create_state" where
  "with_form enabled f st = (if enabled then st\<lparr>cr_form := f (cr_form st)\<rparr> else st)"

definition send_form :: "create_state \<Rightarrow> create_state" where
  "send_form st =
     (if \<not> can_submit (cr_form st) then st
      else (case submit_form (cr_form st) of
              (f, None) \<Rightarrow> st\<lparr>cr_form := f\<rparr>
            | (f, Some r) \<Rightarrow> st\<lparr>cr_form := f, cr_sent := cr_sent st @ [r]\<rparr>))"

text \<open>A control that is disabled or not shown does nothing.\<close>

fun create_step :: "create_state \<Rightarrow> create_event \<Rightarrow> create_state" where
  "create_step st (NameTyped v) = with_form True (\<lambda>f. f\<lparr>cf_name := v\<rparr>) st"
| "create_step st (ModeChosen m) = with_form True (changeSourceMode m) st"
| "create_step st (SubscriptionChecked i c) =
     with_form (cf_mode (cr_form st) = ByRule) (\<lambda>f. f\<lparr>cf_subscriptions := check_item i c (cf_subscriptions f)\<rparr>) st"
| "create_step st (NodeChecked i c) =
     with_form (cf_mode (cr_form st) = FixedNodes) (\<lambda>f. f\<lparr>cf_nodes := check_item i c (cf_nodes f)\<rparr>) st"
| "create_step st (RegionToggled r) =
     with_form (cf_mode (cr_form st) = ByRule) (\<lambda>f. f\<lparr>cf_regions := toggle_member r (cf_regions f)\<rparr>) st"
| "create_step st (LimitTyped n) = with_form (cf_mode (cr_form st) = ByRule) (\<lambda>f. f\<lparr>cf_limit := n\<rparr>) st"
| "create_step st (LatencyTyped n) = with_form (cf_mode (cr_form st) = ByRule) (\<lambda>f. f\<lparr>cf_max_latency := n\<rparr>) st"
| "create_step st (StrategyChosen s) = with_form True (\<lambda>f. f\<lparr>cf_strategy := s\<rparr>) st"
| "create_step st (KindChosen k uuid) = with_form True (changeKind uuid k) st"
| "create_step st (AddressTyped v) =
     with_form (\<not> is_advanced (cf_kind (cr_form st)) \<and> \<not> cr_shared st) (\<lambda>f. f\<lparr>cf_bind_address := v\<rparr>) st"
| "create_step st (PortTyped n) = with_form (\<not> cr_shared st) (\<lambda>f. f\<lparr>cf_port := n\<rparr>) st"
| "create_step st (HostTyped v) = with_form True (\<lambda>f. f\<lparr>cf_public_host := v\<rparr>) st"
| "create_step st (PublicPortTyped v) =
     with_form (\<not> is_advanced (cf_kind (cr_form st))) (\<lambda>f. f\<lparr>cf_public_port := v\<rparr>) st"
| "create_step st (WsPathTyped v) = with_form (is_advanced (cf_kind (cr_form st))) (\<lambda>f. f\<lparr>cf_ws_path := v\<rparr>) st"
| "create_step st (TlsChecked c) =
     with_form (\<not> is_advanced (cf_kind (cr_form st)) \<and> trim (cf_public_host (cr_form st)) \<noteq> [])
       (\<lambda>f. f\<lparr>cf_public_tls := c\<rparr>) st"
| "create_step st (AuthChecked c) =
     with_form (\<not> is_advanced (cf_kind (cr_form st)) \<and> \<not> cr_shared st) (\<lambda>f. f\<lparr>cf_auth_enabled := c\<rparr>) st"
| "create_step st (UsernameTyped v) = with_form (cf_auth_enabled (cr_form st)) (\<lambda>f. f\<lparr>cf_username := v\<rparr>) st"
| "create_step st (PasswordTyped v) = with_form (cf_auth_enabled (cr_form st)) (\<lambda>f. f\<lparr>cf_password := v\<rparr>) st"
| "create_step st (SharedLoaded b) = st\<lparr>cr_shared := b\<rparr>"
| "create_step st CreateClicked = send_form st"
| "create_step st (CreateSettled created) = with_form True (submit_settled created) st"

text \<open>What the account box shows.\<close>

definition account_shown :: "create_state \<Rightarrow> bool" where
  "account_shown st \<longleftrightarrow> cf_auth_enabled (cr_form st) \<or> cr_shared st"

section \<open>Rows and panels\<close>

lemma healthy_within: "healthyCount pgroup nodes \<le> memberCount pgroup nodes"
  by (simp add: healthyCount_def memberCount_def)

lemma all_healthy_iff:
  "srow_all_healthy (service_row_of listener pgroup residential nodes) \<longleftrightarrow>
     (\<forall>node \<in> set nodes. nd_lifecycle_state node = Healthy) \<and> (nodes \<noteq> [] \<or> direct_member pgroup = 1)"
proof -
  have "length (filter P nodes) = length nodes \<longleftrightarrow> (\<forall>node \<in> set nodes. P node)" for P
    by (metis filter_id_conv filter_is_subset length_filter_less nat_neq_iff subset_code(1))
  then show ?thesis
    by (auto simp: service_row_of_def healthyCount_def memberCount_def Let_def direct_member_def split: option.splits if_splits)
qed

text \<open>When the row marked by the page has its own edit tab, the mark adds nothing to the tabs.\<close>

definition marks_tab :: "rows_page \<Rightarrow> bool" where
  "marks_tab r \<longleftrightarrow> (\<forall>i. rt_editing (rp_page r) = Some i \<longrightarrow> rp_tabs r i = Some TabEdit)"

lemma rows_marked: "marks_tab r \<Longrightarrow> shown_tab r i = row_tab r i"
  by (auto simp: marks_tab_def shown_tab_def row_tab_def)

text \<open>The edited row has the edit tab, as long as its listener is not reloaded away.\<close>

lemma marks_tab_step:
  assumes "marks_tab r" "\<forall>answer. e \<noteq> RowsReloaded answer"
  shows "marks_tab (row_step r e)"
  using assms by (cases e) (auto simp: marks_tab_def with_page_def toggle_row_def edit_row_def close_edit_def Let_def)

lemma load_page_keeps: "rt_editing (fst (load_page answer p)) = rt_editing p" "rt_expanded (fst (load_page answer p)) = rt_expanded p"
  by (simp_all add: load_page_def split: option.splits)

lemma marks_tab_reload:
  assumes "marks_tab r"
    and "\<forall>i. rt_editing (rp_page r) = Some i \<longrightarrow> i \<in> ln_id ` set (rt_listeners (rp_page (reload_rows answer r)))"
  shows "marks_tab (reload_rows answer r)"
  using assms by (auto simp: marks_tab_def reload_rows_def Let_def load_page_keeps restrict_map_def)

text \<open>
  Saving does not close a form that was opened by the menu or its tab, although the mark of the page
  is taken away; only cancelling does. Two rows can show their forms at once.
\<close>

lemma saved_form_stays:
  "form_shown (row_step (row_step r (EditChosen (ln_id l))) (EditSaved (ln_id l))) l \<longleftrightarrow> group_of (rp_page r) l \<noteq> None"
  by (auto simp: form_shown_def with_page_def edit_row_def close_edit_def shown_tab_def row_tab_def group_of_def)

lemma cancelled_form_closes: "\<not> form_shown (row_step r (EditCancelled (ln_id l))) l"
  by (simp add: form_shown_def with_page_def close_edit_def shown_tab_def row_tab_def)

lemma two_forms:
  assumes "group_of (rp_page r) a \<noteq> None" "group_of (rp_page r) b \<noteq> None"
  shows "form_shown (foldl row_step r [EditChosen (ln_id a), EditChosen (ln_id b)]) a \<and>
    form_shown (foldl row_step r [EditChosen (ln_id a), EditChosen (ln_id b)]) b"
  using assms by (auto simp: form_shown_def with_page_def edit_row_def shown_tab_def row_tab_def group_of_def)

text \<open>What is saved for a group is what its panel selects afterwards, when the server keeps it.\<close>

lemma saved_selection_kept:
  assumes "distinct (map rs_id (rrc_rule_sets config))" "rset \<in> set (rrc_rule_sets config)"
    and "panel_save config gid (rt_groups p) g = (g', Some sent)"
  shows "gp_values (fst (snd (panel_saved gid (Some sent) p g'))) (rs_id rset) =
    Some (action_value (actionFromValue (or_default (gp_values g (rs_id rset)) [])))"
proof -
  have sent: "sent = saved_config (rt_groups p) gid (gp_values g) config"
    using assms(3) by (simp add: panel_save_def split: if_splits)
  have key: "rs_id rset = rs_id (saved_set (rt_groups p) gid (gp_values g) rset)" by (simp add: saved_set_fields)
  have "routeValues sent gid (rt_groups p) (rs_id (saved_set (rt_groups p) gid (gp_values g) rset)) =
      Some (action_value (route_action (rt_groups p) gid (saved_set (rt_groups p) gid (gp_values g) rset)))"
    unfolding sent routeValues_def
  proof (rule map_from_map)
    show "distinct (map rs_id (rrc_rule_sets (saved_config (rt_groups p) gid (gp_values g) config)))"
      using assms(1) by (simp add: saved_config_def saved_set_fields o_def)
    show "saved_set (rt_groups p) gid (gp_values g) rset \<in> set (rrc_rule_sets (saved_config (rt_groups p) gid (gp_values g) config))"
      using assms(2) by (simp add: saved_config_def)
  qed
  then show ?thesis by (simp add: panel_saved_def routing_effect_def route_action_saved key[symmetric])
qed

text \<open>A reload of the page takes unsaved selections away.\<close>

lemma reload_resets_selection: "gp_values (routing_effect config gid groups (panel_select i v g)) = gp_values (routing_effect config gid groups g)"
  by (simp add: routing_effect_def)

section \<open>What the form sends\<close>

text \<open>What holds of every request: a name, a source, and an entry that is not open.\<close>

definition has_source :: "ProxyGroupSourceSpec \<Rightarrow> bool" where
  "has_source spec \<longleftrightarrow> spec_include_direct spec \<or> spec_node_ids spec \<noteq> [] \<or> some_items (spec_subscription_ids spec)"

definition account_ok :: "CreateServiceListener \<Rightarrow> bool" where
  "account_ok l \<longleftrightarrow>
     (case csl_auth l of
        Some a \<Rightarrow> la_username a \<noteq> [] \<and> la_password a \<noteq> []
      | None \<Rightarrow> \<not> is_advanced (csl_kind l) \<and> local_address (csl_bind_address l))"

definition tunnel_ok :: "CreateServiceListener \<Rightarrow> bool" where
  "tunnel_ok l \<longleftrightarrow>
     (if is_advanced (csl_kind l) then
        csl_bind_address l = js ''127.0.0.1'' \<and>
        (case csl_transport l of Some t \<Rightarrow> prefix [slash] (or_default (tr_ws_path t) []) | None \<Rightarrow> False) \<and>
        (case csl_public_endpoint l of Some e \<Rightarrow> pe_host e \<noteq> [] \<and> pe_port e = 443 \<and> pe_tls e | None \<Rightarrow> False)
      else csl_transport l = None)"

definition request_checked :: "CreateProxyServiceRequest \<Rightarrow> bool" where
  "request_checked r \<longleftrightarrow>
     cps_name r \<noteq> [] \<and> has_source (cps_source_spec r) \<and> account_ok (cps_listener r) \<and> tunnel_ok (cps_listener r)"

definition tunnel_form :: "create_form \<Rightarrow> bool" where
  "tunnel_form f \<longleftrightarrow> (is_advanced (cf_kind f) \<longrightarrow> cf_bind_address f = js ''127.0.0.1'' \<and> cf_auth_enabled f)"

lemma trim_slash: "prefix [slash] s \<Longrightarrow> prefix [slash] (trim s)"
proof -
  assume "prefix [slash] s"
  then obtain r where s: "s = slash # r" by (auto simp: prefix_def)
  have "\<not> is_space slash" by (simp add: is_space_def slash_def)
  then show ?thesis by (simp add: s trim_def trim_start_def trim_end_def dropWhile_append3)
qed

lemma trim_local: "trim (js ''127.0.0.1'') = js ''127.0.0.1''" "trim (js ''a'') = js ''a''"
  by (simp_all add: js_def string_defs is_space_def)

lemma payload_checked:
  assumes "tunnel_form f" "can_submit f"
  shows "request_checked (create_payload f)"
proof -
  have submit: "trim (cf_name f) \<noteq> []" "case cf_mode f of FromServer \<Rightarrow> True | ByRule \<Rightarrow> cf_subscriptions f \<noteq> [] | FixedNodes \<Rightarrow> cf_nodes f \<noteq> []"
    "cf_auth_enabled f \<Longrightarrow> trim (cf_username f) \<noteq> [] \<and> cf_password f \<noteq> []"
    "\<not> cf_auth_enabled f \<Longrightarrow> \<not> non_loopback (cf_bind_address f)"
    "is_advanced (cf_kind f) \<Longrightarrow> trim (cf_public_host f) \<noteq> [] \<and> prefix [slash] (cf_ws_path f)"
    using assms(2) by (auto simp: can_submit_def Let_def)
  have "has_source (cps_source_spec (create_payload f))"
    using submit(2) by (cases "cf_mode f") (simp_all add: create_payload_def Let_def has_source_def empty_spec_def some_items_def split: list.splits)
  moreover have "account_ok (cps_listener (create_payload f))"
    using submit(3, 4) assms(1)
    by (auto simp: create_payload_def Let_def account_ok_def tunnel_form_def non_loopback_def local_address_def)
  moreover have "tunnel_ok (cps_listener (create_payload f))"
    using submit(5) assms(1)
    by (auto simp: create_payload_def Let_def tunnel_ok_def tunnel_form_def form_endpoint_def trim_slash trim_local)
  ultimately show ?thesis using submit(1) by (simp add: request_checked_def create_payload_def Let_def)
qed

lemma changeKind_tunnel: "tunnel_form f \<Longrightarrow> tunnel_form (changeKind uuid k f)"
  by (simp add: tunnel_form_def changeKind_def Let_def)

lemma changeSourceMode_tunnel: "tunnel_form f \<Longrightarrow> tunnel_form (changeSourceMode m f)"
  by (simp add: tunnel_form_def changeSourceMode_def Let_def)

lemma submit_tunnel: "tunnel_form f \<Longrightarrow> tunnel_form (fst (submit_form f))"
  by (auto simp: tunnel_form_def submit_form_def)

text \<open>The invariant of the form with its requests.\<close>

definition create_ok :: "create_state \<Rightarrow> bool" where
  "create_ok st \<longleftrightarrow> tunnel_form (cr_form st) \<and> list_all request_checked (cr_sent st)"

lemma with_form_ok:
  "create_ok st \<Longrightarrow> (enabled \<Longrightarrow> tunnel_form (cr_form st) \<Longrightarrow> tunnel_form (f (cr_form st))) \<Longrightarrow> create_ok (with_form enabled f st)"
  by (simp add: with_form_def create_ok_def)

lemma send_form_ok: "create_ok st \<Longrightarrow> create_ok (send_form st)"
  using payload_checked[of "cr_form st"] submit_tunnel[of "cr_form st"]
  by (auto simp: create_ok_def send_form_def submit_form_def)

lemma create_step_ok: "create_ok st \<Longrightarrow> create_ok (create_step st e)"
proof (cases e)
  case (SharedLoaded b)
  then show "create_ok st \<Longrightarrow> create_ok (create_step st e)" by (simp add: create_ok_def)
next
  case CreateClicked
  then show "create_ok st \<Longrightarrow> create_ok (create_step st e)" by (simp add: send_form_ok)
next
  case (KindChosen k uuid)
  then show "create_ok st \<Longrightarrow> create_ok (create_step st e)" by (simp add: with_form_ok changeKind_tunnel)
next
  case (ModeChosen m)
  then show "create_ok st \<Longrightarrow> create_ok (create_step st e)" by (simp add: with_form_ok changeSourceMode_tunnel)
qed (auto intro!: with_form_ok simp: tunnel_form_def submit_settled_def)

lemma create_steps_ok: "create_ok st \<Longrightarrow> create_ok (foldl create_step st es)"
  by (induction es arbitrary: st) (simp_all add: create_step_ok)

text \<open>
  C23: Whatever is typed and clicked in the form that creates a service, every request it sends has a
  name, a source of nodes and, unless it listens on a loopback or blank address, an account with a
  user name and a password; a WebSocket protocol listens on the loopback interface only, has an
  account, a path from the root, and a public host on port 443 with TLS, and no other protocol has
  a transport.
\<close>

theorem create_requests_checked:
  "list_all request_checked (cr_sent (foldl create_step (initial_create uuid) es))"
  using create_steps_ok[of "initial_create uuid" es]
  by (simp add: create_ok_def initial_create_def tunnel_form_def initial_form_def is_advanced_def)

text \<open>
  The account box of a shared entry is shown ticked and cannot be changed, but what was chosen before
  the settings arrived is what is sent.
\<close>

lemma shared_without_account:
  "let st = foldl create_step (initial_create uuid)
     [NameTyped (js ''a''), AddressTyped (js ''127.0.0.1''), AuthChecked False, SharedLoaded True, CreateClicked]
   in account_shown st \<and> map (csl_auth \<circ> cps_listener) (cr_sent st) = [None]"
  by (simp add: initial_create_def initial_form_def with_form_def send_form_def can_submit_def submit_form_def
      create_payload_def is_advanced_def non_loopback_def loopback_names_def trim_local account_shown_def Let_def
      trim_def[of "[_]"] trim_start_def trim_end_def is_space_def)

text \<open>A service of the server itself is sent with the strategy chosen last, unlike in the edit form.\<close>

lemma direct_strategy_free:
  "cps_strategy (create_payload (cr_form (foldl create_step (initial_create uuid) [StrategyChosen s]))) = s"
  "cf_mode (cr_form (foldl create_step (initial_create uuid) [StrategyChosen s])) = FromServer"
  by (simp_all add: create_payload_def initial_create_def initial_form_def with_form_def Let_def)

end
