(* ===== verification/EditService.thy ===== *)
theory EditService
  imports ServiceRow
begin

text \<open>
  The controls of web/src/components/edit-proxy-service-form.tsx beside the service they edit: the
  form keeps its fields while the page reloads the listener and the group, and every save is sent
  for the records of that moment.
\<close>

section \<open>The controls\<close>

datatype edit_event =
    EName jstr | EMode source_mode | EStrategy ProxyGroupStrategy | ESubscription jstr bool | ENode jstr bool
  | ELimit int | ELatency int | EKind ListenerKind | EAddress jstr | EPort int | EEnabled bool
  | EHost jstr | EPublicPort jstr | ETls bool | EWsPath jstr | EReplace bool | EClear bool
  | EUsername jstr | EPassword jstr | ESave | ESettled | EReloaded ListenerRecord ProxyGroup

record edit_state =
  es_form :: edit_form
  es_saving :: bool
  es_listener :: ListenerRecord
  es_group :: ProxyGroup
  es_sent :: "(ListenerRecord \<times> ProxyGroup \<times> UpdateProxyServiceRequest) list"

definition open_edit :: "ListenerRecord \<Rightarrow> ProxyGroup \<Rightarrow> edit_state" where
  "open_edit listener g =
     \<lparr>es_form = edit_initial listener g, es_saving = False, es_listener = listener, es_group = g, es_sent = []\<rparr>"

definition edit_field :: "bool \<Rightarrow> (edit_form \<Rightarrow> edit_form) \<Rightarrow> edit_state \<Rightarrow> edit_state" where
  "edit_field enabled f st = (if enabled then st\<lparr>es_form := f (es_form st)\<rparr> else st)"

definition save_edit :: "edit_state \<Rightarrow> edit_state" where
  "save_edit st =
     (if es_saving st \<or> \<not> edit_valid (es_listener st) (es_form st) then st
      else st\<lparr>es_saving := True,
        es_sent := es_sent st @ [(es_listener st, es_group st, edit_payload (es_listener st) (es_group st) (es_form st))]\<rparr>)"

text \<open>Ticking one of the two account boxes unticks the other; a disabled control does nothing.\<close>

fun edit_step :: "edit_state \<Rightarrow> edit_event \<Rightarrow> edit_state" where
  "edit_step st (EName v) = edit_field True (\<lambda>f. f\<lparr>ef_name := v\<rparr>) st"
| "edit_step st (EMode m) = edit_field True (\<lambda>f. f\<lparr>ef_mode := m\<rparr>) st"
| "edit_step st (EStrategy s) = edit_field (ef_mode (es_form st) \<noteq> FromServer) (\<lambda>f. f\<lparr>ef_strategy := s\<rparr>) st"
| "edit_step st (ESubscription i c) =
     edit_field (ef_mode (es_form st) = ByRule) (\<lambda>f. f\<lparr>ef_subscriptions := check_item i c (ef_subscriptions f)\<rparr>) st"
| "edit_step st (ENode i c) =
     edit_field (ef_mode (es_form st) = FixedNodes) (\<lambda>f. f\<lparr>ef_nodes := check_item i c (ef_nodes f)\<rparr>) st"
| "edit_step st (ELimit n) = edit_field (ef_mode (es_form st) = ByRule) (\<lambda>f. f\<lparr>ef_limit := n\<rparr>) st"
| "edit_step st (ELatency n) = edit_field (ef_mode (es_form st) = ByRule) (\<lambda>f. f\<lparr>ef_max_latency := n\<rparr>) st"
| "edit_step st (EKind k) = edit_field True (\<lambda>f. f\<lparr>ef_kind := k\<rparr>) st"
| "edit_step st (EAddress v) = edit_field (\<not> is_advanced (ef_kind (es_form st))) (\<lambda>f. f\<lparr>ef_bind_address := v\<rparr>) st"
| "edit_step st (EPort n) = edit_field True (\<lambda>f. f\<lparr>ef_port := n\<rparr>) st"
| "edit_step st (EEnabled c) = edit_field True (\<lambda>f. f\<lparr>ef_enabled := c\<rparr>) st"
| "edit_step st (EHost v) = edit_field True (\<lambda>f. f\<lparr>ef_public_host := v\<rparr>) st"
| "edit_step st (EPublicPort v) = edit_field (\<not> is_advanced (ef_kind (es_form st))) (\<lambda>f. f\<lparr>ef_public_port := v\<rparr>) st"
| "edit_step st (ETls c) = edit_field (\<not> is_advanced (ef_kind (es_form st))) (\<lambda>f. f\<lparr>ef_public_tls := c\<rparr>) st"
| "edit_step st (EWsPath v) = edit_field (is_advanced (ef_kind (es_form st))) (\<lambda>f. f\<lparr>ef_ws_path := v\<rparr>) st"
| "edit_step st (EReplace c) =
     edit_field True (\<lambda>f. f\<lparr>ef_replace_auth := c, ef_clear_auth := (if c then False else ef_clear_auth f)\<rparr>) st"
| "edit_step st (EClear c) =
     edit_field (\<not> is_advanced (ef_kind (es_form st)))
       (\<lambda>f. f\<lparr>ef_clear_auth := c, ef_replace_auth := (if c then False else ef_replace_auth f)\<rparr>) st"
| "edit_step st (EUsername v) = edit_field (ef_replace_auth (es_form st)) (\<lambda>f. f\<lparr>ef_username := v\<rparr>) st"
| "edit_step st (EPassword v) = edit_field (ef_replace_auth (es_form st)) (\<lambda>f. f\<lparr>ef_password := v\<rparr>) st"
| "edit_step st ESave = save_edit st"
| "edit_step st ESettled = st\<lparr>es_saving := False\<rparr>"
| "edit_step st (EReloaded listener g) = st\<lparr>es_listener := listener, es_group := g\<rparr>"

section \<open>What is sent\<close>

text \<open>
  The account after the update: new credentials exclude clearing, and an address that others can
  reach keeps or gets an account.
\<close>

definition edit_account_ok :: "ListenerRecord \<Rightarrow> UpdateServiceListener \<Rightarrow> bool" where
  "edit_account_ok listener l \<longleftrightarrow>
     (case usl_auth l of
        Some a \<Rightarrow> la_username a \<noteq> [] \<and> la_password a \<noteq> [] \<and> usl_clear_auth l = Some False
      | None \<Rightarrow> local_address (usl_bind_address l) \<or> (ln_auth_configured listener \<and> usl_clear_auth l = Some False))"

definition edit_tunnel_ok :: "UpdateServiceListener \<Rightarrow> bool" where
  "edit_tunnel_ok l \<longleftrightarrow>
     (if is_advanced (usl_kind l) then
        usl_bind_address l = js ''127.0.0.1'' \<and>
        (case usl_transport l of Some t \<Rightarrow> prefix [slash] (or_default (tr_ws_path t) []) | None \<Rightarrow> False) \<and>
        (case usl_public_endpoint l of Some e \<Rightarrow> pe_host e \<noteq> [] \<and> pe_port e = 443 \<and> pe_tls e | None \<Rightarrow> False)
      else usl_transport l = None)"

definition update_checked :: "ListenerRecord \<times> ProxyGroup \<times> UpdateProxyServiceRequest \<Rightarrow> bool" where
  "update_checked sent \<longleftrightarrow>
     (case sent of (listener, g, r) \<Rightarrow>
        ups_listener_id r = ln_id listener \<and> ups_listener_version r = ln_version listener \<and>
        ups_group_id r = pg_id g \<and> ups_group_version r = pg_version g \<and>
        ups_name r \<noteq> [] \<and> has_source (ups_source_spec r) \<and>
        0 < usl_port (ups_listener r) \<and> usl_port (ups_listener r) < 65536 \<and>
        edit_account_ok listener (ups_listener r) \<and> edit_tunnel_ok (ups_listener r))"

definition boxes_exclusive :: "edit_form \<Rightarrow> bool" where
  "boxes_exclusive f \<longleftrightarrow> \<not> (ef_replace_auth f \<and> ef_clear_auth f)"

definition edit_ok :: "edit_state \<Rightarrow> bool" where
  "edit_ok st \<longleftrightarrow> boxes_exclusive (es_form st) \<and> list_all update_checked (es_sent st)"

lemma edit_spec_source:
  "(case ef_mode f of FromServer \<Rightarrow> True | ByRule \<Rightarrow> ef_subscriptions f \<noteq> [] | FixedNodes \<Rightarrow> ef_nodes f \<noteq> []) \<Longrightarrow>
     has_source (edit_spec g f)"
  by (cases "ef_mode f") (simp_all add: edit_spec_def has_source_def empty_spec_def some_items_def split: list.splits)

lemma edit_account:
  assumes "edit_valid listener f" "boxes_exclusive f"
  shows "edit_account_ok listener (ups_listener (edit_payload listener g f))"
  using assms
  by (auto simp: edit_account_ok_def edit_valid_def edit_payload_def boxes_exclusive_def local_address_def
      auth_configured_after_def Let_def)

lemma edit_tunnel:
  assumes "edit_valid listener f"
  shows "edit_tunnel_ok (ups_listener (edit_payload listener g f))"
  using assms
  by (auto simp: edit_tunnel_ok_def edit_valid_def edit_payload_def form_endpoint_def bound_address_def trim_slash Let_def)

lemma edit_payload_checked:
  assumes "edit_valid listener f" "boxes_exclusive f"
  shows "update_checked (listener, g, edit_payload listener g f)"
proof -
  have "has_source (edit_spec g f)" by (rule edit_spec_source) (use assms(1) in \<open>simp add: edit_valid_def\<close>)
  moreover have "trim (ef_name f) \<noteq> []" "0 < ef_port f" "ef_port f < 65536"
    using assms(1) by (simp_all add: edit_valid_def)
  ultimately show ?thesis using edit_account[OF assms] edit_tunnel[OF assms(1)]
    by (simp add: update_checked_def) (simp add: edit_payload_def Let_def)
qed

lemma edit_field_ok:
  "edit_ok st \<Longrightarrow> (enabled \<Longrightarrow> boxes_exclusive (es_form st) \<Longrightarrow> boxes_exclusive (f (es_form st))) \<Longrightarrow> edit_ok (edit_field enabled f st)"
  by (simp add: edit_field_def edit_ok_def)

lemma save_edit_ok: "edit_ok st \<Longrightarrow> edit_ok (save_edit st)"
  using edit_payload_checked[of "es_listener st" "es_form st" "es_group st"] by (auto simp: edit_ok_def save_edit_def)

lemma edit_step_ok: "edit_ok st \<Longrightarrow> edit_ok (edit_step st e)"
proof (cases e)
  case ESave
  then show "edit_ok st \<Longrightarrow> edit_ok (edit_step st e)" by (simp add: save_edit_ok)
next
  case ESettled
  then show "edit_ok st \<Longrightarrow> edit_ok (edit_step st e)" by (simp add: edit_ok_def)
next
  case EReloaded
  then show "edit_ok st \<Longrightarrow> edit_ok (edit_step st e)" by (simp add: edit_ok_def)
qed (auto intro!: edit_field_ok simp: boxes_exclusive_def)

lemma edit_steps_ok: "edit_ok st \<Longrightarrow> edit_ok (foldl edit_step st es)"
  by (induction es arbitrary: st) (simp_all add: edit_step_ok)


text \<open>
  Clearing the account and then choosing a WebSocket protocol, whose account box is disabled, sends
  that protocol without an account.
\<close>

lemma tunnel_without_account:
  assumes "edit_valid listener (es_form (foldl edit_step (open_edit listener g) [EClear True, EKind KVless]))"
    and "\<not> is_advanced (ln_kind listener)"
  shows "map (\<lambda>(_, _, r). (usl_kind (ups_listener r), usl_auth (ups_listener r), usl_clear_auth (ups_listener r)))
      (es_sent (foldl edit_step (open_edit listener g) [EClear True, EKind KVless, ESave])) = [(KVless, None, Some True)]"
  using assms
  by (simp add: open_edit_def edit_field_def save_edit_def edit_payload_def edit_initial_def Let_def)

text \<open>The fields outlive a reload: only the records change.\<close>

lemma reload_keeps_fields: "es_form (edit_step st (EReloaded listener g)) = es_form st"
  by simp

end
