(* ===== verification/OverviewPage.thy ===== *)
theory OverviewPage
  imports Routing Nodes
begin

text \<open>
  The overview page (web/src/pages/overview-page.tsx): its data, the stream of traffic samples
  merged by timestamp into a window of 120, the topology with the rule sets of each listener, and
  the decision whether the chart may slide. \<open>Date.parse\<close> is a parameter; the drawing of the charts
  is left out.
\<close>

section \<open>Data\<close>

record overview_data =
  od_status :: DataPlaneStatus
  od_groups :: "ProxyGroup list"
  od_listeners :: "ListenerRecord list"
  od_rule_sets :: "RoutingRuleSet list"
  od_totals :: "(jstr \<times> TrafficSummary) list"
  od_today :: "(jstr \<times> TrafficSummary) list"

record overview_page =
  ov_data :: "overview_data option"
  ov_samples :: "OverviewSample list"
  ov_window :: nat
  ov_loading :: bool
  ov_streaming :: bool

definition initial_overview :: overview_page where
  "initial_overview = \<lparr>ov_data = None, ov_samples = [], ov_window = 60, ov_loading = True, ov_streaming = False\<rparr>"

definition indexSummaries :: "TrafficSummary list \<Rightarrow> (jstr \<times> TrafficSummary) list" where
  "indexSummaries items = new_map (map (\<lambda>item. (ts_resource_id item, item)) items)"

text \<open>The four required answers (None when one failed) and the two that may fail alone.\<close>

definition load_overview ::
  "(DataPlaneStatus \<times> ProxyGroup list \<times> ListenerRecord list \<times> RoutingRuleSet list) option
     \<Rightarrow> TrafficSummary list option \<Rightarrow> TrafficSummary list option \<Rightarrow> overview_page \<Rightarrow> overview_page" where
  "load_overview answer totals today p =
     (case answer of
        None \<Rightarrow> p\<lparr>ov_loading := False\<rparr>
      | Some (status, groups, listeners, rules) \<Rightarrow>
          p\<lparr>ov_data := Some \<lparr>od_status = status, od_groups = groups, od_listeners = listeners, od_rule_sets = rules,
              od_totals = indexSummaries (or_default totals []), od_today = indexSummaries (or_default today [])\<rparr>,
            ov_loading := False\<rparr>)"

section \<open>The stream of samples\<close>

text \<open>The difference of two times; the \<open>NaN\<close> of an unreadable one counts as equal.\<close>

definition compare_samples :: "(jstr \<Rightarrow> int option) \<Rightarrow> OverviewSample \<Rightarrow> OverviewSample \<Rightarrow> int" where
  "compare_samples parse left right =
     (case (parse (ovs_timestamp left), parse (ovs_timestamp right)) of (Some a, Some b) \<Rightarrow> a - b | _ \<Rightarrow> 0)"

definition merge_samples :: "OverviewSample list \<Rightarrow> OverviewSample list \<Rightarrow> OverviewSample list" where
  "merge_samples current incoming =
     foldl (\<lambda>m s. put_by ovs_timestamp s m) (foldl (\<lambda>m s. put_by ovs_timestamp s m) [] current) incoming"

definition appendSamples :: "(jstr \<Rightarrow> int option) \<Rightarrow> OverviewSample list \<Rightarrow> overview_page \<Rightarrow> overview_page" where
  "appendSamples parse incoming p =
     p\<lparr>ov_samples := slice_last 120 (sort_cmp (compare_samples parse) (merge_samples (ov_samples p) incoming)),
       ov_streaming := True\<rparr>"

text \<open>
  Events of the stream: the history (None when it is malformed, \<open>Some None\<close> when it is no array), one
  sample, or an error.
\<close>

datatype overview_event =
    HistoryEvent "OverviewSample list option option"
  | SampleEvent "OverviewSample option"
  | StreamError

fun overview_step :: "(jstr \<Rightarrow> int option) \<Rightarrow> overview_page \<Rightarrow> overview_event \<Rightarrow> overview_page" where
  "overview_step parse p (HistoryEvent (Some (Some samples))) = appendSamples parse samples p"
| "overview_step parse p (HistoryEvent (Some None)) = p"
| "overview_step parse p (HistoryEvent None) = p\<lparr>ov_streaming := False\<rparr>"
| "overview_step parse p (SampleEvent (Some sample)) = appendSamples parse [sample] p"
| "overview_step parse p (SampleEvent None) = p\<lparr>ov_streaming := False\<rparr>"
| "overview_step parse p StreamError = p\<lparr>ov_streaming := False\<rparr>"

definition visibleSamples :: "overview_page \<Rightarrow> OverviewSample list" where
  "visibleSamples p = slice_last (ov_window p) (ov_samples p)"

definition latest :: "overview_page \<Rightarrow> OverviewSample option" where
  "latest p = (if ov_samples p = [] then None else Some (last (ov_samples p)))"

definition canSlideChart :: "OverviewSample list \<Rightarrow> OverviewSample list \<Rightarrow> bool" where
  "canSlideChart previous current =
     (if length previous < 2 \<or> length current \<noteq> length previous then False
      else if ovs_timestamp (last current) = ovs_timestamp (last previous) then False
      else map ovs_timestamp (butlast current) = map ovs_timestamp (tl previous))"

section \<open>The topology\<close>

definition setAppliesToGroup :: "RoutingRuleSet \<Rightarrow> jstr \<Rightarrow> bool" where
  "setAppliesToGroup rset gid =
     (if some_items (rs_routes rset) then \<exists>route \<in> set (or_default (rs_routes rset) []). rgr_proxy_group_id route = gid
      else rs_action rset \<noteq> None \<and>
        (\<not> some_items (rs_applied_group_ids rset) \<or> gid \<in> set (or_default (rs_applied_group_ids rset) [])))"

datatype action_label = LabelReject | LabelDirect | LabelProxy

definition label_of :: "RoutingAction option \<Rightarrow> action_label" where
  "label_of action =
     (case map_option act_type action of
        Some ActReject \<Rightarrow> LabelReject | Some ActDirect \<Rightarrow> LabelDirect | _ \<Rightarrow> LabelProxy)"

definition actionLabel :: "RoutingRuleSet \<Rightarrow> jstr \<Rightarrow> action_label" where
  "actionLabel rset gid =
     (let found = Option.bind (rs_routes rset) (\<lambda>routes. find (\<lambda>route. rgr_proxy_group_id route = gid) routes)
      in label_of (case found of Some route \<Rightarrow> Some (rgr_action route) | None \<Rightarrow> rs_action rset))"

definition routes_of :: "overview_data \<Rightarrow> (ListenerRecord \<times> ProxyGroup option \<times> RoutingRuleSet list) list" where
  "routes_of d =
     map (\<lambda>listener.
       (listener, find (\<lambda>g. pg_id g = ln_proxy_group_id listener) (od_groups d),
        filter (\<lambda>rset. rs_enabled rset \<and> setAppliesToGroup rset (ln_proxy_group_id listener)) (od_rule_sets d)))
     (od_listeners d)"

section \<open>Merging samples\<close>

lemma foldl_put_distinct:
  "distinct (map key m) \<Longrightarrow> distinct (map key (foldl (\<lambda>m s. put_by key s m) m xs))"
  by (induction xs arbitrary: m) (simp_all add: distinct_put_by)

lemma foldl_put_keys: "key ` set (foldl (\<lambda>m s. put_by key s m) m xs) = key ` set m \<union> key ` set xs"
  by (induction xs arbitrary: m) (auto simp: keys_put_by)

lemma merge_distinct: "distinct (map ovs_timestamp (merge_samples current incoming))"
  unfolding merge_samples_def by (rule foldl_put_distinct, rule foldl_put_distinct) simp

lemma merge_keys:
  "ovs_timestamp ` set (merge_samples current incoming) = ovs_timestamp ` set current \<union> ovs_timestamp ` set incoming"
  by (simp add: merge_samples_def foldl_put_keys)

section \<open>The window keeps the latest samples in order\<close>

definition stamp :: "(jstr \<Rightarrow> int option) \<Rightarrow> OverviewSample \<Rightarrow> int" where
  "stamp parse s = or_default (parse (ovs_timestamp s)) 0"

definition readable :: "(jstr \<Rightarrow> int option) \<Rightarrow> OverviewSample list \<Rightarrow> bool" where
  "readable parse xs \<longleftrightarrow> list_all (\<lambda>s. parse (ovs_timestamp s) \<noteq> None) xs"

lemma readable_stamps: "readable parse xs \<longleftrightarrow> (\<forall>t \<in> ovs_timestamp ` set xs. parse t \<noteq> None)"
  by (auto simp: readable_def list_all_iff)

interpretation stamps: comparator "\<lambda>a b. stamp parse a - stamp parse b" for parse
  by (rule signed_is_comparator) (rule signed_difference)

lemma sort_samples:
  "readable parse xs \<Longrightarrow> sort_cmp (compare_samples parse) xs = sort_cmp (\<lambda>a b. stamp parse a - stamp parse b) xs"
  by (rule sort_cmp_cong) (auto simp: compare_samples_def stamp_def readable_def list_all_iff split: option.split)

definition in_order :: "(jstr \<Rightarrow> int option) \<Rightarrow> OverviewSample list \<Rightarrow> bool" where
  "in_order parse xs \<longleftrightarrow> sorted (map (stamp parse) xs)"

lemma sorted_sort_samples: "readable parse xs \<Longrightarrow> in_order parse (sort_cmp (compare_samples parse) xs)"
  using stamps.sorted_sort[of parse xs]
  by (simp add: sort_samples in_order_def sorted_wrt_map)

lemma in_order_slice: "in_order parse xs \<Longrightarrow> in_order parse (slice_last n xs)"
  unfolding in_order_def slice_last_def by (metis drop_map sorted_wrt_drop)

lemma in_order_last: "in_order parse xs \<Longrightarrow> x \<in> set xs \<Longrightarrow> stamp parse x \<le> stamp parse (last xs)"
  unfolding in_order_def by (induction xs) auto

lemma last_slice: "xs \<noteq> [] \<Longrightarrow> 0 < n \<Longrightarrow> slice_last n xs \<noteq> [] \<and> last (slice_last n xs) = last xs"
  using diff_less[of n "length xs"] by (auto simp: slice_last_def not_le)

text \<open>What holds of the samples after the timestamps \<open>seen\<close> were received.\<close>

definition window_ok :: "(jstr \<Rightarrow> int option) \<Rightarrow> jstr set \<Rightarrow> OverviewSample list \<Rightarrow> bool" where
  "window_ok parse seen xs \<longleftrightarrow>
     distinct (map ovs_timestamp xs) \<and> length xs \<le> 120 \<and> in_order parse xs \<and>
     (\<forall>s \<in> set xs. ovs_timestamp s \<in> seen) \<and>
     (\<forall>t \<in> seen. xs \<noteq> [] \<and> or_default (parse t) 0 \<le> stamp parse (last xs))"

lemma window_append:
  assumes "window_ok parse seen (ov_samples p)" and "readable parse incoming" and "\<forall>t \<in> seen. parse t \<noteq> None"
  shows "window_ok parse (seen \<union> ovs_timestamp ` set incoming) (ov_samples (appendSamples parse incoming p))"
proof -
  define merged where "merged = merge_samples (ov_samples p) incoming"
  define ordered where "ordered = sort_cmp (compare_samples parse) merged"
  have keys: "ovs_timestamp ` set merged = ovs_timestamp ` set (ov_samples p) \<union> ovs_timestamp ` set incoming"
    by (simp add: merged_def merge_keys)
  have seen: "ovs_timestamp ` set (ov_samples p) \<subseteq> seen" using assms(1) by (auto simp: window_ok_def)
  have "readable parse merged" using assms(2,3) seen unfolding readable_stamps keys by blast
  then have order: "in_order parse ordered" by (simp add: ordered_def sorted_sort_samples)
  have "distinct (map ovs_timestamp ordered)" by (simp add: ordered_def merged_def merge_distinct)
  then have distinct: "distinct (map ovs_timestamp (slice_last 120 ordered))"
    unfolding slice_last_def by (metis distinct_drop drop_map)
  have set_ordered: "set ordered = set merged" by (simp add: ordered_def)
  have upper: "ordered \<noteq> [] \<and> or_default (parse t) 0 \<le> stamp parse (last ordered)"
    if "t \<in> seen \<union> ovs_timestamp ` set incoming" for t
  proof (cases "t \<in> ovs_timestamp ` set merged")
    case True
    then obtain s where "s \<in> set ordered" "ovs_timestamp s = t" using set_ordered by auto
    then show ?thesis using in_order_last[OF order, of s] by (auto simp: stamp_def)
  next
    case False
    with that keys have t: "t \<in> seen" by auto
    with assms(1) have ne: "ov_samples p \<noteq> []" and le: "or_default (parse t) 0 \<le> stamp parse (last (ov_samples p))"
      by (auto simp: window_ok_def)
    from ne keys have "ovs_timestamp (last (ov_samples p)) \<in> ovs_timestamp ` set merged" by auto
    then obtain s where s: "s \<in> set ordered" "ovs_timestamp s = ovs_timestamp (last (ov_samples p))"
      using set_ordered by auto
    then have "stamp parse (last (ov_samples p)) \<le> stamp parse (last ordered)"
      using in_order_last[OF order s(1)] by (simp add: stamp_def)
    with le s show ?thesis by auto
  qed
  have subset: "ovs_timestamp s \<in> seen \<union> ovs_timestamp ` set incoming" if "s \<in> set ordered" for s
    using that keys seen set_ordered by auto
  show ?thesis
    using order distinct upper subset set_slice_last[of 120 ordered] last_slice[of ordered 120]
    unfolding window_ok_def appendSamples_def merged_def[symmetric] ordered_def[symmetric]
    by (auto simp: in_order_slice)
qed

text \<open>The samples that a list of events delivers.\<close>

fun delivers :: "overview_event \<Rightarrow> OverviewSample list" where
  "delivers (HistoryEvent (Some (Some xs))) = xs"
| "delivers (SampleEvent (Some x)) = [x]"
| "delivers e = []"

definition delivered :: "overview_event list \<Rightarrow> OverviewSample list" where
  "delivered es = concat (map delivers es)"

lemma delivered_simps [simp]: "delivered [] = []" "delivered (es @ [e]) = delivered es @ delivers e"
  by (simp_all add: delivered_def)

lemma readable_append [simp]: "readable parse (xs @ ys) \<longleftrightarrow> readable parse xs \<and> readable parse ys"
  by (simp add: readable_def)

lemma window_step:
  assumes "window_ok parse (ovs_timestamp ` set seen) (ov_samples p)" and "readable parse (seen @ delivers e)"
  shows "window_ok parse (ovs_timestamp ` set (seen @ delivers e)) (ov_samples (overview_step parse p e))"
proof -
  have "window_ok parse (ovs_timestamp ` set (seen @ delivers e)) (ov_samples (appendSamples parse (delivers e) p))"
    using window_append[OF assms(1), of "delivers e"] assms(2) by (simp add: readable_stamps image_Un)
  with assms(1) show ?thesis by (cases e rule: delivers.cases) simp_all
qed

lemma window_run:
  "readable parse (delivered es) \<Longrightarrow>
     window_ok parse (ovs_timestamp ` set (delivered es)) (ov_samples (foldl (overview_step parse) initial_overview es))"
proof (induction es rule: rev_induct)
  case Nil
  show ?case by (simp add: window_ok_def initial_overview_def in_order_def)
next
  case (snoc e es)
  then have "window_ok parse (ovs_timestamp ` set (delivered es)) (ov_samples (foldl (overview_step parse) initial_overview es))"
    by simp
  from window_step[OF this, of e] snoc.prems show ?case by simp
qed

text \<open>
  C31: whatever history and samples the stream delivers, in whatever order and however often, the
  page holds at most 120 samples, one for each time, in order of time, none of its own, and the
  last one is of the latest time ever delivered.
\<close>

theorem samples_window:
  assumes "readable parse (delivered es)"
  shows "(let xs = ov_samples (foldl (overview_step parse) initial_overview es) in
    length xs \<le> 120 \<and> distinct (map ovs_timestamp xs) \<and> sorted (map (stamp parse) xs) \<and>
    ovs_timestamp ` set xs \<subseteq> ovs_timestamp ` set (delivered es) \<and>
    (\<forall>s \<in> set (delivered es). xs \<noteq> [] \<and> stamp parse s \<le> stamp parse (last xs)))"
  using window_run[OF assms] by (auto simp: window_ok_def in_order_def Let_def stamp_def)

definition sample_at :: "nat \<Rightarrow> OverviewSample" where
  "sample_at n = \<lparr>ovs_timestamp = [n], ovs_upload_bytes_per_second = 1, ovs_download_bytes_per_second = 2,
     ovs_active_connections = 3, ovs_running = True, ovs_resources = None, ovs_error_code = None\<rparr>"

theorem samples_window_witness:
  "sorted (map (stamp parse_integer) (ov_samples (foldl (overview_step parse_integer) initial_overview
     [SampleEvent (Some (sample_at 50)), HistoryEvent (Some (Some [sample_at 49, sample_at 50])), StreamError])))"
proof -
  have "readable parse_integer (delivered
      [SampleEvent (Some (sample_at 50)), HistoryEvent (Some (Some [sample_at 49, sample_at 50])), StreamError])"
    by (simp add: delivered_def readable_def sample_at_def parse_integer_def string_defs is_space_def is_digit_def Let_def)
  from samples_window[OF this] show ?thesis unfolding Let_def by blast
qed

section \<open>The overview agrees with the routing page\<close>

lemma find_route_ids: "find (\<lambda>r. rgr_proxy_group_id r = gid) rs \<noteq> None \<longleftrightarrow> (\<exists>r \<in> set rs. rgr_proxy_group_id r = gid)"
  by (auto simp: find_None_iff)

lemma find_map_ids:
  "find (\<lambda>r. rgr_proxy_group_id r = gid) (map (\<lambda>i. \<lparr>rgr_proxy_group_id = i, rgr_action = a\<rparr>) ids) =
     (if gid \<in> set ids then Some \<lparr>rgr_proxy_group_id = gid, rgr_action = a\<rparr> else None)"
  by (induction ids) auto

text \<open>
  C32: for a group that exists, the overview lists a rule set exactly when the routing page has an
  action of it for the group, in the old and the new form of the rule sets, and labels it with
  that action.
\<close>

theorem overview_agrees:
  assumes "gid \<in> pg_id ` set groups"
  shows "(setAppliesToGroup rset gid \<longleftrightarrow> route_action groups gid rset \<noteq> None) \<and>
    (if setAppliesToGroup rset gid then actionLabel rset gid = label_of (route_action groups gid rset) else True)"
proof (cases "some_items (rs_routes rset)")
  case True
  then obtain rs where rs: "rs_routes rset = Some rs" by (auto simp: some_items_def split: option.splits)
  show ?thesis
    using True find_route_ids[of gid rs]
    by (cases "find (\<lambda>r. rgr_proxy_group_id r = gid) rs")
      (auto simp: rs setAppliesToGroup_def route_action_def expandedRoutes_def actionLabel_def)
next
  case False
  then have routes: "Option.bind (rs_routes rset) (\<lambda>rs. find (\<lambda>r. rgr_proxy_group_id r = gid) rs) = None"
    by (auto simp: some_items_def split: option.splits list.splits)
  show ?thesis
    using False routes assms
    by (cases "rs_action rset") (auto simp: setAppliesToGroup_def route_action_def expandedRoutes_def actionLabel_def find_map_ids Let_def)
qed

theorem overview_agrees_witness:
  "setAppliesToGroup sample_set (js ''g1'') \<and>
   actionLabel sample_set (js ''g1'') = label_of (route_action [sample_group\<lparr>pg_id := js ''g1''\<rparr>] (js ''g1'') sample_set)"
proof -
  have "js ''g1'' \<in> pg_id ` set [sample_group\<lparr>pg_id := js ''g1''\<rparr>]" by simp
  note agrees = overview_agrees[OF this, of sample_set]
  have "setAppliesToGroup sample_set (js ''g1'')"
    by (simp add: setAppliesToGroup_def sample_set_def some_items_def)
  with agrees show ?thesis by simp
qed

end
