(* ===== verification/OverviewChart.thy ===== *)
theory OverviewChart
  imports OverviewPage Format
begin

text \<open>
  The charts and figures of the overview page (web/src/pages/overview-page.tsx): the large chart of a
  window of samples, the small chart of each route, the transition with which a chart slides when a
  sample arrives, and the texts of a route. Coordinates are rationals; the rounding of doubles and
  the localized times are left out.
\<close>

section \<open>Coordinates\<close>

record inset =
  in_top :: rat
  in_right :: rat
  in_bottom :: rat
  in_left :: rat

definition chart_width :: rat where "chart_width = 960"
definition chart_height :: rat where "chart_height = 260"
definition chart_inset :: inset where "chart_inset = \<lparr>in_top = 16, in_right = 18, in_bottom = 34, in_left = 64\<rparr>"

definition plotWidth :: "rat \<Rightarrow> inset \<Rightarrow> rat" where "plotWidth width i = width - in_left i - in_right i"
definition plotHeight :: "rat \<Rightarrow> inset \<Rightarrow> rat" where "plotHeight height i = height - in_top i - in_bottom i"

text \<open>\<open>Math.max(1, n - 1)\<close>, the number of steps between \<open>n\<close> positions\<close>

definition spans :: "nat \<Rightarrow> rat" where
  "spans n = max 1 (of_nat n - 1)"

definition chartX :: "nat \<Rightarrow> nat \<Rightarrow> rat \<Rightarrow> rat \<Rightarrow> rat" where
  "chartX index n width left = left + of_nat index / spans n * width"

definition chartY :: "rat \<Rightarrow> rat \<Rightarrow> rat \<Rightarrow> inset \<Rightarrow> rat" where
  "chartY v maximum height i = height - in_bottom i - v / maximum * (height - in_top i - in_bottom i)"

text \<open>The points of a line over the given samples, placed as if there were \<open>n\<close> of them.\<close>

definition line_points :: "rat list \<Rightarrow> rat \<Rightarrow> rat \<Rightarrow> rat \<Rightarrow> inset \<Rightarrow> nat \<Rightarrow> (rat \<times> rat) list" where
  "line_points values maximum width height i n =
     map (\<lambda>k. (chartX k n (width - in_left i - in_right i) (in_left i), chartY (values ! k) maximum height i))
       [0..<length values]"

text \<open>The path: a move to the first point and lines to the others.\<close>

definition path_of :: "(rat \<times> rat) list \<Rightarrow> jstr" where
  "path_of points =
     join (js '' '')
       (map (\<lambda>k. (if k = 0 then js ''M'' else js ''L'') @ toFixed1 (fst (points ! k)) @ js '','' @ toFixed1 (snd (points ! k)))
         [0..<length points])"

definition upload_of :: "OverviewSample \<Rightarrow> rat" where "upload_of s = of_int (ovs_upload_bytes_per_second s)"
definition download_of :: "OverviewSample \<Rightarrow> rat" where "download_of s = of_int (ovs_download_bytes_per_second s)"

definition chartPath :: "(OverviewSample \<Rightarrow> rat) \<Rightarrow> OverviewSample list \<Rightarrow> rat \<Rightarrow> nat \<Rightarrow> jstr" where
  "chartPath key samples maximum n =
     path_of (line_points (map key samples) maximum chart_width chart_height chart_inset n)"

definition chart_maximum :: "OverviewSample list \<Rightarrow> rat" where
  "chart_maximum samples = Max (insert 1 (set (concat (map (\<lambda>s. [upload_of s, download_of s]) samples))))"

text \<open>The grid: five lines with the rate at each; the indexes of the time marks, without repetitions.\<close>

definition grid_lines :: "rat \<Rightarrow> (rat \<times> jstr) list" where
  "grid_lines maximum =
     map (\<lambda>ratio. (in_top chart_inset + plotHeight chart_height chart_inset * (1 - ratio), formatChartRate (maximum * ratio)))
       [0, 1 / 4, 1 / 2, 3 / 4, 1]"

definition xIndexes :: "nat \<Rightarrow> nat list" where
  "xIndexes n = (if n < 2 then [0] else unique [0, (n - 1) div 2, n - 1])"

definition windows :: "nat list" where "windows = [30, 60, 120]"

text \<open>The sample under the pointer: its position, the place of its box in percent, and its rates.\<close>

definition hovered_sample :: "nat option \<Rightarrow> OverviewSample list \<Rightarrow> OverviewSample option" where
  "hovered_sample index samples =
     (case index of Some k \<Rightarrow> if k < length samples then Some (samples ! k) else None | None \<Rightarrow> None)"

definition hoveredX :: "nat option \<Rightarrow> nat \<Rightarrow> rat" where
  "hoveredX index n =
     (case index of None \<Rightarrow> 0 | Some k \<Rightarrow> chartX k n (plotWidth chart_width chart_inset) (in_left chart_inset))"

definition tooltipLeft :: "nat option \<Rightarrow> nat \<Rightarrow> rat" where
  "tooltipLeft index n = min 88 (max 12 (hoveredX index n / chart_width * 100))"

text \<open>The left end and the width of the area that a sample is pointed at in.\<close>

definition hover_area :: "nat \<Rightarrow> nat \<Rightarrow> rat \<times> rat" where
  "hover_area k n =
     (let step = plotWidth chart_width chart_inset / spans n
      in (chartX k n (plotWidth chart_width chart_inset) (in_left chart_inset) - max 8 (step / 2), max 16 step))"

section \<open>The small chart of a route\<close>

definition resourceSample :: "OverviewSample option \<Rightarrow> jstr \<Rightarrow> OverviewResourceSample option" where
  "resourceSample sample i =
     Option.bind (Option.bind sample ovs_resources)
       (find (\<lambda>r. ovr_resource_type r = TrListener \<and> ovr_resource_id r = i))"

definition resource_value :: "(OverviewResourceSample \<Rightarrow> int) \<Rightarrow> jstr \<Rightarrow> OverviewSample \<Rightarrow> rat" where
  "resource_value key i sample = (case resourceSample (Some sample) i of Some r \<Rightarrow> of_int (key r) | None \<Rightarrow> 0)"

definition mini_inset :: inset where "mini_inset = \<lparr>in_top = 4, in_right = 4, in_bottom = 4, in_left = 4\<rparr>"

definition resourcePath ::
  "(OverviewResourceSample \<Rightarrow> int) \<Rightarrow> jstr \<Rightarrow> OverviewSample list \<Rightarrow> rat \<Rightarrow> nat \<Rightarrow> jstr" where
  "resourcePath key i samples maximum n =
     path_of (line_points (map (resource_value key i) samples) maximum 320 56 mini_inset n)"

definition mini_maximum :: "jstr \<Rightarrow> OverviewSample list \<Rightarrow> rat" where
  "mini_maximum i samples =
     Max (insert 1 (set (map (\<lambda>s. max (resource_value ovr_upload_bytes_per_second i s)
                                      (resource_value ovr_download_bytes_per_second i s)) samples)))"

section \<open>Sliding\<close>

record chart_transition =
  tr_key :: jstr
  tr_samples :: "OverviewSample list"
  tr_step :: rat

record chart_state =
  cs_previous :: "OverviewSample list option"
  cs_transition :: "chart_transition option"

definition initial_chart :: chart_state where
  "initial_chart = \<lparr>cs_previous = None, cs_transition = None\<rparr>"

text \<open>The layout effect, run when the samples or the step have changed.\<close>

definition chart_effect :: "OverviewSample list \<Rightarrow> rat \<Rightarrow> chart_state \<Rightarrow> chart_state" where
  "chart_effect samples step st =
     (let st' = st\<lparr>cs_previous := Some samples\<rparr>
      in case cs_previous st of
           None \<Rightarrow> st'\<lparr>cs_transition := None\<rparr>
         | Some previous \<Rightarrow>
             if samples = [] \<or> \<not> canSlideChart previous samples \<or> step \<le> 0 then st'\<lparr>cs_transition := None\<rparr>
             else st'\<lparr>cs_transition :=
               Some \<lparr>tr_key = ovs_timestamp (last samples), tr_samples = previous @ [last samples], tr_step = step\<rparr>\<rparr>)"

text \<open>What the render uses: nothing when motion is to be reduced or the transition is of other samples.\<close>

definition useChartTransition :: "bool \<Rightarrow> OverviewSample list \<Rightarrow> chart_state \<Rightarrow> chart_transition option" where
  "useChartTransition reduced samples st =
     (if reduced \<or> map_option tr_key (cs_transition st) \<noteq>
          (if samples = [] then None else Some (ovs_timestamp (last samples)))
      then None else cs_transition st)"

definition renderedSamples :: "bool \<Rightarrow> OverviewSample list \<Rightarrow> chart_state \<Rightarrow> OverviewSample list" where
  "renderedSamples reduced samples st =
     (case useChartTransition reduced samples st of Some tr \<Rightarrow> tr_samples tr | None \<Rightarrow> samples)"

definition chart_step :: "rat \<Rightarrow> nat \<Rightarrow> rat" where
  "chart_step width n = width / spans n"

section \<open>Texts of the page\<close>

text \<open>The four metrics, and the entry of a route; only the first four rule sets are named.\<close>

definition overview_metrics :: "overview_page \<Rightarrow> jstr \<times> jstr \<times> jstr \<times> jstr" where
  "overview_metrics p =
     (formatRate (case latest p of Some s \<Rightarrow> download_of s | None \<Rightarrow> 0),
      formatRate (case latest p of Some s \<Rightarrow> upload_of s | None \<Rightarrow> 0),
      show_int (case latest p of Some s \<Rightarrow> ovs_active_connections s | None \<Rightarrow> 0),
      show_int (int (length (filter (\<lambda>(listener, _, _). ln_enabled listener)
        (case ov_data p of Some d \<Rightarrow> routes_of d | None \<Rightarrow> [])))))"

datatype status_band = StatusLoading | StatusRunning | StatusStopped

definition statusBand :: "DataPlaneStatus option \<Rightarrow> bool \<Rightarrow> status_band" where
  "statusBand status loading =
     (if loading then StatusLoading
      else if (case status of Some s \<Rightarrow> dps_running s | None \<Rightarrow> False) then StatusRunning else StatusStopped)"

record route_row =
  rw_group :: "jstr option"
  rw_strategy :: "ProxyGroupStrategy option"
  rw_badges :: "(jstr \<times> action_label) list"
  rw_more :: nat
  rw_download :: jstr
  rw_upload :: jstr
  rw_connections :: int
  rw_total :: jstr
  rw_today :: jstr

definition summary_bytes :: "TrafficSummary option \<Rightarrow> rat" where
  "summary_bytes s = (case s of Some t \<Rightarrow> of_int (ts_upload_bytes t + ts_download_bytes t) | None \<Rightarrow> 0)"

definition routeRow ::
  "OverviewSample list \<Rightarrow> overview_data \<Rightarrow> ListenerRecord \<times> ProxyGroup option \<times> RoutingRuleSet list \<Rightarrow> route_row" where
  "routeRow samples d route =
     (case route of (listener, pgroup, sets) \<Rightarrow>
        let live = resourceSample (if samples = [] then None else Some (last samples)) (ln_id listener) in
        \<lparr>rw_group = map_option pg_name pgroup, rw_strategy = map_option pg_strategy pgroup,
         rw_badges = map (\<lambda>rset. (rs_name rset, actionLabel rset (ln_proxy_group_id listener))) (take 4 sets),
         rw_more = length sets - 4,
         rw_download = formatRate (case live of Some r \<Rightarrow> of_int (ovr_download_bytes_per_second r) | None \<Rightarrow> 0),
         rw_upload = formatRate (case live of Some r \<Rightarrow> of_int (ovr_upload_bytes_per_second r) | None \<Rightarrow> 0),
         rw_connections = (case live of Some r \<Rightarrow> ovr_active_connections r | None \<Rightarrow> 0),
         rw_total = formatOverviewBytes (summary_bytes (map_of (od_totals d) (ln_id listener))),
         rw_today = formatOverviewBytes (summary_bytes (map_of (od_today d) (ln_id listener)))\<rparr>)"

section \<open>Facts\<close>

lemma spans_pos [simp]: "0 < spans n"
  by (simp add: spans_def)

lemma spans_bound: "k < n \<Longrightarrow> of_nat k \<le> spans n"
proof -
  assume "k < n"
  then have "(of_nat (Suc k) :: rat) \<le> of_nat n" by (subst of_nat_le_iff) simp
  then show ?thesis by (simp add: spans_def)
qed

text \<open>One position further and one step back is where the sample belongs.\<close>

lemma chartX_step: "chartX (Suc k) n width left - chart_step width n = chartX k n width left"
  by (simp add: chartX_def chart_step_def add_divide_distrib field_simps)

lemma chartX_range:
  assumes "k < n" "0 \<le> width"
  shows "left \<le> chartX k n width left" "chartX k n width left \<le> left + width"
proof -
  have "of_nat k / spans n \<le> 1" using spans_bound[OF assms(1)] by simp
  then have "of_nat k / spans n * width \<le> 1 * width" using assms(2) by (rule mult_right_mono)
  then show "chartX k n width left \<le> left + width" by (simp add: chartX_def)
  show "left \<le> chartX k n width left"
    using assms(2) less_imp_le[OF spans_pos] by (simp add: chartX_def)
qed

lemma chartY_range:
  assumes "0 \<le> v" "v \<le> maximum" "0 < maximum" "in_top i + in_bottom i \<le> height"
  shows "in_top i \<le> chartY v maximum height i" "chartY v maximum height i \<le> height - in_bottom i"
proof -
  have "v / maximum \<le> 1" using assms by simp
  then have "v / maximum * (height - in_top i - in_bottom i) \<le> 1 * (height - in_top i - in_bottom i)"
    using assms(4) by (intro mult_right_mono) simp_all
  then show "in_top i \<le> chartY v maximum height i" by (simp add: chartY_def)
  show "chartY v maximum height i \<le> height - in_bottom i" using assms by (simp add: chartY_def)
qed

lemma chart_maximum_bounds:
  "1 \<le> chart_maximum samples"
  "s \<in> set samples \<Longrightarrow> upload_of s \<le> chart_maximum samples"
  "s \<in> set samples \<Longrightarrow> download_of s \<le> chart_maximum samples"
  unfolding chart_maximum_def by (auto intro!: Max_ge)

lemma slide_timestamps:
  assumes "canSlideChart previous current" "k < length current"
  shows "ovs_timestamp ((previous @ [last current]) ! Suc k) = ovs_timestamp (current ! k)"
proof -
  have len: "length current = length previous" and
    keep: "map ovs_timestamp (butlast current) = map ovs_timestamp (tl previous)"
    using assms(1) by (auto simp: canSlideChart_def split: if_splits)
  show ?thesis
  proof (cases "Suc k < length current")
    case True
    then have "map ovs_timestamp (butlast current) ! k = map ovs_timestamp (tl previous) ! k" by (simp add: keep)
    with True len show ?thesis by (simp add: nth_append nth_butlast nth_tl)
  next
    case False
    with assms(2) len have here: "Suc k = length previous" "current \<noteq> []" "length current - 1 = k" by auto
    show ?thesis unfolding here(1) nth_append_length using here(2, 3) by (simp add: last_conv_nth)
  qed
qed

lemma transition_cases:
  assumes "useChartTransition reduced samples (chart_effect samples step st) = Some tr"
  obtains previous where "cs_previous st = Some previous" "canSlideChart previous samples" "samples \<noteq> []"
    "0 < step" "tr_samples tr = previous @ [last samples]" "tr_step tr = step" "\<not> reduced"
  using assms by (auto simp: useChartTransition_def chart_effect_def Let_def split: option.splits if_splits)



text \<open>A slide starts at the picture it replaces, but for the scale of the new maximum.\<close>

lemma slide_starts:
  assumes "useChartTransition reduced samples (chart_effect samples step st) = Some tr"
  shows "cs_previous st = Some (take (length samples) (tr_samples tr))"
  using assms by (rule transition_cases) (auto simp: canSlideChart_def split: if_splits)

text \<open>
  The points of both lines of the traffic chart lie within the rectangle of the plot, whatever
  the number of samples and however small the traffic.
\<close>

lemma chart_points_inside:
  assumes "\<forall>s \<in> set samples. 0 \<le> upload_of s \<and> 0 \<le> download_of s"
    and "(x, y) \<in> set (line_points (map upload_of samples) (chart_maximum samples) chart_width chart_height chart_inset (length samples)) \<union>
      set (line_points (map download_of samples) (chart_maximum samples) chart_width chart_height chart_inset (length samples))"
  shows "64 \<le> x \<and> x \<le> 942 \<and> 16 \<le> y \<and> y \<le> 226"
proof -
  obtain f where f: "f = upload_of \<or> f = download_of" and
    point: "(x, y) \<in> set (line_points (map f samples) (chart_maximum samples) chart_width chart_height chart_inset (length samples))"
    using assms(2) by blast
  obtain k where k: "k < length samples" and x: "x = chartX k (length samples) 878 64"
    and y: "y = chartY (f (samples ! k)) (chart_maximum samples) 260 chart_inset"
    using point by (auto simp: line_points_def chart_width_def chart_height_def chart_inset_def)
  have s: "samples ! k \<in> set samples" using k by simp
  have "0 \<le> f (samples ! k)" "f (samples ! k) \<le> chart_maximum samples"
    using f assms(1) s chart_maximum_bounds(2, 3)[OF s] by auto
  moreover have "0 < chart_maximum samples" using chart_maximum_bounds(1)[of samples] by linarith
  ultimately have "16 \<le> y" "y \<le> 226"
    using chartY_range[of "f (samples ! k)" "chart_maximum samples" chart_inset 260]
    by (simp_all add: y chart_inset_def)
  with chartX_range[of k "length samples" 878 64] k show ?thesis by (simp add: x)
qed

lemma xIndexes_within: "0 < n \<Longrightarrow> set (xIndexes n) \<subseteq> {0..<n} \<and> distinct (xIndexes n) \<and> {0, n - 1} \<subseteq> set (xIndexes n)"
  by (auto simp: xIndexes_def)

text \<open>The area of a sample is centred at its point, and the next one begins before it ends.\<close>

lemma hover_area_centred:
  "fst (hover_area k n) + snd (hover_area k n) / 2 = chartX k n 878 64"
  "fst (hover_area (Suc k) n) \<le> fst (hover_area k n) + snd (hover_area k n)"
proof -
  have next_x: "chartX (Suc k) n 878 64 = chartX k n 878 64 + 878 / spans n"
    using chartX_step[of k n 878 64] by (simp add: chart_step_def)
  show "fst (hover_area k n) + snd (hover_area k n) / 2 = chartX k n 878 64"
    by (simp add: hover_area_def plotWidth_def chart_width_def chart_inset_def Let_def max_def)
  show "fst (hover_area (Suc k) n) \<le> fst (hover_area k n) + snd (hover_area k n)"
    by (simp add: hover_area_def plotWidth_def chart_width_def chart_inset_def Let_def max_def next_x)
qed

lemma tooltip_inside: "12 \<le> tooltipLeft index n \<and> tooltipLeft index n \<le> 88"
  by (simp add: tooltipLeft_def)

end
