(* ===== verification/AppShell.thy ===== *)
theory AppShell
  imports ApiCalls
begin

text \<open>
  The shell around all pages (web/src/App.tsx) and the login form (web/src/pages/auth-page.tsx):
  the address hash and the page it selects, the authentication gate with the CSRF token of the
  HTTP client, the notice with its timers, health, the side bar, the prefetching of page chunks.
  The shell is a state with one step per event, and a screen is computed from the state; the chunks
  themselves, markup and icons are left out.
\<close>

section \<open>Pages and the address\<close>

datatype Page =
    Overview | Subscriptions | RoutingPage | Residential | Rules | Settings | Alerts | Artifacts
  | TerminalTab | About

definition page_id :: "Page \<Rightarrow> jstr" where
  "page_id p = js (case p of
     Overview \<Rightarrow> ''overview'' | Subscriptions \<Rightarrow> ''subscriptions'' | RoutingPage \<Rightarrow> ''routing''
   | Residential \<Rightarrow> ''residential'' | Rules \<Rightarrow> ''rules'' | Settings \<Rightarrow> ''settings'' | Alerts \<Rightarrow> ''alerts''
   | Artifacts \<Rightarrow> ''artifacts'' | TerminalTab \<Rightarrow> ''terminal'' | About \<Rightarrow> ''about'')"

definition pages :: "Page list" where
  "pages = [Overview, Subscriptions, RoutingPage, Residential, Rules, Settings, Alerts, Artifacts, TerminalTab, About]"

text \<open>\<open>hash.replace(/^#\/?/, "")\<close>\<close>

fun strip_hash :: "jstr \<Rightarrow> jstr" where
  "strip_hash [] = []"
| "strip_hash (u # s) =
     (if u = 0x23 then (case s of v # r \<Rightarrow> if v = slash then r else s | [] \<Rightarrow> []) else u # s)"

definition pageFromHash :: "jstr \<Rightarrow> Page" where
  "pageFromHash hash =
     (let v = strip_hash hash in
      if v = js ''nodes'' then Subscriptions
      else or_default (find (\<lambda>p. page_id p = v) pages) Overview)"

text \<open>Assigning \<open>location.hash = s\<close> makes the hash \<open>#s\<close>.\<close>

definition hash_of :: "Page \<Rightarrow> jstr" where
  "hash_of p = 0x23 # slash # page_id p"

section \<open>Prefetching\<close>

text \<open>The prefetched pages, and whether the call starts a download; a failed one may be repeated.\<close>

definition preloadPage :: "Page \<Rightarrow> Page set \<Rightarrow> Page set \<times> bool" where
  "preloadPage p done = (if p \<in> done then (done, False) else (insert p done, True))"

definition preload_failed :: "Page \<Rightarrow> Page set \<Rightarrow> Page set" where
  "preload_failed p done = done - {p}"

section \<open>State\<close>

datatype auth_gate = Checking | LoginNeeded bool | Ready "jstr option"

record notice =
  nt_id :: int
  nt_message :: jstr
  nt_success :: bool

record shell =
  sh_page :: Page
  sh_healthy :: "bool option"
  sh_notice :: "notice option"
  sh_gate :: auth_gate
  sh_terminal_mounted :: bool
  sh_collapsed :: bool
  sh_client :: client

text \<open>After the first render the handler is registered and a visit of the terminal mounts it.\<close>

definition initial_shell :: "jstr \<Rightarrow> jstr option \<Rightarrow> shell" where
  "initial_shell hash stored =
     \<lparr>sh_page = pageFromHash hash, sh_healthy = None, sh_notice = None, sh_gate = Checking,
      sh_terminal_mounted = (pageFromHash hash = TerminalTab), sh_collapsed = (stored = Some (js ''1'')),
      sh_client = setUnauthenticatedHandler True initial_client\<rparr>"

text \<open>What the side bar effect stores.\<close>

definition stored_collapsed :: "shell \<Rightarrow> jstr" where
  "stored_collapsed s = (if sh_collapsed s then js ''1'' else js ''0'')"

section \<open>Events\<close>

definition setPage :: "Page \<Rightarrow> shell \<Rightarrow> shell" where
  "setPage p s = s\<lparr>sh_page := p, sh_terminal_mounted := (sh_terminal_mounted s \<or> p = TerminalTab)\<rparr>"

text \<open>The answer of the status request of \<open>refreshAuth\<close>.\<close>

definition refreshAuth :: "AuthStatus outcome \<Rightarrow> shell \<Rightarrow> shell" where
  "refreshAuth answer s =
     (case answer of
        Inl _ \<Rightarrow> s\<lparr>sh_gate := Ready None\<rparr>
      | Inr status \<Rightarrow>
          if \<not> aus_configured status then s\<lparr>sh_gate := LoginNeeded False\<rparr>
          else if \<not> aus_authenticated status then
            s\<lparr>sh_client := setCsrfToken [] (sh_client s), sh_gate := LoginNeeded True\<rparr>
          else
            s\<lparr>sh_client := (case Option.bind (aus_csrf_token status) nonempty of
                Some token \<Rightarrow> setCsrfToken token (sh_client s) | None \<Rightarrow> sh_client s),
              sh_gate := Ready (aus_username status)\<rparr>)"

text \<open>The unauthenticated handler, \<open>requireLogin\<close> and the end of \<open>handleLogout\<close>.\<close>

definition requireLogin :: "shell \<Rightarrow> shell" where
  "requireLogin s = s\<lparr>sh_client := setCsrfToken [] (sh_client s), sh_gate := LoginNeeded True\<rparr>"

definition handleLogout :: "unit outcome \<Rightarrow> shell \<Rightarrow> shell" where
  "handleLogout answer s = requireLogin (case answer of Inr _ \<Rightarrow> s\<lparr>sh_client := setCsrfToken [] (sh_client s)\<rparr> | Inl _ \<Rightarrow> s)"

definition showNotice :: "notice \<Rightarrow> shell \<Rightarrow> shell" where
  "showNotice n s = s\<lparr>sh_notice := Some n\<rparr>"

text \<open>The timer of a notice, 4.5 seconds after it was shown.\<close>

definition notice_timer :: "int \<Rightarrow> unit \<Rightarrow> shell \<Rightarrow> shell \<times> unit list" where
  "notice_timer i _ s =
     (case sh_notice s of
        Some n \<Rightarrow> if nt_id n = i then (s\<lparr>sh_notice := None\<rparr>, []) else (s, [])
      | None \<Rightarrow> (s, []))"

interpretation notices: guarded_callback "\<lambda>s. map_option nt_id (sh_notice s)" notice_timer
  by unfold_locales (auto simp: notice_timer_def split: option.splits)

definition closeNotice :: "shell \<Rightarrow> shell" where
  "closeNotice s = s\<lparr>sh_notice := None\<rparr>"

definition health_answered :: "bool \<Rightarrow> shell \<Rightarrow> shell" where
  "health_answered ready s = s\<lparr>sh_healthy := Some ready\<rparr>"

definition toggle_sidebar :: "shell \<Rightarrow> shell" where
  "toggle_sidebar s = s\<lparr>sh_collapsed := \<not> sh_collapsed s\<rparr>"

text \<open>The login of the form stores the token; the status request that follows is an event of its own.\<close>

definition logged_in :: "LoginResult \<Rightarrow> shell \<Rightarrow> shell" where
  "logged_in r s = s\<lparr>sh_client := setCsrfToken (lr_csrf_token r) (sh_client s)\<rparr>"

datatype shell_event =
    HashChanged jstr
  | Navigate Page
  | StatusAnswered "AuthStatus outcome"
  | Unauthenticated
  | LogoutSettled "unit outcome"
  | SignedOut
  | LoggedIn LoginResult
  | HealthAnswered bool
  | NoticeShown notice
  | NoticeTimer int
  | NoticeClosed
  | SidebarToggled

fun shell_step :: "shell_event \<Rightarrow> shell \<Rightarrow> shell" where
  "shell_step (HashChanged hash) s = setPage (pageFromHash hash) s"
| "shell_step (Navigate p) s = setPage p s"
| "shell_step (StatusAnswered answer) s = refreshAuth answer s"
| "shell_step Unauthenticated s = requireLogin s"
| "shell_step (LogoutSettled answer) s = handleLogout answer s"
| "shell_step SignedOut s = requireLogin s"
| "shell_step (LoggedIn r) s = logged_in r s"
| "shell_step (HealthAnswered ready) s = health_answered ready s"
| "shell_step (NoticeShown n) s = showNotice n s"
| "shell_step (NoticeTimer i) s = fst (notice_timer i () s)"
| "shell_step NoticeClosed s = closeNotice s"
| "shell_step SidebarToggled s = toggle_sidebar s"

abbreviation shell_run :: "shell_event list \<Rightarrow> shell \<Rightarrow> shell" where
  "shell_run es s \<equiv> foldl (\<lambda>s e. shell_step e s) s es"

section \<open>The login form\<close>

record auth_form =
  af_setup_token :: jstr
  af_username :: jstr
  af_password :: jstr
  af_busy :: bool
  af_error :: "jstr option option"

text \<open>
  Submitting: the requests, in order, against \<open>post\<close> (the failure of a request, if any), the form
  afterwards and whether the shell is told. An error is the message of an \<open>ApiError\<close>, or
  \<open>Some None\<close> for the fixed text.
\<close>

definition shown_error :: "js_error \<Rightarrow> jstr option" where
  "shown_error cause = (case cause of ApiError m _ _ _ \<Rightarrow> Some m | _ \<Rightarrow> None)"

definition submit_login ::
  "bool \<Rightarrow> (http_call \<Rightarrow> js_error option) \<Rightarrow> auth_form \<Rightarrow> http_call list \<times> auth_form \<times> bool" where
  "submit_login configured post f =
     (if af_busy f then ([], f, False)
      else
        (let f = f\<lparr>af_error := None\<rparr>;
             setup = authSetup (trim (af_setup_token f)) (trim (af_username f)) (af_password f);
             enter = login (trim (af_username f)) (af_password f)
         in case (if configured then None else post setup) of
              Some cause \<Rightarrow> ([setup], f\<lparr>af_error := Some (shown_error cause)\<rparr>, False)
            | None \<Rightarrow>
                (let calls = (if configured then [] else [setup]) @ [enter] in
                 case post enter of
                   Some cause \<Rightarrow> (calls, f\<lparr>af_error := Some (shown_error cause)\<rparr>, False)
                 | None \<Rightarrow> (calls, f, True))))"

section \<open>The address and the page\<close>

lemma page_ids_distinct: "distinct (map page_id pages)"
  by (simp add: pages_def page_id_def)

lemma pages_complete: "p \<in> set pages"
  by (cases p) (simp_all add: pages_def)

lemma find_page: "find (\<lambda>q. page_id q = page_id p) pages = Some p"
  by (cases p) (simp_all add: pages_def page_id_def)

lemma page_not_nodes: "page_id p \<noteq> js ''nodes''"
  by (cases p) (simp_all add: page_id_def)

lemma pageFromHash_id: "strip_hash hash = page_id p \<Longrightarrow> pageFromHash hash = p"
  by (simp add: pageFromHash_def page_not_nodes find_page)

text \<open>
  Navigating selects the page and leaves an address that selects it again: the change event
  that the navigation causes, and a later visit of the address, keep the page, and no other page
  has that address.
\<close>

theorem navigate_stable:
  "(let s' = shell_step (Navigate p) s in
     sh_page s' = p \<and> shell_step (HashChanged (hash_of p)) s' = s' \<and>
     (\<forall>stored. sh_page (initial_shell (hash_of q) stored) = p \<longleftrightarrow> q = p))"
proof -
  have hash: "pageFromHash (hash_of q) = q" for q
    by (rule pageFromHash_id) (simp add: hash_of_def slash_def)
  show ?thesis by (simp add: hash setPage_def initial_shell_def Let_def)
qed

section \<open>Signing out\<close>

text \<open>Events that do not let anybody in.\<close>

fun admits :: "shell_event \<Rightarrow> bool" where
  "admits (LoggedIn r) = True"
| "admits (StatusAnswered (Inr status)) = (aus_configured status \<and> aus_authenticated status)"
| "admits (StatusAnswered (Inl e)) = True"
| "admits e = False"

definition signed_out :: "shell \<Rightarrow> bool" where
  "signed_out s \<longleftrightarrow> csrf_token (sh_client s) = [] \<and> (\<exists>configured. sh_gate s = LoginNeeded configured)"

lemma requireLogin_signed_out: "signed_out (requireLogin s)"
  by (auto simp: signed_out_def requireLogin_def setCsrfToken_def)

lemmas shell_step_defs = setPage_def refreshAuth_def requireLogin_def handleLogout_def
  logged_in_def health_answered_def showNotice_def notice_timer_def closeNotice_def toggle_sidebar_def setCsrfToken_def

lemma signed_out_step: "signed_out s \<Longrightarrow> \<not> admits e \<Longrightarrow> signed_out (shell_step e s)"
  by (cases e rule: admits.cases)
    (auto simp: signed_out_def shell_step_defs split: option.splits sum.splits)

lemma signed_out_run: "signed_out s \<Longrightarrow> list_all (\<lambda>e. \<not> admits e) es \<Longrightarrow> signed_out (shell_run es s)"
  by (induction es arbitrary: s) (simp_all add: signed_out_step)

text \<open>
  C30: however signing out ends (also when its request fails, or the server reported 401), the
  login form is shown and no request carries a CSRF token of its own, until a login or a status
  answer admits somebody.
\<close>

theorem signed_out_stays:
  assumes "e \<in> {Unauthenticated, SignedOut, LogoutSettled answer}" and "list_all (\<lambda>e. \<not> admits e) es"
  shows "(let s' = shell_run (e # es) s in
     (\<exists>configured. sh_gate s' = LoginNeeded configured) \<and>
     headers_get (fc_headers (send (sh_client s') call)) ''X-CSRF-Token'' =
       headers_get (new_headers (in_headers (snd call))) ''X-CSRF-Token'')"
proof -
  have "signed_out (shell_step e s)" using assms(1) requireLogin_signed_out by (auto simp: handleLogout_def)
  then have "signed_out (shell_run (e # es) s)" using assms(2) by (simp add: signed_out_run)
  then show ?thesis by (cases call) (simp add: Let_def signed_out_def send_csrf)
qed

definition logout_failure :: "unit outcome" where
  "logout_failure = Inl (NetworkError [])"

theorem signed_out_stays_witness:
  "\<exists>configured. sh_gate (shell_run [LogoutSettled logout_failure, NoticeTimer 1, HashChanged []] (initial_shell [] None))
     = LoginNeeded configured"
proof -
  have "LogoutSettled logout_failure \<in> {Unauthenticated, SignedOut, LogoutSettled logout_failure}"
    and "list_all (\<lambda>e. \<not> admits e) [NoticeTimer 1, HashChanged []]" by simp_all
  from signed_out_stays[OF this, of "initial_shell [] None" "([], \<lparr>in_method = None, in_headers = [], in_body = NoBody\<rparr>)"]
  show ?thesis unfolding Let_def by blast
qed

section \<open>What is on the screen\<close>

definition page_label :: "Page \<Rightarrow> jstr" where
  "page_label p = (case p of
     Overview \<Rightarrow> [0x603B, 0x89C8]
   | Subscriptions \<Rightarrow> [0x8BA2, 0x9605, 0x4E0E, 0x8282, 0x70B9]
   | RoutingPage \<Rightarrow> [0x4EE3, 0x7406, 0x670D, 0x52A1]
   | Residential \<Rightarrow> [0x4F4F, 0x5B85, 0x4EE3, 0x7406]
   | Rules \<Rightarrow> [0x7AD9, 0x70B9, 0x522B, 0x540D]
   | Settings \<Rightarrow> [0x5168, 0x5C40, 0x914D, 0x7F6E]
   | Alerts \<Rightarrow> [0x544A, 0x8B66]
   | Artifacts \<Rightarrow> [0x5907, 0x4EFD]
   | TerminalTab \<Rightarrow> [0x7EC8, 0x7AEF]
   | About \<Rightarrow> [0x5173, 0x4E8E])"

definition page_description :: "Page \<Rightarrow> jstr" where
  "page_description p = (case p of
     Overview \<Rightarrow> [0x6D41, 0x91CF, 0x4E0E, 0x8DEF, 0x7531]
   | Subscriptions \<Rightarrow> [0x6765, 0x6E90, 0x3001, 0x5237, 0x65B0, 0x4E0E, 0x8D28, 0x91CF]
   | RoutingPage \<Rightarrow> [0x4EE3, 0x7406, 0x7EC4, 0x4E0E, 0x20, 0x4C, 0x69, 0x73, 0x74, 0x65, 0x6E, 0x65, 0x72]
   | Residential \<Rightarrow> [0x52A8, 0x6001, 0x4F4F, 0x5B85, 0x20, 0x49, 0x50, 0x20, 0x6E20, 0x9053]
   | Rules \<Rightarrow> [0x53EF, 0x590D, 0x7528, 0x7F51, 0x9875, 0x7EC4]
   | Settings \<Rightarrow> [0x6D4B, 0x901F, 0x3001, 0x44, 0x4E, 0x53, 0x20, 0x4E0E, 0x6027, 0x80FD]
   | Alerts \<Rightarrow> [0x72B6, 0x6001, 0x4E0E, 0x90AE, 0x4EF6, 0x901A, 0x77E5]
   | Artifacts \<Rightarrow> [0x42, 0x61, 0x63, 0x6B, 0x75, 0x70, 0x20, 0x4E0E, 0x20, 0x45, 0x78, 0x70, 0x6F, 0x72, 0x74]
   | TerminalTab \<Rightarrow> [0x670D, 0x52A1, 0x5668, 0x20, 0x53, 0x68, 0x65, 0x6C, 0x6C]
   | About \<Rightarrow> [0x7248, 0x672C, 0x3001, 0x47, 0x69, 0x74, 0x48, 0x75, 0x62, 0x20, 0x4E0E, 0x66F4, 0x65B0])"

text \<open>
  An entry of the side bar: what it shows (label and description, nothing when collapsed), its
  accessible label and tooltip when collapsed, and whether it is the current page.
\<close>

record sidebar_item =
  si_texts :: "(jstr \<times> jstr) option"
  si_aria :: "jstr option"
  si_tooltip :: "(jstr \<times> jstr) option"
  si_active :: bool

definition sidebar_item :: "shell \<Rightarrow> Page \<Rightarrow> sidebar_item" where
  "sidebar_item s p =
     (let texts = (page_label p, page_description p) in
      \<lparr>si_texts = (if sh_collapsed s then None else Some texts),
       si_aria = (if sh_collapsed s then Some (page_label p) else None),
       si_tooltip = (if sh_collapsed s then Some texts else None),
       si_active = (p = sh_page s)\<rparr>)"

definition status_text :: "bool option \<Rightarrow> jstr" where
  "status_text healthy = (case healthy of None \<Rightarrow> [0x68C0, 0x6D4B, 0x4E2D] | Some True \<Rightarrow> [0x5C31, 0x7EEA] | Some False \<Rightarrow> [0x79BB, 0x7EBF])"

text \<open>
  The pages that are mounted: the current one, anew at each change, and the terminal from its first
  visit on, hidden while another page is current. Nothing is mounted behind the gate.
\<close>

datatype screen =
    CheckingScreen
  | LoginScreen bool
  | PagesScreen (sc_mounted: "Page list") (sc_visible: "Page list") (sc_offline: bool) (sc_notice: "notice option")
      (sc_logout: "jstr option")

definition mounted_pages :: "shell \<Rightarrow> Page list" where
  "mounted_pages s =
     (if sh_page s \<noteq> TerminalTab then [sh_page s] else []) @ (if sh_terminal_mounted s then [TerminalTab] else [])"

definition screen_of :: "shell \<Rightarrow> screen" where
  "screen_of s =
     (case sh_gate s of
        Checking \<Rightarrow> CheckingScreen
      | LoginNeeded configured \<Rightarrow> LoginScreen configured
      | Ready username \<Rightarrow>
          PagesScreen (mounted_pages s) (filter (\<lambda>p. p \<noteq> TerminalTab \<or> sh_page s = TerminalTab) (mounted_pages s))
            (sh_healthy s = Some False) (sh_notice s) (Option.bind username nonempty))"

text \<open>The view that the inventory page starts with.\<close>

definition inventory_starts_with_nodes :: "jstr \<Rightarrow> bool" where
  "inventory_starts_with_nodes hash \<longleftrightarrow> str_includes hash (js ''nodes'')"

definition terminal_ready :: "shell \<Rightarrow> bool" where
  "terminal_ready s \<longleftrightarrow> (sh_page s = TerminalTab \<longrightarrow> sh_terminal_mounted s)"

lemma terminal_ready_run: "terminal_ready s \<Longrightarrow> terminal_ready (shell_run es s)"
proof (induction es arbitrary: s)
  case (Cons e es)
  from Cons.prems have "terminal_ready (shell_step e s)"
    by (cases e) (auto simp: terminal_ready_def shell_step_defs split: option.splits sum.splits)
  then show ?case by (simp add: Cons.IH)
qed simp

text \<open>
  Exactly the current page is visible behind the gate, and the terminal, once visited, stays
  mounted over all changes of the page as long as the gate is open.
\<close>

lemma current_page_visible:
  "sh_gate (shell_run es (initial_shell hash stored)) = Ready u \<Longrightarrow>
     sc_visible (screen_of (shell_run es (initial_shell hash stored))) = [sh_page (shell_run es (initial_shell hash stored))]"
proof -
  have "terminal_ready (shell_run es (initial_shell hash stored))"
    by (rule terminal_ready_run) (simp add: terminal_ready_def initial_shell_def)
  then show "sh_gate (shell_run es (initial_shell hash stored)) = Ready u \<Longrightarrow> ?thesis"
    by (auto simp: terminal_ready_def screen_of_def mounted_pages_def)
qed

lemma terminal_stays: "sh_terminal_mounted s \<Longrightarrow> sh_terminal_mounted (shell_run es s)"
proof (induction es arbitrary: s)
  case (Cons e es)
  from Cons.prems have "sh_terminal_mounted (shell_step e s)"
    by (cases e) (auto simp: shell_step_defs split: option.splits sum.splits)
  then show ?case by (simp add: Cons.IH)
qed simp

text \<open>
  A report of 401 by any request unmounts all pages, the terminal with its connection among them,
  and after a login the terminal is mounted again even if another page is current.
\<close>

lemma unauthenticated_unmounts:
  assumes "sh_terminal_mounted s" "sh_page s \<noteq> TerminalTab"
  shows "screen_of (shell_step Unauthenticated s) = LoginScreen True \<and>
     sc_mounted (screen_of (shell_run [Unauthenticated, StatusAnswered (Inl cause)] s)) = [sh_page s, TerminalTab]"
  using assms by (simp add: screen_of_def requireLogin_def refreshAuth_def mounted_pages_def)

text \<open>The timer of an earlier notice does not remove a later one.\<close>

lemma notice_kept: "list_all (\<lambda>i. i \<noteq> nt_id n) is \<Longrightarrow>
    shell_run (map NoticeTimer is) (showNotice n s) = showNotice n s"
  by (induction "is") (simp_all add: showNotice_def notice_timer_def)

text \<open>
  When the account was set up but the login after it failed, the form still asks for the setup,
  so that submitting again repeats a setup that the server will refuse.
\<close>

lemma setup_repeated:
  assumes "\<not> af_busy f" "post (authSetup (trim (af_setup_token f)) (trim (af_username f)) (af_password f)) = None"
    and "post (login (trim (af_username f)) (af_password f)) = Some cause"
    and "post' (authSetup (trim (af_setup_token f)) (trim (af_username f)) (af_password f)) = Some refused"
  shows "(let (_, g, told) = submit_login False post f in \<not> told \<and>
    fst (submit_login False post' g) = [authSetup (trim (af_setup_token f)) (trim (af_username f)) (af_password f)])"
  using assms by (simp add: submit_login_def Let_def)

end
