(* ===== verification/Residential.thy ===== *)
theory Residential
  imports Numbers ApiCalls
begin

text \<open>
  The forms of the residential proxy page (web/src/pages/residential-page.tsx): the provider form with
  its presets, the channel form, the endpoint form, and the shown public endpoint. What a form sends is a record of the sent object, with
  \<open>Number(...)\<close> values as they are before the JSON text is made.
\<close>

section \<open>Region lists\<close>

definition is_separator :: "nat \<Rightarrow> bool" where
  "is_separator u \<longleftrightarrow> u = 0x2C \<or> is_space u"

text \<open>\<open>s.split(/[,\s]+/)\<close>\<close>

function split_runs :: "jstr \<Rightarrow> jstr list" where
  "split_runs s =
     (case dropWhile (\<lambda>u. \<not> is_separator u) s of
        [] \<Rightarrow> [s]
      | u # r \<Rightarrow> takeWhile (\<lambda>u. \<not> is_separator u) s # split_runs (dropWhile is_separator r))"
  by auto
termination
proof (relation "measure length")
  fix s r :: jstr and u
  assume "dropWhile (\<lambda>u. \<not> is_separator u) s = u # r"
  then have "length r < length s"
    by (metis length_Cons length_dropWhile_le less_eq_Suc_le)
  then show "(dropWhile is_separator r, s) \<in> measure length"
    using length_dropWhile_le[of is_separator r] by simp
qed simp

declare split_runs.simps [simp del]

definition parseRegionList :: "jstr \<Rightarrow> jstr list" where
  "parseRegionList v = unique (filter (\<lambda>item. item \<noteq> []) (map trim (split_runs v)))"

section \<open>The provider form\<close>

record provider_form =
  pf_name :: jstr
  pf_vendor :: jstr
  pf_protocol :: ResidentialProtocol
  pf_rotation :: ResidentialRotationMode
  pf_gateway_host :: jstr
  pf_gateway_port :: jstr
  pf_upstream :: jstr
  pf_api_proxy_url :: jstr
  pf_api_url :: jstr
  pf_worker_url :: jstr
  pf_username :: jstr
  pf_password :: jstr
  pf_template :: jstr
  pf_session_ttl :: jstr
  pf_max_sessions :: jstr
  pf_expiry :: ResidentialSessionExpiryPolicy
  pf_region :: jstr
  pf_region_mode :: ResidentialRegionMode
  pf_random_regions :: jstr
  pf_enabled :: bool

definition emptyProviderForm :: provider_form where
  "emptyProviderForm =
     \<lparr>pf_name = [], pf_vendor = js ''bestproxy'', pf_protocol = PHttp, pf_rotation = SessionTemplate,
      pf_gateway_host = [], pf_gateway_port = js ''2312'', pf_upstream = [], pf_api_proxy_url = [],
      pf_api_url = [], pf_worker_url = [], pf_username = [], pf_password = [],
      pf_template = js ''{user}-session-{session}'', pf_session_ttl = js ''600'', pf_max_sessions = js ''64'',
      pf_expiry = Rotate, pf_region = [], pf_region_mode = RegionFixed, pf_random_regions = [], pf_enabled = True\<rparr>"

definition comma_space :: jstr where "comma_space = js '', ''"

text \<open>The form of a stored provider: its secrets are write-only and start blank.\<close>

definition provider_form_of :: "ResidentialProvider \<Rightarrow> provider_form" where
  "provider_form_of p =
     \<lparr>pf_name = rp_name p, pf_vendor = rp_vendor p, pf_protocol = rp_protocol p, pf_rotation = rp_rotation_mode p,
      pf_gateway_host = rp_gateway_host p, pf_gateway_port = show_int (rp_gateway_port p),
      pf_upstream = or_default (rp_upstream_proxy_group_id p) [], pf_api_proxy_url = [],
      pf_api_url = [], pf_worker_url = [], pf_username = [], pf_password = [],
      pf_template = rp_username_template p, pf_session_ttl = show_int (rp_session_ttl_seconds p),
      pf_max_sessions = show_int (rp_max_concurrent_sessions p), pf_expiry = rp_session_expiry_policy p,
      pf_region = or_default (rp_default_region p) [], pf_region_mode = rp_default_region_mode p,
      pf_random_regions = join comma_space (or_default (rp_default_random_regions p) []),
      pf_enabled = rp_enabled p\<rparr>"

definition or_number :: "int \<Rightarrow> int \<Rightarrow> int" where
  "or_number n d = (if n \<noteq> 0 then n else d)"

definition or_text :: "jstr \<Rightarrow> jstr \<Rightarrow> jstr" where
  "or_text s d = (if s \<noteq> [] then s else d)"

definition applyPreset :: "ResidentialPreset list \<Rightarrow> jstr \<Rightarrow> provider_form \<Rightarrow> provider_form" where
  "applyPreset presets vendor f =
     (if vendor = js ''custom'' then f\<lparr>pf_vendor := js ''custom''\<rparr>
      else
        (case find (\<lambda>item. rpre_vendor item = vendor) presets of
           None \<Rightarrow> f
         | Some preset \<Rightarrow>
             let worker = (rpre_rotation_mode preset = CfWorker) in
             emptyProviderForm\<lparr>pf_name := [], pf_vendor := rpre_vendor preset, pf_protocol := rpre_protocol preset,
               pf_rotation := rpre_rotation_mode preset,
               pf_gateway_host := (if worker then rpre_gateway_host preset
                                   else or_text (rpre_gateway_host preset) (js ''proxy.bestproxy.com'')),
               pf_gateway_port := show_int (or_number (rpre_gateway_port preset) (if worker then 1 else 2312)),
               pf_upstream := [], pf_api_proxy_url := [],
               pf_template := rpre_username_template preset,
               pf_session_ttl := show_int (rpre_session_ttl_seconds preset),
               pf_max_sessions := js ''64'', pf_expiry := Rotate,
               pf_region := (if rpre_vendor preset = js ''bestproxy'' then js ''US''
                             else if rpre_vendor preset = js ''rapidproxy'' then js ''GLOBAL'' else []),
               pf_region_mode := RegionFixed, pf_random_regions := []\<rparr>))"

text \<open>The effect that applies a preset once to a new provider; the flag says that it was applied.\<close>

definition preset_effect ::
  "ResidentialProvider option \<Rightarrow> ResidentialPreset list \<Rightarrow> bool \<times> provider_form \<Rightarrow> bool \<times> provider_form" where
  "preset_effect initial presets st =
     (let (applied, f) = st in
      if initial = None \<and> \<not> applied \<and> presets \<noteq> [] then (True, applyPreset presets (js ''bestproxy'') f) else st)"

text \<open>The object that is sent; \<open>pp_version\<close> is there for an update.\<close>

record provider_payload =
  pp_name :: jstr
  pp_vendor :: jstr
  pp_protocol :: ResidentialProtocol
  pp_gateway_host :: jstr
  pp_gateway_port :: jnum
  pp_upstream :: "jstr option"
  pp_api_url :: "jstr option"
  pp_worker_url :: "jstr option"
  pp_api_proxy_url :: "jstr option"
  pp_template :: jstr
  pp_rotation :: ResidentialRotationMode
  pp_session_ttl :: jnum
  pp_max_sessions :: jnum
  pp_expiry :: ResidentialSessionExpiryPolicy
  pp_region :: "jstr option"
  pp_region_mode :: ResidentialRegionMode
  pp_random_regions :: "jstr list option"
  pp_enabled :: bool
  pp_credentials :: "ResidentialCredentials option"
  pp_version :: "int option"

definition fetch_mode :: "ResidentialRotationMode \<Rightarrow> bool" where
  "fetch_mode m \<longleftrightarrow> m = ApiList \<or> m = CfWorker"

definition provider_credentials :: "provider_form \<Rightarrow> ResidentialCredentials option" where
  "provider_credentials f =
     (if pf_username f \<noteq> [] \<and> pf_password f \<noteq> []
      then Some \<lparr>rcr_username = pf_username f, rcr_password = pf_password f\<rparr> else None)"

definition provider_object :: "ResidentialProvider option \<Rightarrow> provider_form \<Rightarrow> provider_payload" where
  "provider_object initial f =
     (let fetch = fetch_mode (pf_rotation f) in
      \<lparr>pp_name = trim (pf_name f),
       pp_vendor = or_text (trim (pf_vendor f)) (js ''custom''),
       pp_protocol = pf_protocol f,
       pp_gateway_host = (if fetch then if pf_rotation f = ApiList then js ''api-list.invalid'' else js ''cf-worker.invalid''
                          else trim (pf_gateway_host f)),
       pp_gateway_port = (if fetch then Fin 1 else js_Number (pf_gateway_port f)),
       pp_upstream = (if pf_upstream f = js ''none'' then None else nonempty (pf_upstream f)),
       pp_api_url = (if pf_rotation f = ApiList then Some (trim (pf_api_url f)) else None),
       pp_worker_url = (if pf_rotation f = CfWorker then Some (trim (pf_worker_url f)) else None),
       pp_api_proxy_url = nonempty (trim (pf_api_proxy_url f)),
       pp_template = (if fetch then [] else trim (pf_template f)),
       pp_rotation = pf_rotation f,
       pp_session_ttl = js_Number (pf_session_ttl f),
       pp_max_sessions = js_Number (pf_max_sessions f),
       pp_expiry = pf_expiry f,
       pp_region = (if pf_region_mode f = RegionFixed then nonempty (trim (pf_region f)) else None),
       pp_region_mode = pf_region_mode f,
       pp_random_regions = (if pf_region_mode f = RegionApplicationRandom
                            then Some (parseRegionList (pf_random_regions f)) else None),
       pp_enabled = pf_enabled f,
       pp_credentials = provider_credentials f,
       pp_version = map_option rp_version initial\<rparr>)"

datatype provider_outcome = CredentialsMissing | SendProvider provider_payload

definition submit_provider :: "ResidentialProvider option \<Rightarrow> provider_form \<Rightarrow> provider_outcome" where
  "submit_provider initial f =
     (if provider_credentials f = None \<and> \<not> fetch_mode (pf_rotation f) \<and> initial = None
      then CredentialsMissing else SendProvider (provider_object initial f))"

section \<open>The channel form\<close>

definition ws_kind :: "jstr \<Rightarrow> ListenerKind option" where
  "ws_kind kind =
     (if kind = js ''vless'' then Some KVless else if kind = js ''vmess'' then Some KVmess
      else if kind = js ''trojan'' then Some KTrojan else None)"

definition isResidentialWebSocketKind :: "jstr \<Rightarrow> bool" where
  "isResidentialWebSocketKind kind \<longleftrightarrow> kind = js ''vless'' \<or> kind = js ''vmess'' \<or> kind = js ''trojan''"

record channel_form =
  hf_name :: jstr
  hf_provider :: jstr
  hf_providers :: "jstr list"
  hf_mode :: ResidentialChannelMode
  hf_protocol :: ListenerKind
  hf_region_mode :: ResidentialRegionMode
  hf_region :: jstr
  hf_random_regions :: jstr
  hf_public_host :: jstr
  hf_session_count :: jstr
  hf_idle_release :: jstr
  hf_preallocate :: bool
  hf_enabled :: bool

definition emptyChannelForm :: channel_form where
  "emptyChannelForm =
     \<lparr>hf_name = [], hf_provider = [], hf_providers = [], hf_mode = Sticky, hf_protocol = KVless,
      hf_region_mode = RegionFixed, hf_region = [], hf_random_regions = [], hf_public_host = [],
      hf_session_count = js ''3'', hf_idle_release = js ''0'', hf_preallocate = False, hf_enabled = True\<rparr>"

text \<open>The defaults that a channel takes over from its provider, if there is one.\<close>

definition with_defaults :: "ResidentialProvider option \<Rightarrow> channel_form \<Rightarrow> channel_form" where
  "with_defaults provider f =
     f\<lparr>hf_region_mode := or_default (map_option rp_default_region_mode provider) RegionFixed,
       hf_region := or_default (Option.bind provider rp_default_region) [],
       hf_random_regions := join comma_space (or_default (Option.bind provider rp_default_random_regions) [])\<rparr>"

definition new_channel_form :: "ResidentialProvider list \<Rightarrow> channel_form" where
  "new_channel_form providers =
     (let provider = (case find rp_enabled providers of
                        Some p \<Rightarrow> Some p | None \<Rightarrow> (case providers of p # _ \<Rightarrow> Some p | [] \<Rightarrow> None))
      in with_defaults provider
           (emptyChannelForm\<lparr>hf_provider := or_default (map_option rp_id provider) [], hf_providers := []\<rparr>))"

definition channel_form_of :: "ResidentialChannel \<Rightarrow> channel_form" where
  "channel_form_of c =
     \<lparr>hf_name = rc_name c, hf_provider = rc_provider_id c,
      hf_providers = map rp_id (or_default (rc_providers c) []), hf_mode = rc_mode c,
      hf_protocol = (if isResidentialWebSocketKind (rce_kind (rc_endpoint c))
                     then or_default (ws_kind (rce_kind (rc_endpoint c))) KVless else KVless),
      hf_region_mode = rc_region_mode c,
      hf_region = or_default (rc_region c) [],
      hf_random_regions = join comma_space (or_default (rc_random_regions c) []),
      hf_public_host = pe_host (rc_public_endpoint c),
      hf_session_count = show_int (rc_session_count c),
      hf_idle_release = show_int (rc_idle_release_seconds c),
      hf_preallocate = or_default (rc_preallocate c) False,
      hf_enabled = rc_enabled c\<rparr>"

definition selectProvider :: "ResidentialProvider list \<Rightarrow> jstr \<Rightarrow> channel_form \<Rightarrow> channel_form" where
  "selectProvider providers i f =
     with_defaults (find (\<lambda>item. rp_id item = i) providers) (f\<lparr>hf_provider := i\<rparr>)"

text \<open>The boxes of the other providers, and a click on one.\<close>

definition offered_providers :: "ResidentialProvider list \<Rightarrow> channel_form \<Rightarrow> ResidentialProvider list" where
  "offered_providers providers f = filter (\<lambda>p. rp_id p \<noteq> hf_provider f) providers"

definition check_provider :: "bool \<Rightarrow> jstr \<Rightarrow> channel_form \<Rightarrow> channel_form" where
  "check_provider checked i f =
     f\<lparr>hf_providers := (if checked then hf_providers f @ [i] else filter (\<lambda>j. j \<noteq> i) (hf_providers f))\<rparr>"

text \<open>The objects that are sent.\<close>

record channel_payload =
  cp_name :: jstr
  cp_region_mode :: ResidentialRegionMode
  cp_region :: "jstr option"
  cp_random_regions :: "jstr list option"
  cp_session_count :: "jnum option"
  cp_idle_release :: "jnum option"
  cp_preallocate :: "bool option"
  cp_public_endpoint :: "ListenerPublicEndpoint option"
  cp_enabled :: bool

record new_channel =
  nc_provider :: jstr
  nc_providers :: "jstr list"
  nc_mode :: ResidentialChannelMode
  nc_protocol :: ListenerKind

definition edge_endpoint :: "jstr \<Rightarrow> ListenerPublicEndpoint" where
  "edge_endpoint host = \<lparr>pe_host = trim host, pe_port = 443, pe_tls = True\<rparr>"

definition form_region :: "channel_form \<Rightarrow> jstr option" where
  "form_region f = (if hf_region_mode f = RegionFixed then nonempty (trim (hf_region f)) else None)"

definition form_random_regions :: "channel_form \<Rightarrow> jstr list option" where
  "form_random_regions f =
     (if hf_region_mode f = RegionApplicationRandom then Some (parseRegionList (hf_random_regions f)) else None)"

definition update_channel_payload :: "ResidentialChannel \<Rightarrow> channel_form \<Rightarrow> channel_payload" where
  "update_channel_payload initial f =
     (let sticky = (rc_mode initial = Sticky) in
      \<lparr>cp_name = trim (hf_name f), cp_region_mode = hf_region_mode f, cp_region = form_region f,
       cp_random_regions = form_random_regions f,
       cp_session_count = (if sticky then Some (js_Number (hf_session_count f)) else None),
       cp_idle_release = (if sticky then Some (js_Number (hf_idle_release f)) else None),
       cp_preallocate = (if sticky then Some (hf_preallocate f) else None),
       cp_public_endpoint = (if trim (hf_public_host f) \<noteq> [] then Some (edge_endpoint (hf_public_host f)) else None),
       cp_enabled = hf_enabled f\<rparr>)"

definition create_channel_payload :: "channel_form \<Rightarrow> new_channel \<times> channel_payload" where
  "create_channel_payload f =
     (let sticky = (hf_mode f = Sticky) in
      (\<lparr>nc_provider = hf_provider f, nc_providers = hf_providers f, nc_mode = hf_mode f, nc_protocol = hf_protocol f\<rparr>,
       \<lparr>cp_name = trim (hf_name f), cp_region_mode = hf_region_mode f, cp_region = form_region f,
        cp_random_regions = form_random_regions f,
        cp_session_count = Some (if sticky then js_Number (hf_session_count f) else Fin 0),
        cp_idle_release = Some (if sticky then js_Number (hf_idle_release f) else Fin 0),
        cp_preallocate = Some (if sticky then hf_preallocate f else False),
        cp_public_endpoint = Some (edge_endpoint (hf_public_host f)),
        cp_enabled = hf_enabled f\<rparr>))"

datatype channel_outcome =
    ProviderMissing
  | SessionsMissing
  | UpdateChannel jstr int channel_payload
  | CreateChannel new_channel channel_payload

definition submit_channel :: "ResidentialChannel option \<Rightarrow> channel_form \<Rightarrow> channel_outcome" where
  "submit_channel initial f =
     (if hf_provider f = [] then ProviderMissing
      else if hf_mode f = Sticky \<and> jnum_less (js_Number (hf_session_count f)) 1 then SessionsMissing
      else
        (case initial of
           Some c \<Rightarrow> UpdateChannel (rc_id c) (rc_version c) (update_channel_payload c f)
         | None \<Rightarrow> (case create_channel_payload f of (fresh, p) \<Rightarrow> CreateChannel fresh p)))"

section \<open>The public endpoint\<close>

definition hasPublicEndpoint :: "ResidentialChannel \<Rightarrow> bool" where
  "hasPublicEndpoint c \<longleftrightarrow> trim (pe_host (rc_public_endpoint c)) \<noteq> [] \<and> 0 < pe_port (rc_public_endpoint c)"

text \<open>The shown host and port, None for the text that there is none.\<close>

definition publicHostPort :: "ResidentialChannel \<Rightarrow> jstr option" where
  "publicHostPort c =
     (let endpoint = rc_public_endpoint c in
      if \<not> hasPublicEndpoint c then None
      else
        (let host = (if 0x3A \<in> set (pe_host endpoint) \<and> \<not> prefix (js ''['') (pe_host endpoint)
                     then js ''['' @ pe_host endpoint @ js '']'' else pe_host endpoint);
             default_port = (if pe_tls endpoint then 443 else 80)
         in Some (if pe_port endpoint = default_port then host else host @ js '':'' @ show_int (pe_port endpoint))))"

definition formatPublicEndpoint :: "ResidentialChannel \<Rightarrow> jstr option" where
  "formatPublicEndpoint c = (if hasPublicEndpoint c then publicHostPort c else None)"

text \<open>The endpoint form keeps everything else of the channel.\<close>

definition endpoint_payload :: "ResidentialChannel \<Rightarrow> jstr \<Rightarrow> UpdateResidentialChannelRequest" where
  "endpoint_payload c host =
     \<lparr>urc_version = rc_version c, urc_name = rc_name c, urc_region = rc_region c,
      urc_region_mode = Some (rc_region_mode c), urc_random_regions = rc_random_regions c,
      urc_session_count = None, urc_idle_release_seconds = None, urc_preallocate = None,
      urc_clear_direct_listener = None, urc_public_endpoint = Some (edge_endpoint host), urc_enabled = rc_enabled c\<rparr>"

section \<open>Region lists are read back\<close>

definition proper_region :: "jstr \<Rightarrow> bool" where
  "proper_region r \<longleftrightarrow> r \<noteq> [] \<and> list_all (\<lambda>u. \<not> is_separator u) r"

lemma comma_space_units: "comma_space = [44, 32]" "is_separator 44" "is_separator 32"
  by (simp_all add: comma_space_def js_eval is_separator_def is_space_def)

lemma proper_region_runs:
  assumes "list_all (\<lambda>u. \<not> is_separator u) r"
  shows "takeWhile (\<lambda>u. \<not> is_separator u) r = r" "dropWhile (\<lambda>u. \<not> is_separator u) r = []"
    "is_separator u \<Longrightarrow> takeWhile (\<lambda>u. \<not> is_separator u) (r @ u # t) = r"
    "is_separator u \<Longrightarrow> dropWhile (\<lambda>u. \<not> is_separator u) (r @ u # t) = u # t"
  using assms by (induction r) auto

lemma split_runs_last: "list_all (\<lambda>u. \<not> is_separator u) r \<Longrightarrow> split_runs r = [r]"
  by (subst split_runs.simps) (simp add: proper_region_runs)

lemma split_runs_sep:
  "list_all (\<lambda>u. \<not> is_separator u) r \<Longrightarrow> split_runs (r @ 44 # 32 # t) = r # split_runs (dropWhile is_separator t)"
  by (subst split_runs.simps) (simp add: proper_region_runs comma_space_units)

lemma join_starts: "proper_region r \<Longrightarrow> dropWhile is_separator (join comma_space (r # rs)) = join comma_space (r # rs)"
  by (cases r; cases rs) (auto simp: proper_region_def)

lemma split_runs_join: "list_all proper_region rs \<Longrightarrow> rs \<noteq> [] \<Longrightarrow> split_runs (join comma_space rs) = rs"
proof (induction rs)
  case (Cons r rs)
  show ?case
  proof (cases rs)
    case Nil
    with Cons show ?thesis by (simp add: split_runs_last proper_region_def)
  next
    case (Cons q qs)
    with Cons.prems Cons.IH join_starts[of q qs] show ?thesis
      by (simp add: join_Cons_not_Nil comma_space_units split_runs_sep proper_region_def)
  qed
qed simp

lemma proper_region_trim: "proper_region r \<Longrightarrow> trim r = r"
  by (rule trim_no_space) (auto simp: proper_region_def list_all_iff is_separator_def)

lemma parse_region_join:
  assumes "list_all proper_region rs" and "distinct rs"
  shows "parseRegionList (join comma_space rs) = rs"
proof (cases "rs = []")
  case True
  then show ?thesis by (simp add: parseRegionList_def split_runs_last)
next
  case False
  have "map trim rs = rs" using assms(1) by (intro map_idI) (auto simp: list_all_iff proper_region_trim)
  moreover have "filter (\<lambda>item. item \<noteq> []) rs = rs"
    using assms(1) by (intro filter_True) (auto simp: list_all_iff proper_region_def)
  ultimately show ?thesis
    using assms False by (simp add: parseRegionList_def split_runs_join unique_id)
qed

section \<open>Editing a provider\<close>

text \<open>What the server stores: trimmed texts, and the placeholders for providers that it fetches itself.\<close>

definition stored_provider :: "ResidentialProvider \<Rightarrow> bool" where
  "stored_provider p \<longleftrightarrow>
     trim (rp_name p) = rp_name p \<and> trim (rp_vendor p) = rp_vendor p \<and> rp_vendor p \<noteq> [] \<and>
     trim (rp_gateway_host p) = rp_gateway_host p \<and> trim (rp_username_template p) = rp_username_template p \<and>
     rp_upstream_proxy_group_id p \<notin> {Some [], Some (js ''none'')} \<and>
     (case rp_default_region p of Some r \<Rightarrow> r \<noteq> [] \<and> trim r = r | None \<Rightarrow> True) \<and>
     list_all proper_region (or_default (rp_default_random_regions p) []) \<and>
     distinct (or_default (rp_default_random_regions p) []) \<and>
     (rp_rotation_mode p = ApiList \<longrightarrow> rp_gateway_host p = js ''api-list.invalid'') \<and>
     (rp_rotation_mode p = CfWorker \<longrightarrow> rp_gateway_host p = js ''cf-worker.invalid'') \<and>
     (fetch_mode (rp_rotation_mode p) \<longrightarrow> rp_gateway_port p = 1 \<and> rp_username_template p = [])"

lemma nonempty_or_default: "x \<noteq> Some [] \<Longrightarrow> nonempty (or_default x []) = x"
  by (cases x) simp_all

text \<open>
  C29: saving the form of a stored provider unchanged sends every stored field back as it was (the
  numbers and region lists through their texts), no account and no replacement of a secret: the
  links of the fetched kinds are sent blank, which keeps them.
\<close>

theorem provider_edit_unchanged:
  assumes "stored_provider p"
  shows "submit_provider (Some p) (provider_form_of p) = SendProvider
    \<lparr>pp_name = rp_name p, pp_vendor = rp_vendor p, pp_protocol = rp_protocol p,
     pp_gateway_host = rp_gateway_host p, pp_gateway_port = Fin (of_int (rp_gateway_port p)),
     pp_upstream = rp_upstream_proxy_group_id p,
     pp_api_url = (if rp_rotation_mode p = ApiList then Some [] else None),
     pp_worker_url = (if rp_rotation_mode p = CfWorker then Some [] else None),
     pp_api_proxy_url = None, pp_template = rp_username_template p, pp_rotation = rp_rotation_mode p,
     pp_session_ttl = Fin (of_int (rp_session_ttl_seconds p)),
     pp_max_sessions = Fin (of_int (rp_max_concurrent_sessions p)), pp_expiry = rp_session_expiry_policy p,
     pp_region = (if rp_default_region_mode p = RegionFixed then rp_default_region p else None),
     pp_region_mode = rp_default_region_mode p,
     pp_random_regions = (if rp_default_region_mode p = RegionApplicationRandom
                          then Some (or_default (rp_default_random_regions p) []) else None),
     pp_enabled = rp_enabled p, pp_credentials = None, pp_version = Some (rp_version p)\<rparr>"
proof -
  have upstream: "or_default (rp_upstream_proxy_group_id p) [] \<noteq> js ''none''"
      "nonempty (or_default (rp_upstream_proxy_group_id p) []) = rp_upstream_proxy_group_id p"
    using assms by (cases "rp_upstream_proxy_group_id p"; auto simp: stored_provider_def js_eval)+
  have region: "nonempty (trim (or_default (rp_default_region p) [])) = rp_default_region p"
    using assms by (cases "rp_default_region p") (auto simp: stored_provider_def)
  have regions: "parseRegionList (join comma_space (or_default (rp_default_random_regions p) []))
      = or_default (rp_default_random_regions p) []"
    using assms by (intro parse_region_join) (auto simp: stored_provider_def)
  show ?thesis
    using assms upstream region regions
    by (simp add: submit_provider_def provider_object_def provider_form_of_def provider_credentials_def
        stored_provider_def or_text_def js_Number_show Let_def fetch_mode_def)
qed

definition sample_provider :: ResidentialProvider where
  "sample_provider =
     \<lparr>rp_id = js ''p1'', rp_name = js ''main'', rp_vendor = js ''bestproxy'', rp_protocol = PHttp,
      rp_gateway_host = js ''gw'', rp_gateway_port = 2312, rp_upstream_proxy_group_id = None,
      rp_api_url_configured = False, rp_worker_url_configured = False, rp_api_proxy_configured = False,
      rp_username_template = js ''{user}'', rp_rotation_mode = SessionTemplate, rp_session_ttl_seconds = 600,
      rp_max_concurrent_sessions = 64, rp_session_expiry_policy = Rotate, rp_default_region = None,
      rp_default_region_mode = RegionApplicationRandom, rp_default_random_regions = Some [js ''US'', js ''JP''],
      rp_credentials_configured = True, rp_gateway_username = None, rp_supports_sticky = True, rp_enabled = True,
      rp_version = 7, rp_created_at = [], rp_updated_at = []\<rparr>"

theorem provider_edit_unchanged_witness:
  "\<exists>q. submit_provider (Some sample_provider) (provider_form_of sample_provider) = SendProvider q \<and>
     pp_random_regions q = Some [js ''US'', js ''JP''] \<and> pp_gateway_port q = Fin 2312"
proof -
  have "stored_provider sample_provider"
    by (simp add: stored_provider_def sample_provider_def js_eval string_defs is_space_def proper_region_def
        is_separator_def fetch_mode_def)
  from provider_edit_unchanged[OF this] show ?thesis by (simp add: sample_provider_def)
qed

section \<open>Saving a channel\<close>

definition region_matches_mode :: "channel_payload \<Rightarrow> bool" where
  "region_matches_mode q \<longleftrightarrow>
     (if cp_region_mode q = RegionFixed then cp_random_regions q = None
      else cp_region q = None \<and> cp_random_regions q \<noteq> None)"

text \<open>
  a channel is created only for a provider, on port 443 with TLS, with regions of its mode
  only; a sticky one never with a session count below 1, any other with no sessions, no release
  time and no allocation. An update keeps the identity and version and never sends session
  settings of a channel that is not sticky. A session count that is not a number is accepted.
\<close>

theorem channel_requests:
  "(case submit_channel initial f of
      ProviderMissing \<Rightarrow> hf_provider f = []
    | SessionsMissing \<Rightarrow> hf_mode f = Sticky
    | CreateChannel fresh q \<Rightarrow>
        initial = None \<and> nc_provider fresh \<noteq> [] \<and> region_matches_mode q \<and>
        cp_public_endpoint q = Some \<lparr>pe_host = trim (hf_public_host f), pe_port = 443, pe_tls = True\<rparr> \<and>
        (if nc_mode fresh = Sticky then \<exists>n. cp_session_count q = Some n \<and> \<not> jnum_less n 1
         else cp_session_count q = Some (Fin 0) \<and> cp_idle_release q = Some (Fin 0) \<and> cp_preallocate q = Some False)
    | UpdateChannel i v q \<Rightarrow>
        (\<exists>c. initial = Some c \<and> i = rc_id c \<and> v = rc_version c \<and> region_matches_mode q \<and>
           (rc_mode c = Sticky \<or>
             cp_session_count q = None \<and> cp_idle_release q = None \<and> cp_preallocate q = None))) \<and>
   cp_session_count (snd (create_channel_payload (f\<lparr>hf_mode := Sticky, hf_session_count := js ''many''\<rparr>))) = Some NaN \<and>
   \<not> jnum_less NaN 1"
proof -
  have many: "js_Number (js ''many'') = NaN"
    by (simp add: js_Number_def js_eval string_defs is_space_def signed_text_def decimal_literal_def is_digit_def Let_def)
  show ?thesis
    by (simp add: submit_channel_def create_channel_payload_def update_channel_payload_def region_matches_mode_def
        form_region_def form_random_regions_def edge_endpoint_def Let_def jnum_less_def many
        split: option.split) (metis ResidentialRegionMode.exhaust)
qed

end
