(* ===== verification/ResidentialPage.thy ===== *)
theory ResidentialPage
  imports Residential Tasks
begin

text \<open>
  The residential proxy page at work (web/src/pages/residential-page.tsx and
  web/src/components/residential-sessions-dialog.tsx): the rows of its two tables, the controls of its
  forms, and the page as a state machine. A dialog that opens is a new instance with a number of its
  own, as React mounts it anew; a request in flight knows the instance that sent it, and answers
  arrive in any order. The tab that is selected, the layout and the byte sizes are left out.
\<close>

section \<open>Rows\<close>

definition rotationModeLabel :: "ResidentialRotationMode \<Rightarrow> jstr" where
  "rotationModeLabel m =
     (case m of
        SessionTemplate \<Rightarrow> [0x7C98, 0x6EDE, 0x4F1A, 0x8BDD, 0xFF08, 0x4F1A, 0x8BDD, 0x20, 0x49, 0x44, 0x20, 0x8F6E, 0x6362, 0xFF09]
      | PerRequest \<Rightarrow> [0x6BCF, 0x8BF7, 0x6C42, 0x8F6E, 0x6362]
      | ApiList \<Rightarrow> [0x41, 0x50, 0x49, 0x20, 0x63D0, 0x53D6, 0xFF08, 0x5237, 0x65B0, 0x8282, 0x70B9, 0xFF09]
      | CfWorker \<Rightarrow> [0x43, 0x46, 0x20, 0x57, 0x6F, 0x72, 0x6B, 0x65, 0x72, 0x20, 0x9762, 0x677F, 0xFF08, 0x4E3B, 0x52A8, 0x5237, 0x65B0, 0xFF09])"

definition regionModeLabel :: "ResidentialRegionMode \<Rightarrow> jstr" where
  "regionModeLabel m =
     (case m of
        RegionApplicationRandom \<Rightarrow> [0x5E94, 0x7528, 0x5C42, 0x968F, 0x673A, 0x5730, 0x533A]
      | RegionFixed \<Rightarrow> [0x56FA, 0x5B9A, 0x5730, 0x533A])"

text \<open>The region column: the mode, and the region or the candidates that go with it.\<close>

definition region_text :: "ResidentialRegionMode \<Rightarrow> jstr option \<Rightarrow> jstr list option \<Rightarrow> jstr" where
  "region_text m region random_regions =
     (let dot = [0x20, 0xB7, 0x20] in
      regionModeLabel m @
      (if m = RegionFixed then (case Option.bind region nonempty of Some r \<Rightarrow> dot @ r | None \<Rightarrow> []) else []) @
      (if m = RegionApplicationRandom
       then (case Option.bind random_regions nonempty of Some rs \<Rightarrow> dot @ join [0x2C] rs | None \<Rightarrow> []) else []))"

record channel_row =
  cw_providers :: jstr
  cw_sticky :: bool
  cw_region :: jstr
  cw_kind :: jstr
  cw_managed :: bool
  cw_endpoint :: "jstr option"
  cw_allocated :: int
  cw_declared :: "int option"
  cw_legacy :: bool
  cw_exits :: "nat option"
  cw_traffic :: int

definition provider_names :: "ResidentialChannel \<Rightarrow> jstr" where
  "provider_names c =
     (case Option.bind (rc_providers c) nonempty of
        Some ps \<Rightarrow> join comma_space (map rp_name ps)
      | None \<Rightarrow> or_default (rc_provider_name c) (rc_provider_id c))"

definition recorded_exits :: "ResidentialChannel \<Rightarrow> nat option" where
  "recorded_exits c =
     (let exits = filter (\<lambda>s. Option.bind (rse_exit_ip s) nonempty \<noteq> None) (or_default (rc_sessions c) [])
      in if exits = [] then None else Some (length exits))"

definition row_of_channel :: "(jstr \<rightharpoonup> TrafficSummary) \<Rightarrow> ResidentialChannel \<Rightarrow> channel_row" where
  "row_of_channel traffic c =
     \<lparr>cw_providers = provider_names c, cw_sticky = (rc_mode c = Sticky),
      cw_region = region_text (rc_region_mode c) (rc_region c) (rc_random_regions c),
      cw_kind = to_upper (rce_kind (rc_endpoint c)), cw_managed = isResidentialWebSocketKind (rce_kind (rc_endpoint c)),
      cw_endpoint = formatPublicEndpoint c, cw_allocated = rc_active_session_count c,
      cw_declared = (if 0 < rc_session_count c then Some (rc_session_count c) else None),
      cw_legacy = (rc_direct_endpoint c \<noteq> None), cw_exits = recorded_exits c,
      cw_traffic = (case traffic (rc_id c) of Some t \<Rightarrow> ts_upload_bytes t + ts_download_bytes t | None \<Rightarrow> 0)\<rparr>"

datatype provider_link = WorkerLink bool | ApiLink bool | GatewayLink jstr int

record provider_row =
  vw_rotation :: jstr
  vw_region :: jstr
  vw_link :: provider_link
  vw_api_proxy :: bool
  vw_upstream :: "jstr option option"

text \<open>The upstream: none, or the name of the group if it is known.\<close>

definition row_of_provider :: "ProxyGroup list \<Rightarrow> ResidentialProvider \<Rightarrow> provider_row" where
  "row_of_provider groups v =
     \<lparr>vw_rotation = rotationModeLabel (rp_rotation_mode v),
      vw_region = region_text (rp_default_region_mode v) (rp_default_region v) (rp_default_random_regions v),
      vw_link = (case rp_rotation_mode v of
                   CfWorker \<Rightarrow> WorkerLink (rp_worker_url_configured v)
                 | ApiList \<Rightarrow> ApiLink (rp_api_url_configured v)
                 | _ \<Rightarrow> GatewayLink (rp_gateway_host v) (rp_gateway_port v)),
      vw_api_proxy = rp_api_proxy_configured v,
      vw_upstream = map_option (\<lambda>i. map_option pg_name (find (\<lambda>group. pg_id group = i) groups))
                      (Option.bind (rp_upstream_proxy_group_id v) nonempty)\<rparr>"

section \<open>The controls of the forms\<close>

datatype provider_event =
    PresetChosen jstr | ProviderName jstr | RotationChosen ResidentialRotationMode
  | ProtocolChosen ResidentialProtocol | ApiUrlTyped jstr | WorkerUrlTyped jstr | GatewayHostTyped jstr
  | GatewayPortTyped jstr | LoginTyped jstr | LoginPasswordTyped jstr | TemplateTyped jstr
  | UpstreamChosen "jstr option" | ApiProxyTyped jstr | TtlTyped jstr | MaxSessionsTyped jstr
  | ExpiryChosen ResidentialSessionExpiryPolicy | DefaultRegionMode ResidentialRegionMode
  | DefaultRegionTyped jstr | DefaultRegionsTyped jstr

text \<open>The protocols and upstream groups on offer.\<close>

definition protocol_choices :: "ResidentialProtocol list \<Rightarrow> provider_form \<Rightarrow> ResidentialProtocol list" where
  "protocol_choices worker f = (if pf_rotation f = CfWorker then worker else [PHttp, PSocks5, PHttps])"

definition upstream_choices :: "ProxyGroup list \<Rightarrow> jstr option list" where
  "upstream_choices groups = None # map (\<lambda>group. Some (pg_id group)) (filter pg_enabled groups)"

definition protocol_hint :: "provider_form \<Rightarrow> bool" where
  "protocol_hint f \<longleftrightarrow> pf_rotation f \<noteq> CfWorker \<and>
     pf_vendor f \<in> {js ''bestproxy'', js ''bestproxy-api'', js ''rapidproxy''} \<and> pf_protocol f \<noteq> PHttp"

text \<open>Which fields are on the form: the links and the gateway by mode, the region by its mode.\<close>

fun provider_field :: "provider_form \<Rightarrow> provider_event \<Rightarrow> bool" where
  "provider_field f (ApiUrlTyped v) \<longleftrightarrow> pf_rotation f = ApiList"
| "provider_field f (WorkerUrlTyped v) \<longleftrightarrow> pf_rotation f = CfWorker"
| "provider_field f (GatewayHostTyped v) \<longleftrightarrow> \<not> fetch_mode (pf_rotation f)"
| "provider_field f (GatewayPortTyped v) \<longleftrightarrow> \<not> fetch_mode (pf_rotation f)"
| "provider_field f (LoginTyped v) \<longleftrightarrow> \<not> fetch_mode (pf_rotation f)"
| "provider_field f (LoginPasswordTyped v) \<longleftrightarrow> \<not> fetch_mode (pf_rotation f)"
| "provider_field f (TemplateTyped v) \<longleftrightarrow> \<not> fetch_mode (pf_rotation f)"
| "provider_field f (DefaultRegionTyped v) \<longleftrightarrow> pf_region_mode f = RegionFixed"
| "provider_field f (DefaultRegionsTyped v) \<longleftrightarrow> pf_region_mode f = RegionApplicationRandom"
| "provider_field f _ \<longleftrightarrow> True"

fun provider_input :: "ResidentialPreset list \<Rightarrow> ResidentialProtocol list \<Rightarrow> ProxyGroup list \<Rightarrow> provider_event
    \<Rightarrow> provider_form \<Rightarrow> provider_form" where
  "provider_input presets worker groups (PresetChosen v) f = applyPreset presets v f"
| "provider_input presets worker groups (ProviderName v) f = f\<lparr>pf_name := v\<rparr>"
| "provider_input presets worker groups (RotationChosen m) f = f\<lparr>pf_rotation := m\<rparr>"
| "provider_input presets worker groups (ProtocolChosen v) f =
     (if v \<in> set (protocol_choices worker f) then f\<lparr>pf_protocol := v\<rparr> else f)"
| "provider_input presets worker groups (ApiUrlTyped v) f = f\<lparr>pf_api_url := v\<rparr>"
| "provider_input presets worker groups (WorkerUrlTyped v) f = f\<lparr>pf_worker_url := v\<rparr>"
| "provider_input presets worker groups (GatewayHostTyped v) f = f\<lparr>pf_gateway_host := v\<rparr>"
| "provider_input presets worker groups (GatewayPortTyped v) f = f\<lparr>pf_gateway_port := v\<rparr>"
| "provider_input presets worker groups (LoginTyped v) f = f\<lparr>pf_username := v\<rparr>"
| "provider_input presets worker groups (LoginPasswordTyped v) f = f\<lparr>pf_password := v\<rparr>"
| "provider_input presets worker groups (TemplateTyped v) f = f\<lparr>pf_template := v\<rparr>"
| "provider_input presets worker groups (UpstreamChosen v) f =
     (if v \<in> set (upstream_choices groups) then f\<lparr>pf_upstream := or_default v []\<rparr> else f)"
| "provider_input presets worker groups (ApiProxyTyped v) f = f\<lparr>pf_api_proxy_url := v\<rparr>"
| "provider_input presets worker groups (TtlTyped v) f = f\<lparr>pf_session_ttl := v\<rparr>"
| "provider_input presets worker groups (MaxSessionsTyped v) f = f\<lparr>pf_max_sessions := v\<rparr>"
| "provider_input presets worker groups (ExpiryChosen v) f = f\<lparr>pf_expiry := v\<rparr>"
| "provider_input presets worker groups (DefaultRegionMode m) f = f\<lparr>pf_region_mode := m\<rparr>"
| "provider_input presets worker groups (DefaultRegionTyped v) f = f\<lparr>pf_region := v\<rparr>"
| "provider_input presets worker groups (DefaultRegionsTyped v) f = f\<lparr>pf_random_regions := v\<rparr>"

text \<open>The browser submits a form only when its required fields are filled in.\<close>

definition provider_filled :: "ResidentialProvider option \<Rightarrow> provider_form \<Rightarrow> bool" where
  "provider_filled initial f \<longleftrightarrow> pf_name f \<noteq> [] \<and>
     (case pf_rotation f of
        ApiList \<Rightarrow> pf_api_url f \<noteq> [] \<or> (case initial of Some v \<Rightarrow> rp_api_url_configured v | None \<Rightarrow> False)
      | CfWorker \<Rightarrow> pf_worker_url f \<noteq> [] \<or> (case initial of Some v \<Rightarrow> rp_worker_url_configured v | None \<Rightarrow> False)
      | _ \<Rightarrow> pf_gateway_host f \<noteq> [] \<and> pf_gateway_port f \<noteq> [])"

datatype channel_event =
    ChannelName jstr | ProviderSelected jstr | ProviderTicked jstr bool | ChannelModeChosen ResidentialChannelMode
  | KindChosen ListenerKind | SessionCountTyped jstr | IdleReleaseTyped jstr | PreallocateTicked bool
  | RegionModeChosen ResidentialRegionMode | RegionTyped jstr | RegionsTyped jstr | PublicHostTyped jstr
  | EnabledChosen bool

fun channel_input :: "ResidentialProvider list \<Rightarrow> bool \<Rightarrow> channel_event \<Rightarrow> channel_form \<Rightarrow> channel_form" where
  "channel_input providers editing (ChannelName v) f = f\<lparr>hf_name := v\<rparr>"
| "channel_input providers editing (ProviderSelected i) f =
     (if editing \<or> i \<notin> rp_id ` set providers then f else selectProvider providers i f)"
| "channel_input providers editing (ProviderTicked i b) f =
     (if i \<in> rp_id ` set (offered_providers providers f) then check_provider b i f else f)"
| "channel_input providers editing (ChannelModeChosen m) f = (if editing then f else f\<lparr>hf_mode := m\<rparr>)"
| "channel_input providers editing (KindChosen k) f =
     (if editing \<or> k \<notin> {KVless, KVmess, KTrojan} then f else f\<lparr>hf_protocol := k\<rparr>)"
| "channel_input providers editing (SessionCountTyped v) f = (if hf_mode f = Sticky then f\<lparr>hf_session_count := v\<rparr> else f)"
| "channel_input providers editing (IdleReleaseTyped v) f = (if hf_mode f = Sticky then f\<lparr>hf_idle_release := v\<rparr> else f)"
| "channel_input providers editing (PreallocateTicked b) f = (if hf_mode f = Sticky then f\<lparr>hf_preallocate := b\<rparr> else f)"
| "channel_input providers editing (RegionModeChosen m) f = f\<lparr>hf_region_mode := m\<rparr>"
| "channel_input providers editing (RegionTyped v) f = (if hf_region_mode f = RegionFixed then f\<lparr>hf_region := v\<rparr> else f)"
| "channel_input providers editing (RegionsTyped v) f =
     (if hf_region_mode f = RegionApplicationRandom then f\<lparr>hf_random_regions := v\<rparr> else f)"
| "channel_input providers editing (PublicHostTyped v) f = f\<lparr>hf_public_host := v\<rparr>"
| "channel_input providers editing (EnabledChosen b) f = f\<lparr>hf_enabled := b\<rparr>"

definition channel_filled :: "ResidentialChannel option \<Rightarrow> channel_form \<Rightarrow> bool" where
  "channel_filled initial f \<longleftrightarrow> hf_name f \<noteq> [] \<and> (hf_mode f = Sticky \<longrightarrow> hf_session_count f \<noteq> []) \<and>
     ((case initial of None \<Rightarrow> True | Some c \<Rightarrow> isResidentialWebSocketKind (rce_kind (rc_endpoint c)))
        \<longrightarrow> hf_public_host f \<noteq> [])"

section \<open>The page\<close>

datatype session_key = SessionRow int | ShareToken | ControlToken

record provider_dialog =
  vd_id :: nat
  vd_form :: provider_form
  vd_applied :: bool
  vd_saving :: bool

record channel_dialog =
  hd_id :: nat
  hd_form :: channel_form
  hd_saving :: bool

record endpoint_dialog =
  ed_id :: nat
  ed_channel :: ResidentialChannel
  ed_host :: jstr
  ed_saving :: bool

record sessions_dialog =
  sd_id :: nat
  sd_channel :: ResidentialChannel
  sd_busy :: "session_key option"

text \<open>Requests in flight. A reload may have a handler of the session dialog waiting for it.\<close>

datatype residential_task =
    Reload "(nat \<times> session_key) option"
  | DeleteProvider jstr int | DeleteChannel jstr int | TestProvider jstr
  | SaveProvider nat "jstr option" provider_payload
  | SaveChannel nat bool channel_outcome
  | SaveEndpoint nat jstr UpdateResidentialChannelRequest
  | RunSession nat jstr session_key

record residential_page =
  rz_providers :: "ResidentialProvider list"
  rz_channels :: "ResidentialChannel list"
  rz_presets :: "ResidentialPreset list"
  rz_worker_protocols :: "ResidentialProtocol list"
  rz_groups :: "ProxyGroup list"
  rz_traffic :: "jstr \<rightharpoonup> TrafficSummary"
  rz_loading :: bool
  rz_provider_dialog :: "provider_dialog option"
  rz_channel_dialog :: "channel_dialog option"
  rz_endpoint_dialog :: "endpoint_dialog option"
  rz_sessions_dialog :: "sessions_dialog option"
  rz_editing_provider :: "ResidentialProvider option"
  rz_editing_channel :: "ResidentialChannel option"
  rz_test :: "ResidentialTestResult option"
  rz_next :: nat
  rz_pending :: "residential_task list"

definition initial_residential :: residential_page where
  "initial_residential =
     \<lparr>rz_providers = [], rz_channels = [], rz_presets = [], rz_worker_protocols = [], rz_groups = [],
      rz_traffic = Map.empty, rz_loading = True, rz_provider_dialog = None, rz_channel_dialog = None,
      rz_endpoint_dialog = None, rz_sessions_dialog = None, rz_editing_provider = None, rz_editing_channel = None,
      rz_test = None, rz_next = 0, rz_pending = [Reload None]\<rparr>"

text \<open>A notice with a message of the server, of another failure, or of a success.\<close>

datatype residential_notice =
    ServerSays jstr | OtherFailure | Deleted | ProviderSaved | ChannelSaved bool | EndpointSaved | SessionDone
  | CredentialsNeeded | ProviderNeeded | SessionsNeeded

definition api_notice :: "js_error \<Rightarrow> residential_notice list" where
  "api_notice cause = (case cause of ApiError m _ _ _ \<Rightarrow> [ServerSays m] | _ \<Rightarrow> [])"

definition any_notice :: "js_error \<Rightarrow> residential_notice list" where
  "any_notice cause = (case cause of ApiError m _ _ _ \<Rightarrow> [ServerSays m] | _ \<Rightarrow> [OtherFailure])"

definition send_task :: "residential_task \<Rightarrow> residential_page \<Rightarrow> residential_page" where
  "send_task t p = p\<lparr>rz_pending := rz_pending p @ [t]\<rparr>"

section \<open>Lists\<close>

record residential_data =
  rx_providers :: "ResidentialProvider list"
  rx_channels :: "ResidentialChannel list"
  rx_presets :: "ResidentialPreset list"
  rx_worker_protocols :: "ResidentialProtocol list option"
  rx_groups :: "ProxyGroup list"
  rx_traffic :: "TrafficSummary list"

definition reload_residential :: "(nat \<times> session_key) option \<Rightarrow> residential_page \<Rightarrow> residential_page" where
  "reload_residential after p = send_task (Reload after) (p\<lparr>rz_loading := True\<rparr>)"

text \<open>The effect of an open provider dialog, which fills in a preset once there are any.\<close>

definition run_preset_effect :: "residential_page \<Rightarrow> residential_page" where
  "run_preset_effect p =
     p\<lparr>rz_provider_dialog := map_option
         (\<lambda>d. case preset_effect (rz_editing_provider p) (rz_presets p) (vd_applied d, vd_form d) of
                (applied, form) \<Rightarrow> d\<lparr>vd_applied := applied, vd_form := form\<rparr>)
         (rz_provider_dialog p)\<rparr>"

text \<open>The session dialog follows its channel, and goes when the channel is gone.\<close>

definition follow_channel :: "ResidentialChannel list \<Rightarrow> sessions_dialog option \<Rightarrow> sessions_dialog option" where
  "follow_channel channels dialog =
     Option.bind dialog (\<lambda>d. map_option (\<lambda>c. d\<lparr>sd_channel := c\<rparr>) (find (\<lambda>c. rc_id c = rc_id (sd_channel d)) channels))"

definition release_session :: "(nat \<times> session_key) option \<Rightarrow> residential_page \<Rightarrow> residential_page" where
  "release_session after p =
     (case after of
        None \<Rightarrow> p
      | Some (i, key) \<Rightarrow>
          p\<lparr>rz_sessions_dialog := map_option (\<lambda>d. if sd_id d = i then d\<lparr>sd_busy := None\<rparr> else d) (rz_sessions_dialog p)\<rparr>)"

definition reload_done ::
  "(nat \<times> session_key) option \<Rightarrow> residential_data outcome \<Rightarrow> residential_page \<Rightarrow> residential_page \<times> residential_notice list" where
  "reload_done after answer p =
     (let loaded = (case answer of
          Inl cause \<Rightarrow> (p\<lparr>rz_loading := False\<rparr>, api_notice cause)
        | Inr d \<Rightarrow>
            (run_preset_effect (p\<lparr>rz_providers := rx_providers d, rz_channels := rx_channels d, rz_presets := rx_presets d,
               rz_worker_protocols := or_default (rx_worker_protocols d) [], rz_groups := rx_groups d,
               rz_traffic := map_from (map (\<lambda>item. (ts_resource_id item, item)) (rx_traffic d)),
               rz_sessions_dialog := follow_channel (rx_channels d) (rz_sessions_dialog p),
               rz_loading := False\<rparr>), []))
      in (release_session after (fst loaded), snd loaded @ (if after = None then [] else [SessionDone])))"

text \<open>An action of a row: a failure is shown, a success is shown and the lists are reloaded.\<close>

definition action_done :: "unit outcome \<Rightarrow> residential_page \<Rightarrow> residential_page \<times> residential_notice list" where
  "action_done answer p =
     (case answer of Inl cause \<Rightarrow> (p, any_notice cause) | Inr _ \<Rightarrow> (reload_residential None p, [Deleted]))"

definition test_done ::
  "ResidentialTestResult outcome \<Rightarrow> residential_page \<Rightarrow> residential_page \<times> residential_notice list" where
  "test_done answer p =
     (case answer of Inl cause \<Rightarrow> (p, api_notice cause) | Inr r \<Rightarrow> (p\<lparr>rz_test := Some r\<rparr>, []))"

section \<open>Dialogs\<close>

definition open_provider :: "ResidentialProvider option \<Rightarrow> residential_page \<Rightarrow> residential_page" where
  "open_provider v p =
     run_preset_effect (p\<lparr>rz_editing_provider := v, rz_next := Suc (rz_next p),
       rz_provider_dialog := Some \<lparr>vd_id = rz_next p,
         vd_form = (case v of Some provider \<Rightarrow> provider_form_of provider | None \<Rightarrow> emptyProviderForm),
         vd_applied = False, vd_saving = False\<rparr>\<rparr>)"

definition open_channel :: "ResidentialChannel option \<Rightarrow> residential_page \<Rightarrow> residential_page" where
  "open_channel c p =
     p\<lparr>rz_editing_channel := c, rz_next := Suc (rz_next p),
       rz_channel_dialog := Some \<lparr>hd_id = rz_next p,
         hd_form = (case c of Some channel \<Rightarrow> channel_form_of channel | None \<Rightarrow> new_channel_form (rz_providers p)),
         hd_saving = False\<rparr>\<rparr>"

definition open_endpoint :: "ResidentialChannel \<Rightarrow> residential_page \<Rightarrow> residential_page" where
  "open_endpoint c p =
     p\<lparr>rz_next := Suc (rz_next p),
       rz_endpoint_dialog := Some \<lparr>ed_id = rz_next p, ed_channel = c, ed_host = pe_host (rc_public_endpoint c),
         ed_saving = False\<rparr>\<rparr>"

definition open_sessions :: "ResidentialChannel \<Rightarrow> residential_page \<Rightarrow> residential_page" where
  "open_sessions c p =
     p\<lparr>rz_next := Suc (rz_next p), rz_sessions_dialog := Some \<lparr>sd_id = rz_next p, sd_channel = c, sd_busy = None\<rparr>\<rparr>"

text \<open>Submissions. The provider form is busy before it is checked; a refusal frees it again.\<close>

definition provider_submit :: "residential_page \<Rightarrow> provider_dialog \<Rightarrow> residential_page \<times> residential_notice list" where
  "provider_submit p d =
     (case submit_provider (rz_editing_provider p) (vd_form d) of
        CredentialsMissing \<Rightarrow> (p, [CredentialsNeeded])
      | SendProvider payload \<Rightarrow>
          (send_task (SaveProvider (vd_id d) (map_option rp_id (rz_editing_provider p)) payload)
             (p\<lparr>rz_provider_dialog := Some (d\<lparr>vd_saving := True\<rparr>)\<rparr>), []))"

definition channel_submit :: "residential_page \<Rightarrow> channel_dialog \<Rightarrow> residential_page \<times> residential_notice list" where
  "channel_submit p d =
     (case submit_channel (rz_editing_channel p) (hd_form d) of
        ProviderMissing \<Rightarrow> (p, [ProviderNeeded])
      | SessionsMissing \<Rightarrow> (p, [SessionsNeeded])
      | sent \<Rightarrow>
          (send_task (SaveChannel (hd_id d) (rz_editing_channel p \<noteq> None) sent)
             (p\<lparr>rz_channel_dialog := Some (d\<lparr>hd_saving := True\<rparr>)\<rparr>), []))"

definition endpoint_submit :: "residential_page \<Rightarrow> endpoint_dialog \<Rightarrow> residential_page" where
  "endpoint_submit p d =
     send_task (SaveEndpoint (ed_id d) (rc_id (ed_channel d)) (endpoint_payload (ed_channel d) (ed_host d)))
       (p\<lparr>rz_endpoint_dialog := Some (d\<lparr>ed_saving := True\<rparr>)\<rparr>)"

definition session_run :: "session_key \<Rightarrow> residential_page \<Rightarrow> sessions_dialog \<Rightarrow> residential_page" where
  "session_run key p d =
     send_task (RunSession (sd_id d) (rc_id (sd_channel d)) key)
       (p\<lparr>rz_sessions_dialog := Some (d\<lparr>sd_busy := Some key\<rparr>)\<rparr>)"

text \<open>
  The answers to them. A success closes the dialog of its kind that is open, whichever instance that
  is, and reloads; a failure frees the instance that sent the request, if it is still there.
\<close>

definition provider_answer :: "nat \<Rightarrow> unit outcome \<Rightarrow> residential_page \<Rightarrow> residential_page \<times> residential_notice list" where
  "provider_answer i answer p =
     (case answer of
        Inr _ \<Rightarrow> (reload_residential None (p\<lparr>rz_provider_dialog := None, rz_editing_provider := None\<rparr>), [ProviderSaved])
      | Inl cause \<Rightarrow>
          (p\<lparr>rz_provider_dialog := map_option (\<lambda>d. if vd_id d = i then d\<lparr>vd_saving := False\<rparr> else d) (rz_provider_dialog p)\<rparr>,
           any_notice cause))"

definition channel_answer ::
  "nat \<Rightarrow> bool \<Rightarrow> unit outcome \<Rightarrow> residential_page \<Rightarrow> residential_page \<times> residential_notice list" where
  "channel_answer i editing answer p =
     (case answer of
        Inr _ \<Rightarrow> (reload_residential None (p\<lparr>rz_channel_dialog := None\<rparr>), [ChannelSaved editing])
      | Inl cause \<Rightarrow>
          (p\<lparr>rz_channel_dialog := map_option (\<lambda>d. if hd_id d = i then d\<lparr>hd_saving := False\<rparr> else d) (rz_channel_dialog p)\<rparr>,
           any_notice cause))"

definition endpoint_answer :: "nat \<Rightarrow> unit outcome \<Rightarrow> residential_page \<Rightarrow> residential_page \<times> residential_notice list" where
  "endpoint_answer i answer p =
     (case answer of
        Inr _ \<Rightarrow> (reload_residential None (p\<lparr>rz_endpoint_dialog := None\<rparr>), [EndpointSaved])
      | Inl cause \<Rightarrow>
          (p\<lparr>rz_endpoint_dialog := map_option (\<lambda>d. if ed_id d = i then d\<lparr>ed_saving := False\<rparr> else d) (rz_endpoint_dialog p)\<rparr>,
           any_notice cause))"

definition session_answer ::
  "nat \<Rightarrow> session_key \<Rightarrow> unit outcome \<Rightarrow> residential_page \<Rightarrow> residential_page \<times> residential_notice list" where
  "session_answer i key answer p =
     (case answer of
        Inr _ \<Rightarrow> (reload_residential (Some (i, key)) p, [])
      | Inl cause \<Rightarrow> (release_session (Some (i, key)) p, any_notice cause))"

section \<open>Requests\<close>

definition session_call :: "session_key \<Rightarrow> jstr \<Rightarrow> http_call option" where
  "session_call key i =
     (case key of
        SessionRow n \<Rightarrow> rotateResidentialSession i n
      | ShareToken \<Rightarrow> rotateResidentialShareToken i
      | ControlToken \<Rightarrow> rotateResidentialControlToken i)"

section \<open>Events\<close>

datatype residential_answer =
    DataAnswer "residential_data outcome" | UnitAnswer "unit outcome" | TestAnswer "ResidentialTestResult outcome"

fun resume_residential :: "residential_task \<Rightarrow> residential_answer
    \<Rightarrow> (residential_page \<Rightarrow> residential_page \<times> residential_notice list) option" where
  "resume_residential (Reload after) answer = (case answer of DataAnswer a \<Rightarrow> Some (reload_done after a) | _ \<Rightarrow> None)"
| "resume_residential (DeleteProvider i v) answer = (case answer of UnitAnswer a \<Rightarrow> Some (action_done a) | _ \<Rightarrow> None)"
| "resume_residential (DeleteChannel i v) answer = (case answer of UnitAnswer a \<Rightarrow> Some (action_done a) | _ \<Rightarrow> None)"
| "resume_residential (TestProvider i) answer = (case answer of TestAnswer a \<Rightarrow> Some (test_done a) | _ \<Rightarrow> None)"
| "resume_residential (SaveProvider n i q) answer = (case answer of UnitAnswer a \<Rightarrow> Some (provider_answer n a) | _ \<Rightarrow> None)"
| "resume_residential (SaveChannel n e q) answer = (case answer of UnitAnswer a \<Rightarrow> Some (channel_answer n e a) | _ \<Rightarrow> None)"
| "resume_residential (SaveEndpoint n i q) answer = (case answer of UnitAnswer a \<Rightarrow> Some (endpoint_answer n a) | _ \<Rightarrow> None)"
| "resume_residential (RunSession n i key) answer = (case answer of UnitAnswer a \<Rightarrow> Some (session_answer n key a) | _ \<Rightarrow> None)"

definition residential_answered ::
  "nat \<Rightarrow> residential_answer \<Rightarrow> residential_page \<Rightarrow> residential_page \<times> residential_notice list" where
  "residential_answered n a p =
     (if n < length (rz_pending p)
      then (case resume_residential (rz_pending p ! n) a of
              Some f \<Rightarrow> f (p\<lparr>rz_pending := remove_at n (rz_pending p)\<rparr>)
            | None \<Rightarrow> (p, []))
      else (p, []))"

datatype page_event =
    ReloadClicked | NewChannel | ChannelEdited ResidentialChannel | EndpointClicked ResidentialChannel
  | SessionsClicked ResidentialChannel | ChannelRemoved ResidentialChannel
  | NewProvider | ProviderEdited ResidentialProvider | ProviderTested ResidentialProvider
  | ProviderRemoved ResidentialProvider

datatype residential_event =
    Page page_event | TestClosed
  | ProviderInput provider_event | ProviderSubmitted | ProviderClosed
  | ChannelInput channel_event | ChannelSubmitted | ChannelClosed
  | HostTyped jstr | EndpointSubmitted | EndpointClosed
  | SessionClicked session_key | SessionsClosed
  | Arrived nat residential_answer

text \<open>A dialog covers the page, so that the page reacts only while none is open.\<close>

definition uncovered :: "residential_page \<Rightarrow> bool" where
  "uncovered p \<longleftrightarrow> rz_provider_dialog p = None \<and> rz_channel_dialog p = None \<and> rz_endpoint_dialog p = None \<and>
     rz_sessions_dialog p = None \<and> rz_test p = None"

definition managed :: "ResidentialChannel \<Rightarrow> bool" where
  "managed c \<longleftrightarrow> isResidentialWebSocketKind (rce_kind (rc_endpoint c))"

fun page_step :: "residential_page \<Rightarrow> page_event \<Rightarrow> residential_page" where
  "page_step p ReloadClicked = reload_residential None p"
| "page_step p NewChannel = open_channel None p"
| "page_step p (ChannelEdited c) = (if c \<in> set (rz_channels p) then open_channel (Some c) p else p)"
| "page_step p (EndpointClicked c) = (if c \<in> set (rz_channels p) \<and> managed c then open_endpoint c p else p)"
| "page_step p (SessionsClicked c) = (if c \<in> set (rz_channels p) \<and> 0 < rc_session_count c then open_sessions c p else p)"
| "page_step p (ChannelRemoved c) =
     (if c \<in> set (rz_channels p) then send_task (DeleteChannel (rc_id c) (rc_version c)) p else p)"
| "page_step p NewProvider = open_provider None p"
| "page_step p (ProviderEdited v) = (if v \<in> set (rz_providers p) then open_provider (Some v) p else p)"
| "page_step p (ProviderTested v) = (if v \<in> set (rz_providers p) then send_task (TestProvider (rp_id v)) p else p)"
| "page_step p (ProviderRemoved v) =
     (if v \<in> set (rz_providers p) then send_task (DeleteProvider (rp_id v) (rp_version v)) p else p)"

definition session_rows :: "ResidentialChannel \<Rightarrow> session_key list" where
  "session_rows c = ControlToken # ShareToken # map (\<lambda>s. SessionRow (rse_index s)) (or_default (rc_sessions c) [])"

fun residential_step :: "residential_page \<Rightarrow> residential_event \<Rightarrow> residential_page \<times> residential_notice list" where
  "residential_step p (Page e) = (if uncovered p then (page_step p e, []) else (p, []))"
| "residential_step p TestClosed = (p\<lparr>rz_test := None\<rparr>, [])"
| "residential_step p (ProviderInput e) =
     (p\<lparr>rz_provider_dialog := map_option
          (\<lambda>d. if provider_field (vd_form d) e
               then d\<lparr>vd_form := provider_input (rz_presets p) (rz_worker_protocols p) (rz_groups p) e (vd_form d)\<rparr> else d)
          (rz_provider_dialog p)\<rparr>, [])"
| "residential_step p ProviderSubmitted =
     (case rz_provider_dialog p of
        Some d \<Rightarrow> if vd_saving d \<or> \<not> provider_filled (rz_editing_provider p) (vd_form d) then (p, []) else provider_submit p d
      | None \<Rightarrow> (p, []))"
| "residential_step p ProviderClosed = (p\<lparr>rz_provider_dialog := None\<rparr>, [])"
| "residential_step p (ChannelInput e) =
     (p\<lparr>rz_channel_dialog := map_option
          (\<lambda>d. d\<lparr>hd_form := channel_input (rz_providers p) (rz_editing_channel p \<noteq> None) e (hd_form d)\<rparr>)
          (rz_channel_dialog p)\<rparr>, [])"
| "residential_step p ChannelSubmitted =
     (case rz_channel_dialog p of
        Some d \<Rightarrow> if hd_saving d \<or> \<not> channel_filled (rz_editing_channel p) (hd_form d) then (p, []) else channel_submit p d
      | None \<Rightarrow> (p, []))"
| "residential_step p ChannelClosed = (p\<lparr>rz_channel_dialog := None\<rparr>, [])"
| "residential_step p (HostTyped v) =
     (p\<lparr>rz_endpoint_dialog := map_option (\<lambda>d. d\<lparr>ed_host := v\<rparr>) (rz_endpoint_dialog p)\<rparr>, [])"
| "residential_step p EndpointSubmitted =
     (case rz_endpoint_dialog p of
        Some d \<Rightarrow> if ed_saving d \<or> ed_host d = [] then (p, []) else (endpoint_submit p d, [])
      | None \<Rightarrow> (p, []))"
| "residential_step p EndpointClosed = (p\<lparr>rz_endpoint_dialog := None\<rparr>, [])"
| "residential_step p (SessionClicked key) =
     (case rz_sessions_dialog p of
        Some d \<Rightarrow> if sd_busy d \<noteq> None \<or> key \<notin> set (session_rows (sd_channel d)) then (p, []) else (session_run key p d, [])
      | None \<Rightarrow> (p, []))"
| "residential_step p SessionsClosed = (p\<lparr>rz_sessions_dialog := None\<rparr>, [])"
| "residential_step p (Arrived n a) = residential_answered n a p"

definition run_residential :: "residential_event list \<Rightarrow> residential_page" where
  "run_residential events = foldl (\<lambda>p e. fst (residential_step p e)) initial_residential events"

section \<open>Dialogs and the requests they wait for\<close>

datatype dialog_slot =
    ProviderSlot (slot_number: nat) | ChannelSlot (slot_number: nat) | EndpointSlot (slot_number: nat)
  | SessionSlot (slot_number: nat) session_key

fun waits_for :: "residential_task \<Rightarrow> dialog_slot option" where
  "waits_for (SaveProvider n i q) = Some (ProviderSlot n)"
| "waits_for (SaveChannel n e q) = Some (ChannelSlot n)"
| "waits_for (SaveEndpoint n i q) = Some (EndpointSlot n)"
| "waits_for (RunSession n i key) = Some (SessionSlot n key)"
| "waits_for (Reload after) = map_option (\<lambda>(n, key). SessionSlot n key) after"
| "waits_for _ = None"

abbreviation slots :: "residential_page \<Rightarrow> dialog_slot list" where
  "slots p \<equiv> pending_keys waits_for (rz_pending p)"

text \<open>An open dialog is busy exactly while a request that it sent is among the given ones.\<close>

definition provider_ok :: "dialog_slot set \<Rightarrow> nat \<Rightarrow> provider_dialog option \<Rightarrow> bool" where
  "provider_ok S next_id dialog =
     (case dialog of None \<Rightarrow> True | Some d \<Rightarrow> vd_id d < next_id \<and> vd_saving d = (ProviderSlot (vd_id d) \<in> S))"

definition channel_ok :: "dialog_slot set \<Rightarrow> nat \<Rightarrow> channel_dialog option \<Rightarrow> bool" where
  "channel_ok S next_id dialog =
     (case dialog of None \<Rightarrow> True | Some d \<Rightarrow> hd_id d < next_id \<and> hd_saving d = (ChannelSlot (hd_id d) \<in> S))"

definition endpoint_ok :: "dialog_slot set \<Rightarrow> nat \<Rightarrow> endpoint_dialog option \<Rightarrow> bool" where
  "endpoint_ok S next_id dialog =
     (case dialog of None \<Rightarrow> True | Some d \<Rightarrow> ed_id d < next_id \<and> ed_saving d = (EndpointSlot (ed_id d) \<in> S))"

definition sessions_ok :: "dialog_slot set \<Rightarrow> nat \<Rightarrow> sessions_dialog option \<Rightarrow> bool" where
  "sessions_ok S next_id dialog =
     (case dialog of None \<Rightarrow> True
      | Some d \<Rightarrow> sd_id d < next_id \<and> (\<forall>key. (sd_busy d = Some key) = (SessionSlot (sd_id d) key \<in> S)))"

lemmas dialog_ok_defs = provider_ok_def channel_ok_def endpoint_ok_def sessions_ok_def

definition dialogs_ok :: "dialog_slot set \<Rightarrow> residential_page \<Rightarrow> bool" where
  "dialogs_ok S p \<longleftrightarrow>
     provider_ok S (rz_next p) (rz_provider_dialog p) \<and> channel_ok S (rz_next p) (rz_channel_dialog p) \<and>
     endpoint_ok S (rz_next p) (rz_endpoint_dialog p) \<and> sessions_ok S (rz_next p) (rz_sessions_dialog p) \<and>
     (\<forall>s \<in> S. slot_number s < rz_next p)"

definition residential_inv :: "residential_page \<Rightarrow> bool" where
  "residential_inv p \<longleftrightarrow> distinct (slots p) \<and> dialogs_ok (set (slots p)) p"

lemma send_fields [simp]:
  "rz_pending (send_task t p) = rz_pending p @ [t]" "dialogs_ok S (send_task t p) = dialogs_ok S p"
  by (simp_all add: send_task_def dialogs_ok_def)

lemma preset_fields [simp]:
  "rz_pending (run_preset_effect p) = rz_pending p" "dialogs_ok S (run_preset_effect p) = dialogs_ok S p"
  by (auto simp: run_preset_effect_def dialogs_ok_def dialog_ok_defs split: option.splits prod.splits)

lemma loading_fields [simp]:
  "dialogs_ok S (p\<lparr>rz_loading := b\<rparr>) = dialogs_ok S p" "dialogs_ok S (p\<lparr>rz_test := r\<rparr>) = dialogs_ok S p"
  "dialogs_ok S (p\<lparr>rz_pending := ts\<rparr>) = dialogs_ok S p"
  "dialogs_ok S (p\<lparr>rz_editing_provider := v\<rparr>) = dialogs_ok S p"
  by (simp_all add: dialogs_ok_def)

lemma reload_fields [simp]:
  "rz_pending (reload_residential after p) = rz_pending p @ [Reload after]"
  "dialogs_ok S (reload_residential after p) = dialogs_ok S p"
  by (simp_all add: reload_residential_def)

lemma send_dialogs [simp]:
  "rz_next (send_task t p) = rz_next p" "rz_provider_dialog (send_task t p) = rz_provider_dialog p"
  "rz_channel_dialog (send_task t p) = rz_channel_dialog p" "rz_endpoint_dialog (send_task t p) = rz_endpoint_dialog p"
  "rz_sessions_dialog (send_task t p) = rz_sessions_dialog p"
  by (simp_all add: send_task_def)

lemma reload_dialogs [simp]:
  "rz_next (reload_residential after p) = rz_next p"
  "rz_provider_dialog (reload_residential after p) = rz_provider_dialog p"
  "rz_channel_dialog (reload_residential after p) = rz_channel_dialog p"
  "rz_endpoint_dialog (reload_residential after p) = rz_endpoint_dialog p"
  "rz_sessions_dialog (reload_residential after p) = rz_sessions_dialog p"
  by (simp_all add: reload_residential_def)

lemma release_pending [simp]: "rz_pending (release_session after p) = rz_pending p"
  by (simp add: release_session_def split: option.split prod.split)

lemma other_slots [simp]:
  "provider_ok (insert (ChannelSlot n) S) m d = provider_ok S m d"
  "provider_ok (insert (EndpointSlot n) S) m d = provider_ok S m d"
  "provider_ok (insert (SessionSlot n key) S) m d = provider_ok S m d"
  "channel_ok (insert (ProviderSlot n) S) m e = channel_ok S m e"
  "channel_ok (insert (EndpointSlot n) S) m e = channel_ok S m e"
  "channel_ok (insert (SessionSlot n key) S) m e = channel_ok S m e"
  "endpoint_ok (insert (ProviderSlot n) S) m f = endpoint_ok S m f"
  "endpoint_ok (insert (ChannelSlot n) S) m f = endpoint_ok S m f"
  "endpoint_ok (insert (SessionSlot n key) S) m f = endpoint_ok S m f"
  "sessions_ok (insert (ProviderSlot n) S) m g = sessions_ok S m g"
  "sessions_ok (insert (ChannelSlot n) S) m g = sessions_ok S m g"
  "sessions_ok (insert (EndpointSlot n) S) m g = sessions_ok S m g"
  by (simp_all add: dialog_ok_defs split: option.split)

lemma closed_ok [simp]: "provider_ok S m None" "channel_ok S m None" "endpoint_ok S m None" "sessions_ok S m None"
  by (simp_all add: dialog_ok_defs)

lemma open_ok:
  "provider_ok S m (Some d) \<longleftrightarrow> vd_id d < m \<and> vd_saving d = (ProviderSlot (vd_id d) \<in> S)"
  "channel_ok S m (Some e) \<longleftrightarrow> hd_id e < m \<and> hd_saving e = (ChannelSlot (hd_id e) \<in> S)"
  "endpoint_ok S m (Some f) \<longleftrightarrow> ed_id f < m \<and> ed_saving f = (EndpointSlot (ed_id f) \<in> S)"
  "sessions_ok S m (Some g) \<longleftrightarrow> sd_id g < m \<and> (\<forall>key. (sd_busy g = Some key) = (SessionSlot (sd_id g) key \<in> S))"
  by (simp_all add: dialog_ok_defs)

text \<open>A request is over: the instance that sent it is freed, if it is still open.\<close>

lemma freed_ok:
  "provider_ok (insert (ProviderSlot n) S) m d \<Longrightarrow> ProviderSlot n \<notin> S \<Longrightarrow>
     provider_ok S m (map_option (\<lambda>d. if vd_id d = n then d\<lparr>vd_saving := False\<rparr> else d) d)"
  "channel_ok (insert (ChannelSlot n) S) m e \<Longrightarrow> ChannelSlot n \<notin> S \<Longrightarrow>
     channel_ok S m (map_option (\<lambda>d. if hd_id d = n then d\<lparr>hd_saving := False\<rparr> else d) e)"
  "endpoint_ok (insert (EndpointSlot n) S) m f \<Longrightarrow> EndpointSlot n \<notin> S \<Longrightarrow>
     endpoint_ok S m (map_option (\<lambda>d. if ed_id d = n then d\<lparr>ed_saving := False\<rparr> else d) f)"
  by (auto simp: dialog_ok_defs split: option.splits)

lemma freed_sessions:
  assumes "sessions_ok (insert (SessionSlot n key) S) m g" "SessionSlot n key \<notin> S"
  shows "sessions_ok S m (map_option (\<lambda>d. if sd_id d = n then d\<lparr>sd_busy := None\<rparr> else d) g)"
proof (cases g)
  case (Some d)
  with assms(1) have d: "sd_id d < m"
      "\<And>k. (sd_busy d = Some k) = (SessionSlot (sd_id d) k \<in> insert (SessionSlot n key) S)"
    by (simp_all add: sessions_ok_def)
  show ?thesis
  proof (cases "sd_id d = n")
    case True
    with d(2)[of key] have "sd_busy d = Some key" by simp
    with True d(2) assms(2) have "SessionSlot n k \<notin> S" for k by (metis insertI2 option.inject)
    with True d(1) Some show ?thesis by (simp add: sessions_ok_def)
  next
    case False
    with d Some show ?thesis by (simp add: sessions_ok_def)
  qed
qed simp

lemma release_ok:
  "dialogs_ok (insert (SessionSlot n key) S) p \<Longrightarrow> SessionSlot n key \<notin> S \<Longrightarrow>
     dialogs_ok S (release_session (Some (n, key)) p)"
  using freed_sessions[of n key S "rz_next p" "rz_sessions_dialog p"]
  by (simp add: dialogs_ok_def release_session_def)

lemma follow_ok: "sessions_ok S m g \<Longrightarrow> sessions_ok S m (follow_channel channels g)"
  by (cases g) (auto simp: sessions_ok_def follow_channel_def split: option.splits)

text \<open>A handler runs with the slot of its request taken off; it ends with the slots of the page in order.\<close>

definition after_answer :: "dialog_slot option \<Rightarrow> residential_page \<Rightarrow> bool" where
  "after_answer s p \<longleftrightarrow> distinct (slots p) \<and> (\<forall>x. s = Some x \<longrightarrow> x \<notin> set (slots p)) \<and>
     dialogs_ok (set (slots p) \<union> (case s of Some x \<Rightarrow> {x} | None \<Rightarrow> {})) p"

lemma after_taken:
  assumes "residential_inv p" "n < length (rz_pending p)"
  shows "after_answer (waits_for (rz_pending p ! n)) (p\<lparr>rz_pending := remove_at n (rz_pending p)\<rparr>)"
proof -
  let ?s = "case waits_for (rz_pending p ! n) of Some k \<Rightarrow> [k] | None \<Rightarrow> []"
  let ?t = "pending_keys waits_for (remove_at n (rz_pending p))"
  have "set (slots p) = set ?t \<union> set ?s" "distinct (slots p) \<Longrightarrow> distinct ?t \<and> set ?t \<inter> set ?s = {}"
    by (auto simp: pending_split[OF assms(2), of waits_for] remove_at_def)
  then show ?thesis
    using assms(1) by (cases "waits_for (rz_pending p ! n)") (auto simp: residential_inv_def after_answer_def)
qed

lemma reload_done_ok:
  assumes "after_answer (map_option (\<lambda>(n, key). SessionSlot n key) after) p"
  shows "residential_inv (fst (reload_done after answer p))"
proof -
  let ?q = "case answer of Inl cause \<Rightarrow> p\<lparr>rz_loading := False\<rparr>
      | Inr d \<Rightarrow> run_preset_effect (p\<lparr>rz_providers := rx_providers d, rz_channels := rx_channels d, rz_presets := rx_presets d,
               rz_worker_protocols := or_default (rx_worker_protocols d) [], rz_groups := rx_groups d,
               rz_traffic := map_from (map (\<lambda>item. (ts_resource_id item, item)) (rx_traffic d)),
               rz_sessions_dialog := follow_channel (rx_channels d) (rz_sessions_dialog p),
               rz_loading := False\<rparr>)"
  have q: "fst (reload_done after answer p) = release_session after ?q"
    by (simp add: reload_done_def Let_def split: sum.split)
  have pend: "rz_pending ?q = rz_pending p" by (simp split: sum.split)
  have ok: "dialogs_ok S ?q" if "dialogs_ok S p" for S
    using that follow_ok[of S "rz_next p" "rz_sessions_dialog p"] by (cases answer) (simp_all, simp add: dialogs_ok_def)
  show ?thesis
  proof (cases after)
    case None
    then show ?thesis using assms ok[of "set (slots p)"] unfolding q residential_inv_def
      by (simp add: after_answer_def pend release_session_def)
  next
    case (Some x)
    obtain n key where x: "x = (n, key)" by (cases x)
    then show ?thesis using assms Some ok release_ok[of n key "set (slots p)" ?q] unfolding q residential_inv_def
      by (simp add: after_answer_def pend)
  qed
qed

lemma answers_ok:
  "after_answer None p \<Longrightarrow> residential_inv (fst (action_done u p))"
  "after_answer None p \<Longrightarrow> residential_inv (fst (test_done r p))"
  "after_answer (Some (ProviderSlot n)) p \<Longrightarrow> residential_inv (fst (provider_answer n u p))"
  "after_answer (Some (ChannelSlot n)) p \<Longrightarrow> residential_inv (fst (channel_answer n e u p))"
  "after_answer (Some (EndpointSlot n)) p \<Longrightarrow> residential_inv (fst (endpoint_answer n u p))"
  "after_answer (Some (SessionSlot n key)) p \<Longrightarrow> residential_inv (fst (session_answer n key u p))"
proof -
  note unfold = residential_inv_def after_answer_def action_done_def test_done_def provider_answer_def
    channel_answer_def endpoint_answer_def session_answer_def
  show "after_answer None p \<Longrightarrow> residential_inv (fst (action_done u p))" by (cases u) (simp_all add: unfold)
  show "after_answer None p \<Longrightarrow> residential_inv (fst (test_done r p))" by (cases r) (simp_all add: unfold)
  show "after_answer (Some (ProviderSlot n)) p \<Longrightarrow> residential_inv (fst (provider_answer n u p))"
    by (cases u) (simp_all add: unfold dialogs_ok_def freed_ok)
  show "after_answer (Some (ChannelSlot n)) p \<Longrightarrow> residential_inv (fst (channel_answer n e u p))"
    by (cases u) (simp_all add: unfold dialogs_ok_def freed_ok)
  show "after_answer (Some (EndpointSlot n)) p \<Longrightarrow> residential_inv (fst (endpoint_answer n u p))"
    by (cases u) (simp_all add: unfold dialogs_ok_def freed_ok)
  show "after_answer (Some (SessionSlot n key)) p \<Longrightarrow> residential_inv (fst (session_answer n key u p))"
    by (cases u) (simp_all add: unfold release_ok)
qed

lemma inv_resume:
  assumes "after_answer (waits_for t) p" "resume_residential t a = Some f"
  shows "residential_inv (fst (f p))"
  using assms by (cases t; cases a) (simp_all add: answers_ok reload_done_ok, (auto simp: answers_ok reload_done_ok)?)

lemma inv_arrived:
  assumes "residential_inv p"
  shows "residential_inv (fst (residential_answered n a p))"
proof (cases "n < length (rz_pending p) \<and> resume_residential (rz_pending p ! n) a \<noteq> None")
  case True
  then obtain f where f: "resume_residential (rz_pending p ! n) a = Some f" by blast
  with True inv_resume[OF after_taken[OF assms] f] show ?thesis by (simp add: residential_answered_def)
qed (use assms in \<open>auto simp: residential_answered_def\<close>)

text \<open>Opening a dialog, using one, and sending from one.\<close>

lemma fresh_slot: "dialogs_ok S p \<Longrightarrow> s \<in> S \<Longrightarrow> slot_number s \<noteq> rz_next p"
  by (auto simp: dialogs_ok_def)

lemma later_ok:
  "provider_ok S m d \<Longrightarrow> provider_ok S (Suc m) d" "channel_ok S m e \<Longrightarrow> channel_ok S (Suc m) e"
  "endpoint_ok S m f \<Longrightarrow> endpoint_ok S (Suc m) f" "sessions_ok S m g \<Longrightarrow> sessions_ok S (Suc m) g"
  by (auto simp: dialog_ok_defs split: option.splits)

lemma opened_ok:
  assumes "residential_inv p"
  shows "residential_inv (open_provider v p)" "residential_inv (open_channel c p)"
    "residential_inv (open_endpoint e p)" "residential_inv (open_sessions e p)"
proof -
  let ?S = "set (slots p)" and ?m = "rz_next p"
  have ok: "dialogs_ok ?S p" and d: "distinct (slots p)" using assms by (simp_all add: residential_inv_def)
  note parts = ok[unfolded dialogs_ok_def]
  have fresh: "ProviderSlot ?m \<notin> ?S" "ChannelSlot ?m \<notin> ?S" "EndpointSlot ?m \<notin> ?S" "SessionSlot ?m key \<notin> ?S" for key
    using fresh_slot[OF ok] by force+
  have numbers: "\<forall>s \<in> ?S. slot_number s < Suc ?m" using parts by (auto simp: less_Suc_eq)
  note facts = parts d fresh numbers later_ok less_Suc_eq
  show "residential_inv (open_provider v p)"
    using facts by (simp add: residential_inv_def open_provider_def) (simp add: dialogs_ok_def, simp add: provider_ok_def)
  show "residential_inv (open_channel c p)"
    using facts by (simp add: residential_inv_def open_channel_def dialogs_ok_def) (simp add: channel_ok_def)
  show "residential_inv (open_endpoint e p)"
    using facts by (simp add: residential_inv_def open_endpoint_def dialogs_ok_def) (simp add: endpoint_ok_def)
  show "residential_inv (open_sessions e p)"
    using facts by (simp add: residential_inv_def open_sessions_def dialogs_ok_def) (simp add: sessions_ok_def)
qed

lemma inv_send_free: "residential_inv p \<Longrightarrow> waits_for t = None \<Longrightarrow> residential_inv (send_task t p)"
  by (simp add: residential_inv_def)

lemma inv_page: "residential_inv p \<Longrightarrow> residential_inv (page_step p e)"
  by (cases e) (simp_all add: opened_ok inv_send_free, simp add: residential_inv_def)

lemma submitted_ok:
  "residential_inv p \<Longrightarrow> rz_provider_dialog p = Some d \<Longrightarrow> \<not> vd_saving d \<Longrightarrow> residential_inv (fst (provider_submit p d))"
  "residential_inv p \<Longrightarrow> rz_channel_dialog p = Some e \<Longrightarrow> \<not> hd_saving e \<Longrightarrow> residential_inv (fst (channel_submit p e))"
  "residential_inv p \<Longrightarrow> rz_endpoint_dialog p = Some f \<Longrightarrow> \<not> ed_saving f \<Longrightarrow> residential_inv (endpoint_submit p f)"
  "residential_inv p \<Longrightarrow> rz_sessions_dialog p = Some g \<Longrightarrow> sd_busy g = None \<Longrightarrow> residential_inv (session_run key p g)"
proof -
  assume inv: "residential_inv p"
  note unfold = residential_inv_def dialogs_ok_def open_ok
  show "rz_provider_dialog p = Some d \<Longrightarrow> \<not> vd_saving d \<Longrightarrow> residential_inv (fst (provider_submit p d))"
    using inv by (cases "submit_provider (rz_editing_provider p) (vd_form d)") (simp_all add: unfold provider_submit_def)
  show "rz_channel_dialog p = Some e \<Longrightarrow> \<not> hd_saving e \<Longrightarrow> residential_inv (fst (channel_submit p e))"
    using inv by (cases "submit_channel (rz_editing_channel p) (hd_form e)") (simp_all add: unfold channel_submit_def)
  show "rz_endpoint_dialog p = Some f \<Longrightarrow> \<not> ed_saving f \<Longrightarrow> residential_inv (endpoint_submit p f)"
    using inv by (simp add: unfold endpoint_submit_def)
  show "rz_sessions_dialog p = Some g \<Longrightarrow> sd_busy g = None \<Longrightarrow> residential_inv (session_run key p g)"
    using inv by (auto simp add: unfold session_run_def)
qed

lemma inv_residential_step: "residential_inv p \<Longrightarrow> residential_inv (fst (residential_step p e))"
proof (cases e)
  case (Arrived n a)
  then show "residential_inv p \<Longrightarrow> ?thesis" by (simp add: inv_arrived)
next
  case (ProviderInput v)
  then show "residential_inv p \<Longrightarrow> ?thesis"
    by (cases "rz_provider_dialog p") (simp_all add: residential_inv_def dialogs_ok_def open_ok)
next
  case (ChannelInput v)
  then show "residential_inv p \<Longrightarrow> ?thesis"
    by (cases "rz_channel_dialog p") (simp_all add: residential_inv_def dialogs_ok_def open_ok)
next
  case (HostTyped v)
  then show "residential_inv p \<Longrightarrow> ?thesis"
    by (cases "rz_endpoint_dialog p") (simp_all add: residential_inv_def dialogs_ok_def open_ok)
qed (simp_all add: submitted_ok inv_page split: option.split, simp_all add: residential_inv_def dialogs_ok_def)

lemma inv_residential_run: "residential_inv (run_residential events)"
  unfolding run_residential_def
  by (induction events rule: rev_induct)
    (simp_all add: inv_residential_step, simp add: residential_inv_def dialogs_ok_def initial_residential_def)

text \<open>
  C28: The dialogs of the residential page wait for their own requests. After any sequence of clicks
  and answers in any order, an open dialog is marked busy exactly while a request that this very
  dialog sent is in flight, or, in the session dialog, the reload that follows it; no dialog has two
  such requests at once, even where an earlier dialog was closed before its answer came.
\<close>

theorem dialogs_busy_exact:
  "distinct (slots (run_residential events)) \<and>
   (case rz_provider_dialog (run_residential events) of None \<Rightarrow> True
    | Some d \<Rightarrow> vd_saving d = (ProviderSlot (vd_id d) \<in> set (slots (run_residential events)))) \<and>
   (case rz_channel_dialog (run_residential events) of None \<Rightarrow> True
    | Some d \<Rightarrow> hd_saving d = (ChannelSlot (hd_id d) \<in> set (slots (run_residential events)))) \<and>
   (case rz_endpoint_dialog (run_residential events) of None \<Rightarrow> True
    | Some d \<Rightarrow> ed_saving d = (EndpointSlot (ed_id d) \<in> set (slots (run_residential events)))) \<and>
   (case rz_sessions_dialog (run_residential events) of None \<Rightarrow> True
    | Some d \<Rightarrow> (\<forall>key. (sd_busy d = Some key) = (SessionSlot (sd_id d) key \<in> set (slots (run_residential events)))))"
  using inv_residential_run[of events]
  by (simp add: residential_inv_def dialogs_ok_def dialog_ok_defs split: option.splits)

text \<open>
  The answer to a request whose dialog was closed closes the dialog of the same kind that is open
  by then, with what was typed into it: there is a run that loses a form in this way.
\<close>

lemma late_success_closes:
  "n < length (rz_pending p) \<Longrightarrow> rz_pending p ! n = SaveProvider i j q \<Longrightarrow>
     rz_provider_dialog (fst (residential_step p (Arrived n (UnitAnswer (Inr ()))))) = None"
  "n < length (rz_pending p) \<Longrightarrow> rz_pending p ! n = SaveChannel i e r \<Longrightarrow>
     rz_channel_dialog (fst (residential_step p (Arrived n (UnitAnswer (Inr ()))))) = None"
  "n < length (rz_pending p) \<Longrightarrow> rz_pending p ! n = SaveEndpoint i k u \<Longrightarrow>
     rz_endpoint_dialog (fst (residential_step p (Arrived n (UnitAnswer (Inr ()))))) = None"
  by (simp_all add: residential_answered_def provider_answer_def channel_answer_def endpoint_answer_def)

definition no_data :: residential_data where
  "no_data = \<lparr>rx_providers = [], rx_channels = [], rx_presets = [], rx_worker_protocols = None, rx_groups = [], rx_traffic = []\<rparr>"

definition closed_too_early :: "residential_event list" where
  "closed_too_early =
     [Arrived 0 (DataAnswer (Inr no_data)), Page NewProvider, ProviderInput (ProviderName [97]),
      ProviderInput (RotationChosen ApiList), ProviderInput (ApiUrlTyped [97]), ProviderSubmitted, ProviderClosed,
      Page NewProvider, ProviderInput (ProviderName [98])]"

lemma typed_form_lost:
  "(\<exists>d. rz_provider_dialog (run_residential closed_too_early) = Some d \<and> pf_name (vd_form d) = [98] \<and> \<not> vd_saving d) \<and>
   rz_provider_dialog (run_residential (closed_too_early @ [Arrived 0 (UnitAnswer (Inr ()))])) = None"
  by (simp add: run_residential_def closed_too_early_def initial_residential_def residential_answered_def reload_done_def
      no_data_def remove_at_def run_preset_effect_def preset_effect_def follow_channel_def release_session_def Let_def
      uncovered_def open_provider_def emptyProviderForm_def provider_filled_def fetch_mode_def provider_submit_def
      submit_provider_def send_task_def provider_answer_def reload_residential_def)

text \<open>
  A new mode leaves the protocol of the form, which need not be one of those on offer; a login
  without a password is dropped when a provider is edited.
\<close>

lemma stale_protocol:
  assumes "PHttp \<notin> set worker"
  shows "let f = provider_input presets worker groups (RotationChosen CfWorker) emptyProviderForm
         in pf_protocol f \<notin> set (protocol_choices worker f) \<and> pp_protocol (provider_object None f) = pf_protocol f"
  using assms by (simp add: emptyProviderForm_def protocol_choices_def provider_object_def Let_def)

lemma lone_login_dropped:
  "pf_password f = [] \<Longrightarrow> \<exists>q. submit_provider (Some v) f = SendProvider q \<and> pp_credentials q = None"
  by (simp add: submit_provider_def provider_credentials_def provider_object_def Let_def)

end
