(* ===== verification/Rules.thy ===== *)
theory Rules
  imports Types
begin

text \<open>
  The site alias page (web/src/pages/rules-page.tsx): editing the rule sets by position, and the
  identifier that a new set gets, found by a loop that is an instance of the numbered names.
\<close>

section \<open>Lists edited by position\<close>

text \<open>\<open>if (!xs[i]) return; xs[i] = f(xs[i])\<close>\<close>

definition update_at :: "nat \<Rightarrow> ('a \<Rightarrow> 'a) \<Rightarrow> 'a list \<Rightarrow> 'a list" where
  "update_at i f xs = (if i < length xs then xs[i := f (xs ! i)] else xs)"

text \<open>\<open>xs.filter((_, index) => index !== i)\<close>\<close>

definition remove_at :: "nat \<Rightarrow> 'a list \<Rightarrow> 'a list" where
  "remove_at i xs = map snd (filter (\<lambda>(index, x). index \<noteq> i) (zip [0..<length xs] xs))"

lemma length_update_at [simp]: "length (update_at i f xs) = length xs"
  by (simp add: update_at_def)

lemma nth_update_at: "j < length xs \<Longrightarrow> update_at i f xs ! j = (if i = j then f (xs ! j) else xs ! j)"
  by (simp add: update_at_def)

lemma remove_at_from:
  "map snd (filter (\<lambda>(index, x). index \<noteq> n + i) (zip [n..<n + length xs] xs)) = take i xs @ drop (Suc i) xs"
proof (induction xs arbitrary: n i)
  case (Cons x xs)
  define rest where "rest = zip [Suc n..<Suc n + length xs] xs"
  have zip: "zip [n..<n + length (x # xs)] (x # xs) = (n, x) # rest"
    by (simp add: rest_def upt_conv_Cons del: upt_Suc)
  have "filter (\<lambda>(index, x). index \<noteq> n) rest = rest"
    unfolding rest_def by (rule filter_True) (auto dest: set_zip_leftD)
  moreover have "map snd rest = xs" by (simp add: rest_def del: upt_Suc)
  moreover have "map snd (filter (\<lambda>(index, x). index \<noteq> Suc n + k) rest) = take k xs @ drop (Suc k) xs" for k
    using Cons[of "Suc n" k] by (simp add: rest_def)
  ultimately show ?case unfolding zip by (cases i) simp_all
qed simp

lemma remove_at_take_drop: "remove_at i xs = take i xs @ drop (Suc i) xs"
  using remove_at_from[of 0 i xs] by (simp add: remove_at_def)

section \<open>The page\<close>

record rules_page =
  rl_config :: RoutingRulesConfig
  rl_loading :: bool
  rl_saving :: bool

definition load_rules :: "RoutingRulesConfig option \<Rightarrow> rules_page \<Rightarrow> rules_page" where
  "load_rules answer p =
     (case answer of Some c \<Rightarrow> p\<lparr>rl_config := c, rl_loading := False\<rparr> | None \<Rightarrow> p\<lparr>rl_loading := False\<rparr>)"

definition save_rules :: "RoutingRulesConfig option \<Rightarrow> rules_page \<Rightarrow> rules_page" where
  "save_rules answer p =
     (case answer of Some c \<Rightarrow> p\<lparr>rl_config := c, rl_saving := False\<rparr> | None \<Rightarrow> p\<lparr>rl_saving := False\<rparr>)"

definition with_sets :: "(RoutingRuleSet list \<Rightarrow> RoutingRuleSet list) \<Rightarrow> rules_page \<Rightarrow> rules_page" where
  "with_sets f p = p\<lparr>rl_config := \<lparr>rrc_rule_sets = f (rrc_rule_sets (rl_config p))\<rparr>\<rparr>"

definition updateSet :: "nat \<Rightarrow> (RoutingRuleSet \<Rightarrow> RoutingRuleSet) \<Rightarrow> rules_page \<Rightarrow> rules_page" where
  "updateSet index patch p = with_sets (update_at index patch) p"

definition updateRule :: "nat \<Rightarrow> nat \<Rightarrow> RoutingRuleType option \<Rightarrow> jstr option \<Rightarrow> rules_page \<Rightarrow> rules_page" where
  "updateRule set_index rule_index new_type new_value p =
     updateSet set_index (\<lambda>rset. rset\<lparr>rs_rules := update_at rule_index
       (\<lambda>current. \<lparr>rule_type = or_default new_type (rule_type current),
                    rule_value = or_default new_value (rule_value current)\<rparr>) (rs_rules rset)\<rparr>) p"

definition default_rule :: RoutingRule where
  "default_rule = \<lparr>rule_type = RDomainSuffix, rule_value = js ''example.com''\<rparr>"

definition add_rule :: "nat \<Rightarrow> rules_page \<Rightarrow> rules_page" where
  "add_rule i p = updateSet i (\<lambda>rset. rset\<lparr>rs_rules := rs_rules rset @ [default_rule]\<rparr>) p"

definition remove_rule :: "nat \<Rightarrow> nat \<Rightarrow> rules_page \<Rightarrow> rules_page" where
  "remove_rule i j p = updateSet i (\<lambda>rset. rset\<lparr>rs_rules := remove_at j (rs_rules rset)\<rparr>) p"

definition remove_set :: "nat \<Rightarrow> rules_page \<Rightarrow> rules_page" where
  "remove_set i p = with_sets (remove_at i) p"

text \<open>The name of a new set is the word for a group of sites, a blank and the number.\<close>

definition site_group_name :: "nat \<Rightarrow> jstr" where
  "site_group_name n = [0x7AD9, 0x70B9, 0x7EC4, 0x20] @ show_int (int n)"

definition set_name :: "nat \<Rightarrow> jstr" where
  "set_name n = js ''sites-'' @ show_int (int n)"

text \<open>None stands for a loop that does not end.\<close>

definition createRuleSet :: "RoutingRuleSet list \<Rightarrow> RoutingRuleSet option" where
  "createRuleSet existing =
     map_option (\<lambda>suffix. \<lparr>rs_id = set_name suffix, rs_name = site_group_name suffix, rs_enabled = True,
         rs_priority = int suffix * 10, rs_routes = Some [], rs_applied_group_ids = None, rs_action = None,
         rs_rules = [default_rule]\<rparr>)
       (first_free set_name (map rs_id existing) (length existing + 1))"

definition add_set :: "rules_page \<Rightarrow> rules_page option" where
  "add_set p = map_option (\<lambda>rset. with_sets (\<lambda>sets. sets @ [rset]) p) (createRuleSet (rrc_rule_sets (rl_config p)))"

interpretation set_names: numbered_name set_name
  by unfold_locales (simp add: set_name_def)

lemma createRuleSet_fresh:
  "\<exists>rset n. createRuleSet existing = Some rset \<and> length existing < n \<and> rs_id rset = set_name n \<and>
     rs_id rset \<notin> rs_id ` set existing \<and> rs_priority rset = 10 * int n"
  using set_names.first_free_ends[of "map rs_id existing" "length existing + 1"]
  by (fastforce simp: createRuleSet_def)

text \<open>Editing keeps the other sets; a patch that keeps the identifiers keeps them distinct.\<close>

lemma updateSet_others:
  "j < length (rrc_rule_sets (rl_config p)) \<Longrightarrow> j \<noteq> i \<Longrightarrow>
     rrc_rule_sets (rl_config (updateSet i patch p)) ! j = rrc_rule_sets (rl_config p) ! j"
  by (simp add: updateSet_def with_sets_def nth_update_at)

lemma add_set_distinct:
  assumes "distinct (map rs_id (rrc_rule_sets (rl_config p)))"
  shows "\<exists>q. add_set p = Some q \<and> distinct (map rs_id (rrc_rule_sets (rl_config q)))"
  using createRuleSet_fresh[of "rrc_rule_sets (rl_config p)"] assms by (auto simp: add_set_def with_sets_def)

end
