(* ===== verification/SettingsPage.thy ===== *)
theory SettingsPage
  imports Rules ApiCalls Tasks
begin

text \<open>
  The settings page (web/src/pages/settings-page.tsx): the global settings with the fields of their
  three tabs, the site test, the account, two-factor and API key forms. The requests in flight are a
  list of tasks, each with what it sent; answers arrive in any order. The appearance tab is in Theme.
\<close>

section \<open>State\<close>

record site_result =
  sr_success :: int
  sr_tested :: int

datatype settings_tab = AppearanceTab | QualityTab | DnsTab | RuntimeTab | AccountTab

datatype account_form = UsernameForm | PasswordForm

datatype two_factor_op = SetupOp | EnableOp | DisableOp

text \<open>What a request of the page keeps busy, if anything.\<close>

datatype settings_slot =
    Saving | Testing | Account account_form | TwoFactor two_factor_op | Creating | Revoking jstr

datatype settings_task =
    LoadSettings | LoadStatus "two_factor_op option" | LoadKeys "settings_slot option"
  | SaveSettings GlobalSettings | TestSave GlobalSettings "HealthTarget list" | TestCheck "HealthTarget list"
  | ChangeUsername jstr jstr | ChangePassword jstr jstr | LogoutTask
  | SetupTask | EnableTask jstr | DisableTask jstr | CreateKey jstr | RevokeKey jstr

record settings_page =
  st_tab :: settings_tab
  st_settings :: "GlobalSettings option"
  st_loading :: bool
  st_saving :: bool
  st_testing :: bool
  st_results :: "jstr \<rightharpoonup> site_result"
  st_username :: "jstr option"
  st_new_username :: jstr
  st_username_password :: jstr
  st_current_password :: jstr
  st_new_password :: jstr
  st_confirm_password :: jstr
  st_account :: "account_form option"
  st_two_factor :: "TwoFactorStatus option"
  st_setup :: "TwoFactorSetup option"
  st_code :: jstr
  st_two_factor_busy :: "two_factor_op option"
  st_keys :: "APIKeyItem list"
  st_key_name :: jstr
  st_creating :: bool
  st_new_key :: "APIKeyItem option"
  st_revoking :: "jstr option"
  st_pending :: "settings_task list"

text \<open>The first render, and the three loads that its effects start.\<close>

definition initial_settings :: "jstr option \<Rightarrow> settings_page" where
  "initial_settings username =
     \<lparr>st_tab = AppearanceTab, st_settings = None, st_loading = True, st_saving = False, st_testing = False,
      st_results = Map.empty, st_username = username, st_new_username = or_default username [],
      st_username_password = [], st_current_password = [], st_new_password = [], st_confirm_password = [],
      st_account = None, st_two_factor = None, st_setup = None, st_code = [], st_two_factor_busy = None,
      st_keys = [], st_key_name = [], st_creating = False, st_new_key = None, st_revoking = None,
      st_pending = [LoadSettings, LoadStatus None, LoadKeys None]\<rparr>"

datatype settings_effect =
    SettingsApplied | NoTargets | SitesTested nat | BadUsername | PasswordsDiffer | PasswordShort
  | UsernameChanged | PasswordChanged | BadCode | SetupReady | TwoFactorOn | TwoFactorOff
  | ValueCopied | ValueNotCopied | SettingsError js_error | SignedOut

text \<open>The call of each task; None when the identifier cannot be encoded in a path.\<close>

fun settings_call :: "settings_task \<Rightarrow> http_call option" where
  "settings_call LoadSettings = Some globalSettings"
| "settings_call (LoadStatus after) = Some twoFactorStatus"
| "settings_call (LoadKeys after) = Some apiKeys"
| "settings_call (SaveSettings s) = Some (updateGlobalSettings s)"
| "settings_call (TestSave s targets) = Some (updateGlobalSettings s)"
| "settings_call (TestCheck targets) = Some (checkNodes [])"
| "settings_call (ChangeUsername password name) = Some (changeUsername password name)"
| "settings_call (ChangePassword password new) = Some (changePassword password new)"
| "settings_call LogoutTask = Some logoutAll"
| "settings_call SetupTask = Some setupTwoFactor"
| "settings_call (EnableTask code) = Some (enableTwoFactor code)"
| "settings_call (DisableTask code) = Some (disableTwoFactor code)"
| "settings_call (CreateKey name) = Some (apiKeyCreate name)"
| "settings_call (RevokeKey i) = apiKeyRevoke i"

section \<open>Busy marks\<close>

fun slot_of :: "settings_task \<Rightarrow> settings_slot option" where
  "slot_of LoadSettings = None"
| "slot_of (LoadStatus after) = map_option TwoFactor after"
| "slot_of (LoadKeys after) = after"
| "slot_of (SaveSettings s) = Some Saving"
| "slot_of (TestSave s targets) = Some Testing"
| "slot_of (TestCheck targets) = Some Testing"
| "slot_of (ChangeUsername password name) = Some (Account UsernameForm)"
| "slot_of (ChangePassword password new) = Some (Account PasswordForm)"
| "slot_of LogoutTask = None"
| "slot_of SetupTask = Some (TwoFactor SetupOp)"
| "slot_of (EnableTask code) = Some (TwoFactor EnableOp)"
| "slot_of (DisableTask code) = Some (TwoFactor DisableOp)"
| "slot_of (CreateKey name) = Some Creating"
| "slot_of (RevokeKey i) = Some (Revoking i)"

fun set_slot :: "settings_slot \<Rightarrow> settings_page \<Rightarrow> settings_page" where
  "set_slot Saving p = p\<lparr>st_saving := True\<rparr>"
| "set_slot Testing p = p\<lparr>st_testing := True\<rparr>"
| "set_slot (Account form) p = p\<lparr>st_account := Some form\<rparr>"
| "set_slot (TwoFactor op) p = p\<lparr>st_two_factor_busy := Some op\<rparr>"
| "set_slot Creating p = p\<lparr>st_creating := True\<rparr>"
| "set_slot (Revoking i) p = p\<lparr>st_revoking := Some i\<rparr>"

fun clear_slot :: "settings_slot \<Rightarrow> settings_page \<Rightarrow> settings_page" where
  "clear_slot Saving p = p\<lparr>st_saving := False\<rparr>"
| "clear_slot Testing p = p\<lparr>st_testing := False\<rparr>"
| "clear_slot (Account form) p = p\<lparr>st_account := None\<rparr>"
| "clear_slot (TwoFactor op) p = p\<lparr>st_two_factor_busy := None\<rparr>"
| "clear_slot Creating p = p\<lparr>st_creating := False\<rparr>"
| "clear_slot (Revoking i) p = p\<lparr>st_revoking := None\<rparr>"

text \<open>Whether the buttons that would take a slot are enabled, and whether it is taken.\<close>

fun slot_free :: "settings_slot \<Rightarrow> settings_page \<Rightarrow> bool" where
  "slot_free Saving p \<longleftrightarrow> \<not> st_saving p"
| "slot_free Testing p \<longleftrightarrow> \<not> st_testing p"
| "slot_free (Account form) p \<longleftrightarrow> st_account p = None"
| "slot_free (TwoFactor op) p \<longleftrightarrow> st_two_factor_busy p = None"
| "slot_free Creating p \<longleftrightarrow> \<not> st_creating p"
| "slot_free (Revoking i) p \<longleftrightarrow> st_revoking p = None"

fun slot_taken :: "settings_page \<Rightarrow> settings_slot \<Rightarrow> bool" where
  "slot_taken p Saving \<longleftrightarrow> st_saving p"
| "slot_taken p Testing \<longleftrightarrow> st_testing p"
| "slot_taken p (Account form) \<longleftrightarrow> st_account p = Some form"
| "slot_taken p (TwoFactor op) \<longleftrightarrow> st_two_factor_busy p = Some op"
| "slot_taken p Creating \<longleftrightarrow> st_creating p"
| "slot_taken p (Revoking i) \<longleftrightarrow> st_revoking p = Some i"

definition start_task :: "settings_task \<Rightarrow> settings_page \<Rightarrow> settings_page" where
  "start_task t p =
     (let q = p\<lparr>st_pending := st_pending p @ [t]\<rparr>
      in case slot_of t of Some s \<Rightarrow> set_slot s q | None \<Rightarrow> q)"

definition end_task :: "settings_slot option \<Rightarrow> settings_page \<Rightarrow> settings_page" where
  "end_task after p = (case after of Some s \<Rightarrow> clear_slot s p | None \<Rightarrow> p)"

section \<open>Global settings\<close>

definition load_settings_done :: "GlobalSettings outcome \<Rightarrow> settings_page \<Rightarrow> settings_page \<times> settings_effect list" where
  "load_settings_done answer p =
     (case answer of
        Inr s \<Rightarrow> (p\<lparr>st_settings := Some s, st_loading := False\<rparr>, [])
      | Inl cause \<Rightarrow> (p\<lparr>st_loading := False\<rparr>, [SettingsError cause]))"

definition save_settings :: "settings_page \<Rightarrow> settings_page" where
  "save_settings p = (case st_settings p of None \<Rightarrow> p | Some s \<Rightarrow> start_task (SaveSettings s) p)"

definition save_settings_done :: "GlobalSettings outcome \<Rightarrow> settings_page \<Rightarrow> settings_page \<times> settings_effect list" where
  "save_settings_done answer p =
     (case answer of
        Inr saved \<Rightarrow> (clear_slot Saving (p\<lparr>st_settings := Some saved\<rparr>), [SettingsApplied])
      | Inl cause \<Rightarrow> (clear_slot Saving p, [SettingsError cause]))"

definition with_quality :: "(QualitySettings \<Rightarrow> QualitySettings) \<Rightarrow> GlobalSettings \<Rightarrow> GlobalSettings" where
  "with_quality f s = s\<lparr>gs_quality := f (gs_quality s)\<rparr>"

definition with_dns :: "(DnsSettings \<Rightarrow> DnsSettings) \<Rightarrow> GlobalSettings \<Rightarrow> GlobalSettings" where
  "with_dns f s = s\<lparr>gs_dns := f (gs_dns s)\<rparr>"

definition with_inbound :: "(SharedInboundSettings \<Rightarrow> SharedInboundSettings) \<Rightarrow> GlobalSettings \<Rightarrow> GlobalSettings" where
  "with_inbound f s = s\<lparr>gs_shared_inbound := f (gs_shared_inbound s)\<rparr>"

definition with_performance :: "(PerformanceSettings \<Rightarrow> PerformanceSettings) \<Rightarrow> GlobalSettings \<Rightarrow> GlobalSettings" where
  "with_performance f s = s\<lparr>gs_performance := f (gs_performance s)\<rparr>"

definition with_targets :: "(HealthTarget list \<Rightarrow> HealthTarget list) \<Rightarrow> GlobalSettings \<Rightarrow> GlobalSettings" where
  "with_targets f = with_quality (\<lambda>q. q\<lparr>qs_health_targets := f (qs_health_targets q)\<rparr>)"

definition updateTarget :: "nat \<Rightarrow> (HealthTarget \<Rightarrow> HealthTarget) \<Rightarrow> GlobalSettings \<Rightarrow> GlobalSettings" where
  "updateTarget index patch = with_targets (update_at index patch)"

definition target_id :: "nat \<Rightarrow> jstr" where
  "target_id n = js ''site-'' @ show_int (int n)"

definition newTarget :: "HealthTarget list \<Rightarrow> HealthTarget option" where
  "newTarget targets =
     map_option (\<lambda>suffix. \<lparr>ht_id = target_id suffix, ht_name = [0x7AD9, 0x70B9, 0x20] @ show_int (int suffix),
         ht_url = js ''https://example.com/'', ht_enabled = False\<rparr>)
       (first_free target_id (map ht_id targets) (length targets + 1))"

interpretation target_ids: numbered_name target_id
  by unfold_locales (simp add: target_id_def)

text \<open>The add button; a search that found nothing would never return.\<close>

definition add_target :: "GlobalSettings \<Rightarrow> GlobalSettings option" where
  "add_target s = map_option (\<lambda>t. with_targets (\<lambda>ts. ts @ [t]) s) (newTarget (qs_health_targets (gs_quality s)))"

text \<open>\<open>ListField\<close>: what its text area shows of a list, and the list it makes of a typed text.\<close>

definition list_shown :: "jstr list \<Rightarrow> jstr" where
  "list_shown values = join [newline] values"

definition list_typed :: "jstr \<Rightarrow> jstr list" where
  "list_typed v = filter (\<lambda>s. s \<noteq> []) (map trim (split_on newline v))"

text \<open>\<open>port || d\<close>: a missing port, zero and NaN give the default. So does an empty address.\<close>

definition port_or :: "jnum option \<Rightarrow> int \<Rightarrow> jnum" where
  "port_or port d =
     (case port of None \<Rightarrow> Fin (of_int d)
      | Some n \<Rightarrow> if n = NaN \<or> n = Fin 0 then Fin (of_int d) else n)"

definition address_or :: "jstr option \<Rightarrow> jstr \<Rightarrow> jstr" where
  "address_or address d = or_default (Option.bind address nonempty) d"

definition shared_toggled :: "bool \<Rightarrow> SharedInboundSettings \<Rightarrow> SharedInboundSettings" where
  "shared_toggled enabled i =
     i\<lparr>sis_mode := (if enabled then SharedPort else PerService),
       sis_mixed_port := Some (port_or (sis_mixed_port i) 7890),
       sis_ws_port := Some (port_or (sis_ws_port i) 7891),
       sis_mixed_bind_address := Some (address_or (sis_mixed_bind_address i) (js ''0.0.0.0''))\<rparr>"

text \<open>What the fields of the shared entrance show.\<close>

definition mixed_port_shown :: "SharedInboundSettings \<Rightarrow> jnum" where
  "mixed_port_shown i = or_default (sis_mixed_port i) (Fin 7890)"

definition ws_port_shown :: "SharedInboundSettings \<Rightarrow> jnum" where
  "ws_port_shown i = or_default (sis_ws_port i) (Fin 7891)"

definition ws_public_port_shown :: "SharedInboundSettings \<Rightarrow> jnum" where
  "ws_public_port_shown i = or_default (sis_ws_public_port i) (Fin 443)"

definition mixed_public_port_shown :: "SharedInboundSettings \<Rightarrow> jnum" where
  "mixed_public_port_shown i = or_default (sis_mixed_public_port i) (or_default (sis_mixed_port i) (Fin 7890))"

section \<open>The fields of the three tabs\<close>

datatype settings_edit =
    TestUrlTyped jstr | IntervalTyped jstr | TimeoutTyped jstr | BatchTyped jstr | ConcurrencyTyped jstr
  | TargetAdded | TargetRemoved nat | TargetEnabled nat bool | TargetIdTyped nat jstr
  | TargetNameTyped nat jstr | TargetUrlTyped nat jstr
  | DnsEnabled bool | Ipv6Enabled bool | ModeChosen EnhancedMode
  | BootstrapTyped jstr | NameserverTyped jstr | FallbackTyped jstr
  | SharedEnabled bool | MixedPortTyped jstr | WsPortTyped jstr | BindTyped jstr
  | WsHostTyped jstr | WsPublicPortTyped jstr | MixedHostTyped jstr | MixedPublicPortTyped jstr
  | TcpConcurrent bool | UnifiedDelay bool | IdleTyped jstr | KeepAliveTyped jstr
  | ProcessChosen FindProcessMode | LogLevelChosen LogLevel

fun edit_quality :: "settings_edit \<Rightarrow> GlobalSettings \<Rightarrow> GlobalSettings" where
  "edit_quality (TestUrlTyped v) = with_quality (\<lambda>q. q\<lparr>qs_test_url := v\<rparr>)"
| "edit_quality (IntervalTyped v) = with_quality (\<lambda>q. q\<lparr>qs_check_interval_seconds := js_Number v\<rparr>)"
| "edit_quality (TimeoutTyped v) = with_quality (\<lambda>q. q\<lparr>qs_timeout_seconds := js_Number v\<rparr>)"
| "edit_quality (BatchTyped v) = with_quality (\<lambda>q. q\<lparr>qs_batch_size := js_Number v\<rparr>)"
| "edit_quality (ConcurrencyTyped v) = with_quality (\<lambda>q. q\<lparr>qs_probe_concurrency := js_Number v\<rparr>)"
| "edit_quality TargetAdded = (\<lambda>s. or_default (add_target s) s)"
| "edit_quality (TargetRemoved i) = with_targets (remove_at i)"
| "edit_quality (TargetEnabled i b) = updateTarget i (\<lambda>t. t\<lparr>ht_enabled := b\<rparr>)"
| "edit_quality (TargetIdTyped i v) = updateTarget i (\<lambda>t. t\<lparr>ht_id := v\<rparr>)"
| "edit_quality (TargetNameTyped i v) = updateTarget i (\<lambda>t. t\<lparr>ht_name := v\<rparr>)"
| "edit_quality (TargetUrlTyped i v) = updateTarget i (\<lambda>t. t\<lparr>ht_url := v\<rparr>)"
| "edit_quality _ = id"

fun edit_dns :: "settings_edit \<Rightarrow> GlobalSettings \<Rightarrow> GlobalSettings" where
  "edit_dns (DnsEnabled b) = with_dns (\<lambda>d. d\<lparr>dns_enabled := b\<rparr>)"
| "edit_dns (Ipv6Enabled b) = with_dns (\<lambda>d. d\<lparr>dns_ipv6 := b\<rparr>)"
| "edit_dns (ModeChosen m) = with_dns (\<lambda>d. d\<lparr>dns_enhanced_mode := m\<rparr>)"
| "edit_dns (BootstrapTyped v) = with_dns (\<lambda>d. d\<lparr>dns_default_nameserver := list_typed v\<rparr>)"
| "edit_dns (NameserverTyped v) = with_dns (\<lambda>d. d\<lparr>dns_nameserver := list_typed v\<rparr>)"
| "edit_dns (FallbackTyped v) = with_dns (\<lambda>d. d\<lparr>dns_fallback := list_typed v\<rparr>)"
| "edit_dns _ = id"

fun edit_runtime :: "settings_edit \<Rightarrow> GlobalSettings \<Rightarrow> GlobalSettings" where
  "edit_runtime (SharedEnabled b) = with_inbound (shared_toggled b)"
| "edit_runtime (MixedPortTyped v) = with_inbound (\<lambda>i. i\<lparr>sis_mixed_port := Some (js_Number v)\<rparr>)"
| "edit_runtime (WsPortTyped v) = with_inbound (\<lambda>i. i\<lparr>sis_ws_port := Some (js_Number v)\<rparr>)"
| "edit_runtime (BindTyped v) = with_inbound (\<lambda>i. i\<lparr>sis_mixed_bind_address := Some v\<rparr>)"
| "edit_runtime (WsHostTyped v) = with_inbound (\<lambda>i. i\<lparr>sis_ws_public_host := Some v\<rparr>)"
| "edit_runtime (WsPublicPortTyped v) = with_inbound (\<lambda>i. i\<lparr>sis_ws_public_port := Some (js_Number v)\<rparr>)"
| "edit_runtime (MixedHostTyped v) = with_inbound (\<lambda>i. i\<lparr>sis_mixed_public_host := Some v\<rparr>)"
| "edit_runtime (MixedPublicPortTyped v) = with_inbound (\<lambda>i. i\<lparr>sis_mixed_public_port := Some (js_Number v)\<rparr>)"
| "edit_runtime (TcpConcurrent b) = with_performance (\<lambda>f. f\<lparr>perf_tcp_concurrent := b\<rparr>)"
| "edit_runtime (UnifiedDelay b) = with_performance (\<lambda>f. f\<lparr>perf_unified_delay := b\<rparr>)"
| "edit_runtime (IdleTyped v) = with_performance (\<lambda>f. f\<lparr>perf_keep_alive_idle_seconds := js_Number v\<rparr>)"
| "edit_runtime (KeepAliveTyped v) = with_performance (\<lambda>f. f\<lparr>perf_keep_alive_interval_seconds := js_Number v\<rparr>)"
| "edit_runtime (ProcessChosen m) = with_performance (\<lambda>f. f\<lparr>perf_find_process_mode := m\<rparr>)"
| "edit_runtime (LogLevelChosen l) = with_performance (\<lambda>f. f\<lparr>perf_log_level := l\<rparr>)"
| "edit_runtime _ = id"

fun edit_tab :: "settings_edit \<Rightarrow> settings_tab" where
  "edit_tab (DnsEnabled b) = DnsTab" | "edit_tab (Ipv6Enabled b) = DnsTab" | "edit_tab (ModeChosen m) = DnsTab"
| "edit_tab (BootstrapTyped v) = DnsTab" | "edit_tab (NameserverTyped v) = DnsTab"
| "edit_tab (FallbackTyped v) = DnsTab"
| "edit_tab (SharedEnabled b) = RuntimeTab" | "edit_tab (MixedPortTyped v) = RuntimeTab"
| "edit_tab (WsPortTyped v) = RuntimeTab" | "edit_tab (BindTyped v) = RuntimeTab"
| "edit_tab (WsHostTyped v) = RuntimeTab" | "edit_tab (WsPublicPortTyped v) = RuntimeTab"
| "edit_tab (MixedHostTyped v) = RuntimeTab" | "edit_tab (MixedPublicPortTyped v) = RuntimeTab"
| "edit_tab (TcpConcurrent b) = RuntimeTab" | "edit_tab (UnifiedDelay b) = RuntimeTab"
| "edit_tab (IdleTyped v) = RuntimeTab" | "edit_tab (KeepAliveTyped v) = RuntimeTab"
| "edit_tab (ProcessChosen m) = RuntimeTab" | "edit_tab (LogLevelChosen l) = RuntimeTab"
| "edit_tab _ = QualityTab"

text \<open>The fields of the shared entrance are disabled while it is off.\<close>

definition inbound_field :: "settings_edit \<Rightarrow> bool" where
  "inbound_field e =
     (case e of MixedPortTyped v \<Rightarrow> True | WsPortTyped v \<Rightarrow> True | BindTyped v \<Rightarrow> True | WsHostTyped v \<Rightarrow> True
      | WsPublicPortTyped v \<Rightarrow> True | MixedHostTyped v \<Rightarrow> True | MixedPublicPortTyped v \<Rightarrow> True | _ \<Rightarrow> False)"

definition edit_settings :: "settings_edit \<Rightarrow> GlobalSettings \<Rightarrow> GlobalSettings" where
  "edit_settings e s =
     (if inbound_field e \<and> sis_mode (gs_shared_inbound s) \<noteq> SharedPort then s
      else (case edit_tab e of DnsTab \<Rightarrow> edit_dns e s | RuntimeTab \<Rightarrow> edit_runtime e s | _ \<Rightarrow> edit_quality e s))"

section \<open>The site test\<close>

definition enabled_targets :: "GlobalSettings \<Rightarrow> HealthTarget list" where
  "enabled_targets s = filter ht_enabled (qs_health_targets (gs_quality s))"

definition count_check :: "(jstr \<rightharpoonup> site_result) \<Rightarrow> NodeHealthCheck \<Rightarrow> (jstr \<rightharpoonup> site_result)" where
  "count_check summary check =
     (case summary (nhc_target_id check) of
        None \<Rightarrow> summary
      | Some r \<Rightarrow> summary(nhc_target_id check \<mapsto>
          \<lparr>sr_success = (if nhc_success check then sr_success r + 1 else sr_success r), sr_tested = sr_tested r + 1\<rparr>))"

text \<open>Identifiers that name a property every object inherits are not told apart from others.\<close>

definition site_summary :: "HealthTarget list \<Rightarrow> NodeRecord list \<Rightarrow> (jstr \<rightharpoonup> site_result)" where
  "site_summary targets nodes =
     foldl count_check (map_from (map (\<lambda>target. (ht_id target, \<lparr>sr_success = 0, sr_tested = 0\<rparr>)) targets))
       (concat (map nd_health_checks nodes))"

text \<open>The test saves the settings, then checks all nodes.\<close>

definition testHealthTargets :: "settings_page \<Rightarrow> settings_page \<times> settings_effect list" where
  "testHealthTargets p =
     (case st_settings p of
        None \<Rightarrow> (p, [])
      | Some s \<Rightarrow>
          if enabled_targets s = [] then (p, [NoTargets])
          else (start_task (TestSave s (enabled_targets s)) p, []))"

definition test_saved ::
  "HealthTarget list \<Rightarrow> GlobalSettings outcome \<Rightarrow> settings_page \<Rightarrow> settings_page \<times> settings_effect list" where
  "test_saved targets answer p =
     (case answer of
        Inr saved \<Rightarrow> (start_task (TestCheck targets) (p\<lparr>st_settings := Some saved\<rparr>), [])
      | Inl cause \<Rightarrow> (clear_slot Testing p, [SettingsError cause]))"

definition test_checked ::
  "HealthTarget list \<Rightarrow> NodeCheckList outcome \<Rightarrow> settings_page \<Rightarrow> settings_page \<times> settings_effect list" where
  "test_checked targets answer p =
     (case answer of
        Inr checks \<Rightarrow>
          (clear_slot Testing (p\<lparr>st_results := site_summary targets (map ncr_node (ncl_items checks))\<rparr>),
           [SitesTested (length (ncl_items checks))])
      | Inl cause \<Rightarrow> (clear_slot Testing p, [SettingsError cause]))"

text \<open>The badge of a target: nothing before a test, else whether every tested node passed.\<close>

definition site_badge :: "settings_page \<Rightarrow> HealthTarget \<Rightarrow> bool option" where
  "site_badge p target =
     map_option (\<lambda>r. sr_success r = sr_tested r \<and> 0 < sr_tested r) (st_results p (ht_id target))"

section \<open>Account\<close>

definition change_username :: "settings_page \<Rightarrow> settings_page \<times> settings_effect list" where
  "change_username p =
     (let name = trim (st_new_username p)
      in if length name < 3 \<or> 64 < length name then (p, [BadUsername])
         else (start_task (ChangeUsername (st_username_password p) name) p, []))"

definition change_password :: "settings_page \<Rightarrow> settings_page \<times> settings_effect list" where
  "change_password p =
     (if st_new_password p \<noteq> st_confirm_password p then (p, [PasswordsDiffer])
      else if length (st_new_password p) < 10 then (p, [PasswordShort])
      else (start_task (ChangePassword (st_current_password p) (st_new_password p)) p, []))"

text \<open>A changed account signs out.\<close>

definition account_done ::
  "account_form \<Rightarrow> unit outcome \<Rightarrow> settings_page \<Rightarrow> settings_page \<times> settings_effect list" where
  "account_done form answer p =
     (clear_slot (Account form) p,
      case answer of
        Inr _ \<Rightarrow> [case form of UsernameForm \<Rightarrow> UsernameChanged | PasswordForm \<Rightarrow> PasswordChanged, SignedOut]
      | Inl cause \<Rightarrow> [SettingsError cause])"

definition logout_done :: "unit outcome \<Rightarrow> settings_page \<Rightarrow> settings_page \<times> settings_effect list" where
  "logout_done answer p = (p, case answer of Inr _ \<Rightarrow> [SignedOut] | Inl cause \<Rightarrow> [SettingsError cause])"

section \<open>Two-factor authentication\<close>

text \<open>\<open>/^\d{6}$/.test(code.trim())\<close>\<close>

definition six_digits :: "jstr \<Rightarrow> bool" where
  "six_digits code \<longleftrightarrow> length (trim code) = 6 \<and> list_all is_digit (trim code)"

text \<open>What the input keeps of a typed code.\<close>

definition typed_code :: "jstr \<Rightarrow> jstr" where
  "typed_code v = take 6 (filter is_digit v)"

definition enabled_2fa :: "settings_page \<Rightarrow> bool" where
  "enabled_2fa p \<longleftrightarrow> (case st_two_factor p of Some s \<Rightarrow> tfs_enabled s | None \<Rightarrow> False)"

definition setup_done :: "TwoFactorSetup outcome \<Rightarrow> settings_page \<Rightarrow> settings_page \<times> settings_effect list" where
  "setup_done answer p =
     (case answer of
        Inr setup \<Rightarrow>
          (clear_slot (TwoFactor SetupOp) (p\<lparr>st_setup := Some setup,
             st_two_factor := map_option (\<lambda>s. s\<lparr>tfs_configured := True, tfs_enabled := False, tfs_verified := False\<rparr>) (st_two_factor p),
             st_code := []\<rparr>), [SetupReady])
      | Inl cause \<Rightarrow> (clear_slot (TwoFactor SetupOp) p, [SettingsError cause]))"

definition enableTwoFactor_begin :: "settings_page \<Rightarrow> settings_page \<times> settings_effect list" where
  "enableTwoFactor_begin p =
     (if \<not> six_digits (st_code p) then (p, [BadCode]) else (start_task (EnableTask (trim (st_code p))) p, []))"

definition disableTwoFactor_begin :: "settings_page \<Rightarrow> settings_page \<times> settings_effect list" where
  "disableTwoFactor_begin p =
     (if \<not> six_digits (st_code p) then (p, [BadCode]) else (start_task (DisableTask (trim (st_code p))) p, []))"

text \<open>After a success the status is read again, and the handler goes on whatever that gives.\<close>

definition enable_done :: "unit outcome \<Rightarrow> settings_page \<Rightarrow> settings_page \<times> settings_effect list" where
  "enable_done answer p =
     (case answer of
        Inr _ \<Rightarrow> (start_task (LoadStatus (Some EnableOp)) (p\<lparr>st_setup := None, st_code := []\<rparr>), [])
      | Inl cause \<Rightarrow> (clear_slot (TwoFactor EnableOp) p, [SettingsError cause]))"

definition disable_done :: "unit outcome \<Rightarrow> settings_page \<Rightarrow> settings_page \<times> settings_effect list" where
  "disable_done answer p =
     (case answer of
        Inr _ \<Rightarrow> (start_task (LoadStatus (Some DisableOp)) (p\<lparr>st_code := []\<rparr>), [])
      | Inl cause \<Rightarrow> (clear_slot (TwoFactor DisableOp) p, [SettingsError cause]))"

definition status_done ::
  "two_factor_op option \<Rightarrow> TwoFactorStatus outcome \<Rightarrow> settings_page \<Rightarrow> settings_page \<times> settings_effect list" where
  "status_done after answer p =
     (let loaded = (case answer of Inr s \<Rightarrow> (p\<lparr>st_two_factor := Some s\<rparr>, []) | Inl cause \<Rightarrow> (p, [SettingsError cause]))
      in (end_task (map_option TwoFactor after) (fst loaded),
          snd loaded @ (case after of Some EnableOp \<Rightarrow> [TwoFactorOn] | Some DisableOp \<Rightarrow> [TwoFactorOff] | _ \<Rightarrow> [])))"

section \<open>API keys\<close>

definition createAPIKey :: "settings_page \<Rightarrow> settings_page" where
  "createAPIKey p =
     (let name = trim (st_key_name p) in if name = [] then p else start_task (CreateKey name) p)"

definition key_created :: "APIKeyItem outcome \<Rightarrow> settings_page \<Rightarrow> settings_page \<times> settings_effect list" where
  "key_created answer p =
     (case answer of
        Inr created \<Rightarrow> (start_task (LoadKeys (Some Creating)) (p\<lparr>st_new_key := Some created, st_key_name := []\<rparr>), [])
      | Inl cause \<Rightarrow> (clear_slot Creating p, [SettingsError cause]))"

definition key_revoked :: "jstr \<Rightarrow> unit outcome \<Rightarrow> settings_page \<Rightarrow> settings_page \<times> settings_effect list" where
  "key_revoked i answer p =
     (case answer of
        Inr _ \<Rightarrow> (start_task (LoadKeys (Some (Revoking i))) (p\<lparr>st_new_key := None\<rparr>), [])
      | Inl cause \<Rightarrow> (clear_slot (Revoking i) p, [SettingsError cause]))"

definition keys_done ::
  "settings_slot option \<Rightarrow> APIKeyItem list outcome \<Rightarrow> settings_page \<Rightarrow> settings_page \<times> settings_effect list" where
  "keys_done after answer p =
     (case answer of
        Inr keys \<Rightarrow> (end_task after (p\<lparr>st_keys := keys\<rparr>), [])
      | Inl cause \<Rightarrow> (end_task after p, [SettingsError cause]))"

text \<open>Copying, with what the clipboard answers.\<close>

definition copy_value :: "bool \<Rightarrow> settings_effect list" where
  "copy_value allowed = (if allowed then [ValueCopied] else [ValueNotCopied])"

section \<open>Events\<close>

datatype settings_answer =
    SettingsAnswer "GlobalSettings outcome" | StatusAnswer "TwoFactorStatus outcome"
  | KeysAnswer "APIKeyItem list outcome" | ChecksAnswer "NodeCheckList outcome"
  | SetupAnswer "TwoFactorSetup outcome" | KeyAnswer "APIKeyItem outcome" | DoneAnswer "unit outcome"

text \<open>The handler that an answer resumes; an answer of another request's type does not occur.\<close>

fun resume_settings ::
  "settings_task \<Rightarrow> settings_answer \<Rightarrow> (settings_page \<Rightarrow> settings_page \<times> settings_effect list) option" where
  "resume_settings LoadSettings answer = (case answer of SettingsAnswer a \<Rightarrow> Some (load_settings_done a) | _ \<Rightarrow> None)"
| "resume_settings (LoadStatus after) answer = (case answer of StatusAnswer a \<Rightarrow> Some (status_done after a) | _ \<Rightarrow> None)"
| "resume_settings (LoadKeys after) answer = (case answer of KeysAnswer a \<Rightarrow> Some (keys_done after a) | _ \<Rightarrow> None)"
| "resume_settings (SaveSettings s) answer = (case answer of SettingsAnswer a \<Rightarrow> Some (save_settings_done a) | _ \<Rightarrow> None)"
| "resume_settings (TestSave s targets) answer = (case answer of SettingsAnswer a \<Rightarrow> Some (test_saved targets a) | _ \<Rightarrow> None)"
| "resume_settings (TestCheck targets) answer = (case answer of ChecksAnswer a \<Rightarrow> Some (test_checked targets a) | _ \<Rightarrow> None)"
| "resume_settings (ChangeUsername password name) answer = (case answer of DoneAnswer a \<Rightarrow> Some (account_done UsernameForm a) | _ \<Rightarrow> None)"
| "resume_settings (ChangePassword password new) answer = (case answer of DoneAnswer a \<Rightarrow> Some (account_done PasswordForm a) | _ \<Rightarrow> None)"
| "resume_settings LogoutTask answer = (case answer of DoneAnswer a \<Rightarrow> Some (logout_done a) | _ \<Rightarrow> None)"
| "resume_settings SetupTask answer = (case answer of SetupAnswer a \<Rightarrow> Some (setup_done a) | _ \<Rightarrow> None)"
| "resume_settings (EnableTask code) answer = (case answer of DoneAnswer a \<Rightarrow> Some (enable_done a) | _ \<Rightarrow> None)"
| "resume_settings (DisableTask code) answer = (case answer of DoneAnswer a \<Rightarrow> Some (disable_done a) | _ \<Rightarrow> None)"
| "resume_settings (CreateKey name) answer = (case answer of KeyAnswer a \<Rightarrow> Some (key_created a) | _ \<Rightarrow> None)"
| "resume_settings (RevokeKey i) answer = (case answer of DoneAnswer a \<Rightarrow> Some (key_revoked i a) | _ \<Rightarrow> None)"

definition settings_answered :: "nat \<Rightarrow> settings_answer \<Rightarrow> settings_page \<Rightarrow> settings_page \<times> settings_effect list" where
  "settings_answered n a p =
     (if n < length (st_pending p)
      then (case resume_settings (st_pending p ! n) a of
              Some f \<Rightarrow> f (p\<lparr>st_pending := remove_at n (st_pending p)\<rparr>)
            | None \<Rightarrow> (p, []))
      else (p, []))"

datatype settings_event =
    TabChosen settings_tab | Edited settings_edit | SaveClicked | TestClicked
  | NewUsernameTyped jstr | UsernamePasswordTyped jstr | CurrentPasswordTyped jstr | NewPasswordTyped jstr
  | ConfirmPasswordTyped jstr | UsernameClicked | PasswordClicked | LogoutClicked
  | SetupClicked | CodeTyped jstr | EnableClicked | DisableClicked
  | KeyNameTyped jstr | CreateClicked | RevokeClicked APIKeyItem
  | CopyClicked bool | UsernameGiven "jstr option" | Answered nat settings_answer

text \<open>The tabs are on the page once the settings are; a control reacts only on its tab, while it is enabled.\<close>

definition on_tab :: "settings_tab \<Rightarrow> settings_page \<Rightarrow> bool" where
  "on_tab tab p \<longleftrightarrow> \<not> st_loading p \<and> st_settings p \<noteq> None \<and> st_tab p = tab"

definition server_tab :: "settings_page \<Rightarrow> bool" where
  "server_tab p \<longleftrightarrow> on_tab QualityTab p \<or> on_tab DnsTab p \<or> on_tab RuntimeTab p"

fun account_step :: "settings_page \<Rightarrow> settings_event \<Rightarrow> settings_page \<times> settings_effect list" where
  "account_step p (NewUsernameTyped v) = (p\<lparr>st_new_username := v\<rparr>, [])"
| "account_step p (UsernamePasswordTyped v) = (p\<lparr>st_username_password := v\<rparr>, [])"
| "account_step p (CurrentPasswordTyped v) = (p\<lparr>st_current_password := v\<rparr>, [])"
| "account_step p (NewPasswordTyped v) = (p\<lparr>st_new_password := v\<rparr>, [])"
| "account_step p (ConfirmPasswordTyped v) = (p\<lparr>st_confirm_password := v\<rparr>, [])"
| "account_step p UsernameClicked =
     (if \<not> slot_free (Account UsernameForm) p \<or> st_username_password p = []
        \<or> Some (trim (st_new_username p)) = st_username p
      then (p, []) else change_username p)"
| "account_step p PasswordClicked =
     (if \<not> slot_free (Account PasswordForm) p \<or> st_current_password p = [] \<or> st_new_password p = []
        \<or> st_confirm_password p = []
      then (p, []) else change_password p)"
| "account_step p LogoutClicked = (start_task LogoutTask p, [])"
| "account_step p SetupClicked =
     (if enabled_2fa p \<or> st_setup p \<noteq> None \<or> \<not> slot_free (TwoFactor SetupOp) p then (p, [])
      else (start_task SetupTask p, []))"
| "account_step p (CodeTyped v) =
     (if enabled_2fa p \<or> st_setup p \<noteq> None then (p\<lparr>st_code := typed_code v\<rparr>, []) else (p, []))"
| "account_step p EnableClicked =
     (if st_setup p = None \<or> \<not> slot_free (TwoFactor EnableOp) p then (p, []) else enableTwoFactor_begin p)"
| "account_step p DisableClicked =
     (if \<not> enabled_2fa p \<or> \<not> slot_free (TwoFactor DisableOp) p then (p, []) else disableTwoFactor_begin p)"
| "account_step p (KeyNameTyped v) = (p\<lparr>st_key_name := v\<rparr>, [])"
| "account_step p CreateClicked =
     (if \<not> slot_free Creating p \<or> trim (st_key_name p) = [] then (p, []) else (createAPIKey p, []))"
| "account_step p (RevokeClicked key) =
     (if key \<notin> set (st_keys p) \<or> \<not> slot_free (Revoking (aki_id key)) p then (p, [])
      else (start_task (RevokeKey (aki_id key)) p, []))"
| "account_step p (CopyClicked allowed) =
     (if st_setup p = None \<and> st_new_key p = None then (p, []) else (p, copy_value allowed))"
| "account_step p _ = (p, [])"

fun settings_step :: "settings_page \<Rightarrow> settings_event \<Rightarrow> settings_page \<times> settings_effect list" where
  "settings_step p (TabChosen tab) = (if st_loading p \<or> st_settings p = None then (p, []) else (p\<lparr>st_tab := tab\<rparr>, []))"
| "settings_step p (Edited e) =
     (if on_tab (edit_tab e) p then (p\<lparr>st_settings := map_option (edit_settings e) (st_settings p)\<rparr>, []) else (p, []))"
| "settings_step p SaveClicked = (if server_tab p \<and> slot_free Saving p then (save_settings p, []) else (p, []))"
| "settings_step p TestClicked = (if on_tab QualityTab p \<and> slot_free Testing p then testHealthTargets p else (p, []))"
| "settings_step p (UsernameGiven u) = (p\<lparr>st_username := u, st_new_username := or_default u []\<rparr>, [])"
| "settings_step p (Answered n a) = settings_answered n a p"
| "settings_step p e = (if on_tab AccountTab p then account_step p e else (p, []))"

definition run_settings :: "jstr option \<Rightarrow> settings_event list \<Rightarrow> settings_page" where
  "run_settings username events = foldl (\<lambda>p e. fst (settings_step p e)) (initial_settings username) events"

section \<open>Busy marks are exact, requests are checked\<close>

definition busy_marks :: "settings_page \<Rightarrow> settings_slot \<Rightarrow> bool option" where
  "busy_marks p = (\<lambda>s. Some (slot_taken p s))"

lemma slot_frame [simp]:
  "slot_taken (p\<lparr>st_pending := ts\<rparr>) s = slot_taken p s"
  "slot_taken (p\<lparr>st_settings := v\<rparr>) s = slot_taken p s"
  "slot_taken (p\<lparr>st_loading := b\<rparr>) s = slot_taken p s"
  "slot_taken (p\<lparr>st_tab := tab\<rparr>) s = slot_taken p s"
  "slot_taken (p\<lparr>st_results := r\<rparr>) s = slot_taken p s"
  "slot_taken (p\<lparr>st_username := u\<rparr>) s = slot_taken p s"
  "slot_taken (p\<lparr>st_new_username := w\<rparr>) s = slot_taken p s"
  "slot_taken (p\<lparr>st_username_password := w\<rparr>) s = slot_taken p s"
  "slot_taken (p\<lparr>st_current_password := w\<rparr>) s = slot_taken p s"
  "slot_taken (p\<lparr>st_new_password := w\<rparr>) s = slot_taken p s"
  "slot_taken (p\<lparr>st_confirm_password := w\<rparr>) s = slot_taken p s"
  "slot_taken (p\<lparr>st_two_factor := f\<rparr>) s = slot_taken p s"
  "slot_taken (p\<lparr>st_setup := e\<rparr>) s = slot_taken p s"
  "slot_taken (p\<lparr>st_code := w\<rparr>) s = slot_taken p s"
  "slot_taken (p\<lparr>st_keys := ks\<rparr>) s = slot_taken p s"
  "slot_taken (p\<lparr>st_key_name := w\<rparr>) s = slot_taken p s"
  "slot_taken (p\<lparr>st_new_key := k\<rparr>) s = slot_taken p s"
  by (cases s; simp)+

lemma pending_slot [simp]: "st_pending (set_slot s p) = st_pending p" "st_pending (clear_slot s p) = st_pending p"
  by (cases s; simp)+

lemma pending_task [simp]: "st_pending (end_task after p) = st_pending p" "st_pending (start_task t p) = st_pending p @ [t]"
  by (simp_all add: end_task_def start_task_def Let_def split: option.split)

lemma marks_set: "slot_free s p \<or> slot_taken p s \<Longrightarrow> busy_marks (set_slot s p) = (busy_marks p)(s \<mapsto> True)"
  by (cases s) (auto simp: fun_eq_iff busy_marks_def elim: slot_taken.elims)

lemma marks_clear: "slot_taken p s \<Longrightarrow> busy_marks (clear_slot s p) = (busy_marks p)(s \<mapsto> False)"
  by (cases s) (auto simp: fun_eq_iff busy_marks_def elim: slot_taken.elims)

definition marks_ok :: "settings_page \<Rightarrow> bool" where
  "marks_ok p \<longleftrightarrow> marks_exact slot_of (st_pending p) (busy_marks p)"

text \<open>While a handler runs its slot is taken, and no request in flight has it.\<close>

definition slot_held :: "settings_slot option \<Rightarrow> settings_page \<Rightarrow> bool" where
  "slot_held after p \<longleftrightarrow> held slot_of after (st_pending p) (busy_marks p)"

lemma held_taken: "slot_held (Some s) p \<Longrightarrow> slot_taken p s"
  by (auto simp: slot_held_def held_def busy_marks_def)

lemma pending_marks [simp]: "busy_marks (p\<lparr>st_pending := ts\<rparr>) = busy_marks p"
  by (simp add: busy_marks_def)

lemma start_marks:
  "busy_marks (start_task t p) =
     (case slot_of t of Some s \<Rightarrow> busy_marks (set_slot s (p\<lparr>st_pending := st_pending p @ [t]\<rparr>)) | None \<Rightarrow> busy_marks p)"
  by (simp add: start_task_def Let_def split: option.split)

lemma free_frame [simp]: "slot_free s (p\<lparr>st_pending := ts\<rparr>) = slot_free s p"
  by (cases s) simp_all

lemma free_taken: "slot_free s p \<Longrightarrow> busy_marks p s \<noteq> Some True"
  by (cases s) (simp_all add: busy_marks_def)

text \<open>Starting a task with a free slot, or one without a slot; going on with the slot held; ending.\<close>

lemma marks_start: "marks_ok p \<Longrightarrow> slot_of t = Some s \<Longrightarrow> slot_free s p \<Longrightarrow> marks_ok (start_task t p)"
  using marks_begin[of slot_of "st_pending p" "busy_marks p" s t] free_taken[of s p]
  by (simp add: marks_ok_def start_marks marks_set)

lemma marks_start_free: "marks_ok p \<Longrightarrow> slot_of t = None \<Longrightarrow> marks_ok (start_task t p)"
  using marks_keyless[of slot_of "st_pending p" "busy_marks p" t] by (simp add: marks_ok_def start_marks)

lemma marks_go_on: "slot_held (slot_of t) p \<Longrightarrow> marks_ok (start_task t p)"
proof (cases "slot_of t")
  case None
  then show "slot_held (slot_of t) p \<Longrightarrow> ?thesis"
    using held_again[of slot_of "slot_of t" "st_pending p" "busy_marks p" t]
    by (simp add: slot_held_def marks_ok_def start_marks)
next
  case (Some s)
  assume h: "slot_held (slot_of t) p"
  with Some have "slot_taken p s" by (auto dest: held_taken)
  then have "(busy_marks p)(s \<mapsto> True) = busy_marks p" by (auto simp: busy_marks_def fun_eq_iff)
  then show ?thesis
    using h Some \<open>slot_taken p s\<close> held_again[of slot_of "slot_of t" "st_pending p" "busy_marks p" t]
    by (simp add: slot_held_def marks_ok_def start_marks marks_set)
qed

lemma marks_end: "slot_held after p \<Longrightarrow> marks_ok (end_task after p)"
proof (cases after)
  case None
  then show "slot_held after p \<Longrightarrow> ?thesis"
    using held_keyless[of slot_of "st_pending p" "busy_marks p"] by (simp add: slot_held_def marks_ok_def end_task_def)
next
  case (Some s)
  assume h: "slot_held after p"
  with Some have "slot_taken p s" by (auto dest: held_taken)
  with h Some show ?thesis
    using held_reset[of slot_of s "st_pending p" "busy_marks p"]
    by (simp add: slot_held_def marks_ok_def end_task_def marks_clear)
qed

lemma marks_clear_slot: "slot_held (Some s) p \<Longrightarrow> marks_ok (clear_slot s p)"
  using marks_end[of "Some s" p] by (simp add: end_task_def)

lemma marks_idle: "slot_held None p \<Longrightarrow> marks_ok p"
  using marks_end[of None p] by (simp add: end_task_def)

lemmas settings_handlers =
  load_settings_done_def save_settings_done_def test_saved_def test_checked_def account_done_def logout_done_def
  setup_done_def enable_done_def disable_done_def status_done_def key_created_def key_revoked_def keys_done_def

lemma held_fields [simp]:
  "slot_held after (p\<lparr>st_settings := v\<rparr>) = slot_held after p"
  "slot_held after (p\<lparr>st_loading := b\<rparr>) = slot_held after p"
  "slot_held after (p\<lparr>st_results := r\<rparr>) = slot_held after p"
  "slot_held after (p\<lparr>st_two_factor := f\<rparr>) = slot_held after p"
  "slot_held after (p\<lparr>st_setup := e\<rparr>) = slot_held after p"
  "slot_held after (p\<lparr>st_code := w\<rparr>) = slot_held after p"
  "slot_held after (p\<lparr>st_keys := ks\<rparr>) = slot_held after p"
  "slot_held after (p\<lparr>st_key_name := w\<rparr>) = slot_held after p"
  "slot_held after (p\<lparr>st_new_key := k\<rparr>) = slot_held after p"
  by (simp_all add: slot_held_def busy_marks_def)

lemma marks_fields [simp]:
  "marks_ok (p\<lparr>st_tab := tab\<rparr>) = marks_ok p"
  "marks_ok (p\<lparr>st_settings := v\<rparr>) = marks_ok p"
  "marks_ok (p\<lparr>st_username := u\<rparr>) = marks_ok p"
  "marks_ok (p\<lparr>st_new_username := w\<rparr>) = marks_ok p"
  "marks_ok (p\<lparr>st_username_password := w\<rparr>) = marks_ok p"
  "marks_ok (p\<lparr>st_current_password := w\<rparr>) = marks_ok p"
  "marks_ok (p\<lparr>st_new_password := w\<rparr>) = marks_ok p"
  "marks_ok (p\<lparr>st_confirm_password := w\<rparr>) = marks_ok p"
  "marks_ok (p\<lparr>st_code := w\<rparr>) = marks_ok p"
  "marks_ok (p\<lparr>st_key_name := w\<rparr>) = marks_ok p"
  by (simp_all add: marks_ok_def busy_marks_def)

lemma held_resume:
  assumes "slot_held (slot_of t) p" "resume_settings t a = Some f"
  shows "marks_ok (fst (f p))"
  using assms
  by (cases t; cases a)
    (auto simp: settings_handlers Let_def marks_go_on marks_end marks_clear_slot marks_idle
      simp del: clear_slot.simps split: sum.splits)

text \<open>What each request was checked to be when it was sent.\<close>

fun valid_task :: "settings_task \<Rightarrow> bool" where
  "valid_task (TestSave s targets) \<longleftrightarrow> targets \<noteq> [] \<and> targets = enabled_targets s"
| "valid_task (TestCheck targets) \<longleftrightarrow> targets \<noteq> [] \<and> list_all ht_enabled targets"
| "valid_task (ChangeUsername password name) \<longleftrightarrow>
     password \<noteq> [] \<and> 3 \<le> length name \<and> length name \<le> 64 \<and> trim name = name"
| "valid_task (ChangePassword password new) \<longleftrightarrow> password \<noteq> [] \<and> 10 \<le> length new"
| "valid_task (EnableTask code) \<longleftrightarrow> length code = 6 \<and> list_all is_digit code"
| "valid_task (DisableTask code) \<longleftrightarrow> length code = 6 \<and> list_all is_digit code"
| "valid_task (CreateKey name) \<longleftrightarrow> name \<noteq> [] \<and> trim name = name"
| "valid_task _ \<longleftrightarrow> True"

definition settings_inv :: "settings_page \<Rightarrow> bool" where
  "settings_inv p \<longleftrightarrow> marks_ok p \<and> list_all valid_task (st_pending p)"

lemma all_enabled [simp]: "list_all ht_enabled (enabled_targets s)"
  by (simp add: enabled_targets_def list_all_iff)

lemma valid_resume:
  assumes "valid_task t" "list_all valid_task (st_pending p)" "resume_settings t a = Some f"
  shows "list_all valid_task (st_pending (fst (f p)))"
  using assms
  by (cases t; cases a)
    (auto simp: settings_handlers Let_def simp del: clear_slot.simps split: sum.splits)

lemma list_all_remove_at: "list_all P xs \<Longrightarrow> list_all P (remove_at n xs)"
  by (auto simp: remove_at_def list_all_iff dest: in_set_takeD in_set_dropD)

lemma inv_answered:
  assumes "settings_inv p"
  shows "settings_inv (fst (settings_answered n a p))"
proof (cases "n < length (st_pending p) \<and> resume_settings (st_pending p ! n) a \<noteq> None")
  case True
  then obtain f where f: "resume_settings (st_pending p ! n) a = Some f" by blast
  let ?q = "p\<lparr>st_pending := remove_at n (st_pending p)\<rparr>"
  have "slot_held (slot_of (st_pending p ! n)) ?q"
    using assms True by (simp add: settings_inv_def marks_ok_def slot_held_def held_take)
  moreover have "valid_task (st_pending p ! n)" "list_all valid_task (st_pending ?q)"
    using assms True by (simp_all add: settings_inv_def list_all_remove_at) (simp add: list_all_length)
  ultimately have "settings_inv (fst (f ?q))"
    using f by (simp add: settings_inv_def held_resume valid_resume)
  then show ?thesis using True f by (simp add: settings_answered_def)
qed (use assms in \<open>auto simp: settings_answered_def\<close>)

lemma inv_start:
  "settings_inv p \<Longrightarrow> list_all (\<lambda>s. slot_free s p) (case slot_of t of Some s \<Rightarrow> [s] | None \<Rightarrow> []) \<Longrightarrow>
     valid_task t \<Longrightarrow> settings_inv (start_task t p)"
  by (cases "slot_of t") (simp_all add: settings_inv_def marks_start marks_start_free)

lemma inv_fields [simp]:
  "settings_inv (p\<lparr>st_tab := tab\<rparr>) = settings_inv p"
  "settings_inv (p\<lparr>st_settings := v\<rparr>) = settings_inv p"
  "settings_inv (p\<lparr>st_username := u\<rparr>) = settings_inv p"
  "settings_inv (p\<lparr>st_new_username := w\<rparr>) = settings_inv p"
  "settings_inv (p\<lparr>st_username_password := w\<rparr>) = settings_inv p"
  "settings_inv (p\<lparr>st_current_password := w\<rparr>) = settings_inv p"
  "settings_inv (p\<lparr>st_new_password := w\<rparr>) = settings_inv p"
  "settings_inv (p\<lparr>st_confirm_password := w\<rparr>) = settings_inv p"
  "settings_inv (p\<lparr>st_code := w\<rparr>) = settings_inv p"
  "settings_inv (p\<lparr>st_key_name := w\<rparr>) = settings_inv p"
  by (simp_all add: settings_inv_def)

lemma inv_account: "settings_inv p \<Longrightarrow> settings_inv (fst (account_step p e))"
  by (cases e)
    (auto simp: change_username_def change_password_def enableTwoFactor_begin_def
      disableTwoFactor_begin_def createAPIKey_def six_digits_def Let_def
      simp del: slot_free.simps intro!: inv_start)

lemma inv_step: "settings_inv p \<Longrightarrow> settings_inv (fst (settings_step p e))"
proof (cases e)
  case (Answered n a)
  then show "settings_inv p \<Longrightarrow> ?thesis" by (simp add: inv_answered)
qed (auto simp: inv_account save_settings_def testHealthTargets_def simp del: slot_free.simps account_step.simps
    intro!: inv_start split: option.split)

lemma inv_initial: "settings_inv (initial_settings username)"
  by (auto simp: settings_inv_def marks_ok_def marks_exact_def initial_settings_def busy_marks_def elim: slot_taken.elims)

lemma inv_run: "settings_inv (run_settings username events)"
  unfolding run_settings_def by (induction events rule: rev_induct) (simp_all add: inv_step inv_initial)


text \<open>
  C26: While the settings page works, a control is busy exactly as long as its request, or the read
  that follows it, is in flight, and everything sent has been checked. After any sequence of edits,
  clicks and answers in any order: no two requests in flight hold the same mark; a mark is set
  exactly when a request in flight holds it; a test of the sites is sent with the enabled sites, of
  which there is one at least; a user name has 3 to 64 units and no outer white space, a new password
  at least 10; a code sent to turn two-factor authentication on or off has six digits; and a key
  has a name.
\<close>

theorem settings_requests_checked:
  "distinct (pending_keys slot_of (st_pending (run_settings username events))) \<and>
   (\<forall>s. slot_taken (run_settings username events) s =
     (s \<in> set (pending_keys slot_of (st_pending (run_settings username events))))) \<and>
   list_all valid_task (st_pending (run_settings username events))"
  using inv_run[of username events] by (simp add: settings_inv_def marks_ok_def marks_exact_def busy_marks_def)

section \<open>The settings shown and the settings sent\<close>

lemmas with_defs = with_quality_def with_dns_def with_inbound_def with_performance_def with_targets_def
  updateTarget_def

lemma edit_dns_frame: "edit_dns e s = with_dns (\<lambda>_. gs_dns (edit_dns e s)) s"
  by (cases e) (simp_all add: with_defs)

lemma edit_runtime_frame:
  "edit_runtime e s = with_inbound (\<lambda>_. gs_shared_inbound (edit_runtime e s))
     (with_performance (\<lambda>_. gs_performance (edit_runtime e s)) s)"
  by (cases e) (simp_all add: with_defs)

lemma edit_quality_frame: "edit_quality e s = with_quality (\<lambda>_. gs_quality (edit_quality e s)) s"
  by (cases e) (simp_all add: with_defs add_target_def newTarget_def or_default_def split: option.split)

text \<open>An edit of one tab leaves what the other tabs show.\<close>

fun tab_settings :: "settings_tab \<Rightarrow> GlobalSettings \<Rightarrow> GlobalSettings \<Rightarrow> GlobalSettings" where
  "tab_settings QualityTab new s = s\<lparr>gs_quality := gs_quality new\<rparr>"
| "tab_settings DnsTab new s = s\<lparr>gs_dns := gs_dns new\<rparr>"
| "tab_settings RuntimeTab new s =
     s\<lparr>gs_performance := gs_performance new, gs_shared_inbound := gs_shared_inbound new\<rparr>"
| "tab_settings _ new s = s"

lemma edit_settings_tab: "tab_settings (edit_tab e) (edit_settings e s) s = edit_settings e s"
proof (cases "inbound_field e \<and> sis_mode (gs_shared_inbound s) \<noteq> SharedPort")
  case True
  then show ?thesis by (cases "edit_tab e") (simp_all add: edit_settings_def)
next
  case False
  have "edit_tab e \<noteq> AppearanceTab" "edit_tab e \<noteq> AccountTab" by (cases e; simp)+
  with False show ?thesis
    using edit_dns_frame[of e s] edit_runtime_frame[of e s] edit_quality_frame[of e s]
    by (cases "edit_tab e") (auto simp: edit_settings_def with_defs)
qed

definition reads_settings :: "settings_task \<Rightarrow> bool" where
  "reads_settings t = (case t of LoadSettings \<Rightarrow> True | SaveSettings s \<Rightarrow> True | TestSave s targets \<Rightarrow> True | _ \<Rightarrow> False)"

definition sent_settings :: "settings_task \<Rightarrow> GlobalSettings option" where
  "sent_settings t = (case t of SaveSettings s \<Rightarrow> Some s | TestSave s targets \<Rightarrow> Some s | _ \<Rightarrow> None)"

lemma settings_slot [simp]: "st_settings (set_slot s p) = st_settings p" "st_settings (clear_slot s p) = st_settings p"
  by (cases s; simp)+

lemma settings_task_frame [simp]:
  "st_settings (end_task after p) = st_settings p" "st_settings (start_task t p) = st_settings p"
  by (simp_all add: end_task_def start_task_def Let_def split: option.split)

lemma resume_document:
  assumes "resume_settings t a = Some f"
  shows "st_settings (fst (f p)) =
      (case a of SettingsAnswer (Inr s) \<Rightarrow> if reads_settings t then Some s else st_settings p | _ \<Rightarrow> st_settings p)"
    and "list_all (\<lambda>u. u \<in> set (st_pending p) \<or> sent_settings u = None) (st_pending (fst (f p)))"
  using assms
  by (cases t; cases a; auto simp: settings_handlers reads_settings_def sent_settings_def Let_def list_all_iff
      simp del: clear_slot.simps split: sum.splits)+

lemma account_document:
  "st_settings (fst (account_step p e)) = st_settings p"
  "list_all (\<lambda>u. u \<in> set (st_pending p) \<or> sent_settings u = None) (st_pending (fst (account_step p e)))"
  by (cases e; auto simp: change_username_def change_password_def enableTwoFactor_begin_def list_all_iff
      disableTwoFactor_begin_def createAPIKey_def sent_settings_def Let_def simp del: slot_free.simps)+

lemma answered_document:
  "st_settings (fst (settings_answered n a p)) =
     (case a of SettingsAnswer (Inr s) \<Rightarrow>
        if n < length (st_pending p) \<and> reads_settings (st_pending p ! n) then Some s else st_settings p
      | _ \<Rightarrow> st_settings p)"
  "list_all (\<lambda>u. u \<in> set (st_pending p) \<or> sent_settings u = None) (st_pending (fst (settings_answered n a p)))"
proof -
  let ?q = "p\<lparr>st_pending := remove_at n (st_pending p)\<rparr>"
  have sub: "u \<in> set (st_pending p)" if "u \<in> set (remove_at n (st_pending p))" for u
    using that by (auto simp: remove_at_def dest: in_set_takeD in_set_dropD)
  have none: "reads_settings t \<Longrightarrow> resume_settings t (SettingsAnswer x) = None \<Longrightarrow> False" for t x
    by (cases t) (simp_all add: reads_settings_def)
  show "st_settings (fst (settings_answered n a p)) =
     (case a of SettingsAnswer (Inr s) \<Rightarrow>
        if n < length (st_pending p) \<and> reads_settings (st_pending p ! n) then Some s else st_settings p
      | _ \<Rightarrow> st_settings p)"
    using resume_document(1)[of "st_pending p ! n" a _ ?q]
    by (cases "resume_settings (st_pending p ! n) a") (auto simp: settings_answered_def dest: none split: settings_answer.split sum.split)
  show "list_all (\<lambda>u. u \<in> set (st_pending p) \<or> sent_settings u = None) (st_pending (fst (settings_answered n a p)))"
    using resume_document(2)[of "st_pending p ! n" a _ ?q] sub
    by (cases "resume_settings (st_pending p ! n) a") (auto simp: settings_answered_def list_all_iff)
qed

text \<open>
  C27: What the settings page sends is what it shows. The settings on the page change in two ways
  only: an edit on the tab that is shown, which leaves the settings of the other tabs, and the answer
  to a load, a save or a site test, which replaces all of them; and a save or a test that starts
  sends the settings as they are on the page.
\<close>

theorem settings_document:
  "st_settings (fst (settings_step p e)) =
     (case e of
        Edited x \<Rightarrow>
          if on_tab (edit_tab x) p
          then map_option (\<lambda>s. tab_settings (edit_tab x) (edit_settings x s) s) (st_settings p) else st_settings p
      | Answered n (SettingsAnswer (Inr s)) \<Rightarrow>
          if n < length (st_pending p) \<and> reads_settings (st_pending p ! n) then Some s else st_settings p
      | _ \<Rightarrow> st_settings p) \<and>
   list_all (\<lambda>u. u \<in> set (st_pending p) \<or> sent_settings u = None \<or> sent_settings u = st_settings p)
     (st_pending (fst (settings_step p e)))"
proof (cases e)
  case (Edited x)
  then show ?thesis by (simp add: edit_settings_tab list_all_iff)
next
  case (Answered n a)
  then show ?thesis
    using answered_document[where n = n and a = a and p = p] by (auto simp: list_all_iff split: settings_answer.split sum.split)
qed (use account_document[where p = p and e = e] in \<open>auto simp: list_all_iff save_settings_def testHealthTargets_def sent_settings_def
    simp del: slot_free.simps account_step.simps split: option.splits\<close>)

text \<open>
  An edit made while the settings are being saved is lost without notice: when the server answers with
  what it was sent, the page shows that again.
\<close>

lemma save_discards_edits:
  assumes "st_pending p = [SaveSettings s]" "st_settings p = Some s" "on_tab (edit_tab x) p"
  shows "st_settings (fst (settings_step (fst (settings_step p (Edited x))) (Answered 0 (SettingsAnswer (Inr s))))) = Some s"
  using assms settings_answered_def[of 0 "SettingsAnswer (Inr s)"]
  by (simp add: remove_at_def save_settings_done_def)

text \<open>
  When two-factor authentication was enabled but its status could not be read, the success is
  reported, and the page offers to generate a secret again.
\<close>

lemma enabled_but_offered:
  assumes "st_two_factor p = Some status" "\<not> tfs_enabled status"
  shows "let (q, effects) = status_done (Some EnableOp) (Inl cause) (fst (enable_done (Inr ()) p))
         in TwoFactorOn \<in> set effects \<and> SettingsError cause \<in> set effects \<and> \<not> enabled_2fa q \<and> st_setup q = None"
  using assms
  by (simp add: status_done_def enable_done_def end_task_def start_task_def enabled_2fa_def Let_def)

section \<open>List fields\<close>

definition list_entry :: "jstr \<Rightarrow> bool" where
  "list_entry s \<longleftrightarrow> s \<noteq> [] \<and> trim s = s \<and> newline \<notin> set s"

lemma list_typed_entries: "list_all list_entry (list_typed v)"
  using set_trim by (auto simp: list_typed_def list_entry_def list_all_iff dest: split_on_parts)

lemma list_typed_shown:
  assumes "list_all list_entry xs"
  shows "list_typed (list_shown xs) = xs"
proof (cases "xs = []")
  case True
  then show ?thesis by (simp add: list_typed_def list_shown_def)
next
  case False
  then have "split_on newline (list_shown xs) = xs"
    using assms unfolding list_shown_def by (intro split_on_join) (auto simp: list_entry_def list_all_iff)
  then show ?thesis
    using assms by (simp add: list_typed_def list_entry_def list_all_iff filter_id_conv map_idI)
qed

lemma split_on_append_sep_end: "split_on c (s @ [c]) = split_on c s @ [[]]"
  by (induction c s rule: split_on.induct) (auto split: list.splits)

lemma split_on_snoc_length: "u \<noteq> c \<Longrightarrow> length (split_on c (s @ [u])) = length (split_on c s)"
  by (induction c s rule: split_on.induct) (auto split: list.splits)

lemma list_typed_newline: "list_typed (s @ [newline]) = list_typed s"
  using split_on_append_sep_end[of newline s] by (simp add: list_typed_def)

text \<open>
  A list field of the DNS tab shows exactly the list it stores, whose entries are neither empty
  nor padded nor broken over lines; but a list cannot be extended by typing: after any key typed at
  the end of the text the list has as many entries as before (one, when it was empty), since the
  line break that would open the next entry is removed as soon as it is typed.
\<close>

theorem list_field_exact:
  "list_typed (list_shown (list_typed v)) = list_typed v \<and> list_all list_entry (list_typed v) \<and>
   list_shown (list_typed (list_shown (list_typed v) @ [newline])) = list_shown (list_typed v) \<and>
   length (list_typed (list_shown (list_typed v) @ [u])) \<le> max 1 (length (list_typed v))"
proof -
  let ?xs = "list_typed v"
  have shown: "list_typed (list_shown ?xs) = ?xs" by (rule list_typed_shown[OF list_typed_entries])
  have parts: "length (split_on newline (list_shown ?xs)) = max 1 (length ?xs)"
  proof (cases "?xs = []")
    case False
    then have "split_on newline (list_shown ?xs) = ?xs"
      using list_typed_entries[of v] unfolding list_shown_def
      by (intro split_on_join) (auto simp: list_entry_def list_all_iff)
    with False show ?thesis by (simp add: Suc_le_eq)
  qed (simp add: list_shown_def)
  have "length (list_typed (list_shown ?xs @ [u])) \<le> max 1 (length ?xs)"
  proof (cases "u = newline")
    case True
    then show ?thesis using shown by (simp add: list_typed_newline)
  next
    case False
    then have "length (split_on newline (list_shown ?xs @ [u])) = length (split_on newline (list_shown ?xs))"
      by (rule split_on_snoc_length)
    then show ?thesis using parts length_filter_le[of "\<lambda>s. s \<noteq> []" "map trim (split_on newline (list_shown ?xs @ [u]))"]
      by (simp add: list_typed_def)
  qed
  then show ?thesis using shown list_typed_entries by (simp add: list_typed_newline)
qed

lemma newTarget_fresh:
  "\<exists>t n. newTarget targets = Some t \<and> ht_id t = target_id n \<and> length targets < n \<and> ht_id t \<notin> ht_id ` set targets"
proof -
  obtain m where "first_free target_id (map ht_id targets) (length targets + 1) = Some m"
      "length targets + 1 \<le> m" "target_id m \<notin> set (map ht_id targets)"
    using target_ids.first_free_ends by blast
  then show ?thesis unfolding newTarget_def by (intro exI[of _ m] exI conjI) auto
qed

text \<open>
  Adding a rule set or a health target always ends, with an identifier that no present one
  has and a number beyond the number of present ones; the new set is added at the end.
\<close>

theorem fresh_ids:
  "(\<exists>rset q n. createRuleSet (rrc_rule_sets (rl_config p)) = Some rset \<and> add_set p = Some q \<and>
     rrc_rule_sets (rl_config q) = rrc_rule_sets (rl_config p) @ [rset] \<and>
     rs_id rset = set_name n \<and> length (rrc_rule_sets (rl_config p)) < n \<and>
     rs_id rset \<notin> rs_id ` set (rrc_rule_sets (rl_config p))) \<and>
   (\<exists>t n. newTarget targets = Some t \<and> ht_id t = target_id n \<and> length targets < n \<and> ht_id t \<notin> ht_id ` set targets)"
proof (rule conjI)
  let ?sets = "rrc_rule_sets (rl_config p)"
  obtain rset n where rset: "createRuleSet ?sets = Some rset" "length ?sets < n" "rs_id rset = set_name n"
      "rs_id rset \<notin> rs_id ` set ?sets"
    using createRuleSet_fresh[of ?sets] by blast
  then have "add_set p = Some (with_sets (\<lambda>sets. sets @ [rset]) p)" by (simp add: add_set_def)
  moreover have "rrc_rule_sets (rl_config (with_sets (\<lambda>sets. sets @ [rset]) p)) = ?sets @ [rset]"
    by (simp add: with_sets_def)
  ultimately show "\<exists>rset q n. createRuleSet ?sets = Some rset \<and> add_set p = Some q \<and>
     rrc_rule_sets (rl_config q) = ?sets @ [rset] \<and> rs_id rset = set_name n \<and> length ?sets < n \<and>
     rs_id rset \<notin> rs_id ` set ?sets"
    using rset by blast
qed (use newTarget_fresh[of targets] in blast)

text \<open>A typed code of six digits is always accepted as it is.\<close>

lemma typed_code_accepted: "length (typed_code v) = 6 \<Longrightarrow> six_digits (typed_code v) \<and> trim (typed_code v) = typed_code v"
proof -
  have "list_all is_digit (typed_code v)"
    by (auto simp: typed_code_def list_all_iff dest: in_set_takeD)
  then show "length (typed_code v) = 6 \<Longrightarrow> ?thesis" by (simp add: six_digits_def digits_no_space)
qed

text \<open>The counts of a site never exceed the checks that name it.\<close>

lemma count_checks:
  "s i = Some r \<Longrightarrow> foldl count_check s checks i =
     Some \<lparr>sr_success = sr_success r + int (length (filter (\<lambda>c. nhc_target_id c = i \<and> nhc_success c) checks)),
           sr_tested = sr_tested r + int (length (filter (\<lambda>c. nhc_target_id c = i) checks))\<rparr>"
proof (induction checks arbitrary: s r)
  case (Cons c cs)
  show ?case
  proof (cases "nhc_target_id c = i")
    case True
    with Cons.prems have "count_check s c i =
        Some \<lparr>sr_success = (if nhc_success c then sr_success r + 1 else sr_success r), sr_tested = sr_tested r + 1\<rparr>"
      by (simp add: count_check_def)
    from Cons.IH[of "count_check s c", OF this] True show ?thesis by simp
  next
    case False
    with Cons.prems have "count_check s c i = Some r" by (auto simp: count_check_def split: option.split)
    from Cons.IH[of "count_check s c" r, OF this] False show ?thesis by simp
  qed
qed simp

end
