(* ===== verification/Subscriptions.thy ===== *)
theory Subscriptions
  imports Tasks ApiCalls
begin

text \<open>
  The subscriptions page (web/src/pages/subscriptions-page.tsx) and its source form
  (web/src/components/create-subscription-form.tsx). The page is a state with one step per event;
  the requests in flight are part of the state, so that answers may arrive in any order. Busy keys,
  the grouping of nodes, the source form with its header lines and the requests it sends are
  modelled; markup is left out.
\<close>

section \<open>State\<close>

text \<open>
  A request in flight with what its handler does next: a load, with the busy key that the handler
  awaiting it clears in its \<open>finally\<close>, and the requests of the four operations with their keys.
\<close>

datatype task =
    LoadTask "jstr option"
  | CheckTask jstr "jstr list"
  | RefreshTask jstr
  | RefreshAllTask "jstr list"
  | RemoveTask jstr int

record subs_page =
  sp_items :: "Subscription list"
  sp_nodes :: "NodeRecord list"
  sp_traffic :: "(jstr \<times> TrafficSummary) list"
  sp_loading :: bool
  sp_show_create :: bool
  sp_edit_target :: "Subscription option"
  sp_busy :: "jstr \<rightharpoonup> bool"
  sp_delete_target :: "Subscription option"
  sp_expanded :: "jstr list"
  sp_pending :: "task list"

datatype subs_notice =
    NothingToTest | Tested nat nat | Refreshed int | Unchanged int | BatchRefreshed nat nat
  | SubscriptionRemoved | SubscriptionCreated | SubscriptionSaved | SubFailed js_error
  | FormRefused jstr

text \<open>The page after its first effect: the load is on its way.\<close>

definition initial_subs :: subs_page where
  "initial_subs = \<lparr>sp_items = [], sp_nodes = [], sp_traffic = [], sp_loading = True, sp_show_create = False,
     sp_edit_target = None, sp_busy = Map.empty, sp_delete_target = None, sp_expanded = [],
     sp_pending = [LoadTask None]\<rparr>"

section \<open>Derived values\<close>

text \<open>\<open>new Map(items.map((item) => [item.resource_id, item]))\<close>, in order of insertion.\<close>

definition traffic_map :: "TrafficSummary list \<Rightarrow> (jstr \<times> TrafficSummary) list" where
  "traffic_map items = foldl (\<lambda>m item. put_by fst (ts_resource_id item, item) m) [] items"

record subs_metrics =
  sm_enabled :: nat
  sm_snapshots :: nat
  sm_failing :: nat
  sm_total_traffic :: int

definition metrics :: "subs_page \<Rightarrow> subs_metrics" where
  "metrics p = \<lparr>
     sm_enabled = length (filter sub_enabled (sp_items p)),
     sm_snapshots = length (filter (\<lambda>item. Option.bind (sub_last_success_snapshot_id item) nonempty \<noteq> None) (sp_items p)),
     sm_failing = length (filter (\<lambda>item. 0 < sub_consecutive_failures item) (sp_items p)),
     sm_total_traffic = foldl (\<lambda>total (k, item). total + ts_upload_bytes item + ts_download_bytes item) 0 (sp_traffic p)\<rparr>"

text \<open>The groups as a map from the subscription to its nodes; a node is listed once per group.\<close>

definition add_source :: "NodeRecord \<Rightarrow> (jstr \<rightharpoonup> NodeRecord list) \<Rightarrow> NodeSource \<Rightarrow> (jstr \<rightharpoonup> NodeRecord list)" where
  "add_source node grouped source =
     (let current = or_default (grouped (nsrc_subscription_id source)) [];
          current' = (if list_ex (\<lambda>item. nd_id item = nd_id node) current then current else current @ [node])
      in grouped(nsrc_subscription_id source \<mapsto> current'))"

definition add_node :: "(jstr \<rightharpoonup> NodeRecord list) \<Rightarrow> NodeRecord \<Rightarrow> (jstr \<rightharpoonup> NodeRecord list)" where
  "add_node grouped node = foldl (add_source node) grouped (nd_sources node)"

definition nodesBySubscription :: "NodeRecord list \<Rightarrow> (jstr \<rightharpoonup> NodeRecord list)" where
  "nodesBySubscription nodes = foldl add_node Map.empty nodes"

definition row_nodes :: "subs_page \<Rightarrow> jstr \<Rightarrow> NodeRecord list" where
  "row_nodes p i = or_default (nodesBySubscription (sp_nodes p) i) []"

definition row_traffic :: "(jstr \<times> TrafficSummary) list \<Rightarrow> NodeRecord list \<Rightarrow> int" where
  "row_traffic traffic nodes =
     foldl (\<lambda>total node. total + (case map_of traffic (nd_id node) of
              Some v \<Rightarrow> ts_upload_bytes v + ts_download_bytes v | None \<Rightarrow> 0)) 0 nodes"

section \<open>Busy keys\<close>

definition test_key :: "jstr option \<Rightarrow> jstr" where
  "test_key subscription = (case subscription of Some i \<Rightarrow> js ''test:'' @ i | None \<Rightarrow> js ''test:all'')"

definition refresh_all_key :: jstr where
  "refresh_all_key = js ''refresh:all''"

definition set_busy :: "jstr \<Rightarrow> bool \<Rightarrow> subs_page \<Rightarrow> subs_page" where
  "set_busy key b p = p\<lparr>sp_busy := (sp_busy p)(key \<mapsto> b)\<rparr>"

definition is_busy :: "subs_page \<Rightarrow> jstr \<Rightarrow> bool" where
  "is_busy p key \<longleftrightarrow> sp_busy p key = Some True"

definition begin_task :: "task \<Rightarrow> subs_page \<Rightarrow> subs_page" where
  "begin_task t p = p\<lparr>sp_pending := sp_pending p @ [t]\<rparr>"

fun task_key :: "task \<Rightarrow> jstr option" where
  "task_key (LoadTask after) = after"
| "task_key (CheckTask key ids) = Some key"
| "task_key (RefreshTask i) = Some i"
| "task_key (RefreshAllTask ids) = Some refresh_all_key"
| "task_key (RemoveTask i version) = Some i"

section \<open>Operations\<close>

text \<open>The call of \<open>load\<close>, and the handler that continues once it has returned.\<close>

definition load_subs :: "jstr option \<Rightarrow> subs_page \<Rightarrow> subs_page" where
  "load_subs after p = begin_task (LoadTask after) (p\<lparr>sp_loading := True\<rparr>)"

definition clear_busy :: "jstr option \<Rightarrow> subs_page \<Rightarrow> subs_page" where
  "clear_busy after p = (case after of Some key \<Rightarrow> set_busy key False p | None \<Rightarrow> p)"

definition load_subs_done ::
  "jstr option \<Rightarrow> (SubscriptionList \<times> NodeList \<times> TrafficSummaryList) outcome \<Rightarrow> subs_page \<Rightarrow> subs_page \<times> subs_notice list" where
  "load_subs_done after answer p =
     (case answer of
        Inr (subscriptions, nodes, traffic) \<Rightarrow>
          (clear_busy after (p\<lparr>sp_items := subs_items subscriptions, sp_nodes := nds_items nodes,
             sp_traffic := traffic_map (tsl_items traffic), sp_loading := False\<rparr>), [])
      | Inl cause \<Rightarrow> (clear_busy after (p\<lparr>sp_loading := False\<rparr>), [SubFailed cause]))"

text \<open>The nodes of one subscription, whatever their state, or all that are neither disabled nor retired.\<close>

definition nodes_to_check :: "subs_page \<Rightarrow> jstr option \<Rightarrow> NodeRecord list" where
  "nodes_to_check p subscription =
     (case subscription of
        Some i \<Rightarrow> row_nodes p i
      | None \<Rightarrow> filter (\<lambda>node. nd_lifecycle_state node \<noteq> Disabled \<and> nd_lifecycle_state node \<noteq> Retired) (sp_nodes p))"

definition check_subs :: "jstr option \<Rightarrow> subs_page \<Rightarrow> subs_page \<times> subs_notice list" where
  "check_subs subscription p =
     (let selected = nodes_to_check p subscription; key = test_key subscription
      in if selected = [] then (p, [NothingToTest])
         else (begin_task (CheckTask key (map nd_id selected)) (set_busy key True p), []))"

definition check_subs_done :: "jstr \<Rightarrow> NodeCheckList outcome \<Rightarrow> subs_page \<Rightarrow> subs_page \<times> subs_notice list" where
  "check_subs_done key answer p =
     (case answer of
        Inr result \<Rightarrow>
          (load_subs (Some key) p,
           [Tested (length (filter ncr_success (ncl_items result))) (length (ncl_items result))])
      | Inl cause \<Rightarrow> (set_busy key False p, [SubFailed cause]))"

definition refresh_sub :: "Subscription \<Rightarrow> subs_page \<Rightarrow> subs_page" where
  "refresh_sub item p = begin_task (RefreshTask (sub_id item)) (set_busy (sub_id item) True p)"

text \<open>Both ways out reload the lists before the key is cleared.\<close>

definition refresh_sub_done :: "jstr \<Rightarrow> RefreshResult outcome \<Rightarrow> subs_page \<Rightarrow> subs_page \<times> subs_notice list" where
  "refresh_sub_done i answer p =
     (load_subs (Some i) p,
      [case answer of
         Inr result \<Rightarrow> if refresh_changed result then Refreshed (refresh_estimated_nodes result)
                       else Unchanged (refresh_estimated_nodes result)
       | Inl cause \<Rightarrow> SubFailed cause])"

definition refreshAll :: "subs_page \<Rightarrow> subs_page" where
  "refreshAll p = begin_task (RefreshAllTask (map sub_id (filter sub_enabled (sp_items p)))) (set_busy refresh_all_key True p)"

definition refreshAll_done :: "BatchRefreshList outcome \<Rightarrow> subs_page \<Rightarrow> subs_page \<times> subs_notice list" where
  "refreshAll_done answer p =
     (case answer of
        Inr result \<Rightarrow>
          (load_subs (Some refresh_all_key) p,
           [BatchRefreshed (length (filter bri_success (brl_items result))) (length (brl_items result))])
      | Inl cause \<Rightarrow> (set_busy refresh_all_key False p, [SubFailed cause]))"

definition remove_sub :: "subs_page \<Rightarrow> subs_page" where
  "remove_sub p =
     (case sp_delete_target p of
        None \<Rightarrow> p
      | Some item \<Rightarrow> begin_task (RemoveTask (sub_id item) (sub_version item)) (set_busy (sub_id item) True p))"

definition remove_sub_done :: "jstr \<Rightarrow> unit outcome \<Rightarrow> subs_page \<Rightarrow> subs_page \<times> subs_notice list" where
  "remove_sub_done i answer p =
     (case answer of
        Inr _ \<Rightarrow>
          (set_busy i False (p\<lparr>sp_items := filter (\<lambda>candidate. sub_id candidate \<noteq> i) (sp_items p),
             sp_delete_target := None\<rparr>), [SubscriptionRemoved])
      | Inl cause \<Rightarrow> (set_busy i False p, [SubFailed cause]))"

text \<open>The saved form: a new subscription comes first, an edited one stays in its place.\<close>

definition created_sub :: "Subscription \<Rightarrow> subs_page \<Rightarrow> subs_page \<times> subs_notice list" where
  "created_sub created p = (p\<lparr>sp_show_create := False, sp_items := created # sp_items p\<rparr>, [SubscriptionCreated])"

definition edited_sub :: "Subscription \<Rightarrow> subs_page \<Rightarrow> subs_page \<times> subs_notice list" where
  "edited_sub updated p =
     (p\<lparr>sp_edit_target := None,
        sp_items := map (\<lambda>item. if sub_id item = sub_id updated then updated else item) (sp_items p)\<rparr>,
      [SubscriptionSaved])"

section \<open>Events\<close>

datatype subs_answer =
    LoadAnswer "(SubscriptionList \<times> NodeList \<times> TrafficSummaryList) outcome"
  | CheckAnswer "NodeCheckList outcome"
  | RefreshAnswer "RefreshResult outcome"
  | RefreshAllAnswer "BatchRefreshList outcome"
  | RemoveAnswer "unit outcome"

datatype subs_event =
    CheckAllClicked | RefreshAllClicked | ReloadClicked | CreateClicked | CreateCancelled
  | Created Subscription | FormError jstr
  | RowToggled Subscription | RowChecked Subscription | RowRefreshed Subscription
  | RowEdited Subscription | RowDeleted Subscription
  | EditCancelled | Edited Subscription
  | DeleteCancelled | DeleteConfirmed
  | Answered nat subs_answer

text \<open>The handler that a request's answer resumes; an answer of another request's type does not occur.\<close>

fun resume :: "task \<Rightarrow> subs_answer \<Rightarrow> (subs_page \<Rightarrow> subs_page \<times> subs_notice list) option" where
  "resume (LoadTask after) (LoadAnswer a) = Some (load_subs_done after a)"
| "resume (CheckTask key ids) (CheckAnswer a) = Some (check_subs_done key a)"
| "resume (RefreshTask i) (RefreshAnswer a) = Some (refresh_sub_done i a)"
| "resume (RefreshAllTask ids) (RefreshAllAnswer a) = Some (refreshAll_done a)"
| "resume (RemoveTask i version) (RemoveAnswer a) = Some (remove_sub_done i a)"
| "resume _ _ = None"

definition answered :: "nat \<Rightarrow> subs_answer \<Rightarrow> subs_page \<Rightarrow> subs_page \<times> subs_notice list" where
  "answered n a p =
     (if n < length (sp_pending p)
      then (case resume (sp_pending p ! n) a of
              Some f \<Rightarrow> f (p\<lparr>sp_pending := remove_at n (sp_pending p)\<rparr>)
            | None \<Rightarrow> (p, []))
      else (p, []))"

text \<open>A row is on the page when the list is, that is when no load is reported.\<close>

definition shown :: "Subscription \<Rightarrow> subs_page \<Rightarrow> bool" where
  "shown item p \<longleftrightarrow> \<not> sp_loading p \<and> item \<in> set (sp_items p)"

text \<open>Each control reacts only while it is enabled.\<close>

fun subs_step :: "subs_page \<Rightarrow> subs_event \<Rightarrow> subs_page \<times> subs_notice list" where
  "subs_step p CheckAllClicked =
     (if sp_loading p \<or> is_busy p (test_key None) then (p, []) else check_subs None p)"
| "subs_step p RefreshAllClicked =
     (if sp_loading p \<or> is_busy p refresh_all_key \<or> sm_enabled (metrics p) = 0 then (p, []) else (refreshAll p, []))"
| "subs_step p ReloadClicked = (if sp_loading p then (p, []) else (load_subs None p, []))"
| "subs_step p CreateClicked = (p\<lparr>sp_show_create := True\<rparr>, [])"
| "subs_step p CreateCancelled = (p\<lparr>sp_show_create := False\<rparr>, [])"
| "subs_step p (Created item) = created_sub item p"
| "subs_step p (FormError message) = (p, [FormRefused message])"
| "subs_step p (RowToggled item) =
     (if shown item p then (p\<lparr>sp_expanded := toggle_member (sub_id item) (sp_expanded p)\<rparr>, []) else (p, []))"
| "subs_step p (RowChecked item) =
     (if \<not> shown item p \<or> is_busy p (sub_id item) \<or> is_busy p (test_key (Some (sub_id item)))
        \<or> row_nodes p (sub_id item) = []
      then (p, []) else check_subs (Some (sub_id item)) p)"
| "subs_step p (RowRefreshed item) =
     (if \<not> shown item p \<or> is_busy p (sub_id item) \<or> \<not> sub_enabled item then (p, []) else (refresh_sub item p, []))"
| "subs_step p (RowEdited item) = (if shown item p then (p\<lparr>sp_edit_target := Some item\<rparr>, []) else (p, []))"
| "subs_step p (RowDeleted item) =
     (if \<not> shown item p \<or> is_busy p (sub_id item) then (p, []) else (p\<lparr>sp_delete_target := Some item\<rparr>, []))"
| "subs_step p EditCancelled = (p\<lparr>sp_edit_target := None\<rparr>, [])"
| "subs_step p (Edited item) = edited_sub item p"
| "subs_step p DeleteCancelled =
     (case sp_delete_target p of
        Some item \<Rightarrow> if is_busy p (sub_id item) then (p, []) else (p\<lparr>sp_delete_target := None\<rparr>, [])
      | None \<Rightarrow> (p, []))"
| "subs_step p DeleteConfirmed =
     (case sp_delete_target p of
        Some item \<Rightarrow> if is_busy p (sub_id item) then (p, []) else (remove_sub p, [])
      | None \<Rightarrow> (p, []))"
| "subs_step p (Answered n a) = answered n a p"

definition run_subs :: "subs_event list \<Rightarrow> subs_page" where
  "run_subs events = foldl (\<lambda>p e. fst (subs_step p e)) initial_subs events"

section \<open>Busy keys are exact\<close>

definition busy_inv :: "subs_page \<Rightarrow> bool" where
  "busy_inv p \<longleftrightarrow> marks_exact task_key (sp_pending p) (sp_busy p)"

lemma held_done:
  assumes "held task_key (task_key t) (sp_pending p) (sp_busy p)" "resume t a = Some f"
  shows "busy_inv (fst (f p))"
  using assms(2,1)
  by (induction t a rule: resume.induct)
    (auto simp: busy_inv_def load_subs_done_def check_subs_done_def refresh_sub_done_def refreshAll_done_def
      remove_sub_done_def load_subs_def begin_task_def set_busy_def clear_busy_def
      held_again held_reset held_keyless split: sum.splits option.splits)

lemma busy_inv_answered:
  assumes "busy_inv p"
  shows "busy_inv (fst (answered n a p))"
proof (cases "n < length (sp_pending p) \<and> resume (sp_pending p ! n) a \<noteq> None")
  case True
  then obtain f where f: "resume (sp_pending p ! n) a = Some f" by blast
  let ?q = "p\<lparr>sp_pending := remove_at n (sp_pending p)\<rparr>"
  have "held task_key (task_key (sp_pending p ! n)) (sp_pending ?q) (sp_busy ?q)"
    using assms True by (simp add: busy_inv_def held_take)
  from held_done[OF this f] show ?thesis using True f by (simp add: answered_def)
qed (use assms in \<open>auto simp: answered_def\<close>)

lemma busy_inv_step: "busy_inv p \<Longrightarrow> busy_inv (fst (subs_step p e))"
proof (cases e)
  case (Answered n a)
  then show "busy_inv p \<Longrightarrow> ?thesis" by (simp add: busy_inv_answered)
qed (auto simp: check_subs_def Let_def refreshAll_def refresh_sub_def remove_sub_def created_sub_def edited_sub_def
    busy_inv_def is_busy_def load_subs_def begin_task_def set_busy_def marks_keyless intro!: marks_begin
    split: option.splits)

lemma busy_inv_initial: "busy_inv initial_subs"
  by (simp add: initial_subs_def busy_inv_def marks_exact_def)

lemma busy_inv_run: "busy_inv (run_subs events)"
  unfolding run_subs_def by (induction events rule: rev_induct) (simp_all add: busy_inv_step busy_inv_initial)

text \<open>
  C9: A control of the subscriptions page is busy exactly while its operation runs. After any
  sequence of clicks and answers, in any order, no two operations in flight share a key, and a
  key is marked busy exactly when an operation with it, or the reload it ends with, is in flight:
  no spinner is left on, none goes off early.
\<close>

theorem busy_exact:
  "distinct (pending_keys task_key (sp_pending (run_subs events))) \<and>
   (\<forall>k. (sp_busy (run_subs events) k = Some True) = (k \<in> set (pending_keys task_key (sp_pending (run_subs events)))))"
  using busy_inv_run[of events] unfolding busy_inv_def marks_exact_def .

section \<open>The board of operations\<close>

text \<open>
  The abstract view of the page: each key is idle, working or reloading. An operation starts on an
  idle key, goes on to its reload or ends, and the reload ends.
\<close>

datatype phase = Idle | Working | Reloading

inductive phase_next :: "phase \<Rightarrow> phase \<Rightarrow> bool" where
  start: "phase_next Idle Working"
| reload: "phase_next Working Reloading"
| give_up: "phase_next Working Idle"
| finish: "phase_next Reloading Idle"

inductive board_step :: "(jstr \<Rightarrow> phase) \<Rightarrow> (jstr \<Rightarrow> phase) \<Rightarrow> bool" where
  stutter: "board_step b b"
| move: "phase_next (b k) x \<Longrightarrow> board_step b (b(k := x))"

definition task_phase :: "task \<Rightarrow> phase" where
  "task_phase t = (case t of LoadTask after \<Rightarrow> Reloading | _ \<Rightarrow> Working)"

definition board_of :: "task list \<Rightarrow> jstr \<Rightarrow> phase" where
  "board_of ts k = (case find (\<lambda>t. task_key t = Some k) ts of None \<Rightarrow> Idle | Some t \<Rightarrow> task_phase t)"

definition board :: "subs_page \<Rightarrow> jstr \<Rightarrow> phase" where
  "board p = board_of (sp_pending p)"

lemma find_key: "find (\<lambda>t. task_key t = Some k) ts = None \<longleftrightarrow> k \<notin> set (pending_keys task_key ts)"
  by (induction ts) (auto split: option.splits)

lemma board_idle: "board_of ts k = Idle \<longleftrightarrow> k \<notin> set (pending_keys task_key ts)"
  unfolding find_key[symmetric] board_of_def by (auto simp: task_phase_def split: option.splits task.splits)

lemma board_append: "board_of (ts @ us) k = (if k \<in> set (pending_keys task_key ts) then board_of ts k else board_of us k)"
  by (induction ts) (auto simp: board_of_def split: option.splits)

lemma board_Cons: "board_of (t # ts) k = (if task_key t = Some k then task_phase t else board_of ts k)"
  by (simp add: board_of_def)

lemma board_begin:
  assumes "task_key t = Some k" "k \<notin> set (pending_keys task_key ts)"
  shows "board_of (ts @ [t]) = (board_of ts)(k := task_phase t)"
proof
  fix j
  show "board_of (ts @ [t]) j = ((board_of ts)(k := task_phase t)) j"
    using assms board_idle[of ts j] by (auto simp: board_append board_Cons board_of_def[of "[]"])
qed

lemma board_keyless:
  assumes "task_key t = None"
  shows "board_of (ts @ [t]) = board_of ts"
proof
  show "board_of (ts @ [t]) k = board_of ts k" for k
    using assms board_idle[of ts k] by (auto simp: board_append board_Cons board_of_def[of "[]"])
qed

lemma board_remove:
  assumes "n < length ts" "distinct (pending_keys task_key ts)"
  shows "board_of (remove_at n ts) =
     (case task_key (ts ! n) of Some k \<Rightarrow> (board_of ts)(k := Idle) | None \<Rightarrow> board_of ts)"
    and "task_key (ts ! n) = Some k \<Longrightarrow> board_of ts k = task_phase (ts ! n)"
proof -
  have split: "ts = take n ts @ ts ! n # drop (Suc n) ts" by (rule id_take_nth_drop[OF assms(1)])
  have keys: "distinct (pending_keys task_key (take n ts @ ts ! n # drop (Suc n) ts))" using assms(2) split by simp
  show "task_key (ts ! n) = Some k \<Longrightarrow> board_of ts k = task_phase (ts ! n)"
    using keys by (subst split) (auto simp: board_append board_Cons)
  show "board_of (remove_at n ts) =
     (case task_key (ts ! n) of Some k \<Rightarrow> (board_of ts)(k := Idle) | None \<Rightarrow> board_of ts)"
  proof
    fix j
    have "board_of ts j = board_of (take n ts @ ts ! n # drop (Suc n) ts) j" using split by simp
    then show "board_of (remove_at n ts) j =
        (case task_key (ts ! n) of Some k \<Rightarrow> (board_of ts)(k := Idle) | None \<Rightarrow> board_of ts) j"
      using keys by (auto simp: remove_at_def board_append board_Cons board_idle split: option.splits)
  qed
qed

lemma board_cong: "sp_pending q = sp_pending p \<Longrightarrow> board q = board p"
  by (simp add: board_def)

lemma board_set_busy [simp]: "board (set_busy k b p) = board p"
  by (simp add: board_def set_busy_def)

lemma board_start:
  assumes "busy_inv p" "\<not> is_busy p k" "task_key t = Some k" "task_phase t = Working"
  shows "board_step (board p) (board (begin_task t (set_busy k True p)))"
proof -
  have free: "k \<notin> set (pending_keys task_key (sp_pending p))" using assms(1,2) by (auto simp: busy_inv_def is_busy_def marks_exact_def)
  then have "board (begin_task t (set_busy k True p)) = (board p)(k := Working)"
    using assms(3,4) board_begin[of t k] by (simp add: board_def begin_task_def set_busy_def)
  moreover have "board p k = Idle" using free by (simp add: board_def board_idle)
  ultimately show ?thesis using board_step.move[of "board p" k Working] phase_next.start by simp
qed

text \<open>What a resumed handler does to the board that its task has just left.\<close>

lemma board_done:
  assumes "held task_key (task_key t) (sp_pending p) (sp_busy p)" "resume t a = Some f"
  shows "board (fst (f p)) = board p \<or>
    (\<exists>k. task_key t = Some k \<and> task_phase t = Working \<and> board (fst (f p)) = (board p)(k := Reloading))"
proof -
  have load: "board (load_subs (Some k) p) = (board p)(k := Reloading)" if "task_key t = Some k" for k
    using assms(1) board_begin[of "LoadTask (Some k)" k "sp_pending p"] that
    by (simp add: board_def load_subs_def begin_task_def task_phase_def held_def)
  from assms(2) show ?thesis using load
    by (induction t a rule: resume.induct)
      (auto simp: load_subs_done_def check_subs_done_def refresh_sub_done_def refreshAll_done_def
        remove_sub_done_def clear_busy_def task_phase_def board_def set_busy_def split: sum.splits option.splits)
qed

lemma board_answered:
  assumes p: "busy_inv p"
  shows "board_step (board p) (board (fst (answered n a p)))"
proof (cases "n < length (sp_pending p) \<and> resume (sp_pending p ! n) a \<noteq> None")
  case True
  define t where "t = sp_pending p ! n"
  define q where "q = p\<lparr>sp_pending := remove_at n (sp_pending p)\<rparr>"
  obtain f where f: "resume t a = Some f" using True t_def by blast
  have run: "fst (answered n a p) = fst (f q)" using True f by (simp add: answered_def t_def q_def)
  have held: "held task_key (task_key t) (sp_pending q) (sp_busy q)"
    using p True by (simp add: t_def q_def busy_inv_def held_take)
  have distinct: "distinct (pending_keys task_key (sp_pending p))" using p by (simp add: busy_inv_def marks_exact_def)
  note left = board_remove[OF conjunct1[OF True] distinct, folded t_def]
  show ?thesis
  proof (cases "task_key t")
    case None
    then have "board (fst (f q)) = board p"
      using board_done[OF held f] left(1) by (auto simp: board_def q_def)
    then show ?thesis unfolding run by (simp add: board_step.stutter)
  next
    case (Some k)
    then have gone: "board q = (board p)(k := Idle)" and now: "board p k = task_phase t"
      using left by (auto simp: board_def q_def)
    have "phase_next (task_phase t) Idle"
      by (cases t) (auto simp: task_phase_def intro: phase_next.intros)
    then have idle: "phase_next (board p k) Idle" by (simp add: now)
    have "board_step (board p) ((board p)(k := Idle))"
      by (rule board_step.move) (rule idle)
    moreover have "board_step (board p) ((board p)(k := Reloading))" if "task_phase t = Working"
      by (rule board_step.move) (simp add: now that phase_next.reload)
    ultimately show ?thesis using board_done[OF held f] Some gone unfolding run by auto
  qed
qed (auto simp: answered_def board_step.stutter split: option.splits)

lemma board_subs_step: "busy_inv p \<Longrightarrow> board_step (board p) (board (fst (subs_step p e)))"
proof (cases e)
  case ReloadClicked
  have "board (load_subs None p) = board p"
    by (simp add: board_def load_subs_def begin_task_def board_keyless)
  then show ?thesis using ReloadClicked by (simp add: board_step.stutter)
next
  case (Answered n a)
  assume "busy_inv p"
  then show ?thesis unfolding Answered by (simp add: board_answered)
next
  case CheckAllClicked
  assume "busy_inv p"
  then show ?thesis unfolding CheckAllClicked
    by (auto simp: check_subs_def Let_def board_step.stutter task_phase_def intro!: board_start)
next
  case (RowChecked item)
  assume "busy_inv p"
  then show ?thesis unfolding RowChecked
    by (auto simp: check_subs_def Let_def board_step.stutter task_phase_def intro!: board_start)
next
  case (RowRefreshed item)
  assume "busy_inv p"
  then show ?thesis unfolding RowRefreshed
    by (auto simp: refresh_sub_def board_step.stutter task_phase_def intro!: board_start)
next
  case RefreshAllClicked
  assume "busy_inv p"
  then show ?thesis unfolding RefreshAllClicked
    by (auto simp: refreshAll_def board_step.stutter task_phase_def intro!: board_start)
next
  case DeleteConfirmed
  assume "busy_inv p"
  then show ?thesis unfolding DeleteConfirmed
    by (auto simp: remove_sub_def board_step.stutter task_phase_def split: option.splits intro!: board_start)
qed (auto simp: board_def created_sub_def edited_sub_def board_step.stutter split: option.splits)

text \<open>
  C3: The page refines the board of operations. For every page that clicks and answers can
  reach, each further event is, seen on the board, nothing or one of the four moves of one key:
  start of an idle key, from work to the reload, back to idle without one, end of the reload. So
  an operation that works is never started a second time and no reload precedes its work.
\<close>

theorem page_refines_board:
  "board_step (board (run_subs events)) (board (fst (subs_step (run_subs events) e)))"
  by (rule board_subs_step) (rule busy_inv_run)

section \<open>The groups\<close>

definition has_source :: "jstr \<Rightarrow> NodeRecord \<Rightarrow> bool" where
  "has_source s node \<longleftrightarrow> list_ex (\<lambda>source. nsrc_subscription_id source = s) (nd_sources node)"

text \<open>The reference: the first node of each identifier among those that list the subscription.\<close>

definition group_of :: "jstr \<Rightarrow> NodeRecord list \<Rightarrow> NodeRecord list" where
  "group_of s nodes =
     foldl (\<lambda>group node. if has_source s node \<and> \<not> list_ex (\<lambda>item. nd_id item = nd_id node) group
        then group @ [node] else group) [] nodes"

definition join_group :: "NodeRecord \<Rightarrow> NodeRecord list \<Rightarrow> NodeRecord list" where
  "join_group node rows = (if list_ex (\<lambda>item. nd_id item = nd_id node) rows then rows else rows @ [node])"

lemma join_group_idem [simp]: "join_group node (join_group node rows) = join_group node rows"
  by (auto simp: join_group_def)

lemma add_source_lookup:
  "or_default (add_source node grouped source s) [] =
     (if nsrc_subscription_id source = s then join_group node (or_default (grouped s) []) else or_default (grouped s) [])"
  by (auto simp: add_source_def join_group_def Let_def)

lemma add_sources_lookup:
  "or_default (foldl (add_source node) grouped sources s) [] =
     (if list_ex (\<lambda>source. nsrc_subscription_id source = s) sources
      then join_group node (or_default (grouped s) []) else or_default (grouped s) [])"
  by (induction sources arbitrary: grouped) (auto simp: add_source_lookup)

lemma group_lookup: "or_default (nodesBySubscription nodes s) [] = group_of s nodes"
  unfolding nodesBySubscription_def group_of_def
  by (induction nodes rule: rev_induct)
    (auto simp: add_node_def add_sources_lookup has_source_def join_group_def)

lemma group_of_distinct: "distinct (map nd_id (group_of s nodes))"
  unfolding group_of_def by (induction nodes rule: rev_induct) (auto simp: list_ex_iff image_iff)

lemma group_of_members:
  "nd_id ` set (group_of s nodes) = nd_id ` {node \<in> set nodes. has_source s node}"
proof (induction nodes rule: rev_induct)
  case (snoc node nodes)
  let ?g = "group_of s nodes"
  have step: "group_of s (nodes @ [node]) =
      (if has_source s node \<and> \<not> list_ex (\<lambda>item. nd_id item = nd_id node) ?g then ?g @ [node] else ?g)"
    by (simp add: group_of_def)
  have all: "{n \<in> set (nodes @ [node]). has_source s n} =
      (if has_source s node then insert node {n \<in> set nodes. has_source s n} else {n \<in> set nodes. has_source s n})"
    by auto
  have old: "nd_id node \<in> nd_id ` {n \<in> set nodes. has_source s n}"
    if "list_ex (\<lambda>item. nd_id item = nd_id node) ?g"
    unfolding snoc[symmetric] using that by (metis (mono_tags, lifting) image_iff list_ex_iff)
  show ?case unfolding step all using snoc old by (auto simp: insert_absorb)
qed (simp add: group_of_def)

lemma group_of_filter: "distinct (map nd_id nodes) \<Longrightarrow> group_of s nodes = filter (has_source s) nodes"
proof (induction nodes rule: rev_induct)
  case (snoc node nodes)
  then have IH: "group_of s nodes = filter (has_source s) nodes" by simp
  have "\<not> list_ex (\<lambda>item. nd_id item = nd_id node) (group_of s nodes)"
    unfolding IH using snoc.prems by (auto simp: list_ex_iff image_iff)
  moreover have "group_of s (nodes @ [node]) =
      (if has_source s node \<and> \<not> list_ex (\<lambda>item. nd_id item = nd_id node) (group_of s nodes)
       then group_of s nodes @ [node] else group_of s nodes)"
    by (simp add: group_of_def)
  ultimately show ?case using IH by simp
qed (simp add: group_of_def)

text \<open>
  The nodes under a subscription are exactly its nodes: the rows that the two nested loops
  collect carry, without repetition, the identifiers of the nodes that list the subscription as a
  source, each row being one of those nodes.
\<close>

theorem subscription_groups_exact:
  "distinct (map nd_id (row_nodes p s)) \<and>
   nd_id ` set (row_nodes p s) = nd_id ` {node \<in> set (sp_nodes p). has_source s node} \<and>
   set (row_nodes p s) \<subseteq> {node \<in> set (sp_nodes p). has_source s node}"
proof -
  have "set (group_of s nodes) \<subseteq> {node \<in> set nodes. has_source s node}" for nodes
    unfolding group_of_def by (induction nodes rule: rev_induct) auto
  then show ?thesis
    by (simp add: row_nodes_def group_lookup group_of_distinct group_of_members)
qed

section \<open>The source form\<close>

record subs_form =
  sf_source_type :: SourceType
  sf_replace_source :: bool
  sf_name :: jstr
  sf_source_value :: jstr
  sf_headers_text :: jstr
  sf_user_agent :: jstr
  sf_allow_private :: bool
  sf_timeout :: jnum
  sf_interval :: jnum
  sf_cron :: jstr
  sf_enabled :: bool
  sf_submitting :: bool

definition initial_form :: "Subscription option \<Rightarrow> subs_form" where
  "initial_form subscription =
     (case subscription of
        None \<Rightarrow> \<lparr>sf_source_type = SrcRemote, sf_replace_source = True, sf_name = [], sf_source_value = [],
          sf_headers_text = [], sf_user_agent = [], sf_allow_private = False, sf_timeout = Fin 30,
          sf_interval = Fin 3600, sf_cron = [], sf_enabled = True, sf_submitting = False\<rparr>
      | Some s \<Rightarrow> \<lparr>sf_source_type = sub_source_type s, sf_replace_source = False, sf_name = sub_name s,
          sf_source_value = [], sf_headers_text = [], sf_user_agent = [], sf_allow_private = False,
          sf_timeout = Fin 30, sf_interval = Fin (of_int (sub_refresh_interval_seconds s)),
          sf_cron = or_default (sub_refresh_cron s) [], sf_enabled = sub_enabled s, sf_submitting = False\<rparr>)"

text \<open>\<open>/\.(ya?ml|txt)$/i\<close> removed from a file name.\<close>

definition file_title :: "jstr \<Rightarrow> jstr" where
  "file_title name =
     (case find (\<lambda>ending. suffix ending (to_lower name)) [js ''.yaml'', js ''.yml'', js ''.txt''] of
        Some ending \<Rightarrow> take (length name - length ending) name
      | None \<Rightarrow> name)"

datatype form_refusal = FileTooBig | NameOrSourceMissing | NameMissing | IntervalTooShort

text \<open>
  Choosing a file, up to the wait for its text, and from there on; \<open>name\<close> is the name of the
  subscription when the file was chosen.
\<close>

definition loadClashFile :: "nat \<Rightarrow> subs_form \<Rightarrow> form_refusal + subs_form" where
  "loadClashFile bytes f =
     (if 4 * 1024 * 1024 < bytes then Inl FileTooBig
      else Inr (f\<lparr>sf_source_type := SrcInline, sf_replace_source := True\<rparr>))"

definition clash_text :: "jstr \<Rightarrow> jstr \<Rightarrow> jstr \<Rightarrow> subs_form \<Rightarrow> subs_form" where
  "clash_text name filename contents f =
     (let f' = f\<lparr>sf_source_value := contents\<rparr>
      in if trim name = [] then f'\<lparr>sf_name := file_title filename\<rparr> else f')"

text \<open>
  A property of a plain object is set; the name \<open>__proto__\<close> is an accessor that ignores a string.
  The first line without a name is reported.
\<close>

definition set_header :: "jstr \<Rightarrow> jstr \<Rightarrow> (jstr \<times> jstr) list \<Rightarrow> (jstr \<times> jstr) list" where
  "set_header name v hs = (if name = js ''__proto__'' then hs else put_by fst (name, v) hs)"

fun parse_headers :: "jstr list \<Rightarrow> (jstr \<times> jstr) list \<Rightarrow> jstr + (jstr \<times> jstr) list" where
  "parse_headers [] hs = Inr hs"
| "parse_headers (rawLine # rest) hs =
     (let line = trim rawLine in
      if line = [] then parse_headers rest hs
      else
        (case index_of line 58 of
           Some (Suc n) \<Rightarrow> parse_headers rest (set_header (trim (take (Suc n) line)) (trim (drop (Suc (Suc n)) line)) hs)
         | _ \<Rightarrow> Inl line))"

definition empty_source :: SourceConfig where
  "empty_source = \<lparr>cfg_url = None, cfg_headers = None, cfg_user_agent = None, cfg_inline = None,
     cfg_file_path = None, cfg_timeout_seconds = None, cfg_allow_private = None\<rparr>"

text \<open>The source to send, None for \<open>undefined\<close>; \<open>Inl\<close> is the line of the header error that is thrown.\<close>

definition buildSource :: "subs_form \<Rightarrow> jstr + SourceConfig option" where
  "buildSource f =
     (if \<not> sf_replace_source f then Inr None
      else if sf_source_type f = SrcInline then Inr (Some (empty_source\<lparr>cfg_inline := Some (sf_source_value f)\<rparr>))
      else if sf_source_type f = SrcFile then
        Inr (Some (empty_source\<lparr>cfg_file_path := Some (trim (sf_source_value f))\<rparr>))
      else
        (case parse_headers (split_on newline (sf_headers_text f)) [] of
           Inl line \<Rightarrow> Inl line
         | Inr headers \<Rightarrow>
             Inr (Some (empty_source\<lparr>cfg_url := Some (trim (sf_source_value f)), cfg_headers := nonempty headers,
               cfg_user_agent := nonempty (trim (sf_user_agent f)), cfg_timeout_seconds := Some (sf_timeout f),
               cfg_allow_private := Some (sf_allow_private f)\<rparr>))))"

text \<open>\<open>Number.isInteger(interval)\<close>, with its value.\<close>

definition integer_of :: "jnum \<Rightarrow> int option" where
  "integer_of x = (case x of Fin v \<Rightarrow> if of_int (floor v) = v then Some (floor v) else None | _ \<Rightarrow> None)"

datatype subs_request =
    UpdateRequest jstr UpdateSubscriptionRequest
  | CreateRequest CreateSubscriptionRequest

datatype submit_result =
    Refused form_refusal
  | HeaderError jstr
  | Sent subs_request

text \<open>
  A submission up to its request. A created subscription has its source, since the form cannot
  be switched to keep one that does not exist; \<open>source!\<close> of an absent source would send none.
\<close>

definition submit_form :: "Subscription option \<Rightarrow> subs_form \<Rightarrow> submit_result" where
  "submit_form subscription f =
     (if trim (sf_name f) = [] \<or> (sf_replace_source f \<and> trim (sf_source_value f) = [])
      then Refused (if sf_replace_source f then NameOrSourceMissing else NameMissing)
      else
        (case integer_of (sf_interval f) of
           None \<Rightarrow> Refused IntervalTooShort
         | Some interval \<Rightarrow>
             if interval < 60 then Refused IntervalTooShort
             else
               (case buildSource f of
                  Inl line \<Rightarrow> HeaderError line
                | Inr source \<Rightarrow>
                    Sent (case subscription of
                      Some s \<Rightarrow> UpdateRequest (sub_id s)
                        \<lparr>usub_version = sub_version s, usub_name = trim (sf_name f),
                         usub_source_type = sf_source_type f, usub_source_config = source,
                         usub_enabled = sf_enabled f, usub_refresh_interval_seconds = interval,
                         usub_refresh_cron = nonempty (trim (sf_cron f))\<rparr>
                    | None \<Rightarrow> CreateRequest
                        \<lparr>csub_name = trim (sf_name f), csub_source_type = sf_source_type f,
                         csub_source_config = or_default source empty_source,
                         csub_enabled = Some (sf_enabled f), csub_refresh_interval_seconds = Some interval,
                         csub_refresh_cron = nonempty (trim (sf_cron f))\<rparr>))))"

text \<open>The answer: the saved subscription goes to the page, an error to its notice.\<close>

definition submit_done :: "Subscription outcome \<Rightarrow> subs_form \<Rightarrow> subs_form \<times> (js_error + Subscription)" where
  "submit_done answer f = (f\<lparr>sf_submitting := False\<rparr>, answer)"

text \<open>The controls of the form; the check box that keeps the source exists only when
  editing, the controls of the source only when it is replaced.\<close>

datatype form_event =
    FileChosen nat | FileRead jstr jstr jstr | NameTyped jstr | EnabledSet bool | ReplaceSet bool | SourceTypeChosen SourceType
  | SourceTyped jstr | AgentTyped jstr | TimeoutTyped jstr | HeadersTyped jstr | PrivateSet bool
  | IntervalTyped jstr | CronTyped jstr

fun form_step :: "bool \<Rightarrow> subs_form \<Rightarrow> form_event \<Rightarrow> subs_form" where
  "form_step editing f (FileChosen bytes) =
     (if sf_replace_source f then (case loadClashFile bytes f of Inr f' \<Rightarrow> f' | Inl _ \<Rightarrow> f) else f)"
| "form_step editing f (FileRead name filename contents) = clash_text name filename contents f"
| "form_step editing f (NameTyped v) = f\<lparr>sf_name := v\<rparr>"
| "form_step editing f (EnabledSet b) = f\<lparr>sf_enabled := b\<rparr>"
| "form_step editing f (ReplaceSet b) = (if editing then f\<lparr>sf_replace_source := b\<rparr> else f)"
| "form_step editing f (SourceTypeChosen t) = (if sf_replace_source f then f\<lparr>sf_source_type := t\<rparr> else f)"
| "form_step editing f (SourceTyped v) = (if sf_replace_source f then f\<lparr>sf_source_value := v\<rparr> else f)"
| "form_step editing f (AgentTyped v) = f\<lparr>sf_user_agent := v\<rparr>"
| "form_step editing f (TimeoutTyped v) = f\<lparr>sf_timeout := js_Number v\<rparr>"
| "form_step editing f (HeadersTyped v) = f\<lparr>sf_headers_text := v\<rparr>"
| "form_step editing f (PrivateSet b) = f\<lparr>sf_allow_private := b\<rparr>"
| "form_step editing f (IntervalTyped v) = f\<lparr>sf_interval := js_Number v\<rparr>"
| "form_step editing f (CronTyped v) = f\<lparr>sf_cron := v\<rparr>"

section \<open>What the form sends\<close>

lemma put_by_names: "fst ` set (put_by fst (k, v) hs) = insert k (fst ` set hs)"
  using keys_put_by[of fst "(k, v)" hs] by simp

lemma index_of_take: "index_of s c = Some n \<Longrightarrow> c \<notin> set (take n s)"
  by (simp add: index_of_Some)

lemma trim_start_front: "s \<noteq> [] \<Longrightarrow> \<not> is_space (hd s) \<Longrightarrow> trim s \<noteq> []"
  by (cases s) (auto simp: trim_def trim_end_def trim_start_def dropWhile_eq_Nil_conv)

text \<open>A line of headers is blank, has a name, or is an error.\<close>

definition header_line :: "jstr \<Rightarrow> bool" where
  "header_line rawLine \<longleftrightarrow> trim rawLine = [] \<or> (58 \<in> set (trim rawLine) \<and> hd (trim rawLine) \<noteq> 58)"

lemma header_line_index:
  "trim rawLine \<noteq> [] \<Longrightarrow> header_line rawLine \<longleftrightarrow> (\<exists>n. index_of (trim rawLine) 58 = Some (Suc n))"
proof (cases "trim rawLine")
  case (Cons u s)
  then show ?thesis using index_of_None[of s 58] by (cases "index_of s 58") (auto simp: header_line_def)
qed simp

lemma parse_headers_ok: "(\<exists>hs'. parse_headers lines hs = Inr hs') \<longleftrightarrow> list_all header_line lines"
proof (induction lines arbitrary: hs)
  case (Cons rawLine rest)
  show ?case
  proof (cases "trim rawLine = []")
    case False
    then show ?thesis using Cons header_line_index[OF False]
      by (auto simp: Let_def split: option.splits nat.splits)
  qed (use Cons in \<open>simp add: header_line_def\<close>)
qed simp

definition good_name :: "jstr \<Rightarrow> bool" where
  "good_name name \<longleftrightarrow> name \<noteq> [] \<and> 58 \<notin> set name \<and> trim name = name"

lemma name_good:
  assumes "trim rawLine \<noteq> []" "index_of (trim rawLine) 58 = Some (Suc n)"
  shows "good_name (trim (take (Suc n) (trim rawLine)))"
proof -
  let ?s = "take (Suc n) (trim rawLine)"
  have "hd ?s = hd (trim rawLine)" "?s \<noteq> []" using assms(1) by (cases "trim rawLine"; simp)+
  then have "trim ?s \<noteq> []" using trim_ends(1)[OF assms(1)] by (intro trim_start_front) auto
  moreover have "58 \<notin> set (trim ?s)" using set_trim[of ?s] index_of_take[OF assms(2)] by auto
  ultimately show ?thesis by (simp add: good_name_def trim_idem)
qed

lemma parse_headers_names:
  "parse_headers lines hs = Inr hs' \<Longrightarrow> distinct (map fst hs) \<Longrightarrow> list_all (\<lambda>(name, v). good_name name) hs \<Longrightarrow>
     distinct (map fst hs') \<and> list_all (\<lambda>(name, v). good_name name) hs'"
proof (induction lines arbitrary: hs)
  case (Cons rawLine rest)
  show ?case
  proof (cases "trim rawLine = []")
    case False
    with Cons.prems(1) obtain n where n: "index_of (trim rawLine) 58 = Some (Suc n)"
      by (auto simp: Let_def split: option.splits nat.splits)
    let ?name = "trim (take (Suc n) (trim rawLine))" and ?v = "trim (drop (Suc (Suc n)) (trim rawLine))"
    have good: "list_all (\<lambda>(name, v). good_name name) (set_header ?name ?v hs)"
      using Cons.prems(3) name_good[OF False n] set_put_by[OF Cons.prems(2), of "(?name, ?v)"]
      by (auto simp: set_header_def list_all_iff)
    have "distinct (map fst (set_header ?name ?v hs))"
      using Cons.prems(2) by (simp add: set_header_def distinct_put_by)
    with good show ?thesis using Cons.IH[of "set_header ?name ?v hs"] Cons.prems(1) False n by (simp add: Let_def)
  qed (use Cons in simp)
qed simp

text \<open>A source configuration of a type has the fields of that type and no others.\<close>

fun well_typed :: "SourceType \<Rightarrow> SourceConfig \<Rightarrow> bool" where
  "well_typed SrcRemote c \<longleftrightarrow>
     cfg_inline c = None \<and> cfg_file_path c = None \<and> trim (or_default (cfg_url c) []) \<noteq> [] \<and>
     distinct (map fst (or_default (cfg_headers c) [])) \<and>
     list_all (\<lambda>(name, v). good_name name) (or_default (cfg_headers c) [])"
| "well_typed SrcInline c \<longleftrightarrow>
     trim (or_default (cfg_inline c) []) \<noteq> [] \<and> c = empty_source\<lparr>cfg_inline := cfg_inline c\<rparr>"
| "well_typed SrcFile c \<longleftrightarrow>
     trim (or_default (cfg_file_path c) []) \<noteq> [] \<and> c = empty_source\<lparr>cfg_file_path := cfg_file_path c\<rparr>"

lemma buildSource_typed:
  assumes "buildSource f = Inr (Some c)" "trim (sf_source_value f) \<noteq> []"
  shows "well_typed (sf_source_type f) c"
proof (cases "sf_source_type f")
  case SrcRemote
  with assms(1) obtain hs where hs: "parse_headers (split_on newline (sf_headers_text f)) [] = Inr hs"
    and c: "c = empty_source\<lparr>cfg_url := Some (trim (sf_source_value f)), cfg_headers := nonempty hs,
               cfg_user_agent := nonempty (trim (sf_user_agent f)), cfg_timeout_seconds := Some (sf_timeout f),
               cfg_allow_private := Some (sf_allow_private f)\<rparr>"
    by (auto simp: buildSource_def split: if_splits sum.splits)
  show ?thesis using parse_headers_names[OF hs] assms(2) SrcRemote by (simp add: c empty_source_def)
qed (use assms in \<open>auto simp: buildSource_def empty_source_def split: if_splits\<close>)

lemma create_replaces: "sf_replace_source (foldl (form_step False) (initial_form None) events)"
proof (induction events rule: rev_induct)
  case (snoc e events)
  then show ?case by (cases e) (auto simp: loadClashFile_def clash_text_def Let_def split: sum.splits)
qed (simp add: initial_form_def)


text \<open>Headers: the error is exact.\<close>

lemma header_error_exact:
  "(\<exists>line. buildSource f = Inl line) \<longleftrightarrow>
     sf_replace_source f \<and> sf_source_type f = SrcRemote \<and>
     \<not> list_all header_line (split_on newline (sf_headers_text f))"
  using parse_headers_ok[of "split_on newline (sf_headers_text f)" "[]"]
  by (cases "sf_source_type f"; cases "parse_headers (split_on newline (sf_headers_text f)) []")
    (auto simp: buildSource_def)

text \<open>
  Switching the replacement of the source on, choosing another type and switching it off again
  leaves the new type in the request without a source: the check box promises that the source is
  not touched, and the control plane refuses such a request.
\<close>

theorem kept_source_changes_type:
  assumes "sub_source_type s = SrcRemote" "trim (sub_name s) \<noteq> []" "60 \<le> sub_refresh_interval_seconds s"
  shows "\<exists>r. submit_form (Some s) (foldl (form_step True) (initial_form (Some s))
             [ReplaceSet True, SourceTypeChosen SrcInline, ReplaceSet False]) = Sent (UpdateRequest (sub_id s) r) \<and>
           usub_source_config r = None \<and> usub_source_type r = SrcInline \<and> usub_source_type r \<noteq> sub_source_type s"
  using assms by (simp add: submit_form_def initial_form_def integer_of_def buildSource_def)
end
