(* ===== verification/AlertsPage.thy ===== *)
theory AlertsPage
  imports ApiCalls
begin

text \<open>
  The alerts page (web/src/pages/alerts-page.tsx): the two lists with their polling, the
  acknowledgement of an alert, and the mail settings card with its form.
\<close>

section \<open>Lists\<close>

record alerts_page =
  al_firing :: "AlertRecord list"
  al_history :: "AlertRecord list"
  al_settings :: "AlertSettings option"
  al_loading :: bool

definition initial_alerts :: alerts_page where
  "initial_alerts = \<lparr>al_firing = [], al_history = [], al_settings = None, al_loading = True\<rparr>"

text \<open>The notice of a failure: only an error of the API has one.\<close>

definition api_notice :: "js_error \<Rightarrow> jstr list" where
  "api_notice cause = (case cause of ApiError m status code req \<Rightarrow> [m] | _ \<Rightarrow> [])"

definition reload_begin :: "alerts_page \<Rightarrow> alerts_page" where
  "reload_begin p = p\<lparr>al_loading := True\<rparr>"

definition reload_alerts ::
  "(AlertList \<times> AlertList \<times> AlertSettings) outcome \<Rightarrow> alerts_page \<Rightarrow> alerts_page \<times> jstr list" where
  "reload_alerts answer p =
     (case answer of
        Inr (firing, resolved, current) \<Rightarrow>
          (p\<lparr>al_firing := als_items firing, al_history := als_items resolved, al_settings := Some current,
             al_loading := False\<rparr>, [])
      | Inl cause \<Rightarrow> (p\<lparr>al_loading := False\<rparr>, api_notice cause))"

text \<open>The answer to an acknowledgement: a notice and a reload, or the notice of the failure.\<close>

datatype alert_notice = Acknowledged | SettingsSaved | TestSent | ApiNotice jstr

definition acknowledge_done :: "unit outcome \<Rightarrow> alerts_page \<Rightarrow> alerts_page \<times> alert_notice list" where
  "acknowledge_done answer p =
     (case answer of
        Inr _ \<Rightarrow> (reload_begin p, [Acknowledged])
      | Inl cause \<Rightarrow> (p, map ApiNotice (api_notice cause)))"

section \<open>The settings card\<close>

record alert_card =
  ac_enabled :: bool
  ac_host :: jstr
  ac_port :: jnum
  ac_security :: jstr
  ac_username :: jstr
  ac_password :: jstr
  ac_from :: jstr
  ac_to :: jstr
  ac_busy :: bool

definition comma :: nat where "comma = 0x2C"

definition initial_card :: "AlertSettings \<Rightarrow> alert_card" where
  "initial_card settings =
     \<lparr>ac_enabled = ase_enabled settings, ac_host = or_default (ase_host settings) [],
      ac_port = Fin (of_int (or_default (ase_port settings) 587)),
      ac_security = or_default (ase_security settings) (js ''starttls''),
      ac_username = or_default (ase_username settings) [], ac_password = [],
      ac_from = or_default (ase_from settings) [],
      ac_to = join [comma, 0x20] (or_default (ase_to settings) []), ac_busy = False\<rparr>"

definition recipients :: "jstr \<Rightarrow> jstr list" where
  "recipients to = filter (\<lambda>s. s \<noteq> []) (map trim (split_on comma to))"

text \<open>A submission: None while another request is under way.\<close>

definition save_card :: "alert_card \<Rightarrow> (alert_card \<times> UpdateAlertSettingsRequest) option" where
  "save_card c =
     (if ac_busy c then None
      else Some (c\<lparr>ac_busy := True\<rparr>,
        \<lparr>uas_enabled = ac_enabled c, uas_host = trim (ac_host c), uas_port = ac_port c,
         uas_security = ac_security c, uas_username = trim (ac_username c), uas_password = ac_password c,
         uas_from = trim (ac_from c), uas_to = recipients (ac_to c)\<rparr>))"

text \<open>
  After the answer: a success clears the password and reloads the page, and the card stays busy
  until the reload has returned.
\<close>

definition save_card_done :: "unit outcome \<Rightarrow> alert_card \<Rightarrow> alert_card \<times> alert_notice list \<times> bool" where
  "save_card_done answer c =
     (case answer of
        Inr _ \<Rightarrow> (c\<lparr>ac_password := []\<rparr>, [SettingsSaved], True)
      | Inl cause \<Rightarrow> (c\<lparr>ac_busy := False\<rparr>, map ApiNotice (api_notice cause), False))"

definition card_reloaded :: "alert_card \<Rightarrow> alert_card" where
  "card_reloaded c = c\<lparr>ac_busy := False\<rparr>"

definition send_test :: "alert_card \<Rightarrow> (alert_card \<times> http_call) option" where
  "send_test c = (if ac_busy c then None else Some (c\<lparr>ac_busy := True\<rparr>, testAlertSettings))"

definition send_test_done :: "unit outcome \<Rightarrow> alert_card \<Rightarrow> alert_card \<times> alert_notice list" where
  "send_test_done answer c =
     (c\<lparr>ac_busy := False\<rparr>, case answer of Inr _ \<Rightarrow> [TestSent] | Inl cause \<Rightarrow> map ApiNotice (api_notice cause))"

text \<open>The controls of the form.\<close>

datatype card_event =
    CardEnabled bool | HostTyped jstr | PortTyped jstr | SecurityChosen jstr | UsernameTyped jstr
  | PasswordTyped jstr | FromTyped jstr | ToTyped jstr

fun card_step :: "alert_card \<Rightarrow> card_event \<Rightarrow> alert_card" where
  "card_step c (CardEnabled b) = c\<lparr>ac_enabled := b\<rparr>"
| "card_step c (HostTyped v) = c\<lparr>ac_host := v\<rparr>"
| "card_step c (PortTyped v) = c\<lparr>ac_port := js_Number v\<rparr>"
| "card_step c (SecurityChosen v) = c\<lparr>ac_security := v\<rparr>"
| "card_step c (UsernameTyped v) = c\<lparr>ac_username := v\<rparr>"
| "card_step c (PasswordTyped v) = c\<lparr>ac_password := v\<rparr>"
| "card_step c (FromTyped v) = c\<lparr>ac_from := v\<rparr>"
| "card_step c (ToTyped v) = c\<lparr>ac_to := v\<rparr>"

section \<open>What the card sends\<close>

definition plain_address :: "jstr \<Rightarrow> bool" where
  "plain_address a \<longleftrightarrow> a \<noteq> [] \<and> trim a = a \<and> comma \<notin> set a"

lemma trim_space: "trim (0x20 # s) = trim s"
  by (simp add: trim_def trim_start_def is_space_def)

lemma split_joined:
  "list_all plain_address as \<Longrightarrow> as \<noteq> [] \<Longrightarrow>
     map trim (split_on comma (join [comma, 0x20] as)) = as"
proof (induction "[comma, 0x20]" as rule: join.induct)
  case (2 a)
  then show ?case by (simp add: plain_address_def split_on_no_sep)
next
  case (3 a b as)
  have space: "map trim (split_on comma (0x20 # s)) = map trim (split_on comma s)" for s
    by (cases "split_on comma s") (auto simp: trim_space comma_def)
  from 3 show ?case by (simp add: plain_address_def split_on_append_sep space del: split_on.simps)
qed simp

lemma recipients_joined: "list_all plain_address as \<Longrightarrow> recipients (join [comma, 0x20] as) = as"
proof (cases "as = []")
  case False
  assume plain: "list_all plain_address as"
  then have "filter (\<lambda>s. s \<noteq> []) as = as" by (auto simp: filter_id_conv list_all_iff plain_address_def)
  then show ?thesis using split_joined[OF plain False] by (simp add: recipients_def)
qed (simp add: recipients_def)

lemma recipients_parse: "a \<in> set (recipients to) \<Longrightarrow> plain_address a"
proof -
  assume "a \<in> set (recipients to)"
  then obtain p where p: "p \<in> set (split_on comma to)" "a = trim p" "a \<noteq> []" by (auto simp: recipients_def)
  have "set (trim p) \<subseteq> set p"
    unfolding trim_def trim_end_def trim_start_def
    using set_dropWhile_subset[of is_space p] set_dropWhile_subset[of is_space "rev (dropWhile is_space p)"] by auto
  with p split_on_parts[of p comma to] show ?thesis by (auto simp: plain_address_def)
qed

text \<open>
  The list of recipients is read back from its text. Whatever is typed, the addresses sent are
  not blank, trimmed and without a comma; showing them again and saving sends the same list; and
  the settings as they were read are sent back unchanged, without a password, which keeps the
  stored one.
\<close>

theorem recipients_roundtrip:
  "list_all plain_address (recipients to) \<and>
   recipients (join [comma, 0x20] (recipients to)) = recipients to \<and>
   map_option (\<lambda>(c, r). (uas_to r, uas_password r, uas_enabled r))
     (save_card (initial_card (settings\<lparr>ase_to := Some (recipients to)\<rparr>))) =
   Some (recipients to, [], ase_enabled settings)"
proof -
  have plain: "list_all plain_address (recipients to)" by (simp add: list_all_iff recipients_parse)
  then show ?thesis by (simp add: recipients_joined save_card_def initial_card_def)
qed

end
