(* ===== verification/ArtifactsPage.thy ===== *)
theory ArtifactsPage
  imports Tasks ApiCalls
begin

text \<open>
  The backup page (web/src/pages/artifacts-page.tsx): one list that shows the backups or the
  exports, with creation, verification and removal. As on the subscriptions page the requests in
  flight are part of the state; each remembers the kind that was selected when it was sent.
\<close>

section \<open>State\<close>

datatype artifact_task =
    ListTask ArtifactKind
  | CreateTask ArtifactKind jstr
  | VerifyTask ArtifactKind jstr
  | DeleteTask ArtifactKind jstr

record artifacts_page =
  ap_kind :: ArtifactKind
  ap_items :: "ArtifactRecord list"
  ap_description :: jstr
  ap_loading :: bool
  ap_creating :: bool
  ap_busy :: "jstr \<rightharpoonup> bool"
  ap_delete_target :: "ArtifactRecord option"
  ap_pending :: "artifact_task list"

datatype artifact_notice = ArtifactFailed js_error | ArtifactCreated ArtifactKind | ArtifactValid int int | ArtifactDeleted

definition initial_artifacts :: artifacts_page where
  "initial_artifacts = \<lparr>ap_kind = Backup, ap_items = [], ap_description = [], ap_loading = True,
     ap_creating = False, ap_busy = Map.empty, ap_delete_target = None, ap_pending = [ListTask Backup]\<rparr>"

definition start :: "artifact_task \<Rightarrow> artifacts_page \<Rightarrow> artifacts_page" where
  "start t p = p\<lparr>ap_pending := ap_pending p @ [t]\<rparr>"

definition mark :: "jstr \<Rightarrow> bool \<Rightarrow> artifacts_page \<Rightarrow> artifacts_page" where
  "mark i b p = p\<lparr>ap_busy := (ap_busy p)(i \<mapsto> b)\<rparr>"

fun artifact_key :: "artifact_task \<Rightarrow> jstr option" where
  "artifact_key (VerifyTask kind i) = Some i"
| "artifact_key (DeleteTask kind i) = Some i"
| "artifact_key _ = None"

section \<open>Operations\<close>

definition load_artifacts :: "artifacts_page \<Rightarrow> artifacts_page" where
  "load_artifacts p = start (ListTask (ap_kind p)) (p\<lparr>ap_loading := True\<rparr>)"

definition load_artifacts_done :: "ArtifactList outcome \<Rightarrow> artifacts_page \<Rightarrow> artifacts_page \<times> artifact_notice list" where
  "load_artifacts_done answer p =
     (case answer of
        Inr result \<Rightarrow> (p\<lparr>ap_items := arts_items result, ap_loading := False\<rparr>, [])
      | Inl cause \<Rightarrow> (p\<lparr>ap_loading := False\<rparr>, [ArtifactFailed cause]))"

text \<open>Another kind selected: the effect that depends on it loads again.\<close>

definition setKind :: "ArtifactKind \<Rightarrow> artifacts_page \<Rightarrow> artifacts_page" where
  "setKind kind p = (if kind = ap_kind p then p else load_artifacts (p\<lparr>ap_kind := kind\<rparr>))"

definition create_artifact :: "artifacts_page \<Rightarrow> artifacts_page" where
  "create_artifact p = start (CreateTask (ap_kind p) (trim (ap_description p))) (p\<lparr>ap_creating := True\<rparr>)"

definition create_artifact_done ::
  "ArtifactKind \<Rightarrow> ArtifactRecord outcome \<Rightarrow> artifacts_page \<Rightarrow> artifacts_page \<times> artifact_notice list" where
  "create_artifact_done kind answer p =
     (case answer of
        Inr created \<Rightarrow>
          (p\<lparr>ap_items := created # ap_items p, ap_description := [], ap_creating := False\<rparr>, [ArtifactCreated kind])
      | Inl cause \<Rightarrow> (p\<lparr>ap_creating := False\<rparr>, [ArtifactFailed cause]))"

definition verify_artifact :: "ArtifactRecord \<Rightarrow> artifacts_page \<Rightarrow> artifacts_page" where
  "verify_artifact item p = start (VerifyTask (ap_kind p) (art_id item)) (mark (art_id item) True p)"

definition verify_artifact_done ::
  "jstr \<Rightarrow> VerifyResult outcome \<Rightarrow> artifacts_page \<Rightarrow> artifacts_page \<times> artifact_notice list" where
  "verify_artifact_done i answer p =
     (mark i False p,
      [case answer of Inr result \<Rightarrow> ArtifactValid (ver_files_checked result) (ver_manifest_version result)
       | Inl cause \<Rightarrow> ArtifactFailed cause])"

definition remove_artifact :: "artifacts_page \<Rightarrow> artifacts_page" where
  "remove_artifact p =
     (case ap_delete_target p of
        None \<Rightarrow> p
      | Some item \<Rightarrow> start (DeleteTask (ap_kind p) (art_id item)) (mark (art_id item) True p))"

definition remove_artifact_done :: "jstr \<Rightarrow> unit outcome \<Rightarrow> artifacts_page \<Rightarrow> artifacts_page \<times> artifact_notice list" where
  "remove_artifact_done i answer p =
     (case answer of
        Inr _ \<Rightarrow>
          (mark i False (p\<lparr>ap_items := filter (\<lambda>candidate. art_id candidate \<noteq> i) (ap_items p),
             ap_delete_target := None\<rparr>), [ArtifactDeleted])
      | Inl cause \<Rightarrow> (mark i False p, [ArtifactFailed cause]))"

section \<open>Events\<close>

datatype artifact_answer =
    ListAnswer "ArtifactList outcome"
  | CreateAnswer "ArtifactRecord outcome"
  | VerifyAnswer "VerifyResult outcome"
  | DeleteAnswer "unit outcome"

datatype artifact_event =
    KindChosen ArtifactKind | ReloadArtifacts | DescriptionTyped jstr | CreateArtifact
  | VerifyClicked ArtifactRecord | DeleteClicked ArtifactRecord | DeleteDismissed | DeleteAccepted
  | ArtifactAnswer nat artifact_answer

fun continue_with :: "artifact_task \<Rightarrow> artifact_answer \<Rightarrow> (artifacts_page \<Rightarrow> artifacts_page \<times> artifact_notice list) option" where
  "continue_with (ListTask kind) (ListAnswer a) = Some (load_artifacts_done a)"
| "continue_with (CreateTask kind d) (CreateAnswer a) = Some (create_artifact_done kind a)"
| "continue_with (VerifyTask kind i) (VerifyAnswer a) = Some (verify_artifact_done i a)"
| "continue_with (DeleteTask kind i) (DeleteAnswer a) = Some (remove_artifact_done i a)"
| "continue_with _ _ = None"

definition artifact_answered :: "nat \<Rightarrow> artifact_answer \<Rightarrow> artifacts_page \<Rightarrow> artifacts_page \<times> artifact_notice list" where
  "artifact_answered n a p =
     (if n < length (ap_pending p)
      then (case continue_with (ap_pending p ! n) a of
              Some f \<Rightarrow> f (p\<lparr>ap_pending := remove_at n (ap_pending p)\<rparr>)
            | None \<Rightarrow> (p, []))
      else (p, []))"

definition row_shown :: "ArtifactRecord \<Rightarrow> artifacts_page \<Rightarrow> bool" where
  "row_shown item p \<longleftrightarrow> \<not> ap_loading p \<and> item \<in> set (ap_items p)"

definition row_busy :: "artifacts_page \<Rightarrow> ArtifactRecord \<Rightarrow> bool" where
  "row_busy p item \<longleftrightarrow> ap_busy p (art_id item) = Some True"

fun artifact_step :: "artifacts_page \<Rightarrow> artifact_event \<Rightarrow> artifacts_page \<times> artifact_notice list" where
  "artifact_step p (KindChosen kind) = (setKind kind p, [])"
| "artifact_step p ReloadArtifacts = (if ap_loading p then (p, []) else (load_artifacts p, []))"
| "artifact_step p (DescriptionTyped v) = (p\<lparr>ap_description := v\<rparr>, [])"
| "artifact_step p CreateArtifact = (if ap_creating p then (p, []) else (create_artifact p, []))"
| "artifact_step p (VerifyClicked item) =
     (if \<not> row_shown item p \<or> row_busy p item then (p, []) else (verify_artifact item p, []))"
| "artifact_step p (DeleteClicked item) =
     (if \<not> row_shown item p \<or> row_busy p item then (p, []) else (p\<lparr>ap_delete_target := Some item\<rparr>, []))"
| "artifact_step p DeleteDismissed =
     (case ap_delete_target p of
        Some item \<Rightarrow> if row_busy p item then (p, []) else (p\<lparr>ap_delete_target := None\<rparr>, [])
      | None \<Rightarrow> (p, []))"
| "artifact_step p DeleteAccepted =
     (case ap_delete_target p of
        Some item \<Rightarrow> if row_busy p item then (p, []) else (remove_artifact p, [])
      | None \<Rightarrow> (p, []))"
| "artifact_step p (ArtifactAnswer n a) = artifact_answered n a p"

definition run_artifacts :: "artifact_event list \<Rightarrow> artifacts_page" where
  "run_artifacts events = foldl (\<lambda>p e. fst (artifact_step p e)) initial_artifacts events"

section \<open>Busy rows\<close>

definition rows_inv :: "artifacts_page \<Rightarrow> bool" where
  "rows_inv p \<longleftrightarrow> marks_exact artifact_key (ap_pending p) (ap_busy p)"

lemma continue_inv:
  assumes "held artifact_key (artifact_key t) (ap_pending p) (ap_busy p)" "continue_with t a = Some f"
  shows "rows_inv (fst (f p))"
  using assms(2,1)
  by (induction t a rule: continue_with.induct)
    (auto simp: rows_inv_def load_artifacts_done_def create_artifact_done_def verify_artifact_done_def
      remove_artifact_done_def mark_def held_reset held_keyless split: sum.splits)

lemma rows_inv_answered:
  assumes "rows_inv p"
  shows "rows_inv (fst (artifact_answered n a p))"
proof (cases "n < length (ap_pending p) \<and> continue_with (ap_pending p ! n) a \<noteq> None")
  case True
  then obtain f where f: "continue_with (ap_pending p ! n) a = Some f" by blast
  let ?q = "p\<lparr>ap_pending := remove_at n (ap_pending p)\<rparr>"
  have "held artifact_key (artifact_key (ap_pending p ! n)) (ap_pending ?q) (ap_busy ?q)"
    using assms True by (simp add: rows_inv_def held_take)
  from continue_inv[OF this f] show ?thesis using True f by (simp add: artifact_answered_def)
qed (use assms in \<open>auto simp: artifact_answered_def\<close>)

lemma rows_inv_step: "rows_inv p \<Longrightarrow> rows_inv (fst (artifact_step p e))"
proof (cases e)
  case (ArtifactAnswer n a)
  then show "rows_inv p \<Longrightarrow> ?thesis" by (simp add: rows_inv_answered)
qed (auto simp: rows_inv_def setKind_def load_artifacts_def create_artifact_def verify_artifact_def
    remove_artifact_def start_def mark_def row_busy_def marks_keyless intro!: marks_begin split: option.splits)

text \<open>
  A row is busy exactly while its verification or removal is under way, and it has at most one of
  them at a time.
\<close>

lemma rows_exact:
  "distinct (pending_keys artifact_key (ap_pending (run_artifacts events)))"
  "(ap_busy (run_artifacts events) i = Some True) = (i \<in> set (pending_keys artifact_key (ap_pending (run_artifacts events))))"
proof -
  have "rows_inv (run_artifacts events)" unfolding run_artifacts_def
    by (induction events rule: rev_induct) (simp_all add: rows_inv_step, simp add: rows_inv_def marks_exact_def initial_artifacts_def)
  then show "distinct (pending_keys artifact_key (ap_pending (run_artifacts events)))"
    "(ap_busy (run_artifacts events) i = Some True) = (i \<in> set (pending_keys artifact_key (ap_pending (run_artifacts events))))"
    by (auto simp: rows_inv_def marks_exact_def)
qed

section \<open>The other kind's list\<close>

text \<open>
  The list may show the other kind. The page loads again when the other kind is selected, but
  the answer to the load of the kind before is not recognised as outdated: when it arrives last,
  the export tab shows the backups, and from then on a verification or removal of a row asks the
  export collection for the identifier of a backup.
\<close>

theorem outdated_list_wins:
  "(let p = run_artifacts [KindChosen Export, ArtifactAnswer 1 (ListAnswer (Inr exports)),
              ArtifactAnswer 0 (ListAnswer (Inr backups))]
    in ap_kind p = Export \<and> ap_items p = arts_items backups \<and> \<not> ap_loading p \<and>
       ap_pending (fst (artifact_step p (VerifyClicked item))) =
         (if item \<in> set (arts_items backups) then [VerifyTask Export (art_id item)] else []))"
  by (simp add: run_artifacts_def initial_artifacts_def setKind_def load_artifacts_def start_def artifact_answered_def
      load_artifacts_done_def remove_at_def row_shown_def row_busy_def verify_artifact_def mark_def Let_def)

end
