(* ===== verification/AboutPage.thy ===== *)
theory AboutPage
  imports ApiCalls
begin

text \<open>
  The about page (web/src/pages/about-page.tsx): version information, the two-factor check that
  authorises an update, and the update with its wait for the restarted service.
\<close>

section \<open>State\<close>

record about_page =
  ab_info :: "SystemInfo option"
  ab_loading :: bool
  ab_copied :: bool
  ab_confirming :: bool
  ab_updating :: bool
  ab_two_factor :: "TwoFactorStatus option"
  ab_code :: jstr
  ab_verifying :: bool

datatype about_notice =
    AboutFailed js_error | CommandCopied | CopyRefused | VerifyFirst | UpdateStarted | UpdateTimeout
  | CodeMalformed | Verified

definition initial_about :: about_page where
  "initial_about = \<lparr>ab_info = None, ab_loading = True, ab_copied = False, ab_confirming = False,
     ab_updating = False, ab_two_factor = None, ab_code = [], ab_verifying = False\<rparr>"

definition load_about :: "(SystemInfo \<times> TwoFactorStatus) outcome \<Rightarrow> about_page \<Rightarrow> about_page \<times> about_notice list" where
  "load_about answer p =
     (case answer of
        Inr (info, status) \<Rightarrow> (p\<lparr>ab_info := Some info, ab_two_factor := Some status, ab_loading := False\<rparr>, [])
      | Inl cause \<Rightarrow> (p\<lparr>ab_loading := False\<rparr>, [AboutFailed cause]))"

definition load_about_begin :: "about_page \<Rightarrow> about_page" where
  "load_about_begin p = p\<lparr>ab_loading := True\<rparr>"

text \<open>Copying, with what the clipboard answers; the mark goes off with its timer.\<close>

definition copyUpdateCommand :: "bool \<Rightarrow> about_page \<Rightarrow> about_page \<times> about_notice list" where
  "copyUpdateCommand allowed p =
     (if ab_info p = None then (p, [])
      else if allowed then (p\<lparr>ab_copied := True\<rparr>, [CommandCopied]) else (p, [CopyRefused]))"

definition copied_timer :: "about_page \<Rightarrow> about_page" where
  "copied_timer p = p\<lparr>ab_copied := False\<rparr>"

section \<open>The update\<close>

definition verified :: "about_page \<Rightarrow> bool" where
  "verified p \<longleftrightarrow> (case ab_two_factor p of Some s \<Rightarrow> tfs_verified s | None \<Rightarrow> False)"

text \<open>The update button and the dialog it opens; a running update disables both.\<close>

definition open_update :: "about_page \<Rightarrow> about_page" where
  "open_update p =
     (if (case ab_info p of Some info \<Rightarrow> si_automatic_update info | None \<Rightarrow> False) \<and> \<not> ab_updating p \<and> verified p
      then p\<lparr>ab_confirming := True\<rparr> else p)"

definition cancel_update :: "about_page \<Rightarrow> about_page" where
  "cancel_update p = (if ab_updating p then p else p\<lparr>ab_confirming := False\<rparr>)"

text \<open>Whether the request to update is sent.\<close>

definition updateToLatest :: "about_page \<Rightarrow> (about_page \<times> about_notice list) \<times> http_call option" where
  "updateToLatest p =
     (if \<not> verified p then ((p, [VerifyFirst]), None)
      else ((p\<lparr>ab_updating := True\<rparr>, []), Some triggerSystemUpdate))"

text \<open>
  The wait: every two seconds the health is asked, at most 90 times. The answer to attempt \<open>i\<close> is
  \<open>health i\<close>; the result is the attempt at which the page is reloaded.
\<close>

function await_restart :: "(nat \<Rightarrow> bool) \<Rightarrow> nat \<Rightarrow> bool \<Rightarrow> nat option" where
  "await_restart health attempt observedRestart =
     (if attempt < 90 then
        (let healthy = health attempt; observed = (\<not> healthy \<or> observedRestart)
         in if healthy \<and> observed then Some attempt else await_restart health (attempt + 1) observed)
      else None)"
  by pat_completeness auto

termination by (relation "measure (\<lambda>(health, attempt, observed). 90 - attempt)") auto

declare await_restart.simps [simp del]

text \<open>The end of the handler; the flag says that the browser reloads the page.\<close>

definition update_done :: "unit outcome \<Rightarrow> (nat \<Rightarrow> bool) \<Rightarrow> about_page \<Rightarrow> about_page \<times> about_notice list \<times> bool" where
  "update_done answer health p =
     (case answer of
        Inl cause \<Rightarrow> (p\<lparr>ab_updating := False\<rparr>, [AboutFailed cause], False)
      | Inr _ \<Rightarrow>
          (case await_restart health 0 False of
             Some attempt \<Rightarrow> (p\<lparr>ab_confirming := False, ab_updating := False\<rparr>, [UpdateStarted], True)
           | None \<Rightarrow> (p\<lparr>ab_confirming := False, ab_updating := False\<rparr>, [UpdateStarted, UpdateTimeout], False)))"

section \<open>The two-factor check\<close>

text \<open>What the input keeps, and the code that is sent.\<close>

definition about_code :: "jstr \<Rightarrow> jstr" where
  "about_code typed = take 6 (filter is_digit typed)"

definition verifyTwoFactor_begin :: "about_page \<Rightarrow> (about_page \<times> about_notice list) \<times> http_call option" where
  "verifyTwoFactor_begin p =
     (let code = trim (ab_code p) in
      if \<not> (length code = 6 \<and> list_all is_digit code) then ((p, [CodeMalformed]), None)
      else ((p\<lparr>ab_verifying := True\<rparr>, []), Some (verifyTwoFactor code)))"

text \<open>The answers to the check and to the status read after it.\<close>

definition verifyTwoFactor_done ::
  "unit outcome \<Rightarrow> TwoFactorStatus outcome \<Rightarrow> about_page \<Rightarrow> about_page \<times> about_notice list" where
  "verifyTwoFactor_done answer status p =
     (case answer of
        Inl cause \<Rightarrow> (p\<lparr>ab_verifying := False\<rparr>, [AboutFailed cause])
      | Inr _ \<Rightarrow>
          (case status of
             Inl cause \<Rightarrow> (p\<lparr>ab_code := [], ab_verifying := False\<rparr>, [AboutFailed cause])
           | Inr s \<Rightarrow> (p\<lparr>ab_code := [], ab_two_factor := Some s, ab_verifying := False\<rparr>, [Verified])))"

section \<open>When the page is reloaded\<close>

text \<open>The statements over all attempts from \<open>n\<close> on, by induction on the attempts that are left.\<close>

lemma await_seen:
  "await_restart health n True = Some m \<longleftrightarrow> n \<le> m \<and> m < 90 \<and> health m \<and> (\<forall>j. n \<le> j \<and> j < m \<longrightarrow> \<not> health j)"
proof (induction "90 - n" arbitrary: n)
  case 0
  then show ?case by (auto simp: await_restart.simps[of health n])
next
  case (Suc k)
  have step: "await_restart health n True = (if health n then Some n else await_restart health (n + 1) True)"
    using Suc(2) by (subst await_restart.simps) (auto simp: Let_def)
  have IH: "await_restart health (n + 1) True = Some m \<longleftrightarrow>
      n + 1 \<le> m \<and> m < 90 \<and> health m \<and> (\<forall>j. n + 1 \<le> j \<and> j < m \<longrightarrow> \<not> health j)"
    by (rule Suc(1)) (use Suc(2) in simp)
  have from_n: "(\<forall>j. n \<le> j \<and> j < m \<longrightarrow> \<not> health j) \<longleftrightarrow>
      (n < m \<longrightarrow> \<not> health n) \<and> (\<forall>j. n + 1 \<le> j \<and> j < m \<longrightarrow> \<not> health j)"
    by (auto simp: Suc_le_eq dest: le_imp_less_or_eq)
  show ?case unfolding step from_n using IH Suc(2) by (auto simp: le_less)
qed

lemma await_fresh:
  "await_restart health n False = Some m \<longleftrightarrow>
     m < 90 \<and> health m \<and> (\<exists>i. n \<le> i \<and> i < m \<and> (\<forall>j. n \<le> j \<and> j < m \<longrightarrow> health j = (j < i)))"
proof (induction "90 - n" arbitrary: n)
  case 0
  then show ?case by (auto simp: await_restart.simps[of health n])
next
  case (Suc k)
  have IH: "await_restart health (n + 1) False = Some m \<longleftrightarrow>
      m < 90 \<and> health m \<and> (\<exists>i. n + 1 \<le> i \<and> i < m \<and> (\<forall>j. n + 1 \<le> j \<and> j < m \<longrightarrow> health j = (j < i)))"
    by (rule Suc(1)) (use Suc(2) in simp)
  have step: "await_restart health n False =
      (if health n then await_restart health (n + 1) False else await_restart health (n + 1) True)"
    using Suc(2) by (subst await_restart.simps) (auto simp: Let_def)
  have from_n: "(\<forall>j. n \<le> j \<and> j < m \<longrightarrow> P j) \<longleftrightarrow> (n < m \<longrightarrow> P n) \<and> (\<forall>j. n + 1 \<le> j \<and> j < m \<longrightarrow> P j)" for P
    by (auto simp: Suc_le_eq dest: le_imp_less_or_eq)
  show ?case
  proof (cases "health n")
    case True
    have "(n \<le> i \<and> i < m \<and> (\<forall>j. n \<le> j \<and> j < m \<longrightarrow> health j = (j < i))) \<longleftrightarrow>
        (n + 1 \<le> i \<and> i < m \<and> (\<forall>j. n + 1 \<le> j \<and> j < m \<longrightarrow> health j = (j < i)))" for i
      unfolding from_n using True by auto
    then have "(\<exists>i. n \<le> i \<and> i < m \<and> (\<forall>j. n \<le> j \<and> j < m \<longrightarrow> health j = (j < i))) \<longleftrightarrow>
        (\<exists>i. n + 1 \<le> i \<and> i < m \<and> (\<forall>j. n + 1 \<le> j \<and> j < m \<longrightarrow> health j = (j < i)))"
      by (simp only:)
    with True IH show ?thesis unfolding step by simp
  next
    case False
    have "(\<exists>i. n \<le> i \<and> i < m \<and> (\<forall>j. n \<le> j \<and> j < m \<longrightarrow> health j = (j < i))) \<longleftrightarrow>
        n < m \<and> (\<forall>j. n + 1 \<le> j \<and> j < m \<longrightarrow> \<not> health j)"
    proof
      assume "\<exists>i. n \<le> i \<and> i < m \<and> (\<forall>j. n \<le> j \<and> j < m \<longrightarrow> health j = (j < i))"
      then obtain i where i: "n \<le> i" "i < m" "\<forall>j. n \<le> j \<and> j < m \<longrightarrow> health j = (j < i)" by blast
      then have "\<not> n < i" using False by (metis le_refl less_trans)
      with i show "n < m \<and> (\<forall>j. n + 1 \<le> j \<and> j < m \<longrightarrow> \<not> health j)" by auto
    next
      assume "n < m \<and> (\<forall>j. n + 1 \<le> j \<and> j < m \<longrightarrow> \<not> health j)"
      then show "\<exists>i. n \<le> i \<and> i < m \<and> (\<forall>j. n \<le> j \<and> j < m \<longrightarrow> health j = (j < i))"
        using False by (intro exI[of _ n]) (auto simp: Suc_le_eq dest: le_imp_less_or_eq)
    qed
    with False show ?thesis unfolding step using await_seen[of health "n + 1" m] by auto
  qed
qed

text \<open>
  C21: The page is reloaded after an update exactly at the first attempt that finds the service
  ready after an outage: ready up to some attempt, then not ready at one attempt or more, then
  ready at attempt \<open>m\<close>, within the 90. A service that is ready at every attempt is taken for one
  that never restarted, and the wait ends in any case.
\<close>

theorem reload_after_outage:
  "await_restart health 0 False = Some m \<longleftrightarrow>
     m < 90 \<and> health m \<and> (\<exists>i<m. \<forall>j<m. health j = (j < i))"
  by (simp add: await_fresh)

lemma reload_after_outage_witness: "await_restart (\<lambda>i. i \<noteq> 1) 0 False = Some 2"
  unfolding reload_after_outage by (intro conjI exI[of _ 1]) auto

end
