(* ===== verification/Fleet.thy ===== *)
theory Fleet
  imports Tasks ApiCalls
begin

text \<open>
  The Cloudflare account group (web/src/components/cf-account-group.tsx): the status with its
  repairs of missing lists, the counts, adding and removing accounts, the sweep. One single mark
  says which operation is under way.
\<close>

section \<open>State\<close>

text \<open>The status as it arrives: both kinds of lists may be null.\<close>

record wire_account =
  wa_account :: FleetAccount
  wa_workers :: "FleetWorker list option"

record wire_status =
  ws_accounts :: "wire_account list option"
  ws_total_workers :: int
  ws_last_summary :: "FleetSummary option"

text \<open>What a handler does once its load has returned, and the requests in flight.\<close>

datatype load_next = LoadOnly | LoadThenSweep | LoadThenIdle

datatype fleet_task =
    FleetLoad load_next
  | FleetAdd AddFleetAccountRequest
  | FleetSweepAdded
  | FleetDelete jstr
  | FleetSweepNow

record fleet_panel =
  fl_status :: "FleetStatus option"
  fl_loading :: bool
  fl_expanded :: "jstr \<rightharpoonup> bool"
  fl_show_add :: bool
  fl_add_form :: AddFleetAccountRequest
  fl_busy :: "jstr option"
  fl_pending :: "fleet_task list"
  fl_timers :: nat

datatype fleet_notice =
    FleetFailed js_error | FieldsMissing | AccountAdded | AccountDeleted | SweepStarted

definition empty_account :: AddFleetAccountRequest where
  "empty_account = \<lparr>afa_email = [], afa_cf_account_id = [], afa_api_token = []\<rparr>"

definition initial_fleet :: fleet_panel where
  "initial_fleet = \<lparr>fl_status = None, fl_loading = True, fl_expanded = Map.empty, fl_show_add = False,
     fl_add_form = empty_account, fl_busy = None, fl_pending = [FleetLoad LoadOnly], fl_timers = 0\<rparr>"

definition begin_fleet :: "fleet_task \<Rightarrow> fleet_panel \<Rightarrow> fleet_panel" where
  "begin_fleet t p = p\<lparr>fl_pending := fl_pending p @ [t]\<rparr>"

section \<open>The status and its counts\<close>

datatype badge = ActiveBadge | BannedBadge | ErrorBadge | OtherBadge jstr

definition status_meta :: "jstr \<Rightarrow> badge" where
  "status_meta s =
     (if s = js ''active'' then ActiveBadge else if s = js ''banned'' then BannedBadge
      else if s = js ''error'' then ErrorBadge else OtherBadge s)"

definition normalize_account :: "wire_account \<Rightarrow> FleetAccount" where
  "normalize_account a = (wa_account a)\<lparr>fa_workers := or_default (wa_workers a) []\<rparr>"

definition normalize_status :: "wire_status \<Rightarrow> FleetStatus" where
  "normalize_status s = \<lparr>fst_accounts = map normalize_account (or_default (ws_accounts s) []),
     fst_total_workers = ws_total_workers s, fst_last_summary = ws_last_summary s\<rparr>"

definition fleet_accounts :: "fleet_panel \<Rightarrow> FleetAccount list" where
  "fleet_accounts p = (case fl_status p of Some s \<Rightarrow> fst_accounts s | None \<Rightarrow> [])"

definition activeAccounts :: "fleet_panel \<Rightarrow> nat" where
  "activeAccounts p = length (filter (\<lambda>a. fa_status a = js ''active'') (fleet_accounts p))"

definition totalWorkers :: "fleet_panel \<Rightarrow> int" where
  "totalWorkers p = (case fl_status p of Some s \<Rightarrow> fst_total_workers s | None \<Rightarrow> 0)"

definition healthy_of :: "FleetAccount \<Rightarrow> nat" where
  "healthy_of a = length (filter (\<lambda>w. fw_failures w = 0) (fa_workers a))"

definition healthyWorkers :: "fleet_panel \<Rightarrow> nat" where
  "healthyWorkers p = foldl (\<lambda>acc a. acc + healthy_of a) 0 (fleet_accounts p)"

definition toggle_account :: "jstr \<Rightarrow> fleet_panel \<Rightarrow> fleet_panel" where
  "toggle_account i p = p\<lparr>fl_expanded := (fl_expanded p)(i \<mapsto> \<not> (fl_expanded p i = Some True))\<rparr>"

section \<open>Operations\<close>

text \<open>A load; it does not show the loading state again.\<close>

definition load_fleet :: "load_next \<Rightarrow> fleet_panel \<Rightarrow> fleet_panel" where
  "load_fleet next_step p = begin_fleet (FleetLoad next_step) p"

definition load_fleet_done :: "load_next \<Rightarrow> wire_status outcome \<Rightarrow> fleet_panel \<Rightarrow> fleet_panel \<times> fleet_notice list" where
  "load_fleet_done next_step answer p =
     (let (q, notices) =
        (case answer of
           Inr s \<Rightarrow> (p\<lparr>fl_status := Some (normalize_status s), fl_loading := False\<rparr>, [])
         | Inl cause \<Rightarrow> (p\<lparr>fl_loading := False\<rparr>, [FleetFailed cause]))
      in ((case next_step of
             LoadOnly \<Rightarrow> q
           | LoadThenSweep \<Rightarrow> begin_fleet FleetSweepAdded q
           | LoadThenIdle \<Rightarrow> q\<lparr>fl_busy := None\<rparr>), notices))"

definition form_filled :: "AddFleetAccountRequest \<Rightarrow> bool" where
  "form_filled f \<longleftrightarrow> trim (afa_email f) \<noteq> [] \<and> trim (afa_cf_account_id f) \<noteq> [] \<and> trim (afa_api_token f) \<noteq> []"

definition handleAdd :: "fleet_panel \<Rightarrow> fleet_panel \<times> fleet_notice list" where
  "handleAdd p =
     (if \<not> form_filled (fl_add_form p) then (p, [FieldsMissing])
      else (begin_fleet (FleetAdd (fl_add_form p)) (p\<lparr>fl_busy := Some (js ''add'')\<rparr>), []))"

definition handleAdd_done :: "unit outcome \<Rightarrow> fleet_panel \<Rightarrow> fleet_panel \<times> fleet_notice list" where
  "handleAdd_done answer p =
     (case answer of
        Inr _ \<Rightarrow> (load_fleet LoadThenSweep (p\<lparr>fl_show_add := False, fl_add_form := empty_account\<rparr>), [AccountAdded])
      | Inl cause \<Rightarrow> (p\<lparr>fl_busy := None\<rparr>, [FleetFailed cause]))"

text \<open>The sweep that follows an addition has a timer of 3 seconds but no notice, the other one of 4 seconds.\<close>

definition sweep_added_done :: "unit outcome \<Rightarrow> fleet_panel \<Rightarrow> fleet_panel \<times> fleet_notice list" where
  "sweep_added_done answer p =
     (case answer of
        Inr _ \<Rightarrow> (p\<lparr>fl_timers := Suc (fl_timers p), fl_busy := None\<rparr>, [])
      | Inl cause \<Rightarrow> (p\<lparr>fl_busy := None\<rparr>, [FleetFailed cause]))"

definition delete_key :: "jstr \<Rightarrow> jstr" where
  "delete_key i = js ''del-'' @ i"

definition handleDelete :: "bool \<Rightarrow> FleetAccount \<Rightarrow> fleet_panel \<Rightarrow> fleet_panel" where
  "handleDelete confirmed account p =
     (if \<not> confirmed then p
      else begin_fleet (FleetDelete (fa_id account)) (p\<lparr>fl_busy := Some (delete_key (fa_id account))\<rparr>))"

definition handleDelete_done :: "unit outcome \<Rightarrow> fleet_panel \<Rightarrow> fleet_panel \<times> fleet_notice list" where
  "handleDelete_done answer p =
     (case answer of
        Inr _ \<Rightarrow> (load_fleet LoadThenIdle p, [AccountDeleted])
      | Inl cause \<Rightarrow> (p\<lparr>fl_busy := None\<rparr>, [FleetFailed cause]))"

definition handleSweep :: "fleet_panel \<Rightarrow> fleet_panel" where
  "handleSweep p = begin_fleet FleetSweepNow (p\<lparr>fl_busy := Some (js ''sweep'')\<rparr>)"

definition handleSweep_done :: "unit outcome \<Rightarrow> fleet_panel \<Rightarrow> fleet_panel \<times> fleet_notice list" where
  "handleSweep_done answer p =
     (case answer of
        Inr _ \<Rightarrow> (p\<lparr>fl_timers := Suc (fl_timers p), fl_busy := None\<rparr>, [SweepStarted])
      | Inl cause \<Rightarrow> (p\<lparr>fl_busy := None\<rparr>, [FleetFailed cause]))"

definition fleet_timer :: "fleet_panel \<Rightarrow> fleet_panel" where
  "fleet_timer p = (if fl_timers p = 0 then p else load_fleet LoadOnly (p\<lparr>fl_timers := fl_timers p - 1\<rparr>))"

section \<open>Events\<close>

datatype fleet_event =
    SweepClicked | AddOpened | AddClosed | FormTyped AddFleetAccountRequest | AddClicked
  | AccountToggled jstr | AccountDelete bool FleetAccount | TimerFired
  | FleetLoaded nat "wire_status outcome" | FleetAnswered nat "unit outcome"

text \<open>
  The cancel and the add button are disabled while an addition is busy; the sweep and the delete
  buttons never are. A click beside the dialog always closes it.
\<close>

definition take_task :: "nat \<Rightarrow> fleet_panel \<Rightarrow> fleet_panel" where
  "take_task n p = p\<lparr>fl_pending := remove_at n (fl_pending p)\<rparr>"

fun fleet_step :: "fleet_panel \<Rightarrow> fleet_event \<Rightarrow> fleet_panel \<times> fleet_notice list" where
  "fleet_step p SweepClicked = (handleSweep p, [])"
| "fleet_step p AddOpened = (p\<lparr>fl_show_add := True\<rparr>, [])"
| "fleet_step p AddClosed = (p\<lparr>fl_show_add := False\<rparr>, [])"
| "fleet_step p (FormTyped f) = (if fl_show_add p then (p\<lparr>fl_add_form := f\<rparr>, []) else (p, []))"
| "fleet_step p AddClicked =
     (if \<not> fl_show_add p \<or> fl_busy p = Some (js ''add'') then (p, []) else handleAdd p)"
| "fleet_step p (AccountToggled i) = (toggle_account i p, [])"
| "fleet_step p (AccountDelete confirmed account) =
     (if account \<in> set (fleet_accounts p) \<and> \<not> fl_loading p then (handleDelete confirmed account p, []) else (p, []))"
| "fleet_step p TimerFired = (fleet_timer p, [])"
| "fleet_step p (FleetLoaded n a) =
     (if n < length (fl_pending p)
      then (case fl_pending p ! n of FleetLoad next_step \<Rightarrow> load_fleet_done next_step a (take_task n p) | _ \<Rightarrow> (p, []))
      else (p, []))"
| "fleet_step p (FleetAnswered n a) =
     (if n < length (fl_pending p)
      then (case fl_pending p ! n of
              FleetLoad next_step \<Rightarrow> (p, [])
            | FleetAdd f \<Rightarrow> handleAdd_done a (take_task n p)
            | FleetSweepAdded \<Rightarrow> sweep_added_done a (take_task n p)
            | FleetDelete i \<Rightarrow> handleDelete_done a (take_task n p)
            | FleetSweepNow \<Rightarrow> handleSweep_done a (take_task n p))
      else (p, []))"

definition run_fleet :: "fleet_panel \<Rightarrow> fleet_event list \<Rightarrow> fleet_panel" where
  "run_fleet p events = foldl (\<lambda>p e. fst (fleet_step p e)) p events"

section \<open>What the panel guarantees, and what it does not\<close>

text \<open>Every request to add an account was checked, and is the form as it was typed.\<close>

definition adds_filled :: "fleet_panel \<Rightarrow> bool" where
  "adds_filled p \<longleftrightarrow> (\<forall>f. FleetAdd f \<in> set (fl_pending p) \<longrightarrow> form_filled f)"

lemma set_remove_at: "set (remove_at n xs) \<subseteq> set xs"
  by (auto simp: remove_at_def dest: in_set_takeD in_set_dropD)

lemmas fleet_defs = handleSweep_def handleAdd_def handleDelete_def toggle_account_def fleet_timer_def load_fleet_def
  load_fleet_done_def handleAdd_done_def sweep_added_done_def handleDelete_done_def handleSweep_done_def Let_def

lemma adds_filled_step: "adds_filled p \<Longrightarrow> adds_filled (fst (fleet_step p e))"
  by (cases e)
    (auto simp: fleet_defs adds_filled_def begin_fleet_def take_task_def
      split: option.splits sum.splits fleet_task.splits load_next.splits dest: subsetD[OF set_remove_at])

text \<open>
  The mark of an operation that is still running can go out. The panel has one mark for all its
  operations, and neither the delete nor the sweep buttons wait for it: with two removals under
  way, the end of the first clears the mark of the second, which is still in flight.
\<close>

theorem mark_cleared_early:
  "(let p = run_fleet
       (initial_fleet\<lparr>fl_status := Some \<lparr>fst_accounts = [a, b], fst_total_workers = n, fst_last_summary = None\<rparr>,
          fl_loading := False, fl_pending := []\<rparr>)
       [AccountDelete True a, AccountDelete True b, FleetAnswered 0 (Inr ()), FleetLoaded 1 answer]
    in fl_busy p = None \<and> fl_pending p = [FleetDelete (fa_id b)])"
  by (auto simp: run_fleet_def initial_fleet_def fleet_accounts_def fleet_defs begin_fleet_def take_task_def
      remove_at_def split: sum.splits)

end
