(* ===== verification/Glob.thy ===== *)
theory Glob
  imports Prelude
begin

text \<open>
  Glob patterns of the note tooling (.agents/skills/hx-agent-notes/scripts/notes-lib.ts): their
  translation to a regular expression (\<open>globToRegExp\<close>), the match (\<open>matchesAny\<close>) and the sample path
  (\<open>samplePath\<close>). The expression is the list of its pieces between \<open>^\<close> and \<open>$\<close>; a character that the
  code escapes or copies is a literal piece. The matching of the pieces is that of JavaScript
  without flags: \<open>.\<close> stands for any code unit but a line terminator.
\<close>

section \<open>From a glob to an expression\<close>

definition backslash :: nat where "backslash = 0x5C"
definition star :: nat where "star = 0x2A"
definition question :: nat where "question = 0x3F"

definition toPosix :: "jstr \<Rightarrow> jstr" where
  "toPosix v = join [slash] (split_on backslash v)"

text \<open>\<open>(?:.*/)?\<close>, \<open>.*/\<close> (only inside the former), \<open>.*\<close>, \<open>[^/]*\<close>, \<open>[^/]\<close> and a literal.\<close>

datatype piece = OptDirs | Dirs | AnyText | Segment | OneUnit | Lit nat

fun compile :: "jstr \<Rightarrow> piece list" where
  "compile [] = []"
| "compile [c] = [if c = star then Segment else if c = question then OneUnit else Lit c]"
| "compile [c, d] =
     (if c = star \<and> d = star then [AnyText]
      else (if c = star then Segment else if c = question then OneUnit else Lit c) # compile [d])"
| "compile (c # d # e # s) =
     (if c = star \<and> d = star
      then if e = slash then OptDirs # compile s else AnyText # compile (e # s)
      else (if c = star then Segment else if c = question then OneUnit else Lit c) # compile (d # e # s))"

definition globToRegExp :: "jstr \<Rightarrow> piece list" where
  "globToRegExp glob = compile (toPosix glob)"

text \<open>The characters that end a line, which \<open>.\<close> does not match.\<close>

definition line_end :: "nat \<Rightarrow> bool" where
  "line_end u \<longleftrightarrow> u \<in> {0x0A, 0x0D, 0x2028, 0x2029}"

definition weight :: "piece \<Rightarrow> nat" where
  "weight p = (if p = OptDirs then 2 else 1)"

text \<open>Whether the whole text matches, with every way to divide it tried.\<close>

function (sequential) matches :: "piece list \<Rightarrow> jstr \<Rightarrow> bool" where
  "matches [] s = (s = [])"
| "matches (Lit c # ps) s = (case s of u # t \<Rightarrow> u = c \<and> matches ps t | [] \<Rightarrow> False)"
| "matches (OneUnit # ps) s = (case s of u # t \<Rightarrow> u \<noteq> slash \<and> matches ps t | [] \<Rightarrow> False)"
| "matches (Segment # ps) s =
     (matches ps s \<or> (case s of u # t \<Rightarrow> u \<noteq> slash \<and> matches (Segment # ps) t | [] \<Rightarrow> False))"
| "matches (AnyText # ps) s =
     (matches ps s \<or> (case s of u # t \<Rightarrow> \<not> line_end u \<and> matches (AnyText # ps) t | [] \<Rightarrow> False))"
| "matches (Dirs # ps) s =
     (case s of u # t \<Rightarrow> (u = slash \<and> matches ps t) \<or> (\<not> line_end u \<and> matches (Dirs # ps) t) | [] \<Rightarrow> False)"
| "matches (OptDirs # ps) s = (matches (Dirs # ps) s \<or> matches ps s)"
  by pat_completeness auto

termination by (relation "measures [\<lambda>(ps, s). sum_list (map weight ps), \<lambda>(ps, s). length s]") (auto simp: weight_def)

definition matchesAny :: "jstr \<Rightarrow> jstr list \<Rightarrow> bool" where
  "matchesAny path globs \<longleftrightarrow> list_ex (\<lambda>glob. matches (globToRegExp glob) (toPosix path)) globs"

text \<open>The three replacements in a row: \<open>**\<close>, then \<open>*\<close>, then \<open>?\<close>, each by \<open>x\<close>.\<close>

fun replace_stars :: "jstr \<Rightarrow> jstr" where
  "replace_stars (c # d # s) = (if c = star \<and> d = star then 0x78 # replace_stars s else c # replace_stars (d # s))"
| "replace_stars s = s"

definition samplePath :: "jstr \<Rightarrow> jstr" where
  "samplePath glob =
     map (\<lambda>u. if u = question then 0x78 else u) (map (\<lambda>u. if u = star then 0x78 else u) (replace_stars glob))"

section \<open>The meaning of a glob\<close>

text \<open>
  The reference works on segments: within one, \<open>*\<close> is any text and \<open>?\<close> any character; a segment \<open>**\<close>
  is any number of segments, at the end at least one (which may be empty).
\<close>

fun seg_match :: "jstr \<Rightarrow> jstr \<Rightarrow> bool" where
  "seg_match [] s = (s = [])"
| "seg_match (c # p) [] = (c = star \<and> seg_match p [])"
| "seg_match (c # p) (u # t) =
     (if c = star then seg_match p (u # t) \<or> seg_match (c # p) t
      else if c = question then seg_match p t
      else u = c \<and> seg_match p t)"

fun glob_match :: "jstr list \<Rightarrow> jstr list \<Rightarrow> bool" where
  "glob_match [] ss = (ss = [])"
| "glob_match [p] ss = (if p = [star, star] then ss \<noteq> [] else (\<exists>s. ss = [s] \<and> seg_match p s))"
| "glob_match (p # q # ps) [] = False"
| "glob_match (p # q # ps) (s # ss) =
     (if p = [star, star] then glob_match (q # ps) (s # ss) \<or> glob_match (p # q # ps) ss
      else seg_match p s \<and> glob_match (q # ps) ss)"

text \<open>A plain segment has no two stars in a row; a pattern has plain segments and \<open>**\<close>.\<close>

definition plain :: "jstr \<Rightarrow> bool" where
  "plain p \<longleftrightarrow> slash \<notin> set p \<and> \<not> str_includes p [star, star]"

definition globs_plain :: "jstr list \<Rightarrow> bool" where
  "globs_plain ps \<longleftrightarrow> list_all (\<lambda>p. p = [star, star] \<or> plain p) ps"

section \<open>The pieces of a pattern\<close>

definition seg_pieces :: "jstr \<Rightarrow> piece list" where
  "seg_pieces p = map (\<lambda>c. if c = star then Segment else if c = question then OneUnit else Lit c) p"

lemma plain_Cons: "plain (c # p) \<Longrightarrow> plain p"
  by (simp add: plain_def)

lemma plain_stars: "plain (c # d # p) \<Longrightarrow> \<not> (c = star \<and> d = star)"
  by (auto simp: plain_def)

lemma slash_not_star [simp]: "slash \<noteq> star" "star \<noteq> slash" "slash \<noteq> question" "question \<noteq> slash"
  by (simp_all add: slash_def star_def question_def)

lemma compile_plain: "plain p \<Longrightarrow> compile p = seg_pieces p"
proof (induction p rule: compile.induct)
  case (3 c d)
  then show ?case using plain_stars[of c d "[]"] plain_Cons[of c "[d]"] by (simp add: seg_pieces_def)
next
  case (4 c d e s)
  then show ?case using plain_stars[of c d "e # s"] plain_Cons[of c "d # e # s"] by (auto simp: seg_pieces_def)
qed (simp_all add: seg_pieces_def)

lemma compile_Cons:
  "\<not> (c = star \<and> (\<exists>t. s = star # t)) \<Longrightarrow>
     compile (c # s) = (if c = star then Segment else if c = question then OneUnit else Lit c) # compile s"
  by (cases "(c # s, ())" rule: prod.exhaust) (cases s; cases "tl s"; auto)

lemma compile_segment: "plain p \<Longrightarrow> compile (p @ slash # s) = seg_pieces p @ Lit slash # compile s"
proof (induction p)
  case Nil
  then show ?case by (simp add: seg_pieces_def compile_Cons)
next
  case (Cons c p)
  have "\<not> (c = star \<and> (\<exists>t. p @ slash # s = star # t))"
    using plain_stars[of c] Cons.prems by (cases p) auto
  then show ?case using Cons plain_Cons by (simp add: compile_Cons seg_pieces_def)
qed

lemma compile_dirs: "compile (star # star # slash # s) = OptDirs # compile s"
  by simp

section \<open>What the pieces match\<close>

lemma matches_segment:
  "slash \<notin> set p \<Longrightarrow>
     matches (seg_pieces p @ ps) s \<longleftrightarrow> (\<exists>a b. s = a @ b \<and> slash \<notin> set a \<and> seg_match p a \<and> matches ps b)"
proof (induction p arbitrary: s)
  case Nil
  then show ?case by (auto simp: seg_pieces_def)
next
  case (Cons c p)
  have pieces: "seg_pieces (c # p) = (if c = star then Segment else if c = question then OneUnit else Lit c) # seg_pieces p"
    by (simp add: seg_pieces_def)
  have p: "slash \<notin> set p" and c: "c \<noteq> slash" using Cons.prems by auto
  note IH = Cons.IH[OF p]
  show ?case
  proof (cases "c = star")
    case True
    have "matches (Segment # seg_pieces p @ ps) s \<longleftrightarrow>
        (\<exists>a b. s = a @ b \<and> slash \<notin> set a \<and> seg_match (star # p) a \<and> matches ps b)"
    proof (induction s)
      case Nil
      then show ?case using IH[of "[]"] by auto
    next
      case (Cons u t)
      have "(\<exists>a b. u # t = a @ b \<and> slash \<notin> set a \<and> seg_match (star # p) a \<and> matches ps b) \<longleftrightarrow>
          (\<exists>a b. u # t = a @ b \<and> slash \<notin> set a \<and> seg_match p a \<and> matches ps b) \<or>
          (u \<noteq> slash \<and> (\<exists>a b. t = a @ b \<and> slash \<notin> set a \<and> seg_match (star # p) a \<and> matches ps b))"
        (is "?L \<longleftrightarrow> ?A \<or> ?B")
      proof
        assume ?L
        then obtain a b where ab: "u # t = a @ b" "slash \<notin> set a" "seg_match (star # p) a" "matches ps b" by blast
        show "?A \<or> ?B"
        proof (cases a)
          case Nil
          with ab have ?A by (intro exI[of _ "[]"] exI[of _ b]) simp
          then show ?thesis ..
        next
          case (Cons v a')
          with ab have "seg_match p a \<or> seg_match (star # p) a'" "t = a' @ b" "u = v" "u \<noteq> slash" "slash \<notin> set a'"
            by auto
          with ab show ?thesis by blast
        qed
      next
        assume "?A \<or> ?B"
        then show ?L
        proof
          assume ?A
          then obtain a b where ab: "u # t = a @ b" "slash \<notin> set a" "seg_match p a" "matches ps b" by blast
          then have "seg_match (star # p) a" by (cases a) auto
          with ab show ?L by blast
        next
          assume ?B
          then obtain a b where ab: "u \<noteq> slash" "t = a @ b" "slash \<notin> set a" "seg_match (star # p) a" "matches ps b" by blast
          then show ?L by (intro exI[of _ "u # a"] exI[of _ b]) auto
        qed
      qed
      then show ?case using Cons.IH IH[of "u # t"] by simp
    qed
    then show ?thesis using True pieces by simp
  next
    case False
    show ?thesis
    proof (cases s)
      case Nil
      then show ?thesis using False pieces by auto
    next
      case (Cons u t)
      have "(\<exists>a b. u # t = a @ b \<and> slash \<notin> set a \<and> seg_match (c # p) a \<and> matches ps b) \<longleftrightarrow>
          u \<noteq> slash \<and> (c = question \<or> u = c) \<and> (\<exists>a b. t = a @ b \<and> slash \<notin> set a \<and> seg_match p a \<and> matches ps b)"
        (is "?L \<longleftrightarrow> ?R")
      proof
        assume ?L
        then obtain a b where ab: "u # t = a @ b" "slash \<notin> set a" "seg_match (c # p) a" "matches ps b" by blast
        then show ?R using False by (cases a) (auto split: if_splits)
      next
        assume ?R
        then obtain a b where ab: "u \<noteq> slash" "c = question \<or> u = c" "t = a @ b" "slash \<notin> set a" "seg_match p a" "matches ps b"
          by blast
        then show ?L using False by (intro exI[of _ "u # a"] exI[of _ b]) auto
      qed
      then show ?thesis using False Cons c IH[of t] pieces by auto
    qed
  qed
qed

lemma matches_dirs_segment:
  assumes "slash \<notin> set s" "list_all (\<lambda>u. \<not> line_end u) s"
  shows "matches (Dirs # ps) (s @ slash # r) \<longleftrightarrow> matches ps r \<or> matches (Dirs # ps) r"
    and "\<not> matches (Dirs # ps) s"
proof -
  have "\<not> line_end slash" by (simp add: line_end_def slash_def)
  then show "matches (Dirs # ps) (s @ slash # r) \<longleftrightarrow> matches ps r \<or> matches (Dirs # ps) r"
    using assms by (induction s) auto
  show "\<not> matches (Dirs # ps) s" using assms by (induction s) auto
qed

lemma matches_any: "list_all (\<lambda>u. \<not> line_end u) s \<Longrightarrow> matches [AnyText] s"
  by (induction s) auto

definition path_segments_ok :: "jstr list \<Rightarrow> bool" where
  "path_segments_ok ss \<longleftrightarrow> list_all (\<lambda>s. slash \<notin> set s \<and> list_all (\<lambda>u. \<not> line_end u) s) ss"

lemma join_line_free: "path_segments_ok ss \<Longrightarrow> list_all (\<lambda>u. \<not> line_end u) (join [slash] ss)"
  by (induction "[slash]" ss rule: join.induct)
    (auto simp: path_segments_ok_def line_end_def slash_def)

lemma join_slash_free: "slash \<notin> set (join [slash] ss) \<longleftrightarrow> (case ss of [] \<Rightarrow> True | [s] \<Rightarrow> slash \<notin> set s | _ \<Rightarrow> False)"
  by (induction "[slash]" ss rule: join.induct) auto

lemma first_slash:
  "slash \<notin> set a \<Longrightarrow> slash \<notin> set s \<Longrightarrow> s @ slash # t = a @ slash # r \<longleftrightarrow> a = s \<and> r = t"
proof (induction s arbitrary: a)
  case Nil
  then show ?case by (cases a) auto
next
  case (Cons u s)
  then show ?case by (cases a) auto
qed

text \<open>A plain segment followed by others takes exactly the first segment of the path.\<close>

lemma matches_first:
  assumes "plain p" "slash \<notin> set s"
  shows "matches (seg_pieces p @ Lit slash # ps) (join [slash] (s # ss)) \<longleftrightarrow>
     ss \<noteq> [] \<and> seg_match p s \<and> matches ps (join [slash] ss)"
proof -
  have p: "slash \<notin> set p" using assms(1) by (simp add: plain_def)
  have lit: "matches (Lit slash # ps) b \<longleftrightarrow> (\<exists>r. b = slash # r \<and> matches ps r)" for b
    by (cases b) auto
  have "matches (seg_pieces p @ Lit slash # ps) (join [slash] (s # ss)) \<longleftrightarrow>
      (\<exists>a r. join [slash] (s # ss) = a @ slash # r \<and> slash \<notin> set a \<and> seg_match p a \<and> matches ps r)"
    unfolding matches_segment[OF p] lit by blast
  also have "\<dots> \<longleftrightarrow> ss \<noteq> [] \<and> seg_match p s \<and> matches ps (join [slash] ss)"
  proof (cases ss)
    case Nil
    then show ?thesis using assms(2) by auto
  next
    case (Cons s' ss')
    have "s @ slash # join [slash] ss = a @ slash # r \<longleftrightarrow> a = s \<and> r = join [slash] ss" if "slash \<notin> set a" for a r
      using first_slash[OF that assms(2)] by simp
    moreover have "join [slash] (s # ss) = s @ slash # join [slash] ss" using Cons by simp
    ultimately have "(join [slash] (s # ss) = a @ slash # r \<and> slash \<notin> set a) \<longleftrightarrow> (a = s \<and> r = join [slash] ss)" for a r
      using assms(2) by auto
    then show ?thesis using Cons by (metis list.distinct(1))
  qed
  finally show ?thesis .
qed

lemma compiled_matches:
  "globs_plain ps \<Longrightarrow> ps \<noteq> [] \<Longrightarrow> path_segments_ok ss \<Longrightarrow> ss \<noteq> [] \<Longrightarrow>
     matches (compile (join [slash] ps)) (join [slash] ss) \<longleftrightarrow> glob_match ps ss"
proof (induction ps ss rule: glob_match.induct)
  case (2 p ss)
  show ?case
  proof (cases "p = [star, star]")
    case True
    then show ?thesis using matches_any[OF join_line_free] "2.prems" by simp
  next
    case False
    then have plain: "plain p" "slash \<notin> set p" using "2.prems" by (auto simp: globs_plain_def plain_def)
    have "matches (compile p) (join [slash] ss) \<longleftrightarrow> slash \<notin> set (join [slash] ss) \<and> seg_match p (join [slash] ss)"
      using matches_segment[OF plain(2), of "[]" "join [slash] ss"] by (simp add: compile_plain[OF plain(1)])
    also have "\<dots> \<longleftrightarrow> (\<exists>s. ss = [s] \<and> seg_match p s)"
      unfolding join_slash_free using "2.prems"
      by (auto simp: path_segments_ok_def split: list.splits)
    finally show ?thesis using False by simp
  qed
next
  case (4 p q ps s ss)
  have rest: "globs_plain (q # ps)" "path_segments_ok ss" and s: "slash \<notin> set s" "list_all (\<lambda>u. \<not> line_end u) s"
    using "4.prems" by (auto simp: globs_plain_def path_segments_ok_def)
  have none: "\<not> glob_match (q # ps) []" by (cases ps) auto
  show ?case
  proof (cases "p = [star, star]")
    case True
    let ?C = "compile (join [slash] (q # ps))"
    have here: "matches ?C (join [slash] (s # ss)) \<longleftrightarrow> glob_match (q # ps) (s # ss)"
      using "4.IH"(1)[OF True] rest "4.prems" by simp
    have later: "matches (Dirs # ?C) (join [slash] (s # ss)) \<longleftrightarrow> glob_match (p # q # ps) ss"
    proof (cases ss)
      case Nil
      then show ?thesis using matches_dirs_segment(2)[OF s] by simp
    next
      case (Cons s' ss')
      have "matches (compile (join [slash] (p # q # ps))) (join [slash] ss) \<longleftrightarrow> glob_match (p # q # ps) ss"
        using "4.IH"(2)[OF True] rest "4.prems"(1,2) Cons by simp
      then show ?thesis using matches_dirs_segment(1)[OF s] True Cons by auto
    qed
    show ?thesis using here later True by auto
  next
    case False
    then have plain: "plain p" using "4.prems" by (auto simp: globs_plain_def)
    have "matches (compile (join [slash] (p # q # ps))) (join [slash] (s # ss)) \<longleftrightarrow>
        ss \<noteq> [] \<and> seg_match p s \<and> matches (compile (join [slash] (q # ps))) (join [slash] ss)"
      using matches_first[OF plain s(1)] compile_segment[OF plain] by simp
    then show ?thesis using "4.IH"(3)[OF False] rest none False by (cases "ss = []") auto
  qed
qed simp_all

lemma toPosix_map: "toPosix s = map (\<lambda>u. if u = backslash then slash else u) s"
  unfolding toPosix_def
proof (induction s)
  case (Cons u s)
  have front: "join [slash] ((u # p) # ps) = u # join [slash] (p # ps)" for p ps
    by (cases ps) auto
  obtain p ps where "split_on backslash s = p # ps" by (cases "split_on backslash s") auto
  then show ?case using Cons front by (simp add: join_Cons_not_Nil)
qed simp

lemma toPosix_line_free: "list_all (\<lambda>u. \<not> line_end u) s \<Longrightarrow> list_all (\<lambda>u. \<not> line_end u) (toPosix s)"
proof -
  have "\<not> line_end slash" by (simp add: line_end_def slash_def)
  then show "list_all (\<lambda>u. \<not> line_end u) s \<Longrightarrow> ?thesis" unfolding toPosix_map by (induction s) auto
qed

lemma set_split_part: "p \<in> set (split_on c s) \<Longrightarrow> set p \<subseteq> set s"
proof (induction s arbitrary: p)
  case (Cons u s)
  obtain q qs where q: "split_on c s = q # qs" by (cases "split_on c s") auto
  with Cons.IH[of q] Cons.IH[of p] Cons.prems show ?case by (auto split: if_splits)
qed simp

lemma split_ok: "list_all (\<lambda>u. \<not> line_end u) s \<Longrightarrow> path_segments_ok (split_on slash s)"
  by (auto simp: path_segments_ok_def list_all_iff dest: split_on_parts subsetD[OF set_split_part])

text \<open>
  C35: The translated expression means what the glob means. For patterns in which \<open>**\<close> is only used
  as a whole segment, and paths without line terminators, a path matches one of the globs exactly
  when it does so segment by segment: \<open>*\<close> and \<open>?\<close> stay inside a segment, \<open>**\<close> stands for any number
  of segments, every other character for itself.
\<close>

theorem globs_by_segments:
  assumes "list_all (\<lambda>glob. globs_plain (split_on slash (toPosix glob))) globs"
    and "list_all (\<lambda>u. \<not> line_end u) path"
  shows "matchesAny path globs \<longleftrightarrow>
    list_ex (\<lambda>glob. glob_match (split_on slash (toPosix glob)) (split_on slash (toPosix path))) globs"
proof -
  have "matches (globToRegExp glob) (toPosix path) \<longleftrightarrow>
      glob_match (split_on slash (toPosix glob)) (split_on slash (toPosix path))" if "glob \<in> set globs" for glob
    using compiled_matches[of "split_on slash (toPosix glob)" "split_on slash (toPosix path)"] that assms
      split_ok[OF toPosix_line_free[OF assms(2)]]
    by (simp add: globToRegExp_def join_split_on list_all_iff)
  then show ?thesis by (auto simp: matchesAny_def list_ex_iff)
qed

lemma globs_by_segments_witness:
  "matchesAny (js ''src/a/b.ts'') [js ''lib/*'', js ''src/**/?.ts'']"
proof -
  have "list_all (\<lambda>glob. globs_plain (split_on slash (toPosix glob))) [js ''lib/*'', js ''src/**/?.ts'']"
    by (simp add: js_eval toPosix_def backslash_def slash_def globs_plain_def plain_def star_def)
  moreover have "list_all (\<lambda>u. \<not> line_end u) (js ''src/a/b.ts'')"
    by (simp add: js_eval line_end_def)
  ultimately show ?thesis
    by (subst globs_by_segments)
      (simp_all add: js_eval toPosix_def backslash_def slash_def star_def question_def)
qed

end
