(* ===== verification/NotesLib.thy ===== *)
theory NotesLib
  imports Glob
begin

text \<open>
  The shared module of the note tooling (.agents/skills/hx-agent-notes/scripts/notes-lib.ts): its
  configuration, the file tree it walks, the notes it finds, links in markdown and command lines.
  A directory is the list of its entries in the order in which they are read; what is neither a
  file nor a directory is \<open>Other\<close>. Messages are constructors.
\<close>

section \<open>Configuration\<close>

record CoverageConfig =
  cov_enabled :: bool
  cov_guarded :: "jstr list"
  cov_exempt :: "jstr list"
  cov_label :: jstr

record BacklinkConfig =
  bl_enabled :: bool
  bl_required :: bool
  bl_roots :: "jstr list"
  bl_exclude :: "jstr list"
  bl_extensions :: "jstr list"

record NotesConfig =
  nc_root :: jstr
  nc_archive :: jstr
  nc_lifecycles :: "jstr list"
  nc_classes :: "jstr list"
  nc_rootAllowlist :: "jstr list"
  nc_translationSuffixes :: "jstr list"
  nc_formatAdopted :: jstr
  nc_proseBannedPhrases :: "jstr list"
  nc_coverage :: CoverageConfig
  nc_backlinks :: BacklinkConfig

definition DEFAULT_LIFECYCLES :: "jstr list" where
  "DEFAULT_LIFECYCLES = map js [''proposed'', ''implemented'', ''rejected'']"

definition DEFAULT_CLASSES :: "jstr list" where
  "DEFAULT_CLASSES = map js [''feature'', ''bug-fix'', ''simplification'', ''architecture'', ''process'', ''testing'']"

definition DEFAULT_CONFIG :: NotesConfig where
  "DEFAULT_CONFIG = \<lparr>
     nc_root = js ''.agents/notes'',
     nc_archive = js ''archived'',
     nc_lifecycles = DEFAULT_LIFECYCLES,
     nc_classes = DEFAULT_CLASSES,
     nc_rootAllowlist = map js [''AGENTS.md'', ''CLAUDE.md'', ''NOTE-EXEMPT.md'', ''README.md'', ''README.zh.md'', ''README.i18n.yaml''],
     nc_translationSuffixes = map js [''.zh.md''],
     nc_formatAdopted = js ''2026-07-05'',
     nc_proseBannedPhrases = [],
     nc_coverage = \<lparr>
       cov_enabled = True,
       cov_guarded = map js [''src/**'', ''packages/*/src/**'', ''apps/**/src/**'', ''lib/**'', ''scripts/**''],
       cov_exempt = map js [''**/*.md'', ''**/*.test.*'', ''**/*.spec.*'', ''**/__snapshots__/**'', ''.agents/**'', ''**/.agents/**''],
       cov_label = js ''note-exempt''\<rparr>,
     nc_backlinks = \<lparr>
       bl_enabled = True,
       bl_required = False,
       bl_roots = map js [''src'', ''packages'', ''apps'', ''lib'', ''scripts''],
       bl_exclude = map js [''.agents/**'', ''**/.agents/**'', ''**/*.spec.*'', ''**/*.test.*''],
       bl_extensions = map js [''.ts'', ''.tsx'', ''.js'', ''.mjs'', ''.py'', ''.go'', ''.rs'', ''.java'', ''.kt'', ''.rb'', ''.php'', ''.cs'', ''.c'', ''.cc'', ''.cpp'', ''.h'', ''.hpp'']\<rparr>\<rparr>"

text \<open>The two parts of a configuration file whose defaults are filled in field by field.\<close>

record RawCoverage =
  raw_enabled :: "bool option"
  raw_guarded :: "jstr list option"
  raw_exempt :: "jstr list option"
  raw_label :: "jstr option"

text \<open>
  The coverage part of \<open>loadNotes\<close>: when the file guards paths, every exemption that matches the
  sample of a guard is dropped.
\<close>

definition merge_coverage :: "RawCoverage option \<Rightarrow> CoverageConfig" where
  "merge_coverage raw =
     (let d = nc_coverage DEFAULT_CONFIG;
          c = (case raw of
                 None \<Rightarrow> d
               | Some r \<Rightarrow> \<lparr>cov_enabled = or_default (raw_enabled r) (cov_enabled d),
                   cov_guarded = or_default (raw_guarded r) (cov_guarded d),
                   cov_exempt = or_default (raw_exempt r) (cov_exempt d),
                   cov_label = or_default (raw_label r) (cov_label d)\<rparr>)
      in if Option.bind raw raw_guarded = None then c
         else
           (let defeated = filter (\<lambda>pattern. list_ex (\<lambda>guard.
                  matches (globToRegExp pattern) (samplePath guard)) (cov_guarded c)) (cov_exempt c)
            in c\<lparr>cov_exempt := filter (\<lambda>p. p \<notin> set defeated) (cov_exempt c)\<rparr>))"

text \<open>
  An exemption that the project wrote itself is dropped too, if it happens to match the sample.
\<close>

lemma own_exemption_dropped:
  "cov_exempt (merge_coverage (Some \<lparr>raw_enabled = None, raw_guarded = Some [js ''src/**''],
     raw_exempt = Some [js ''src/*''], raw_label = None\<rparr>)) = []"
  by (simp add: merge_coverage_def Let_def globToRegExp_def toPosix_def samplePath_def js_eval
      backslash_def slash_def star_def question_def)

section \<open>The file tree\<close>

datatype fnode = File jstr | Dir "(jstr \<times> fnode) list" | Other

definition git_entry :: jstr where "git_entry = js ''.git''"

definition entry :: "(jstr \<times> fnode) list \<Rightarrow> jstr \<Rightarrow> fnode option" where
  "entry es name = map_of es name"

text \<open>
  The nearest directory upwards that satisfies a test, at most \<open>n\<close> levels; a path is the list of its
  names, and the parent of the root is the root.
\<close>

fun climb :: "(jstr list \<Rightarrow> bool) \<Rightarrow> nat \<Rightarrow> jstr list \<Rightarrow> jstr list option" where
  "climb found 0 cur = None"
| "climb found (Suc n) cur =
     (if found cur then Some cur else if cur = [] then None else climb found n (butlast cur))"

definition findGitRoot :: "(jstr list \<Rightarrow> bool) \<Rightarrow> jstr list \<Rightarrow> jstr list option" where
  "findGitRoot has_git start = climb has_git 64 start"

fun findUp :: "nat \<Rightarrow> (jstr list \<Rightarrow> 'a option) \<Rightarrow> jstr list option \<Rightarrow> jstr list \<Rightarrow> 'a option" where
  "findUp 0 matcher boundary cur = None"
| "findUp (Suc n) matcher boundary cur =
     (case matcher cur of
        Some hit \<Rightarrow> Some hit
      | None \<Rightarrow> if boundary = Some cur \<or> cur = [] then None else findUp n matcher boundary (butlast cur))"

text \<open>
  \<open>isNestedWorkTree\<close> of a directory below the boundary (the boundary itself is never below a
  directory that is walked).
\<close>

definition isNestedWorkTree :: "bool \<Rightarrow> (jstr \<times> fnode) list \<Rightarrow> bool" where
  "isNestedWorkTree bounded es \<longleftrightarrow> bounded \<and> entry es git_entry \<noteq> None"

fun listFiles :: "bool \<Rightarrow> fnode \<Rightarrow> jstr list list" and listEntries :: "bool \<Rightarrow> (jstr \<times> fnode) list \<Rightarrow> jstr list list" where
  "listFiles bounded (File contents) = []"
| "listFiles bounded Other = []"
| "listFiles bounded (Dir es) = listEntries bounded es"
| "listEntries bounded [] = []"
| "listEntries bounded ((name, n) # es) =
     (case n of
        File contents \<Rightarrow> [[name]]
      | Other \<Rightarrow> []
      | Dir sub \<Rightarrow> if isNestedWorkTree bounded sub then [] else map ((#) name) (listFiles bounded n)) @
     listEntries bounded es"

definition filesUnder :: "bool \<Rightarrow> fnode option \<Rightarrow> jstr list" where
  "filesUnder bounded n = (case n of None \<Rightarrow> [] | Some d \<Rightarrow> map (join [slash]) (listFiles bounded d))"

section \<open>Notes\<close>

record AgentNote =
  an_lifecycle :: jstr
  an_cls :: jstr
  an_rel :: jstr
  an_date :: jstr

datatype tree_error =
    RootMissing | IndexForbidden | UnknownLifecycle jstr | StrayFile jstr | WrongDepth jstr
  | UnknownClassFolder jstr jstr | BadFilename jstr

definition hyphen :: nat where "hyphen = 0x2D"

text \<open>\<open>/^\d{4}-\d{2}-\d{2}$/\<close> and \<open>/^\d{4}-\d{2}-\d{2}-.+\.md$/\<close>\<close>

fun fits :: "bool list \<Rightarrow> jstr \<Rightarrow> bool" where
  "fits [] s = (s = [])"
| "fits (d # ds) [] = False"
| "fits (d # ds) (u # s) = ((if d then is_digit u else u = hyphen) \<and> fits ds s)"

definition is_date :: "jstr \<Rightarrow> bool" where
  "is_date s = fits [True, True, True, True, False, True, True, False, True, True] s"

definition md :: jstr where "md = js ''.md''"

definition dated_name :: "jstr \<Rightarrow> bool" where
  "dated_name base \<longleftrightarrow> is_date (take 10 base) \<and>
     (let rest = drop 10 base in
      prefix [hyphen] rest \<and> suffix md rest \<and> 5 \<le> length rest \<and>
      list_all (\<lambda>u. \<not> line_end u) (take (length rest - 4) (drop 1 rest)))"

definition is_translation :: "NotesConfig \<Rightarrow> jstr \<Rightarrow> bool" where
  "is_translation c name = list_ex (\<lambda>suf. suffix suf name) (nc_translationSuffixes c)"

definition root_entry :: "NotesConfig \<Rightarrow> jstr \<times> fnode \<Rightarrow> tree_error list" where
  "root_entry c e =
     (case e of (name, n) \<Rightarrow>
        if name = js ''INDEX.md'' then [IndexForbidden]
        else
          (case n of
             Dir sub \<Rightarrow> if name \<noteq> nc_archive c \<and> name \<notin> set (nc_lifecycles c) then [UnknownLifecycle name] else []
           | _ \<Rightarrow>
               if name \<in> set (nc_rootAllowlist c) \<or> is_translation c name \<or> suffix (js ''.i18n.yaml'') name
               then [] else [StrayFile name]))"

text \<open>One file below a lifecycle folder: nothing, an error, or a note.\<close>

definition classify :: "NotesConfig \<Rightarrow> jstr \<Rightarrow> jstr \<Rightarrow> tree_error list \<times> AgentNote list" where
  "classify c lifecycle rel =
     (if \<not> suffix md rel \<or> is_translation c rel then ([], [])
      else
        (let segs = split_on slash rel; path = lifecycle @ [slash] @ rel in
         if length segs = 1 \<and> hd segs \<in> set (nc_rootAllowlist c) then ([], [])
         else
           (case segs of
              [cls, base] \<Rightarrow>
                if cls \<notin> set (nc_classes c) then ([UnknownClassFolder path cls], [])
                else if \<not> dated_name base then ([BadFilename path], [])
                else ([], [\<lparr>an_lifecycle = lifecycle, an_cls = cls, an_rel = path, an_date = take 10 base\<rparr>])
            | _ \<Rightarrow> ([WrongDepth path], []))))"

definition walkNotes :: "NotesConfig \<Rightarrow> bool \<Rightarrow> (jstr \<times> fnode) list option \<Rightarrow> AgentNote list \<times> tree_error list" where
  "walkNotes c bounded tree =
     (case tree of
        None \<Rightarrow> ([], [RootMissing])
      | Some es \<Rightarrow>
          (let found = concat (map (\<lambda>lifecycle.
                 map (classify c lifecycle) (sort_cmp compare_units (filesUnder bounded (entry es lifecycle))))
                 (nc_lifecycles c))
           in (concat (map snd found), concat (map (root_entry c) es) @ concat (map fst found))))"

section \<open>Links\<close>

text \<open>
  \<open>/```[\s\S]*?```/g\<close> and \<open>/`[^`\n]*`/g\<close>, both replaced by nothing. Each takes the first end after
  its start; without one the start is kept.
\<close>

definition tick :: nat where "tick = 0x60"

definition fence :: jstr where "fence = [tick, tick, tick]"

fun after_fence :: "jstr \<Rightarrow> jstr option" where
  "after_fence (a # b # c # s) = (if [a, b, c] = fence then Some s else after_fence (b # c # s))"
| "after_fence s = None"

lemma after_fence_shorter: "after_fence s = Some t \<Longrightarrow> length t < length s"
  by (induction s rule: after_fence.induct) (auto split: if_splits)

function strip_fences :: "jstr \<Rightarrow> jstr" where
  "strip_fences s =
     (case s of
        [] \<Rightarrow> []
      | u # t \<Rightarrow>
          if take 3 s = fence
          then (case after_fence (drop 3 s) of Some r \<Rightarrow> strip_fences r | None \<Rightarrow> u # strip_fences t)
          else u # strip_fences t)"
  by pat_completeness auto

termination
proof (relation "measure length")
  fix s :: jstr and u t r
  assume "s = u # t" "after_fence (drop 3 s) = Some r"
  then show "(r, s) \<in> measure length" using after_fence_shorter[of "drop 3 s" r] by simp
qed auto

declare strip_fences.simps [simp del]

fun after_span :: "jstr \<Rightarrow> jstr option" where
  "after_span [] = None"
| "after_span (u # s) = (if u = tick then Some s else if u = newline then None else after_span s)"

lemma after_span_shorter: "after_span s = Some t \<Longrightarrow> length t < length s"
  by (induction s) (auto split: if_splits)

function strip_spans :: "jstr \<Rightarrow> jstr" where
  "strip_spans s =
     (case s of
        [] \<Rightarrow> []
      | u # t \<Rightarrow>
          if u = tick then (case after_span t of Some r \<Rightarrow> strip_spans r | None \<Rightarrow> u # strip_spans t)
          else u # strip_spans t)"
  by pat_completeness auto

termination
proof (relation "measure length")
  fix s :: jstr and u t r
  assume "s = u # t" "after_span t = Some r"
  then show "(r, s) \<in> measure length" using after_span_shorter[of t r] by simp
qed auto

declare strip_spans.simps [simp del]

definition stripCode :: "jstr \<Rightarrow> jstr" where
  "stripCode text = strip_spans (strip_fences text)"

text \<open>
  \<open>/\[([^\]]*)\]\(([^)\s]+)(?:\s+"[^"]*")?\)/\<close> at the start of a text: the label, the target and the rest.
\<close>

definition link_title :: "jstr \<Rightarrow> jstr option" where
  "link_title s =
     (case dropWhile is_space s of
        q # t \<Rightarrow> if q = 0x22 then (case dropWhile (\<lambda>u. u \<noteq> 0x22) t of q' # r # rest \<Rightarrow> if r = 0x29 then Some rest else None | _ \<Rightarrow> None)
                 else None
      | [] \<Rightarrow> None)"

definition link_at :: "jstr \<Rightarrow> ((jstr \<times> jstr) \<times> jstr) option" where
  "link_at s =
     (case s of
        [] \<Rightarrow> None
      | b # t \<Rightarrow>
          if b \<noteq> 0x5B then None
          else
            (let label = takeWhile (\<lambda>u. u \<noteq> 0x5D) t in
             case dropWhile (\<lambda>u. u \<noteq> 0x5D) t of
               c # p # r \<Rightarrow>
                 if p \<noteq> 0x28 then None
                 else
                   (let target = takeWhile (\<lambda>u. u \<noteq> 0x29 \<and> \<not> is_space u) r; rest = drop (length target) r in
                    if target = [] then None
                    else (case rest of
                            [] \<Rightarrow> None
                          | u # rest' \<Rightarrow>
                              if u = 0x29 then Some ((label, target), rest')
                              else map_option (\<lambda>after. ((label, target), after)) (link_title rest)))
             | _ \<Rightarrow> None))"

lemma link_title_shorter: "link_title s = Some t \<Longrightarrow> length t < length s"
proof -
  assume title: "link_title s = Some t"
  then obtain q r q' p where qr: "dropWhile is_space s = q # r" "dropWhile (\<lambda>u. u \<noteq> 0x22) r = q' # p # t"
    by (auto simp: link_title_def split: list.splits if_splits)
  have "length (q # r) \<le> length s" using length_dropWhile_le[of is_space s] qr(1) by simp
  moreover have "length (q' # p # t) \<le> length r" using length_dropWhile_le[of "\<lambda>u. u \<noteq> 0x22" r] qr(2) by simp
  ultimately show ?thesis by simp
qed

lemma link_at_shorter: "link_at s = Some (l, t) \<Longrightarrow> length t < length s"
proof -
  assume link: "link_at s = Some (l, t)"
  then obtain b u c p r where s: "s = b # u" and r: "dropWhile (\<lambda>u. u \<noteq> 0x5D) u = c # p # r"
    by (auto simp: link_at_def Let_def split: list.splits if_splits)
  have "length t \<le> length r"
    using link s r link_title_shorter
    by (fastforce simp: link_at_def Let_def split: list.splits if_splits dest: arg_cong[where f = length])
  moreover have "length (c # p # r) \<le> length u" using length_dropWhile_le[of "\<lambda>u. u \<noteq> 0x5D" u] r by simp
  ultimately show ?thesis using s by simp
qed

function links_from :: "jstr \<Rightarrow> (jstr \<times> jstr) list" where
  "links_from s =
     (case s of
        [] \<Rightarrow> []
      | u # t \<Rightarrow> (case link_at s of Some (link, rest) \<Rightarrow> link # links_from rest | None \<Rightarrow> links_from t))"
  by pat_completeness auto

termination
  by (relation "measure length") (auto dest: link_at_shorter)

declare links_from.simps [simp del]

definition markdownLinks :: "jstr \<Rightarrow> (jstr \<times> jstr) list" where
  "markdownLinks text = links_from (stripCode text)"

definition isExternalLink :: "jstr \<Rightarrow> bool" where
  "isExternalLink target \<longleftrightarrow>
     prefix (js ''http://'') target \<or> prefix (js ''https://'') target \<or> prefix (js ''#'') target \<or>
     prefix (js ''mailto:'') target \<or> str_includes target [0x2026] \<or> str_includes target (js ''<'')"

section \<open>Command lines\<close>

record ParsedArgs =
  pa_positionals :: "jstr list"
  pa_values :: "jstr \<rightharpoonup> jstr"
  pa_flags :: "jstr list"

definition dashes :: jstr where "dashes = js ''--''"

fun parse_args :: "jstr list \<Rightarrow> jstr list \<Rightarrow> ParsedArgs \<Rightarrow> ParsedArgs" where
  "parse_args valueFlags [] r = r"
| "parse_args valueFlags (item # rest) r =
     (if \<not> prefix dashes item then parse_args valueFlags rest (r\<lparr>pa_positionals := pa_positionals r @ [item]\<rparr>)
      else if item \<in> set valueFlags
      then (case rest of
              [] \<Rightarrow> r\<lparr>pa_values := (pa_values r)(item \<mapsto> [])\<rparr>
            | v # rest' \<Rightarrow> parse_args valueFlags rest' (r\<lparr>pa_values := (pa_values r)(item \<mapsto> v)\<rparr>))
      else parse_args valueFlags rest (r\<lparr>pa_flags := List.insert item (pa_flags r)\<rparr>))"

definition parseArgv :: "jstr list \<Rightarrow> jstr list \<Rightarrow> ParsedArgs" where
  "parseArgv argv valueFlags = parse_args valueFlags argv \<lparr>pa_positionals = [], pa_values = Map.empty, pa_flags = []\<rparr>"

text \<open>\<open>parsed.values[name] ?? null\<close>, and an option that counts only when it is not empty.\<close>

definition flag_value :: "ParsedArgs \<Rightarrow> string \<Rightarrow> jstr option" where
  "flag_value r name = pa_values r (js name)"

end
