(* ===== verification/NotesArchive.thy ===== *)
theory NotesArchive
  imports NotesLib
begin

text \<open>
  The frozen archive of the note tooling: the manifest, its verification and sealing
  (\<open>verifyArchive\<close>, \<open>verifyManifestAppendOnly\<close>, \<open>renderManifest\<close> of
  .agents/skills/hx-agent-notes/scripts/notes-lib.ts), scripts/seal-archive.ts and
  scripts/archive-note.ts. The SHA-256 digest is a parameter. The manifest is what its JSON text
  says: absent, broken, or the list of its entries.
\<close>

section \<open>The manifest\<close>

datatype manifest_file = NoManifest | BrokenManifest | Manifest "(jstr \<times> jstr) list"

definition manifest_entries :: "manifest_file \<Rightarrow> (jstr \<times> jstr) list" where
  "manifest_entries m = (case m of Manifest fs \<Rightarrow> fs | _ \<Rightarrow> [])"

text \<open>The rendered manifest lists the keys in order.\<close>

definition renderManifest :: "(jstr \<times> jstr) list \<Rightarrow> manifest_file" where
  "renderManifest files = Manifest
     (map (\<lambda>k. (k, or_default (map_of files k) [])) (sort_cmp compare_units (unique (map fst files))))"

definition set_entry :: "(jstr \<times> jstr) list \<Rightarrow> jstr \<times> jstr \<Rightarrow> (jstr \<times> jstr) list" where
  "set_entry files e = put_by fst e files"

definition sha256File :: "(jstr \<Rightarrow> jstr) \<Rightarrow> jstr \<Rightarrow> jstr" where
  "sha256File digest contents = js ''sha256:'' @ digest contents"

section \<open>Verification\<close>

datatype archive_error =
    ManifestInvalid | UnexpectedRootFile jstr | UnknownArchiveClass jstr | SealLineMissing jstr
  | NotSealed jstr | ContentChanged jstr | ArtifactMissing jstr

text \<open>\<open>ARCHIVED_LINE_RE\<close>\<close>

definition archived_line :: "jstr \<Rightarrow> bool" where
  "archived_line s \<longleftrightarrow> prefix (js ''Archived: '') s \<and> is_date (drop 10 s)"

definition has_seal_line :: "jstr \<Rightarrow> bool" where
  "has_seal_line contents \<longleftrightarrow> list_ex (\<lambda>line. archived_line (trim line)) (take 6 (split_on newline contents))"

text \<open>The files below a class folder with their contents, in the order of \<open>filesUnder\<close>.\<close>

fun files_in :: "bool \<Rightarrow> fnode \<Rightarrow> (jstr list \<times> jstr) list"
  and entries_in :: "bool \<Rightarrow> (jstr \<times> fnode) list \<Rightarrow> (jstr list \<times> jstr) list" where
  "files_in bounded (File contents) = []"
| "files_in bounded Other = []"
| "files_in bounded (Dir es) = entries_in bounded es"
| "entries_in bounded [] = []"
| "entries_in bounded ((name, n) # es) =
     (case n of
        File contents \<Rightarrow> [([name], contents)]
      | Other \<Rightarrow> []
      | Dir sub \<Rightarrow> if isNestedWorkTree bounded sub then [] else map (\<lambda>(p, t). (name # p, t)) (files_in bounded n)) @
     entries_in bounded es"

lemma map_fst_prefixed: "map (fst \<circ> (\<lambda>(p, t). (name # p, t))) xs = map ((#) name) (map fst xs)"
  by (induction xs) auto

lemma files_in_paths:
  "map fst (files_in bounded n) = listFiles bounded n" "map fst (entries_in bounded es) = listEntries bounded es"
  by (induction bounded n and bounded es rule: files_in_entries_in.induct)
    (auto simp: map_fst_prefixed split: fnode.splits)

definition artifact_key :: "jstr \<Rightarrow> jstr list \<Rightarrow> jstr" where
  "artifact_key cls path = cls @ [slash] @ join [slash] path"

definition class_files :: "NotesConfig \<Rightarrow> bool \<Rightarrow> jstr \<times> fnode \<Rightarrow> (jstr \<times> jstr) list" where
  "class_files c bounded e =
     (case e of (name, n) \<Rightarrow>
        case n of File contents \<Rightarrow> []
        | _ \<Rightarrow> if name \<in> set (nc_classes c) then map (\<lambda>(p, t). (artifact_key name p, t)) (files_in bounded n) else [])"

definition archive_files :: "NotesConfig \<Rightarrow> bool \<Rightarrow> (jstr \<times> fnode) list \<Rightarrow> (jstr \<times> jstr) list" where
  "archive_files c bounded es = concat (map (class_files c bounded) es)"

definition artifacts :: "(jstr \<Rightarrow> jstr) \<Rightarrow> (jstr \<times> jstr) list \<Rightarrow> (jstr \<times> jstr) list" where
  "artifacts digest files = foldl (\<lambda>a (k, t). set_entry a (k, sha256File digest t)) [] files"

definition needs_seal_line :: "NotesConfig \<Rightarrow> jstr \<Rightarrow> bool" where
  "needs_seal_line c k \<longleftrightarrow> suffix md k \<and> \<not> is_translation c k"

definition entry_errors :: "NotesConfig \<Rightarrow> bool \<Rightarrow> jstr \<times> fnode \<Rightarrow> archive_error list" where
  "entry_errors c bounded e =
     (case e of (name, n) \<Rightarrow>
        case n of
          File contents \<Rightarrow> if name \<in> {js ''AGENTS.md'', js ''manifest.json''} then [] else [UnexpectedRootFile name]
        | _ \<Rightarrow>
            if name \<notin> set (nc_classes c) then [UnknownArchiveClass name]
            else map (\<lambda>(k, t). SealLineMissing k)
              (filter (\<lambda>(k, t). needs_seal_line c k \<and> \<not> has_seal_line t) (class_files c bounded e)))"

definition seal_errors :: "bool \<Rightarrow> (jstr \<times> jstr) list \<Rightarrow> jstr \<times> jstr \<Rightarrow> archive_error list" where
  "seal_errors writeMode files e =
     (case e of (k, h) \<Rightarrow>
        case map_of files k of
          None \<Rightarrow> if writeMode then [] else [NotSealed k]
        | Some sealed \<Rightarrow> if sealed \<noteq> h then [ContentChanged k] else [])"

definition archive_errors ::
  "(jstr \<Rightarrow> jstr) \<Rightarrow> NotesConfig \<Rightarrow> bool \<Rightarrow> (jstr \<times> fnode) list \<Rightarrow> manifest_file \<Rightarrow> bool \<Rightarrow> archive_error list" where
  "archive_errors digest c bounded es m writeMode =
     (let files = manifest_entries m; found = artifacts digest (archive_files c bounded es)
      in (if m = BrokenManifest then [ManifestInvalid] else []) @
         concat (map (entry_errors c bounded) es) @
         concat (map (seal_errors writeMode files) found) @
         map ArtifactMissing (filter (\<lambda>k. map_of found k = None) (map fst files)))"

text \<open>The errors and the manifest afterwards; an archive that does not exist is in order.\<close>

definition verifyArchive ::
  "(jstr \<Rightarrow> jstr) \<Rightarrow> NotesConfig \<Rightarrow> bool \<Rightarrow> (jstr \<times> fnode) list option \<Rightarrow> manifest_file \<Rightarrow> bool
     \<Rightarrow> archive_error list \<times> manifest_file" where
  "verifyArchive digest c bounded archive m writeMode =
     (case archive of
        None \<Rightarrow> ([], m)
      | Some es \<Rightarrow>
          (let files = manifest_entries m; errors = archive_errors digest c bounded es m writeMode;
               added = filter (\<lambda>(k, h). map_of files k = None) (artifacts digest (archive_files c bounded es))
           in (errors,
               if writeMode \<and> added \<noteq> [] \<and> errors = []
               then renderManifest (foldl set_entry files added) else m)))"

text \<open>
  \<open>verifyManifestAppendOnly\<close>: the manifest of the earlier revision, None when git does not have it;
  how many seals were compared.
\<close>

datatype proof_error = BaselineInvalid | SealGone jstr | SealChanged jstr

definition verifyManifestAppendOnly ::
  "manifest_file option \<Rightarrow> (jstr \<times> jstr) list \<Rightarrow> proof_error list \<times> nat" where
  "verifyManifestAppendOnly shown current =
     (case shown of
        None \<Rightarrow> ([], 0)
      | Some BrokenManifest \<Rightarrow> ([BaselineInvalid], 0)
      | Some baseline \<Rightarrow>
          (concat (map (\<lambda>(k, h).
             case map_of current k of None \<Rightarrow> [SealGone k] | Some h' \<Rightarrow> if h' \<noteq> h then [SealChanged k] else [])
             (manifest_entries baseline)), length (manifest_entries baseline)))"

section \<open>What a successful seal guarantees\<close>

lemma map_of_put: "map_of (put_by fst (k, h) files) = (map_of files)(k \<mapsto> h)"
  by (induction files) (auto simp: fun_eq_iff)

lemma map_of_set_entries:
  "map_of (foldl set_entry files es) = map_of files ++ map_of (rev es)"
  by (induction es arbitrary: files) (auto simp: set_entry_def map_of_put fun_eq_iff map_add_def split: option.splits)

lemma distinct_artifacts: "distinct (map fst (artifacts digest files))"
  unfolding artifacts_def
  by (induction files rule: rev_induct) (auto simp: set_entry_def distinct_put_by)

lemma map_of_artifacts_snoc:
  "map_of (artifacts digest (files @ [(k, t)])) = (map_of (artifacts digest files))(k \<mapsto> sha256File digest t)"
  by (simp add: artifacts_def set_entry_def map_of_put)

lemma map_of_artifacts: "map_of (artifacts digest files) = map_of (map (\<lambda>(k, t). (k, sha256File digest t)) (rev files))"
  by (induction files rule: rev_induct) (auto simp: map_of_artifacts_snoc fun_eq_iff, simp add: artifacts_def)

lemma map_of_keyed: "map_of (map (\<lambda>k. (k, f k)) ks) k = (if k \<in> set ks then Some (f k) else None)"
  by (induction ks) auto

lemma map_of_rendered: "map_of (manifest_entries (renderManifest files)) = map_of files"
proof
  fix k
  show "map_of (manifest_entries (renderManifest files)) k = map_of files k"
    using map_of_eq_None_iff[of files k]
    by (cases "map_of files k") (auto simp: manifest_entries_def renderManifest_def map_of_keyed)
qed

text \<open>No error: the manifest is readable, the folders are in order, and the seals are the artifacts.\<close>

definition folders_fine :: "NotesConfig \<Rightarrow> bool \<Rightarrow> (jstr \<times> fnode) list \<Rightarrow> bool" where
  "folders_fine c bounded es \<longleftrightarrow> list_all (\<lambda>e. entry_errors c bounded e = []) es"

lemma clean_iff:
  "fst (verifyArchive digest c bounded (Some es) m False) = [] \<longleftrightarrow>
     m \<noteq> BrokenManifest \<and> folders_fine c bounded es \<and>
     map_of (manifest_entries m) = map_of (artifacts digest (archive_files c bounded es))"
proof -
  let ?found = "artifacts digest (archive_files c bounded es)" and ?files = "manifest_entries m"
  have seals: "concat (map (seal_errors False ?files) ?found) = [] \<longleftrightarrow>
      (\<forall>k h. map_of ?found k = Some h \<longrightarrow> map_of ?files k = Some h)"
    using distinct_artifacts[of digest "archive_files c bounded es"]
    by (auto simp: seal_errors_def split: option.splits if_splits dest: map_of_SomeD)
  have missing: "filter (\<lambda>k. map_of ?found k = None) (map fst ?files) = [] \<longleftrightarrow>
      (\<forall>k. map_of ?found k = None \<longrightarrow> map_of ?files k = None)"
    by (auto simp: filter_empty_conv map_of_eq_None_iff image_iff)
  have "(\<forall>k h. map_of ?found k = Some h \<longrightarrow> map_of ?files k = Some h) \<and>
      (\<forall>k. map_of ?found k = None \<longrightarrow> map_of ?files k = None) \<longleftrightarrow> map_of ?files = map_of ?found"
    by (auto simp: fun_eq_iff) (metis option.exhaust)
  then show ?thesis
    unfolding verifyArchive_def folders_fine_def archive_errors_def
    using seals missing by (auto simp: Let_def list_all_iff)
qed

lemma write_clean:
  assumes "verifyArchive digest c bounded (Some es) m True = ([], m')"
  shows "map_of (manifest_entries m') = map_of (artifacts digest (archive_files c bounded es))"
    and "map_of (manifest_entries m) \<subseteq>\<^sub>m map_of (manifest_entries m')"
    and "m' \<noteq> BrokenManifest" and "folders_fine c bounded es"
proof -
  let ?found = "artifacts digest (archive_files c bounded es)" and ?files = "manifest_entries m"
  let ?added = "filter (\<lambda>(k, h). map_of ?files k = None) ?found"
  have parts: "m \<noteq> BrokenManifest" "folders_fine c bounded es" "concat (map (seal_errors True ?files) ?found) = []"
    "filter (\<lambda>k. map_of ?found k = None) (map fst ?files) = []"
    and m': "m' = (if ?added \<noteq> [] then renderManifest (foldl set_entry ?files ?added) else m)"
    using assms by (auto simp: verifyArchive_def archive_errors_def Let_def folders_fine_def list_all_iff split: if_splits)
  have dist: "distinct (map fst ?found)" by (rule distinct_artifacts)
  have agree: "map_of ?files k = Some h \<Longrightarrow> map_of ?found k = Some h" for k h
  proof -
    assume k: "map_of ?files k = Some h"
    then have "k \<in> set (map fst ?files)" by (force dest: map_of_SomeD)
    then obtain h' where h': "map_of ?found k = Some h'" using parts(4) by (auto simp: filter_empty_conv)
    then have "(k, h') \<in> set ?found" by (rule map_of_SomeD)
    then have "seal_errors True ?files (k, h') = []" using parts(3) by auto
    then show ?thesis using k h' by (auto simp: seal_errors_def split: if_splits)
  qed
  have dist_added: "distinct (map fst ?added)" using dist by (induction ?found) (auto simp: distinct_map_filter)
  have new: "map_of ?added k = (if map_of ?files k = None then map_of ?found k else None)" for k
  proof -
    have "map_of (filter (\<lambda>(k, h). P k) xs) k = (if P k then map_of xs k else None)" for P and xs :: "(jstr \<times> jstr) list"
      by (induction xs) auto
    then show ?thesis by simp
  qed
  have "map_of (rev ?added) = map_of ?added"
    by (subst map_of_inject_set) (use dist_added in \<open>simp_all flip: rev_map\<close>)
  then have all: "map_of (foldl set_entry ?files ?added) = map_of ?found"
    unfolding map_of_set_entries
    by (auto simp: fun_eq_iff map_add_def new agree split: option.splits)
  have none: "map_of ?files = map_of ?found" if "?added = []"
    using all that by simp
  show "map_of (manifest_entries m') = map_of ?found"
    unfolding m' using all none by (simp add: map_of_rendered)
  then show "map_of ?files \<subseteq>\<^sub>m map_of (manifest_entries m')"
    using agree by (auto simp: map_le_def dom_def)
  show "m' \<noteq> BrokenManifest" unfolding m' using parts(1) by (simp add: renderManifest_def)
  show "folders_fine c bounded es" by (rule parts(2))
qed

text \<open>
  C16: Sealing is exact, append-only and settled. When the verifier runs in write mode, either it
  reports errors and leaves the manifest as it is, or afterwards the manifest lists exactly the
  archived files with their digests, keeps every earlier seal, and both modes find nothing more to
  report or to change.
\<close>

theorem sealing_exact:
  "case verifyArchive digest c bounded (Some es) m True of
     (errors, m') \<Rightarrow>
       if errors \<noteq> [] then m' = m
       else map_of (manifest_entries m') = map_of (artifacts digest (archive_files c bounded es)) \<and>
            map_of (manifest_entries m) \<subseteq>\<^sub>m map_of (manifest_entries m') \<and>
            verifyArchive digest c bounded (Some es) m' False = ([], m')"
proof -
  obtain errors m' where run: "verifyArchive digest c bounded (Some es) m True = (errors, m')"
    by (cases "verifyArchive digest c bounded (Some es) m True")
  show ?thesis
  proof (cases "errors = []")
    case True
    note clean = write_clean[OF run[unfolded True]]
    have "fst (verifyArchive digest c bounded (Some es) m' False) = []"
      unfolding clean_iff using clean by simp
    moreover have "snd (verifyArchive digest c bounded (Some es) m' False) = m'"
      by (simp add: verifyArchive_def Let_def)
    ultimately have again: "verifyArchive digest c bounded (Some es) m' False = ([], m')"
      by (simp add: prod_eq_iff)
    show ?thesis unfolding run prod.case using clean again True by simp
  qed (use run in \<open>auto simp: verifyArchive_def Let_def\<close>)
qed

text \<open>The proof against an earlier revision: no errors exactly when its seals are all there.\<close>

lemma append_only_iff:
  assumes "distinct (map fst baseline)"
  shows "fst (verifyManifestAppendOnly (Some (Manifest baseline)) current) = [] \<longleftrightarrow> map_of baseline \<subseteq>\<^sub>m map_of current"
proof -
  have "fst (verifyManifestAppendOnly (Some (Manifest baseline)) current) = [] \<longleftrightarrow>
      (\<forall>(k, h) \<in> set baseline. map_of current k = Some h)"
    by (auto simp: verifyManifestAppendOnly_def manifest_entries_def split: option.splits if_splits)
  also have "\<dots> \<longleftrightarrow> (\<forall>k h. map_of baseline k = Some h \<longrightarrow> map_of current k = Some h)"
    using map_of_eq_Some_iff[OF assms] by auto
  also have "\<dots> \<longleftrightarrow> map_of baseline \<subseteq>\<^sub>m map_of current"
    by (auto simp: map_le_def dom_def)
  finally show ?thesis .
qed

section \<open>The sealing script\<close>

text \<open>
  scripts/seal-archive.ts: verification, then the proof against the earlier revision (none for an
  empty name). The report: what was printed last, and the manifest that was left.
\<close>

datatype seal_report =
    ArchiveFailed "archive_error list" "proof_error list" bool
  | ArchiveIntact nat
  | SealedNew nat

definition seal_archive ::
  "(jstr \<Rightarrow> jstr) \<Rightarrow> NotesConfig \<Rightarrow> bool \<Rightarrow> (jstr \<times> fnode) list option \<Rightarrow> manifest_file \<Rightarrow> bool
     \<Rightarrow> (jstr \<times> manifest_file option) \<Rightarrow> seal_report \<times> manifest_file" where
  "seal_archive digest c bounded archive m writeMode baseline =
     (let (errors, m') = verifyArchive digest c bounded archive m writeMode;
          (proofs, checked) = (if fst baseline \<noteq> [] \<and> errors = []
             then verifyManifestAppendOnly (snd baseline) (manifest_entries m') else ([], 0))
      in (if errors \<noteq> [] \<or> proofs \<noteq> [] then ArchiveFailed errors proofs writeMode
          else if writeMode then SealedNew checked else ArchiveIntact checked, m'))"

text \<open>
  The flag of \<open>ArchiveFailed\<close> stands for the line "nothing was sealed: --write refuses while any
  violation is outstanding". It is printed although the manifest has been written when only the
  proof fails, since the proof runs after the write.
\<close>

lemma sealed_in_spite_of_refusal:
  "case seal_archive (\<lambda>t. t) DEFAULT_CONFIG True
      (Some [(js ''feature'', Dir [(js ''b.txt'', File [])])]) (Manifest [])
      True (js ''HEAD'', Some (Manifest [(js ''feature/a.md'', [])])) of
     (report, m') \<Rightarrow> report = ArchiveFailed [] [SealGone (js ''feature/a.md'')] True \<and> m' \<noteq> Manifest []"
  by (simp add: seal_archive_def verifyArchive_def archive_errors_def Let_def manifest_entries_def archive_files_def class_files_def
      DEFAULT_CONFIG_def DEFAULT_CLASSES_def artifact_key_def artifacts_def set_entry_def entry_errors_def
      needs_seal_line_def md_def js_eval suffix_to_prefix slash_def seal_errors_def renderManifest_def verifyManifestAppendOnly_def)

section \<open>Archiving a note\<close>

text \<open>
  scripts/archive-note.ts, from the names of the note below the notes root and its text to the
  archive folder and manifest it leaves. Its report of inbound links is in NotesInbound.
\<close>

datatype archive_refusal =
    NotImplementedNote | UnknownNoteClass jstr | DateMalformed | NoImplementedStatus | NameTaken
  | ManifestUnreadable | DryRun

fun first_index :: "('a \<Rightarrow> bool) \<Rightarrow> 'a list \<Rightarrow> nat option" where
  "first_index P [] = None"
| "first_index P (x # xs) = (if P x then Some 0 else map_option Suc (first_index P xs))"

definition implemented_status :: jstr where "implemented_status = js ''Status: implemented''"

definition seal_line :: "jstr \<Rightarrow> jstr" where "seal_line date = js ''Archived: '' @ date"

definition stamp :: "jstr \<Rightarrow> jstr \<Rightarrow> jstr option" where
  "stamp date raw =
     (let lines = split_on newline raw in
      map_option (\<lambda>i. join [newline]
          (if list_ex (\<lambda>line. archived_line (trim line)) lines then lines
           else take (Suc i) lines @ [[], seal_line date] @ drop (Suc i) lines))
        (first_index (\<lambda>line. line = implemented_status) lines))"

fun add_file :: "jstr \<Rightarrow> jstr \<Rightarrow> jstr \<Rightarrow> (jstr \<times> fnode) list \<Rightarrow> (jstr \<times> fnode) list" where
  "add_file cls filename contents [] = [(cls, Dir [(filename, File contents)])]"
| "add_file cls filename contents ((name, n) # es) =
     (if name = cls then (name, case n of Dir sub \<Rightarrow> Dir (sub @ [(filename, File contents)]) | _ \<Rightarrow> n) # es
      else (name, n) # add_file cls filename contents es)"

definition archived_exists :: "(jstr \<times> fnode) list \<Rightarrow> jstr \<Rightarrow> jstr \<Rightarrow> bool" where
  "archived_exists es cls filename \<longleftrightarrow>
     (case entry es cls of Some (Dir sub) \<Rightarrow> entry sub filename \<noteq> None | _ \<Rightarrow> False)"

definition archive_note ::
  "(jstr \<Rightarrow> jstr) \<Rightarrow> NotesConfig \<Rightarrow> jstr list \<Rightarrow> jstr \<Rightarrow> jstr \<Rightarrow> bool \<Rightarrow> (jstr \<times> fnode) list \<Rightarrow> manifest_file
     \<Rightarrow> archive_refusal + (jstr \<times> fnode) list \<times> manifest_file" where
  "archive_note digest c segs date raw dryRun es m =
     (case segs of
        [lifecycle, cls, filename] \<Rightarrow>
          if lifecycle \<noteq> js ''implemented'' then Inl NotImplementedNote
          else if cls \<notin> set (nc_classes c) then Inl (UnknownNoteClass cls)
          else if \<not> is_date date then Inl DateMalformed
          else
            (case stamp date raw of
               None \<Rightarrow> Inl NoImplementedStatus
             | Some updated \<Rightarrow>
                 if archived_exists es cls filename then Inl NameTaken
                 else if m = BrokenManifest then Inl ManifestUnreadable
                 else if dryRun then Inl DryRun
                 else Inr (add_file cls filename updated es,
                   renderManifest (set_entry (manifest_entries m)
                     (artifact_key cls [filename], sha256File digest updated))))
      | _ \<Rightarrow> Inl NotImplementedNote)"

subsection \<open>The stamped text\<close>

lemma first_index_Some: "first_index P xs = Some i \<Longrightarrow> i < length xs \<and> P (xs ! i)"
  by (induction xs arbitrary: i) (auto split: if_splits)

lemma archived_seal_line: "is_date date \<Longrightarrow> archived_line (trim (seal_line date)) \<and> newline \<notin> set (seal_line date)"
proof -
  assume date: "is_date date"
  have digits: "fits ds s \<Longrightarrow> u \<in> set s \<Longrightarrow> is_digit u \<or> u = hyphen" for ds s u
    by (induction ds s rule: fits.induct) (auto split: if_splits)
  have units: "u \<in> set date \<Longrightarrow> \<not> is_space u \<and> u \<noteq> newline" for u
    using digits date unfolding is_date_def
    by (fastforce simp: is_digit_def hyphen_def is_space_def newline_def)
  have "date \<noteq> []" using date by (auto simp: is_date_def)
  then have "trim (seal_line date) = seal_line date"
    using units by (intro trim_id) (auto simp: seal_line_def js_eval is_space_def)
  then show ?thesis using date units
    by (auto simp: archived_line_def seal_line_def js_eval newline_def)
qed

lemma stamp_seal_line:
  assumes "is_date date" "stamp date raw = Some updated"
    and "first_index (\<lambda>line. line = implemented_status) (split_on newline raw) = Some i" "i < 4"
    and "\<not> list_ex (\<lambda>line. archived_line (trim line)) (split_on newline raw)"
  shows "has_seal_line updated"
proof -
  let ?lines = "split_on newline raw"
  let ?new = "take (Suc i) ?lines @ [[], seal_line date] @ drop (Suc i) ?lines"
  have updated: "updated = join [newline] ?new" using assms(2,3,5) by (simp add: stamp_def Let_def)
  have "newline \<notin> set p" if "p \<in> set ?new" for p
    using that archived_seal_line[OF assms(1)] by (auto dest!: in_set_takeD in_set_dropD dest: split_on_parts)
  then have lines: "split_on newline updated = ?new" unfolding updated by (intro split_on_join) auto
  have len: "Suc i \<le> length ?lines" using first_index_Some[OF assms(3)] by simp
  then have "?new ! (i + 2) = seal_line date" by (simp add: nth_append)
  moreover have "i + 2 < length (take 6 ?new)" using len assms(4) by simp
  ultimately have "seal_line date \<in> set (take 6 ?new)" by (metis nth_mem nth_take length_take min_less_iff_conj)
  then show ?thesis unfolding has_seal_line_def lines
    using archived_seal_line[OF assms(1)] by (auto simp: list_ex_iff)
qed

subsection \<open>The archive afterwards\<close>

text \<open>Names of a directory are distinct and contain no slash.\<close>

definition names_ok :: "(jstr \<times> fnode) list \<Rightarrow> bool" where
  "names_ok es \<longleftrightarrow> distinct (map fst es) \<and> list_all (\<lambda>(name, n). slash \<notin> set name \<and> n \<noteq> Other) es"

lemma single_path: "([name], t) \<in> set (entries_in bounded es) \<Longrightarrow> (name, File t) \<in> set es"
proof (induction es)
  case (Cons e es)
  obtain name' n where e: "e = (name', n)" by (cases e)
  have nonempty: "p \<noteq> []" if "(p, t') \<in> set (entries_in bounded sub)" for p t' sub
    using that by (induction sub) (auto split: fnode.splits if_splits)
  show ?case using Cons nonempty unfolding e by (cases n) (auto split: if_splits)
qed simp

lemma join_single: "slash \<notin> set filename \<Longrightarrow> join [slash] p = filename \<Longrightarrow> p \<noteq> [] \<Longrightarrow> p = [filename]"
  by (cases p; cases "tl p") auto

lemma entries_nonempty: "(p, t) \<in> set (entries_in bounded sub) \<Longrightarrow> p \<noteq> []"
  by (induction sub) (auto split: fnode.splits if_splits)

lemma class_files_all:
  "class_files c bounded (name, n) =
     (if name \<in> set (nc_classes c) then map (\<lambda>(p, t). (artifact_key name p, t)) (files_in bounded n) else [])"
  by (cases n) (simp_all add: class_files_def)

lemma key_fresh:
  assumes "names_ok es" "slash \<notin> set cls" "slash \<notin> set filename" "\<not> archived_exists es cls filename"
  shows "artifact_key cls [filename] \<notin> fst ` set (archive_files c bounded es)"
proof
  assume "artifact_key cls [filename] \<in> fst ` set (archive_files c bounded es)"
  then obtain name n p t where e: "(name, n) \<in> set es" "(p, t) \<in> set (files_in bounded n)"
    and key: "artifact_key cls [filename] = artifact_key name p"
    by (auto simp: archive_files_def class_files_all split: if_splits)
  from e obtain sub where sub: "n = Dir sub" by (cases n) auto
  have "slash \<notin> set name" using assms(1) e(1) by (auto simp: names_ok_def list_all_iff)
  then have "name = cls" "join [slash] p = filename"
    using key first_slash[of name cls filename "join [slash] p"] assms(2) by (auto simp: artifact_key_def)
  moreover have "p \<noteq> []" using entries_nonempty e(2) sub by auto
  ultimately have "(filename, File t) \<in> set sub"
    using join_single[OF assms(3)] single_path e(2) sub by auto
  then have "filename \<in> fst ` set sub" by (metis fst_conv imageI)
  then have "entry sub filename \<noteq> None" by (simp add: entry_def map_of_eq_None_iff)
  moreover have "entry es cls = Some (Dir sub)"
    using e(1) \<open>name = cls\<close> sub assms(1) by (auto simp: entry_def names_ok_def)
  ultimately show False using assms(4) by (simp add: archived_exists_def)
qed

lemma entries_in_snoc: "entries_in bounded (sub @ [(filename, File t)]) = entries_in bounded sub @ [([filename], t)]"
  by (induction sub) auto

lemma add_file_files:
  assumes "names_ok es" "cls \<in> set (nc_classes c)" "\<forall>t. (cls, File t) \<notin> set es"
  shows "\<exists>pre post. archive_files c bounded es = pre @ post \<and>
     archive_files c bounded (add_file cls filename t es) = pre @ (artifact_key cls [filename], t) # post"
  using assms(1,3)
proof (induction es)
  case Nil
  show ?case using assms(2)
    by (intro exI[of _ "[]"]) (simp add: archive_files_def class_files_def)
next
  case (Cons e es)
  obtain name n where e: "e = (name, n)" by (cases e)
  show ?case
  proof (cases "name = cls")
    case True
    have "n \<noteq> Other" using Cons.prems(1) by (auto simp: names_ok_def e)
    moreover have "n \<noteq> File t'" for t' using Cons.prems(2) True by (auto simp: e)
    ultimately obtain sub where "n = Dir sub" by (cases n) auto
    then show ?thesis using True assms(2) e
      by (intro exI[of _ "class_files c bounded e"] exI[of _ "archive_files c bounded es"])
        (simp add: archive_files_def class_files_def entries_in_snoc)
  next
    case False
    have "names_ok es" "\<forall>t. (cls, File t) \<notin> set es" using Cons.prems by (auto simp: names_ok_def)
    from Cons.IH[OF this] obtain pre post where
      "archive_files c bounded es = pre @ post"
      "archive_files c bounded (add_file cls filename t es) = pre @ (artifact_key cls [filename], t) # post" by blast
    then show ?thesis using False e
      by (intro exI[of _ "class_files c bounded e @ pre"] exI[of _ post]) (simp add: archive_files_def)
  qed
qed

lemma artifacts_insert:
  "k \<notin> fst ` set post \<Longrightarrow>
     map_of (artifacts digest (pre @ (k, t) # post)) = (map_of (artifacts digest (pre @ post)))(k \<mapsto> sha256File digest t)"
proof (induction post rule: rev_induct)
  case Nil
  then show ?case using map_of_artifacts_snoc[of digest pre k t] by simp
next
  case (snoc e post)
  obtain k' t' where e: "e = (k', t')" by (cases e)
  have "map_of (artifacts digest (pre @ (k, t) # post @ [e])) =
      (map_of (artifacts digest (pre @ (k, t) # post)))(k' \<mapsto> sha256File digest t')"
    using map_of_artifacts_snoc[of digest "pre @ (k, t) # post"] e by simp
  moreover have "map_of (artifacts digest (pre @ post @ [e])) =
      (map_of (artifacts digest (pre @ post)))(k' \<mapsto> sha256File digest t')"
    using map_of_artifacts_snoc[of digest "pre @ post"] e by simp
  ultimately show ?case using snoc e by (auto simp: fun_upd_twist)
qed

lemma add_file_folders:
  assumes "folders_fine c bounded es" "names_ok es" "cls \<in> set (nc_classes c)" "\<forall>t. (cls, File t) \<notin> set es"
    and "needs_seal_line c (artifact_key cls [filename]) \<Longrightarrow> has_seal_line t"
  shows "folders_fine c bounded (add_file cls filename t es)"
  using assms(1,2,4)
proof (induction es)
  case Nil
  then show ?case using assms(3,5) by (auto simp: folders_fine_def entry_errors_def class_files_def)
next
  case (Cons e es)
  obtain name n where e: "e = (name, n)" by (cases e)
  show ?case
  proof (cases "name = cls")
    case True
    have "n \<noteq> Other" using Cons.prems(2) by (auto simp: names_ok_def e)
    moreover have "n \<noteq> File t'" for t' using Cons.prems(3) True by (auto simp: e)
    ultimately obtain sub where "n = Dir sub" by (cases n) auto
    then show ?thesis using True assms(3,5) e Cons.prems(1)
      by (auto simp: folders_fine_def entry_errors_def class_files_def entries_in_snoc)
  next
    case False
    have "folders_fine c bounded es" "names_ok es" "\<forall>t. (cls, File t) \<notin> set es"
      using Cons.prems by (auto simp: names_ok_def folders_fine_def)
    from Cons.IH[OF this] show ?thesis using False e Cons.prems(1) by (simp add: folders_fine_def)
  qed
qed


text \<open>A note of the default class \<open>process\<close>, archived into an empty archive.\<close>

definition sample_note :: jstr where
  "sample_note = join [newline] [js ''#'', [], implemented_status, [], js ''## Problem'']"

lemma sample_lines: "split_on newline sample_note = [js ''#'', [], implemented_status, [], js ''## Problem'']"
  unfolding sample_note_def by (rule split_on_join) (auto simp: js_eval newline_def implemented_status_def)


text \<open>
  Without the proviso the gate fails for good: a line anywhere in the note that reads like a seal
  line, say in an example, keeps the script from stamping the note, which is sealed without it.
\<close>

lemma quoted_seal_line_unstamped:
  assumes "list_ex (\<lambda>line. archived_line (trim line)) (split_on newline raw)" "stamp date raw = Some updated"
  shows "updated = raw"
  using assms by (auto simp: stamp_def Let_def join_split_on)

end
