(* ===== verification/NotesFormat.thy ===== *)
theory NotesFormat
  imports NotesLib
begin

text \<open>
  The format gate and the generator of notes (.agents/skills/hx-agent-notes/scripts/verify-format.ts
  and new-note.ts). A note is its text; the gate gives the list of its complaints.
\<close>

section \<open>The structure of a note\<close>

definition GRANDFATHER :: jstr where
  "GRANDFATHER = js ''<!-- agent-note-format: alternatives-not-recorded (pre-format Agent Note) -->''"

definition heading :: "jstr \<Rightarrow> jstr" where "heading t = js ''## '' @ t"

definition SECTIONS :: "(string \<times> jstr list) list" where
  "SECTIONS = [
     (''problem'', map heading [js ''Problem'', [0x95EE, 0x9898]]),
     (''proposal'', map heading [js ''Proposal'', [0x63D0, 0x8BAE], [0x65B9, 0x6848], [0x63D0, 0x6848]]),
     (''decision'', map heading [js ''Decision'', [0x51B3, 0x5B9A], [0x51B3, 0x7B56]]),
     (''alternatives'', map heading [js ''Alternatives considered'', [0x5907, 0x9009, 0x65B9, 0x6848],
        [0x8003, 0x8651, 0x8FC7, 0x7684, 0x5907, 0x9009, 0x65B9, 0x6848], [0x5907, 0x9009]]),
     (''acceptance'', map heading [js ''Acceptance criteria'', [0x9A8C, 0x6536, 0x6807, 0x51C6], [0x9A8C, 0x6536, 0x6761, 0x4EF6]]),
     (''risks'', map heading [js ''Risks'', [0x98CE, 0x9669]]),
     (''consequences'', map heading [js ''Consequences'', [0x540E, 0x679C], [0x5F71, 0x54CD]])]"

definition REQUIRED :: "jstr \<Rightarrow> string list" where
  "REQUIRED lifecycle =
     (if lifecycle = js ''proposed'' then [''proposal'', ''acceptance'', ''risks'']
      else if lifecycle = js ''implemented'' then [''decision'', ''consequences'']
      else if lifecycle = js ''rejected'' then [''proposal''] else [])"

definition BANNED_IMPLEMENTED :: "jstr list" where
  "BANNED_IMPLEMENTED = map heading [js ''Proposal'', js ''Plan'', js ''Migration plan'', js ''Acceptance criteria'',
     [0x63D0, 0x8BAE], [0x65B9, 0x6848], [0x63D0, 0x6848], [0x8BA1, 0x5212], [0x89C4, 0x5212],
     [0x9A8C, 0x6536, 0x6807, 0x51C6], [0x9A8C, 0x6536, 0x6761, 0x4EF6]]"

text \<open>The status grammar of a lifecycle, None for a lifecycle without one.\<close>

definition rejected_prefix :: jstr where
  "rejected_prefix = js ''Status: rejected '' @ 0x2014 # js '' ''"

definition STATUS :: "jstr \<Rightarrow> (jstr \<Rightarrow> bool) option" where
  "STATUS lifecycle =
     (if lifecycle = js ''proposed'' then Some (\<lambda>s. s = js ''Status: proposed'')
      else if lifecycle = js ''implemented'' then Some (\<lambda>s. s = js ''Status: implemented'')
      else if lifecycle = js ''rejected''
      then Some (\<lambda>s. prefix rejected_prefix s \<and> drop (length rejected_prefix) s \<noteq> [] \<and>
             list_all (\<lambda>u. \<not> line_end u) (drop (length rejected_prefix) s))
      else None)"

fun prose_from :: "bool \<Rightarrow> jstr list \<Rightarrow> jstr list" where
  "prose_from inFence [] = []"
| "prose_from inFence (line # rest) =
     (if prefix fence line then prose_from (\<not> inFence) rest
      else if inFence then prose_from inFence rest else line # prose_from inFence rest)"

definition proseLines :: "jstr \<Rightarrow> jstr list" where
  "proseLines text = prose_from False (split_on newline text)"

definition h2Of :: "jstr list \<Rightarrow> jstr list" where
  "h2Of lines = map trim_end (filter (prefix (js ''## '')) lines)"

definition sectionsOf :: "jstr list \<Rightarrow> string list" where
  "sectionsOf h2s = map fst (filter (\<lambda>(name, aliases).
     list_ex (\<lambda>h. list_ex (\<lambda>alias. h = alias \<or> prefix (alias @ js '' '') h) aliases) h2s) SECTIONS)"

section \<open>The gate\<close>

datatype format_error =
    TitleLine | SecondLine | StatusGrammar | FourthLine | OtherStatusLine | FirstSection "jstr option"
  | SectionMissing string | ProposalWording jstr | BothAlternatives | AlternativesMissing | GrandfatherTooNew
  | BannedPhrase jstr | TranslationSections jstr nat nat

definition line_of :: "jstr list \<Rightarrow> nat \<Rightarrow> jstr option" where
  "line_of lines n = (if n < length lines then Some (lines ! n) else None)"

text \<open>\<open>/^# Agent Note: \S/\<close>\<close>

definition title_prefix :: jstr where "title_prefix = js ''# Agent Note: ''"

definition title_line :: "jstr \<Rightarrow> bool" where
  "title_line s \<longleftrightarrow> prefix title_prefix s \<and>
     (case drop (length title_prefix) s of u # t \<Rightarrow> \<not> is_space u | [] \<Rightarrow> False)"

text \<open>Which errors are there: a condition and the error it stands for.\<close>

definition guard_error :: "bool \<Rightarrow> 'e \<Rightarrow> 'e list" where
  "guard_error b e = (if b then [e] else [])"

definition alternatives_errors :: "NotesConfig \<Rightarrow> jstr \<Rightarrow> bool \<Rightarrow> bool \<Rightarrow> format_error list" where
  "alternatives_errors c date hasAlt hasGrandfather =
     guard_error (hasAlt \<and> hasGrandfather) BothAlternatives @
     (if hasAlt then []
      else if \<not> hasGrandfather then [AlternativesMissing]
      else guard_error (\<not> compare_units date (nc_formatAdopted c) < 0) GrandfatherTooNew)"

text \<open>\<open>counterparts\<close> gives the text of the translation with a suffix, if there is one.\<close>

definition check_note :: "NotesConfig \<Rightarrow> (jstr \<Rightarrow> jstr option) \<Rightarrow> jstr \<Rightarrow> jstr \<Rightarrow> jstr \<Rightarrow> format_error list" where
  "check_note c counterparts lifecycle date raw =
     (let lines = split_on newline raw; prose = proseLines raw; h2s = h2Of prose; found = sectionsOf h2s;
          statusLines = filter (prefix (js ''Status:'')) prose
      in guard_error (\<not> title_line (or_default (line_of lines 0) [])) TitleLine @
         guard_error (line_of lines 1 \<noteq> Some []) SecondLine @
         (case STATUS lifecycle of
            Some re \<Rightarrow> guard_error (\<not> re (or_default (line_of lines 2) [])) StatusGrammar | None \<Rightarrow> []) @
         guard_error (line_of lines 3 \<noteq> Some []) FourthLine @
         guard_error (length statusLines \<noteq> 1 \<or> line_of statusLines 0 \<noteq> line_of lines 2) OtherStatusLine @
         guard_error (case h2s of [] \<Rightarrow> True
           | first # rest \<Rightarrow> first \<notin> set (or_default (map_of SECTIONS ''problem'') [])) (FirstSection (line_of h2s 0)) @
         concat (map (\<lambda>name. guard_error (name \<notin> set found) (SectionMissing name)) (REQUIRED lifecycle)) @
         (if lifecycle = js ''implemented''
          then concat (map (\<lambda>h. guard_error (list_ex (\<lambda>banned. prefix banned h) BANNED_IMPLEMENTED) (ProposalWording h)) h2s)
          else []) @
         alternatives_errors c date (''alternatives'' \<in> set found) (GRANDFATHER \<in> set prose) @
         concat (map (\<lambda>phrase. guard_error (str_includes raw phrase) (BannedPhrase phrase)) (nc_proseBannedPhrases c)) @
         concat (map (\<lambda>suf. case counterparts suf of
             None \<Rightarrow> []
           | Some text \<Rightarrow> (let n = length (h2Of (proseLines text)) in
               guard_error (n \<noteq> length h2s) (TranslationSections suf n (length h2s)))) (nc_translationSuffixes c)))"

section \<open>New notes\<close>

datatype new_note_error = NewUnknownLifecycle | NewUnknownClass | BadSlug | NoteExists

text \<open>\<open>/^[a-z0-9]+(-[a-z0-9]+)*$/\<close>\<close>

definition slug_ok :: "jstr \<Rightarrow> bool" where
  "slug_ok slug \<longleftrightarrow> list_all (\<lambda>w. w \<noteq> [] \<and> list_all (\<lambda>u. is_digit u \<or> (97 \<le> u \<and> u \<le> 122)) w) (split_on hyphen slug)"

definition dash :: jstr where "dash = [0x20, 0x2014, 0x20]"

definition status_of :: "jstr \<Rightarrow> jstr" where
  "status_of lifecycle =
     (if lifecycle = js ''rejected''
      then rejected_prefix @ js ''<one line: why the proposal loses>''
      else js ''Status: '' @ lifecycle)"

definition problem_hint :: jstr where
  "problem_hint = js ''<What breaks, what must change, and what happens if nothing does. This section must stand on its own: delete the rest of the file and it still describes the same problem.>''"
definition shipped_hint :: jstr where
  "shipped_hint = js ''<What shipped, stated in the present tense. Name the mechanism, not the intention.>''"
definition change_hint :: jstr where
  "change_hint = js ''<The intended change. Future tense is allowed while the work is unbuilt.>''"
definition rival_hint :: jstr where
  "rival_hint = js ''- **<Strongest rival option>**'' @ dash @ js ''<its best argument>, then why it loses here.''"
definition nothing_hint :: jstr where
  "nothing_hint = js ''- **<Do nothing / reuse what exists>**'' @ dash @ js ''<why that was not enough>.''"
definition done_hint :: jstr where
  "done_hint = js ''<The observable state that means done.>''"
definition cost_hint :: jstr where
  "cost_hint = js ''<What this cost and what it bought. Both halves are mandatory. Any relative claim needs a baseline; without one state the fact instead.>''"
definition risk_hint :: jstr where
  "risk_hint = js ''<What could go wrong, and what the change knowingly gives up.>''"

definition body_lines :: "jstr \<Rightarrow> jstr \<Rightarrow> jstr list" where
  "body_lines lifecycle title =
     (let proposed = (lifecycle = js ''proposed''); implemented = (lifecycle = js ''implemented'');
          rejected = (lifecycle = js ''rejected'')
      in [title_prefix @ title, [], status_of lifecycle, [], heading (js ''Problem''), [], problem_hint, [],
          (if proposed then heading (js ''Proposal'') else if implemented then heading (js ''Decision'') else heading (js ''Proposal'')),
          [], (if implemented then shipped_hint else change_hint), [],
          heading (js ''Alternatives considered''), [], rival_hint, nothing_hint, [],
          (if proposed then heading (js ''Acceptance criteria'') else if rejected then [] else heading (js ''Consequences'')),
          [], (if proposed then done_hint else if rejected then [] else cost_hint), [],
          (if proposed then heading (js ''Risks'') else []), [], (if proposed then risk_hint else []), []])"

text \<open>No second empty line in a row, and \<open>replace(/\n{3,}/g, "\n\n")\<close>.\<close>

fun squeeze :: "bool \<Rightarrow> jstr list \<Rightarrow> jstr list" where
  "squeeze afterEmpty [] = []"
| "squeeze afterEmpty (line # rest) =
     (if line = [] \<and> afterEmpty then squeeze True rest else line # squeeze (line = []) rest)"

function collapse :: "jstr \<Rightarrow> jstr" where
  "collapse s =
     (case s of
        [] \<Rightarrow> []
      | u # t \<Rightarrow>
          (let run = takeWhile (\<lambda>v. v = newline) s; rest = dropWhile (\<lambda>v. v = newline) t in
           if 3 \<le> length run then [newline, newline] @ collapse rest else u # collapse t))"
  by pat_completeness auto

termination
  by (relation "measure length") (auto intro: le_imp_less_Suc length_dropWhile_le)

declare collapse.simps [simp del]

definition note_body :: "jstr \<Rightarrow> jstr \<Rightarrow> jstr" where
  "note_body lifecycle title =
     trim_end (collapse (join [newline] (squeeze False (body_lines lifecycle title)))) @ [newline]"

text \<open>The name of the file and its text; \<open>title\<close> and \<open>date\<close> are the options, \<open>today\<close> the current date.\<close>

definition new_note ::
  "NotesConfig \<Rightarrow> jstr \<Rightarrow> jstr \<Rightarrow> jstr \<Rightarrow> jstr option \<Rightarrow> jstr option \<Rightarrow> jstr \<Rightarrow> (jstr \<Rightarrow> bool)
     \<Rightarrow> new_note_error + (jstr \<times> jstr)" where
  "new_note c lifecycle cls slug date title today taken =
     (if lifecycle \<notin> set (nc_lifecycles c) then Inl NewUnknownLifecycle
      else if cls \<notin> set (nc_classes c) then Inl NewUnknownClass
      else if \<not> slug_ok slug then Inl BadSlug
      else
        (let file = or_default date today @ [hyphen] @ slug @ md;
             name = or_default title (join [0x20] (split_on hyphen slug))
         in if taken file then Inl NoteExists else Inr (file, note_body lifecycle name)))"

section \<open>A new note passes the gate\<close>

text \<open>No two empty lines in a row: the lines that \<open>squeeze\<close> leaves.\<close>

fun sparse :: "jstr list \<Rightarrow> bool" where
  "sparse (a # b # ls) = (\<not> (a = [] \<and> b = []) \<and> sparse (b # ls))"
| "sparse ls = True"

lemma sparse_Cons: "sparse (a # ls) \<longleftrightarrow> ls = [] \<or> \<not> (a = [] \<and> hd ls = []) \<and> sparse ls"
  by (cases ls) auto

lemma squeeze_head: "squeeze True ls = [] \<or> hd (squeeze True ls) \<noteq> []"
  by (induction ls) auto

lemma sparse_squeeze: "sparse (squeeze e ls)"
  by (induction e ls rule: squeeze.induct) (use squeeze_head in \<open>auto simp: sparse_Cons\<close>)

lemma set_squeeze: "set (squeeze e ls) \<subseteq> set ls"
  by (induction e ls rule: squeeze.induct) auto

definition newline_run :: "jstr \<Rightarrow> nat" where
  "newline_run s = length (takeWhile (\<lambda>v. v = newline) s)"

lemma newline_run_simps [simp]:
  "newline_run [] = 0"
  "newline_run (u # s) = (if u = newline then Suc (newline_run s) else 0)"
  by (simp_all add: newline_run_def)

lemma collapse_short: "newline_run (u # t) < 3 \<Longrightarrow> collapse (u # t) = u # collapse t"
  by (subst collapse.simps) (simp add: Let_def newline_run_def split: if_splits)

lemma collapse_line: "newline \<notin> set l \<Longrightarrow> collapse (l @ s) = l @ collapse s"
  by (induction l) (auto simp: collapse_short)

lemma collapse_join:
  "sparse ls \<Longrightarrow> list_all (\<lambda>l. newline \<notin> set l) ls \<Longrightarrow>
     collapse (join [newline] ls) = join [newline] ls \<and> newline_run (join [newline] ls) \<le> 1 \<and>
     (ls \<noteq> [] \<and> hd ls \<noteq> [] \<longrightarrow> newline_run (join [newline] ls) = 0)"
proof (induction ls)
  case Nil
  show ?case by (simp add: collapse.simps)
next
  case (Cons l ls)
  have nil: "collapse [] = []" by (simp add: collapse.simps)
  have run: "newline_run (l @ s) = (if l = [] then newline_run s else 0)" if "newline \<notin> set l" for s
    using that by (cases l) auto
  show ?case
  proof (cases ls)
    case Nil
    with Cons.prems collapse_line[of l "[]"] run[of "[]"] show ?thesis by (simp add: nil)
  next
    case (Cons m ms)
    have step: "join [newline] (l # ls) = l @ newline # join [newline] ls" using Cons by simp
    have rest: "collapse (join [newline] ls) = join [newline] ls" "newline_run (join [newline] ls) \<le> 1"
      "m \<noteq> [] \<Longrightarrow> newline_run (join [newline] ls) = 0"
      using Cons.IH Cons.prems Cons by simp_all
    have tail: "collapse (newline # join [newline] ls) = newline # join [newline] ls"
      using rest(1,2) by (simp add: collapse_short)
    have l: "newline \<notin> set l" using Cons.prems by simp
    have "newline_run (join [newline] (l # ls)) \<le> (if l = [] then 1 else 0)"
      using rest(3) Cons.prems(1) Cons unfolding step by (simp add: run[OF l])
    then show ?thesis
      unfolding step using collapse_line[OF l, of "newline # join [newline] ls"] tail by (auto simp: step split: if_splits)
  qed
qed

lemma trim_end_snoc_newline: "trim_end (s @ [newline]) = trim_end s"
  by (simp add: trim_end_def is_space_def newline_def)

lemma trim_end_keeps: "s \<noteq> [] \<Longrightarrow> \<not> is_space (last s) \<Longrightarrow> trim_end s = s"
  by (cases s rule: rev_cases) (simp_all add: trim_end_def)

text \<open>The text of a new note is its squeezed lines, when they end with text and an empty line.\<close>

lemma body_plain:
  assumes lines: "squeeze False ls = init @ [l, []]" "list_all (\<lambda>l. newline \<notin> set l) ls"
    and solid: "l \<noteq> []" "\<not> is_space (last l)"
  shows "trim_end (collapse (join [newline] (squeeze False ls))) @ [newline] = join [newline] (squeeze False ls)"
proof -
  have "collapse (join [newline] (squeeze False ls)) = join [newline] (squeeze False ls)"
    using collapse_join[of "squeeze False ls"] sparse_squeeze[of False ls] set_squeeze[of False ls] lines(2)
    by (auto simp: list_all_iff)
  moreover have "join [newline] (squeeze False ls) = join [newline] (init @ [l]) @ [newline]"
    using join_append[of "init @ [l]" "[[]]" "[newline]"] by (simp add: lines(1))
  moreover have "last (join [newline] (init @ [l])) = last l" "join [newline] (init @ [l]) \<noteq> []"
    using solid(1) join_append[of init "[l]" "[newline]"] by (cases "init = []"; simp)+
  ultimately show ?thesis using solid(2) by (simp add: trim_end_snoc_newline trim_end_keeps)
qed

text \<open>The lines of a new note that are neither headings nor the title.\<close>

definition plain_line :: "jstr \<Rightarrow> bool" where
  "plain_line l \<longleftrightarrow> newline \<notin> set l \<and> \<not> prefix fence l \<and> \<not> prefix (js ''## '') l \<and> \<not> prefix (js ''Status:'') l"

lemmas hint_defs = problem_hint_def shipped_hint_def change_hint_def rival_hint_def nothing_hint_def done_hint_def
  cost_hint_def risk_hint_def dash_def

lemma plain_hints [simp]:
  "plain_line problem_hint" "plain_line shipped_hint" "plain_line change_hint" "plain_line rival_hint"
  "plain_line nothing_hint" "plain_line done_hint" "plain_line cost_hint" "plain_line risk_hint" "plain_line []"
  by (simp_all add: plain_line_def hint_defs js_eval fence_def tick_def)

lemma solid_hints [simp]:
  "problem_hint \<noteq> []" "shipped_hint \<noteq> []" "change_hint \<noteq> []" "rival_hint \<noteq> []"
  "nothing_hint \<noteq> []" "done_hint \<noteq> []" "cost_hint \<noteq> []" "risk_hint \<noteq> []"
  by (simp_all add: hint_defs)

lemma hints_end [simp]:
  "\<not> is_space (last change_hint)" "\<not> is_space (last nothing_hint)" "\<not> is_space (last cost_hint)" "\<not> is_space (last risk_hint)"
  by (simp_all add: hint_defs js_eval is_space_def)

text \<open>The sections of a new note, and what the gate finds in them.\<close>

definition own_headings :: "jstr \<Rightarrow> jstr list" where
  "own_headings lifecycle = map heading
     (if lifecycle = js ''proposed''
      then [js ''Problem'', js ''Proposal'', js ''Alternatives considered'', js ''Acceptance criteria'', js ''Risks'']
      else if lifecycle = js ''implemented''
      then [js ''Problem'', js ''Decision'', js ''Alternatives considered'', js ''Consequences'']
      else [js ''Problem'', js ''Proposal'', js ''Alternatives considered''])"

lemma section_found:
  "(name, aliases) \<in> set SECTIONS \<Longrightarrow> h \<in> set hs \<Longrightarrow> h \<in> set aliases \<Longrightarrow> name \<in> set (sectionsOf hs)"
  by (force simp: sectionsOf_def list_ex_iff)

lemma section_names:
  "heading (js ''Proposal'') \<in> set hs \<Longrightarrow> ''proposal'' \<in> set (sectionsOf hs)"
  "heading (js ''Decision'') \<in> set hs \<Longrightarrow> ''decision'' \<in> set (sectionsOf hs)"
  "heading (js ''Alternatives considered'') \<in> set hs \<Longrightarrow> ''alternatives'' \<in> set (sectionsOf hs)"
  "heading (js ''Acceptance criteria'') \<in> set hs \<Longrightarrow> ''acceptance'' \<in> set (sectionsOf hs)"
  "heading (js ''Risks'') \<in> set hs \<Longrightarrow> ''risks'' \<in> set (sectionsOf hs)"
  "heading (js ''Consequences'') \<in> set hs \<Longrightarrow> ''consequences'' \<in> set (sectionsOf hs)"
  by (erule section_found[rotated]; simp add: SECTIONS_def)+

lemma own_sections:
  "set (''alternatives'' # REQUIRED (js ''proposed'')) \<subseteq> set (sectionsOf (own_headings (js ''proposed'')))"
  "set (''alternatives'' # REQUIRED (js ''implemented'')) \<subseteq> set (sectionsOf (own_headings (js ''implemented'')))"
  "set (''alternatives'' # REQUIRED (js ''rejected'')) \<subseteq> set (sectionsOf (own_headings (js ''rejected'')))"
  by (simp_all add: REQUIRED_def section_names own_headings_def)

lemma own_wording:
  "concat (map (\<lambda>h. guard_error (list_ex (\<lambda>banned. prefix banned h) BANNED_IMPLEMENTED) (ProposalWording h))
     (own_headings (js ''implemented''))) = []"
  by (simp add: own_headings_def BANNED_IMPLEMENTED_def heading_def js_eval guard_error_def)

lemma trim_heading: "t \<noteq> [] \<Longrightarrow> \<not> is_space (last t) \<Longrightarrow> trim_end (heading t) = heading t"
  by (simp add: heading_def trim_end_keeps)

lemma squeezed:
  "squeeze False (body_lines (js ''proposed'') title) =
     [title_prefix @ title, [], js ''Status: proposed'', [], heading (js ''Problem''), [], problem_hint, [],
      heading (js ''Proposal''), [], change_hint, [], heading (js ''Alternatives considered''), [], rival_hint,
      nothing_hint, [], heading (js ''Acceptance criteria''), [], done_hint, [], heading (js ''Risks''), [], risk_hint, []]"
  "squeeze False (body_lines (js ''implemented'') title) =
     [title_prefix @ title, [], js ''Status: implemented'', [], heading (js ''Problem''), [], problem_hint, [],
      heading (js ''Decision''), [], shipped_hint, [], heading (js ''Alternatives considered''), [], rival_hint,
      nothing_hint, [], heading (js ''Consequences''), [], cost_hint, []]"
  "squeeze False (body_lines (js ''rejected'') title) =
     [title_prefix @ title, [], status_of (js ''rejected''), [], heading (js ''Problem''), [], problem_hint, [],
      heading (js ''Proposal''), [], change_hint, [], heading (js ''Alternatives considered''), [], rival_hint,
      nothing_hint, []]"
  by (simp_all add: body_lines_def Let_def title_prefix_def heading_def status_of_def rejected_prefix_def flip: js_append)

lemma prose_plain: "list_all (\<lambda>l. \<not> prefix fence l) ls \<Longrightarrow> prose_from False ls = ls"
  by (induction ls) auto

text \<open>What the gate reads in the text of lines that are no fences.\<close>

lemma gate_reads:
  assumes "ls \<noteq> []" "list_all (\<lambda>l. newline \<notin> set l \<and> \<not> prefix fence l) ls"
  shows "split_on newline (join [newline] ls) = ls" "proseLines (join [newline] ls) = ls"
proof -
  show lines: "split_on newline (join [newline] ls) = ls"
    using assms by (intro split_on_join) (auto simp: list_all_iff)
  show "proseLines (join [newline] ls) = ls"
    using assms(2) by (simp add: proseLines_def lines prose_plain list_all_iff)
qed

lemma title_line_plain:
  "newline \<notin> set title \<Longrightarrow> newline \<notin> set (title_prefix @ title) \<and> \<not> prefix fence (title_prefix @ title) \<and>
     \<not> prefix (js ''## '') (title_prefix @ title) \<and> \<not> prefix (js ''Status:'') (title_prefix @ title) \<and>
     GRANDFATHER \<noteq> title_prefix @ title"
  by (simp add: title_prefix_def js_eval fence_def tick_def GRANDFATHER_def)

lemma status_line_plain:
  assumes "lifecycle \<in> set DEFAULT_LIFECYCLES"
  shows "newline \<notin> set (status_of lifecycle)" "\<not> prefix fence (status_of lifecycle)" "\<not> prefix (js ''## '') (status_of lifecycle)"
    "prefix (js ''Status:'') (status_of lifecycle)" "GRANDFATHER \<noteq> status_of lifecycle"
    "\<exists>re. STATUS lifecycle = Some re \<and> re (status_of lifecycle)"
  using assms
  by (auto simp: DEFAULT_LIFECYCLES_def status_of_def STATUS_def rejected_prefix_def GRANDFATHER_def js_eval fence_def tick_def line_end_def)

lemma heading_plain:
  assumes "t \<in> {js ''Problem'', js ''Proposal'', js ''Decision'', js ''Alternatives considered'', js ''Acceptance criteria'',
    js ''Risks'', js ''Consequences''}"
  shows "newline \<notin> set (heading t)" "\<not> prefix fence (heading t)" "prefix (js ''## '') (heading t)"
    "\<not> prefix (js ''Status:'') (heading t)" "GRANDFATHER \<noteq> heading t" "trim_end (heading t) = heading t"
  using assms by (auto simp: heading_def GRANDFATHER_def js_eval fence_def tick_def trim_end_def is_space_def)

lemma hints_not_grandfather:
  "GRANDFATHER \<notin> set [[], problem_hint, shipped_hint, change_hint, rival_hint, nothing_hint, done_hint, cost_hint, risk_hint]"
  by (simp add: GRANDFATHER_def hint_defs js_eval)

definition body_line :: "jstr \<Rightarrow> bool" where
  "body_line l \<longleftrightarrow> newline \<notin> set l \<and> \<not> prefix fence l \<and> \<not> prefix (js ''Status:'') l \<and> l \<noteq> GRANDFATHER"

lemma own_headings_plain:
  assumes "h \<in> set (own_headings lifecycle)"
  shows "body_line h" "trim_end h = h" "prefix (js ''## '') h"
proof -
  obtain t where t: "t \<in> {js ''Problem'', js ''Proposal'', js ''Decision'', js ''Alternatives considered'', js ''Acceptance criteria'',
      js ''Risks'', js ''Consequences''}" "h = heading t"
    using assms unfolding own_headings_def by (fastforce split: if_splits)
  show "body_line h" "trim_end h = h" "prefix (js ''## '') h"
    using heading_plain[OF t(1)] by (simp_all add: t(2) body_line_def del: js_inject)
qed

lemma both_Nil: "xs = [] \<Longrightarrow> ys = [] \<Longrightarrow> xs @ ys = []"
  by simp

lemma no_guard_error: "\<not> b \<Longrightarrow> guard_error b e = []"
  by (simp add: guard_error_def)

lemma well_formed_passes:
  assumes lifecycle: "lifecycle \<in> set DEFAULT_LIFECYCLES"
    and title: "title = u # t" "\<not> is_space u" "newline \<notin> set title"
    and body: "list_all body_line rest" "filter (prefix (js ''## '')) rest = own_headings lifecycle"
    and config: "nc_proseBannedPhrases c = []"
  shows "check_note c (\<lambda>_. None) lifecycle date
    (join [newline] ((title_prefix @ title) # [] # status_of lifecycle # [] # rest)) = []"
proof -
  let ?L = "(title_prefix @ title) # [] # status_of lifecycle # [] # rest"
  note st = status_line_plain[OF lifecycle] and tl = title_line_plain[OF title(3)]
  have reads: "split_on newline (join [newline] ?L) = ?L" "proseLines (join [newline] ?L) = ?L"
    using gate_reads[of ?L] st tl body(1) by (auto simp: body_line_def list_all_iff fence_def)
  have h2: "h2Of ?L = own_headings lifecycle"
    using tl st body(2) own_headings_plain(2)[of _ lifecycle] by (simp add: h2Of_def map_idI)
  have status: "filter (prefix (js ''Status:'')) ?L = [status_of lifecycle]"
    using tl st body(1) by (auto simp: body_line_def list_all_iff filter_empty_conv)
  have grandfather: "GRANDFATHER \<notin> set ?L"
    using tl st body(1) by (auto simp: body_line_def list_all_iff GRANDFATHER_def)
  have sections: "set (''alternatives'' # REQUIRED lifecycle) \<subseteq> set (sectionsOf (own_headings lifecycle))"
    using lifecycle own_sections by (auto simp: DEFAULT_LIFECYCLES_def)
  have first: "case own_headings lifecycle of [] \<Rightarrow> False | h # _ \<Rightarrow> h \<in> set (or_default (map_of SECTIONS ''problem'') [])"
    by (simp add: own_headings_def SECTIONS_def)
  have required: "concat (map (\<lambda>name. guard_error (name \<notin> set (sectionsOf (own_headings lifecycle))) (SectionMissing name)) (REQUIRED lifecycle)) = []"
    using sections by (auto simp: guard_error_def)
  obtain re where re: "STATUS lifecycle = Some re" "re (status_of lifecycle)" using st(6) by blast
  have nth: "line_of ?L 0 = Some (title_prefix @ title)" "line_of ?L 1 = Some []" "line_of ?L 2 = Some (status_of lifecycle)"
    "line_of ?L 3 = Some []" "line_of [status_of lifecycle] 0 = Some (status_of lifecycle)"
    by (simp_all add: line_of_def numeral_2_eq_2 numeral_3_eq_3)
  have title_ok: "title_line (title_prefix @ title)" using title(1,2) by (simp add: title_line_def)
  have alternatives: "alternatives_errors c date True False = []" by (simp add: alternatives_errors_def guard_error_def)
  show ?thesis
    unfolding check_note_def Let_def reads h2 status nth re(1)
  proof (intro both_Nil)
    show "(case Some re of None \<Rightarrow> [] | Some re \<Rightarrow> guard_error (\<not> re (or_default (Some (status_of lifecycle)) [])) StatusGrammar) = []"
      using re(2) by (simp add: no_guard_error)
    show "guard_error (case own_headings lifecycle of [] \<Rightarrow> True
        | first # rest \<Rightarrow> first \<notin> set (or_default (map_of SECTIONS ''problem'') [])) (FirstSection (line_of (own_headings lifecycle) 0)) = []"
      using first by (intro no_guard_error) (simp split: list.splits)
    show "(if lifecycle = js ''implemented''
          then concat (map (\<lambda>h. guard_error (list_ex (\<lambda>banned. prefix banned h) BANNED_IMPLEMENTED) (ProposalWording h)) (own_headings lifecycle))
          else []) = []"
      by (cases "lifecycle = js ''implemented''") (simp_all only: own_wording if_True if_False simp_thms)
    show "alternatives_errors c date (''alternatives'' \<in> set (sectionsOf (own_headings lifecycle))) (GRANDFATHER \<in> set ?L) = []"
      using sections grandfather alternatives by (simp only: set_simps insert_subset simp_thms)
  qed (use required title_ok config in \<open>simp_all add: no_guard_error nth\<close>)
qed

lemma hints_body:
  "body_line l" if "l \<in> set [[], problem_hint, shipped_hint, change_hint, rival_hint, nothing_hint, done_hint, cost_hint, risk_hint]"
proof -
  have "plain_line l" using that by auto
  moreover have "l \<noteq> GRANDFATHER" using that hints_not_grandfather by blast
  ultimately show ?thesis by (simp add: plain_line_def body_line_def)
qed

lemma heading_no_hint:
  "\<not> prefix (js ''## '') l" if "l \<in> set [[], problem_hint, shipped_hint, change_hint, rival_hint, nothing_hint, done_hint, cost_hint, risk_hint]"
  using that plain_hints by (auto simp: plain_line_def)

lemma squeezed_shape:
  fixes lifecycle title
  defines "sq \<equiv> squeeze False (body_lines lifecycle title)"
  assumes "lifecycle \<in> set DEFAULT_LIFECYCLES"
  shows "sq = (title_prefix @ title) # [] # status_of lifecycle # [] # drop 4 sq"
    "list_all body_line (drop 4 sq)" "filter (prefix (js ''## '')) (drop 4 sq) = own_headings lifecycle"
    "sq = butlast (butlast sq) @ [last (butlast sq), []]" "last (butlast sq) \<noteq> []" "\<not> is_space (last (last (butlast sq)))"
proof -
  have status: "status_of (js ''proposed'') = js ''Status: proposed''" "status_of (js ''implemented'') = js ''Status: implemented''"
    by (simp_all add: status_of_def flip: js_append)
  have headings: "body_line (heading t) \<and> prefix (js ''## '') (heading t)"
    if "t \<in> {js ''Problem'', js ''Proposal'', js ''Decision'', js ''Alternatives considered'', js ''Acceptance criteria'',
      js ''Risks'', js ''Consequences''}" for t
    using heading_plain[OF that] by (simp add: body_line_def)
  note facts = status squeezed headings hints_body heading_no_hint own_headings_def
  consider (p) "lifecycle = js ''proposed''" | (i) "lifecycle = js ''implemented''" | (r) "lifecycle = js ''rejected''"
    using assms(2) by (auto simp: DEFAULT_LIFECYCLES_def)
  then show "sq = (title_prefix @ title) # [] # status_of lifecycle # [] # drop 4 sq"
    "list_all body_line (drop 4 sq)" "filter (prefix (js ''## '')) (drop 4 sq) = own_headings lifecycle"
    "sq = butlast (butlast sq) @ [last (butlast sq), []]" "last (butlast sq) \<noteq> []" "\<not> is_space (last (last (butlast sq)))"
    by (cases; simp add: sq_def facts)+
qed

text \<open>A note that the generator writes passes the format gate as it is, in each of the three default
  lifecycles, when its title begins with a character that is no space and is one line, the project
  bans no phrase and the note has no translation.\<close>

lemma created_note_passes:
  assumes "lifecycle \<in> set DEFAULT_LIFECYCLES"
    and title: "title = u # t" "\<not> is_space u" "newline \<notin> set title"
    and "nc_proseBannedPhrases c = []"
  shows "check_note c (\<lambda>_. None) lifecycle date (note_body lifecycle title) = []"
proof -
  have newlines: "list_all (\<lambda>l. newline \<notin> set l) (body_lines lifecycle title)"
    using status_line_plain(1)[OF assms(1)] title_line_plain[OF title(3)] plain_hints heading_plain(1)
    by (simp add: body_lines_def Let_def plain_line_def)
  note shape = squeezed_shape[OF assms(1), of title]
  have "note_body lifecycle title =
      join [newline] ((title_prefix @ title) # [] # status_of lifecycle # [] # drop 4 (squeeze False (body_lines lifecycle title)))"
    unfolding note_body_def body_plain[OF shape(4) newlines shape(5,6)] shape(1)[symmetric] by (rule refl)
  then show ?thesis using well_formed_passes[OF assms(1) title shape(2,3) assms(5)] by simp
qed

text \<open>The title that is made of the words of the topic will do.\<close>

lemma topic_title:
  assumes "slug_ok slug"
  shows "\<exists>u t. join [0x20] (split_on hyphen slug) = u # t \<and> \<not> is_space u \<and> newline \<notin> set (u # t)"
proof -
  have part: "p \<noteq> [] \<and> list_all (\<lambda>u. is_digit u \<or> 97 \<le> u \<and> u \<le> 122) p" if "p \<in> set (split_on hyphen slug)" for p
    using assms that by (simp add: slug_ok_def list_all_iff)
  obtain p ps where parts: "split_on hyphen slug = p # ps" by (cases "split_on hyphen slug") auto
  have "p \<noteq> []" "list_all (\<lambda>u. is_digit u \<or> 97 \<le> u \<and> u \<le> 122) p" using part[of p] parts by simp_all
  then obtain u p' where u: "p = u # p'" "\<not> is_space u" by (cases p) (auto simp: is_digit_def is_space_def)
  have free: "newline \<notin> set (join [0x20] qs)" if "set qs \<subseteq> set (split_on hyphen slug)" for qs
    using that
  proof (induction "[0x20 :: nat]" qs rule: join.induct)
    case (2 q)
    then show ?case using part[of q] by (auto simp: list_all_iff is_digit_def newline_def)
  next
    case (3 q r qs)
    then show ?case using part[of q] by (auto simp: list_all_iff is_digit_def newline_def)
  qed simp
  obtain t where "join [0x20] (split_on hyphen slug) = u # t" unfolding parts u(1) by (cases ps) auto
  then show ?thesis using u(2) free[of "split_on hyphen slug"] by simp
qed

end
