(* ===== verification/NotesScope.thy ===== *)
theory NotesScope
  imports NotesLib
begin

text \<open>
  Where the notes of a repository are (\<open>loadNotes\<close> and \<open>describe\<close> of
  .agents/skills/hx-agent-notes/scripts/notes-lib.ts). An absolute path is the list of its names;
  the file system is a test for existence and the parsed configuration files; the three environment
  variables are options.
\<close>

section \<open>Paths\<close>

definition dot_name :: jstr where "dot_name = js ''.''"
definition up_name :: jstr where "up_name = js ''..''"

definition walk_name :: "jstr list \<Rightarrow> jstr \<Rightarrow> jstr list" where
  "walk_name cur name =
     (if name = [] \<or> name = dot_name then cur else if name = up_name then butlast cur else cur @ [name])"

text \<open>\<open>resolve(cwd, path)\<close> and \<open>relative(from, to)\<close> of POSIX paths.\<close>

definition resolve_path :: "jstr list \<Rightarrow> jstr \<Rightarrow> jstr list" where
  "resolve_path cwd path = foldl walk_name (if prefix [slash] path then [] else cwd) (split_on slash path)"

fun relative_names :: "jstr list \<Rightarrow> jstr list \<Rightarrow> jstr list" where
  "relative_names (a # from) (b # to) =
     (if a = b then relative_names from to else replicate (Suc (length from)) up_name @ b # to)"
| "relative_names from to = replicate (length from) up_name @ to"

definition relative_path :: "jstr list \<Rightarrow> jstr list \<Rightarrow> jstr" where
  "relative_path from to = join [slash] (relative_names from to)"

definition absolute :: "jstr list \<Rightarrow> jstr" where
  "absolute path = slash # join [slash] path"

section \<open>Loading\<close>

text \<open>A configuration file: every field may be missing.\<close>

record RawBacklinks =
  rb_enabled :: "bool option"
  rb_required :: "bool option"
  rb_roots :: "jstr list option"
  rb_exclude :: "jstr list option"
  rb_extensions :: "jstr list option"

record RawConfig =
  rc_root :: "jstr option"
  rc_archive :: "jstr option"
  rc_lifecycles :: "jstr list option"
  rc_classes :: "jstr list option"
  rc_rootAllowlist :: "jstr list option"
  rc_translationSuffixes :: "jstr list option"
  rc_formatAdopted :: "jstr option"
  rc_proseBannedPhrases :: "jstr list option"
  rc_coverage :: "RawCoverage option"
  rc_backlinks :: "RawBacklinks option"

definition merge_backlinks :: "RawBacklinks option \<Rightarrow> BacklinkConfig" where
  "merge_backlinks raw =
     (let d = nc_backlinks DEFAULT_CONFIG in
      case raw of
        None \<Rightarrow> d
      | Some r \<Rightarrow> \<lparr>bl_enabled = or_default (rb_enabled r) (bl_enabled d),
          bl_required = or_default (rb_required r) (bl_required d),
          bl_roots = or_default (rb_roots r) (bl_roots d),
          bl_exclude = or_default (rb_exclude r) (bl_exclude d),
          bl_extensions = or_default (rb_extensions r) (bl_extensions d)\<rparr>)"

definition merge_config :: "RawConfig \<Rightarrow> NotesConfig" where
  "merge_config raw =
     (let d = DEFAULT_CONFIG in
      \<lparr>nc_root = or_default (rc_root raw) (nc_root d),
       nc_archive = or_default (rc_archive raw) (nc_archive d),
       nc_lifecycles = or_default (rc_lifecycles raw) (nc_lifecycles d),
       nc_classes = or_default (rc_classes raw) (nc_classes d),
       nc_rootAllowlist = or_default (rc_rootAllowlist raw) (nc_rootAllowlist d),
       nc_translationSuffixes = or_default (rc_translationSuffixes raw) (nc_translationSuffixes d),
       nc_formatAdopted = or_default (rc_formatAdopted raw) (nc_formatAdopted d),
       nc_proseBannedPhrases = or_default (rc_proseBannedPhrases raw) (nc_proseBannedPhrases d),
       nc_coverage = merge_coverage (rc_coverage raw),
       nc_backlinks = merge_backlinks (rc_backlinks raw)\<rparr>)"

definition CONFIG_NAMES :: "jstr list" where
  "CONFIG_NAMES = [js ''notes.config.json'', js ''agent-notes.config.json'']"

definition agents_dir :: jstr where "agents_dir = js ''.agents''"

record LoadedNotes =
  ln_repoRoot :: "jstr list"
  ln_notesRoot :: "jstr list"
  ln_configPath :: "jstr list option"
  ln_gitRoot :: "jstr list option"
  ln_config :: NotesConfig

text \<open>The configuration file of a directory.\<close>

definition config_in :: "(jstr list \<Rightarrow> bool) \<Rightarrow> jstr list \<Rightarrow> jstr list option" where
  "config_in exists dir = find exists (map (\<lambda>name. dir @ [agents_dir, name]) CONFIG_NAMES)"

definition find_config :: "(jstr list \<Rightarrow> bool) \<Rightarrow> jstr option \<Rightarrow> jstr list option \<Rightarrow> jstr list \<Rightarrow> jstr list option" where
  "find_config exists explicit gitRoot cwd =
     (case Option.bind explicit nonempty of
        Some path \<Rightarrow> Some (resolve_path cwd path)
      | None \<Rightarrow> findUp 12 (config_in exists) gitRoot cwd)"

definition loadNotes ::
  "(jstr list \<Rightarrow> bool) \<Rightarrow> (jstr list \<Rightarrow> RawConfig) \<Rightarrow> jstr option \<Rightarrow> jstr option \<Rightarrow> jstr list \<Rightarrow> LoadedNotes" where
  "loadNotes exists parsed explicit envRoot cwd =
     (let gitRoot = findGitRoot (\<lambda>dir. exists (dir @ [git_entry])) cwd;
          configPath = find_config exists explicit gitRoot cwd;
          config = (case configPath of
              Some path \<Rightarrow> if exists path then merge_config (parsed path) else DEFAULT_CONFIG
            | None \<Rightarrow> DEFAULT_CONFIG);
          repoRoot = (case configPath of Some path \<Rightarrow> butlast (butlast path) | None \<Rightarrow> or_default gitRoot cwd);
          notesRoot = (case Option.bind envRoot nonempty of
              Some path \<Rightarrow> resolve_path cwd path
            | None \<Rightarrow> resolve_path repoRoot (nc_root config))
      in \<lparr>ln_repoRoot = repoRoot, ln_notesRoot = notesRoot, ln_configPath = configPath, ln_gitRoot = gitRoot,
          ln_config = config\<rparr>)"

text \<open>\<open>describe\<close>: the notes root below the repository, itself when it is the repository.\<close>

definition describe :: "LoadedNotes \<Rightarrow> jstr" where
  "describe l =
     (let rel = toPosix (relative_path (ln_repoRoot l) (ln_notesRoot l)) in
      if rel = [] then absolute (ln_notesRoot l) else rel)"

section \<open>Relative paths lead back\<close>

text \<open>A path that \<open>resolve\<close> can give: its names are names of files.\<close>

definition canonical_path :: "jstr list \<Rightarrow> bool" where
  "canonical_path path \<longleftrightarrow> list_all (\<lambda>name. name \<notin> {[], dot_name, up_name} \<and> slash \<notin> set name) path"

lemma walk_names: "canonical_path path \<Longrightarrow> foldl walk_name cur path = cur @ path"
  by (induction path arbitrary: cur) (auto simp: canonical_path_def walk_name_def)

lemma walk_ups: "foldl walk_name cur (replicate n up_name) = take (length cur - n) cur"
  by (induction n arbitrary: cur)
    (auto simp: walk_name_def dot_name_def up_name_def butlast_conv_take min_def)

lemma walk_relative:
  "canonical_path to \<Longrightarrow> foldl walk_name (cur @ from) (relative_names from to) = cur @ to"
proof (induction "from" to arbitrary: cur rule: relative_names.induct)
  case (1 a "from" b to)
  have to: "canonical_path to" "canonical_path (b # to)" using 1(2) by (simp_all add: canonical_path_def)
  show ?case
  proof (cases "a = b")
    case True
    then show ?thesis using 1(1)[OF True to(1), of "cur @ [a]"] by simp
  next
    case False
    have "foldl walk_name (foldl walk_name (cur @ a # from) (replicate (Suc (length from)) up_name)) (b # to) = cur @ b # to"
      unfolding walk_ups walk_names[OF to(2)] by simp
    then show ?thesis using False by (simp only: relative_names.simps if_False foldl_append)
  qed
qed (simp_all add: walk_names walk_ups)

lemma set_relative_names: "set (relative_names from to) \<subseteq> insert up_name (set to)"
  by (induction "from" to rule: relative_names.induct) auto

lemma relative_names_cases:
  assumes "canonical_path to" "name \<in> set (relative_names from to)"
  shows "name \<noteq> [] \<and> slash \<notin> set name"
proof -
  have "name = up_name \<or> name \<in> set to" using assms(2) set_relative_names by blast
  moreover have "up_name \<noteq> [] \<and> slash \<notin> set up_name" by (simp add: up_name_def js_eval slash_def)
  ultimately show ?thesis using assms(1) by (auto simp: canonical_path_def list_all_iff)
qed

text \<open>The relative path from one directory to another, resolved in the first, is the second: what
  the gates print and compare relative to a directory names the file they mean, as long as the names
  on the way to it are names of files.\<close>

theorem relative_leads_back:
  assumes "canonical_path to"
  shows "resolve_path from (relative_path from to) = to"
proof (cases "relative_names from to = []")
  case True
  then show ?thesis using walk_relative[OF assms, of "[]" "from"]
    by (simp add: relative_path_def resolve_path_def walk_name_def)
next
  case False
  have names: "slash \<notin> set name" "name \<noteq> []" if "name \<in> set (relative_names from to)" for name
    using relative_names_cases[OF assms that] by simp_all
  have "split_on slash (relative_path from to) = relative_names from to"
    unfolding relative_path_def using False names(1) by (rule split_on_join)
  moreover have "\<not> prefix [slash] (relative_path from to)"
  proof -
    obtain name ns where ns: "relative_names from to = name # ns" using False by (cases "relative_names from to") auto
    then obtain u rest where u: "name = u # rest" "u \<noteq> slash" using names[of name] by (cases name) auto
    then show ?thesis by (cases ns) (simp_all add: relative_path_def ns)
  qed
  ultimately show ?thesis using walk_relative[OF assms, of "[]" "from"] by (simp add: resolve_path_def)
qed

theorem relative_leads_back_witness:
  "resolve_path [js ''a'', js ''b''] (relative_path [js ''a'', js ''b''] [js ''a'', js ''c.md'']) = [js ''a'', js ''c.md'']"
  by (rule relative_leads_back) (simp add: canonical_path_def js_eval dot_name_def up_name_def slash_def)

section \<open>Nothing above the work tree is read\<close>

lemma butlast_prefix: "prefix d (butlast cur) \<Longrightarrow> prefix d cur"
  by (meson prefix_order.trans prefixeq_butlast)

lemma prefix_butlast_or: "prefix d cur \<longleftrightarrow> d = cur \<or> (cur \<noteq> [] \<and> prefix d (butlast cur))"
  by (cases cur rule: rev_cases) auto

lemma climb_nearest:
  "climb found n cur = Some g \<Longrightarrow> found g \<and> prefix g cur \<and> (\<forall>d. prefix d cur \<and> found d \<longrightarrow> prefix d g)"
proof (induction n arbitrary: cur)
  case (Suc n)
  show ?case
  proof (cases "found cur")
    case False
    with Suc.prems have up: "cur \<noteq> []" "climb found n (butlast cur) = Some g" by (auto split: if_splits)
    have "prefix d g" if "prefix d cur" "found d" for d
      using that False Suc.IH[OF up(2)] prefix_butlast_or[of d cur] by auto
    then show ?thesis using Suc.IH[OF up(2)] butlast_prefix by blast
  qed (use Suc.prems in auto)
qed simp

lemma findUp_nearest:
  assumes "findUp n matcher boundary cur = Some hit"
  shows "\<exists>d. matcher d = Some hit \<and> prefix d cur \<and> (\<forall>d'. prefix d' cur \<and> matcher d' \<noteq> None \<longrightarrow> prefix d' d) \<and>
    (\<forall>g. boundary = Some g \<and> prefix g cur \<longrightarrow> prefix g d)"
  using assms
proof (induction n arbitrary: cur)
  case (Suc n)
  show ?case
  proof (cases "matcher cur")
    case None
    with Suc.prems have up: "cur \<noteq> []" "boundary \<noteq> Some cur" "findUp n matcher boundary (butlast cur) = Some hit"
      by (auto split: if_splits)
    from Suc.IH[OF up(3)] obtain d where d: "matcher d = Some hit" "prefix d (butlast cur)"
      "\<forall>d'. prefix d' (butlast cur) \<and> matcher d' \<noteq> None \<longrightarrow> prefix d' d"
      "\<forall>g. boundary = Some g \<and> prefix g (butlast cur) \<longrightarrow> prefix g d" by blast
    have "prefix g d" if "boundary = Some g" "prefix g cur" for g
      using that up(2) d(4) prefix_butlast_or[of g cur] by blast
    moreover have "prefix d' d" if "prefix d' cur" "matcher d' \<noteq> None" for d'
      using that None d(3) prefix_butlast_or[of d' cur] by force
    ultimately show ?thesis using d(1) butlast_prefix[OF d(2)] by blast
  qed (use Suc.prems in auto)
qed simp

lemma findUp_none:
  assumes "findUp n matcher boundary cur = None" "prefix d cur" "length cur < length d + n"
    and "\<And>g. boundary = Some g \<Longrightarrow> prefix g d"
  shows "matcher d = None"
  using assms
proof (induction n arbitrary: cur)
  case 0
  then show ?case using prefix_length_le[of d cur] by simp
next
  case (Suc n)
  show ?case
  proof (cases "d = cur")
    case False
    then have up: "prefix d (butlast cur)" "cur \<noteq> []" using Suc.prems(2) prefix_butlast_or[of d cur] by auto
    have "boundary \<noteq> Some cur" using Suc.prems(2,4) False prefix_order.antisym by blast
    then have "findUp n matcher boundary (butlast cur) = None" using Suc.prems(1) up(2) by (auto split: option.splits)
    moreover have "length (butlast cur) < length d + n" using Suc.prems(3) up(2) by (cases cur rule: rev_cases) auto
    ultimately show ?thesis using Suc.IH[OF _ up(1)] Suc.prems(4) by blast
  qed (use Suc.prems(1) in \<open>auto split: option.splits\<close>)
qed

lemma find_Some_in: "find P xs = Some x \<Longrightarrow> P x \<and> x \<in> set xs"
  by (induction xs) (auto split: if_splits)

lemma config_in_Some: "config_in exists d = Some p \<Longrightarrow> exists p \<and> p \<in> (\<lambda>name. d @ [agents_dir, name]) ` set CONFIG_NAMES"
  unfolding config_in_def by (drule find_Some_in) simp

text \<open>
  C19: Without an explicit configuration, everything a gate reads belongs to the work tree it was
  started in: the repository root lies between the root of the work tree and the current directory,
  the configuration is one of the two files of the nearest directory that has one, at most eleven
  levels up, and it is the default configuration when none of these directories has one.
\<close>

theorem discovery_confined:
  assumes implicit: "Option.bind explicit nonempty = None"
    and l: "l = loadNotes exists parsed explicit envRoot cwd" "ln_gitRoot l = Some g"
  shows "prefix g (ln_repoRoot l) \<and> prefix (ln_repoRoot l) cwd \<and>
    (case ln_configPath l of
       Some p \<Rightarrow> exists p \<and> p \<in> (\<lambda>name. ln_repoRoot l @ [agents_dir, name]) ` set CONFIG_NAMES \<and>
         ln_config l = merge_config (parsed p) \<and>
         (\<forall>d. prefix d cwd \<and> config_in exists d \<noteq> None \<longrightarrow> prefix d (ln_repoRoot l))
     | None \<Rightarrow> ln_repoRoot l = g \<and> ln_config l = DEFAULT_CONFIG \<and>
         (\<forall>d. prefix g d \<and> prefix d cwd \<and> length cwd < length d + 12 \<longrightarrow> config_in exists d = None))"
proof -
  have git: "findGitRoot (\<lambda>dir. exists (dir @ [git_entry])) cwd = Some g"
    and config: "ln_configPath l = findUp 12 (config_in exists) (Some g) cwd"
    using l implicit by (simp_all add: loadNotes_def find_config_def Let_def)
  have g: "prefix g cwd" using climb_nearest git by (simp add: findGitRoot_def)
  show ?thesis
  proof (cases "ln_configPath l")
    case None
    have none: "config_in exists d = None" if "prefix g d" "prefix d cwd" "length cwd < length d + 12" for d
      using findUp_none[of 12 "config_in exists" "Some g" cwd d] None config that by simp
    have "ln_repoRoot l = g" "ln_config l = DEFAULT_CONFIG"
      using None l implicit git by (simp_all add: loadNotes_def Let_def)
    with none None g show ?thesis by simp
  next
    case (Some p)
    then obtain d where d: "config_in exists d = Some p" "prefix d cwd" "prefix g d"
      "\<forall>d'. prefix d' cwd \<and> config_in exists d' \<noteq> None \<longrightarrow> prefix d' d"
      using findUp_nearest[of 12 "config_in exists" "Some g" cwd p] config g by auto
    note p = config_in_Some[OF d(1)]
    have "ln_repoRoot l = butlast (butlast p)" "ln_config l = merge_config (parsed p)"
      using Some l(1) p by (simp_all add: loadNotes_def Let_def)
    moreover have "butlast (butlast p) = d" using p by (auto simp: butlast_append)
    ultimately show ?thesis using Some d p by simp
  qed
qed

text \<open>A checkout with a configuration file, and a gate started two levels below it.\<close>

definition sample_exists :: "jstr list \<Rightarrow> bool" where
  "sample_exists path \<longleftrightarrow> path \<in> {[js ''r'', git_entry], [js ''r'', agents_dir, js ''notes.config.json'']}"

definition plain_config :: RawConfig where
  "plain_config = \<lparr>rc_root = None, rc_archive = None, rc_lifecycles = None, rc_classes = None, rc_rootAllowlist = None,
     rc_translationSuffixes = None, rc_formatAdopted = None, rc_proseBannedPhrases = None, rc_coverage = None,
     rc_backlinks = None\<rparr>"

lemma sample_git: "findGitRoot (\<lambda>dir. sample_exists (dir @ [git_entry])) [js ''r'', js ''a'', js ''b''] = Some [js ''r'']"
  by (simp add: findGitRoot_def sample_exists_def git_entry_def agents_dir_def eval_nat_numeral)

theorem discovery_confined_witness:
  "ln_repoRoot (loadNotes sample_exists (\<lambda>_. plain_config) None None [js ''r'', js ''a'', js ''b'']) = [js ''r'']"
proof -
  let ?l = "loadNotes sample_exists (\<lambda>_. plain_config) None None [js ''r'', js ''a'', js ''b'']"
  have git: "ln_gitRoot ?l = Some [js ''r'']" using sample_git by (simp add: loadNotes_def Let_def)
  have config: "config_in sample_exists d \<noteq> None \<longleftrightarrow> d = [js ''r'']" for d
    by (auto simp: config_in_def sample_exists_def CONFIG_NAMES_def agents_dir_def git_entry_def)
  from discovery_confined[OF _ refl git] have d: "prefix [js ''r''] (ln_repoRoot ?l)" "prefix (ln_repoRoot ?l) [js ''r'', js ''a'', js ''b'']"
    by simp_all
  show ?thesis
    using discovery_confined[OF _ refl git] config
    by (cases "ln_configPath ?l") (auto simp: CONFIG_NAMES_def sample_exists_def git_entry_def agents_dir_def)
qed

text \<open>A configuration file twelve levels up is not found, although it is in the work tree.\<close>

lemma deep_directory_default:
  assumes "length dirs = 12" "\<And>d. config_in exists d \<noteq> None \<Longrightarrow> d = top_dir"
  shows "findUp 12 (config_in exists) (Some top_dir) (top_dir @ dirs) = None"
proof -
  have "findUp n (config_in exists) (Some top_dir) (top_dir @ ds) = None" if "length ds = n" for n ds
    using that
  proof (induction n arbitrary: ds)
    case (Suc n)
    then obtain es e where es: "ds = es @ [e]" "length es = n" by (cases ds rule: rev_cases) auto
    have "config_in exists (top_dir @ ds) = None" using assms(2)[of "top_dir @ ds"] Suc.prems by (cases "config_in exists (top_dir @ ds)") auto
    then show ?case using Suc.IH[OF es(2)] es by (simp add: butlast_append)
  qed simp
  then show ?thesis using assms(1) by blast
qed

end
