(* ===== verification/NotesGates.thy ===== *)
theory NotesGates
  imports NotesFormat NotesScope
begin

text \<open>
  The gates over a change (.agents/skills/hx-agent-notes/scripts/verify-coverage.ts), over the tree
  of notes (verify-tree.ts) and over all of them (verify-all.ts). Git is a parameter: the standard
  output of a command, None for a status other than 0. What a gate prints is a constructor.
\<close>

section \<open>Coverage\<close>

text \<open>\<open>git(args)\<close>: the lines of the output, trimmed, without the empty ones.\<close>

definition git_lines :: "(jstr list \<Rightarrow> jstr option) \<Rightarrow> string list \<Rightarrow> jstr list \<Rightarrow> jstr list" where
  "git_lines git args refs =
     (case git (map js args @ refs) of
        None \<Rightarrow> []
      | Some out \<Rightarrow> filter (\<lambda>line. line \<noteq> []) (map trim (split_on newline out)))"

datatype coverage_mode = ExplicitList | StagedIndex | DiffAgainst jstr

definition coverage_flags :: "jstr list" where
  "coverage_flags = map js [''--repo'', ''--base'', ''--head'', ''--files'']"

definition explicit_files :: "jstr list \<Rightarrow> jstr list option" where
  "explicit_files argv =
     (case dropWhile (\<lambda>item. item \<noteq> js ''--files'') argv of
        [] \<Rightarrow> None
      | _ # rest \<Rightarrow> Some (filter (\<lambda>item. \<not> prefix dashes item) rest))"

definition changedFiles :: "(jstr list \<Rightarrow> jstr option) \<Rightarrow> jstr option \<Rightarrow> jstr list \<Rightarrow> jstr list \<times> coverage_mode" where
  "changedFiles git envBase argv =
     (let args = parseArgv argv coverage_flags in
      case explicit_files argv of
        Some files \<Rightarrow> (files, ExplicitList)
      | None \<Rightarrow>
          if js ''--staged'' \<in> set (pa_flags args)
          then (git_lines git [''diff'', ''--cached'', ''--name-only'', ''--diff-filter=ACMR''] [], StagedIndex)
          else
            (let base = or_default (flag_value args ''--base'') (or_default envBase (js ''HEAD''));
                 range = Option.bind (flag_value args ''--head'') nonempty;
                 diff = git_lines git [''diff'', ''--name-only'', ''--diff-filter=ACMR'']
                   (case range of Some h \<Rightarrow> [base, h] | None \<Rightarrow> [base]);
                 untracked = (case range of Some h \<Rightarrow> []
                   | None \<Rightarrow> git_lines git [''ls-files'', ''--others'', ''--exclude-standard''] [])
             in (diff @ untracked, DiffAgainst base)))"

definition inScope :: "jstr \<Rightarrow> bool" where
  "inScope file \<longleftrightarrow> \<not> prefix (js ''../'') file \<and> \<not> prefix [slash] file"

definition guarded_file :: "CoverageConfig \<Rightarrow> jstr \<Rightarrow> bool" where
  "guarded_file c file \<longleftrightarrow> matchesAny file (cov_guarded c) \<and> \<not> matchesAny file (cov_exempt c)"

definition contract_files :: "jstr list" where "contract_files = map js [''AGENTS.md'', ''CLAUDE.md'']"

definition notes_prefix :: "LoadedNotes \<Rightarrow> jstr" where "notes_prefix l = describe l @ [slash]"

text \<open>Whether a changed file is a note.\<close>

definition is_note_change :: "NotesConfig \<Rightarrow> jstr \<Rightarrow> jstr \<Rightarrow> bool" where
  "is_note_change c notesPrefix file \<longleftrightarrow>
     prefix notesPrefix file \<and> suffix md file \<and> \<not> is_translation c file \<and>
     last (split_on slash (drop (length notesPrefix) file)) \<notin> set contract_files"

text \<open>The first line with the label in a changed file of the notes; \<open>contents\<close> is None for a file that is not there.\<close>

fun exempt_reason :: "(jstr \<Rightarrow> jstr option) \<Rightarrow> jstr \<Rightarrow> jstr \<Rightarrow> jstr list \<Rightarrow> (jstr \<times> jstr) option" where
  "exempt_reason contents label notesPrefix [] = None"
| "exempt_reason contents label notesPrefix (file # files) =
     (if \<not> prefix notesPrefix file then exempt_reason contents label notesPrefix files
      else
        (case Option.bind (contents file) (\<lambda>t. find (\<lambda>line. str_includes line label) (split_on newline t)) of
           Some line \<Rightarrow> Some (file, take 160 (trim line))
         | None \<Rightarrow> exempt_reason contents label notesPrefix files))"

datatype coverage_verdict =
    CoverageSkipped | CoverageDisabled | NothingGuarded coverage_mode nat nat
  | NoteInChange nat coverage_mode nat | ChangeExempted jstr jstr | NoteMissing "jstr list" coverage_mode nat

definition coverage_gate ::
  "LoadedNotes \<Rightarrow> jstr option \<Rightarrow> (jstr \<Rightarrow> jstr option) \<Rightarrow> jstr list \<times> coverage_mode \<Rightarrow> coverage_verdict" where
  "coverage_gate l envCoverage contents changed =
     (let c = ln_config l; cov = nc_coverage c in
      if envCoverage = Some (js ''off'') then CoverageSkipped
      else if \<not> cov_enabled cov then CoverageDisabled
      else
        (let (raw, mode) = changed; files = filter inScope raw; ignored = length raw - length files;
             guarded = filter (guarded_file cov) files; notesPrefix = notes_prefix l
         in if guarded = [] then NothingGuarded mode ignored (length files)
            else if list_ex (is_note_change c notesPrefix) files then NoteInChange (length guarded) mode ignored
            else
              (case exempt_reason contents (cov_label cov) notesPrefix files of
                 Some (file, line) \<Rightarrow> ChangeExempted file line
               | None \<Rightarrow> NoteMissing guarded mode ignored)))"

text \<open>The exit status is 0.\<close>

definition coverage_passes :: "coverage_verdict \<Rightarrow> bool" where
  "coverage_passes v \<longleftrightarrow> (case v of NoteMissing guarded mode ignored \<Rightarrow> False | _ \<Rightarrow> True)"

section \<open>The tree\<close>

datatype gate_error = Structure tree_error | LinkBroken jstr jstr | LooseFile jstr jstr

text \<open>The text of a file of the tree.\<close>

fun file_at :: "(jstr \<times> fnode) list \<Rightarrow> jstr list \<Rightarrow> jstr option" where
  "file_at es [] = None"
| "file_at es (name # names) =
     (case entry es name of
        Some (File contents) \<Rightarrow> if names = [] then Some contents else None
      | Some (Dir sub) \<Rightarrow> file_at sub names
      | _ \<Rightarrow> None)"

text \<open>The links of one note, whose absolute path is \<open>full\<close>.\<close>

definition link_errors :: "jstr list \<Rightarrow> (jstr list \<Rightarrow> bool) \<Rightarrow> jstr \<Rightarrow> jstr \<Rightarrow> gate_error list" where
  "link_errors notesRoot exists rel contents =
     (let full = resolve_path notesRoot rel in
      concat (map (\<lambda>(label, target).
        if isExternalLink target then []
        else
          (let withoutAnchor = hd (split_on 0x23 target) in
           if withoutAnchor = [] then []
           else
             (let path = resolve_path (butlast full) withoutAnchor in
              if \<not> prefix (absolute notesRoot) (absolute path) then []
              else if \<not> exists path then [LinkBroken rel target] else [])))
        (markdownLinks contents)))"

definition loose_errors :: "jstr \<Rightarrow> jstr list \<Rightarrow> gate_error list" where
  "loose_errors lifecycle rels = concat (map (\<lambda>rel.
     if suffix md rel then []
     else
       (let base = last (split_on slash rel) in
        if base \<in> set contract_files then []
        else if suffix (js ''.i18n.yaml'') rel \<or> prefix dot_name base then [] else [LooseFile lifecycle rel])) rels)"

text \<open>\<open>exists\<close> is the file system at large; the walk stops at nested work trees, the search for loose files does not.\<close>

definition tree_gate :: "LoadedNotes \<Rightarrow> (jstr list \<Rightarrow> bool) \<Rightarrow> (jstr \<times> fnode) list option \<Rightarrow> gate_error list" where
  "tree_gate l exists tree =
     (let c = ln_config l; (notes, errors) = walkNotes c (ln_gitRoot l \<noteq> None) tree; es = or_default tree [] in
      map Structure errors @
      concat (map (\<lambda>note. link_errors (ln_notesRoot l) exists (an_rel note)
        (or_default (file_at es (split_on slash (an_rel note))) [])) notes) @
      concat (map (\<lambda>lifecycle. loose_errors lifecycle (filesUnder False (entry es lifecycle))) (nc_lifecycles c)))"

section \<open>All gates\<close>

definition forwarded :: "jstr option \<Rightarrow> jstr list \<Rightarrow> jstr list" where
  "forwarded repo extra = (case repo of Some dir \<Rightarrow> [js ''--repo'', dir] | None \<Rightarrow> []) @ extra"

text \<open>\<open>here\<close> turns the option \<open>--repo\<close> into the absolute path that is passed on.\<close>

definition all_gates :: "(jstr \<Rightarrow> jstr) \<Rightarrow> jstr list \<Rightarrow> (string \<times> string \<times> jstr list) list" where
  "all_gates here argv =
     (let args = parseArgv argv (map js [''--repo'', ''--base'']);
          repo = map_option here (Option.bind (flag_value args ''--repo'') nonempty);
          staged = (js ''--staged'' \<in> set (pa_flags args));
          baseRef = map_option (\<lambda>b. if b = [] then js ''HEAD'' else b) (flag_value args ''--base'');
          coverageArgs = (if staged then [js ''--staged''] else case baseRef of Some b \<Rightarrow> [js ''--base'', b] | None \<Rightarrow> []);
          archiveArgs = (case baseRef of Some b \<Rightarrow> [js ''--baseline'', b] | None \<Rightarrow> [])
      in map (\<lambda>(name, script, extra). (name, script, forwarded repo extra))
        [(''tree'', ''verify-tree.ts'', []), (''format'', ''verify-format.ts'', []),
         (''backlinks'', ''verify-backlinks.ts'', []), (''archive'', ''seal-archive.ts'', archiveArgs),
         (''coverage'', ''verify-coverage.ts'', coverageArgs)])"

text \<open>Each gate is run; those whose status is not 0 have failed.\<close>

definition failed_gates :: "(string \<Rightarrow> jstr list \<Rightarrow> int option) \<Rightarrow> (string \<times> string \<times> jstr list) list \<Rightarrow> string list" where
  "failed_gates status gates = map fst (filter (\<lambda>(name, script, args). status script args \<noteq> Some 0) gates)"

section \<open>A new note satisfies every gate\<close>

lemma slug_units:
  assumes "slug_ok slug" "u \<in> set slug"
  shows "is_digit u \<or> u = hyphen \<or> (97 \<le> u \<and> u \<le> 122)"
proof (cases "u = hyphen")
  case False
  then obtain p where "p \<in> set (split_on hyphen slug)" "u \<in> set p" using split_on_set[OF assms(2)] by blast
  then show ?thesis using assms(1) by (auto simp: slug_ok_def list_all_iff)
qed simp

lemma slug_nonempty: "slug_ok slug \<Longrightarrow> slug \<noteq> []"
  by (auto simp: slug_ok_def)

lemma date_units:
  assumes "is_date date"
  shows "length date = 10" "u \<in> set date \<Longrightarrow> is_digit u \<or> u = hyphen"
proof -
  have "length s = length ds" "u \<in> set s \<Longrightarrow> is_digit u \<or> u = hyphen" if "fits ds s" for ds s u
    using that by (induction ds s rule: fits.induct) (auto split: if_splits)
  then show "length date = 10" "u \<in> set date \<Longrightarrow> is_digit u \<or> u = hyphen"
    using assms unfolding is_date_def by fastforce+
qed

text \<open>The name of a new note: its units and its form.\<close>

lemma new_name:
  assumes "is_date date" "slug_ok slug"
  shows "dated_name (date @ [hyphen] @ slug @ md)" "take 10 (date @ [hyphen] @ slug @ md) = date"
    "slash \<notin> set (date @ [hyphen] @ slug @ md)" "hyphen \<in> set (date @ [hyphen] @ slug @ md)"
    "\<not> suffix (js ''.zh'') (pre @ date @ [hyphen] @ slug)"
proof -
  have units: "is_digit u \<or> u = hyphen \<or> (97 \<le> u \<and> u \<le> 122)" if "u \<in> set (date @ [hyphen] @ slug)" for u
    using that date_units[OF assms(1)] slug_units[OF assms(2)] by auto
  have len: "length date = 10" using date_units[OF assms(1)] by blast
  have "\<not> line_end u" if "u \<in> set slug" for u
    using units[of u] that by (auto simp: line_end_def is_digit_def hyphen_def)
  moreover have "1 \<le> length slug" using slug_nonempty[OF assms(2)] by (cases slug) auto
  moreover have "suffix md ([hyphen] @ slug @ md)" using suffixI[of "[hyphen] @ slug @ md" "[hyphen] @ slug" md] by simp
  ultimately show "dated_name (date @ [hyphen] @ slug @ md)"
    using assms(1) len by (simp add: dated_name_def Let_def md_def list_all_iff)
  show "take 10 (date @ [hyphen] @ slug @ md) = date" using len by simp
  have "slash \<notin> set md" by (simp add: md_def js_eval slash_def)
  then show "slash \<notin> set (date @ [hyphen] @ slug @ md)"
    using units[of slash] by (auto simp: slash_def is_digit_def hyphen_def)
  show "hyphen \<in> set (date @ [hyphen] @ slug @ md)" by simp
  show "\<not> suffix (js ''.zh'') (pre @ date @ [hyphen] @ slug)"
  proof
    let ?w = "date @ [hyphen] @ slug"
    assume "suffix (js ''.zh'') (pre @ ?w)"
    then have "suffix (js ''.zh'') ?w \<or> suffix ?w (js ''.zh'')"
      using suffix_same_cases[of "js ''.zh''" "pre @ ?w" ?w] by (simp add: suffix_appendI)
    then have "suffix (js ''.zh'') ?w" using len by (auto dest: suffix_length_le)
    then have "0x2E \<in> set (date @ [hyphen] @ slug)" by (auto dest: set_mono_suffix simp: js_eval)
    then show False using units[of "0x2E"] by (auto simp: is_digit_def hyphen_def)
  qed
qed

lemma translation_of_name:
  "\<not> suffix (js ''.zh'') x \<Longrightarrow> \<not> is_translation DEFAULT_CONFIG (x @ md)"
proof -
  have "js ''.zh.md'' = js ''.zh'' @ md" by (simp add: md_def flip: js_append)
  then show "\<not> suffix (js ''.zh'') x \<Longrightarrow> \<not> is_translation DEFAULT_CONFIG (x @ md)"
    by (simp add: is_translation_def DEFAULT_CONFIG_def suffix_to_prefix)
qed

text \<open>The structure gate takes the file for the note it is, and the coverage gate for a note.\<close>

lemma new_file_classified:
  assumes "is_date date" "slug_ok slug" "cls \<in> set DEFAULT_CLASSES"
  shows "classify DEFAULT_CONFIG lifecycle (cls @ [slash] @ date @ [hyphen] @ slug @ md) =
    ([], [\<lparr>an_lifecycle = lifecycle, an_cls = cls, an_rel = lifecycle @ [slash] @ cls @ [slash] @ date @ [hyphen] @ slug @ md,
           an_date = date\<rparr>])"
proof -
  let ?name = "date @ [hyphen] @ slug @ md" and ?x = "cls @ [slash] @ date @ [hyphen] @ slug"
  note name = new_name[OF assms(1,2)]
  have cls: "slash \<notin> set cls" using assms(3) by (auto simp: DEFAULT_CLASSES_def js_eval slash_def)
  have "split_on slash (cls @ [slash] @ ?name) = [cls, ?name]"
    using split_on_append_sep[OF cls, of ?name] split_on_no_sep[OF name(3)] by simp
  moreover have "\<not> is_translation DEFAULT_CONFIG (?x @ md)"
    by (rule translation_of_name) (use name(5)[of "cls @ [slash]"] in simp)
  moreover have "suffix md (?x @ md)" by (rule suffixI) simp
  moreover have "cls \<in> set (nc_classes DEFAULT_CONFIG)" using assms(3) by (simp add: DEFAULT_CONFIG_def)
  ultimately show ?thesis using name(1,2) by (simp add: classify_def Let_def)
qed

lemma new_file_is_change:
  assumes "is_date date" "slug_ok slug" "cls \<in> set DEFAULT_CLASSES" "lifecycle \<in> set DEFAULT_LIFECYCLES"
  shows "is_note_change DEFAULT_CONFIG pre (pre @ lifecycle @ [slash] @ cls @ [slash] @ date @ [hyphen] @ slug @ md)"
proof -
  let ?name = "date @ [hyphen] @ slug @ md" and ?x = "pre @ lifecycle @ [slash] @ cls @ [slash] @ date @ [hyphen] @ slug"
  note name = new_name[OF assms(1,2)]
  have dirs: "slash \<notin> set lifecycle" "slash \<notin> set cls"
    using assms(3,4) by (auto simp: DEFAULT_CLASSES_def DEFAULT_LIFECYCLES_def js_eval slash_def)
  have "split_on slash (lifecycle @ [slash] @ cls @ [slash] @ ?name) = [lifecycle, cls, ?name]"
    using split_on_append_sep[OF dirs(1), of "cls @ [slash] @ ?name"] split_on_append_sep[OF dirs(2), of ?name]
      split_on_no_sep[OF name(3)] by simp
  moreover have "\<forall>x \<in> set contract_files. hyphen \<notin> set x"
    by (simp add: contract_files_def js_eval hyphen_def)
  then have "?name \<notin> set contract_files" using name(4) by blast
  moreover have "\<not> is_translation DEFAULT_CONFIG (?x @ md)"
    by (rule translation_of_name) (use name(5)[of "pre @ lifecycle @ [slash] @ cls @ [slash]"] in simp)
  moreover have "suffix md (?x @ md)" by (rule suffixI) simp
  ultimately show ?thesis by (simp add: is_note_change_def)
qed

lemma note_change_passes:
  assumes "file \<in> set files" "inScope file" "is_note_change (ln_config l) (notes_prefix l) file"
  shows "coverage_passes (coverage_gate l env contents (files, mode))"
proof -
  have "list_ex (is_note_change (ln_config l) (notes_prefix l)) (filter inScope files)"
    using assms by (auto simp: list_ex_iff)
  then show ?thesis by (simp add: coverage_gate_def coverage_passes_def Let_def)
qed

lemma below_notes: "inScope (notes_prefix l) \<Longrightarrow> inScope (notes_prefix l @ x)"
proof -
  have "inScope (d @ [slash] @ x)" if "inScope (d @ [slash])" for d
  proof (cases d)
    case (Cons a d')
    then show ?thesis using that by (cases d'; cases "tl d'") (auto simp: inScope_def js_eval slash_def)
  qed (use that in \<open>simp add: inScope_def\<close>)
  then show "inScope (notes_prefix l) \<Longrightarrow> inScope (notes_prefix l @ x)" by (simp add: notes_prefix_def)
qed


definition plain_checkout :: LoadedNotes where
  "plain_checkout = \<lparr>ln_repoRoot = [js ''r''], ln_notesRoot = [js ''r'', js ''.agents'', js ''notes''], ln_configPath = None,
     ln_gitRoot = Some [js ''r''], ln_config = DEFAULT_CONFIG\<rparr>"


text \<open>
  The date is not checked: a note created with another date than one of the right form is written
  and then refused by the structure gate.
\<close>

lemma undated_note_refused:
  "new_note DEFAULT_CONFIG (js ''proposed'') (js ''process'') (js ''a'') (Some (js ''today'')) None (js ''2026-08-01'') (\<lambda>_. False) =
     Inr (js ''today-a.md'', note_body (js ''proposed'') (js ''a'')) \<and>
   classify DEFAULT_CONFIG (js ''proposed'') (js ''process/today-a.md'') =
     ([BadFilename (js ''proposed/process/today-a.md'')], [])"
proof
  show "new_note DEFAULT_CONFIG (js ''proposed'') (js ''process'') (js ''a'') (Some (js ''today'')) None (js ''2026-08-01'') (\<lambda>_. False) =
     Inr (js ''today-a.md'', note_body (js ''proposed'') (js ''a''))"
    by (simp add: new_note_def DEFAULT_CONFIG_def DEFAULT_LIFECYCLES_def DEFAULT_CLASSES_def slug_ok_def
        is_digit_def Let_def hyphen_def md_def js_eval)
  show "classify DEFAULT_CONFIG (js ''proposed'') (js ''process/today-a.md'') =
     ([BadFilename (js ''proposed/process/today-a.md'')], [])"
    by (simp add: classify_def Let_def DEFAULT_CONFIG_def DEFAULT_CLASSES_def is_translation_def suffix_to_prefix md_def js_eval
        slash_def dated_name_def is_date_def is_digit_def)
qed

text \<open>
  With \<open>--files\<close> before \<open>--repo\<close>, the directory is taken for a changed file.
\<close>

lemma directory_taken_for_file:
  "explicit_files (map js [''--files'', ''src/a.ts'', ''--repo'', ''web'']) = Some (map js [''src/a.ts'', ''web''])"
  by (simp add: explicit_files_def dashes_def js_eval)

end
