(* ===== verification/NotesCitations.thy ===== *)
theory NotesCitations
  imports NotesGates
begin

text \<open>
  The gate over citations of notes in source files and the board page
  (.agents/skills/hx-agent-notes/scripts/verify-backlinks.ts and build-board.ts). The repository is
  its file tree; a directory named like a note is left out of the board, where the script stops.
  The two regular expressions of the gate are written out as the matches they give;
  the names of lifecycles are read literally. Values already turned into JSON text are arguments.
\<close>

section \<open>The files that are searched\<close>

definition SKIP_DIRS :: "jstr list" where
  "SKIP_DIRS = map js [''node_modules'', ''.git'', ''dist'', ''build'', ''out'', ''coverage'', ''.next'', ''vendor'',
     ''__pycache__'', ''.venv'', ''venv'', ''target'']"

fun node_at :: "fnode \<Rightarrow> jstr list \<Rightarrow> fnode option" where
  "node_at n [] = Some n"
| "node_at n (name # names) =
     (case n of Dir es \<Rightarrow> (case entry es name of Some m \<Rightarrow> node_at m names | None \<Rightarrow> None) | _ \<Rightarrow> None)"

text \<open>The directories pushed and the files yielded for the entries of one directory.\<close>

definition enters :: "bool \<Rightarrow> jstr \<times> fnode \<Rightarrow> bool" where
  "enters bounded e =
     (case e of (name, n) \<Rightarrow>
        case n of Dir es \<Rightarrow> name \<notin> set SKIP_DIRS \<and> \<not> isNestedWorkTree bounded es | _ \<Rightarrow> False)"

definition yields :: "BacklinkConfig \<Rightarrow> jstr list \<Rightarrow> jstr \<times> fnode \<Rightarrow> (jstr \<times> jstr) list" where
  "yields c path e =
     (case e of (name, n) \<Rightarrow>
        case n of
          File contents \<Rightarrow>
            (let rel = toPosix (join [slash] (path @ [name])) in
             if matchesAny rel (bl_exclude c) then []
             else if \<not> list_ex (\<lambda>ext. suffix ext name) (bl_extensions c) then []
             else [(rel, contents)])
        | _ \<Rightarrow> [])"

fun node_weight :: "fnode \<Rightarrow> nat" and entries_weight :: "(jstr \<times> fnode) list \<Rightarrow> nat" where
  "node_weight (Dir es) = Suc (entries_weight es)"
| "node_weight (File contents) = 1"
| "node_weight Other = 1"
| "entries_weight [] = 0"
| "entries_weight ((name, n) # es) = node_weight n + entries_weight es"

lemma entered_weight:
  "sum_list (map (node_weight \<circ> snd) (map (\<lambda>(name, n). (path @ [name], n)) (filter P es))) \<le> entries_weight es"
  by (induction es) auto

text \<open>The stack, its top first: the directories found last are entered first.\<close>

function implementation_files :: "BacklinkConfig \<Rightarrow> bool \<Rightarrow> (jstr list \<times> fnode) list \<Rightarrow> (jstr \<times> jstr) list" where
  "implementation_files c bounded [] = []"
| "implementation_files c bounded ((path, n) # stack) =
     (case n of
        Dir es \<Rightarrow> concat (map (yields c path) es) @
          implementation_files c bounded (rev (map (\<lambda>(name, m). (path @ [name], m)) (filter (enters bounded) es)) @ stack)
      | _ \<Rightarrow> implementation_files c bounded stack)"
  by pat_completeness auto

termination
proof (relation "measure (\<lambda>(c, bounded, stack). sum_list (map (node_weight \<circ> snd) stack))")
  fix c bounded path and stack :: "(jstr list \<times> fnode) list" and n es
  assume n: "n = Dir es"
  have "sum_list (map (node_weight \<circ> snd) (rev (map (\<lambda>(name, m). (path @ [name], m)) (filter (enters bounded) es)))) \<le> entries_weight es"
    using entered_weight[of path "enters bounded" es] by (simp add: rev_map[symmetric] sum_list_rev)
  then show "((c, bounded, rev (map (\<lambda>(name, m). (path @ [name], m)) (filter (enters bounded) es)) @ stack), c, bounded, (path, n) # stack)
    \<in> measure (\<lambda>(c, bounded, stack). sum_list (map (node_weight \<circ> snd) stack))"
    using n by simp
qed auto

definition implementationFiles :: "BacklinkConfig \<Rightarrow> bool \<Rightarrow> fnode \<Rightarrow> (jstr \<times> jstr) list" where
  "implementationFiles c bounded repo =
     implementation_files c bounded (rev (concat (map (\<lambda>top_dir.
       let path = resolve_path [] top_dir in case node_at repo path of Some n \<Rightarrow> [(path, n)] | None \<Rightarrow> []) (bl_roots c))))"

section \<open>Citations in a line\<close>

text \<open>The class \<open>[\s)'"` ,;]\<close> that ends a citation.\<close>

definition stop_unit :: "nat \<Rightarrow> bool" where
  "stop_unit u \<longleftrightarrow> is_space u \<or> u \<in> {0x29, 0x27, 0x22, 0x60, 0x2C, 0x3B}"

text \<open>\<open>[^STOP]+\.md\<close> at the start of a text: the longest prefix of the run that ends so.\<close>

fun longest_md :: "nat \<Rightarrow> jstr \<Rightarrow> jstr option" where
  "longest_md 0 run = None"
| "longest_md (Suc n) run =
     (if 4 \<le> Suc n \<and> suffix md (take (Suc n) run) then Some (take (Suc n) run) else longest_md n run)"

definition md_run :: "jstr \<Rightarrow> jstr option" where
  "md_run s = (let run = takeWhile (\<lambda>u. \<not> stop_unit u) s in longest_md (length run) run)"

fun first_some :: "('a \<Rightarrow> 'b option) \<Rightarrow> 'a list \<Rightarrow> 'b option" where
  "first_some f [] = None"
| "first_some f (x # xs) = (case f x of Some y \<Rightarrow> Some y | None \<Rightarrow> first_some f xs)"

text \<open>\<open>((?:alt)\/REST)\<close> where the rest is read by \<open>reads\<close>.\<close>

definition cited :: "(jstr \<Rightarrow> jstr option) \<Rightarrow> jstr list \<Rightarrow> jstr \<Rightarrow> jstr option" where
  "cited reads alts s =
     first_some (\<lambda>alt. if prefix (alt @ [slash]) s
       then map_option (\<lambda>r. alt @ [slash] @ r) (reads (drop (Suc (length alt)) s)) else None) alts"

text \<open>\<open>[a-z-]+\/\d{4}-\d{2}-\d{2}-[^STOP]+\.md\<close>\<close>

definition class_and_name :: "jstr \<Rightarrow> jstr option" where
  "class_and_name s =
     (let cls = takeWhile (\<lambda>u. u = hyphen \<or> (97 \<le> u \<and> u \<le> 122)) s; rest = drop (length cls) s in
      if cls = [] \<or> \<not> prefix [slash] rest then None
      else
        (let name = drop 1 rest in
         if is_date (take 10 name) \<and> prefix [hyphen] (drop 10 name)
         then map_option (\<lambda>r. cls @ [slash] @ take 11 name @ r) (md_run (drop 11 name)) else None))"

text \<open>
  A match at the start of a text: the citation and the units it takes. The second expression also
  matches at the beginning of a line, or after one of \<open>[\s('"`]\<close>.
\<close>

definition repo_ref :: "NotesConfig \<Rightarrow> jstr list \<Rightarrow> bool \<Rightarrow> jstr \<Rightarrow> (jstr \<times> nat) option" where
  "repo_ref c alts first s =
     (if prefix (nc_root c @ [slash]) s
      then map_option (\<lambda>r. (r, length (nc_root c) + 1 + length r)) (cited md_run alts (drop (Suc (length (nc_root c))) s))
      else None)"

definition opens_ref :: "nat \<Rightarrow> bool" where
  "opens_ref u \<longleftrightarrow> is_space u \<or> u \<in> {0x28, 0x27, 0x22, 0x60}"

definition lifecycle_ref :: "NotesConfig \<Rightarrow> jstr list \<Rightarrow> bool \<Rightarrow> jstr \<Rightarrow> (jstr \<times> nat) option" where
  "lifecycle_ref c alts first s =
     (case (if first then cited class_and_name alts s else None) of
        Some r \<Rightarrow> Some (r, length r)
      | None \<Rightarrow>
          (case s of
             u # t \<Rightarrow> if opens_ref u then map_option (\<lambda>r. (r, Suc (length r))) (cited class_and_name alts t) else None
           | [] \<Rightarrow> None))"

text \<open>All matches in a line, from left to right.\<close>

function scan_refs :: "(bool \<Rightarrow> jstr \<Rightarrow> (jstr \<times> nat) option) \<Rightarrow> bool \<Rightarrow> jstr \<Rightarrow> jstr list" where
  "scan_refs m first s =
     (case s of
        [] \<Rightarrow> []
      | u # t \<Rightarrow>
          (case m first s of
             Some (r, n) \<Rightarrow> r # scan_refs m False (drop (n - 1) t)
           | None \<Rightarrow> scan_refs m False t))"
  by pat_completeness auto

termination
  by (relation "measure (\<lambda>(m, first, s). length s)") auto

declare scan_refs.simps [simp del]

definition line_refs :: "NotesConfig \<Rightarrow> jstr \<Rightarrow> jstr list" where
  "line_refs c line =
     (let alts = nc_lifecycles c @ [nc_archive c] in
      concat (map (\<lambda>pattern. scan_refs (pattern c alts) True line) [repo_ref, lifecycle_ref]))"

section \<open>The gate\<close>

datatype backlink_error = RefUnresolved jstr nat jstr | NoteUncited jstr

definition file_refs :: "NotesConfig \<Rightarrow> jstr \<times> jstr \<Rightarrow> (jstr \<times> nat \<times> jstr) list" where
  "file_refs c f =
     (case f of (rel, contents) \<Rightarrow>
        if \<not> str_includes contents md then []
        else concat (map (\<lambda>(i, line). map (\<lambda>r. (rel, Suc i, r)) (line_refs c line))
          (enumerate 0 (split_on newline contents))))"

text \<open>The path a citation stands for.\<close>

definition ref_target :: "LoadedNotes \<Rightarrow> jstr \<Rightarrow> jstr list" where
  "ref_target l r =
     (if prefix (describe l) r then foldl walk_name (ln_repoRoot l) (split_on slash r)
      else foldl walk_name (ln_notesRoot l) (split_on slash r))"

definition all_refs :: "LoadedNotes \<Rightarrow> fnode \<Rightarrow> (jstr \<times> nat \<times> jstr) list" where
  "all_refs l repo = concat (map (file_refs (ln_config l))
     (implementationFiles (nc_backlinks (ln_config l)) (ln_gitRoot l \<noteq> None) repo))"

definition anchored_paths :: "LoadedNotes \<Rightarrow> (jstr list \<Rightarrow> bool) \<Rightarrow> (jstr \<times> nat \<times> jstr) list \<Rightarrow> jstr list list" where
  "anchored_paths l isFile refs =
     unique (filter isFile (map (\<lambda>(rel, i, r). ref_target l r) refs))"

definition uncited_notes :: "LoadedNotes \<Rightarrow> (jstr \<times> fnode) list option \<Rightarrow> jstr list list \<Rightarrow> AgentNote list" where
  "uncited_notes l tree anchored =
     filter (\<lambda>note. an_lifecycle note = js ''implemented'' \<and> resolve_path (ln_notesRoot l) (an_rel note) \<notin> set anchored)
       (fst (walkNotes (ln_config l) (ln_gitRoot l \<noteq> None) tree))"

text \<open>The errors, how many citations there were and which notes they cite; None when the gate is disabled.\<close>

definition backlinks_gate ::
  "LoadedNotes \<Rightarrow> (jstr list \<Rightarrow> bool) \<Rightarrow> fnode \<Rightarrow> (jstr \<times> fnode) list option
     \<Rightarrow> (backlink_error list \<times> nat \<times> jstr list list) option" where
  "backlinks_gate l isFile repo tree =
     (let b = nc_backlinks (ln_config l) in
      if \<not> bl_enabled b then None
      else
        (let refs = all_refs l repo; anchored = anchored_paths l isFile refs;
             broken = filter (\<lambda>(rel, i, r). \<not> isFile (ref_target l r)) refs
         in Some (map (\<lambda>(rel, i, r). RefUnresolved rel i r) broken @
               (if bl_required b then map (NoteUncited \<circ> an_rel) (uncited_notes l tree anchored) else []),
             length refs, anchored)))"

section \<open>The board\<close>

text \<open>\<open>template.replace(slot, () => value)\<close>: the first occurrence.\<close>

fun replace_first :: "jstr \<Rightarrow> jstr \<Rightarrow> jstr \<Rightarrow> jstr" where
  "replace_first slot new [] = (if slot = [] then new else [])"
| "replace_first slot new (u # s) =
     (if prefix slot (u # s) then new @ drop (length slot) (u # s) else u # replace_first slot new s)"

definition DATA_SLOT :: jstr where "DATA_SLOT = js ''/*__AGENT_NOTES_DATA__*/[]''"
definition NAME_SLOT :: jstr where "NAME_SLOT = js ''\"Agent Notes\"''"

definition board_render :: "jstr \<Rightarrow> jstr \<Rightarrow> jstr \<Rightarrow> jstr \<Rightarrow> jstr" where
  "board_render page dataText nameText bundledText =
     replace_first (js ''\"__BUNDLED__\"'') bundledText (replace_first NAME_SLOT nameText (replace_first DATA_SLOT dataText page))"

record board_note =
  bn_path :: jstr
  bn_lifecycle :: jstr
  bn_cls :: jstr
  bn_file :: jstr
  bn_date :: jstr
  bn_title :: jstr
  bn_retired :: "jstr option"
  bn_status :: jstr
  bn_sections :: "(jstr \<times> jstr) list"

definition agent_note_line :: jstr where "agent_note_line = js ''# Agent Note:''"

fun board_sections :: "(jstr \<times> jstr) option \<Rightarrow> jstr list \<Rightarrow> (jstr \<times> jstr) list" where
  "board_sections current [] = (case current of None \<Rightarrow> [] | Some sect \<Rightarrow> [sect])"
| "board_sections current (line # rest) =
     (if prefix (js ''## '') line
      then (case current of None \<Rightarrow> [] | Some sect \<Rightarrow> [sect]) @ board_sections (Some (trim (drop 3 line), [])) rest
      else
        (case current of
           None \<Rightarrow> board_sections None rest
         | Some (h, body) \<Rightarrow>
             if prefix agent_note_line line \<or> prefix (js ''Status:'') line then board_sections current rest
             else board_sections (Some (h, body @ line @ [newline])) rest))"

definition drop_label :: "jstr \<Rightarrow> jstr \<Rightarrow> jstr" where
  "drop_label label s = (if prefix label s then dropWhile is_space (drop (length label) s) else s)"

definition board_note_of :: "jstr \<Rightarrow> jstr \<Rightarrow> jstr \<Rightarrow> jstr \<Rightarrow> board_note" where
  "board_note_of lifecycle cls file contents =
     (let lines = split_on newline contents in
      \<lparr>bn_path = lifecycle @ [slash] @ cls @ [slash] @ file, bn_lifecycle = lifecycle, bn_cls = cls, bn_file = file,
       bn_date = (if is_date (take 10 file) then take 10 file else []),
       bn_title = or_default (nonempty (drop_label agent_note_line (hd lines))) file,
       bn_retired = map_option (drop 10) (find (prefix (js ''Archived:'')) (take 8 lines)),
       bn_status = take 60 (drop_label (js ''Status:'')
         (or_default (find (prefix (js ''Status:'')) (take 6 lines)) (js ''Status: unknown''))),
       bn_sections = map (\<lambda>(h, body). (h, trim body)) (board_sections None lines)\<rparr>)"

definition board_files :: "NotesConfig \<Rightarrow> jstr \<Rightarrow> jstr \<times> fnode \<Rightarrow> board_note list" where
  "board_files c lifecycle e =
     (case e of (cls, n) \<Rightarrow>
        case n of
          Dir es \<Rightarrow> concat (map (\<lambda>(file, m).
            if \<not> suffix md file \<or> is_translation c file \<or> file \<in> set contract_files then []
            else (case m of File contents \<Rightarrow> [board_note_of lifecycle cls file contents] | _ \<Rightarrow> [])) es)
        | _ \<Rightarrow> [])"

definition readNotesTree :: "(jstr \<Rightarrow> jstr \<Rightarrow> int) \<Rightarrow> NotesConfig \<Rightarrow> (jstr \<times> fnode) list \<Rightarrow> board_note list" where
  "readNotesTree localeCompare c tree =
     sort_cmp (\<lambda>a b. localeCompare (bn_path a) (bn_path b))
       (concat (map (\<lambda>lifecycle.
          case entry tree lifecycle of Some (Dir es) \<Rightarrow> concat (map (board_files c lifecycle) es) | _ \<Rightarrow> [])
          (nc_lifecycles c @ [nc_archive c])))"

text \<open>
  The page has no quoted name to fill in, so a note whose title is the text of the slot gets the
  name of the project instead, and the name is shown nowhere.
\<close>

lemma title_replaced_by_project:
  "board_render (js ''<h1>Agent Notes</h1>NOTES = /*__AGENT_NOTES_DATA__*/[];'')
     (js ''[{\"title\":\"Agent Notes\"}]'') (js ''\"shop\"'') (js ''true'') =
   js ''<h1>Agent Notes</h1>NOTES = [{\"title\":\"shop\"}];''"
  by (simp add: board_render_def DATA_SLOT_def NAME_SLOT_def js_eval)

section \<open>A quoted path is found\<close>

definition stop_free :: "jstr \<Rightarrow> bool" where
  "stop_free s \<longleftrightarrow> list_all (\<lambda>u. \<not> stop_unit u) s"

lemma stop_free_append [simp]: "stop_free (s @ t) \<longleftrightarrow> stop_free s \<and> stop_free t"
  by (simp add: stop_free_def)

lemma slash_goes_on [simp]: "\<not> stop_unit slash"
  by (simp add: stop_unit_def slash_def is_space_def)

lemma stop_free_Cons [simp]: "stop_free (u # s) \<longleftrightarrow> \<not> stop_unit u \<and> stop_free s"
  by (simp add: stop_free_def)

lemma stop_free_prefix: "stop_free x \<Longrightarrow> stop_unit q \<Longrightarrow> prefix x (p @ q # s) \<Longrightarrow> prefix x p"
proof (induction x arbitrary: p)
  case (Cons u x)
  obtain p' where p: "p = u # p'" "prefix x (p' @ q # s)"
    using Cons.prems by (cases p) auto
  show ?case using Cons.IH[OF _ Cons.prems(2) p(2)] Cons.prems(1) p(1) by simp
qed simp

lemma stop_free_Nil [simp]: "stop_free []"
  by (simp add: stop_free_def)

lemma md_run_free: "md_run s = Some r \<Longrightarrow> stop_free r \<and> prefix r s"
proof -
  assume r: "md_run s = Some r"
  let ?run = "takeWhile (\<lambda>u. \<not> stop_unit u) s"
  have "prefix r ?run" if "longest_md n ?run = Some r" for n
    using that by (induction n) (auto simp: take_is_prefix split: if_splits)
  then have "prefix r ?run" using r by (auto simp: md_run_def Let_def)
  moreover have "stop_free ?run" by (auto simp: stop_free_def list_all_iff dest: set_takeWhileD)
  moreover have "prefix ?run s" by (metis prefixI takeWhile_dropWhile_id)
  ultimately show ?thesis by (auto elim!: prefixE simp: stop_free_def)
qed

lemma run_to_stop: "stop_free r \<Longrightarrow> stop_unit q \<Longrightarrow> takeWhile (\<lambda>u. \<not> stop_unit u) (r @ q # s) = r"
  by (induction r) auto

lemma md_run_whole:
  "stop_free r \<Longrightarrow> suffix md r \<Longrightarrow> 4 \<le> length r \<Longrightarrow> stop_unit q \<Longrightarrow> md_run (r @ q # s) = Some r"
  by (cases "length r") (auto simp: md_run_def Let_def run_to_stop)

lemma md_run_short:
  assumes "stop_free r" "length r < 4" "stop_unit q"
  shows "md_run (r @ q # s) = None"
proof -
  have "longest_md n r = None" if "n < 4" for n using that by (induction n) auto
  then show ?thesis using assms by (simp add: md_run_def Let_def run_to_stop)
qed

lemma first_some_all:
  "y \<in> set ys \<Longrightarrow> f y = Some v \<Longrightarrow> (\<And>x w. x \<in> set ys \<Longrightarrow> f x = Some w \<Longrightarrow> w = v) \<Longrightarrow> first_some f ys = Some v"
proof (induction ys)
  case (Cons x ys)
  show ?case
  proof (cases "f x")
    case None
    with Cons.prems(1,2) have "y \<in> set ys" by auto
    then have "first_some f ys = Some v"
      by (rule Cons.IH) (use Cons.prems(2,3) in \<open>blast dest: list.set_intros(2)\<close>)+
    then show ?thesis by (simp add: None)
  next
    case (Some w)
    then show ?thesis using Cons.prems(3)[of x w] by simp
  qed
qed simp

text \<open>A whole path is cited, whichever of the folders it is read under.\<close>

lemma cited_whole:
  assumes path: "path = folder @ [slash] @ rest" "folder \<in> set alts" "stop_free path" "suffix md rest" "4 \<le> length rest"
    and alts: "\<And>alt. alt \<in> set alts \<Longrightarrow> stop_free alt" and stop: "stop_unit q"
  shows "cited md_run alts (path @ q # s) = Some path"
  unfolding cited_def
proof (rule first_some_all[OF path(2)])
  have rest: "stop_free rest" using path(1,3) by simp
  show "(if prefix (folder @ [slash]) (path @ q # s)
      then map_option (\<lambda>r. folder @ [slash] @ r) (md_run (drop (Suc (length folder)) (path @ q # s))) else None) = Some path"
    using md_run_whole[OF rest path(4,5) stop] path(1) by simp
next
  fix alt w
  assume "alt \<in> set alts" and "(if prefix (alt @ [slash]) (path @ q # s)
      then map_option (\<lambda>r. alt @ [slash] @ r) (md_run (drop (Suc (length alt)) (path @ q # s))) else None) = Some w"
  then obtain r where alt: "prefix (alt @ [slash]) (path @ q # s)" "stop_free alt" and w: "w = alt @ [slash] @ r"
    and r: "md_run (drop (Suc (length alt)) (path @ q # s)) = Some r" using alts by (auto split: if_splits)
  have "prefix (alt @ [slash]) path" using stop_free_prefix[OF _ stop alt(1)] alt(2) by simp
  then obtain rest' where rest': "path = alt @ [slash] @ rest'" by (auto elim: prefixE)
  have free: "stop_free rest'" using path(3) rest' by simp
  have run: "md_run (rest' @ q # s) = Some r" using r rest' by simp
  have long: "4 \<le> length rest'" using md_run_short[OF free _ stop, of s] run by (cases "length rest' < 4") auto
  have "suffix md path" using path(1,4) by (auto simp: suffix_def)
  then have "suffix md rest'"
    using suffix_same_cases[of md path rest'] long rest' by (auto simp: md_def suffixI dest!: suffix_length_le)
  then show "w = path" using md_run_whole[OF free _ long stop, of s] run w rest' by simp
qed

lemma first_some_member: "first_some f ys = Some v \<Longrightarrow> \<exists>y \<in> set ys. f y = Some v"
  by (induction ys) (auto split: option.splits)

lemma cited_free:
  assumes "cited md_run alts s = Some r" "\<And>alt. alt \<in> set alts \<Longrightarrow> stop_free alt"
  shows "stop_free r \<and> prefix r s"
proof -
  obtain alt r' where alt: "alt \<in> set alts" "prefix (alt @ [slash]) s" "r = alt @ [slash] @ r'"
    "md_run (drop (Suc (length alt)) s) = Some r'"
    using first_some_member[OF assms(1)[unfolded cited_def]] by (auto split: if_splits)
  obtain t where "s = (alt @ [slash]) @ t" using alt(2) by (auto elim: prefixE)
  then show ?thesis using alt assms(2) md_run_free by fastforce
qed

definition names_free :: "NotesConfig \<Rightarrow> bool" where
  "names_free c \<longleftrightarrow> stop_free (nc_root c) \<and> list_all stop_free (nc_lifecycles c @ [nc_archive c])"

text \<open>No match of the first expression goes beyond a unit that ends citations.\<close>

lemma repo_ref_stays:
  assumes c: "names_free c" and stop: "stop_unit q"
    and match: "repo_ref c (nc_lifecycles c @ [nc_archive c]) first (x @ q # w) = Some (r, n)"
  shows "0 < n \<and> n \<le> length x"
proof -
  let ?s = "x @ q # w" and ?top = "nc_root c @ [slash]"
  have top: "prefix ?top ?s" and n: "n = length ?top + length r"
    and r: "cited md_run (nc_lifecycles c @ [nc_archive c]) (drop (length ?top) ?s) = Some r"
    using match by (auto simp: repo_ref_def split: if_splits)
  have "stop_free r \<and> prefix r (drop (length ?top) ?s)"
    by (rule cited_free[OF r]) (use c in \<open>auto simp: names_free_def list_all_iff\<close>)
  moreover obtain t where "?s = ?top @ t" using top by (auto elim: prefixE)
  ultimately have "prefix (?top @ r) ?s" "stop_free (?top @ r)" using c by (auto simp: names_free_def)
  then have "prefix (?top @ r) x" using stop_free_prefix[OF _ stop] by blast
  then show ?thesis using n prefix_length_le by fastforce
qed

text \<open>
  The interface between the expressions and the scan of a line: a match is not empty and ends
  before the next unit that ends citations. Then the scan finds all that it finds behind the unit.
\<close>

locale bounded_matcher =
  fixes ends :: "nat \<Rightarrow> bool" and m :: "bool \<Rightarrow> jstr \<Rightarrow> (jstr \<times> nat) option"
  assumes stays: "ends q \<Longrightarrow> m first (x @ q # w) = Some (r, n) \<Longrightarrow> 0 < n \<and> n \<le> length x"
begin

lemma scan_reaches:
  assumes q: "ends q"
  shows "set (scan_refs m False w) \<subseteq> set (scan_refs m first (x @ q # w))"
proof (induction "length x" arbitrary: x first rule: less_induct)
  case less
  show ?case
  proof (cases x)
    case Nil
    have "m first (q # w) = None" using stays[OF q, of first "[]"] by (cases "m first (q # w)") auto
    then show ?thesis using Nil by (subst (2) scan_refs.simps) simp
  next
    case (Cons u y)
    show ?thesis
    proof (cases "m first (x @ q # w)")
      case None
      then show ?thesis using less[of y False] Cons by (subst (2) scan_refs.simps) simp
    next
      case (Some p)
      obtain r n where p: "p = (r, n)" by (cases p)
      have n: "0 < n" "n \<le> length x" using stays[OF q] Some p by blast+
      then have "drop (n - 1) (y @ q # w) = drop (n - 1) y @ q # w" using Cons by simp
      then have "scan_refs m first (x @ q # w) = r # scan_refs m False (drop (n - 1) y @ q # w)"
        using Some p Cons by (subst scan_refs.simps) simp
      moreover have "set (scan_refs m False w) \<subseteq> set (scan_refs m False (drop (n - 1) y @ q # w))"
        by (rule less) (use Cons in simp)
      ultimately show ?thesis by auto
    qed
  qed
qed

lemma scan_finds:
  assumes "ends q" "w = u # t" "m False w = Some (r, n)"
  shows "r \<in> set (scan_refs m first (x @ q # w))"
proof -
  have "r \<in> set (scan_refs m False w)" using assms(2,3) by (subst scan_refs.simps) simp
  then show ?thesis using scan_reaches[OF assms(1), of w first x] by blast
qed

end

definition default_with :: "BacklinkConfig \<Rightarrow> NotesConfig" where
  "default_with b = DEFAULT_CONFIG\<lparr>nc_backlinks := b\<rparr>"

lemma default_with [simp]:
  "nc_lifecycles (default_with b) = DEFAULT_LIFECYCLES" "nc_classes (default_with b) = DEFAULT_CLASSES"
  "nc_backlinks (default_with b) = b" "nc_root (default_with b) = nc_root DEFAULT_CONFIG"
  "nc_archive (default_with b) = nc_archive DEFAULT_CONFIG"
  by (simp_all add: default_with_def DEFAULT_CONFIG_def)

lemma default_names_free: "names_free (default_with b)"
  by (simp add: names_free_def DEFAULT_CONFIG_def DEFAULT_LIFECYCLES_def stop_unit_def is_space_def js_eval)

definition default_folders :: "jstr list" where
  "default_folders = DEFAULT_LIFECYCLES @ [nc_archive DEFAULT_CONFIG]"

interpretation repo_refs: bounded_matcher stop_unit "repo_ref (default_with b) default_folders" for b
proof
  show "0 < n \<and> n \<le> length x" if "stop_unit q" "repo_ref (default_with b) default_folders first (x @ q # w) = Some (r, n)"
    for q first x w r n
    using repo_ref_stays[OF default_names_free that(1)] that(2) by (simp add: default_folders_def)
qed

lemma quoted_path_read:
  assumes path: "path = folder @ [slash] @ rest" "folder \<in> set default_folders" "stop_free rest" "suffix md rest" "4 \<le> length rest"
    and stops: "stop_unit q" "stop_unit q'"
  shows "path \<in> set (line_refs (default_with b) (pre @ q # nc_root DEFAULT_CONFIG @ [slash] @ path @ q' # post))"
proof -
  let ?w = "nc_root DEFAULT_CONFIG @ [slash] @ path @ q' # post"
  have alts: "stop_free alt" if "alt \<in> set default_folders" for alt
    using default_names_free that by (auto simp: names_free_def default_folders_def list_all_iff)
  have "stop_free path" using path(1,3) alts[OF path(2)] by simp
  then have "cited md_run default_folders (path @ q' # post) = Some path"
    using cited_whole[OF path(1,2) _ path(4,5) alts stops(2)] by blast
  then have match: "repo_ref (default_with b) default_folders False ?w = Some (path, length (nc_root DEFAULT_CONFIG) + 1 + length path)"
    by (simp add: repo_ref_def)
  obtain u t where w: "?w = u # t" by (cases "nc_root DEFAULT_CONFIG") auto
  have "path \<in> set (scan_refs (repo_ref (default_with b) default_folders) True (pre @ q # ?w))"
    by (rule repo_refs.scan_finds[OF stops(1) w match])
  then show ?thesis by (simp add: line_refs_def Let_def default_folders_def)
qed

lemma default_classes_free: "cls \<in> set DEFAULT_CLASSES \<Longrightarrow> stop_free cls \<and> slash \<notin> set cls"
  by (auto simp: DEFAULT_CLASSES_def stop_unit_def is_space_def js_eval slash_def)

lemma new_name_free:
  assumes "is_date date" "slug_ok slug"
  shows "stop_free (date @ [hyphen] @ slug @ md)"
proof -
  have "\<not> stop_unit u" if "u \<in> set (date @ [hyphen] @ slug)" for u
  proof -
    have "is_digit u \<or> u = hyphen \<or> (97 \<le> u \<and> u \<le> 122)"
      using that date_units[OF assms(1)] slug_units[OF assms(2)] by auto
    then show ?thesis by (auto simp: stop_unit_def is_space_def is_digit_def hyphen_def)
  qed
  moreover have "stop_free md" by (simp add: md_def js_eval stop_unit_def is_space_def)
  ultimately show ?thesis by (auto simp: stop_free_def list_all_iff)
qed

lemma file_ref_of_line:
  assumes "line \<in> set (split_on newline contents)" "r \<in> set (line_refs c line)" "str_includes line md"
  shows "\<exists>i. (rel, i, r) \<in> set (file_refs c (rel, contents))"
proof -
  obtain i where "i < length (split_on newline contents)" "split_on newline contents ! i = line"
    using assms(1) unfolding in_set_conv_nth by blast
  then have i: "(i, line) \<in> set (enumerate 0 (split_on newline contents))"
    by (simp add: in_set_enumerate_eq)
  have "str_includes contents md"
  proof -
    obtain ls ms where ls: "split_on newline contents = ls @ line # ms" using assms(1) by (auto dest: split_list)
    then have "contents = join [newline] (ls @ line # ms)" by (metis join_split_on)
    moreover have "\<exists>a b. join [newline] (ls @ line # ms) = a @ line @ b"
    proof -
      have right: "\<exists>b. join [newline] (line # ms) = line @ b" by (cases ms) auto
      show ?thesis
      proof (cases "ls = []")
        case True
        then show ?thesis using right by (metis append_Nil)
      next
        case False
        then show ?thesis using right join_append[of ls "line # ms" "[newline]"] by (metis append.assoc list.distinct(1))
      qed
    qed
    moreover obtain a' b' where "line = a' @ md @ b'" using assms(3) by (auto simp: str_includes_iff)
    ultimately show ?thesis unfolding str_includes_iff by (metis append.assoc)
  qed
  then show ?thesis using i assms(2) by (force simp: file_refs_def)
qed

lemma uncited_not_anchored:
  assumes "backlinks_gate l isFile repo tree = Some (errors, refs, anchored)" "NoteUncited rel \<in> set errors"
  shows "resolve_path (ln_notesRoot l) rel \<notin> set anchored"
  using assms by (auto simp: backlinks_gate_def uncited_notes_def Let_def split: if_splits)

lemma resolved_anchored:
  assumes "backlinks_gate l isFile repo tree = Some (errors, refs, anchored)"
    and "f \<in> set (implementationFiles (nc_backlinks (ln_config l)) (ln_gitRoot l \<noteq> None) repo)"
    and "(rel, i, r) \<in> set (file_refs (ln_config l) f)" "isFile (ref_target l r)"
  shows "ref_target l r \<in> set anchored"
proof -
  have "(rel, i, r) \<in> set (all_refs l repo)" using assms(2,3) by (auto simp: all_refs_def)
  then have "ref_target l r \<in> set (map (\<lambda>(rel, i, r). ref_target l r) (all_refs l repo))" by force
  then have "ref_target l r \<in> set (anchored_paths l isFile (all_refs l repo))"
    using assms(4) by (simp add: anchored_paths_def del: set_map)
  then show ?thesis using assms(1) by (auto simp: backlinks_gate_def Let_def split: if_splits)
qed

text \<open>
  C18: The anchor gate sees every citation of a note that \<open>new-note\<close> created. With the default
  configuration, whatever it says of citations, when a line of a source file that the gate searches has the path of the note from
  the root of the repository between two units that end a citation (quotes, back quotes,
  parentheses or spaces), whatever else the line has, and the note is a file, then the note is among
  the cited ones and the gate does not report it as not cited.
\<close>

theorem cited_note_anchored:
  assumes new: "new_note (default_with b) lifecycle cls slug date title today taken = Inr (file, body)"
    and date: "is_date (or_default date today)"
    and source: "(rel, contents) \<in> set (implementationFiles b (ln_gitRoot l \<noteq> None) repo)"
    and line: "pre @ q # nc_root DEFAULT_CONFIG @ [slash] @ path @ q' # post \<in> set (split_on newline contents)"
    and path: "path = lifecycle @ [slash] @ cls @ [slash] @ file" and stops: "stop_unit q" "stop_unit q'"
    and l: "ln_config l = default_with b" "describe l = nc_root DEFAULT_CONFIG"
    and there: "isFile (resolve_path (ln_notesRoot l) path)"
    and run: "backlinks_gate l isFile repo tree = Some (errors, refs, anchored)"
  shows "resolve_path (ln_notesRoot l) path \<in> set anchored \<and> NoteUncited path \<notin> set errors"
proof -
  let ?line = "pre @ q # nc_root DEFAULT_CONFIG @ [slash] @ path @ q' # post"
  have parts: "lifecycle \<in> set DEFAULT_LIFECYCLES" "cls \<in> set DEFAULT_CLASSES" "slug_ok slug"
    "file = or_default date today @ [hyphen] @ slug @ md"
    using new by (auto simp: new_note_def Let_def split: if_splits)
  have rest: "stop_free (cls @ [slash] @ file)" "suffix md (cls @ [slash] @ file)" "4 \<le> length (cls @ [slash] @ file)"
    using default_classes_free[OF parts(2)] new_name_free[OF date parts(3)] date_units(1)[OF date] parts(4)
      suffixI[of "cls @ [slash] @ file" "cls @ [slash] @ or_default date today @ [hyphen] @ slug" md]
    by simp_all
  have "lifecycle \<in> set default_folders"
    using parts(1) by (simp add: default_folders_def)
  then have ref: "path \<in> set (line_refs (default_with b) ?line)"
    using quoted_path_read[OF path _ rest stops, of b pre post] by blast
  have "str_includes ?line md"
    using str_includes_append[of "pre @ q # nc_root DEFAULT_CONFIG @ [slash] @ lifecycle @ [slash] @ cls @ [slash] @
        or_default date today @ [hyphen] @ slug" md "q' # post"] path parts(4) by simp
  then obtain i where hit: "(rel, i, path) \<in> set (file_refs (default_with b) (rel, contents))"
    using file_ref_of_line[OF line ref] by blast
  have target: "ref_target l path = resolve_path (ln_notesRoot l) path"
  proof -
    have "\<not> prefix (nc_root DEFAULT_CONFIG) path \<and> \<not> prefix [slash] path"
      using parts(1) path by (auto simp: DEFAULT_LIFECYCLES_def DEFAULT_CONFIG_def js_eval slash_def)
    then show ?thesis by (simp add: ref_target_def resolve_path_def l(2))
  qed
  have "ref_target l path \<in> set anchored"
    by (rule resolved_anchored[OF run]) (use source hit there target l(1) in simp_all)
  then show ?thesis using uncited_not_anchored[OF run] target by auto
qed

text \<open>A source file that cites the note of the example of the gates.\<close>

definition strict_citations :: BacklinkConfig where
  "strict_citations = \<lparr>bl_enabled = True, bl_required = True, bl_roots = [js ''src''], bl_exclude = [], bl_extensions = [js ''.ts'']\<rparr>"

definition citing_line :: jstr where
  "citing_line = js ''// '' @ 0x60 # nc_root DEFAULT_CONFIG @ [slash] @ js ''proposed/process/2026-08-01-a-b.md'' @ 0x60 # []"

definition citing_repo :: fnode where
  "citing_repo = Dir [(js ''src'', Dir [(js ''a.ts'', File citing_line)])]"

lemma citing_file: "implementationFiles strict_citations bounded citing_repo = [(js ''src/a.ts'', citing_line)]"
proof -
  have path: "resolve_path [] (js ''src'') = [js ''src'']"
    by (simp add: resolve_path_def walk_name_def js_eval slash_def dot_name_def up_name_def)
  have name: "toPosix (join [slash] [js ''src'', js ''a.ts'']) = js ''src/a.ts''" "suffix (js ''.ts'') (js ''a.ts'')"
    by (simp_all add: toPosix_def js_eval backslash_def slash_def suffix_to_prefix)
  have "yields strict_citations [js ''src''] (js ''a.ts'', File citing_line) = [(js ''src/a.ts'', citing_line)]"
    using name by (simp add: yields_def strict_citations_def matchesAny_def Let_def)
  then show ?thesis
    by (simp add: implementationFiles_def strict_citations_def path citing_repo_def entry_def Let_def enters_def)
qed

lemma citing_line_whole: "split_on newline citing_line = [citing_line]"
  by (rule split_on_no_sep) (simp add: citing_line_def DEFAULT_CONFIG_def js_eval newline_def slash_def)

theorem cited_note_anchored_witness:
  "\<exists>errors refs anchored.
     backlinks_gate (plain_checkout\<lparr>ln_config := default_with strict_citations\<rparr>) (\<lambda>_. True) citing_repo None = Some (errors, refs, anchored) \<and>
     resolve_path (ln_notesRoot plain_checkout) (js ''proposed/process/2026-08-01-a-b.md'') \<in> set anchored"
proof -
  let ?l = "plain_checkout\<lparr>ln_config := default_with strict_citations\<rparr>"
  have parts: "split_on hyphen (js ''a-b'') = [js ''a'', js ''b'']" by (simp add: js_eval hyphen_def)
  have new: "new_note (default_with strict_citations) (js ''proposed'') (js ''process'') (js ''a-b'') None None (js ''2026-08-01'') (\<lambda>_. False) =
      Inr (js ''2026-08-01-a-b.md'', note_body (js ''proposed'') (js ''a b''))"
    using parts by (simp add: new_note_def DEFAULT_LIFECYCLES_def DEFAULT_CLASSES_def slug_ok_def
        is_digit_def Let_def hyphen_def md_def js_eval)
  have date: "is_date (or_default None (js ''2026-08-01''))"
    by (simp add: is_date_def js_eval is_digit_def hyphen_def)
  have root: "describe ?l = nc_root DEFAULT_CONFIG"
    by (simp add: describe_def plain_checkout_def relative_path_def toPosix_def js_eval backslash_def slash_def DEFAULT_CONFIG_def)
  have path: "js ''proposed/process/2026-08-01-a-b.md'' =
      js ''proposed'' @ [slash] @ js ''process'' @ [slash] @ js ''2026-08-01-a-b.md''"
    by (simp add: js_eval slash_def)
  have stop: "stop_unit 0x60" by (simp add: stop_unit_def)
  have line: "js ''// '' @ 0x60 # nc_root DEFAULT_CONFIG @ [slash] @ js ''proposed/process/2026-08-01-a-b.md'' @ 0x60 # []
      \<in> set (split_on newline citing_line)"
    by (simp only: citing_line_whole) (simp add: citing_line_def)
  obtain errors refs anchored where run: "backlinks_gate ?l (\<lambda>_. True) citing_repo None = Some (errors, refs, anchored)"
    by (simp add: backlinks_gate_def Let_def strict_citations_def)
  show ?thesis
    using cited_note_anchored[OF new date _ line path stop stop _ root _ run, of "js ''src/a.ts''"] run
    by (simp add: citing_file)
qed

end
