(* ===== verification/NotesInstall.thy ===== *)
theory NotesInstall
  imports NotesScope
begin

text \<open>
  The installer of the note tooling (.agents/skills/hx-agent-notes/scripts/init-agent-notes.ts). The
  repository is its files, its directories and the scripts of its package.json. The documents that
  the installer writes are constructors over the values they are filled with; \<open>parse\<close> reads a
  configuration that somebody else wrote. Symbolic links are not resolved.
\<close>

section \<open>The repository\<close>

datatype document =
    Contents jstr
  | ConfigDocument RawConfig
  | NotesContract jstr jstr jstr jstr
  | ArchiveContract jstr
  | ImplementedContract jstr

record repository =
  rp_files :: "(jstr list \<times> document) list"
  rp_dirs :: "jstr list list"
  rp_package :: "(jstr \<times> jstr) list option option"

text \<open>\<open>rp_package\<close>: None without a package.json, \<open>Some None\<close> for one without scripts.\<close>

definition exists_in :: "repository \<Rightarrow> jstr list \<Rightarrow> bool" where
  "exists_in r path \<longleftrightarrow> path = [] \<or> path \<in> set (rp_dirs r) \<or> map_of (rp_files r) path \<noteq> None"

text \<open>\<open>mkdirSync(path, { recursive: true })\<close> and \<open>writeFileSync\<close>.\<close>

definition make_dirs :: "jstr list \<Rightarrow> repository \<Rightarrow> repository" where
  "make_dirs path r =
     r\<lparr>rp_dirs := rp_dirs r @ filter (\<lambda>p. \<not> exists_in r p) (map (\<lambda>n. take n path) [1..<Suc (length path)])\<rparr>"

definition write_file :: "jstr list \<Rightarrow> document \<Rightarrow> repository \<Rightarrow> repository" where
  "write_file path d r = r\<lparr>rp_files := put_by fst (path, d) (rp_files r)\<rparr>"

text \<open>What the process is started with: the option, the directory, the three environment variables,
  the directory of the running script with its files, and whether node runs TypeScript itself.\<close>

record install_env =
  ie_force :: bool
  ie_cwd :: "jstr list"
  ie_config :: "jstr option"
  ie_root :: "jstr option"
  ie_scripts :: "jstr option"
  ie_source :: "(jstr list \<times> (jstr \<times> jstr) list) option"
  ie_strips_types :: bool

record installation =
  in_repo :: repository
  in_written :: "jstr list"
  in_skipped :: "jstr list"

section \<open>Commands\<close>

definition runner :: "install_env \<Rightarrow> jstr" where
  "runner e = (if ie_strips_types e then js ''node'' else js ''npx tsx'')"

definition DEFAULT_SCRIPTS_DIR :: jstr where
  "DEFAULT_SCRIPTS_DIR = js ''.agents/skills/hx-agent-notes/scripts''"

definition entry_script :: jstr where "entry_script = js ''verify-all.ts''"

text \<open>\<open>join(dir, 'scripts')\<close>: a relative path keeps the \<open>..\<close> it starts with.\<close>

definition walk_relative_name :: "jstr list \<Rightarrow> jstr \<Rightarrow> jstr list" where
  "walk_relative_name cur name =
     (if name = [] \<or> name = dot_name then cur
      else if name = up_name \<and> cur \<noteq> [] \<and> last cur \<noteq> up_name then butlast cur else cur @ [name])"

definition join_scripts :: "jstr \<Rightarrow> jstr" where
  "join_scripts dir =
     (if prefix [slash] dir then absolute (resolve_path [] dir @ [js ''scripts''])
      else join [slash] (foldl walk_relative_name [] (split_on slash dir) @ [js ''scripts'']))"

text \<open>\<open>join(base, rel)\<close> for an absolute base.\<close>

definition join_path :: "jstr list \<Rightarrow> jstr \<Rightarrow> jstr list" where
  "join_path base rel = foldl walk_name base (split_on slash rel)"

definition has_entry_points :: "repository \<Rightarrow> jstr list \<Rightarrow> jstr \<Rightarrow> bool" where
  "has_entry_points r repoRoot dir = exists_in r (resolve_path repoRoot dir @ [entry_script])"

definition script_candidate :: "jstr list \<Rightarrow> jstr \<Rightarrow> jstr" where
  "script_candidate repoRoot dir =
     (let rel = toPosix (relative_path repoRoot (resolve_path repoRoot dir)) in
      if rel \<noteq> [] \<and> \<not> prefix up_name rel then rel else dir)"

definition scriptsDir :: "install_env \<Rightarrow> repository \<Rightarrow> jstr list \<Rightarrow> jstr" where
  "scriptsDir e r repoRoot =
     (case Option.bind (ie_scripts e) nonempty of
        None \<Rightarrow> DEFAULT_SCRIPTS_DIR
      | Some dir \<Rightarrow>
          if has_entry_points r repoRoot dir then script_candidate repoRoot dir
          else if has_entry_points r repoRoot (join_scripts dir) then script_candidate repoRoot (join_scripts dir)
          else DEFAULT_SCRIPTS_DIR)"

definition command :: "install_env \<Rightarrow> repository \<Rightarrow> jstr list \<Rightarrow> string \<Rightarrow> jstr" where
  "command e r repoRoot script = runner e @ [0x20] @ scriptsDir e r repoRoot @ js script"

definition archiveCommand :: "install_env \<Rightarrow> repository \<Rightarrow> LoadedNotes \<Rightarrow> jstr" where
  "archiveCommand e r l =
     command e r (ln_repoRoot l) ''/archive-note.ts '' @ describe l @ js ''/implemented/<class>/<file>.md''"

definition package_scripts :: "install_env \<Rightarrow> repository \<Rightarrow> jstr list \<Rightarrow> (jstr \<times> jstr) list" where
  "package_scripts e r repoRoot = map (\<lambda>(name, script). (js name, command e r repoRoot script))
     [(''verify-notes'', ''/verify-all.ts''), (''verify-notes:staged'', ''/verify-all.ts --staged''),
      (''verify-notes:tree'', ''/verify-tree.ts''), (''verify-notes:format'', ''/verify-format.ts''),
      (''verify-notes:coverage'', ''/verify-coverage.ts''), (''verify-notes:backlinks'', ''/verify-backlinks.ts''),
      (''notes:new'', ''/new-note.ts''), (''notes:archive'', ''/archive-note.ts''),
      (''notes:board'', ''/build-board.ts --init board.html'')]"

section \<open>The steps\<close>

definition wrote :: "jstr \<Rightarrow> installation \<Rightarrow> installation" where
  "wrote item s = s\<lparr>in_written := in_written s @ [item]\<rparr>"

definition kept :: "jstr \<Rightarrow> installation \<Rightarrow> installation" where
  "kept item s = s\<lparr>in_skipped := in_skipped s @ [item]\<rparr>"

definition ensure :: "bool \<Rightarrow> jstr list \<Rightarrow> jstr \<Rightarrow> document \<Rightarrow> string \<Rightarrow> installation \<Rightarrow> installation" where
  "ensure force repoRoot rel d header s =
     (let full = join_path repoRoot rel in
      if exists_in (in_repo s) full \<and> \<not> force then kept rel s
      else wrote (js header) (s\<lparr>in_repo := write_file full d (make_dirs (butlast full) (in_repo s))\<rparr>))"

definition raw_of_coverage :: "CoverageConfig \<Rightarrow> RawCoverage" where
  "raw_of_coverage c = \<lparr>raw_enabled = Some (cov_enabled c), raw_guarded = Some (cov_guarded c),
     raw_exempt = Some (cov_exempt c), raw_label = Some (cov_label c)\<rparr>"

definition raw_of_backlinks :: "BacklinkConfig \<Rightarrow> RawBacklinks" where
  "raw_of_backlinks b = \<lparr>rb_enabled = Some (bl_enabled b), rb_required = Some (bl_required b),
     rb_roots = Some (bl_roots b), rb_exclude = Some (bl_exclude b), rb_extensions = Some (bl_extensions b)\<rparr>"

text \<open>The configuration file that is written: seven of the ten fields.\<close>

definition written_config :: "NotesConfig \<Rightarrow> RawConfig" where
  "written_config c = \<lparr>rc_root = Some (nc_root c), rc_archive = Some (nc_archive c), rc_lifecycles = Some (nc_lifecycles c),
     rc_classes = Some (nc_classes c), rc_rootAllowlist = None, rc_translationSuffixes = None,
     rc_formatAdopted = Some (nc_formatAdopted c), rc_proseBannedPhrases = None,
     rc_coverage = Some (raw_of_coverage (nc_coverage c)), rc_backlinks = Some (raw_of_backlinks (nc_backlinks c))\<rparr>"

definition configRel :: jstr where "configRel = js ''.agents/notes.config.json''"

definition install_config :: "install_env \<Rightarrow> LoadedNotes \<Rightarrow> installation \<Rightarrow> installation" where
  "install_config e l s =
     (if \<not> exists_in (in_repo s) (join_path (ln_repoRoot l) configRel)
      then ensure (ie_force e) (ln_repoRoot l) configRel (ConfigDocument (written_config (ln_config l))) ''config'' s
      else kept configRel s)"

definition install_folder :: "LoadedNotes \<Rightarrow> jstr \<times> jstr \<Rightarrow> installation \<Rightarrow> installation" where
  "install_folder l f s =
     (case f of (folder, cls) \<Rightarrow>
        (let full = join_path (join_path (ln_notesRoot l) folder) cls in
         if exists_in (in_repo s) full then s
         else wrote (describe l @ [slash] @ folder @ [slash] @ cls @ [slash]) (s\<lparr>in_repo := make_dirs full (in_repo s)\<rparr>)))"

definition install_folders :: "LoadedNotes \<Rightarrow> (jstr \<times> jstr) list" where
  "install_folders l =
     (let c = ln_config l in
      concat (map (\<lambda>lifecycle. map (\<lambda>cls. (lifecycle, cls)) (nc_classes c)) (nc_lifecycles c)) @
      map (\<lambda>cls. (nc_archive c, cls)) (nc_classes c))"

definition contract_documents :: "install_env \<Rightarrow> LoadedNotes \<Rightarrow> repository \<Rightarrow> (jstr \<times> document \<times> string) list" where
  "contract_documents e l r =
     (let c = ln_config l; archive = archiveCommand e r l; verify = command e r (ln_repoRoot l) ''/verify-all.ts''
      in [(describe l @ js ''/AGENTS.md'', NotesContract (describe l) (cov_label (nc_coverage c)) (nc_archive c) verify, ''notes AGENTS.md''),
          (describe l @ [slash] @ nc_archive c @ js ''/AGENTS.md'', ArchiveContract archive, ''archive AGENTS.md''),
          (describe l @ js ''/implemented/AGENTS.md'', ImplementedContract archive, ''implemented AGENTS.md'')])"

definition install_contracts :: "install_env \<Rightarrow> LoadedNotes \<Rightarrow> installation \<Rightarrow> installation" where
  "install_contracts e l s =
     foldl (\<lambda>t (rel, d, h). ensure (ie_force e) (ln_repoRoot l) rel d h t) s (contract_documents e l (in_repo s))"

definition vendorScripts :: "install_env \<Rightarrow> LoadedNotes \<Rightarrow> installation \<Rightarrow> installation" where
  "vendorScripts e l s =
     (let dest = join_path (ln_repoRoot l) DEFAULT_SCRIPTS_DIR in
      if Option.bind (ie_scripts e) nonempty \<noteq> None then s
      else
        (case ie_source e of
           None \<Rightarrow> kept (js ''gate scripts (source not found)'') s
         | Some (src, scripts) \<Rightarrow>
             if src = dest \<and> exists_in (in_repo s) dest then kept (js ''gate scripts (running in place)'') s
             else if exists_in (in_repo s) (dest @ [entry_script]) then kept (js ''gate scripts'') s
             else
               (let copied = filter (\<lambda>(name, contents). suffix (js ''.ts'') name) scripts in
                wrote (js ''gate scripts ('' @ show_int (int (length copied)) @ js '' files, vendored)'')
                  (s\<lparr>in_repo := foldl (\<lambda>r (name, contents). write_file (dest @ [name]) (Contents contents) r)
                     (make_dirs dest (in_repo s)) copied\<rparr>))))"

definition missing_scripts :: "(jstr \<times> jstr) list \<Rightarrow> (jstr \<times> jstr) list \<Rightarrow> (jstr \<times> jstr) list" where
  "missing_scripts have scripts = filter (\<lambda>(name, c). map_of have name = None) scripts"

definition install_package :: "install_env \<Rightarrow> LoadedNotes \<Rightarrow> installation \<Rightarrow> installation" where
  "install_package e l s =
     (case rp_package (in_repo s) of
        None \<Rightarrow> kept (js ''package.json (absent; wire the gates into whatever task runner the project uses)'') s
      | Some pkg \<Rightarrow>
          (let have = or_default pkg []; new = missing_scripts have (package_scripts e (in_repo s) (ln_repoRoot l)) in
           if new \<noteq> []
           then wrote (js ''package.json scripts'') (s\<lparr>in_repo := (in_repo s)\<lparr>rp_package := Some (Some (have @ new))\<rparr>\<rparr>)
           else kept (js ''package.json scripts'') s))"

definition load_in :: "(jstr \<Rightarrow> RawConfig) \<Rightarrow> install_env \<Rightarrow> repository \<Rightarrow> LoadedNotes" where
  "load_in parse e r =
     loadNotes (exists_in r)
       (\<lambda>path. case map_of (rp_files r) path of Some (ConfigDocument raw) \<Rightarrow> raw | Some (Contents t) \<Rightarrow> parse t | _ \<Rightarrow> parse [])
       (ie_config e) (ie_root e) (ie_cwd e)"

definition install :: "(jstr \<Rightarrow> RawConfig) \<Rightarrow> install_env \<Rightarrow> repository \<Rightarrow> installation" where
  "install parse e r =
     (let l = load_in parse e r;
          s = install_config e l \<lparr>in_repo = r, in_written = [], in_skipped = []\<rparr>
      in install_package e l (vendorScripts e l (install_contracts e l
           (foldl (\<lambda>t f. install_folder l f t) s (install_folders l)))))"

section \<open>What a step changes\<close>

text \<open>Nothing disappears.\<close>

definition keeps :: "repository \<Rightarrow> repository \<Rightarrow> bool" where
  "keeps r r' \<longleftrightarrow> (\<forall>p. exists_in r p \<longrightarrow> exists_in r' p) \<and> rp_package r' = rp_package r"

lemma keeps_refl [simp]: "keeps r r" by (simp add: keeps_def)
lemma keeps_trans: "keeps r r' \<Longrightarrow> keeps r' r'' \<Longrightarrow> keeps r r''" by (simp add: keeps_def)

lemma exists_write [simp]: "exists_in (write_file path d r) p \<longleftrightarrow> exists_in r p \<or> p = path"
  by (auto simp: exists_in_def write_file_def map_of_put_by)

lemma exists_make_dirs [simp]: "exists_in (make_dirs path r) p \<longleftrightarrow> exists_in r p \<or> prefix p path"
proof -
  have "p \<in> set (map (\<lambda>n. take n path) [1..<Suc (length path)]) \<longleftrightarrow> p \<noteq> [] \<and> prefix p path"
  proof
    assume "p \<noteq> [] \<and> prefix p path"
    then have "p = take (length p) path" "length p \<in> set [1..<Suc (length path)]"
      by (auto simp: prefix_def Suc_le_eq)
    then show "p \<in> set (map (\<lambda>n. take n path) [1..<Suc (length path)])" by (metis image_eqI set_map)
  qed (auto simp: take_is_prefix)
  then show ?thesis by (auto simp: exists_in_def make_dirs_def simp del: set_map upt_Suc)
qed

lemma keeps_write [simp]: "keeps r (write_file path d r)"
  by (simp add: keeps_def) (simp add: write_file_def)

lemma keeps_make_dirs [simp]: "keeps r (make_dirs path r)"
  by (simp add: keeps_def) (simp add: make_dirs_def)

lemma wrote_kept [simp]:
  "in_repo (wrote i s) = in_repo s" "in_repo (kept i s) = in_repo s" "in_written (kept i s) = in_written s"
  by (simp_all add: wrote_def kept_def)

lemma keeps_ensure: "keeps (in_repo s) (in_repo (ensure force rr rel d h s))"
  unfolding ensure_def Let_def using keeps_trans[OF keeps_make_dirs keeps_write] by simp

lemma ensured: "exists_in (in_repo (ensure force rr rel d h s)) (join_path rr rel)"
  by (auto simp: ensure_def Let_def)

lemma keeps_foldl: "(\<And>t x. keeps (in_repo t) (in_repo (f t x))) \<Longrightarrow> keeps (in_repo s) (in_repo (foldl f s xs))"
  by (induction xs arbitrary: s) (auto intro: keeps_trans)

lemma keeps_steps [simp]:
  "keeps (in_repo s) (in_repo (install_config e l s))"
  "keeps (in_repo s) (in_repo (install_folder l f s))"
  "keeps (in_repo s) (in_repo (install_contracts e l s))"
  by (auto simp: install_config_def install_folder_def install_contracts_def Let_def keeps_ensure
      intro!: keeps_foldl split: prod.splits)

lemma keeps_writes: "keeps r (foldl (\<lambda>r (name, contents). write_file (dest @ [name]) (Contents contents) r) r xs)"
  by (induction xs arbitrary: r) (auto split: prod.splits intro: keeps_trans keeps_write)

lemma keeps_vendor [simp]: "keeps (in_repo s) (in_repo (vendorScripts e l s))"
proof -
  have "keeps (in_repo s) (foldl (\<lambda>r (name, contents). write_file (dest @ [name]) (Contents contents) r) (make_dirs dest (in_repo s)) xs)"
    for dest xs
    using keeps_trans[OF keeps_make_dirs keeps_writes] by blast
  then show ?thesis by (auto simp: vendorScripts_def Let_def split: option.splits prod.splits)
qed

lemma exists_package [simp]: "exists_in (in_repo (install_package e l s)) p = exists_in (in_repo s) p"
  by (auto simp: install_package_def exists_in_def Let_def split: option.splits)

section \<open>An installed repository\<close>

definition folder_path :: "LoadedNotes \<Rightarrow> jstr \<times> jstr \<Rightarrow> jstr list" where
  "folder_path l f = join_path (join_path (ln_notesRoot l) (fst f)) (snd f)"

definition scripts_there :: "install_env \<Rightarrow> LoadedNotes \<Rightarrow> repository \<Rightarrow> bool" where
  "scripts_there e l r \<longleftrightarrow> Option.bind (ie_scripts e) nonempty \<noteq> None \<or> ie_source e = None \<or>
     (let dest = join_path (ln_repoRoot l) DEFAULT_SCRIPTS_DIR in
      (map_option fst (ie_source e) = Some dest \<and> exists_in r dest) \<or> exists_in r (dest @ [entry_script]))"

definition package_there :: "repository \<Rightarrow> bool" where
  "package_there r \<longleftrightarrow> (case rp_package r of None \<Rightarrow> True
     | Some pkg \<Rightarrow> \<forall>e r' rr. missing_scripts (or_default pkg []) (package_scripts e r' rr) = [])"

definition installed :: "install_env \<Rightarrow> LoadedNotes \<Rightarrow> repository \<Rightarrow> bool" where
  "installed e l r \<longleftrightarrow> exists_in r (join_path (ln_repoRoot l) configRel) \<and>
     (\<forall>f \<in> set (install_folders l). exists_in r (folder_path l f)) \<and>
     (\<forall>(rel, d, h) \<in> set (contract_documents e l r). exists_in r (join_path (ln_repoRoot l) rel)) \<and>
     scripts_there e l r \<and> package_there r"

lemma script_names: "map fst (package_scripts e r rr) = map fst (package_scripts e' r' rr')"
  by (simp add: package_scripts_def)

lemma missing_by_names: "missing_scripts have scripts = [] \<longleftrightarrow> set (map fst scripts) \<subseteq> set (map fst have)"
  by (force simp: missing_scripts_def filter_empty_conv map_of_eq_None_iff)

lemma package_after: "package_there (in_repo (install_package e l s))"
proof (cases "rp_package (in_repo s)")
  case (Some pkg)
  let ?have = "or_default pkg []" and ?scripts = "package_scripts e (in_repo s) (ln_repoRoot l)"
  let ?new = "missing_scripts ?have ?scripts"
  have names: "missing_scripts (?have @ ?new) (package_scripts e' r' rr) = []" for e' r' rr
  proof -
    have "set (map fst ?scripts) \<subseteq> set (map fst (?have @ ?new))"
      by (force simp: missing_scripts_def map_of_eq_None_iff)
    then show ?thesis unfolding missing_by_names script_names[of e' r' rr e "in_repo s" "ln_repoRoot l"] .
  qed
  show ?thesis
  proof (cases "?new = []")
    case True
    then have "rp_package (in_repo (install_package e l s)) = Some pkg" using Some by (simp add: install_package_def)
    then show ?thesis using names True by (simp add: package_there_def)
  next
    case False
    then have "rp_package (in_repo (install_package e l s)) = Some (Some (?have @ ?new))"
      using Some by (simp add: install_package_def Let_def)
    then show ?thesis using names by (simp add: package_there_def or_default_def)
  qed
qed (simp add: package_there_def install_package_def)

lemma folder_after: "exists_in (in_repo (install_folder l f s)) (folder_path l f)"
  by (auto simp: install_folder_def folder_path_def Let_def split: prod.splits)

lemma exists_foldl:
  assumes "\<And>t x. keeps (in_repo t) (in_repo (f t x))" "\<And>t x. exists_in (in_repo (f t x)) (path x)" "x \<in> set xs"
  shows "exists_in (in_repo (foldl f s xs)) (path x)"
  using assms(3)
proof (induction xs arbitrary: s)
  case (Cons y ys)
  show ?case
  proof (cases "x = y")
    case True
    then show ?thesis using keeps_foldl[of f "f s y" ys] assms(1,2) by (simp add: keeps_def)
  qed (use Cons in simp)
qed simp

lemma contract_paths: "map fst (contract_documents e l r) = map fst (contract_documents e' l r')"
  by (simp add: contract_documents_def Let_def)

lemma contracts_after:
  "p \<in> fst ` set (contract_documents e l r) \<Longrightarrow> exists_in (in_repo (install_contracts e l s)) (join_path (ln_repoRoot l) p)"
proof -
  assume "p \<in> fst ` set (contract_documents e l r)"
  then have "p \<in> fst ` set (contract_documents e l (in_repo s))"
    using contract_paths[of e l r e "in_repo s"] by (metis set_map)
  then obtain x where x: "x \<in> set (contract_documents e l (in_repo s))" "fst x = p" by auto
  have "exists_in (in_repo (install_contracts e l s)) (join_path (ln_repoRoot l) (fst x))"
    unfolding install_contracts_def
    by (rule exists_foldl[OF _ _ x(1)]) (auto simp: keeps_ensure ensured split: prod.splits)
  then show ?thesis using x(2) by simp
qed

lemma vendor_after:
  assumes "\<And>src scripts. ie_source e = Some (src, scripts) \<Longrightarrow> entry_script \<in> fst ` set scripts"
  shows "scripts_there e l (in_repo (vendorScripts e l s))"
proof -
  have copied: "exists_in (foldl (\<lambda>r (name, contents). write_file (dest @ [name]) (Contents contents) r) r xs) (dest @ [n])"
    if "n \<in> fst ` set xs" for dest r xs n
    using that
  proof (induction xs arbitrary: r)
    case (Cons x xs)
    obtain name c where x: "x = (name, c)" by (cases x)
    show ?case
    proof (cases "n = name")
      case True
      then show ?thesis using keeps_writes[where r = "write_file (dest @ [name]) (Contents c) r"] x by (simp add: keeps_def)
    qed (use Cons x in auto)
  qed simp
  have "suffix (js ''.ts'') entry_script" by (simp add: entry_script_def js_eval suffix_to_prefix)
  then have "entry_script \<in> fst ` set (filter (\<lambda>(name, contents). suffix (js ''.ts'') name) scripts)"
    if "entry_script \<in> fst ` set scripts" for scripts :: "(jstr \<times> jstr) list"
    using that by force
  then show ?thesis using assms copied
    by (auto simp: scripts_there_def vendorScripts_def Let_def split: option.splits prod.splits)
qed

lemma config_after: "exists_in (in_repo (install_config e l s)) (join_path (ln_repoRoot l) configRel)"
  by (auto simp: install_config_def ensured)

lemma scripts_keep: "scripts_there e l r \<Longrightarrow> keeps r r' \<Longrightarrow> scripts_there e l r'"
  by (auto simp: scripts_there_def keeps_def Let_def)

lemma exists_keep: "exists_in r p \<Longrightarrow> keeps r r' \<Longrightarrow> exists_in r' p"
  by (simp add: keeps_def)

lemma after_install:
  assumes "\<And>src scripts. ie_source e = Some (src, scripts) \<Longrightarrow> entry_script \<in> fst ` set scripts"
  shows "installed e (load_in parse e r) (in_repo (install parse e r))"
proof -
  let ?l = "load_in parse e r"
  define s1 where "s1 = install_config e ?l \<lparr>in_repo = r, in_written = [], in_skipped = []\<rparr>"
  define s2 where "s2 = foldl (\<lambda>t f. install_folder ?l f t) s1 (install_folders ?l)"
  define s3 where "s3 = install_contracts e ?l s2"
  define s4 where "s4 = vendorScripts e ?l s3"
  have last: "install parse e r = install_package e ?l s4"
    by (simp add: install_def Let_def s1_def s2_def s3_def s4_def)
  have k: "keeps (in_repo s1) (in_repo s2)" "keeps (in_repo s2) (in_repo s3)" "keeps (in_repo s3) (in_repo s4)"
    by (auto simp: s2_def s3_def s4_def intro: keeps_foldl)
  have config: "exists_in (in_repo s1) (join_path (ln_repoRoot ?l) configRel)" unfolding s1_def by (rule config_after)
  have folders: "exists_in (in_repo s2) (folder_path ?l f)" if "f \<in> set (install_folders ?l)" for f
    unfolding s2_def by (rule exists_foldl[OF _ _ that]) (simp_all add: folder_after)
  have docs: "exists_in (in_repo s3) (join_path (ln_repoRoot ?l) rel)"
    if "(rel, d, h) \<in> set (contract_documents e ?l (in_repo (install parse e r)))" for rel d h
    unfolding s3_def by (rule contracts_after) (use that in force)
  have "scripts_there e ?l (in_repo s4)" unfolding s4_def by (rule vendor_after[OF assms])
  then have "scripts_there e ?l (in_repo (install parse e r))"
    unfolding last by (auto simp: scripts_there_def Let_def)
  moreover have "package_there (in_repo (install parse e r))" unfolding last by (rule package_after)
  moreover have "exists_in (in_repo (install parse e r)) p \<longleftrightarrow> exists_in (in_repo s4) p" for p unfolding last by simp
  ultimately show ?thesis
    unfolding installed_def using config folders docs k by (auto simp: keeps_def)
qed

text \<open>On an installed repository no step writes.\<close>

definition unchanged :: "installation \<Rightarrow> installation \<Rightarrow> bool" where
  "unchanged s s' \<longleftrightarrow> in_repo s' = in_repo s \<and> in_written s' = in_written s"

lemma unchanged_foldl: "(\<And>t x. x \<in> set xs \<Longrightarrow> in_repo t = in_repo s \<Longrightarrow> unchanged t (f t x)) \<Longrightarrow> unchanged s (foldl f s xs)"
proof (induction xs rule: rev_induct)
  case (snoc x xs)
  have "unchanged s (foldl f s xs)" using snoc by simp
  moreover have "unchanged (foldl f s xs) (f (foldl f s xs) x)"
    using snoc.prems[of x] calculation by (simp add: unchanged_def)
  ultimately show ?case by (simp add: unchanged_def)
qed (simp add: unchanged_def)

lemma installed_settled:
  assumes "installed e (load_in parse e r) r" "\<not> ie_force e"
  shows "in_repo (install parse e r) = r \<and> in_written (install parse e r) = []"
proof -
  let ?l = "load_in parse e r"
  define s0 where "s0 = \<lparr>in_repo = r, in_written = [], in_skipped = []\<rparr>"
  define s1 where "s1 = install_config e ?l s0"
  define s2 where "s2 = foldl (\<lambda>t f. install_folder ?l f t) s1 (install_folders ?l)"
  define s3 where "s3 = install_contracts e ?l s2"
  define s4 where "s4 = vendorScripts e ?l s3"
  have r0: "in_repo s0 = r" "in_written s0 = []" by (simp_all add: s0_def)
  have u1: "unchanged s0 s1"
    using assms(1) r0 by (simp add: s1_def install_config_def installed_def unchanged_def)
  have "unchanged s1 s2" unfolding s2_def
    using assms(1) u1 r0
    by (intro unchanged_foldl) (auto simp: unchanged_def install_folder_def installed_def folder_path_def Let_def split: prod.splits)
  with u1 have u2: "unchanged s0 s2" by (simp add: unchanged_def)
  have "unchanged s2 s3" unfolding s3_def install_contracts_def
  proof (rule unchanged_foldl)
    fix t :: installation and x assume x: "x \<in> set (contract_documents e ?l (in_repo s2))" and t: "in_repo t = in_repo s2"
    have "in_repo s2 = r" using u2 r0 by (simp add: unchanged_def)
    then show "unchanged t (case x of (rel, d, h) \<Rightarrow> ensure (ie_force e) (ln_repoRoot ?l) rel d h t)"
      using assms x t by (cases x) (auto simp: installed_def ensure_def unchanged_def Let_def)
  qed
  with u2 have u3: "unchanged s0 s3" by (simp add: unchanged_def)
  have "scripts_there e ?l r" using assms(1) by (simp add: installed_def)
  with u3 r0 have "unchanged s3 s4"
    by (auto simp: s4_def vendorScripts_def scripts_there_def unchanged_def Let_def split: option.splits prod.splits)
  with u3 have u4: "unchanged s0 s4" by (simp add: unchanged_def)
  have "package_there r" using assms(1) by (simp add: installed_def)
  then have "unchanged s4 (install_package e ?l s4)"
    using u4 r0 by (auto simp: install_package_def package_there_def unchanged_def Let_def split: option.splits)
  then show ?thesis using u4 r0
    by (simp add: install_def Let_def unchanged_def s0_def s1_def s2_def s3_def s4_def)
qed

section \<open>A fresh checkout\<close>

text \<open>The directory of every file and directory is there.\<close>

definition closed_tree :: "repository \<Rightarrow> bool" where
  "closed_tree r \<longleftrightarrow> (\<forall>p. exists_in r p \<longrightarrow> exists_in r (butlast p))"

lemma closed_prefix: "closed_tree r \<Longrightarrow> exists_in r p \<Longrightarrow> prefix q p \<Longrightarrow> exists_in r q"
proof (induction p rule: rev_induct)
  case (snoc x p)
  then show ?case by (cases "q = p @ [x]") (force simp: closed_tree_def)+
qed simp

definition fresh_checkout :: "install_env \<Rightarrow> jstr list \<Rightarrow> repository \<Rightarrow> bool" where
  "fresh_checkout e g r \<longleftrightarrow> Option.bind (ie_config e) nonempty = None \<and> Option.bind (ie_root e) nonempty = None \<and>
     closed_tree r \<and> findGitRoot (\<lambda>dir. exists_in r (dir @ [git_entry])) (ie_cwd e) = Some g \<and>
     (\<forall>d. prefix d (ie_cwd e) \<longrightarrow> config_in (exists_in r) d = None)"

definition config_name :: jstr where "config_name = js ''notes.config.json''"

definition config_file :: "jstr list \<Rightarrow> jstr list" where
  "config_file g = g @ [agents_dir, config_name]"

text \<open>The names that discovery looks for.\<close>

definition sought :: "jstr \<Rightarrow> bool" where
  "sought name \<longleftrightarrow> name \<in> set CONFIG_NAMES \<or> name = git_entry"

definition quiet :: "jstr list \<Rightarrow> repository \<Rightarrow> repository \<Rightarrow> bool" where
  "quiet g r r' \<longleftrightarrow> closed_tree r' \<and> exists_in r' g \<and>
     (\<forall>p. exists_in r' p \<longrightarrow> exists_in r p \<or> p = config_file g \<or> (p \<noteq> [] \<and> \<not> sought (last p)))"

definition configured :: "jstr list \<Rightarrow> RawConfig \<Rightarrow> repository \<Rightarrow> repository \<Rightarrow> bool" where
  "configured g raw r r' \<longleftrightarrow> quiet g r r' \<and> map_of (rp_files r') (config_file g) = Some (ConfigDocument raw)"

lemma quiet_dirs:
  assumes "quiet g r r'" "list_all (\<lambda>n. \<not> sought n) rest"
  shows "quiet g r (make_dirs (g @ rest) r')"
proof -
  have closed: "closed_tree r'" and g: "exists_in r' g" using assms(1) by (simp_all add: quiet_def)
  have "closed_tree (make_dirs (g @ rest) r')"
    using closed by (auto simp: closed_tree_def intro: prefix_order.trans[OF prefixeq_butlast])
  moreover have "exists_in r p \<or> p = config_file g \<or> (p \<noteq> [] \<and> \<not> sought (last p))" if new: "prefix p (g @ rest)" for p
  proof (cases "prefix p g")
    case True
    then have "exists_in r' p" using closed_prefix[OF closed g] by blast
    then show ?thesis using assms(1) by (simp add: quiet_def)
  next
    case False
    then obtain q where q: "p = g @ q" "prefix q rest" using new unfolding prefix_append by blast
    have "q \<noteq> []" using False q(1) by auto
    note q = q(1) this q(2)
    then have "last q \<in> set rest" using set_mono_prefix last_in_set by blast
    then show ?thesis using q assms(2) by (auto simp: list_all_iff)
  qed
  ultimately show ?thesis using assms(1) by (auto simp: quiet_def)
qed

lemma quiet_write:
  assumes "quiet g r r'" "exists_in r' (butlast path)" "path \<noteq> []" "path = config_file g \<or> \<not> sought (last path)"
  shows "quiet g r (write_file path d r')"
  using assms by (auto simp: quiet_def closed_tree_def)

lemma configured_dirs:
  "configured g raw r r' \<Longrightarrow> list_all (\<lambda>n. \<not> sought n) rest \<Longrightarrow> configured g raw r (make_dirs (g @ rest) r')"
  using quiet_dirs by (auto simp: configured_def make_dirs_def)

lemma configured_write:
  assumes "configured g raw r r'" "exists_in r' (butlast path)" "path \<noteq> []" "\<not> sought (last path)"
  shows "configured g raw r (write_file path d r')"
proof -
  have "path \<noteq> config_file g" using assms(4) by (auto simp: config_file_def sought_def CONFIG_NAMES_def config_name_def)
  then show ?thesis using assms quiet_write by (auto simp: configured_def write_file_def map_of_put_by)
qed

lemma ensure_configured:
  assumes "configured g raw r (in_repo s)" "join_path rr rel = g @ rest" "rest \<noteq> []" "list_all (\<lambda>n. \<not> sought n) rest"
  shows "configured g raw r (in_repo (ensure force rr rel d h s))"
proof -
  have dirs: "list_all (\<lambda>n. \<not> sought n) (butlast rest)" using assms(4) by (auto simp: list_all_iff dest: in_set_butlastD)
  have "\<not> sought (last (g @ rest))" using assms(3,4) by (simp add: list_all_iff)
  moreover have "butlast (g @ rest) = g @ butlast rest" using assms(3) by (simp add: butlast_append)
  ultimately have "configured g raw r (write_file (g @ rest) d (make_dirs (butlast (g @ rest)) (in_repo s)))"
    using assms(3) by (intro configured_write) (simp_all add: configured_dirs[OF assms(1) dirs])
  then show ?thesis using assms(1) by (simp add: ensure_def assms(2) Let_def)
qed

lemma configured_foldl:
  "configured g raw r (in_repo s) \<Longrightarrow>
    (\<And>t x. x \<in> set xs \<Longrightarrow> configured g raw r (in_repo t) \<Longrightarrow> configured g raw r (in_repo (f t x))) \<Longrightarrow>
    configured g raw r (in_repo (foldl f s xs))"
  by (induction xs arbitrary: s) auto

text \<open>Where the default configuration puts things.\<close>

definition notes_names :: "jstr list" where "notes_names = [agents_dir, js ''notes'']"

lemma default_root: "resolve_path g (nc_root DEFAULT_CONFIG) = g @ notes_names"
  by (simp add: resolve_path_def DEFAULT_CONFIG_def notes_names_def agents_dir_def walk_name_def js_eval slash_def dot_name_def up_name_def)

lemma relative_below: "relative_names g (g @ names) = names"
  by (induction g) (cases names; simp)+

lemma describe_below:
  assumes "ln_repoRoot l = g" "ln_notesRoot l = g @ notes_names"
  shows "describe l = js ''.agents/notes''"
  unfolding describe_def relative_path_def assms relative_below
  by (simp add: notes_names_def agents_dir_def toPosix_def js_eval slash_def backslash_def)

lemma join_names:
  assumes "canonical_path names" "names \<noteq> []"
  shows "join_path base (join [slash] names) = base @ names"
proof -
  have "split_on slash (join [slash] names) = names"
    using assms by (intro split_on_join) (auto simp: canonical_path_def list_all_iff)
  then show ?thesis using walk_names[OF assms(1)] by (simp add: join_path_def)
qed

lemma join_name: "canonical_path [name] \<Longrightarrow> join_path base name = base @ [name]"
  using join_names[of "[name]" base] by simp

text \<open>A default place: the loaded notes of a checkout with the default root, folders and classes.\<close>

definition default_place :: "jstr list \<Rightarrow> LoadedNotes \<Rightarrow> bool" where
  "default_place g l \<longleftrightarrow> ln_repoRoot l = g \<and> ln_notesRoot l = g @ notes_names \<and>
     nc_lifecycles (ln_config l) = DEFAULT_LIFECYCLES \<and> nc_classes (ln_config l) = DEFAULT_CLASSES \<and>
     nc_archive (ln_config l) = nc_archive DEFAULT_CONFIG"

lemma plain_names:
  "n \<in> set (DEFAULT_LIFECYCLES @ nc_archive DEFAULT_CONFIG # DEFAULT_CLASSES) \<Longrightarrow> canonical_path [n] \<and> \<not> sought n"
  by (auto simp: DEFAULT_LIFECYCLES_def DEFAULT_CLASSES_def DEFAULT_CONFIG_def canonical_path_def sought_def CONFIG_NAMES_def
      git_entry_def dot_name_def up_name_def js_eval slash_def)

lemma config_path: "join_path g configRel = config_file g"
proof -
  have rel: "configRel = join [slash] [agents_dir, config_name]"
    by (simp add: configRel_def agents_dir_def config_name_def js_eval slash_def)
  have "canonical_path [agents_dir, config_name]"
    by (simp add: canonical_path_def agents_dir_def config_name_def dot_name_def up_name_def js_eval slash_def)
  then show ?thesis unfolding rel config_file_def by (rule join_names) simp
qed

lemma folder_names:
  assumes "default_place g l" "f \<in> set (install_folders l)"
  shows "folder_path l f = g @ notes_names @ [fst f, snd f]" "\<not> sought (fst f)" "\<not> sought (snd f)"
proof -
  have f: "fst f \<in> set (DEFAULT_LIFECYCLES @ [nc_archive DEFAULT_CONFIG])" "snd f \<in> set DEFAULT_CLASSES"
    using assms by (auto simp: install_folders_def default_place_def Let_def)
  then have "canonical_path [fst f]" "canonical_path [snd f]" "\<not> sought (fst f)" "\<not> sought (snd f)"
    using plain_names by auto
  then show "folder_path l f = g @ notes_names @ [fst f, snd f]" "\<not> sought (fst f)" "\<not> sought (snd f)"
    using assms(1) by (simp_all add: folder_path_def join_name default_place_def)
qed

lemma fixed_not_sought:
  "\<not> sought agents_dir" "\<not> sought (js ''notes'')" "\<not> sought (js ''AGENTS.md'')" "\<not> sought (js ''skills'')"
  "\<not> sought (js ''hx-agent-notes'')" "\<not> sought (js ''scripts'')" "\<not> sought (js ''archived'')" "\<not> sought (js ''implemented'')"
  by (simp_all add: sought_def CONFIG_NAMES_def git_entry_def agents_dir_def)

lemma contract_names:
  assumes "default_place g l" "(rel, d, h) \<in> set (contract_documents e l r)"
  shows "\<exists>rest. join_path g rel = g @ rest \<and> rest \<noteq> [] \<and> list_all (\<lambda>n. \<not> sought n) rest"
proof -
  have here: "describe l = js ''.agents/notes''" "nc_archive (ln_config l) = js ''archived''"
    using assms(1) describe_below by (auto simp: default_place_def DEFAULT_CONFIG_def)
  then have "rel \<in> {join [slash] (notes_names @ [js ''AGENTS.md'']), join [slash] (notes_names @ [js ''archived'', js ''AGENTS.md'']),
      join [slash] (notes_names @ [js ''implemented'', js ''AGENTS.md''])}"
    using assms(2) by (auto simp: contract_documents_def Let_def notes_names_def agents_dir_def js_eval slash_def)
  then obtain tail where tail: "rel = join [slash] (notes_names @ tail)"
    "tail \<in> {[js ''AGENTS.md''], [js ''archived'', js ''AGENTS.md''], [js ''implemented'', js ''AGENTS.md'']}" by blast
  have "canonical_path (notes_names @ tail)"
    using tail(2) by (auto simp: canonical_path_def notes_names_def agents_dir_def dot_name_def up_name_def js_eval slash_def)
  moreover have "list_all (\<lambda>n. \<not> sought n) (notes_names @ tail)"
    using tail(2) by (auto simp: notes_names_def fixed_not_sought)
  ultimately show ?thesis using tail(1) join_names[of "notes_names @ tail" g] by (intro exI[of _ "notes_names @ tail"]) (simp add: notes_names_def)
qed

lemma vendored_configured:
  assumes "configured g raw r (in_repo s)" "default_place g l"
  shows "configured g raw r (in_repo (vendorScripts e l s))"
proof -
  let ?names = "[agents_dir, js ''skills'', js ''hx-agent-notes'', js ''scripts'']"
  have rel: "DEFAULT_SCRIPTS_DIR = join [slash] ?names" by (simp add: DEFAULT_SCRIPTS_DIR_def agents_dir_def js_eval slash_def)
  have "canonical_path ?names"
    by (simp add: canonical_path_def agents_dir_def dot_name_def up_name_def js_eval slash_def)
  then have dest: "join_path (ln_repoRoot l) DEFAULT_SCRIPTS_DIR = g @ ?names"
    unfolding rel using join_names[of ?names g] assms(2) by (simp add: default_place_def)
  have files: "configured g raw r (foldl (\<lambda>r (name, contents). write_file (d @ [name]) (Contents contents) r) r' xs)"
    if "configured g raw r r'" "exists_in r' d" "list_all (\<lambda>(name, c). suffix (js ''.ts'') name) xs" for d r' xs
    using that
  proof (induction xs arbitrary: r')
    case (Cons x xs)
    obtain name c where x: "x = (name, c)" by (cases x)
    have "\<not> sought name" using Cons.prems(3) x
      by (auto simp: sought_def CONFIG_NAMES_def git_entry_def js_eval suffix_to_prefix)
    then have "configured g raw r (write_file (d @ [name]) (Contents c) r')"
      using Cons.prems by (intro configured_write) simp_all
    then show ?case using Cons x by simp
  qed simp
  have made: "configured g raw r (make_dirs (g @ ?names) (in_repo s))"
    by (rule configured_dirs[OF assms(1)]) (simp add: fixed_not_sought)
  show ?thesis
    using assms(1) files[OF made, of "g @ ?names"]
    by (auto simp: vendorScripts_def dest Let_def list_all_iff split: option.splits prod.splits)
qed

lemma package_configured: "configured g raw r (in_repo (install_package e l s)) \<longleftrightarrow> configured g raw r (in_repo s)"
proof -
  have "rp_files (in_repo (install_package e l s)) = rp_files (in_repo s)"
    by (auto simp: install_package_def Let_def split: option.splits)
  then show ?thesis by (simp add: configured_def quiet_def closed_tree_def)
qed

lemma fresh_place:
  assumes "fresh_checkout e g r"
  shows "default_place g (load_in parse e r)" "ln_config (load_in parse e r) = DEFAULT_CONFIG" "prefix g (ie_cwd e)"
proof -
  have none: "find_config (exists_in r) (ie_config e) (Some g) (ie_cwd e) = None"
  proof (cases "findUp 12 (config_in (exists_in r)) (Some g) (ie_cwd e)")
    case (Some p)
    then show ?thesis using findUp_nearest[OF Some] assms by (auto simp: fresh_checkout_def)
  qed (use assms in \<open>simp add: find_config_def fresh_checkout_def\<close>)
  then show "default_place g (load_in parse e r)" "ln_config (load_in parse e r) = DEFAULT_CONFIG"
    using assms default_root
    by (simp_all add: load_in_def loadNotes_def fresh_checkout_def Let_def default_place_def)
      (simp_all add: DEFAULT_CONFIG_def)
  show "prefix g (ie_cwd e)" using assms climb_nearest by (auto simp: fresh_checkout_def findGitRoot_def)
qed

lemma fresh_configured:
  assumes fresh: "fresh_checkout e g r"
  shows "configured g (written_config DEFAULT_CONFIG) r (in_repo (install parse e r))"
proof -
  let ?l = "load_in parse e r" and ?raw = "written_config DEFAULT_CONFIG"
  note place = fresh_place(1,2)[OF fresh, of parse] fresh_place(3)[OF fresh]
  have git: "exists_in r (g @ [git_entry])" and closed: "closed_tree r"
    using fresh climb_nearest by (auto simp: fresh_checkout_def findGitRoot_def)
  have g: "exists_in r g" using closed git by (metis closed_tree_def butlast_snoc)
  have quiet: "quiet g r r" using closed g by (simp add: quiet_def)
  have "config_in (exists_in r) g = None" using fresh place(3) by (simp add: fresh_checkout_def)
  then have absent: "\<not> exists_in r (config_file g)"
    by (auto simp: config_in_def CONFIG_NAMES_def config_file_def config_name_def find_None_iff)
  define s1 where "s1 = install_config e ?l \<lparr>in_repo = r, in_written = [], in_skipped = []\<rparr>"
  have root: "ln_repoRoot ?l = g" using place(1) by (simp add: default_place_def)
  have "in_repo s1 = write_file (config_file g) (ConfigDocument ?raw) (make_dirs (butlast (config_file g)) r)"
    using absent place(2) by (simp add: s1_def install_config_def root config_path ensure_def Let_def)
  moreover have "butlast (config_file g) = g @ [agents_dir]" by (simp add: config_file_def butlast_append)
  moreover have "quiet g r (write_file (config_file g) (ConfigDocument ?raw) (make_dirs (g @ [agents_dir]) r))"
    by (rule quiet_write[OF quiet_dirs[OF quiet]]) (simp_all add: fixed_not_sought config_file_def butlast_append)
  ultimately have c1: "configured g ?raw r (in_repo s1)"
    by (simp add: configured_def) (simp add: write_file_def map_of_put_by)
  have c2: "configured g ?raw r (in_repo (foldl (\<lambda>t f. install_folder ?l f t) s1 (install_folders ?l)))"
  proof (rule configured_foldl[OF c1])
    fix t :: installation and f assume f: "f \<in> set (install_folders ?l)" and t: "configured g ?raw r (in_repo t)"
    note names = folder_names[OF place(1) f]
    have "configured g ?raw r (make_dirs (folder_path ?l f) (in_repo t))"
      unfolding names(1) by (rule configured_dirs[OF t]) (simp add: notes_names_def fixed_not_sought names)
    then show "configured g ?raw r (in_repo (install_folder ?l f t))"
      using t by (auto simp: install_folder_def folder_path_def Let_def split: prod.splits)
  qed
  have "configured g ?raw r (in_repo (install_contracts e ?l s))" if "configured g ?raw r (in_repo s)" for s
    unfolding install_contracts_def
  proof (rule configured_foldl[OF that])
    fix t :: installation and x assume x: "x \<in> set (contract_documents e ?l (in_repo s))" and t: "configured g ?raw r (in_repo t)"
    obtain rel d h where "x = (rel, d, h)" by (cases x)
    then show "configured g ?raw r (in_repo (case x of (rel, d, h) \<Rightarrow> ensure (ie_force e) (ln_repoRoot ?l) rel d h t))"
      using contract_names[OF place(1), of rel d h e "in_repo s"] x ensure_configured[OF t] root by auto
  qed
  then show ?thesis
    using c2 vendored_configured[OF _ place(1)] by (simp add: install_def Let_def package_configured s1_def)
qed

lemma install_exists: "exists_in r p \<Longrightarrow> exists_in (in_repo (install parse e r)) p"
proof -
  assume "exists_in r p"
  let ?l = "load_in parse e r" and ?s = "\<lparr>in_repo = r, in_written = [], in_skipped = []\<rparr>"
  have "keeps r (in_repo (vendorScripts e ?l (install_contracts e ?l
      (foldl (\<lambda>t f. install_folder ?l f t) (install_config e ?l ?s) (install_folders ?l)))))"
    using keeps_steps(1)[of ?s e ?l]
    by (intro keeps_trans[OF keeps_trans[OF keeps_trans[OF _ keeps_foldl] keeps_steps(3)] keeps_vendor]) auto
  then show ?thesis using \<open>exists_in r p\<close> by (simp add: install_def Let_def keeps_def)
qed

lemma reload_place:
  assumes fresh: "fresh_checkout e g r"
  shows "default_place g (load_in parse e (in_repo (install parse e r)))"
proof -
  let ?r' = "in_repo (install parse e r)" and ?raw = "written_config DEFAULT_CONFIG"
  have conf: "configured g ?raw r ?r'" by (rule fresh_configured[OF fresh])
  have new: "exists_in ?r' p \<longleftrightarrow> exists_in r p \<or> p = config_file g" if "p \<noteq> []" "sought (last p)" for p
    using conf install_exists[of r p parse e] that by (auto simp: configured_def quiet_def exists_in_def)
  have other: "d @ [git_entry] \<noteq> config_file g" for d
    by (simp add: config_file_def config_name_def git_entry_def)
  have "exists_in ?r' (d @ [git_entry]) = exists_in r (d @ [git_entry])" for d
    using new[of "d @ [git_entry]"] other[of d] by (simp add: sought_def)
  then have git: "findGitRoot (\<lambda>dir. exists_in ?r' (dir @ [git_entry])) (ie_cwd e) = Some g"
    using fresh by (simp only: fresh_checkout_def)
  have found: "p = config_file g" if p: "find_config (exists_in ?r') (ie_config e) (Some g) (ie_cwd e) = Some p" for p
  proof -
    have up: "findUp 12 (config_in (exists_in ?r')) (Some g) (ie_cwd e) = Some p"
      using p fresh by (simp add: find_config_def fresh_checkout_def)
    obtain d where d: "config_in (exists_in ?r') d = Some p" "prefix d (ie_cwd e)"
      using findUp_nearest[OF up] by auto
    obtain name where name: "name \<in> set CONFIG_NAMES" "p = d @ [agents_dir, name]" "exists_in ?r' p"
      using config_in_Some[OF d(1)] by auto
    have "config_in (exists_in r) d = None" using fresh d(2) by (simp add: fresh_checkout_def)
    then have "\<not> exists_in r p" using name(1,2) by (auto simp: config_in_def find_None_iff)
    then show ?thesis using new[of p] name by (simp add: sought_def)
  qed
  have parsed: "map_of (rp_files ?r') (config_file g) = Some (ConfigDocument ?raw)" using conf by (simp add: configured_def)
  have fields: "nc_root (merge_config ?raw) = nc_root DEFAULT_CONFIG" "nc_lifecycles (merge_config ?raw) = DEFAULT_LIFECYCLES"
    "nc_classes (merge_config ?raw) = DEFAULT_CLASSES" "nc_archive (merge_config ?raw) = nc_archive DEFAULT_CONFIG"
    by (simp_all add: merge_config_def written_config_def Let_def DEFAULT_CONFIG_def)
  have there: "exists_in ?r' (config_file g)" using parsed by (simp add: exists_in_def)
  have root: "butlast (butlast (config_file g)) = g" by (simp add: config_file_def butlast_append)
  have env: "Option.bind (ie_root e) nonempty = None" using fresh by (simp add: fresh_checkout_def)
  have deflt: "nc_lifecycles DEFAULT_CONFIG = DEFAULT_LIFECYCLES" "nc_classes DEFAULT_CONFIG = DEFAULT_CLASSES"
    by (simp_all add: DEFAULT_CONFIG_def)
  show ?thesis
  proof (cases "find_config (exists_in ?r') (ie_config e) (Some g) (ie_cwd e)")
    case None
    then show ?thesis
      using git env default_root[of g] deflt by (simp add: default_place_def load_in_def loadNotes_def Let_def)
  next
    case (Some p)
    then have "p = config_file g" by (rule found)
    then show ?thesis
      using Some git env default_root[of g] parsed there fields root
      by (simp add: default_place_def load_in_def loadNotes_def Let_def)
  qed
qed

lemma installed_by_place:
  assumes "default_place g l" "default_place g l'" "installed e l r"
  shows "installed e l' r"
proof -
  have same: "ln_repoRoot l' = ln_repoRoot l" "ln_notesRoot l' = ln_notesRoot l" "describe l' = describe l"
    "nc_archive (ln_config l') = nc_archive (ln_config l)" "install_folders l' = install_folders l"
    using assms(1,2) by (simp_all add: default_place_def describe_def install_folders_def Let_def)
  have "map fst (contract_documents e l' r) = map fst (contract_documents e l r)"
    by (simp add: contract_documents_def Let_def same)
  then have docs: "fst ` set (contract_documents e l' r) = fst ` set (contract_documents e l r)" by (metis set_map)
  have "exists_in r (join_path (ln_repoRoot l) p)" if "p \<in> fst ` set (contract_documents e l' r)" for p
    using that assms(3) unfolding docs by (auto simp: installed_def)
  then have "\<forall>(rel, d, h) \<in> set (contract_documents e l' r). exists_in r (join_path (ln_repoRoot l) rel)" by force
  then show ?thesis using assms(3) by (simp add: installed_def same folder_path_def scripts_there_def)
qed

text \<open>
  C20: The installer is idempotent. In a checkout without a configuration of its own, started anywhere
  in it, a second run without \<open>--force\<close> finds everything in place: it writes nothing and leaves the
  repository exactly as the first run left it. When the installer brings its scripts along, the
  gate of all gates has to be among them.
\<close>

theorem install_idempotent:
  assumes fresh: "fresh_checkout e g r" and quiet: "\<not> ie_force e"
    and source: "case ie_source e of None \<Rightarrow> True | Some (src, scripts) \<Rightarrow> entry_script \<in> fst ` set scripts"
  shows "in_repo (install parse e (in_repo (install parse e r))) = in_repo (install parse e r) \<and>
    in_written (install parse e (in_repo (install parse e r))) = []"
proof -
  let ?r' = "in_repo (install parse e r)"
  have "entry_script \<in> fst ` set scripts" if "ie_source e = Some (src, scripts)" for src scripts
    using source that by simp
  then have "installed e (load_in parse e r) ?r'" by (rule after_install)
  then have "installed e (load_in parse e ?r') ?r'"
    by (rule installed_by_place[OF fresh_place(1)[OF fresh] reload_place[OF fresh]])
  then show ?thesis using installed_settled quiet by blast
qed

definition bare_checkout :: repository where
  "bare_checkout = \<lparr>rp_files = [], rp_dirs = [[js ''r''], [js ''r'', git_entry]], rp_package = Some None\<rparr>"

definition bare_env :: install_env where
  "bare_env = \<lparr>ie_force = False, ie_cwd = [js ''r''], ie_config = None, ie_root = None, ie_scripts = None, ie_source = None,
     ie_strips_types = True\<rparr>"

theorem install_idempotent_witness:
  "in_written (install (\<lambda>_. written_config DEFAULT_CONFIG) bare_env
     (in_repo (install (\<lambda>_. written_config DEFAULT_CONFIG) bare_env bare_checkout))) = []"
proof -
  have "closed_tree bare_checkout"
    by (auto simp: closed_tree_def exists_in_def bare_checkout_def)
  moreover have "findGitRoot (\<lambda>dir. exists_in bare_checkout (dir @ [git_entry])) [js ''r''] = Some [js ''r'']"
    by (simp add: findGitRoot_def eval_nat_numeral exists_in_def bare_checkout_def)
  moreover have "config_in (exists_in bare_checkout) d = None" for d
    by (auto simp: config_in_def CONFIG_NAMES_def find_None_iff exists_in_def bare_checkout_def git_entry_def)
  ultimately have fresh: "fresh_checkout bare_env [js ''r''] bare_checkout"
    by (simp add: fresh_checkout_def bare_env_def)
  have "\<not> ie_force bare_env" "case ie_source bare_env of None \<Rightarrow> True | Some (src, scripts) \<Rightarrow> entry_script \<in> fst ` set scripts"
    by (simp_all add: bare_env_def)
  from install_idempotent[OF fresh this, of "\<lambda>_. written_config DEFAULT_CONFIG"] show ?thesis by simp
qed

text \<open>
  Where the configuration has the second of the two names, the installer writes one with the first
  name, which discovery prefers from then on; the fields that it does not write, among them the
  banned phrases, fall back to the defaults.
\<close>

lemma other_config_shadowed:
  fixes e l s
  defines "r \<equiv> in_repo (install_config e l s)"
  assumes "\<not> exists_in (in_repo s) (config_file (ln_repoRoot l))"
  shows "config_in (exists_in r) (ln_repoRoot l) = Some (config_file (ln_repoRoot l))"
    "map_of (rp_files r) (config_file (ln_repoRoot l)) = Some (ConfigDocument (written_config (ln_config l)))"
    "nc_proseBannedPhrases (merge_config (written_config (ln_config l))) = []"
proof -
  have r: "r = write_file (config_file (ln_repoRoot l)) (ConfigDocument (written_config (ln_config l)))
      (make_dirs (butlast (config_file (ln_repoRoot l))) (in_repo s))"
    using assms(2) by (simp add: r_def install_config_def config_path ensure_def Let_def)
  show "config_in (exists_in r) (ln_repoRoot l) = Some (config_file (ln_repoRoot l))"
    by (simp add: config_in_def CONFIG_NAMES_def r) (simp add: config_file_def config_name_def)
  show "map_of (rp_files r) (config_file (ln_repoRoot l)) = Some (ConfigDocument (written_config (ln_config l)))"
    by (simp add: r) (simp add: write_file_def map_of_put_by)
  show "nc_proseBannedPhrases (merge_config (written_config (ln_config l))) = []"
    by (simp add: merge_config_def written_config_def Let_def DEFAULT_CONFIG_def)
qed

end
