(* ===== verification/NotesInbound.thy ===== *)
theory NotesInbound
  imports NotesArchive NotesCitations
begin

text \<open>
  The rest of archive-note.ts: the references to a note that are collected before it is moved, from
  other notes and from source files, and what the script prints. The note and the sources are read
  from the file tree of the repository. A root of the search that is a file, where the script stops,
  has no files here.
\<close>

section \<open>References to a note\<close>

datatype inbound = NoteLink jstr jstr | SourceLine jstr nat jstr

text \<open>\<open>link.target.split('#')[0]\<close> ends in the file name.\<close>

definition hash_unit :: nat where "hash_unit = 0x23"

definition names_note :: "jstr \<Rightarrow> jstr \<Rightarrow> bool" where
  "names_note filename target \<longleftrightarrow>
     (let withoutAnchor = hd (split_on hash_unit target) in
      suffix (slash # filename) withoutAnchor \<or> withoutAnchor = filename)"

definition contents_at :: "(jstr \<times> fnode) list \<Rightarrow> jstr \<Rightarrow> jstr" where
  "contents_at es rel = (case node_at (Dir es) (split_on slash rel) of Some (File contents) \<Rightarrow> contents | _ \<Rightarrow> [])"

definition note_links :: "NotesConfig \<Rightarrow> bool \<Rightarrow> (jstr \<times> fnode) list \<Rightarrow> jstr \<Rightarrow> jstr \<Rightarrow> inbound list" where
  "note_links c bounded es rel filename =
     concat (map (\<lambda>note.
       if an_rel note = rel then []
       else map (\<lambda>(label, target). NoteLink (an_rel note) target)
         (filter (\<lambda>(label, target). names_note filename target) (markdownLinks (contents_at es (an_rel note)))))
       (fst (walkNotes c bounded (Some es))))"

text \<open>\<open>sourceFiles\<close>: the files of a directory and, in their place, those of the directories it enters.\<close>

fun source_files :: "BacklinkConfig \<Rightarrow> bool \<Rightarrow> jstr list \<Rightarrow> fnode \<Rightarrow> (jstr \<times> jstr) list"
  and source_entries :: "BacklinkConfig \<Rightarrow> bool \<Rightarrow> jstr list \<Rightarrow> (jstr \<times> fnode) list \<Rightarrow> (jstr \<times> jstr) list" where
  "source_files c bounded path (Dir es) = source_entries c bounded path es"
| "source_files c bounded path (File contents) = []"
| "source_files c bounded path Other = []"
| "source_entries c bounded path [] = []"
| "source_entries c bounded path ((name, n) # es) =
     (if enters bounded (name, n) then source_files c bounded (path @ [name]) n else yields c path (name, n))
     @ source_entries c bounded path es"

definition source_lines :: "jstr \<Rightarrow> jstr \<times> jstr \<Rightarrow> inbound list" where
  "source_lines filename f =
     (case f of (rel, contents) \<Rightarrow>
        if \<not> str_includes contents filename then []
        else concat (map (\<lambda>(i, line). if str_includes line filename then [SourceLine rel (Suc i) (take 120 (trim line))] else [])
          (enumerate 0 (split_on newline contents))))"

definition searched_files :: "BacklinkConfig \<Rightarrow> bool \<Rightarrow> fnode \<Rightarrow> (jstr \<times> jstr) list" where
  "searched_files b bounded repo =
     concat (map (\<lambda>top_dir. let path = resolve_path [] top_dir in
       case node_at repo path of Some n \<Rightarrow> source_files b bounded path n | None \<Rightarrow> []) (bl_roots b))"

definition inbound_refs :: "LoadedNotes \<Rightarrow> (jstr \<times> fnode) list \<Rightarrow> fnode \<Rightarrow> jstr \<Rightarrow> jstr \<Rightarrow> inbound list" where
  "inbound_refs l es repo rel filename =
     (let bounded = ln_gitRoot l \<noteq> None in
      note_links (ln_config l) bounded es rel filename
      @ concat (map (source_lines filename) (searched_files (nc_backlinks (ln_config l)) bounded repo)))"

section \<open>The script\<close>

datatype archive_line = ArchiveFrom jstr | ArchiveTo jstr | SealLineShown jstr | NoInbound | RepairHead
  | Repair inbound | NothingWritten | SealedAs jstr | ArchiveRefused archive_refusal

definition archive_report :: "LoadedNotes \<Rightarrow> jstr list \<Rightarrow> jstr \<Rightarrow> inbound list \<Rightarrow> archive_line list" where
  "archive_report l segs date hits =
     [ArchiveFrom (join [slash] segs), ArchiveTo (join [slash] (nc_archive (ln_config l) # tl segs)), SealLineShown date]
     @ (if hits = [] then [NoInbound] else RepairHead # map Repair hits)"

text \<open>What is printed, and the archive folder and manifest left when anything is written.\<close>

definition archive_script ::
  "(jstr \<Rightarrow> jstr) \<Rightarrow> LoadedNotes \<Rightarrow> jstr list \<Rightarrow> jstr \<Rightarrow> jstr \<Rightarrow> bool \<Rightarrow> (jstr \<times> fnode) list \<Rightarrow> fnode
     \<Rightarrow> (jstr \<times> fnode) list \<Rightarrow> manifest_file \<Rightarrow> archive_line list \<times> ((jstr \<times> fnode) list \<times> manifest_file) option" where
  "archive_script digest l segs date raw dryRun es repo archived m =
     (let report = archive_report l segs date (inbound_refs l es repo (join [slash] segs) (last segs)) in
      case archive_note digest (ln_config l) segs date raw dryRun archived m of
        Inl DryRun \<Rightarrow> (report @ [NothingWritten], None)
      | Inl refusal \<Rightarrow> ([ArchiveRefused refusal], None)
      | Inr left \<Rightarrow> (report @ [SealedAs (join [slash] (tl segs))], Some left))"

section \<open>Every citation that the move breaks is reported\<close>

text \<open>Both scripts search the same files, the gate from a stack and this one by recursion.\<close>

lemma source_entries_set:
  "set (source_entries c bounded path es) =
     set (concat (map (yields c path) es)) \<union>
     (\<Union>(p, n) \<in> set (map (\<lambda>(name, m). (path @ [name], m)) (filter (enters bounded) es)). set (source_files c bounded p n))"
proof (induction es)
  case (Cons e es)
  obtain name n where e: "e = (name, n)" by (cases e)
  have "enters bounded (name, n) \<Longrightarrow> yields c path (name, n) = []"
    by (auto simp: enters_def yields_def split: fnode.splits)
  then show ?case using Cons by (auto simp: e)
qed simp

lemma implementation_files_set:
  "set (implementation_files c bounded stack) = (\<Union>(path, n) \<in> set stack. set (source_files c bounded path n))"
proof (induction c bounded stack rule: implementation_files.induct)
  case (2 c bounded path n stack)
  show ?case
  proof (cases n)
    case (Dir es)
    have "set (implementation_files c bounded ((path, n) # stack)) = set (concat (map (yields c path) es)) \<union>
        (\<Union>(p, m) \<in> set (map (\<lambda>(name, m). (path @ [name], m)) (filter (enters bounded) es)). set (source_files c bounded p m))
        \<union> (\<Union>(p, m) \<in> set stack. set (source_files c bounded p m))"
      using 2 Dir by (simp add: Un_assoc)
    then show ?thesis by (simp add: Dir source_entries_set)
  qed (use 2 in simp_all)
qed simp

lemma searched_files_set:
  "set (searched_files b bounded repo) = set (implementationFiles b bounded repo)"
  unfolding searched_files_def implementationFiles_def implementation_files_set
  by (auto simp: Let_def split: option.splits)

text \<open>A citation is a part of its line that ends in \<open>.md\<close>.\<close>

lemma md_run_md: "md_run s = Some r \<Longrightarrow> prefix r s \<and> suffix md r"
proof -
  have "longest_md n run = Some r \<Longrightarrow> suffix md r" for n run by (induction n) (auto split: if_splits)
  then show "md_run s = Some r \<Longrightarrow> prefix r s \<and> suffix md r"
    using md_run_free[of s r] by (auto simp: md_run_def Let_def)
qed

lemma class_and_name_md: "class_and_name s = Some r \<Longrightarrow> prefix r s \<and> suffix md r"
proof -
  assume r: "class_and_name s = Some r"
  define cls where "cls = takeWhile (\<lambda>u. u = hyphen \<or> (97 \<le> u \<and> u \<le> 122)) s"
  define name where "name = drop 1 (drop (length cls) s)"
  obtain r' where r': "md_run (drop 11 name) = Some r'" "r = cls @ [slash] @ take 11 name @ r'"
    and top: "prefix [slash] (drop (length cls) s)"
    using r by (auto simp: class_and_name_def Let_def cls_def name_def split: if_splits)
  have s: "s = cls @ [slash] @ name"
  proof -
    have "s = cls @ drop (length cls) s" unfolding cls_def by (metis dropWhile_eq_drop takeWhile_dropWhile_id)
    then show ?thesis using top by (cases "drop (length cls) s") (auto simp: name_def)
  qed
  obtain rest where "drop 11 name = r' @ rest" using md_run_md[OF r'(1)] by (auto elim: prefixE)
  then have "name = take 11 name @ r' @ rest" by (metis append_take_drop_id)
  then have "s = r @ rest" using s r'(2) by (metis append.assoc)
  then show ?thesis using md_run_md[OF r'(1)] r'(2) by (auto simp: suffix_def)
qed

lemma cited_md:
  assumes "cited reads alts s = Some r" "\<And>t x. reads t = Some x \<Longrightarrow> prefix x t \<and> suffix md x"
  shows "prefix r s \<and> suffix md r"
proof -
  obtain alt x where alt: "prefix (alt @ [slash]) s" "r = alt @ [slash] @ x" "reads (drop (Suc (length alt)) s) = Some x"
    using first_some_member[OF assms(1)[unfolded cited_def]] by (auto split: if_splits)
  obtain t where "s = (alt @ [slash]) @ t" using alt(1) by (auto elim: prefixE)
  then show ?thesis using alt assms(2)[OF alt(3)] by (auto simp: suffix_def)
qed

lemma drop_sublist: "prefix r (drop k s) \<Longrightarrow> sublist r s"
  by (metis append_take_drop_id prefix_def sublist_def)

lemma repo_ref_md: "repo_ref c alts first s = Some (r, n) \<Longrightarrow> sublist r s \<and> suffix md r"
  using cited_md[OF _ md_run_md] drop_sublist by (fastforce simp: repo_ref_def split: if_splits)

lemma lifecycle_ref_md: "lifecycle_ref c alts first s = Some (r, n) \<Longrightarrow> sublist r s \<and> suffix md r"
proof -
  have cited: "cited class_and_name alts (drop k s) = Some r \<Longrightarrow> sublist r s \<and> suffix md r" for k r
    using cited_md[OF _ class_and_name_md] drop_sublist by blast
  have rest: "s = u # t \<Longrightarrow> t = drop 1 s" for u t by simp
  assume "lifecycle_ref c alts first s = Some (r, n)"
  then show ?thesis using cited[of 0] cited[of 1]
    by (auto simp: lifecycle_ref_def split: if_splits option.splits list.splits)
qed

lemma scan_refs_at: "r \<in> set (scan_refs m first s) \<Longrightarrow> \<exists>first t n. suffix t s \<and> m first t = Some (r, n)"
proof (induction "length s" arbitrary: first s rule: less_induct)
  case less
  show ?case
  proof (cases s)
    case (Cons u t)
    have later: ?thesis if "r \<in> set (scan_refs m False (drop k t))" for k
    proof -
      have "\<exists>first x n. suffix x (drop k t) \<and> m first x = Some (r, n)"
        by (rule less(1)[OF _ that]) (simp add: Cons)
      then obtain first' x n where "suffix x (drop k t)" "m first' x = Some (r, n)" by blast
      moreover have "suffix (drop k t) s" unfolding Cons by (meson suffix_ConsI suffix_drop)
      ultimately show ?thesis by (meson suffix_order.trans)
    qed
    have "r \<in> set (case m first s of Some (r, n) \<Rightarrow> r # scan_refs m False (drop (n - 1) t)
        | None \<Rightarrow> scan_refs m False t)"
      using less(2) by (subst (asm) scan_refs.simps) (simp add: Cons)
    then show ?thesis using later later[of 0] by (cases "m first s") auto
  qed (use less(2) in \<open>simp add: scan_refs.simps\<close>)
qed

lemma line_refs_md: "r \<in> set (line_refs c line) \<Longrightarrow> sublist r line \<and> suffix md r"
proof -
  assume "r \<in> set (line_refs c line)"
  then obtain m where m: "m \<in> {repo_ref, lifecycle_ref}"
    "r \<in> set (scan_refs (m c (nc_lifecycles c @ [nc_archive c])) True line)"
    by (auto simp: line_refs_def Let_def)
  then obtain first t n where "suffix t line" "m c (nc_lifecycles c @ [nc_archive c]) first t = Some (r, n)"
    using scan_refs_at by blast
  then show ?thesis using m(1) repo_ref_md lifecycle_ref_md
    by (auto simp: sublist_def suffix_def) (metis append.assoc)+
qed

lemma split_on_sublist: "p \<in> set (split_on c s) \<Longrightarrow> sublist p s"
proof -
  assume "p \<in> set (split_on c s)"
  then obtain a b where "split_on c s = a @ p # b" by (meson split_list)
  then have "s = join [c] (a @ p # b)" using join_split_on[of c s] by simp
  moreover have "sublist p (join sep (p # b))" for sep by (cases b) (auto simp: sublist_def)
  moreover have "sublist (join sep (p # b)) (join sep (a @ p # b))" for sep
    using join_append[of a "p # b" sep] by (cases "a = []") (simp, metis append.assoc append_Nil2 list.distinct(1) sublist_def)
  ultimately show ?thesis by (metis sublist_order.order_trans)
qed

lemma last_part: "suffix t s \<Longrightarrow> c \<notin> set t \<Longrightarrow> suffix t (last (split_on c s))"
proof -
  assume t: "suffix t s" "c \<notin> set t"
  obtain a where "s = a @ t" using t(1) by (auto simp: suffix_def)
  then show ?thesis using t(2) by (simp add: split_on_append split_on_no_sep suffix_def)
qed

text \<open>The file that a citation stands for has the last name of the citation.\<close>

lemma walk_last: "foldl walk_name cur (split_on slash r) = dir @ [filename] \<Longrightarrow> suffix md r \<Longrightarrow> filename = last (split_on slash r)"
proof -
  assume target: "foldl walk_name cur (split_on slash r) = dir @ [filename]" and r: "suffix md r"
  let ?name = "last (split_on slash r)"
  have "suffix md ?name" using r by (intro last_part) (auto simp: md_def js_eval slash_def)
  then have "?name \<noteq> [] \<and> ?name \<noteq> dot_name \<and> ?name \<noteq> up_name"
    by (auto simp: suffix_def md_def dot_name_def up_name_def js_def append_eq_Cons_conv)
  moreover have "foldl walk_name cur (split_on slash r) = walk_name (foldl walk_name cur (butlast (split_on slash r))) ?name"
    by (metis append_butlast_last_id foldl_append foldl_Cons foldl_Nil split_on_not_Nil)
  ultimately show ?thesis using target by (simp add: walk_name_def)
qed

lemma includes_sublist: "str_includes s t \<longleftrightarrow> sublist t s"
  by (auto simp: str_includes_iff sublist_def)

lemma citation_reported:
  assumes "(rel, i, r) \<in> set (all_refs l repo)" "ref_target l r = dir @ [filename]"
  shows "\<exists>shown. SourceLine rel i shown \<in> set (inbound_refs l es repo note filename)"
proof -
  obtain contents where found: "(rel, contents) \<in> set (searched_files (nc_backlinks (ln_config l)) (ln_gitRoot l \<noteq> None) repo)"
    and ref: "(rel, i, r) \<in> set (file_refs (ln_config l) (rel, contents))"
  proof -
    obtain f where f: "f \<in> set (searched_files (nc_backlinks (ln_config l)) (ln_gitRoot l \<noteq> None) repo)"
      "(rel, i, r) \<in> set (file_refs (ln_config l) f)"
      using assms(1) unfolding searched_files_set by (auto simp: all_refs_def)
    obtain rel' contents where "f = (rel', contents)" by (cases f)
    moreover from this f(2) have "rel' = rel" by (auto simp: file_refs_def split: if_splits)
    ultimately show ?thesis using that f by blast
  qed
  obtain k line where line: "i = Suc k" "(k, line) \<in> set (enumerate 0 (split_on newline contents))"
    "r \<in> set (line_refs (ln_config l) line)"
    using ref by (auto simp: file_refs_def split: if_splits)
  have r: "sublist r line" "suffix md r" using line_refs_md[OF line(3)] by auto
  have "filename = last (split_on slash r)"
    using assms(2) walk_last[OF _ r(2)] by (auto simp: ref_target_def split: if_splits)
  then have "sublist filename r" using split_on_sublist[of filename slash r] by simp
  then have named: "sublist filename line" using r(1) by (rule sublist_order.order_trans)
  have "line \<in> set (split_on newline contents)"
    using line(2) by (auto simp: in_set_enumerate_eq)
  then have "str_includes contents filename" unfolding includes_sublist
    by (intro sublist_order.order_trans[OF named split_on_sublist])
  then have "SourceLine rel i (take 120 (trim line)) \<in> set (source_lines filename (rel, contents))"
    using line(1,2) named by (auto simp: source_lines_def includes_sublist)
  then show ?thesis using found by (auto simp: inbound_refs_def Let_def)
qed

text \<open>
  When a note is archived, every citation of it in a searched source file is printed with its file
  and line. So the places that the citation gate begins to refuse, because the note is no file any
  more, are all in the report.
\<close>

theorem archived_citation_printed:
  assumes "archive_script digest l segs date raw dryRun es repo archived m = (printed, Some left)"
    and "(rel, i, r) \<in> set (all_refs l repo)" "ref_target l r = dir @ [last segs]"
  shows "\<exists>shown. Repair (SourceLine rel i shown) \<in> set printed"
proof -
  obtain shown where "SourceLine rel i shown \<in> set (inbound_refs l es repo (join [slash] segs) (last segs))"
    using citation_reported[OF assms(2,3)] by blast
  moreover have "printed = archive_report l segs date (inbound_refs l es repo (join [slash] segs) (last segs))
      @ [SealedAs (join [slash] (tl segs))]"
    using assms(1) by (auto simp: archive_script_def Let_def split: sum.splits archive_refusal.splits)
  ultimately show ?thesis by (auto simp: archive_report_def)
qed

theorem broken_citations_printed:
  assumes "archive_script digest l segs date raw dryRun es repo archived m = (printed, Some left)"
    and "backlinks_gate l isFile repo tree = Some (before, refs)" "backlinks_gate l isFile' repo tree' = Some (after, refs')"
    and "\<And>p. isFile p \<Longrightarrow> p \<noteq> dir @ [last segs] \<Longrightarrow> isFile' p"
    and "RefUnresolved rel i r \<in> set after" "RefUnresolved rel i r \<notin> set before"
  shows "\<exists>shown. Repair (SourceLine rel i shown) \<in> set printed"
proof -
  have "(rel, i, r) \<in> set (all_refs l repo)" "\<not> isFile' (ref_target l r)"
    using assms(3,5) by (auto simp: backlinks_gate_def Let_def split: if_splits)
  moreover from this have "isFile (ref_target l r)"
    using assms(2,6) by (force simp: backlinks_gate_def Let_def split: if_splits)
  ultimately show ?thesis using assms(4) archived_citation_printed[OF assms(1)] by blast
qed

lemma dry_run_writes_nothing: "snd (archive_script digest l segs date raw True es repo archived m) = None"
  by (auto simp: archive_script_def archive_note_def Let_def split: sum.splits archive_refusal.splits list.splits option.splits)

end
