(* ===== verification/ContractCheck.thy ===== *)
theory ContractCheck
  imports Prelude
begin

text \<open>
  scripts/verify-consumer-contract.ts: the gate that compares the vocabulary of the consumer contract
  in three files. Its regular expressions are scanners that look for the first place where a
  declaration of the Go source starts; what the gate prints is a list of lines with a constructor per
  message. The texts of the files are parameters. The interface \<open>marked_scan\<close> says when a declaration is
  found although other text stands before it.
\<close>

section \<open>Regular expressions as scanners\<close>

text \<open>A literal part of an expression, \<open>\s+\<close>, and \<open>([\s\S]*?)\<close> or \<open>([^c]*)\<close> followed by the unit \<open>c\<close>.\<close>

definition eat :: "jstr \<Rightarrow> jstr \<Rightarrow> jstr option" where
  "eat p s = (if prefix p s then Some (drop (length p) s) else None)"

definition eat_spaces :: "jstr \<Rightarrow> jstr option" where
  "eat_spaces s = (case s of [] \<Rightarrow> None | u # r \<Rightarrow> if is_space u then Some (dropWhile is_space r) else None)"

fun until_unit :: "nat \<Rightarrow> jstr \<Rightarrow> jstr option" where
  "until_unit c [] = None"
| "until_unit c (u # s) = (if u = c then Some [] else map_option ((#) u) (until_unit c s))"

text \<open>\<open>RegExp.exec\<close>: the match that starts first.\<close>

fun first_match :: "(jstr \<Rightarrow> 'a option) \<Rightarrow> jstr \<Rightarrow> 'a option" where
  "first_match f [] = f []"
| "first_match f (u # s) = (case f (u # s) of Some x \<Rightarrow> Some x | None \<Rightarrow> first_match f s)"

definition quote_unit :: nat where "quote_unit = 34"
definition brace_unit :: nat where "brace_unit = 125"

text \<open>The groups of \<open>"([^"]+)"\<close>, of \<open>\d+\<close>, the test \<open>\bcode\b\<close> and the replacement of \<open>\s+\<close> by a blank.\<close>

function quoted :: "jstr \<Rightarrow> jstr list" where
  "quoted [] = []"
| "quoted (u # s) =
     (let w = takeWhile (\<lambda>v. v \<noteq> quote_unit) s; r = dropWhile (\<lambda>v. v \<noteq> quote_unit) s in
      if u = quote_unit \<and> w \<noteq> [] \<and> r \<noteq> [] then w # quoted (tl r) else quoted s)"
  by pat_completeness auto
termination
  by (relation "measure length") (auto, meson diff_le_self le_imp_less_Suc length_dropWhile_le order_trans)

function digit_runs :: "jstr \<Rightarrow> jstr list" where
  "digit_runs [] = []"
| "digit_runs (u # s) =
     (if is_digit u then (u # takeWhile is_digit s) # digit_runs (dropWhile is_digit s) else digit_runs s)"
  by pat_completeness auto
termination
  by (relation "measure length") (auto simp: le_imp_less_Suc length_dropWhile_le)

definition word_unit :: "nat \<Rightarrow> bool" where
  "word_unit u \<longleftrightarrow> is_digit u \<or> (65 \<le> u \<and> u \<le> 90) \<or> (97 \<le> u \<and> u \<le> 122) \<or> u = 95"

fun has_word :: "bool \<Rightarrow> jstr \<Rightarrow> jstr \<Rightarrow> bool" where
  "has_word inside w [] = False"
| "has_word inside w (u # s) =
     ((\<not> inside \<and> prefix w (u # s) \<and> (case drop (length w) (u # s) of [] \<Rightarrow> True | v # _ \<Rightarrow> \<not> word_unit v))
      \<or> has_word (word_unit u) w s)"

fun blank_runs :: "bool \<Rightarrow> jstr \<Rightarrow> jstr" where
  "blank_runs after [] = []"
| "blank_runs after (u # s) =
     (if is_space u then (if after then [] else [32]) @ blank_runs True s else u # blank_runs False s)"

section \<open>The gate\<close>

record sources =
  contractPath :: jstr
  rendererPath :: jstr
  skillPath :: jstr

definition SOURCES :: sources where
  "SOURCES = \<lparr> contractPath = js ''docs/CONSUMER_INTEGRATION_CONTRACT.md'',
     rendererPath = js ''internal/listener/consumer.go'',
     skillPath = js ''.agents/skills/hx-consumer-api/SKILL.md'' \<rparr>"

definition slice_at :: "jstr \<Rightarrow> jstr \<Rightarrow> jstr option" where
  "slice_at name s = Option.bind (eat (js ''var'') s) (\<lambda>s. Option.bind (eat_spaces s) (\<lambda>s.
     Option.bind (eat name s) (\<lambda>s. Option.bind (eat (js ''='') (dropWhile is_space s)) (\<lambda>s.
     Option.bind (eat (js ''[]string{'') (dropWhile is_space s)) (until_unit brace_unit)))))"

definition goStringSlice :: "jstr \<Rightarrow> jstr \<Rightarrow> jstr list option" where
  "goStringSlice source name = map_option quoted (first_match (slice_at name) source)"

definition endpoint_head :: jstr where
  "endpoint_head = js ''const ConsumerNodesPath = '' @ [quote_unit]"

definition endpoint_at :: "jstr \<Rightarrow> jstr option" where
  "endpoint_at s = Option.bind (eat endpoint_head s) (\<lambda>s. Option.bind (until_unit quote_unit s) nonempty)"

definition codes_head :: jstr where
  "codes_head = js ''var ConsumerStatusCodes = []int{''"

definition codes_at :: "jstr \<Rightarrow> jstr option" where
  "codes_at s = Option.bind (eat codes_head s) (until_unit brace_unit)"

datatype vocabulary = Fields | Protocols | Transports | SubscriptionFormats

definition vocabularies :: "vocabulary list" where
  "vocabularies = [Fields, Protocols, Transports, SubscriptionFormats]"

fun go_name :: "vocabulary \<Rightarrow> jstr" where
  "go_name Fields = js ''ConsumerFields''"
| "go_name Protocols = js ''ConsumerProtocols''"
| "go_name Transports = js ''ConsumerTransports''"
| "go_name SubscriptionFormats = js ''ConsumerSubscriptionFormats''"

text \<open>The labels and failures of the reports and the lines that they print.\<close>

datatype check_label = EndpointConstant | EndpointPath jstr | VocabularyName vocabulary
  | VocabularyValues vocabulary nat | StatusCodesLabel | StatusCodesListed "jstr list" | SkillBackReference

datatype check_failure = NotAStringLiteral | DoesNotMention jstr | SliceMissing vocabulary
  | ContractLacks jstr | SkillLacks jstr | StatusCodesMissing | MustReferenceContract

datatype check_line = OkLine check_label | FailLine check_label | FailureLine check_failure
  | Drifted | SidesAgree

definition report :: "check_label \<Rightarrow> check_failure list \<Rightarrow> check_line list \<times> nat" where
  "report label failures =
     (if failures = [] then ([OkLine label], 0) else (FailLine label # map FailureLine failures, 1))"

definition under_api_text :: jstr where
  "under_api_text = js ''path is under /api/, which is session-authenticated administrator space; '' @
     js ''use the token-addressed root namespace beside /sub/''"

definition check_endpoint :: "jstr \<Rightarrow> jstr \<Rightarrow> jstr \<Rightarrow> check_label \<times> check_failure list" where
  "check_endpoint contract renderer skill = (case first_match endpoint_at renderer of
     None \<Rightarrow> (EndpointConstant, [NotAStringLiteral])
   | Some path \<Rightarrow>
       let missing = (if str_includes contract path then [] else [contractPath SOURCES])
             @ (if str_includes skill path then [] else [skillPath SOURCES])
             @ (if prefix (js ''/api/'') path then [under_api_text] else [])
       in (EndpointPath path, map DoesNotMention missing))"

definition missing_tokens :: "jstr \<Rightarrow> jstr \<Rightarrow> jstr list \<Rightarrow> check_failure list" where
  "missing_tokens contract skill tokens = concat (map (\<lambda>token.
     (if str_includes contract token then [] else [ContractLacks token])
     @ (if str_includes skill token then [] else [SkillLacks token])) tokens)"

definition check_vocabulary :: "jstr \<Rightarrow> jstr \<Rightarrow> jstr \<Rightarrow> vocabulary \<Rightarrow> check_label \<times> check_failure list" where
  "check_vocabulary contract renderer skill v = (case goStringSlice renderer (go_name v) of
     None \<Rightarrow> (VocabularyName v, [SliceMissing v])
   | Some source \<Rightarrow> (VocabularyValues v (length source), missing_tokens contract skill source))"

definition check_statuses :: "jstr \<Rightarrow> jstr \<Rightarrow> jstr \<Rightarrow> check_label \<times> check_failure list" where
  "check_statuses contract renderer skill = (case first_match codes_at (blank_runs False renderer) of
     None \<Rightarrow> (StatusCodesLabel, [StatusCodesMissing])
   | Some body \<Rightarrow>
       let codes = digit_runs body in
       (StatusCodesListed codes, concat (map (\<lambda>code.
          (if has_word False code contract then [] else [ContractLacks code])
          @ (if has_word False code skill then [] else [SkillLacks code])) codes)))"

definition check_reference :: "jstr \<Rightarrow> check_label \<times> check_failure list" where
  "check_reference skill =
     (SkillBackReference, if str_includes skill (contractPath SOURCES) then [] else [MustReferenceContract])"

definition all_checks :: "jstr \<Rightarrow> jstr \<Rightarrow> jstr \<Rightarrow> (check_label \<times> check_failure list) list" where
  "all_checks contract renderer skill =
     check_endpoint contract renderer skill # map (check_vocabulary contract renderer skill) vocabularies
     @ [check_statuses contract renderer skill, check_reference skill]"

text \<open>The script: lines printed and exit code; None is the exception of a file that cannot be read.\<close>

definition contract_gate :: "(jstr \<Rightarrow> jstr option) \<Rightarrow> (check_line list \<times> nat) option" where
  "contract_gate readFile =
     Option.bind (readFile (contractPath SOURCES)) (\<lambda>contract.
     Option.bind (readFile (rendererPath SOURCES)) (\<lambda>renderer.
     Option.bind (readFile (skillPath SOURCES)) (\<lambda>skill.
       let reports = map (\<lambda>(label, failures). report label failures) (all_checks contract renderer skill);
           printed = concat (map fst reports); failures = sum_list (map snd reports) in
       Some (if failures > 0 then (printed @ [Drifted], 1) else (printed @ [SidesAgree], 0)))))"

section \<open>What the scanners find\<close>

lemma eat_Some: "eat p s = Some r \<longleftrightarrow> s = p @ r"
  by (auto simp: eat_def prefix_def)

lemma eat_append [simp]: "eat p (p @ r) = Some r"
  by (simp add: eat_Some)

lemma eat_spaces_Some:
  assumes "eat_spaces s = Some r"
  shows "\<exists>ws. s = ws @ r \<and> ws \<noteq> [] \<and> list_all is_space ws"
proof -
  obtain u q where "s = u # q" "is_space u" "r = dropWhile is_space q"
    using assms by (auto simp: eat_spaces_def split: list.splits if_splits)
  then have "s = (u # takeWhile is_space q) @ r \<and> list_all is_space (u # takeWhile is_space q)"
    by (auto simp: list_all_iff dest: set_takeWhileD)
  then show ?thesis by (intro exI[of _ "u # takeWhile is_space q"]) simp
qed

lemma until_unit_append: "c \<notin> set b \<Longrightarrow> until_unit c (b @ c # r) = Some b"
  by (induction b) auto

lemma first_match_here: "f s = Some x \<Longrightarrow> first_match f s = Some x"
  by (cases s) auto

lemma first_match_None: "first_match f (a @ s) = None \<Longrightarrow> f s = None"
proof (induction a)
  case Nil
  then show ?case by (cases s) (auto split: option.splits)
qed (auto split: option.splits)

text \<open>
  A scanner whose matches start with a text that begins with a unit it does not repeat: other text in
  which no such start occurs does not hide a match behind it.
\<close>

locale marked_scan =
  fixes k :: nat and start :: "jstr \<Rightarrow> bool" and f :: "jstr \<Rightarrow> 'a option"
  assumes hit: "f s = Some x \<Longrightarrow> \<exists>h. start h \<and> prefix h s"
    and mark: "start h \<Longrightarrow> \<exists>t. h = k # t \<and> k \<notin> set t"
begin

lemma skip_text:
  assumes "\<And>a h b. start h \<Longrightarrow> pre \<noteq> a @ h @ b"
  shows "first_match f (pre @ k # s) = first_match f (k # s)"
  using assms
proof (induction pre)
  case (Cons u p)
  have "f (u # p @ k # s) = None"
  proof (rule ccontr)
    assume "f (u # p @ k # s) \<noteq> None"
    then obtain h where h: "start h" "prefix h ((u # p) @ k # s)" using hit by fastforce
    have no: "\<not> prefix h (u # p)" using Cons.prems[OF h(1), of "[]"] by (auto simp: prefix_def)
    then obtain us where us: "h = (u # p) @ us" "prefix us (k # s)" using h(2) by (auto simp only: prefix_append)
    have "us \<noteq> []" using no us(1) by auto
    then have "k \<in> set us" using us(2) by (cases us) auto
    then show False using mark[OF h(1)] us(1) by auto
  qed
  moreover have "first_match f (p @ k # s) = first_match f (k # s)"
    using Cons.prems[of _ "u # _"] by (intro Cons.IH) (metis append_Cons)
  ultimately show ?case by simp
qed simp

lemma finds:
  assumes "\<And>a h b. start h \<Longrightarrow> pre \<noteq> a @ h @ b" "f (k # s) = Some x"
  shows "first_match f (pre @ k # s) = Some x"
  using skip_text[OF assms(1)] assms(2) by (simp add: first_match_here)

end

definition slice_head :: "vocabulary \<Rightarrow> jstr \<Rightarrow> jstr option" where
  "slice_head v s =
     Option.bind (eat (js ''var'') s) (\<lambda>s. Option.bind (eat_spaces s) (eat (go_name v)))"

definition slice_start :: "vocabulary \<Rightarrow> jstr \<Rightarrow> bool" where
  "slice_start v h \<longleftrightarrow> (\<exists>ws. ws \<noteq> [] \<and> list_all is_space ws \<and> h = js ''var'' @ ws @ go_name v)"

lemma go_name_units: "list_all word_unit (go_name v) \<and> go_name v \<noteq> [] \<and> 118 \<notin> set (go_name v)"
  by (cases v) (auto simp: js_def word_unit_def is_digit_def)

interpretation slices: marked_scan 118 "slice_start v" "slice_at (go_name v)" for v
proof
  fix s x
  assume "slice_at (go_name v) s = Some x"
  then obtain r1 r2 r3 where "s = js ''var'' @ r1" "eat_spaces r1 = Some r2" "r2 = go_name v @ r3"
    by (auto simp: slice_at_def bind_eq_Some_conv eat_Some)
  then obtain ws where "s = js ''var'' @ ws @ go_name v @ r3" "ws \<noteq> []" "list_all is_space ws"
    using eat_spaces_Some by fastforce
  then show "\<exists>h. slice_start v h \<and> prefix h s"
    unfolding slice_start_def by (metis append.assoc prefixI)
next
  fix h
  assume "slice_start v h"
  then obtain ws where ws: "h = js ''var'' @ ws @ go_name v" "list_all is_space ws" by (auto simp: slice_start_def)
  have "118 \<notin> set ws" using ws(2) by (auto simp: list_all_iff is_space_def)
  then show "\<exists>t. h = 118 # t \<and> 118 \<notin> set t" using ws(1) go_name_units[of v] by (simp add: js_def)
qed

interpretation endpoints: marked_scan 99 "\<lambda>h. h = endpoint_head" endpoint_at
proof
  show "endpoint_at s = Some x \<Longrightarrow> \<exists>h. h = endpoint_head \<and> prefix h s" for s x
    by (auto simp: endpoint_at_def bind_eq_Some_conv eat_Some)
  show "h = endpoint_head \<Longrightarrow> \<exists>t. h = 99 # t \<and> 99 \<notin> set t" for h
    by (simp add: endpoint_head_def js_def quote_unit_def)
qed

interpretation status_codes: marked_scan 118 "\<lambda>h. h = codes_head" codes_at
proof
  show "codes_at s = Some x \<Longrightarrow> \<exists>h. h = codes_head \<and> prefix h s" for s x
    by (auto simp: codes_at_def bind_eq_Some_conv eat_Some)
  show "h = codes_head \<Longrightarrow> \<exists>t. h = 118 # t \<and> 118 \<notin> set t" for h
    by (simp add: codes_head_def js_def)
qed

section \<open>The declarations of the Go source\<close>

text \<open>A quoted list as gofmt writes it: on one line or one value per line, with any separators.\<close>

definition literal :: "jstr \<Rightarrow> (jstr \<times> jstr) list \<Rightarrow> jstr" where
  "literal sep0 items = sep0 @ concat (map (\<lambda>(t, sep). quote_unit # t @ quote_unit # sep) items)"

definition plain :: "jstr \<Rightarrow> bool" where
  "plain s \<longleftrightarrow> quote_unit \<notin> set s \<and> brace_unit \<notin> set s"

definition literal_ok :: "jstr \<Rightarrow> (jstr \<times> jstr) list \<Rightarrow> bool" where
  "literal_ok sep0 items \<longleftrightarrow> plain sep0 \<and> list_all (\<lambda>(t, sep). t \<noteq> [] \<and> plain t \<and> plain sep) items"

lemma quoted_separator: "quote_unit \<notin> set sep \<Longrightarrow> quoted (sep @ s) = quoted s"
  by (induction sep) auto

declare quoted.simps(2) [simp del]

lemma quoted_value:
  assumes "t \<noteq> []" "quote_unit \<notin> set t"
  shows "quoted (quote_unit # t @ quote_unit # s) = t # quoted s"
proof -
  have "takeWhile (\<lambda>v. v \<noteq> quote_unit) (t @ quote_unit # s) = t"
    "dropWhile (\<lambda>v. v \<noteq> quote_unit) (t @ quote_unit # s) = quote_unit # s"
    using assms(2) by (induction t) auto
  then show ?thesis using assms(1) by (simp add: quoted.simps(2))
qed

lemma quoted_literal: "literal_ok sep0 items \<Longrightarrow> quoted (literal sep0 items) = map fst items"
proof -
  assume ok: "literal_ok sep0 items"
  have "list_all (\<lambda>(t, sep). t \<noteq> [] \<and> plain t \<and> plain sep) items \<Longrightarrow>
    quoted (concat (map (\<lambda>(t, sep). quote_unit # t @ quote_unit # sep) items)) = map fst items"
    by (induction items) (auto simp: quoted_value quoted_separator plain_def)
  then show ?thesis using ok by (simp add: literal_def literal_ok_def quoted_separator plain_def)
qed

lemma literal_no_brace: "literal_ok sep0 items \<Longrightarrow> brace_unit \<notin> set (literal sep0 items)"
  by (fastforce simp: literal_ok_def literal_def plain_def list_all_iff brace_unit_def quote_unit_def)

definition slice_text :: "vocabulary \<Rightarrow> jstr \<Rightarrow> (jstr \<times> jstr) list \<Rightarrow> jstr" where
  "slice_text v sep0 items = js ''var '' @ go_name v @ js '' = []string{'' @ literal sep0 items @ [brace_unit]"

definition declares_slice :: "jstr \<Rightarrow> vocabulary \<Rightarrow> jstr list \<Rightarrow> bool" where
  "declares_slice source v tokens \<longleftrightarrow> (\<exists>pre post sep0 items. source = pre @ slice_text v sep0 items @ post
     \<and> first_match (slice_head v) pre = None \<and> literal_ok sep0 items \<and> tokens = map fst items)"

definition declares_path :: "jstr \<Rightarrow> jstr \<Rightarrow> bool" where
  "declares_path source path \<longleftrightarrow> (\<exists>pre post. source = pre @ endpoint_head @ path @ quote_unit # post
     \<and> \<not> str_includes pre endpoint_head \<and> path \<noteq> [] \<and> quote_unit \<notin> set path)"

definition codes_text :: "nat list \<Rightarrow> jstr" where
  "codes_text codes = join (js '', '') (map digits_of codes)"

definition declares_codes :: "jstr \<Rightarrow> nat list \<Rightarrow> bool" where
  "declares_codes source codes \<longleftrightarrow> (\<exists>pre post. source = pre @ codes_head @ codes_text codes @ brace_unit # post
     \<and> \<not> str_includes (blank_runs False pre) codes_head)"

lemma goStringSlice_reads:
  assumes "declares_slice source v tokens"
  shows "goStringSlice source (go_name v) = Some tokens"
proof -
  obtain pre post sep0 items where d: "source = pre @ slice_text v sep0 items @ post"
    "first_match (slice_head v) pre = None" "literal_ok sep0 items" "tokens = map fst items"
    using assms by (auto simp: declares_slice_def)
  define rest where "rest = literal sep0 items @ brace_unit # post"
  have lined: "slice_text v sep0 items @ post =
      118 # (js ''ar '' @ go_name v @ js '' = []string{'' @ rest)"
    by (simp add: slice_text_def rest_def js_def)
  have spaces: "eat_spaces (32 # go_name v @ s) = Some (go_name v @ s)" for s
    by (cases v) (simp_all add: eat_spaces_def is_space_def js_def)
  have "slice_at (go_name v) (js ''var'' @ 32 # go_name v @ 32 # js ''='' @ 32 # js ''[]string{'' @ rest)
      = Some (literal sep0 items)"
    using until_unit_append[OF literal_no_brace[OF d(3)]]
    by (simp add: slice_at_def spaces rest_def is_space_def js_def eat_Some eat_def)
  then have "slice_at (go_name v) (118 # (js ''ar '' @ go_name v @ js '' = []string{'' @ rest))
      = Some (literal sep0 items)" by (simp add: js_def)
  moreover have "pre \<noteq> a @ h @ b" if "slice_start v h" for a h b
  proof
    assume pre: "pre = a @ h @ b"
    obtain ws where ws: "h = js ''var'' @ ws @ go_name v" "ws \<noteq> []" "list_all is_space ws"
      using \<open>slice_start v h\<close> by (auto simp: slice_start_def)
    have "\<not> is_space (hd (go_name v @ b))" "go_name v \<noteq> []" by (cases v; simp add: js_def is_space_def)+
    then have "dropWhile is_space (ws @ go_name v @ b) = go_name v @ b"
      using ws(3) by (cases "go_name v") (auto simp: dropWhile_append list_all_iff)
    then have "eat_spaces (ws @ go_name v @ b) = Some (go_name v @ b)"
      using ws(2,3) by (cases ws) (auto simp: eat_spaces_def)
    then have "slice_head v (h @ b) = Some b" by (simp add: slice_head_def ws(1))
    then show False using first_match_None d(2) unfolding pre by fastforce
  qed
  ultimately have "first_match (slice_at (go_name v)) source = Some (literal sep0 items)"
    unfolding d(1) lined by (intro slices.finds)
  then show ?thesis using quoted_literal[OF d(3)] d(4) by (simp add: goStringSlice_def)
qed

lemma endpoint_reads:
  assumes "declares_path source path"
  shows "first_match endpoint_at source = Some path"
proof -
  obtain pre post where d: "source = pre @ endpoint_head @ path @ quote_unit # post"
    "\<not> str_includes pre endpoint_head" "path \<noteq> []" "quote_unit \<notin> set path"
    using assms by (auto simp: declares_path_def)
  obtain t where t: "endpoint_head = 99 # t" using endpoints.mark by blast
  have "endpoint_at (endpoint_head @ path @ quote_unit # post) = Some path"
    using d(3) until_unit_append[OF d(4)] by (simp add: endpoint_at_def)
  then show ?thesis unfolding d(1) t append_Cons
    by (intro endpoints.finds) (use d(2) t in \<open>auto simp: str_includes_iff\<close>)
qed

lemma blank_runs_before: "\<not> is_space u \<Longrightarrow> blank_runs b (pre @ u # s) = blank_runs b pre @ u # blank_runs False s"
  by (induction pre arbitrary: b) auto

lemma blank_runs_word: "list_all (\<lambda>u. \<not> is_space u) w \<Longrightarrow> w \<noteq> [] \<Longrightarrow> blank_runs b (w @ s) = w @ blank_runs False s"
  by (induction w arbitrary: b) (auto, metis append_Nil)

lemma digits_of_units: "list_all is_digit (digits_of n)"
  by (auto simp: list_all_iff is_digit_def dest: digits_of_range)

lemma blank_runs_codes:
  "blank_runs False (codes_text codes @ brace_unit # s) = codes_text codes @ brace_unit # blank_runs False s"
proof (induction codes)
  case Nil
  show ?case by (simp add: codes_text_def brace_unit_def is_space_def)
next
  case (Cons c codes)
  have c: "blank_runs False (digits_of c @ r) = digits_of c @ blank_runs False r" for r
    using digits_of_units[of c] by (intro blank_runs_word) (auto simp: list_all_iff is_digit_def is_space_def)
  show ?case
  proof (cases codes)
    case Nil
    then show ?thesis by (simp add: codes_text_def c brace_unit_def is_space_def)
  next
    case (Cons d ds)
    then have "codes_text (c # codes) = digits_of c @ 44 # 32 # codes_text codes"
      by (simp add: codes_text_def js_def)
    moreover have "blank_runs True (codes_text codes @ brace_unit # s) = blank_runs False (codes_text codes @ brace_unit # s)"
      using digits_of_units[of d] unfolding Cons codes_text_def
      by (cases "digits_of d"; cases ds) (auto simp: is_digit_def is_space_def)
    ultimately show ?thesis using Cons.IH by (simp add: c is_space_def)
  qed
qed

lemma digit_runs_word: "list_all is_digit w \<Longrightarrow> w \<noteq> [] \<Longrightarrow> \<not> is_digit u \<Longrightarrow> digit_runs (w @ u # s) = w # digit_runs s"
  by (cases w) (auto simp: takeWhile_append dropWhile_append list_all_iff)

lemma digit_runs_end: "list_all is_digit w \<Longrightarrow> w \<noteq> [] \<Longrightarrow> digit_runs w = [w]"
  by (cases w) (auto simp: list_all_iff dropWhile_eq_Nil_conv[THEN iffD2])

lemma digit_runs_codes: "digit_runs (codes_text codes) = map digits_of codes"
proof (induction codes)
  case (Cons c codes)
  show ?case
  proof (cases codes)
    case Nil
    then show ?thesis by (simp add: codes_text_def digit_runs_end digits_of_units)
  next
    case (Cons d ds)
    then have "codes_text (c # codes) = digits_of c @ 44 # 32 # codes_text codes"
      by (simp add: codes_text_def js_def)
    then show ?thesis using Cons.IH by (simp add: digit_runs_word digits_of_units is_digit_def)
  qed
qed (simp add: codes_text_def)

lemma codes_no_brace: "brace_unit \<notin> set (codes_text codes)"
proof -
  have "set (join sep ps) \<subseteq> set sep \<union> (\<Union>p \<in> set ps. set p)" for sep ps
    by (induction sep ps rule: join.induct) auto
  then show ?thesis using digits_of_range
    by (fastforce simp: codes_text_def js_def brace_unit_def)
qed

lemma codes_read:
  assumes "declares_codes source codes"
  shows "map_option digit_runs (first_match codes_at (blank_runs False source)) = Some (map digits_of codes)"
proof -
  obtain pre post where d: "source = pre @ codes_head @ codes_text codes @ brace_unit # post"
    "\<not> str_includes (blank_runs False pre) codes_head" using assms by (auto simp: declares_codes_def)
  obtain t where t: "codes_head = 118 # t" using status_codes.mark by blast
  have "\<not> is_space 118" by (simp add: is_space_def)
  then have "blank_runs False source = blank_runs False pre @ blank_runs False (codes_head @ codes_text codes @ brace_unit # post)"
    unfolding d(1) t append_Cons by (simp add: blank_runs_before)
  also have "blank_runs False (codes_head @ codes_text codes @ brace_unit # post)
      = codes_head @ blank_runs False (codes_text codes @ brace_unit # post)"
    by (simp add: codes_head_def js_def is_space_def)
  finally have squeezed: "blank_runs False source
      = blank_runs False pre @ codes_head @ codes_text codes @ brace_unit # blank_runs False post"
    by (simp add: blank_runs_codes)
  have "codes_at (codes_head @ codes_text codes @ brace_unit # blank_runs False post) = Some (codes_text codes)"
    using until_unit_append[OF codes_no_brace] by (simp add: codes_at_def)
  then have "first_match codes_at (blank_runs False source) = Some (codes_text codes)"
    unfolding squeezed t append_Cons
    by (intro status_codes.finds) (use d(2) t in \<open>auto simp: str_includes_iff\<close>)
  then show ?thesis by (simp add: digit_runs_codes)
qed

section \<open>The verdict\<close>

text \<open>What agreement means: a token occurs somewhere in a text, a status code occurs as a word of its own.\<close>

definition mentions :: "jstr \<Rightarrow> jstr \<Rightarrow> bool" where
  "mentions t token \<longleftrightarrow> (\<exists>a b. t = a @ token @ b)"

definition mentions_word :: "jstr \<Rightarrow> jstr \<Rightarrow> bool" where
  "mentions_word t w \<longleftrightarrow> (\<exists>a b. t = a @ w @ b \<and> (a \<noteq> [] \<longrightarrow> \<not> word_unit (last a)) \<and> (b \<noteq> [] \<longrightarrow> \<not> word_unit (hd b)))"

lemma includes_mentions: "str_includes t token \<longleftrightarrow> mentions t token"
  by (auto simp: mentions_def str_includes_iff)

lemma first_or_later:
  "(\<exists>a b. u # s = a @ w @ b \<and> P a b) \<longleftrightarrow>
     (\<exists>b. u # s = w @ b \<and> P [] b) \<or> (\<exists>a b. u # s = (u # a) @ w @ b \<and> P (u # a) b)"
proof -
  have "\<exists>a'. a = u # a'" if "u # s = a @ w @ b" "a \<noteq> []" for a b using that by (cases a) auto
  then show ?thesis by (metis append_Nil)
qed

lemma prefixed_by: "(\<exists>b. t = w @ b \<and> Q b) \<longleftrightarrow> prefix w t \<and> Q (drop (length w) t)"
  by (metis append_eq_conv_conj prefix_def)

lemma all_vocabularies: "list_all P vocabularies \<longleftrightarrow> (\<forall>v. P v)"
  by (auto simp: vocabularies_def) (metis vocabulary.exhaust)

lemma has_word_iff:
  "w \<noteq> [] \<Longrightarrow> has_word inside w s \<longleftrightarrow> (\<exists>a b. s = a @ w @ b \<and> (if a = [] then \<not> inside else \<not> word_unit (last a))
     \<and> (b \<noteq> [] \<longrightarrow> \<not> word_unit (hd b)))"
proof (induction s arbitrary: inside)
  case (Cons u s)
  have "(case drop (length w) (u # s) of [] \<Rightarrow> True | v # _ \<Rightarrow> \<not> word_unit v) \<and> prefix w (u # s)
      \<longleftrightarrow> (\<exists>b. u # s = w @ b \<and> (b \<noteq> [] \<longrightarrow> \<not> word_unit (hd b)))"
    unfolding prefixed_by by (simp add: conj_commute split: list.splits del: drop_eq_Nil)
  moreover have "(\<exists>a b. s = a @ w @ b \<and> (if a = [] then \<not> word_unit u else \<not> word_unit (last a)) \<and> (b \<noteq> [] \<longrightarrow> \<not> word_unit (hd b)))
      \<longleftrightarrow> (\<exists>a b. u # s = (u # a) @ w @ b \<and> \<not> word_unit (last (u # a)) \<and> (b \<noteq> [] \<longrightarrow> \<not> word_unit (hd b)))"
    by (intro ex_cong1) auto
  moreover have "(\<exists>a b. u # s = a @ w @ b \<and> P a b) \<longleftrightarrow>
      (\<exists>b. u # s = w @ b \<and> P [] b) \<or> (\<exists>a b. u # s = (u # a) @ w @ b \<and> P (u # a) b)" for P
    by (rule first_or_later)
  ultimately show ?case using Cons.IH[OF Cons.prems, of "word_unit u"] by auto
qed auto

lemma has_word_mentions: "w \<noteq> [] \<Longrightarrow> has_word False w t \<longleftrightarrow> mentions_word t w"
  by (auto simp: has_word_iff mentions_word_def split: if_splits)

definition agreement :: "jstr \<Rightarrow> jstr \<Rightarrow> jstr \<Rightarrow> (vocabulary \<Rightarrow> jstr list) \<Rightarrow> nat list \<Rightarrow> bool" where
  "agreement contract skill path tokens codes \<longleftrightarrow>
     mentions contract path \<and> mentions skill path \<and> \<not> prefix (js ''/api/'') path
     \<and> (\<forall>v. \<forall>t \<in> set (tokens v). mentions contract t \<and> mentions skill t)
     \<and> (\<forall>c \<in> set codes. mentions_word contract (digits_of c) \<and> mentions_word skill (digits_of c))
     \<and> mentions skill (contractPath SOURCES)"

lemma report_count: "snd (report l fs) = (if fs = [] then 0 else 1)"
  by (simp add: report_def)

lemma failures_zero:
  "sum_list (map snd (map (\<lambda>(label, failures). report label failures) cs)) = 0 \<longleftrightarrow> list_all (\<lambda>c. snd c = []) cs"
  by (induction cs) (auto simp: report_count split: if_splits)

lemma missing_tokens_Nil:
  "missing_tokens contract skill ts = [] \<longleftrightarrow> (\<forall>t \<in> set ts. mentions contract t \<and> mentions skill t)"
  by (auto simp: missing_tokens_def includes_mentions)

lemma gate_code:
  assumes "readFile (contractPath SOURCES) = Some contract" "readFile (rendererPath SOURCES) = Some renderer"
    "readFile (skillPath SOURCES) = Some skill"
  shows "\<exists>printed. contract_gate readFile =
    Some (printed, if list_all (\<lambda>c. snd c = []) (all_checks contract renderer skill) then 0 else 1)"
  using assms failures_zero[of "all_checks contract renderer skill"] by (auto simp: contract_gate_def Let_def)


text \<open>The gate on small files, each of its declarations found behind the ones before.\<close>

definition small_renderer :: jstr where
  "small_renderer = js ''// doc'' @ [newline] @ endpoint_head @ js ''/n/'' @ [quote_unit, newline]
     @ slice_text Fields [newline, 9] [(js ''uri'', js '','' @ [newline])]
     @ newline # slice_text Protocols [] [(js ''http'', js '', ''), (js ''socks'', [])]
     @ newline # slice_text Transports [] [(js ''ws'', [])]
     @ newline # slice_text SubscriptionFormats [] [(js ''clash'', [])]
     @ newline # codes_head @ codes_text [200, 404] @ [brace_unit, newline]"

definition small_document :: jstr where
  "small_document = js ''GET /n/ uri http socks ws clash 200 or 404, see docs/CONSUMER_INTEGRATION_CONTRACT.md''"

definition small_tokens :: "vocabulary \<Rightarrow> jstr list" where
  "small_tokens v = (case v of Fields \<Rightarrow> [js ''uri''] | Protocols \<Rightarrow> [js ''http'', js ''socks'']
     | Transports \<Rightarrow> [js ''ws''] | SubscriptionFormats \<Rightarrow> [js ''clash''])"

lemmas small_defs = small_renderer_def slice_text_def endpoint_head_def codes_head_def codes_text_def js_def
  literal_def quote_unit_def brace_unit_def newline_def

lemma slice_head_units:
  "u \<noteq> 118 \<Longrightarrow> slice_head v (u # s) = None"
  "slice_head v [] = None"
  "slice_head v (118 # 97 # 114 # 32 # s) = eat (go_name v) (dropWhile is_space s)"
  by (auto simp: slice_head_def eat_def eat_spaces_def js_def is_space_def)

lemmas head_defs = slice_head_units eat_def is_space_def literal_ok_def plain_def small_tokens_def

lemma declares_sliceI:
  "source = take i source @ slice_text v sep0 items @ drop j source \<Longrightarrow> first_match (slice_head v) (take i source) = None
     \<Longrightarrow> literal_ok sep0 items \<Longrightarrow> tokens = map fst items \<Longrightarrow> declares_slice source v tokens"
  unfolding declares_slice_def by blast

lemma small_declared:
  "declares_path small_renderer (js ''/n/'')" "declares_codes small_renderer [200, 404]"
  "declares_slice small_renderer v (small_tokens v)"
proof -
  show "declares_path small_renderer (js ''/n/'')" unfolding declares_path_def
    by (intro exI[of _ "take 7 small_renderer"] exI[of _ "drop 38 small_renderer"]) (simp add: small_defs)
  show "declares_codes small_renderer [200, 404]" unfolding declares_codes_def
    by (intro exI[of _ "take 222 small_renderer"] exI[of _ "[newline]"])
      (simp add: small_defs digits_of.simps is_space_def)
  show "declares_slice small_renderer v (small_tokens v)"
  proof (cases v)
    case Fields
    then show ?thesis
      by (intro declares_sliceI[of _ 39 v "[newline, 9]" "[(js ''uri'', js '','' @ [newline])]" 79])
        (simp_all add: small_defs head_defs)
  next
    case Protocols
    then show ?thesis
      by (intro declares_sliceI[of _ 80 v "[]" "[(js ''http'', js '', ''), (js ''socks'', [])]" 129])
        (simp_all add: small_defs head_defs)
  next
    case Transports
    then show ?thesis
      by (intro declares_sliceI[of _ 130 v "[]" "[(js ''ws'', [])]" 169]) (simp_all add: small_defs head_defs)
  next
    case SubscriptionFormats
    then show ?thesis
      by (intro declares_sliceI[of _ 170 v "[]" "[(js ''clash'', [])]" 221]) (simp_all add: small_defs head_defs)
  qed
qed

lemma small_agreement: "agreement small_document small_document (js ''/n/'') small_tokens [200, 404]"
  unfolding agreement_def
proof (intro conjI ballI allI)
  have "digits_of 200 = [50, 48, 48]" "digits_of 404 = [52, 48, 52]" by (simp_all add: digits_of.simps)
  moreover have "mentions_word small_document [50, 48, 48]" unfolding mentions_word_def
    by (intro exI[of _ "take 32 small_document"] exI[of _ "drop 35 small_document"])
      (simp add: small_document_def js_def word_unit_def is_digit_def)
  moreover have "mentions_word small_document [52, 48, 52]" unfolding mentions_word_def
    by (intro exI[of _ "take 39 small_document"] exI[of _ "drop 42 small_document"])
      (simp add: small_document_def js_def word_unit_def is_digit_def)
  ultimately show "mentions_word small_document (digits_of c)" if "c \<in> set [200, 404]" for c
    using that by auto
  then show "mentions_word small_document (digits_of c)" if "c \<in> set [200, 404]" for c using that .
  show "mentions small_document t" if "t \<in> set (small_tokens v)" for v t
    using that unfolding includes_mentions[symmetric]
    by (cases v) (auto simp: small_tokens_def small_document_def js_def)
  then show "mentions small_document t" if "t \<in> set (small_tokens v)" for v t using that .
qed (simp_all add: includes_mentions[symmetric] small_document_def SOURCES_def js_def)


text \<open>
  The gate looks in one direction and at parts of words: it stays green when the renderer drops a value
  that the documents still promise, and when a document has the value only inside another word.
\<close>

lemma dropped_value_unseen:
  "agreement contract skill path tokens codes \<Longrightarrow> \<forall>v. set (tokens' v) \<subseteq> set (tokens v) \<Longrightarrow> set codes' \<subseteq> set codes
     \<Longrightarrow> agreement contract skill path tokens' codes'"
  unfolding agreement_def by blast

lemma part_of_a_word_counts: "missing_tokens (js ''a security note'') (js ''a security note'') [js ''uri''] = []"
  by (simp add: missing_tokens_def js_def)

text \<open>The report of a path under /api/ claims that the explanation does not mention the endpoint.\<close>

lemma api_path_message:
  "first_match endpoint_at renderer = Some path \<Longrightarrow> prefix (js ''/api/'') path \<Longrightarrow>
     DoesNotMention under_api_text \<in> set (snd (check_endpoint contract renderer skill))"
  by (simp add: check_endpoint_def Let_def)

end
