(* ===== verification/Views.thy ===== *)
theory Views
  imports Types Format Theme
begin

text \<open>
  What several pages show with: dates (web/src/lib/utils.ts), the labels of the strategies
  (web/src/lib/proxy-groups.ts), the variants of a badge (web/src/components/ui/badge.tsx), the icon of
  a site and the dialog that asks before something is deleted (web/src/components). Classes and
  icons that do not depend on a state are left out.
\<close>

section \<open>Dates\<close>

text \<open>
  \<open>formatDate\<close>: the localized text of a date is a parameter, None for a text that \<open>Date\<close> cannot read,
  which is shown as it is.
\<close>

definition formatDate :: "(jstr \<Rightarrow> jstr option) \<Rightarrow> jstr option \<Rightarrow> jstr" where
  "formatDate localized v =
     (case Option.bind v nonempty of None \<Rightarrow> [0x2014] | Some s \<Rightarrow> or_default (localized s) s)"

lemma formatDate_missing [simp]: "formatDate localized None = [0x2014]" "formatDate localized (Some []) = [0x2014]"
  by (simp_all add: formatDate_def)

lemma formatDate_shows:
  "(\<And>t. localized s = Some t \<Longrightarrow> t \<noteq> []) \<Longrightarrow> formatDate localized (Some s) \<noteq> []"
  by (cases "s = []"; cases "localized s") (auto simp: formatDate_def)

section \<open>Strategies\<close>

record strategy_meta =
  sm_label :: jstr
  sm_short :: jstr
  sm_detail :: jstr

fun strategyMeta :: "ProxyGroupStrategy \<Rightarrow> strategy_meta" where
  "strategyMeta UrlTest = \<lparr>sm_label = [0x81EA, 0x52A8, 0x6D4B, 0x901F], sm_short = [0x59CB, 0x7EC8, 0x8D70, 0x6700, 0x5FEB, 0x6210, 0x5458],
     sm_detail = [0x5B9A, 0x671F, 0x6D4B, 0x901F, 0x5E76, 0x9009, 0x62E9, 0x5F53, 0x524D, 0x6700, 0x5FEB, 0x7684, 0x53EF, 0x7528, 0x8282, 0x70B9, 0x3002]\<rparr>"
| "strategyMeta Fallback = \<lparr>sm_label = [0x6545, 0x969C, 0x5207, 0x6362], sm_short = [0x6309, 0x987A, 0x5E8F, 0x4F7F, 0x7528, 0x53EF, 0x7528, 0x6210, 0x5458],
     sm_detail = [0x4E3B, 0x8282, 0x70B9, 0x5931, 0x6548, 0x540E, 0x5207, 0x6362, 0x5230, 0x4E0B, 0x4E00, 0x6210, 0x5458, 0xFF0C, 0x6062, 0x590D, 0x540E, 0x81EA, 0x52A8, 0x5207, 0x56DE, 0x3002]\<rparr>"
| "strategyMeta RoundRobin = \<lparr>sm_label = [0x8F6E, 0x8BE2], sm_short = [0x8BF7, 0x6C42, 0x4F9D, 0x6B21, 0x5206, 0x914D],
     sm_detail = [0x8BF7, 0x6C42, 0x4F9D, 0x6B21, 0x5206, 0x7ED9, 0x6BCF, 0x4E2A, 0x53EF, 0x7528, 0x6210, 0x5458, 0x3002]\<rparr>"
| "strategyMeta ConsistentHashing = \<lparr>sm_label = [0x6309, 0x7AD9, 0x70B9, 0x54C8, 0x5E0C], sm_short = [0x540C, 0x4E00, 0x7F51, 0x7AD9, 0x56FA, 0x5B9A, 0x51FA, 0x53E3],
     sm_detail = [0x6309, 0x76EE, 0x6807, 0x57DF, 0x540D, 0x8FDB, 0x884C, 0x4E00, 0x81F4, 0x6027, 0x54C8, 0x5E0C, 0x3002]\<rparr>"
| "strategyMeta StickySessions = \<lparr>sm_label = [0x4F1A, 0x8BDD, 0x7C98, 0x6EDE], sm_short = [0x540C, 0x4E00, 0x4F1A, 0x8BDD, 0x77ED, 0x671F, 0x56FA, 0x5B9A],
     sm_detail = [0x76F8, 0x540C, 0x6765, 0x6E90, 0x4E0E, 0x76EE, 0x6807, 0x5728, 0x4E00, 0x6BB5, 0x65F6, 0x95F4, 0x5185, 0x56FA, 0x5B9A, 0x51FA, 0x53E3, 0x3002]\<rparr>"
| "strategyMeta Manual = \<lparr>sm_label = [0x624B, 0x52A8, 0x9009, 0x62E9], sm_short = [0x7531, 0x5BA2, 0x6237, 0x7AEF, 0x9009, 0x62E9],
     sm_detail = [0x4FDD, 0x7559, 0x6210, 0x5458, 0x5217, 0x8868, 0x4F9B, 0x5BA2, 0x6237, 0x7AEF, 0x624B, 0x52A8, 0x5207, 0x6362, 0x3002]\<rparr>"

text \<open>The label tells the strategies apart in a list.\<close>

lemma strategy_labels_distinct: "sm_label (strategyMeta s) = sm_label (strategyMeta t) \<longleftrightarrow> s = t"
  by (cases s; cases t) simp_all

section \<open>Badges\<close>

datatype badge_variant = BadgeDefault | BadgeSecondary | BadgeSuccess | BadgeWarning | BadgeDestructive | BadgeOutline

definition badgeVariants :: "badge_variant option \<Rightarrow> badge_variant" where
  "badgeVariants given = or_default given BadgeDefault"

section \<open>The theme button\<close>

text \<open>The label of the button (web/src/components/theme-toggle.tsx); its icon depends on the same value.\<close>

definition theme_label :: "Theme \<Rightarrow> jstr" where
  "theme_label t = (case t of Light \<Rightarrow> [0x660E, 0x4EAE, 0x4E3B, 0x9898] | Dark \<Rightarrow> [0x9ED1, 0x591C, 0x4E3B, 0x9898] | System \<Rightarrow> [0x8DDF, 0x968F, 0x7CFB, 0x7EDF])"

definition theme_title :: "Theme \<Rightarrow> jstr" where
  "theme_title t = theme_label t @ [0xFF0C, 0x70B9, 0x51FB, 0x5207, 0x6362]"

lemma theme_titles_distinct: "theme_title s = theme_title t \<longleftrightarrow> s = t"
  by (cases s; cases t) (simp_all add: theme_title_def theme_label_def)

section \<open>The dialog before a deletion\<close>

text \<open>Nothing while it is closed; both ways to cancel and the confirmation are off while it is busy.\<close>

record confirm_view =
  cf_title :: jstr
  cf_description :: jstr
  cf_label :: jstr
  cf_cancel :: bool
  cf_confirm :: bool

definition confirm_dialog :: "bool \<Rightarrow> jstr \<Rightarrow> jstr \<Rightarrow> jstr option \<Rightarrow> bool \<Rightarrow> confirm_view option" where
  "confirm_dialog is_open title description label busy =
     (if \<not> is_open then None
      else Some \<lparr>cf_title = title, cf_description = description, cf_label = or_default label [0x786E, 0x8BA4, 0x5220, 0x9664],
        cf_cancel = (\<not> busy), cf_confirm = (\<not> busy)\<rparr>)"

section \<open>The icon of a site\<close>

text \<open>
  The origin of an address is a parameter, None for an address that \<open>URL\<close> refuses. The effect of a
  new address, which clears the failure, runs after it has been shown once.
\<close>

record site_icon =
  si_url :: jstr
  si_failed :: bool

datatype site_event = SiteUrl jstr | SiteEffect | SiteError

definition site_source :: "(jstr \<Rightarrow> jstr option) \<Rightarrow> jstr \<Rightarrow> jstr" where
  "site_source origin url = (case origin url of Some base \<Rightarrow> base @ js ''/favicon.ico'' | None \<Rightarrow> [])"

definition site_image :: "(jstr \<Rightarrow> jstr option) \<Rightarrow> site_icon \<Rightarrow> jstr option" where
  "site_image origin i = (if site_source origin (si_url i) = [] \<or> si_failed i then None else Some (site_source origin (si_url i)))"

fun site_step :: "site_icon \<Rightarrow> site_event \<Rightarrow> site_icon" where
  "site_step i (SiteUrl url) = i\<lparr>si_url := url\<rparr>"
| "site_step i SiteEffect = i\<lparr>si_failed := False\<rparr>"
| "site_step i SiteError = i\<lparr>si_failed := True\<rparr>"

text \<open>After a failure the image of another address is tried again.\<close>

lemma icon_tried_again:
  "origin url = Some base \<Longrightarrow> site_image origin (foldl site_step i [SiteError, SiteUrl url, SiteEffect]) = Some (base @ js ''/favicon.ico'')"
  by (simp add: site_image_def site_source_def)

end
