(* ===== verification/SubscriptionView.thy ===== *)
theory SubscriptionView
  imports Subscriptions Views
begin

text \<open>
  What web/src/pages/subscriptions-page.tsx shows: the buttons above the list, the four figures, the
  list with its rows and nodes, and the dialog before a removal. The lemmas tie the controls to the
  steps of the page: a button is on exactly when pressing it does something.
\<close>

section \<open>Buttons and figures\<close>

text \<open>Each button of the head is on or off, and turns or not.\<close>

record subs_head =
  sh_test_all :: "bool \<times> bool"
  sh_refresh_all :: "bool \<times> bool"
  sh_reload :: "bool \<times> bool"

definition subs_head_of :: "subs_page \<Rightarrow> subs_head" where
  "subs_head_of p =
     \<lparr>sh_test_all = (\<not> (sp_loading p \<or> is_busy p (test_key None)), is_busy p (test_key None)),
      sh_refresh_all = (\<not> (sp_loading p \<or> is_busy p refresh_all_key \<or> sm_enabled (metrics p) = 0), is_busy p refresh_all_key),
      sh_reload = (\<not> sp_loading p, sp_loading p)\<rparr>"

text \<open>The figures: a value, the text below it and whether it warns.\<close>

record subs_figure =
  sf_value :: jstr
  sf_helper :: jstr
  sf_warning :: bool

definition subs_figures :: "subs_page \<Rightarrow> subs_figure list" where
  "subs_figures p =
     (let m = metrics p; figure = (\<lambda>n helper warning. \<lparr>sf_value = show_int (int n), sf_helper = helper, sf_warning = warning\<rparr>) in
      [figure (sm_enabled m) ([0x603B, 0x8BA1, 0x20] @ show_int (int (length (sp_items p))) @ [0x20, 0x6761]) False,
       figure (sm_snapshots m) [0x5931, 0x8D25, 0x5237, 0x65B0, 0x4E0D, 0x4F1A, 0x8986, 0x76D6, 0x6210, 0x529F, 0x7248, 0x672C] False,
       figure (sm_failing m) (if sm_failing m \<noteq> 0 then [0x6309, 0x6307, 0x6570, 0x9000, 0x907F, 0x7B49, 0x5F85, 0x91CD, 0x8BD5] else [0x5F53, 0x524D, 0x6CA1, 0x6709, 0x5931, 0x8D25, 0x8BA2, 0x9605]) (0 < sm_failing m),
       \<lparr>sf_value = formatBytes (Fin (of_int (sm_total_traffic m))), sf_helper = [0x6240, 0x6709, 0x53BB, 0x91CD, 0x8282, 0x70B9, 0x7684, 0x4E0A, 0x4F20, 0x4E0E, 0x4E0B, 0x8F7D, 0x603B, 0x548C],
        sf_warning = False\<rparr>])"

section \<open>Rows\<close>

definition sourceMeta :: "SourceType \<Rightarrow> jstr" where
  "sourceMeta t = (case t of SrcRemote \<Rightarrow> [0x8FDC, 0x7A0B, 0x20, 0x55, 0x52, 0x4C] | SrcInline \<Rightarrow> [0x5185, 0x8054, 0x5185, 0x5BB9] | SrcFile \<Rightarrow> [0x672C, 0x5730, 0x6587, 0x4EF6])"

record sub_node =
  sn_name :: jstr
  sn_protocol :: jstr
  sn_state :: "LifecycleState \<times> badge_variant"
  sn_checks :: "(jstr \<times> badge_variant) list"
  sn_summary :: jstr

definition lifecycle_badge :: "LifecycleState \<Rightarrow> badge_variant" where
  "lifecycle_badge s = (if s = Healthy then BadgeSuccess else if s = Quarantined then BadgeWarning else BadgeSecondary)"

definition check_text :: "NodeHealthCheck \<Rightarrow> jstr" where
  "check_text c = nhc_target_name c @ (case nhc_latency_ms c of None \<Rightarrow> [] | Some ms \<Rightarrow> js '' '' @ show_int ms @ js ''ms'')"

definition sub_node_of :: "(jstr \<times> TrafficSummary) list \<Rightarrow> NodeRecord \<Rightarrow> sub_node" where
  "sub_node_of traffic node =
     \<lparr>sn_name = nd_display_name node, sn_protocol = to_upper (nd_protocol node),
      sn_state = (nd_lifecycle_state node, lifecycle_badge (nd_lifecycle_state node)),
      sn_checks = map (\<lambda>c. (check_text c, if nhc_success c then BadgeSuccess else BadgeDestructive)) (nd_health_checks node),
      sn_summary = (case nd_last_latency_ms node of None \<Rightarrow> [0x672A, 0x6D4B, 0x8BD5] | Some ms \<Rightarrow> show_int ms @ js '' ms'')
        @ [0x20, 0xB7, 0x20] @ formatBytes (Fin (of_int (row_traffic traffic [node])))\<rparr>"

record sub_row =
  sr_name :: jstr
  sr_ids :: jstr
  sr_source :: jstr
  sr_enabled :: "bool \<times> badge_variant"
  sr_failures :: "int option"
  sr_summary :: jstr
  sr_dates :: "jstr \<times> jstr"
  sr_schedule :: jstr
  sr_snapshot :: jstr
  sr_test :: "bool \<times> bool"
  sr_refresh :: "bool \<times> bool"
  sr_delete :: bool
  sr_open :: "sub_node list option"

definition sub_row_of :: "(jstr \<Rightarrow> jstr option) \<Rightarrow> subs_page \<Rightarrow> Subscription \<Rightarrow> sub_row" where
  "sub_row_of localized p item =
     (let nodes = row_nodes p (sub_id item); busy = is_busy p (sub_id item);
          testing = is_busy p (test_key (Some (sub_id item))) in
      \<lparr>sr_name = sub_name item, sr_ids = compactId (sub_id item) @ [0x20, 0xB7, 0x20, 0x76] @ show_int (sub_version item),
       sr_source = sourceMeta (sub_source_type item),
       sr_enabled = (sub_enabled item, if sub_enabled item then BadgeSuccess else BadgeSecondary),
       sr_failures = (if 0 < sub_consecutive_failures item then Some (sub_consecutive_failures item) else None),
       sr_summary = show_int (int (length nodes)) @ [0x20, 0x4E2A, 0x8282, 0x70B9, 0x20, 0xB7, 0x20] @ formatBytes (Fin (of_int (row_traffic (sp_traffic p) nodes))),
       sr_dates = (formatDate localized (sub_last_refresh_attempt_at item), formatDate localized (sub_next_refresh_at item)),
       sr_schedule = (case Option.bind (sub_refresh_cron item) nonempty of
           Some cron \<Rightarrow> js ''Cron '' @ cron | None \<Rightarrow> show_int (sub_refresh_interval_seconds item) @ js ''s''),
       sr_snapshot = (case Option.bind (sub_last_success_snapshot_id item) nonempty of Some i \<Rightarrow> compactId i | None \<Rightarrow> [0x6682, 0x65E0]),
       sr_test = (\<not> (busy \<or> testing \<or> nodes = []), testing),
       sr_refresh = (\<not> (busy \<or> \<not> sub_enabled item), busy),
       sr_delete = (\<not> busy),
       sr_open = (if sub_id item \<in> set (sp_expanded p) then Some (map (sub_node_of (sp_traffic p)) nodes) else None)\<rparr>)"

datatype subs_list = SubsLoading | SubsNone | SubsRows "sub_row list"

definition subs_list_of :: "(jstr \<Rightarrow> jstr option) \<Rightarrow> subs_page \<Rightarrow> subs_list" where
  "subs_list_of localized p =
     (if sp_loading p then SubsLoading else if sp_items p = [] then SubsNone
      else SubsRows (map (sub_row_of localized p) (sp_items p)))"

text \<open>The dialog names the subscription; it stays open until the removal has succeeded.\<close>

definition remove_dialog :: "subs_page \<Rightarrow> confirm_view option" where
  "remove_dialog p =
     (let name = (case sp_delete_target p of Some item \<Rightarrow> sub_name item | None \<Rightarrow> []) in
      confirm_dialog (sp_delete_target p \<noteq> None) [0x5220, 0x9664, 0x8BA2, 0x9605]
        ([0x5C06, 0x5220, 0x9664, 0x201C] @ name @ [0x201D, 0x53CA, 0x5176, 0x5FEB, 0x7167, 0x6765, 0x6E90, 0x5173, 0x7CFB, 0x3002, 0x4EC5, 0x88AB, 0x8BE5, 0x8BA2, 0x9605, 0x5F15, 0x7528, 0x7684, 0x8282, 0x70B9, 0x4F1A, 0x968F, 0x6700, 0x65B0, 0x6D3B, 0x52A8, 0x5FEB, 0x7167, 0x53D8, 0x5316, 0x8FDB, 0x5165, 0x9000, 0x5F79, 0x72B6, 0x6001, 0x3002]) None
        (case sp_delete_target p of Some item \<Rightarrow> is_busy p (sub_id item) | None \<Rightarrow> False))"

section \<open>Controls and steps\<close>

text \<open>Pressing a button of the head or of a row starts a request exactly when the button is on.\<close>

definition starts :: "subs_page \<Rightarrow> subs_event \<Rightarrow> bool" where
  "starts p e \<longleftrightarrow> (\<exists>t. sp_pending (fst (subs_step p e)) = sp_pending p @ [t])"

lemmas starts_defs = starts_def begin_task_def set_busy_def refresh_sub_def load_subs_def refreshAll_def
  check_subs_def nodes_to_check_def Let_def

lemma head_buttons_start:
  "starts p RefreshAllClicked \<longleftrightarrow> fst (sh_refresh_all (subs_head_of p))"
  "starts p ReloadClicked \<longleftrightarrow> fst (sh_reload (subs_head_of p))"
  "starts p CheckAllClicked \<longleftrightarrow> fst (sh_test_all (subs_head_of p)) \<and> nodes_to_check p None \<noteq> []"
  by (auto simp: starts_defs subs_head_of_def)

lemma row_buttons_start:
  assumes "shown item p"
  shows "starts p (RowChecked item) \<longleftrightarrow> fst (sr_test (sub_row_of localized p item))"
    and "starts p (RowRefreshed item) \<longleftrightarrow> fst (sr_refresh (sub_row_of localized p item))"
  using assms by (auto simp: starts_defs sub_row_of_def)

lemma delete_button_opens:
  assumes "shown item p" "sp_delete_target p = None"
  shows "remove_dialog (fst (subs_step p (RowDeleted item))) \<noteq> None \<longleftrightarrow> sr_delete (sub_row_of localized p item)"
  using assms by (auto simp: remove_dialog_def confirm_dialog_def sub_row_of_def Let_def)

lemma confirm_button_starts:
  "starts p DeleteConfirmed \<longleftrightarrow> (case remove_dialog p of Some d \<Rightarrow> cf_confirm d | None \<Rightarrow> False)"
  by (auto simp: starts_defs remove_dialog_def confirm_dialog_def remove_sub_def split: option.splits)

text \<open>A busy row turns exactly while its removal, its refresh or the load after it is under way.\<close>

lemma row_turns:
  "snd (sr_refresh (sub_row_of localized (run_subs events) item)) \<longleftrightarrow>
     sub_id item \<in> set (pending_keys task_key (sp_pending (run_subs events)))"
  using busy_inv_run[of events] by (simp add: sub_row_of_def Let_def busy_inv_def marks_exact_def is_busy_def)

text \<open>
  The test of all nodes leaves out disabled and retired nodes, but the button of a row sends them too.
\<close>

lemma row_tests_disabled_nodes:
  assumes "shown item p" "fst (sr_test (sub_row_of localized p item))" "node \<in> set (row_nodes p (sub_id item))"
  shows "\<exists>ids. sp_pending (fst (subs_step p (RowChecked item))) =
      sp_pending p @ [CheckTask (test_key (Some (sub_id item))) ids] \<and> nd_id node \<in> set ids"
  using assms by (auto simp: starts_defs sub_row_of_def)

end
