(* ===== verification/AlertsView.thy ===== *)
theory AlertsView
  imports Tasks AlertsPage Views
begin

text \<open>
  The alerts page at work (web/src/pages/alerts-page.tsx): the poll, the acknowledgements and the mail
  card with their requests in flight, and what the page shows. Localized times are a parameter.
\<close>

section \<open>Requests in flight\<close>

text \<open>A load remembers whether the submission of the card waits for it.\<close>

datatype alert_task = LoadAlerts bool | AckAlert jstr | SaveAlerts UpdateAlertSettingsRequest | TestMail

record alerts_run =
  aw_page :: alerts_page
  aw_card :: "alert_card option"
  aw_tasks :: "alert_task list"

datatype alert_answer = AlertsLoaded "(AlertList \<times> AlertList \<times> AlertSettings) outcome" | AlertDone "unit outcome"

datatype alert_event =
    PollDue | ReloadPressed | AckPressed AlertRecord | CardTyped card_event | SavePressed | TestPressed
  | AlertAnswered nat alert_answer

definition start_load :: "bool \<Rightarrow> alerts_run \<Rightarrow> alerts_run" where
  "start_load awaited r = r\<lparr>aw_page := reload_begin (aw_page r), aw_tasks := aw_tasks r @ [LoadAlerts awaited]\<rparr>"

definition initial_alerts_run :: alerts_run where
  "initial_alerts_run = start_load False \<lparr>aw_page = initial_alerts, aw_card = None, aw_tasks = []\<rparr>"

text \<open>The card is mounted with the first settings and keeps its fields when others arrive.\<close>

definition mount_card :: "alerts_run \<Rightarrow> alerts_run" where
  "mount_card r =
     (case aw_card r of
        Some c \<Rightarrow> r
      | None \<Rightarrow> r\<lparr>aw_card := map_option initial_card (al_settings (aw_page r))\<rparr>)"

fun resume_alert :: "alert_task \<Rightarrow> alert_answer \<Rightarrow> (alerts_run \<Rightarrow> alerts_run \<times> alert_notice list) option" where
  "resume_alert (LoadAlerts awaited) (AlertsLoaded a) = Some (\<lambda>r.
     let (p, messages) = reload_alerts a (aw_page r);
         r' = mount_card (r\<lparr>aw_page := p\<rparr>) in
     (if awaited then r'\<lparr>aw_card := map_option card_reloaded (aw_card r')\<rparr> else r', map ApiNotice messages))"
| "resume_alert (AckAlert i) (AlertDone a) = Some (\<lambda>r.
     let notices = snd (acknowledge_done a (aw_page r)) in
     (case a of Inr _ \<Rightarrow> (start_load False r, notices) | Inl _ \<Rightarrow> (r, notices)))"
| "resume_alert (SaveAlerts q) (AlertDone a) = Some (\<lambda>r.
     case aw_card r of
       None \<Rightarrow> (r, [])
     | Some c \<Rightarrow>
         let (c', notices, reloads) = save_card_done a c; r' = r\<lparr>aw_card := Some c'\<rparr> in
         (if reloads then start_load True r' else r', notices))"
| "resume_alert TestMail (AlertDone a) = Some (\<lambda>r.
     case aw_card r of
       None \<Rightarrow> (r, [])
     | Some c \<Rightarrow> let (c', notices) = send_test_done a c in (r\<lparr>aw_card := Some c'\<rparr>, notices))"
| "resume_alert _ _ = None"

definition alert_answered :: "nat \<Rightarrow> alert_answer \<Rightarrow> alerts_run \<Rightarrow> alerts_run \<times> alert_notice list" where
  "alert_answered n a r =
     (if n < length (aw_tasks r)
      then (case resume_alert (aw_tasks r ! n) a of
              Some f \<Rightarrow> f (r\<lparr>aw_tasks := remove_at n (aw_tasks r)\<rparr>)
            | None \<Rightarrow> (r, []))
      else (r, []))"

definition test_enabled :: "alerts_run \<Rightarrow> alert_card \<Rightarrow> bool" where
  "test_enabled r c \<longleftrightarrow> \<not> (ac_busy c \<or> \<not> (case al_settings (aw_page r) of Some s \<Rightarrow> ase_configured s | None \<Rightarrow> False))"

text \<open>An acknowledged alert has no button; the buttons of the card are off while it is busy.\<close>

fun alert_step :: "alerts_run \<Rightarrow> alert_event \<Rightarrow> alerts_run \<times> alert_notice list" where
  "alert_step r PollDue = (start_load False r, [])"
| "alert_step r ReloadPressed = (start_load False r, [])"
| "alert_step r (AckPressed item) =
     (if item \<in> set (al_firing (aw_page r)) \<and> \<not> al_acknowledged item
      then (r\<lparr>aw_tasks := aw_tasks r @ [AckAlert (al_id item)]\<rparr>, []) else (r, []))"
| "alert_step r (CardTyped e) = (r\<lparr>aw_card := map_option (\<lambda>c. card_step c e) (aw_card r)\<rparr>, [])"
| "alert_step r SavePressed =
     (case Option.bind (aw_card r) save_card of
        Some (c, q) \<Rightarrow> (r\<lparr>aw_card := Some c, aw_tasks := aw_tasks r @ [SaveAlerts q]\<rparr>, [])
      | None \<Rightarrow> (r, []))"
| "alert_step r TestPressed =
     (case aw_card r of
        Some c \<Rightarrow>
          if test_enabled r c
          then (case send_test c of
                  Some (c', call) \<Rightarrow> (r\<lparr>aw_card := Some c', aw_tasks := aw_tasks r @ [TestMail]\<rparr>, [])
                | None \<Rightarrow> (r, []))
          else (r, [])
      | None \<Rightarrow> (r, []))"
| "alert_step r (AlertAnswered n a) = alert_answered n a r"

definition run_alerts :: "alert_event list \<Rightarrow> alerts_run" where
  "run_alerts events = foldl (\<lambda>r e. fst (alert_step r e)) initial_alerts_run events"

section \<open>What is shown\<close>

record severity_badge =
  sev_label :: jstr
  sev_style :: "AlertSeverity option"

definition severity_badge :: "AlertSeverity \<Rightarrow> bool \<Rightarrow> severity_badge" where
  "severity_badge s muted =
     \<lparr>sev_label = (case s of SevCritical \<Rightarrow> [0x4E25, 0x91CD] | SevWarning \<Rightarrow> [0x8B66, 0x544A]), sev_style = (if muted then None else Some s)\<rparr>"

record alert_line =
  aln_badge :: severity_badge
  aln_rule :: jstr
  aln_target :: jstr
  aln_message :: "jstr option"
  aln_times :: jstr
  aln_ack :: bool

definition firing_line :: "(jstr \<Rightarrow> jstr) \<Rightarrow> AlertRecord \<Rightarrow> alert_line" where
  "firing_line localTime item =
     \<lparr>aln_badge = severity_badge (al_severity item) False, aln_rule = al_rule item, aln_target = al_target_name item,
      aln_message = Some (al_message item),
      aln_times = [0x89E6, 0x53D1, 0x4E8E, 0x20] @ localTime (al_fired_at item)
        @ (if 0 < al_notify_count item then [0x20, 0xB7, 0x20, 0x5DF2, 0x901A, 0x77E5, 0x20] @ show_int (al_notify_count item) @ [0x20, 0x6B21] else [])
        @ (if al_acknowledged item then [0x20, 0xB7, 0x20, 0x5DF2, 0x786E, 0x8BA4] else []),
      aln_ack = (\<not> al_acknowledged item)\<rparr>"

definition history_line :: "(jstr \<Rightarrow> jstr) \<Rightarrow> AlertRecord \<Rightarrow> alert_line" where
  "history_line localTime item =
     \<lparr>aln_badge = severity_badge (al_severity item) True, aln_rule = al_rule item, aln_target = al_target_name item,
      aln_message = None,
      aln_times = localTime (al_fired_at item) @ [0x20, 0x89E6, 0x53D1]
        @ (case Option.bind (al_resolved_at item) nonempty of
             Some t \<Rightarrow> [0x20, 0xB7, 0x20] @ localTime t @ [0x20, 0x6062, 0x590D] | None \<Rightarrow> []),
      aln_ack = False\<rparr>"

text \<open>Counts, lines, whether the reload button turns, and the buttons of the card (save, test).\<close>

record alerts_view =
  av_turns :: bool
  av_firing :: "nat \<times> alert_line list"
  av_history :: "nat \<times> alert_line list"
  av_card :: "(bool \<times> bool) option"

definition alerts_view_of :: "(jstr \<Rightarrow> jstr) \<Rightarrow> alerts_run \<Rightarrow> alerts_view" where
  "alerts_view_of localTime r =
     (let p = aw_page r in
      \<lparr>av_turns = al_loading p,
       av_firing = (length (al_firing p), map (firing_line localTime) (al_firing p)),
       av_history = (length (al_history p), map (history_line localTime) (al_history p)),
       av_card = map_option (\<lambda>c. (\<not> ac_busy c, test_enabled r c)) (aw_card r)\<rparr>)"

section \<open>The card is busy exactly while it waits\<close>

fun card_key :: "alert_task \<Rightarrow> unit option" where
  "card_key (LoadAlerts awaited) = (if awaited then Some () else None)"
| "card_key (AckAlert i) = None"
| "card_key (SaveAlerts q) = Some ()"
| "card_key TestMail = Some ()"

text \<open>The keys of the waiting card: one when it is busy, none otherwise.\<close>

definition card_waits :: "alert_card option \<Rightarrow> unit list" where
  "card_waits mounted = (case mounted of Some c \<Rightarrow> if ac_busy c then [()] else [] | None \<Rightarrow> [])"

definition card_inv :: "alerts_run \<Rightarrow> bool" where
  "card_inv r \<longleftrightarrow> pending_keys card_key (aw_tasks r) = card_waits (aw_card r)"

lemmas alert_defs = card_inv_def card_waits_def start_load_def reload_begin_def mount_card_def card_reloaded_def
  save_card_done_def send_test_done_def save_card_def send_test_def initial_card_def Let_def

lemma card_step_busy [simp]: "ac_busy (card_step c e) = ac_busy c"
  by (cases e) simp_all

text \<open>An answer finds the keys of the other requests, and its own in front if the card waits for it.\<close>

lemma card_taken:
  assumes "card_inv r" "n < length (aw_tasks r)"
  shows "pending_keys card_key (remove_at n (aw_tasks r)) =
      (case card_key (aw_tasks r ! n) of Some k \<Rightarrow> [] | None \<Rightarrow> card_waits (aw_card r))"
    and "card_key (aw_tasks r ! n) \<noteq> None \<Longrightarrow> \<exists>c. aw_card r = Some c \<and> ac_busy c"
  using assms(1) unfolding card_inv_def pending_split[OF assms(2)] remove_at_def card_waits_def
  by (auto split: option.splits if_splits simp: append_eq_Cons_conv)

lemma card_inv_resume:
  assumes "resume_alert t a = Some f"
    and "pending_keys card_key (aw_tasks r) = (case card_key t of Some k \<Rightarrow> [] | None \<Rightarrow> card_waits (aw_card r))"
    and "card_key t \<noteq> None \<Longrightarrow> \<exists>c. aw_card r = Some c \<and> ac_busy c"
  shows "card_inv (fst (f r))"
  using assms
  by (induction t a rule: resume_alert.induct)
    (auto simp: alert_defs split: option.splits sum.splits prod.splits if_splits)

lemma card_inv_step: "card_inv r \<Longrightarrow> card_inv (fst (alert_step r e))"
proof (cases e)
  case (AlertAnswered n a)
  assume "card_inv r"
  then have "card_inv (fst (f (r\<lparr>aw_tasks := remove_at n (aw_tasks r)\<rparr>)))"
    if "n < length (aw_tasks r)" "resume_alert (aw_tasks r ! n) a = Some f" for f
    using card_inv_resume[OF that(2), of "r\<lparr>aw_tasks := remove_at n (aw_tasks r)\<rparr>"] card_taken[of r n] that(1)
    by (cases "card_key (aw_tasks r ! n)") auto
  then show ?thesis using \<open>card_inv r\<close> AlertAnswered by (auto simp: alert_answered_def split: option.splits)
qed (auto simp: alert_defs split: option.splits)

text \<open>
  After any sequence of clicks, ticks and answers in any order, the buttons of the card are off
  exactly while its own submission, the reload after it or its test mail is under way, and of these
  there is at most one.
\<close>

theorem card_busy_exact:
  "pending_keys card_key (aw_tasks (run_alerts events)) =
     (case aw_card (run_alerts events) of Some c \<Rightarrow> if ac_busy c then [()] else [] | None \<Rightarrow> [])"
proof -
  have "card_inv (foldl (\<lambda>r e. fst (alert_step r e)) r events)" if "card_inv r" for r
    using that by (induction events arbitrary: r) (simp_all add: card_inv_step)
  moreover have "card_inv initial_alerts_run" by (simp add: initial_alerts_run_def alert_defs)
  ultimately show ?thesis by (simp add: run_alerts_def card_inv_def card_waits_def)
qed

text \<open>
  Loads are not numbered. An alert that was acknowledged while a poll was under way is shown as not
  acknowledged again when the answer of the poll is the last to arrive.
\<close>

lemma late_poll_shows_old:
  assumes "aw_tasks r = [LoadAlerts False, AckAlert i]"
  shows "al_firing (aw_page (foldl (\<lambda>r e. fst (alert_step r e)) r
      [AlertAnswered 1 (AlertDone (Inr ())), AlertAnswered 1 (AlertsLoaded (Inr new)), AlertAnswered 0 (AlertsLoaded (Inr old))]))
    = als_items (fst old)"
  using assms
  by (cases old; cases new)
    (simp add: alert_answered_def remove_at_def start_load_def mount_card_def reload_alerts_def split: option.splits)

text \<open>The card keeps the fields of the settings it was mounted with, whatever later loads bring.\<close>

lemma card_keeps_fields:
  "aw_card r = Some c \<Longrightarrow> aw_card (fst (alert_step r PollDue)) = Some c \<and> mount_card r = r"
  by (simp add: start_load_def mount_card_def)

end
