(* ===== verification/FleetView.thy ===== *)
theory FleetView
  imports Fleet Views
begin

text \<open>
  What web/src/components/cf-account-group.tsx shows: the four figures, the accounts with their
  workers, and the dialog that adds an account.
\<close>

section \<open>Figures\<close>

definition stat_cards :: "fleet_panel \<Rightarrow> (jstr \<times> jstr) list" where
  "stat_cards p =
     [([0x43, 0x46, 0x20, 0x8D26, 0x53F7], show_int (int (length (fleet_accounts p)))), ([0x6D3B, 0x8DC3, 0x8D26, 0x53F7], show_int (int (activeAccounts p))),
      ([0x57, 0x6F, 0x72, 0x6B, 0x65, 0x72, 0x20, 0x603B, 0x6570], show_int (totalWorkers p)), ([0x5065, 0x5EB7, 0x20, 0x57, 0x6F, 0x72, 0x6B, 0x65, 0x72], show_int (int (healthyWorkers p)))]"

section \<open>Accounts\<close>

definition status_label :: "badge \<Rightarrow> jstr" where
  "status_label b = (case b of ActiveBadge \<Rightarrow> [0x6D3B, 0x8DC3] | BannedBadge \<Rightarrow> [0x5DF2, 0x5C01, 0x7981] | ErrorBadge \<Rightarrow> [0x5F02, 0x5E38] | OtherBadge s \<Rightarrow> s)"

definition status_variant :: "badge \<Rightarrow> badge_variant" where
  "status_variant b =
     (case b of ActiveBadge \<Rightarrow> BadgeSuccess | BannedBadge \<Rightarrow> BadgeDestructive | ErrorBadge \<Rightarrow> BadgeWarning
      | OtherBadge s \<Rightarrow> BadgeSecondary)"

text \<open>
  A badge as it is rendered: the variant that is given, and the attribute \<open>color\<close>, which a \<open>div\<close> has
  but which changes nothing of its look.
\<close>

record shown_badge =
  sb_label :: jstr
  sb_variant :: badge_variant
  sb_color :: jstr

definition badge_color :: "badge_variant \<Rightarrow> jstr" where
  "badge_color v =
     (if v = BadgeSuccess then js ''#3fb950'' else if v = BadgeDestructive then js ''#f85149''
      else if v = BadgeWarning then js ''#d29922'' else js ''#6e7681'')"

definition account_badge :: "jstr \<Rightarrow> shown_badge" where
  "account_badge status =
     (let m = status_meta status in
      \<lparr>sb_label = status_label m, sb_variant = badgeVariants None, sb_color = badge_color (status_variant m)\<rparr>)"

definition worker_badge :: "FleetWorker \<Rightarrow> shown_badge" where
  "worker_badge w =
     \<lparr>sb_label = (if fw_failures w = 0 then [0x5065, 0x5EB7] else [0x5931, 0x8D25, 0x20] @ show_int (fw_failures w)),
      sb_variant = badgeVariants None, sb_color = (if fw_failures w = 0 then js ''#3fb950'' else js ''#f85149'')\<rparr>"

record worker_line =
  wl_name :: jstr
  wl_badge :: shown_badge
  wl_texts :: "jstr \<times> jstr"
  wl_checked :: "jstr option"

definition worker_line_of :: "(jstr \<Rightarrow> jstr option) \<Rightarrow> FleetWorker \<Rightarrow> worker_line" where
  "worker_line_of localized w =
     \<lparr>wl_name = fw_worker_name w, wl_badge = worker_badge w, wl_texts = (fw_canonical_url w, fw_provider_id w),
      wl_checked = map_option (\<lambda>t. formatDate localized (Some t)) (nonempty (fw_last_check w))\<rparr>"

datatype account_body = NoWorkersYet | AccountUnusable | Workers "worker_line list"

record account_card =
  acd_email :: jstr
  acd_badge :: shown_badge
  acd_counts :: "nat \<times> nat"
  acd_id :: jstr
  acd_deleting :: bool
  acd_body :: "account_body option"

definition account_card_of :: "(jstr \<Rightarrow> jstr option) \<Rightarrow> fleet_panel \<Rightarrow> FleetAccount \<Rightarrow> account_card" where
  "account_card_of localized p a =
     \<lparr>acd_email = fa_email a, acd_badge = account_badge (fa_status a),
      acd_counts = (length (fa_workers a), healthy_of a), acd_id = take 12 (fa_id a) @ [0x2026],
      acd_deleting = (fl_busy p = Some (delete_key (fa_id a))),
      acd_body =
        (if fl_expanded p (fa_id a) \<noteq> Some True then None
         else Some (if fa_workers a = [] then (if fa_status a = js ''active'' then NoWorkersYet else AccountUnusable)
           else Workers (map (worker_line_of localized) (fa_workers a))))\<rparr>"

datatype account_list = AccountsLoading | NoAccounts | Accounts "account_card list"

definition account_list_of :: "(jstr \<Rightarrow> jstr option) \<Rightarrow> fleet_panel \<Rightarrow> account_list" where
  "account_list_of localized p =
     (if fl_loading p then AccountsLoading else if fleet_accounts p = [] then NoAccounts
      else Accounts (map (account_card_of localized p) (fleet_accounts p)))"

text \<open>The dialog: the form and whether its two buttons are on.\<close>

definition add_dialog :: "fleet_panel \<Rightarrow> (AddFleetAccountRequest \<times> bool) option" where
  "add_dialog p = (if fl_show_add p then Some (fl_add_form p, fl_busy p \<noteq> Some (js ''add'')) else None)"

section \<open>Facts\<close>

text \<open>Every account, and in an open card every worker, has its line, in the order of the status.\<close>

lemma accounts_complete:
  "account_list_of localized p = Accounts cards \<Longrightarrow> map acd_email cards = map fa_email (fleet_accounts p)"
  by (auto simp: account_list_of_def account_card_of_def split: if_splits)

lemma counts_add_up: "foldl (\<lambda>acc a. acc + healthy_of a) n as = n + sum_list (map healthy_of as)"
  by (induction as arbitrary: n) auto

lemma healthy_figure:
  "account_list_of localized p = Accounts cards \<Longrightarrow> healthyWorkers p = sum_list (map (snd \<circ> acd_counts) cards)"
  by (auto simp: account_list_of_def account_card_of_def healthyWorkers_def counts_add_up comp_def split: if_splits)

text \<open>
  The badge of an account has the look of the default variant whatever the status is: the colour is
  given as an attribute that \<open>Badge\<close> hands on to its element, where it has no effect.
\<close>

lemma account_badges_alike:
  "sb_variant (account_badge s) = sb_variant (account_badge t) \<and> sb_variant (worker_badge w) = BadgeDefault"
  by (simp add: account_badge_def worker_badge_def badgeVariants_def Let_def)

text \<open>A removal is marked on the card of its own account only.\<close>

lemma one_card_deleting:
  "acd_deleting (account_card_of localized p a) \<Longrightarrow> acd_deleting (account_card_of localized p b) \<Longrightarrow> fa_id a = fa_id b"
  by (auto simp: account_card_of_def delete_key_def)

text \<open>An addition under way cannot be sent a second time from the dialog.\<close>

lemma add_once: "fl_busy p = Some (js ''add'') \<Longrightarrow> fst (fleet_step p AddClicked) = p \<and> (case add_dialog p of Some (f, on) \<Rightarrow> \<not> on | None \<Rightarrow> True)"
  by (simp add: add_dialog_def)

end
