(* ===== verification/ShellView.thy ===== *)
theory ShellView
  imports AppShell Views
begin

text \<open>
  The rest of what web/src/App.tsx and web/src/pages/auth-page.tsx show: the side bar and the head of small
  screens, the banner when the control plane is away, the notice, the login form with the checks
  that the browser makes before it submits; and the loads of the pages' code.
\<close>

section \<open>Side bar, head, banner and notice\<close>

datatype status_look = LookUnknown | LookReady | LookOffline

definition status_look :: "bool option \<Rightarrow> status_look" where
  "status_look healthy = (case healthy of None \<Rightarrow> LookUnknown | Some True \<Rightarrow> LookReady | Some False \<Rightarrow> LookOffline)"

text \<open>A status dot: its look and, unless it is compact, its text.\<close>

definition status_dot :: "bool option \<Rightarrow> bool \<Rightarrow> status_look \<times> jstr option" where
  "status_dot healthy small = (status_look healthy, if small then None else Some (status_text healthy))"

record side_bar =
  sbr_brand :: bool
  sbr_toggle :: "jstr \<times> bool"
  sbr_items :: "AppShell.sidebar_item list"
  sbr_status :: "status_look \<times> jstr option"
  sbr_tooltips :: "jstr list"
  sbr_logout :: "jstr option"

definition ready_name :: "shell \<Rightarrow> jstr option" where
  "ready_name s = (case sh_gate s of Ready username \<Rightarrow> Option.bind username nonempty | _ \<Rightarrow> None)"

definition logout_text :: "jstr \<Rightarrow> jstr" where
  "logout_text name = [0x9000, 0x51FA, 0x767B, 0x5F55, 0xFF08] @ name @ [0xFF09]"

text \<open>The toggle has a label and says whether the bar is expanded; the collapsed bar has tooltips instead of texts.\<close>

definition side_bar_of :: "shell \<Rightarrow> side_bar" where
  "side_bar_of s =
     (let closed = sh_collapsed s in
      \<lparr>sbr_brand = (\<not> closed), sbr_toggle = (if closed then [0x5C55, 0x5F00, 0x4FA7, 0x680F] else [0x6298, 0x53E0, 0x4FA7, 0x680F], \<not> closed),
       sbr_items = map (sidebar_item s) pages,
       sbr_status = status_dot (sh_healthy s) closed,
       sbr_tooltips = (if closed
          then [[0x5C55, 0x5F00, 0x4FA7, 0x680F], [0x540E, 0x7AEF, 0x72B6, 0x6001, 0xFF1A] @ (case sh_healthy s of None \<Rightarrow> [0x68C0, 0x6D4B, 0x4E2D] | Some True \<Rightarrow> [0x5C31, 0x7EEA] | Some False \<Rightarrow> [0x79BB, 0x7EBF]), [0x5207, 0x6362, 0x4E3B, 0x9898]]
            @ (case ready_name s of Some n \<Rightarrow> [logout_text n] | None \<Rightarrow> [])
          else []),
       sbr_logout = map_option logout_text (ready_name s)\<rparr>)"

text \<open>The buttons of the head of small screens: label and whether it is the current page.\<close>

definition mobile_nav :: "shell \<Rightarrow> (jstr \<times> bool) list" where
  "mobile_nav s = map (\<lambda>p. (page_label p, sh_page s = p)) pages"

definition offline_banner :: "shell \<Rightarrow> bool" where
  "offline_banner s \<longleftrightarrow> sh_healthy s = Some False"

text \<open>The notice: whether it tells a success, and its message.\<close>

definition toast_of :: "shell \<Rightarrow> (bool \<times> jstr) option" where
  "toast_of s = map_option (\<lambda>n. (nt_success n, nt_message n)) (sh_notice s)"

text \<open>Both ways to navigate mark exactly the current page.\<close>

lemma one_page_marked:
  "map snd (mobile_nav s) = map si_active (sbr_items (side_bar_of s)) \<and>
   (\<exists>!p. (page_label p, True) \<in> set (mobile_nav s))"
proof -
  have "page_label p = page_label q \<longleftrightarrow> p = q" for p q by (cases p; cases q) (simp_all add: page_label_def)
  then show ?thesis
    by (auto simp: mobile_nav_def side_bar_of_def sidebar_item_def Let_def pages_complete image_iff)
qed

text \<open>Collapsed or not, the texts of a page are shown, in the bar or as its tooltip.\<close>

lemma page_texts_shown:
  "i \<in> set (sbr_items (side_bar_of s)) \<Longrightarrow> (si_texts i = None) \<noteq> (si_tooltip i = None)"
  by (auto simp: side_bar_of_def sidebar_item_def Let_def split: if_splits)

section \<open>The code of the pages\<close>

text \<open>
  One loader per page, called by the prefetch and by \<open>React.lazy\<close>, which calls it at the first
  rendering and keeps the promise. \<open>pc_called\<close> lists the calls.
\<close>

record page_code =
  pc_preloaded :: "Page set"
  pc_lazy :: "Page set"
  pc_called :: "Page list"

datatype code_event = Hovered Page | Rendered Page | PrefetchFailed Page

fun code_step :: "page_code \<Rightarrow> code_event \<Rightarrow> page_code" where
  "code_step c (Hovered p) =
     (let (known, asks) = preloadPage p (pc_preloaded c) in
      c\<lparr>pc_preloaded := known, pc_called := pc_called c @ (if asks then [p] else [])\<rparr>)"
| "code_step c (Rendered p) =
     (if p \<in> pc_lazy c then c else c\<lparr>pc_lazy := insert p (pc_lazy c), pc_called := pc_called c @ [p]\<rparr>)"
| "code_step c (PrefetchFailed p) = c\<lparr>pc_preloaded := preload_failed p (pc_preloaded c)\<rparr>"

definition run_code :: "code_event list \<Rightarrow> page_code" where
  "run_code es = foldl code_step \<lparr>pc_preloaded = {}, pc_lazy = {}, pc_called = []\<rparr> es"

definition failures_of :: "Page \<Rightarrow> code_event list \<Rightarrow> nat" where
  "failures_of p es = length (filter (\<lambda>e. e = PrefetchFailed p) es)"

text \<open>However often a page is hovered and rendered, its loader is called twice at most, and once more per failed prefetch.\<close>

lemma loader_calls:
  "length (filter (\<lambda>q. q = p) (pc_called (run_code es))) \<le> failures_of p es
     + (if p \<in> pc_preloaded (run_code es) then 1 else 0) + (if p \<in> pc_lazy (run_code es) then 1 else 0)"
proof (induction es rule: rev_induct)
  case (snoc e es)
  then show ?case
    by (cases e) (auto simp: run_code_def failures_of_def preloadPage_def preload_failed_def split: if_splits)
qed (simp add: run_code_def failures_of_def)

section \<open>The login form\<close>

text \<open>
  What the form shows: before the setup the token field, a hint and the texts of the setup; the
  error; and the button with its text, off while a request runs.
\<close>

record auth_view =
  avw_setup :: bool
  avw_title :: jstr
  avw_error :: "jstr option"
  avw_button :: jstr
  avw_enabled :: bool

definition auth_view_of :: "bool \<Rightarrow> auth_form \<Rightarrow> auth_view" where
  "auth_view_of configured f =
     \<lparr>avw_setup = (\<not> configured), avw_title = (if configured then [0x7BA1, 0x7406, 0x5458, 0x767B, 0x5F55] else [0x521D, 0x59CB, 0x5316, 0x7BA1, 0x7406, 0x5458, 0x8D26, 0x6237]),
      avw_error = map_option (\<lambda>e. or_default e [0x8BF7, 0x6C42, 0x5931, 0x8D25, 0xFF0C, 0x8BF7, 0x7A0D, 0x540E, 0x91CD, 0x8BD5]) (af_error f),
      avw_button = (if af_busy f then [0x5904, 0x7406, 0x4E2D, 0x2026] else if configured then [0x767B, 0x5F55] else [0x521D, 0x59CB, 0x5316, 0x5E76, 0x767B, 0x5F55]),
      avw_enabled = (\<not> af_busy f)\<rparr>"

text \<open>
  What the browser checks before it submits: required fields and the lengths of values that were
  typed. The values are not trimmed for it.
\<close>

definition auth_fields_ok :: "bool \<Rightarrow> auth_form \<Rightarrow> bool" where
  "auth_fields_ok configured f \<longleftrightarrow>
     (configured \<or> af_setup_token f \<noteq> []) \<and>
     3 \<le> length (af_username f) \<and> length (af_username f) \<le> 64 \<and>
     (if configured then 1 else 10) \<le> length (af_password f) \<and> length (af_password f) \<le> 128"

definition press_submit ::
  "bool \<Rightarrow> (http_call \<Rightarrow> js_error option) \<Rightarrow> auth_form \<Rightarrow> http_call list \<times> auth_form \<times> bool" where
  "press_submit configured post f =
     (if avw_enabled (auth_view_of configured f) \<and> auth_fields_ok configured f then submit_login configured post f
      else ([], f, False))"

text \<open>Before a first login nothing is sent without the setup going first; afterwards only the login is.\<close>

lemma press_submit_calls:
  "fst (press_submit configured post f) \<in>
     {[], [login (trim (af_username f)) (af_password f)],
      [authSetup (trim (af_setup_token f)) (trim (af_username f)) (af_password f)],
      [authSetup (trim (af_setup_token f)) (trim (af_username f)) (af_password f), login (trim (af_username f)) (af_password f)]}
   \<and> (configured \<longrightarrow> fst (press_submit configured post f) \<in> {[], [login (trim (af_username f)) (af_password f)]})"
  by (auto simp: press_submit_def submit_login_def Let_def split: option.splits)

text \<open>The length is checked before the name is trimmed: three blanks pass and an empty name is sent.\<close>

lemma blank_name_sent:
  "fst (press_submit True post \<lparr>af_setup_token = [], af_username = js ''   '', af_password = js ''x'', af_busy = False, af_error = None\<rparr>)
     = [login [] (js ''x'')]"
  by (simp add: press_submit_def auth_fields_ok_def auth_view_of_def submit_login_def Let_def
      string_defs js_eval is_space_def split: option.splits)

end
