(* ===== verification/ArtifactsView.thy ===== *)
theory ArtifactsView
  imports ArtifactsPage Views
begin

text \<open>
  What web/src/pages/artifacts-page.tsx shows: the tabs, the creation, the list with the links of its rows,
  and the dialog before a removal.
\<close>

text \<open>The link of a row is None for an identifier that cannot be encoded.\<close>

definition kind_text :: "ArtifactKind \<Rightarrow> jstr" where
  "kind_text k = (case k of Backup \<Rightarrow> js ''Backup'' | Export \<Rightarrow> js ''Portable Export'')"

record artifact_row =
  arw_name :: jstr
  arw_text :: jstr
  arw_created :: jstr
  arw_size :: jstr
  arw_digest :: jstr
  arw_secrets :: "bool \<times> badge_variant"
  arw_verify :: "bool \<times> bool"
  arw_link :: "jstr option \<times> jstr"
  arw_delete :: bool

definition artifact_row_of :: "(jstr \<Rightarrow> jstr option) \<Rightarrow> artifacts_page \<Rightarrow> ArtifactRecord \<Rightarrow> artifact_row" where
  "artifact_row_of localized p item =
     \<lparr>arw_name = art_filename item,
      arw_text = or_default (Option.bind (art_description item) nonempty) (compactId (art_id item)),
      arw_created = formatDate localized (Some (art_created_at item)),
      arw_size = formatBytes (Fin (of_int (art_size item))), arw_digest = compactId (art_sha256 item),
      arw_secrets = (art_includes_secrets item, if art_includes_secrets item then BadgeWarning else BadgeSuccess),
      arw_verify = (\<not> row_busy p item, row_busy p item),
      arw_link = (artifactDownloadURL (ap_kind p) (art_id item), art_filename item),
      arw_delete = (\<not> row_busy p item)\<rparr>"

datatype artifact_list = ArtifactsLoading | ArtifactsNone jstr | ArtifactRows "artifact_row list"

record artifacts_view =
  arv_tabs :: "(jstr \<times> bool) list"
  arv_reload :: "bool \<times> bool"
  arv_title :: jstr
  arv_hint :: jstr
  arv_create :: "jstr \<times> bool"
  arv_count :: nat
  arv_list :: artifact_list
  arv_dialog :: "confirm_view option"

definition artifacts_view_of :: "(jstr \<Rightarrow> jstr option) \<Rightarrow> artifacts_page \<Rightarrow> artifacts_view" where
  "artifacts_view_of localized p =
     \<lparr>arv_tabs = map (\<lambda>k. (kind_text k, ap_kind p = k)) [Backup, Export],
      arv_reload = (\<not> ap_loading p, ap_loading p),
      arv_title = [0x521B, 0x5EFA, 0x20] @ kind_text (ap_kind p),
      arv_hint = (case ap_kind p of
         Backup \<Rightarrow> [0x5305, 0x542B, 0x4E8B, 0x52A1, 0x4E00, 0x81F4, 0x6570, 0x636E, 0x5E93, 0x526F, 0x672C, 0xFF0C, 0x4F46, 0x4E0D, 0x5305, 0x542B, 0x4E3B, 0x5BC6, 0x94A5, 0xFF1B, 0x7528, 0x4E8E, 0x540C, 0x5B9E, 0x4F8B, 0x72B6, 0x6001, 0x4FDD, 0x62A4, 0xFF0C, 0x4E0D, 0x662F, 0x5B8C, 0x6574, 0x8DE8, 0x673A, 0x707E, 0x96BE, 0x6062, 0x590D, 0x5305, 0x3002]
       | Export \<Rightarrow> [0x4E0D, 0x5305, 0x542B, 0x6570, 0x636E, 0x5E93, 0x3001, 0x8BA2, 0x9605, 0x79D8, 0x5BC6, 0x3001, 0x8282, 0x70B9, 0x51ED, 0x636E, 0x3001, 0x8FD0, 0x884C, 0x65F6, 0x914D, 0x7F6E, 0x6216, 0x4E3B, 0x5BC6, 0x94A5, 0x3002]),
      arv_create = ([0x521B, 0x5EFA, 0x20] @ (case ap_kind p of Backup \<Rightarrow> js ''Backup'' | Export \<Rightarrow> js ''Export''), \<not> ap_creating p),
      arv_count = length (ap_items p),
      arv_list = (if ap_loading p then ArtifactsLoading
        else if ap_items p = [] then ArtifactsNone ([0x5F53, 0x524D, 0x6CA1, 0x6709, 0x20] @ kind_text (ap_kind p))
        else ArtifactRows (map (artifact_row_of localized p) (ap_items p))),
      arv_dialog = confirm_dialog (ap_delete_target p \<noteq> None) [0x5220, 0x9664, 0x5F52, 0x6863]
        ([0x5C06, 0x6C38, 0x4E45, 0x5220, 0x9664, 0x201C] @ (case ap_delete_target p of Some item \<Rightarrow> art_filename item | None \<Rightarrow> [])
          @ [0x201D, 0x3002, 0x6B64, 0x64CD, 0x4F5C, 0x4E0D, 0x4F1A, 0x4FEE, 0x6539, 0x5F53, 0x524D, 0x6570, 0x636E, 0x5E93, 0x6216, 0x8FD0, 0x884C, 0x72B6, 0x6001, 0x3002]) None
        (case ap_delete_target p of Some item \<Rightarrow> row_busy p item | None \<Rightarrow> False)\<rparr>"

text \<open>The controls are on exactly when they start a request.\<close>

definition sends :: "artifacts_page \<Rightarrow> artifact_event \<Rightarrow> bool" where
  "sends p e \<longleftrightarrow> (\<exists>t. ap_pending (fst (artifact_step p e)) = ap_pending p @ [t])"

lemmas sends_defs = sends_def start_def mark_def load_artifacts_def create_artifact_def verify_artifact_def remove_artifact_def

lemma artifact_controls_send:
  "sends p ReloadArtifacts \<longleftrightarrow> fst (arv_reload (artifacts_view_of localized p))"
  "sends p CreateArtifact \<longleftrightarrow> snd (arv_create (artifacts_view_of localized p))"
  "row_shown item p \<Longrightarrow> sends p (VerifyClicked item) \<longleftrightarrow> fst (arw_verify (artifact_row_of localized p item))"
  "sends p DeleteAccepted \<longleftrightarrow>
     (case arv_dialog (artifacts_view_of localized p) of Some d \<Rightarrow> cf_confirm d | None \<Rightarrow> False)"
  by (auto simp: sends_defs artifacts_view_of_def artifact_row_of_def confirm_dialog_def split: option.splits)

text \<open>Exactly one tab is marked, and a tab asks for its list when it is not the marked one.\<close>

lemma tab_marked: "(kind_text k, True) \<in> set (arv_tabs (artifacts_view_of localized p)) \<longleftrightarrow> ap_kind p = k"
  by (cases k; cases "ap_kind p") (simp_all add: artifacts_view_of_def kind_text_def js_eval)

lemma tab_loads: "sends p (KindChosen k) \<longleftrightarrow> ap_kind p \<noteq> k"
  by (auto simp: sends_defs setKind_def)

text \<open>
  The links of the rows follow the tab at once, while the rows are those of the last answer: with an
  outdated list, an export is offered under the address of a backup.
\<close>

lemma link_follows_tab: "fst (arw_link (artifact_row_of localized p item)) = artifactDownloadURL (ap_kind p) (art_id item)"
  by (simp add: artifact_row_of_def)

end
