(* ===== verification/AboutView.thy ===== *)
theory AboutView
  imports Tasks AboutPage Views
begin

text \<open>
  The about page at work (web/src/pages/about-page.tsx): its requests in flight, and what it shows. The
  wait after an update is one task that ends with a reload of the page or with the notice that it
  took too long.
\<close>

section \<open>Requests in flight\<close>

datatype about_task = AboutLoad | UpdateTask | VerifyTwoFactor jstr

record about_run =
  ar_page :: about_page
  ar_tasks :: "about_task list"

datatype about_answer =
    AboutLoaded "(SystemInfo \<times> TwoFactorStatus) outcome" | UpdateAnswer "unit outcome" "nat \<Rightarrow> bool"
  | VerifyAnswered "unit outcome" "TwoFactorStatus outcome"

datatype about_event =
    RefreshInfo | CodeTyped jstr | EnterInCode | VerifyPressed | CopyPressed bool | CopyMarkOff
  | UpdatePressed | UpdateCancelled | UpdateConfirmed | AboutAnswered nat about_answer

definition add_task :: "about_task \<Rightarrow> about_run \<Rightarrow> about_run" where
  "add_task t r = r\<lparr>ar_tasks := ar_tasks r @ [t]\<rparr>"

definition initial_about_run :: about_run where
  "initial_about_run = \<lparr>ar_page = initial_about, ar_tasks = [AboutLoad]\<rparr>"

fun resume_about :: "about_task \<Rightarrow> about_answer \<Rightarrow> (about_page \<Rightarrow> about_page \<times> about_notice list) option" where
  "resume_about AboutLoad (AboutLoaded a) = Some (load_about a)"
| "resume_about UpdateTask (UpdateAnswer a health) = Some (\<lambda>p. case update_done a health p of (q, ns, reloads) \<Rightarrow> (q, ns))"
| "resume_about (VerifyTwoFactor code) (VerifyAnswered a s) = Some (verifyTwoFactor_done a s)"
| "resume_about _ _ = None"

text \<open>The code field is there while two-factor is enabled and not yet verified.\<close>

definition code_asked :: "about_page \<Rightarrow> bool" where
  "code_asked p \<longleftrightarrow> (case ab_two_factor p of Some s \<Rightarrow> tfs_enabled s \<and> \<not> tfs_verified s | None \<Rightarrow> False)"

definition verify_enabled :: "about_page \<Rightarrow> bool" where
  "verify_enabled p \<longleftrightarrow> \<not> (ab_verifying p \<or> length (ab_code p) \<noteq> 6)"

definition submit_code :: "about_run \<Rightarrow> about_run \<times> about_notice list" where
  "submit_code r =
     (let ((p, notices), call) = verifyTwoFactor_begin (ar_page r) in
      ((if call = None then id else add_task (VerifyTwoFactor (trim (ab_code (ar_page r))))) (r\<lparr>ar_page := p\<rparr>), notices))"

definition info_shown :: "about_page \<Rightarrow> bool" where
  "info_shown p \<longleftrightarrow> ab_info p \<noteq> None"

text \<open>Each control reacts while it is there and enabled; the Enter key waits for nothing.\<close>

fun about_step :: "about_run \<Rightarrow> about_event \<Rightarrow> about_run \<times> about_notice list" where
  "about_step r RefreshInfo =
     (if ab_loading (ar_page r) then (r, []) else (add_task AboutLoad (r\<lparr>ar_page := load_about_begin (ar_page r)\<rparr>), []))"
| "about_step r (CodeTyped v) =
     (if info_shown (ar_page r) \<and> code_asked (ar_page r) then (r\<lparr>ar_page := (ar_page r)\<lparr>ab_code := about_code v\<rparr>\<rparr>, []) else (r, []))"
| "about_step r EnterInCode = (if info_shown (ar_page r) \<and> code_asked (ar_page r) then submit_code r else (r, []))"
| "about_step r VerifyPressed =
     (if info_shown (ar_page r) \<and> code_asked (ar_page r) \<and> verify_enabled (ar_page r) then submit_code r else (r, []))"
| "about_step r (CopyPressed allowed) =
     (let (p, notices) = copyUpdateCommand allowed (ar_page r) in (r\<lparr>ar_page := p\<rparr>, notices))"
| "about_step r CopyMarkOff = (r\<lparr>ar_page := copied_timer (ar_page r)\<rparr>, [])"
| "about_step r UpdatePressed = (r\<lparr>ar_page := open_update (ar_page r)\<rparr>, [])"
| "about_step r UpdateCancelled = (r\<lparr>ar_page := cancel_update (ar_page r)\<rparr>, [])"
| "about_step r UpdateConfirmed =
     (if \<not> ab_confirming (ar_page r) \<or> ab_updating (ar_page r) then (r, [])
      else (let ((p, notices), call) = updateToLatest (ar_page r) in
        ((if call = None then id else add_task UpdateTask) (r\<lparr>ar_page := p\<rparr>), notices)))"
| "about_step r (AboutAnswered n a) =
     (if n < length (ar_tasks r)
      then (case resume_about (ar_tasks r ! n) a of
              Some f \<Rightarrow> (let (p, notices) = f (ar_page r) in (\<lparr>ar_page = p, ar_tasks = remove_at n (ar_tasks r)\<rparr>, notices))
            | None \<Rightarrow> (r, []))
      else (r, []))"

definition run_about :: "about_event list \<Rightarrow> about_run" where
  "run_about es = foldl (\<lambda>r e. fst (about_step r e)) initial_about_run es"

section \<open>What is shown\<close>

datatype two_factor_badge = TfVerified | TfAwaited | TfOff

record about_view =
  abv_refresh :: bool
  abv_versions :: "(jstr \<times> jstr) list"
  abv_badge :: "(two_factor_badge \<times> badge_variant) option"
  abv_code :: "(jstr \<times> bool) option"
  abv_command :: "jstr \<times> bool"
  abv_update :: "(jstr \<times> bool) option"
  abv_protocols :: "jstr list"

definition two_factor_badge_of :: "TwoFactorStatus \<Rightarrow> two_factor_badge \<times> badge_variant" where
  "two_factor_badge_of s =
     (if tfs_verified s then TfVerified else if tfs_enabled s then TfAwaited else TfOff,
      if tfs_verified s then BadgeDefault else BadgeOutline)"

text \<open>Nothing but the refresh button before the first answer.\<close>

definition about_view_of :: "about_page \<Rightarrow> about_view option" where
  "about_view_of p =
     map_option (\<lambda>info.
       \<lparr>abv_refresh = (\<not> ab_loading p),
        abv_versions = [([0x63A7, 0x5236, 0x9762], si_version info),
          ([0x4D, 0x69, 0x68, 0x6F, 0x6D, 0x6F, 0x20, 0x6570, 0x636E, 0x9762], or_default (Option.bind (si_dataplane_version info) nonempty) [0x5F53, 0x524D, 0x672A, 0x8FDE, 0x63A5]),
          ([0x9879, 0x76EE, 0x4ED3, 0x5E93], js ''HengXin666/HX-ProxyGroup'')],
        abv_badge = map_option two_factor_badge_of (ab_two_factor p),
        abv_code = (if code_asked p then Some (ab_code p, verify_enabled p) else None),
        abv_command = (si_update_command info, ab_copied p),
        abv_update = (if si_automatic_update info
          then Some (if ab_updating p then [0x66F4, 0x65B0, 0x4E2D] else [0x66F4, 0x65B0, 0x81F3, 0x6700, 0x65B0, 0x7248], \<not> (ab_updating p \<or> \<not> verified p)) else None),
        abv_protocols = map to_upper (si_supported_protocols info)\<rparr>) (ab_info p)"

definition update_dialog :: "about_page \<Rightarrow> confirm_view option" where
  "update_dialog p = confirm_dialog (ab_confirming p) [0x66F4, 0x65B0, 0x20, 0x48, 0x58, 0x2D, 0x50, 0x72, 0x6F, 0x78, 0x79, 0x47, 0x72, 0x6F, 0x75, 0x70]
     [0x5C06, 0x4E0B, 0x8F7D, 0x6700, 0x65B0, 0x20, 0x47, 0x69, 0x74, 0x48, 0x75, 0x62, 0x20, 0x52, 0x65, 0x6C, 0x65, 0x61, 0x73, 0x65, 0x3001, 0x6821, 0x9A8C, 0x20, 0x53, 0x48, 0x41, 0x2D, 0x32, 0x35, 0x36, 0xFF0C, 0x5E76, 0x91CD, 0x542F, 0x63A7, 0x5236, 0x9762, 0x3001, 0x6570, 0x636E, 0x9762, 0x548C, 0x7EC8, 0x7AEF, 0x20, 0x68, 0x65, 0x6C, 0x70, 0x65, 0x72, 0xFF1B, 0x72, 0x65, 0x61, 0x64, 0x69, 0x6E, 0x65, 0x73, 0x73, 0x20, 0x5931, 0x8D25, 0x4F1A, 0x81EA, 0x52A8, 0x56DE, 0x6EDA, 0x3002]
     (Some [0x5F00, 0x59CB, 0x66F4, 0x65B0]) (ab_updating p)"

section \<open>One update at a time\<close>

fun update_key :: "about_task \<Rightarrow> unit option" where
  "update_key UpdateTask = Some ()"
| "update_key _ = None"

definition update_inv :: "about_run \<Rightarrow> bool" where
  "update_inv r \<longleftrightarrow> pending_keys update_key (ar_tasks r) = (if ab_updating (ar_page r) then [()] else [])"

lemmas about_defs = update_inv_def add_task_def load_about_def load_about_begin_def copyUpdateCommand_def copied_timer_def
  open_update_def cancel_update_def updateToLatest_def update_done_def verifyTwoFactor_begin_def verifyTwoFactor_done_def
  submit_code_def Let_def

lemma update_taken:
  assumes "update_inv r" "n < length (ar_tasks r)"
  shows "pending_keys update_key (remove_at n (ar_tasks r)) =
      (case update_key (ar_tasks r ! n) of Some k \<Rightarrow> [] | None \<Rightarrow> if ab_updating (ar_page r) then [()] else [])"
  using assms(1) unfolding update_inv_def pending_split[OF assms(2)] remove_at_def
  by (auto split: option.splits if_splits simp: append_eq_Cons_conv)

lemma update_inv_resume:
  assumes "resume_about t a = Some f"
    and "pending_keys update_key ts = (case update_key t of Some k \<Rightarrow> [] | None \<Rightarrow> if ab_updating p then [()] else [])"
  shows "update_inv \<lparr>ar_page = fst (f p), ar_tasks = ts\<rparr>"
  using assms
  by (induction t a rule: resume_about.induct)
    (auto simp: about_defs split: option.splits sum.splits prod.splits if_splits)

lemma update_inv_step: "update_inv r \<Longrightarrow> update_inv (fst (about_step r e))"
proof (cases e)
  case (AboutAnswered n a)
  assume inv: "update_inv r"
  have "update_inv \<lparr>ar_page = fst (f (ar_page r)), ar_tasks = remove_at n (ar_tasks r)\<rparr>"
    if "n < length (ar_tasks r)" "resume_about (ar_tasks r ! n) a = Some f" for f
    using update_inv_resume[OF that(2) update_taken[OF inv that(1)]] .
  then show ?thesis using inv AboutAnswered by (auto split: option.splits prod.splits)
qed (auto simp: about_defs split: option.splits prod.splits if_splits)

text \<open>
  Whatever is clicked and answered, in any order: at most one update is under way, the page says so
  exactly then, and while it is the dialog offers no other. An update is only asked for after its
  confirmation with a verified second factor.
\<close>

theorem one_update_at_a_time:
  "pending_keys update_key (ar_tasks (run_about es)) = (if ab_updating (ar_page (run_about es)) then [()] else [])"
proof -
  have "update_inv (foldl (\<lambda>r e. fst (about_step r e)) r es)" if "update_inv r" for r
    using that by (induction es arbitrary: r) (simp_all add: update_inv_step)
  moreover have "update_inv initial_about_run"
    by (simp add: update_inv_def initial_about_run_def initial_about_def)
  ultimately show ?thesis by (simp add: run_about_def update_inv_def)
qed

lemma update_needs_second_factor:
  "ar_tasks (fst (about_step r e)) = ar_tasks r @ [UpdateTask] \<Longrightarrow>
     e = UpdateConfirmed \<and> ab_confirming (ar_page r) \<and> verified (ar_page r) \<and> \<not> ab_updating (ar_page r)"
  by (cases e) (auto simp: about_defs remove_at_def split: option.splits prod.splits if_splits dest: arg_cong[where f = length])

lemma dialog_off_while_updating: "ab_updating p \<Longrightarrow> update_dialog p = Some d \<Longrightarrow> \<not> cf_confirm d \<and> \<not> cf_cancel d"
  by (auto simp: update_dialog_def confirm_dialog_def split: if_splits)

text \<open>
  The verification button waits for a verification under way, the Enter key does not: it sends the
  same code, which is valid once, a second time.
\<close>

lemma enter_sends_twice:
  assumes "info_shown (ar_page r)" "code_asked (ar_page r)" "ab_code (ar_page r) = code" "length code = 6" "list_all is_digit code"
  shows "ar_tasks (foldl (\<lambda>r e. fst (about_step r e)) r [EnterInCode, EnterInCode]) =
      ar_tasks r @ [VerifyTwoFactor code, VerifyTwoFactor code]"
  using assms by (auto simp: about_defs info_shown_def code_asked_def digits_no_space)

end
