(* ===== verification/BrandColor.thy ===== *)
theory BrandColor
  imports Theme
begin

text \<open>
  The rest of web/src/lib/theme.ts: the text colour that goes with a brand colour, and the
  subscriptions to the two events and to the preference of the system. The luminance is a real
  number here; the rounding of doubles is left out.
\<close>

section \<open>The text on a brand colour\<close>

definition color_digit :: "nat \<Rightarrow> int" where
  "color_digit u = (if is_digit u then int u - 48 else int u - 87)"

text \<open>\<open>Number.parseInt(color.slice(i, i + 2), 16)\<close> of a normalised colour.\<close>

definition channel :: "nat \<Rightarrow> jstr \<Rightarrow> int" where
  "channel i color = 16 * color_digit (color ! i) + color_digit (color ! Suc i)"

definition linear :: "real \<Rightarrow> real" where
  "linear v = (if v \<le> 0.04045 then v / 12.92 else ((v + 0.055) / 1.055) powr 2.4)"

definition luminance :: "jstr \<Rightarrow> real" where
  "luminance color =
     0.2126 * linear (of_int (channel 1 color) / 255) + 0.7152 * linear (of_int (channel 3 color) / 255)
     + 0.0722 * linear (of_int (channel 5 color) / 255)"

definition dark_text :: jstr where "dark_text = js ''#101413''"
definition light_text :: jstr where "light_text = js ''#ffffff''"

definition foregroundFor :: "jstr \<Rightarrow> jstr" where
  "foregroundFor color = (if 0.42 < luminance color then dark_text else light_text)"

text \<open>What \<open>applyThemeColor\<close> writes: the brand colour and the colour of the text on it.\<close>

definition brand_style :: "browser \<Rightarrow> jstr \<times> jstr" where
  "brand_style b = (br_brand b, foregroundFor (br_brand b))"

section \<open>Contrast\<close>

text \<open>The contrast of two colours as the accessibility guidelines define it.\<close>

definition contrast :: "real \<Rightarrow> real \<Rightarrow> real" where
  "contrast a b = (max a b + 0.05) / (min a b + 0.05)"

lemma linear_nonneg: "0 \<le> v \<Longrightarrow> 0 \<le> linear v"
  by (simp add: linear_def)

lemma channel_range: "is_color c \<Longrightarrow> i \<in> {1, 3, 5} \<Longrightarrow> 0 \<le> channel i c \<and> channel i c \<le> 255"
proof -
  assume c: "is_color c" and i: "i \<in> {1, 3, 5}"
  have "0 \<le> color_digit (c ! j) \<and> color_digit (c ! j) \<le> 15" if "0 < j" "j < 7" for j
  proof -
    have "c ! j \<in> set (tl c)" using c that by (cases c; cases j) (auto simp: is_color_def)
    then have "is_digit (c ! j) \<or> (97 \<le> c ! j \<and> c ! j \<le> 102)" using c by (auto simp: is_color_def list_all_iff)
    then show ?thesis by (auto simp: color_digit_def is_digit_def)
  qed
  from this[of i] this[of "Suc i"] i show ?thesis by (auto simp: channel_def)
qed

lemma luminance_nonneg: "is_color c \<Longrightarrow> 0 \<le> luminance c"
  using channel_range[of c] by (simp add: luminance_def linear_nonneg)

lemma luminance_white: "luminance light_text = 1"
  by (simp add: luminance_def linear_def light_text_def channel_def color_digit_def is_digit_def js_def)

lemma linear_small:
  assumes "0.04045 < v" "v \<le> 20 / 255"
  shows "linear v \<le> 0.0161"
proof -
  let ?x = "(v + 0.055) / 1.055"
  have x: "0 \<le> ?x" "?x \<le> 0.1265" using assms by auto
  have "?x powr 2.4 \<le> ?x powr 2" using x by (intro powr_mono') auto
  also have "\<dots> = ?x * ?x" using x by (simp add: power2_eq_square)
  also have "\<dots> \<le> 0.1265 * 0.1265" by (intro mult_mono) (use x in auto)
  finally show ?thesis using assms by (simp add: linear_def)
qed

lemma luminance_dark: "luminance dark_text \<le> 0.0161"
proof -
  have "channel 1 dark_text = 16" "channel 3 dark_text = 20" "channel 5 dark_text = 19"
    by (simp_all add: dark_text_def channel_def color_digit_def is_digit_def js_def)
  then show ?thesis
    using linear_small[of "16 / 255"] linear_small[of "20 / 255"] linear_small[of "19 / 255"]
    by (simp add: luminance_def)
qed

text \<open>
  Whatever colour is chosen, the text on it can be told from it: the contrast is more than 2.2,
  and more than 7 on the light colours, where the text is dark.
\<close>

theorem brand_text_readable:
  assumes "is_color c"
  shows "2.2 < contrast (luminance c) (luminance (foregroundFor c))"
    and "0.42 < luminance c \<Longrightarrow> 7 < contrast (luminance c) (luminance (foregroundFor c))"
proof -
  have dark: "is_color dark_text" by (simp add: dark_text_def is_color_def js_def is_digit_def)
  have light: "7 < contrast (luminance c) (luminance dark_text)" if "0.42 < luminance c"
    using that luminance_dark luminance_nonneg[OF dark] by (simp add: contrast_def field_simps)
  show "2.2 < contrast (luminance c) (luminance (foregroundFor c))"
  proof (cases "0.42 < luminance c")
    case True
    then show ?thesis using light by (simp add: foregroundFor_def)
  next
    case False
    then show ?thesis using luminance_nonneg[OF assms]
      by (simp add: foregroundFor_def luminance_white contrast_def field_simps)
  qed
  show "0.42 < luminance c \<Longrightarrow> 7 < contrast (luminance c) (luminance (foregroundFor c))"
    using light by (simp add: foregroundFor_def)
qed

text \<open>The brand colour of the page is always a colour, so its text is readable too.\<close>

lemma brand_after_apply: "is_color (br_brand (fst (applyThemeColor c b)))"
  by (cases "normalizeColor c") (auto simp: applyThemeColor_def Let_def dest: normalizeColor_color)

text \<open>For colours of middle luminance the other text would have more contrast.\<close>

lemma other_text_better:
  assumes "0.22 < luminance c" "luminance c \<le> 0.42"
  shows "contrast (luminance c) (luminance (foregroundFor c)) < contrast (luminance c) (luminance dark_text)"
proof -
  have dark: "0 \<le> luminance dark_text" by (rule luminance_nonneg) (simp add: dark_text_def is_color_def js_def is_digit_def)
  define l where "l = luminance c"
  define d where "d = luminance dark_text"
  have l: "0.22 < l" "l \<le> 0.42" and d: "0 \<le> d" "d \<le> 0.0161"
    using assms dark luminance_dark by (simp_all add: l_def d_def)
  have "1.05 * (d + 0.05) \<le> 1.05 * 0.0661" using d by simp
  also have "\<dots> < 0.27 * 0.27" by simp
  also have "\<dots> \<le> (l + 0.05) * (l + 0.05)" by (intro mult_mono) (use l in auto)
  finally have "1.05 / (l + 0.05) < (l + 0.05) / (d + 0.05)" using l d by (simp add: field_simps)
  then show ?thesis using l d
    by (simp add: foregroundFor_def luminance_white contrast_def l_def[symmetric] d_def[symmetric])
qed

section \<open>Subscriptions\<close>

text \<open>
  A subscription adds a listener to the event and one to the preference of the system; its result
  removes both. Every call makes new listeners, numbered here; with each goes the component that
  it informs.
\<close>

record theme_bus =
  tb_next :: nat
  tb_theme :: "(nat \<times> nat) list"
  tb_media :: "nat list"
  tb_color :: "(nat \<times> nat) list"

definition subscribeTheme :: "nat \<Rightarrow> theme_bus \<Rightarrow> theme_bus \<times> nat" where
  "subscribeTheme component bus =
     (bus\<lparr>tb_next := Suc (tb_next bus), tb_theme := tb_theme bus @ [(tb_next bus, component)],
          tb_media := tb_media bus @ [tb_next bus]\<rparr>, tb_next bus)"

definition unsubscribeTheme :: "nat \<Rightarrow> theme_bus \<Rightarrow> theme_bus" where
  "unsubscribeTheme token bus =
     bus\<lparr>tb_theme := filter (\<lambda>l. fst l \<noteq> token) (tb_theme bus), tb_media := filter (\<lambda>l. l \<noteq> token) (tb_media bus)\<rparr>"

definition subscribeThemeColor :: "nat \<Rightarrow> theme_bus \<Rightarrow> theme_bus \<times> nat" where
  "subscribeThemeColor component bus =
     (bus\<lparr>tb_next := Suc (tb_next bus), tb_color := tb_color bus @ [(tb_next bus, component)]\<rparr>, tb_next bus)"

definition unsubscribeThemeColor :: "nat \<Rightarrow> theme_bus \<Rightarrow> theme_bus" where
  "unsubscribeThemeColor token bus = bus\<lparr>tb_color := filter (\<lambda>l. fst l \<noteq> token) (tb_color bus)\<rparr>"

text \<open>The components that an event reaches, in order.\<close>

definition theme_heard :: "theme_bus \<Rightarrow> nat list" where
  "theme_heard bus = map snd (tb_theme bus)"

definition fresh_tokens :: "theme_bus \<Rightarrow> bool" where
  "fresh_tokens bus \<longleftrightarrow> list_all (\<lambda>l. fst l < tb_next bus) (tb_theme bus @ tb_color bus)
     \<and> list_all (\<lambda>t. t < tb_next bus) (tb_media bus)"

lemma fresh_subscribe: "fresh_tokens bus \<Longrightarrow> fresh_tokens (fst (subscribeTheme k bus)) \<and> fresh_tokens (fst (subscribeThemeColor k bus))"
  by (auto simp: fresh_tokens_def subscribeTheme_def subscribeThemeColor_def list_all_iff less_Suc_eq)

text \<open>
  Mounting and unmounting a component leaves the other listeners as they were, also in the double
  run of effects by which the strict mode tests them: afterwards the component is heard once.
\<close>

lemma unsubscribed_restores:
  assumes "fresh_tokens bus" "subscribeTheme k bus = (bus', token)"
  shows "unsubscribeTheme token bus' = bus\<lparr>tb_next := Suc (tb_next bus)\<rparr>"
proof -
  have "\<forall>l \<in> set (tb_theme bus). fst l \<noteq> tb_next bus" "\<forall>l \<in> set (tb_media bus). l \<noteq> tb_next bus"
    using assms(1) less_irrefl unfolding fresh_tokens_def list_all_iff set_append by (metis UnI1)+
  then have "filter (\<lambda>l. fst l \<noteq> tb_next bus) (tb_theme bus) = tb_theme bus"
      "filter (\<lambda>l. l \<noteq> tb_next bus) (tb_media bus) = tb_media bus"
    by (simp_all add: filter_id_conv)
  then show ?thesis using assms(2) by (auto simp: subscribeTheme_def unsubscribeTheme_def)
qed

lemma strict_mode_once:
  assumes "fresh_tokens bus"
  shows "(let (bus1, token) = subscribeTheme k bus; (bus2, token') = subscribeTheme k (unsubscribeTheme token bus1) in
    theme_heard bus2 = theme_heard bus @ [k] \<and> length (tb_media bus2) = Suc (length (tb_media bus)))"
  using unsubscribed_restores[OF assms, of k]
  by (simp add: Let_def split: prod.split) (auto simp: subscribeTheme_def theme_heard_def)

end
