(* ===== verification/BuildConfig.thy ===== *)
theory BuildConfig
  imports ApiCalls
begin

text \<open>
  web/vite.config.ts: which paths the development server hands on to the control plane, and into which
  shared file the build puts a module. The server compares a path with the prefixes and the
  bundler asks the groups in the order of their priority, as both document; the regular expressions
  look for a directory of a package below node_modules.
\<close>

section \<open>The development server\<close>

record proxy_rule =
  px_prefix :: jstr
  px_ws :: bool

definition proxy_rules :: "proxy_rule list" where
  "proxy_rules =
     [\<lparr>px_prefix = js ''/api'', px_ws = True\<rparr>, \<lparr>px_prefix = js ''/health'', px_ws = False\<rparr>,
      \<lparr>px_prefix = js ''/sub'', px_ws = False\<rparr>, \<lparr>px_prefix = js ''/rot'', px_ws = False\<rparr>]"

text \<open>\<open>env.VITE_BACKEND_TARGET || "http://127.0.0.1:19090"\<close>\<close>

definition backend_target :: "jstr option \<Rightarrow> jstr" where
  "backend_target env = or_default (Option.bind env nonempty) (js ''http://127.0.0.1:19090'')"

definition proxied :: "jstr \<Rightarrow> proxy_rule option" where
  "proxied path = find (\<lambda>r. prefix (px_prefix r) path) proxy_rules"

text \<open>Where a request goes: to the backend, or None for the page of the application.\<close>

definition dev_target :: "jstr option \<Rightarrow> bool \<Rightarrow> jstr \<Rightarrow> jstr option" where
  "dev_target env upgrade path =
     (case proxied path of
        Some r \<Rightarrow> if upgrade \<and> \<not> px_ws r then None else Some (backend_target env @ path)
      | None \<Rightarrow> None)"

lemma api_proxied: "prefix (js ''/api'') path \<Longrightarrow> proxied path = Some \<lparr>px_prefix = js ''/api'', px_ws = True\<rparr>"
  by (simp add: proxied_def proxy_rules_def)

text \<open>
  Every request of the client for an item, whatever its identifier, reaches the control plane, and so
  does the terminal's socket, which needs the upgrade.
\<close>

lemma item_requests_reach_backend:
  "item_path (''/api/v1/'' @ collection) i rest = Some path \<Longrightarrow> dev_target env upgrade path = Some (backend_target env @ path)"
proof -
  assume "item_path (''/api/v1/'' @ collection) i rest = Some path"
  then have "prefix (js ''/api'') path" by (auto simp: item_path_def js_def)
  then show ?thesis by (simp add: dev_target_def api_proxied)
qed

lemma terminal_socket_reaches_backend:
  "dev_target env True (js ''/api/v1/terminal/ws'' @ query) = Some (backend_target env @ js ''/api/v1/terminal/ws'' @ query)"
  by (simp add: dev_target_def api_proxied js_def)

lemma subscription_links_reach_backend:
  "dev_target env False (js ''/sub/'' @ token) = Some (backend_target env @ js ''/sub/'' @ token)"
  "dev_target env False (js ''/rot/'' @ token) = Some (backend_target env @ js ''/rot/'' @ token)"
  by (simp_all add: dev_target_def proxied_def proxy_rules_def js_def)

text \<open>The other two public addresses of the control plane are answered with the page of the application.\<close>

lemma public_addresses_missing:
  "dev_target env upgrade (js ''/nodes/'' @ token) = None" "dev_target env upgrade (js ''/ctl/'' @ token) = None"
  by (simp_all add: dev_target_def proxied_def proxy_rules_def js_def)

section \<open>Shared files of the build\<close>

datatype chunk_group = VendorReact | VendorRadix | VendorIcons | Vendor

definition chunk_priority :: "chunk_group \<Rightarrow> nat" where
  "chunk_priority g = (case g of VendorReact \<Rightarrow> 30 | VendorRadix \<Rightarrow> 20 | VendorIcons \<Rightarrow> 20 | Vendor \<Rightarrow> 1)"

text \<open>\<open>/node_modules[\\/](a|b)[\\/]/\<close>: a directory of one of the packages, with either separator.\<close>

definition in_package :: "string list \<Rightarrow> jstr \<Rightarrow> bool" where
  "in_package packages i \<longleftrightarrow>
     list_ex (\<lambda>p. list_ex (\<lambda>(a, b). str_includes i (js ''node_modules'' @ [a] @ js p @ [b]))
       [(47, 47), (47, 92), (92, 47), (92, 92)]) packages"

fun in_group :: "chunk_group \<Rightarrow> jstr \<Rightarrow> bool" where
  "in_group VendorReact i = in_package [''react'', ''react-dom'', ''scheduler''] i"
| "in_group VendorRadix i = in_package [''@radix-ui'', ''@floating-ui'', ''aria-hidden'', ''react-remove-scroll'',
     ''react-remove-scroll-bar'', ''react-style-singleton'', ''use-callback-ref'', ''use-sidecar'', ''get-nonce'',
     ''detect-node-es''] i"
| "in_group VendorIcons i = in_package [''lucide-react''] i"
| "in_group Vendor i = (str_includes i (js ''node_modules'') \<and> \<not> str_includes i (js ''xterm''))"

definition chunk_groups :: "chunk_group list" where
  "chunk_groups = [VendorReact, VendorRadix, VendorIcons, Vendor]"

definition group_of_module :: "jstr \<Rightarrow> chunk_group option" where
  "group_of_module i = find (\<lambda>g. in_group g i) (sort_cmp (\<lambda>g h. int (chunk_priority h) - int (chunk_priority g)) chunk_groups)"

lemma groups_sorted: "group_of_module i = find (\<lambda>g. in_group g i) chunk_groups"
  by (simp add: group_of_module_def chunk_groups_def chunk_priority_def)

text \<open>Code of the repository is in no shared file; a package always is, except for the terminal's.\<close>

lemma own_code_not_shared: "\<not> str_includes i (js ''node_modules'') \<Longrightarrow> group_of_module i = None"
proof -
  assume i: "\<not> str_includes i (js ''node_modules'')"
  then have "\<not> str_includes i (js ''node_modules'' @ r)" for r
    by (auto simp: str_includes_iff)
  then have "\<not> in_package ps i" for ps by (auto simp: in_package_def list_ex_iff)
  then show ?thesis using i by (simp add: groups_sorted chunk_groups_def)
qed

lemma packages_shared:
  "str_includes i (js ''node_modules'') \<Longrightarrow> \<not> str_includes i (js ''xterm'') \<Longrightarrow> group_of_module i \<noteq> None"
  by (simp add: groups_sorted chunk_groups_def)

lemma terminal_not_shared:
  "str_includes i (js ''xterm'') \<Longrightarrow> group_of_module i \<noteq> Some Vendor"
  by (auto simp: groups_sorted chunk_groups_def split: if_splits)

lemma terminal_module: "group_of_module (js ''/w/node_modules/@xterm/xterm/lib/xterm.mjs'') = None"
  by (simp add: groups_sorted chunk_groups_def in_package_def js_def)

end
