(* ===== verification/Spec2Isabelle.thy ===== *)
theory Spec2Isabelle
  imports
    NodeStream TerminalView FileView NodesView EditService OverviewChart AppShell ResidentialPage PanelViews
    SettingsPage Subscriptions AlertsPage ArtifactsPage AboutPage Fleet FileIcons Theme
    NotesArchive NotesCitations NotesInstall NotesInbound ContractCheck
    SubscriptionView AlertsView FleetView ShellView ArtifactsView AboutView BrandColor BuildConfig
begin

text \<open>
  \<^bold>\<open>HX-ProxyGroup: the web front end and the note tooling.\<close> HX-ProxyGroup manages proxy subscriptions, nodes, proxy services,
  residential proxies and a browser terminal. A control plane in Go serves an HTTP API; the
  program verified here is its TypeScript client under web/src: the API client (lib/api.ts,
  lib/types.ts), the shell path helpers (lib/terminal-cwd.ts), the application shell (App.tsx) and
  the pages (pages/, components/). Each page keeps a React state, calls the API and is driven by
  events: user actions, answers, timers, sockets and server-sent events. The second program is the
  tooling for decision records under .agents/skills/hx-agent-notes/scripts: a shared module
  (notes-lib.ts), gates over the tree of notes, their format, the archive, changes and citations, and
  the scripts that create, archive and present notes. It works on files: a directory is the list of
  its entries, git and the SHA-256 digest are parameters. A third, small program is the gate of the
  consumer contract (scripts/verify-consumer-contract.ts), which compares three files.

  \<^bold>\<open>How code becomes a model.\<close> A string is its list of UTF-16 code units (\<open>jstr\<close>), a number an \<open>int\<close>
  (a \<open>rat\<close> for percentages, a \<open>jnum\<close> where NaN matters), an optional field an \<open>option\<close>, an interface a
  record, a union of literals a datatype. Fixed texts in Chinese are constructors of a notice type
  or, where they are computed with, their code units. The states and refs of a component are one
  record; a handler is a function on it. A handler that waits for an answer is split at the
  \<open>await\<close>: one definition up to the request, one from the answer on; code between two waits runs
  without interruption, as it does in JavaScript. Requests that run one after another are listed
  against a function that tells which of them fail. Timers, sockets and promises that outlive
  their owner are events with a token. What the code asks of the browser and of the libraries is a
  parameter: \<open>localeCompare\<close>, \<open>toLowerCase\<close>, \<open>Date.parse\<close>, random numbers, clocks, text decoding,
  clipboard, the network and the server.

  \<^bold>\<open>Theories.\<close>

  \<^item> Prelude: strings, trimming, splitting, numerals, lists as sets and maps, the stable sort, and the
    interfaces (locales) \<open>comparator\<close>, \<open>signed_comparator\<close>, \<open>bounded_history\<close>, \<open>numbered_name\<close> and
    \<open>guarded_callback\<close>. Uri: percent encoding with the interface \<open>segment_codec\<close> of path segments.
    Clock: ISO dates. Numbers: \<open>Number(text)\<close>. Format: \<open>toFixed\<close>, byte sizes and rates (lib/utils.ts).
  \<^item> Types: every type of lib/types.ts and the types of lib/api.ts. Api: \<open>request\<close> with the CSRF token and
    the unauthenticated handler (\<open>send\<close>, \<open>settle\<close>). ApiCalls: every method of the \<open>api\<close> object.
    NodeStream: the line stream \<open>streamNodeChecks\<close>.
  \<^item> TerminalCwd: path normalisation, shell quoting, OSC 7 and the scanner. TerminalPage: the terminal
    page as a step relation over pages with numbered sockets; TerminalView: its screen and unlock
    prompt. FilePanel: its file browser; FileView: what the browser shows, and its requests in flight
    while the directory changes.
  \<^item> Nodes: pages/nodes-page.tsx; NodesView: its filters, loads, groups and rows, and
    pages/inventory-page.tsx. Routing: pages/routing-page.tsx and components/edit-proxy-service-form.tsx;
    ServiceRow: the rows, their tabs and copies, the routing panel and the controls of the create form;
    EditService: the controls of the edit form. OverviewPage: pages/overview-page.tsx, on top of
    both; OverviewChart: its charts and figures. Residential: the forms of pages/residential-page.tsx;
    ResidentialPage: the page, its dialogs and the session dialog with their requests in flight.
  \<^item> Rules: pages/rules-page.tsx. SettingsPage: pages/settings-page.tsx with its tabs, requests and busy
    marks. Theme: lib/theme.ts, its callers and the appearance tab of the settings. Monitors: the
    monitoring panels, PanelViews: what they show, and the traffic panel. AppShell: App.tsx with the
    screen that it shows, and pages/auth-page.tsx.
  \<^item> Tasks: operations under way, as lists that events take from, and the keys they hold; used by
    Subscriptions (pages/subscriptions-page.tsx and components/create-subscription-form.tsx),
    SettingsPage, ResidentialPage, PanelViews and FileView. AlertsPage, ArtifactsPage
    (pages/artifacts-page.tsx), AboutPage, Fleet (components/cf-account-group.tsx), FileIcons
    (components/terminal/file-icons.tsx).
  \<^item> Glob: \<open>globToRegExp\<close> of notes-lib.ts as a matcher. NotesLib: configuration, file trees, \<open>walkNotes\<close>,
    links and command lines. NotesScope: \<open>loadNotes\<close> and paths. NotesArchive: the manifest,
    seal-archive.ts and archive-note.ts. NotesFormat: verify-format.ts and new-note.ts. NotesGates:
    verify-coverage.ts, verify-tree.ts and verify-all.ts. NotesCitations: verify-backlinks.ts and
    build-board.ts, with the interface \<open>bounded_matcher\<close> between expressions and the scan of a line.
    NotesInstall: init-agent-notes.ts. NotesInbound: the references to a note that archive-note.ts
    prints. ContractCheck: scripts/verify-consumer-contract.ts.
  \<^item> What the pages show: Views (dates, labels of strategies, badges, site icons, the dialog before a
    deletion), SubscriptionView, AlertsView and AboutView (these two with their requests in flight),
    FleetView, ArtifactsView, ShellView (side bar, notices, loaders of the pages, the login form).
    BrandColor: the text on a brand colour and the theme subscriptions. BuildConfig: vite.config.ts.

  \<^bold>\<open>Interfaces and their instances.\<close> \<open>comparator\<close> and \<open>signed_comparator\<close> promise the laws under which a sort
    gives a sorted, stable permutation; they are interpreted for strings, for the node comparison and
    for sample times. \<open>guarded_callback\<close> promises that a callback with an outdated token changes nothing;
    it is interpreted for sockets (TerminalPage), directory loads (FilePanel) and notice timers
    (AppShell). \<open>bounded_history\<close> promises that a push keeps the newest values; it is interpreted for both
    sample histories and the log panel (Monitors). \<open>numbered_name\<close> promises distinct names and gives
    termination of the search for a free one; it is interpreted for rule sets (Rules) and health
    targets (SettingsPage). \<open>segment_codec\<close> is interpreted for encodeURIComponent (Uri). \<open>marked_scan\<close> promises that text before a
  declaration does not hide it; it is interpreted for the three kinds of declarations that the contract
  gate reads (ContractCheck), \<open>bounded_matcher\<close> for the citations of notes (NotesCitations).

  \<^bold>\<open>What the theorems show.\<close>

  \<^item> Terminal: at most one live socket and it is the owned one, in every reachable page; outdated sockets
    do nothing; close codes and back-off; no keystroke is lost; the panel's \<open>cd\<close> is read back by a shell
    as the chosen path; and three defects: the page that stays stranded after a skipped reconnect, the
    terminal left in a removed surface, the ignored split introducer (the last two as lemmas).
  \<^item> Paths: normalisation is idempotent, parents and children agree, quoting is inverted by a model of
    POSIX word reading, reports are decoded, the scanner is independent of chunk boundaries.
  \<^item> API: which requests carry the token, how every response settles, requests for an item stay within
    its collection whatever its identifier, the token is the one of the last login, the line stream
    is independent of chunk boundaries.
  \<^item> File panel: the latest load wins and always settles; paths of entries have the directory as parent;
    a loading mark always has a request behind it. A lemma shows the reload that leaves the listing of
    one directory under the path of another.
  \<^item> Nodes: the sort, batch selection, completeness of the groups; the list belongs to the present filter
    when answers come in order, and a lemma shows that it need not otherwise.
  \<^item> Proxy services: saving a group's routing changes only that group; unchanged forms round trip; the
    members of a service; every request of the create and edit forms is checked, whatever is typed and
    clicked and however often the service is reloaded; a removal that fails half-way.
  \<^item> Overview: the sample window; the overview agrees with the routing page on what applies to a group;
    a sliding chart lands on its new window, and its points stay inside the plot.
  \<^item> Residential: the provider form round trips and replaces no secret; what the channel form sends; an
    open dialog is busy exactly while its own request is under way.
  \<^item> Shell and settings: signing out stays signed out; fresh identifiers are found; every settings
    request in flight carries checked data and its busy mark; the settings shown change only by the
    edit of the shown tab or an answer; themes and colours are read back as they were set.
  \<^item> Panels: the log panel keeps the latest events; gauges, bars and lines stay in range.
  \<^item> Subscriptions: the page refines an abstract board on which every operation is idle, working or
    reloading; a control is busy exactly while its operation is; every source that the form can send
    is well typed; the nodes of a subscription are exactly those that name it.
  \<^item> Alerts, backups, updates, fleet, icons: recipients round trip; the reload after an update happens
    exactly at the first answer after an outage; lemmas show the outdated list, the busy mark cleared
    early and the icons that are never found.
  \<^item> Notes: globs agree with matching by segments; discovery stays in the work tree; sealing is exact,
    append-only and settled; an archived note verifies; a note made by the generator satisfies the
    structure, format and coverage gates, and a citation of it is seen; the installer is idempotent. Lemmas show the defects: a
    seal written in spite of the refusal, the note that is not stamped, the exemption that is dropped,
    the title that is replaced, the unchecked date. Every citation that archiving breaks is printed.
  \<^item> Contract gate: it exits with 0 exactly when the documents mention every declared value. Lemmas
    show what it does not see: values that only the documents still have, and parts of words.
  \<^item> Views: the buttons of a page are on exactly when pressing them does something; one update at a
    time; the mail card is busy exactly while it waits; the text on any brand colour is readable.

  \<^bold>\<open>Bounds and termination.\<close> There is no fuel: loops are structural recursions, functions with a measure
  (\<open>split_runs\<close>, the scanners) or, where the code's loop has no evident bound (\<open>first_free\<close>), partial functions
  whose None stands for a loop that does not end; termination of the latter is proved. Histories are bounded as in
  the code: 120 samples, 200 log events, 4096 code units of scanner buffer; so are the waits and searches
  with a limit: 90 attempts after an update, 64 levels for the work tree, 12 for a configuration. The
  expressions of the note tooling, its links and its stack of directories are functions with a measure.

  \<^bold>\<open>Not modelled.\<close> The Go server; markup, class names and the wrappers of third-party components;
  the localized text of dates and times (a parameter, or left out); tests; the texts of the installed
  contracts and most printed messages (constructors stand for them). A port is a whole number;
  rounding of doubles is not modelled anywhere.
\<close>

end
